(* ===== verification/Prelude.thy ===== *)
theory Prelude
  imports Main "HOL-Library.Word" "HOL-Library.AList" "HOL-Library.Multiset"
begin

text \<open>
  The vocabulary every component shares: fixed-width integers, byte strings, the tables that
  stand for the hash maps of the code, sorting by a comparator, and the saturating
  subtraction the accounting uses, each with the lemmas the component theories rest on.
\<close>

section \<open>Types\<close>

type_synonym u8 = "8 word"
type_synonym u16 = "16 word"
type_synonym u32 = "32 word"
type_synonym u64 = "64 word"

text \<open>A \<open>std::string\<close> or a \<open>ByteBuffer\<close> is the list of its bytes.\<close>

type_synonym bytes = "u8 list"

text \<open>
  A \<open>std::unordered_map\<close> is an association list with one entry per key: the order of the
  list stands for the iteration order of the container, which the code does not control.
\<close>

type_synonym ('k, 'v) table = "('k \<times> 'v) list"

named_theorems table_simps \<open>lookup, update and deletion in a table\<close>
named_theorems word_nat \<open>words read as naturals\<close>

section \<open>Tables\<close>

definition keys :: "('k, 'v) table \<Rightarrow> 'k list" where
  "keys t = map fst t"

definition wf_table :: "('k, 'v) table \<Rightarrow> bool" where
  "wf_table t \<longleftrightarrow> distinct (keys t)"

definition has_key :: "('k, 'v) table \<Rightarrow> 'k \<Rightarrow> bool" where
  "has_key t k \<longleftrightarrow> map_of t k \<noteq> None"

definition put :: "'k \<Rightarrow> 'v \<Rightarrow> ('k, 'v) table \<Rightarrow> ('k, 'v) table" where
  "put k v t = AList.update k v t"

definition del :: "'k \<Rightarrow> ('k, 'v) table \<Rightarrow> ('k, 'v) table" where
  "del k t = AList.delete k t"

text \<open>\<open>emplace\<close> leaves an entry that is already there alone.\<close>

definition emplace :: "'k \<Rightarrow> 'v \<Rightarrow> ('k, 'v) table \<Rightarrow> ('k, 'v) table" where
  "emplace k v t = (if has_key t k then t else put k v t)"

text \<open>\<open>m[k]\<close> on a map of numbers: an absent key reads as zero.\<close>

definition get0 :: "('k, 'v::zero) table \<Rightarrow> 'k \<Rightarrow> 'v" where
  "get0 t k = (case map_of t k of None \<Rightarrow> 0 | Some v \<Rightarrow> v)"

text \<open>Every value is rewritten in place; keys and order stay.\<close>

definition map_vals :: "('v \<Rightarrow> 'w) \<Rightarrow> ('k, 'v) table \<Rightarrow> ('k, 'w) table" where
  "map_vals f t = map (\<lambda>(k, v). (k, f v)) t"

lemma map_of_put [table_simps, simp]: "map_of (put k v t) = (map_of t)(k \<mapsto> v)"
  by (simp add: put_def update_conv')

lemma map_of_del [table_simps, simp]: "map_of (del k t) = (map_of t)(k := None)"
  by (simp add: del_def delete_conv')

lemma map_of_map_vals [table_simps, simp]:
  "map_of (map_vals f t) k = map_option f (map_of t k)"
  by (induction t) (auto simp: map_vals_def)

lemma keys_map_vals [simp]: "keys (map_vals f t) = keys t"
  by (induction t) (auto simp: keys_def map_vals_def)

lemma length_map_vals [simp]: "length (map_vals f t) = length t"
  by (simp add: map_vals_def)

lemma wf_map_vals [simp]: "wf_table (map_vals f t) = wf_table t"
  by (simp add: wf_table_def)

lemma wf_table_Nil [simp]: "wf_table []"
  by (simp add: wf_table_def keys_def)

lemma wf_put [simp, intro]: "wf_table t \<Longrightarrow> wf_table (put k v t)"
  by (simp add: wf_table_def keys_def put_def distinct_update)

lemma wf_del [simp, intro]: "wf_table t \<Longrightarrow> wf_table (del k t)"
  by (simp add: wf_table_def keys_def del_def distinct_delete)

lemma wf_emplace [simp, intro]: "wf_table t \<Longrightarrow> wf_table (emplace k v t)"
  by (simp add: emplace_def)

lemma map_of_emplace: "\<not> has_key t k \<Longrightarrow> map_of (emplace k v t) = (map_of t)(k \<mapsto> v)"
  by (simp add: emplace_def)

lemma set_table: "wf_table t \<Longrightarrow> (k, v) \<in> set t \<longleftrightarrow> map_of t k = Some v"
  by (simp add: wf_table_def keys_def)

lemma set_keys: "k \<in> set (keys t) \<longleftrightarrow> has_key t k"
  by (auto simp: keys_def has_key_def map_of_eq_None_iff)

lemma has_key_put [simp]: "has_key (put k v t) k' \<longleftrightarrow> k' = k \<or> has_key t k'"
  by (simp add: has_key_def)

lemma has_key_del [simp]: "has_key (del k t) k' \<longleftrightarrow> k' \<noteq> k \<and> has_key t k'"
  by (simp add: has_key_def)

lemma has_key_Nil [simp]: "\<not> has_key [] k"
  by (simp add: has_key_def)

lemma has_keyI: "map_of t k = Some v \<Longrightarrow> has_key t k"
  by (simp add: has_key_def)

lemma put_fresh: "\<not> has_key t k \<Longrightarrow> put k v t = t @ [(k, v)]"
  by (induction t) (auto simp: put_def has_key_def split: if_splits)

lemma length_put: "length (put k v t) = (if has_key t k then length t else Suc (length t))"
  by (induction t) (auto simp: put_def has_key_def split: if_splits)

lemma del_eq_filter: "del k t = filter (\<lambda>e. fst e \<noteq> k) t"
  by (induction t) (auto simp: del_def)

lemma del_absent: "\<not> has_key t k \<Longrightarrow> del k t = t"
  by (simp add: del_eq_filter set_keys [symmetric] keys_def) (metis (mono_tags) filter_True image_eqI)

lemma length_del_le: "length (del k t) \<le> length t"
  by (simp add: del_eq_filter)

lemma length_del:
  assumes "wf_table t" and "has_key t k"
  shows "Suc (length (del k t)) = length t"
  using assms
proof (induction t)
  case Nil
  then show ?case by simp
next
  case (Cons e t)
  obtain k' v' where e: "e = (k', v')" by (cases e)
  show ?case
  proof (cases "k' = k")
    case True
    with Cons.prems e have "\<not> has_key t k"
      by (simp add: wf_table_def keys_def has_key_def map_of_eq_None_iff)
    then have "del k t = t" by (rule del_absent)
    with True e show ?thesis by (simp add: del_def)
  next
    case False
    with Cons.prems e have "wf_table t" and "has_key t k"
      by (auto simp: wf_table_def keys_def has_key_def)
    with Cons.IH False e show ?thesis by (simp add: del_def)
  qed
qed

lemma get0_put [simp]: "get0 (put k v t) k' = (if k' = k then v else get0 t k')"
  by (simp add: get0_def)

lemma get0_Nil [simp]: "get0 [] k = 0"
  by (simp add: get0_def)

section \<open>Sums over a table\<close>

text \<open>The total of a natural weight over the values that satisfy a selection.\<close>

definition tally :: "('v \<Rightarrow> bool) \<Rightarrow> ('v \<Rightarrow> nat) \<Rightarrow> ('k, 'v) table \<Rightarrow> nat" where
  "tally p w t = sum_list (map (w \<circ> snd) (filter (p \<circ> snd) t))"

lemma tally_Nil [simp]: "tally p w [] = 0"
  by (simp add: tally_def)

lemma tally_Cons:
  "tally p w (e # t) = (if p (snd e) then w (snd e) else 0) + tally p w t"
  by (simp add: tally_def)

lemma tally_append: "tally p w (s @ t) = tally p w s + tally p w t"
  by (simp add: tally_def)

lemma tally_put_fresh:
  "\<not> has_key t k \<Longrightarrow> tally p w (put k v t) = tally p w t + (if p v then w v else 0)"
  by (simp add: put_fresh tally_append tally_Cons)

lemma tally_del:
  assumes "wf_table t" and "map_of t k = Some v"
  shows "tally p w (del k t) + (if p v then w v else 0) = tally p w t"
  using assms
proof (induction t)
  case Nil
  then show ?case by simp
next
  case (Cons e t)
  obtain k' v' where e: "e = (k', v')" by (cases e)
  show ?case
  proof (cases "k' = k")
    case True
    with Cons.prems e have "\<not> has_key t k"
      by (simp add: wf_table_def keys_def has_key_def map_of_eq_None_iff)
    then have "del k t = t" by (rule del_absent)
    with True e Cons.prems show ?thesis by (simp add: del_def tally_Cons)
  next
    case False
    with Cons.prems e have "wf_table t" and "map_of t k = Some v"
      by (auto simp: wf_table_def keys_def)
    with Cons.IH False e show ?thesis by (simp add: del_def tally_Cons)
  qed
qed

lemma tally_del_le: "tally p w (del k t) \<le> tally p w t"
  by (induction t) (auto simp: del_def tally_Cons)

text \<open>Replacing a value: what it weighed is taken out, what it weighs now is put in.\<close>

lemma tally_put:
  assumes "wf_table t" and "map_of t k = Some v"
  shows "tally p w (put k v' t) + (if p v then w v else 0)
       = tally p w t + (if p v' then w v' else 0)"
  using assms
proof (induction t)
  case Nil
  then show ?case by simp
next
  case (Cons e t)
  obtain k' u where e: "e = (k', u)" by (cases e)
  show ?case
  proof (cases "k' = k")
    case True
    with e Cons.prems show ?thesis by (simp add: put_def tally_Cons)
  next
    case False
    with Cons.prems e have "wf_table t" and "map_of t k = Some v"
      by (auto simp: wf_table_def keys_def)
    with Cons.IH False e show ?thesis by (simp add: put_def tally_Cons)
  qed
qed

lemma tally_le_length:
  assumes "\<And>k v. (k, v) \<in> set t \<Longrightarrow> w v \<le> b"
  shows "tally p w t \<le> length t * b"
  using assms
proof (induction t)
  case Nil
  then show ?case by simp
next
  case (Cons e t)
  then have "tally p w t \<le> length t * b" by (metis list.set_intros(2))
  moreover have "w (snd e) \<le> b" using Cons.prems [of "fst e" "snd e"] by simp
  ultimately show ?case by (simp add: tally_Cons)
qed

lemma tally_mem_le:
  assumes "map_of t k = Some v" and "p v"
  shows "w v \<le> tally p w t"
  using assms by (induction t) (auto simp: tally_Cons split: if_splits)

lemma tally_mono_sel:
  assumes "\<And>v. p v \<Longrightarrow> q v"
  shows "tally p w t \<le> tally q w t"
  using assms by (induction t) (auto simp: tally_Cons)

lemma tally_count: "tally (\<lambda>_. True) (\<lambda>_. 1) t = length t"
  by (induction t) (auto simp: tally_Cons)

lemma tally_cong:
  assumes "\<And>k v. (k, v) \<in> set t \<Longrightarrow> p v = q v \<and> (p v \<longrightarrow> w v = u v)"
  shows "tally p w t = tally q u t"
  using assms
proof (induction t)
  case Nil
  then show ?case by simp
next
  case (Cons e t)
  have "tally p w t = tally q u t" using Cons.prems by (intro Cons.IH) auto
  moreover have "p (snd e) = q (snd e) \<and> (p (snd e) \<longrightarrow> w (snd e) = u (snd e))"
    using Cons.prems [of "fst e" "snd e"] by simp
  ultimately show ?case by (simp add: tally_Cons)
qed

lemma tally_perm: "mset s = mset t \<Longrightarrow> tally p w s = tally p w t"
  unfolding tally_def sum_mset_sum_list [symmetric] mset_map mset_filter by simp

section \<open>Words as naturals\<close>

text \<open>The guarded subtraction \<open>a >= b ? a - b : 0\<close> of the accounting code.\<close>

definition sat_sub :: "'a::len word \<Rightarrow> 'a word \<Rightarrow> 'a word" where
  "sat_sub a b = (if b \<le> a then a - b else 0)"

lemma unat_sat_sub [simp]: "unat (sat_sub a b) = unat a - unat b"
  by (simp add: sat_sub_def unat_sub word_le_nat_alt)

lemma unat_plus [word_nat]:
  fixes a b :: "'a::len word"
  shows "unat a + unat b < 2 ^ LENGTH('a) \<Longrightarrow> unat (a + b) = unat a + unat b"
  by (rule unat_add_lem [THEN iffD1])

lemma unat_plus64 [word_nat]:
  fixes a b :: u64
  shows "unat a + unat b < 18446744073709551616 \<Longrightarrow> unat (a + b) = unat a + unat b"
  using unat_plus [of a b] by simp

lemma unat_Suc32 [word_nat]:
  fixes a :: u32
  shows "unat a + 1 < 4294967296 \<Longrightarrow> unat (a + 1) = unat a + 1"
  using unat_plus [of a 1] by simp

lemma unat_Suc64 [word_nat]:
  fixes a :: u64
  shows "unat a + 1 < 18446744073709551616 \<Longrightarrow> unat (a + 1) = unat a + 1"
  using unat_plus [of a 1] by simp

lemma unat_max64: "unat (a :: u64) \<le> 18446744073709551615"
  using unsigned_less [of a, where 'a = nat] by simp

lemma numeral_le_1_word [simp]:
  "(numeral k :: 'a::len word) \<le> 1 \<longleftrightarrow> unat (numeral k :: 'a word) \<le> 1"
  by (simp add: word_le_nat_alt)

lemma unat_min [word_nat]: "unat (min a b :: 'a::len word) = min (unat a) (unat b)"
  by (simp add: min_def word_le_nat_alt)

lemma unat_max [word_nat]: "unat (max a b :: 'a::len word) = max (unat a) (unat b)"
  by (simp add: max_def word_le_nat_alt)

section \<open>Sorting by a comparator\<close>

text \<open>
  \<open>std::sort(first, last, comp)\<close>. The comparators of the code are strict total orders on
  the elements they are given, so the result does not depend on the algorithm.
\<close>

primrec insort_by :: "('a \<Rightarrow> 'a \<Rightarrow> bool) \<Rightarrow> 'a \<Rightarrow> 'a list \<Rightarrow> 'a list" where
  "insort_by lt x [] = [x]"
| "insort_by lt x (y # ys) = (if lt y x then y # insort_by lt x ys else x # y # ys)"

primrec std_sort :: "('a \<Rightarrow> 'a \<Rightarrow> bool) \<Rightarrow> 'a list \<Rightarrow> 'a list" where
  "std_sort lt [] = []"
| "std_sort lt (x # xs) = insort_by lt x (std_sort lt xs)"

lemma mset_insort_by: "mset (insort_by lt x xs) = add_mset x (mset xs)"
  by (induction xs) auto

lemma mset_std_sort [simp]: "mset (std_sort lt xs) = mset xs"
  by (induction xs) (auto simp: mset_insort_by)

lemma set_std_sort [simp]: "set (std_sort lt xs) = set xs"
  by (metis mset_std_sort set_mset_mset)

lemma length_std_sort [simp]: "length (std_sort lt xs) = length xs"
  by (metis mset_std_sort size_mset)

lemma distinct_std_sort [simp]: "distinct (std_sort lt xs) = distinct xs"
  by (metis mset_std_sort mset_eq_imp_distinct_iff)

text \<open>What the sort promises for a strict total order: an ascending list, hence one result.\<close>

definition strict_total_on :: "'a set \<Rightarrow> ('a \<Rightarrow> 'a \<Rightarrow> bool) \<Rightarrow> bool" where
  "strict_total_on A lt \<longleftrightarrow>
     (\<forall>x\<in>A. \<not> lt x x) \<and>
     (\<forall>x\<in>A. \<forall>y\<in>A. \<forall>z\<in>A. lt x y \<longrightarrow> lt y z \<longrightarrow> lt x z) \<and>
     (\<forall>x\<in>A. \<forall>y\<in>A. x \<noteq> y \<longrightarrow> lt x y \<or> lt y x)"

lemma strict_total_on_less: "strict_total_on A ((<) :: 'a::linorder \<Rightarrow> 'a \<Rightarrow> bool)"
  by (auto simp: strict_total_on_def)

lemma set_insort_by: "set (insort_by lt x xs) = insert x (set xs)"
  by (induction xs) auto

lemma strict_total_onD:
  assumes "strict_total_on A lt"
  shows "\<And>x. x \<in> A \<Longrightarrow> \<not> lt x x"
    and "\<And>x y z. x \<in> A \<Longrightarrow> y \<in> A \<Longrightarrow> z \<in> A \<Longrightarrow> lt x y \<Longrightarrow> lt y z \<Longrightarrow> lt x z"
    and "\<And>x y. x \<in> A \<Longrightarrow> y \<in> A \<Longrightarrow> x \<noteq> y \<Longrightarrow> lt x y \<or> lt y x"
  using assms unfolding strict_total_on_def by blast+

lemma sorted_insort_by:
  assumes lt: "strict_total_on A lt" and "x \<in> A" and "set xs \<subseteq> A" and "x \<notin> set xs"
    and "sorted_wrt lt xs"
  shows "sorted_wrt lt (insort_by lt x xs)"
  using assms(2-)
proof (induction xs)
  case Nil
  then show ?case by simp
next
  case (Cons y ys)
  show ?case
  proof (cases "lt y x")
    case True
    with Cons show ?thesis by (simp add: set_insort_by)
  next
    case False
    with Cons.prems have xy: "lt x y" using strict_total_onD(3) [OF lt, of x y] by auto
    have "lt x z" if z: "z \<in> set ys" for z
      using Cons.prems xy z by (intro strict_total_onD(2) [OF lt, of x y z]) auto
    with False xy Cons.prems show ?thesis by simp
  qed
qed

lemma sorted_std_sort_sub:
  assumes "strict_total_on A lt" and "set ys \<subseteq> A" and "distinct ys"
  shows "sorted_wrt lt (std_sort lt ys)"
  using assms(2,3) by (induction ys) (simp_all add: sorted_insort_by [OF assms(1)])

lemma sorted_std_sort:
  assumes "strict_total_on (set xs) lt" and "distinct xs"
  shows "sorted_wrt lt (std_sort lt xs)"
  using sorted_std_sort_sub [OF assms(1) subset_refl assms(2)] .

lemma sorted_wrt_unique:
  assumes lt: "strict_total_on A lt" and "set xs \<subseteq> A" and "sorted_wrt lt xs" and "sorted_wrt lt ys"
    and "mset xs = mset ys"
  shows "xs = ys"
  using assms(2-)
proof (induction xs arbitrary: ys)
  case Nil
  then show ?case by simp
next
  case (Cons x xs)
  then obtain y ys' where ys: "ys = y # ys'" by (cases ys) auto
  have sets: "set (x # xs) = set (y # ys')"
    using Cons.prems(4) ys by (metis set_mset_mset)
  have xA: "x \<in> A" "y \<in> A" using Cons.prems(1) sets by auto
  have "x = y"
  proof (rule ccontr)
    assume ne: "x \<noteq> y"
    with sets have "y \<in> set xs" "x \<in> set ys'" by auto
    with Cons.prems(2,3) ys have "lt x y" "lt y x" by auto
    then have "lt x x" using strict_total_onD(2) [OF lt, of x y x] xA by blast
    then show False using strict_total_onD(1) [OF lt] xA by blast
  qed
  moreover have "xs = ys'"
    using Cons.prems ys \<open>x = y\<close> by (intro Cons.IH) auto
  ultimately show ?case using ys by simp
qed

lemma std_sort_perm:
  assumes lt: "strict_total_on (set xs) lt" and "distinct xs" and "mset xs = mset ys"
  shows "std_sort lt xs = std_sort lt ys"
proof (rule sorted_wrt_unique [OF lt])
  have "set ys = set xs" using assms(3) by (metis set_mset_mset)
  moreover have "distinct ys" using assms(2,3) by (metis mset_eq_imp_distinct_iff)
  ultimately show "sorted_wrt lt (std_sort lt ys)"
    by (intro sorted_std_sort_sub [OF lt]) simp_all
  show "sorted_wrt lt (std_sort lt xs)" by (rule sorted_std_sort [OF lt assms(2)])
qed (use assms(3) in simp_all)

end
