(* ===== verification/Errors.thy ===== *)
theory Errors
  imports Prelude
begin

text \<open>
  \<^verbatim>\<open>include/ttf/error.hpp\<close> and \<^verbatim>\<open>include/ttf/result.hpp\<close>: the deterministic error codes
  and the value-or-error results. \<^verbatim>\<open>enum class ErrorCode : std::uint16_t\<close> holds any
  16-bit value (the decoders cast raw words to it), so a code is a wrapped 16-bit word and
  the enumerators are names of particular words. The detail string of an \<open>Error\<close> is for
  humans and no decision reads it: an error is its code.
\<close>

section \<open>Error codes\<close>

datatype error_code = ErrorCode (error_raw: u16)

abbreviation EC_Ok :: error_code where "EC_Ok \<equiv> ErrorCode 0"
abbreviation EC_InvalidArgument :: error_code where "EC_InvalidArgument \<equiv> ErrorCode 1"
abbreviation EC_OutOfRange :: error_code where "EC_OutOfRange \<equiv> ErrorCode 2"
abbreviation EC_Overflow :: error_code where "EC_Overflow \<equiv> ErrorCode 3"
abbreviation EC_TooLarge :: error_code where "EC_TooLarge \<equiv> ErrorCode 4"
abbreviation EC_InvalidUtf8 :: error_code where "EC_InvalidUtf8 \<equiv> ErrorCode 5"
abbreviation EC_NotFound :: error_code where "EC_NotFound \<equiv> ErrorCode 6"
abbreviation EC_AlreadyExists :: error_code where "EC_AlreadyExists \<equiv> ErrorCode 7"
abbreviation EC_Conflict :: error_code where "EC_Conflict \<equiv> ErrorCode 8"
abbreviation EC_NotSupported :: error_code where "EC_NotSupported \<equiv> ErrorCode 9"
abbreviation EC_Internal :: error_code where "EC_Internal \<equiv> ErrorCode 10"
abbreviation EC_ResourceExhausted :: error_code where "EC_ResourceExhausted \<equiv> ErrorCode 11"
abbreviation EC_Busy :: error_code where "EC_Busy \<equiv> ErrorCode 12"
abbreviation EC_Cancelled :: error_code where "EC_Cancelled \<equiv> ErrorCode 13"
abbreviation EC_NotReady :: error_code where "EC_NotReady \<equiv> ErrorCode 14"
abbreviation EC_NotRegistered :: error_code where "EC_NotRegistered \<equiv> ErrorCode 15"
abbreviation EC_Closed :: error_code where "EC_Closed \<equiv> ErrorCode 16"
abbreviation EC_UnknownJob :: error_code where "EC_UnknownJob \<equiv> ErrorCode 20"
abbreviation EC_UnknownGroup :: error_code where "EC_UnknownGroup \<equiv> ErrorCode 21"
abbreviation EC_UnknownPhase :: error_code where "EC_UnknownPhase \<equiv> ErrorCode 22"
abbreviation EC_UnknownIntent :: error_code where "EC_UnknownIntent \<equiv> ErrorCode 23"
abbreviation EC_UnknownSession :: error_code where "EC_UnknownSession \<equiv> ErrorCode 24"
abbreviation EC_UnknownIncarnation :: error_code where "EC_UnknownIncarnation \<equiv> ErrorCode 25"
abbreviation EC_StaleJobGeneration :: error_code where "EC_StaleJobGeneration \<equiv> ErrorCode 26"
abbreviation EC_StaleStep :: error_code where "EC_StaleStep \<equiv> ErrorCode 27"
abbreviation EC_StalePhase :: error_code where "EC_StalePhase \<equiv> ErrorCode 28"
abbreviation EC_StaleIncarnation :: error_code where "EC_StaleIncarnation \<equiv> ErrorCode 29"
abbreviation EC_StaleEpoch :: error_code where "EC_StaleEpoch \<equiv> ErrorCode 30"
abbreviation EC_StaleContractGeneration :: error_code where "EC_StaleContractGeneration \<equiv> ErrorCode 31"
abbreviation EC_StaleTopologyGeneration :: error_code where "EC_StaleTopologyGeneration \<equiv> ErrorCode 32"
abbreviation EC_StalePolicyGeneration :: error_code where "EC_StalePolicyGeneration \<equiv> ErrorCode 33"
abbreviation EC_StaleBootIdentity :: error_code where "EC_StaleBootIdentity \<equiv> ErrorCode 34"
abbreviation EC_ClassBooting :: error_code where "EC_ClassBooting \<equiv> ErrorCode 35"
abbreviation EC_IncarnationRetired :: error_code where "EC_IncarnationRetired \<equiv> ErrorCode 36"
abbreviation EC_SessionFenced :: error_code where "EC_SessionFenced \<equiv> ErrorCode 37"
abbreviation EC_AuthorityMismatch :: error_code where "EC_AuthorityMismatch \<equiv> ErrorCode 38"
abbreviation EC_ReplayDetected :: error_code where "EC_ReplayDetected \<equiv> ErrorCode 39"
abbreviation EC_SequenceViolation :: error_code where "EC_SequenceViolation \<equiv> ErrorCode 40"
abbreviation EC_JobRetired :: error_code where "EC_JobRetired \<equiv> ErrorCode 41"
abbreviation EC_MissingPolicy :: error_code where "EC_MissingPolicy \<equiv> ErrorCode 50"
abbreviation EC_MissingTopologyEvidence :: error_code where "EC_MissingTopologyEvidence \<equiv> ErrorCode 51"
abbreviation EC_MissingContract :: error_code where "EC_MissingContract \<equiv> ErrorCode 52"
abbreviation EC_NoCapacity :: error_code where "EC_NoCapacity \<equiv> ErrorCode 53"
abbreviation EC_ClassNotPermittedInPhase :: error_code where "EC_ClassNotPermittedInPhase \<equiv> ErrorCode 54"
abbreviation EC_ConservativeUnknownPhase :: error_code where "EC_ConservativeUnknownPhase \<equiv> ErrorCode 55"
abbreviation EC_RateBelowMinimum :: error_code where "EC_RateBelowMinimum \<equiv> ErrorCode 56"
abbreviation EC_RateAboveCeiling :: error_code where "EC_RateAboveCeiling \<equiv> ErrorCode 57"
abbreviation EC_ContractLimitExceeded :: error_code where "EC_ContractLimitExceeded \<equiv> ErrorCode 58"
abbreviation EC_IsolationActive :: error_code where "EC_IsolationActive \<equiv> ErrorCode 59"
abbreviation EC_FlowNotActive :: error_code where "EC_FlowNotActive \<equiv> ErrorCode 60"
abbreviation EC_FlowAlreadyClosed :: error_code where "EC_FlowAlreadyClosed \<equiv> ErrorCode 61"
abbreviation EC_DuplicateIntent :: error_code where "EC_DuplicateIntent \<equiv> ErrorCode 62"
abbreviation EC_StepNotActive :: error_code where "EC_StepNotActive \<equiv> ErrorCode 63"
abbreviation EC_PhaseNotActive :: error_code where "EC_PhaseNotActive \<equiv> ErrorCode 64"
abbreviation EC_StepAlreadyClosed :: error_code where "EC_StepAlreadyClosed \<equiv> ErrorCode 65"
abbreviation EC_PhaseAlreadyClosed :: error_code where "EC_PhaseAlreadyClosed \<equiv> ErrorCode 66"
abbreviation EC_AccountingNotClosed :: error_code where "EC_AccountingNotClosed \<equiv> ErrorCode 67"
abbreviation EC_PolicyRevalidationRequired :: error_code where "EC_PolicyRevalidationRequired \<equiv> ErrorCode 68"
abbreviation EC_PolicyInvalidated :: error_code where "EC_PolicyInvalidated \<equiv> ErrorCode 69"
abbreviation EC_PacingHeld :: error_code where "EC_PacingHeld \<equiv> ErrorCode 70"
abbreviation EC_NoStragglerEvidence :: error_code where "EC_NoStragglerEvidence \<equiv> ErrorCode 71"
abbreviation EC_BurstAlreadyActive :: error_code where "EC_BurstAlreadyActive \<equiv> ErrorCode 72"
abbreviation EC_BurstNotActive :: error_code where "EC_BurstNotActive \<equiv> ErrorCode 73"
abbreviation EC_BadMagic :: error_code where "EC_BadMagic \<equiv> ErrorCode 100"
abbreviation EC_BadVersion :: error_code where "EC_BadVersion \<equiv> ErrorCode 101"
abbreviation EC_BadLength :: error_code where "EC_BadLength \<equiv> ErrorCode 102"
abbreviation EC_BadChecksum :: error_code where "EC_BadChecksum \<equiv> ErrorCode 103"
abbreviation EC_BadEncoding :: error_code where "EC_BadEncoding \<equiv> ErrorCode 104"
abbreviation EC_MissingField :: error_code where "EC_MissingField \<equiv> ErrorCode 105"
abbreviation EC_DuplicateField :: error_code where "EC_DuplicateField \<equiv> ErrorCode 106"
abbreviation EC_UnknownField :: error_code where "EC_UnknownField \<equiv> ErrorCode 107"
abbreviation EC_FieldOrderViolation :: error_code where "EC_FieldOrderViolation \<equiv> ErrorCode 108"
abbreviation EC_TrailingGarbage :: error_code where "EC_TrailingGarbage \<equiv> ErrorCode 109"
abbreviation EC_TooManyFields :: error_code where "EC_TooManyFields \<equiv> ErrorCode 110"
abbreviation EC_Truncated :: error_code where "EC_Truncated \<equiv> ErrorCode 111"
abbreviation EC_UnsupportedMessage :: error_code where "EC_UnsupportedMessage \<equiv> ErrorCode 112"
abbreviation EC_UnexpectedMessage :: error_code where "EC_UnexpectedMessage \<equiv> ErrorCode 113"
abbreviation EC_ProtocolViolation :: error_code where "EC_ProtocolViolation \<equiv> ErrorCode 114"
abbreviation EC_ConnectionClosed :: error_code where "EC_ConnectionClosed \<equiv> ErrorCode 115"
abbreviation EC_IoError :: error_code where "EC_IoError \<equiv> ErrorCode 116"
abbreviation EC_UnsupportedProtocolVersion :: error_code where "EC_UnsupportedProtocolVersion \<equiv> ErrorCode 117"
abbreviation EC_CorruptState :: error_code where "EC_CorruptState \<equiv> ErrorCode 150"
abbreviation EC_IncompatibleState :: error_code where "EC_IncompatibleState \<equiv> ErrorCode 151"
abbreviation EC_PartialState :: error_code where "EC_PartialState \<equiv> ErrorCode 152"
abbreviation EC_StateTooLarge :: error_code where "EC_StateTooLarge \<equiv> ErrorCode 153"

text \<open>The enumerators with their spellings, as \<^verbatim>\<open>to_string(ErrorCode)\<close> gives them.\<close>

definition error_names :: "(u16 \<times> string) list" where
  "error_names = [
     (0, ''Ok''),
     (1, ''InvalidArgument''),
     (2, ''OutOfRange''),
     (3, ''Overflow''),
     (4, ''TooLarge''),
     (5, ''InvalidUtf8''),
     (6, ''NotFound''),
     (7, ''AlreadyExists''),
     (8, ''Conflict''),
     (9, ''NotSupported''),
     (10, ''Internal''),
     (11, ''ResourceExhausted''),
     (12, ''Busy''),
     (13, ''Cancelled''),
     (14, ''NotReady''),
     (15, ''NotRegistered''),
     (16, ''Closed''),
     (20, ''UnknownJob''),
     (21, ''UnknownGroup''),
     (22, ''UnknownPhase''),
     (23, ''UnknownIntent''),
     (24, ''UnknownSession''),
     (25, ''UnknownIncarnation''),
     (26, ''StaleJobGeneration''),
     (27, ''StaleStep''),
     (28, ''StalePhase''),
     (29, ''StaleIncarnation''),
     (30, ''StaleEpoch''),
     (31, ''StaleContractGeneration''),
     (32, ''StaleTopologyGeneration''),
     (33, ''StalePolicyGeneration''),
     (34, ''StaleBootIdentity''),
     (35, ''ClassBooting''),
     (36, ''IncarnationRetired''),
     (37, ''SessionFenced''),
     (38, ''AuthorityMismatch''),
     (39, ''ReplayDetected''),
     (40, ''SequenceViolation''),
     (41, ''JobRetired''),
     (50, ''MissingPolicy''),
     (51, ''MissingTopologyEvidence''),
     (52, ''MissingContract''),
     (53, ''NoCapacity''),
     (54, ''ClassNotPermittedInPhase''),
     (55, ''ConservativeUnknownPhase''),
     (56, ''RateBelowMinimum''),
     (57, ''RateAboveCeiling''),
     (58, ''ContractLimitExceeded''),
     (59, ''IsolationActive''),
     (60, ''FlowNotActive''),
     (61, ''FlowAlreadyClosed''),
     (62, ''DuplicateIntent''),
     (63, ''StepNotActive''),
     (64, ''PhaseNotActive''),
     (65, ''StepAlreadyClosed''),
     (66, ''PhaseAlreadyClosed''),
     (67, ''AccountingNotClosed''),
     (68, ''PolicyRevalidationRequired''),
     (69, ''PolicyInvalidated''),
     (70, ''PacingHeld''),
     (71, ''NoStragglerEvidence''),
     (72, ''BurstAlreadyActive''),
     (73, ''BurstNotActive''),
     (100, ''BadMagic''),
     (101, ''BadVersion''),
     (102, ''BadLength''),
     (103, ''BadChecksum''),
     (104, ''BadEncoding''),
     (105, ''MissingField''),
     (106, ''DuplicateField''),
     (107, ''UnknownField''),
     (108, ''FieldOrderViolation''),
     (109, ''TrailingGarbage''),
     (110, ''TooManyFields''),
     (111, ''Truncated''),
     (112, ''UnsupportedMessage''),
     (113, ''UnexpectedMessage''),
     (114, ''ProtocolViolation''),
     (115, ''ConnectionClosed''),
     (116, ''IoError''),
     (117, ''UnsupportedProtocolVersion''),
     (150, ''CorruptState''),
     (151, ''IncompatibleState''),
     (152, ''PartialState''),
     (153, ''StateTooLarge'')]"

definition error_name :: "error_code \<Rightarrow> string" where
  "error_name code =
     (case map_of error_names (error_raw code) of Some n \<Rightarrow> n | None \<Rightarrow> ''Unspecified'')"

definition is_authority_code :: "error_code \<Rightarrow> bool" where
  "is_authority_code code = (let v = error_raw code in 20 \<le> v \<and> v \<le> 41)"

definition is_protocol_code :: "error_code \<Rightarrow> bool" where
  "is_protocol_code code = (let v = error_raw code in 100 \<le> v \<and> v \<le> 117)"

section \<open>Results\<close>

text \<open>
  \<^verbatim>\<open>Result<T>\<close> holds a value or an error; \<^verbatim>\<open>Status\<close> and \<^verbatim>\<open>Result<void>\<close> hold the unit.
  The macros \<^verbatim>\<open>TTF_TRY\<close>, \<^verbatim>\<open>TTF_TRY_ASSIGN\<close> return the error of a failed expression
  out of the enclosing function: \<open>rbind\<close>.
\<close>

type_synonym 'a result = "error_code + 'a"
type_synonym status = "unit result"

definition rbind :: "'a result \<Rightarrow> ('a \<Rightarrow> 'b result) \<Rightarrow> 'b result" where
  "rbind r f = (case r of Inl e \<Rightarrow> Inl e | Inr x \<Rightarrow> f x)"

text \<open>\<^verbatim>\<open>if (!b) return Error(e);\<close>\<close>

definition check :: "bool \<Rightarrow> error_code \<Rightarrow> status" where
  "check b e = (if b then Inr () else Inl e)"

text \<open>A run of checks in order: the first that fails gives the error.\<close>

fun checks :: "(bool \<times> error_code) list \<Rightarrow> status" where
  "checks [] = Inr ()"
| "checks ((b, e) # cs) = (if b then checks cs else Inl e)"

lemma rbind_simps [simp]:
  "rbind (Inl e) f = Inl e"
  "rbind (Inr x) f = f x"
  by (simp_all add: rbind_def)

lemma rbind_Inr_iff [simp]: "rbind r f = Inr y \<longleftrightarrow> (\<exists>x. r = Inr x \<and> f x = Inr y)"
  by (cases r) simp_all

lemma rbind_Inl_iff: "rbind r f = Inl e \<longleftrightarrow> r = Inl e \<or> (\<exists>x. r = Inr x \<and> f x = Inl e)"
  by (cases r) simp_all

lemma check_simps [simp]:
  "check b e = Inr u \<longleftrightarrow> b"
  "check b e = Inl e' \<longleftrightarrow> \<not> b \<and> e' = e"
  by (auto simp: check_def)

lemma if_Inl_Inr [simp]: "(if b then r else Inl e) = Inr x \<longleftrightarrow> b \<and> r = Inr x"
  by simp

lemma checks_Inr [simp]: "checks cs = Inr u \<longleftrightarrow> (\<forall>(b, e) \<in> set cs. b)"
  by (induction cs rule: checks.induct) auto

lemma checks_Inl: "checks cs = Inl e \<Longrightarrow> \<exists>(b, e') \<in> set cs. \<not> b \<and> e' = e"
  by (induction cs rule: checks.induct) (auto split: if_splits)

end
