(* ===== verification/Util.thy ===== *)
theory Util
  imports Errors
begin

unbundle bit_operations_syntax

text \<open>
  \<^verbatim>\<open>include/ttf/util.hpp\<close> and \<^verbatim>\<open>src/util.cpp\<close>: the hard bounds, checked arithmetic,
  the CRC-32C used for frames and files, text validation, hexadecimal rendering and the
  deterministic generator. The lemmas show that the table-driven checksum is the bitwise
  one, that it detects every corruption confined to one byte, and what the text validator
  accepts.
\<close>

section \<open>Bounds\<close>

definition kMaxPayloadBytes :: nat where "kMaxPayloadBytes = 64 * 1024"
definition kMaxFrameBytes :: nat where "kMaxFrameBytes = kMaxPayloadBytes + 64"
definition kMaxStringBytes :: nat where "kMaxStringBytes = 256"
definition kMaxCollectionItems :: nat where "kMaxCollectionItems = 4096"
definition kMaxFieldsPerMessage :: nat where "kMaxFieldsPerMessage = 48"
definition kMaxSnapshotBytes :: nat where "kMaxSnapshotBytes = 8 * 1024 * 1024"

lemmas bound_defs = kMaxPayloadBytes_def kMaxFrameBytes_def kMaxStringBytes_def
  kMaxCollectionItems_def kMaxFieldsPerMessage_def kMaxSnapshotBytes_def

section \<open>Checked arithmetic\<close>

text \<open>The result is written to the out parameter only where the function returns true.\<close>

definition checked_add :: "u64 \<Rightarrow> u64 \<Rightarrow> u64 option" where
  "checked_add a b = (if a > - 1 - b then None else Some (a + b))"

definition checked_mul :: "u64 \<Rightarrow> u64 \<Rightarrow> u64 option" where
  "checked_mul a b = (if a \<noteq> 0 \<and> b > (- 1) div a then None else Some (a * b))"

text \<open>\<^verbatim>\<open>narrow<T>\<close>, the target given by the width of the result.\<close>

definition narrow :: "u64 \<Rightarrow> 'a::len word result" where
  "narrow value = (if value > ucast (- 1 :: 'a word) then Inl EC_OutOfRange else Inr (ucast value))"

lemma checked_add_Some:
  "checked_add a b = Some c \<longleftrightarrow> unat a + unat b < 2 ^ 64 \<and> c = a + b"
proof -
  have "a > - 1 - b \<longleftrightarrow> 2 ^ 64 \<le> unat a + unat b"
  proof -
    have "unat (- 1 - b) = 2 ^ 64 - 1 - unat b"
      using unat_max64 [of b]
      by (simp add: unat_sub word_le_nat_alt unsigned_minus_1_eq_mask mask_eq_exp_minus_1)
    then show ?thesis using unat_max64 [of b] by (auto simp: word_less_nat_alt)
  qed
  then show ?thesis by (auto simp: checked_add_def)
qed

lemma checked_add_exact: "checked_add a b = Some c \<Longrightarrow> unat c = unat a + unat b"
  by (auto simp: checked_add_Some word_nat)

lemma checked_add_None: "checked_add a b = None \<longleftrightarrow> 2 ^ 64 \<le> unat a + unat b"
  by (metis checked_add_Some linorder_not_less not_None_eq)

section \<open>CRC-32C\<close>

definition kCrc32cPolynomial :: u32 where "kCrc32cPolynomial = 0x82F63B78"

definition crc_bit :: "u32 \<Rightarrow> u32" where
  "crc_bit crc = (if crc AND 1 \<noteq> 0 then drop_bit 1 crc XOR kCrc32cPolynomial else drop_bit 1 crc)"

definition crc_entry :: "u32 \<Rightarrow> u32" where
  "crc_entry i = (crc_bit ^^ 8) i"

definition kCrc32cTable :: "u32 list" where
  "kCrc32cTable = map (\<lambda>i. crc_entry (of_nat i)) [0..<256]"

definition crc_step :: "u32 \<Rightarrow> u8 \<Rightarrow> u32" where
  "crc_step crc raw =
     (let index = (ucast (crc XOR ucast raw) :: u8)
      in kCrc32cTable ! unat index XOR drop_bit 8 crc)"

definition crc32c_extend :: "u32 \<Rightarrow> bytes \<Rightarrow> u32" where
  "crc32c_extend seed data = NOT (foldl crc_step (NOT seed) data)"

definition crc32c :: "bytes \<Rightarrow> u32" where
  "crc32c data = crc32c_extend 0 data"

subsection \<open>The table is the eight-fold bit step\<close>

lemma table_lookup: "kCrc32cTable ! unat (i :: u8) = crc_entry (ucast i)"
proof -
  have "unat i < 256" using unsigned_less [of i, where 'a = nat] by simp
  then show ?thesis by (simp add: kCrc32cTable_def)
qed

lemma bit_crc_bit:
  "bit (crc_bit c) n \<longleftrightarrow> (bit c (Suc n) \<noteq> (bit c 0 \<and> bit kCrc32cPolynomial n))"
  by (auto simp: crc_bit_def bit_simps even_iff_mod_2_eq_zero [symmetric] bit_0 and_one_eq
      mod_2_eq_odd)

lemma xor_word_eq_0: "a XOR b = 0 \<longleftrightarrow> a = (b :: 'a::len word)"
proof
  assume z: "a XOR b = 0"
  show "a = b"
  proof (rule bit_eqI)
    fix n
    have "\<not> bit (a XOR b) n" using z by simp
    then show "bit a n \<longleftrightarrow> bit b n" by (simp add: bit_simps)
  qed
qed simp

lemma xor_word_cancel: "a XOR k = b XOR k \<longleftrightarrow> a = (b :: 'a::len word)"
proof -
  have "(a XOR k) XOR (b XOR k) = a XOR b"
    by (rule bit_eqI) (auto simp: bit_simps)
  then show ?thesis using xor_word_eq_0 [of "a XOR k" "b XOR k"] xor_word_eq_0 [of a b] by simp
qed

lemma crc_bit_xor: "crc_bit (a XOR b) = crc_bit a XOR crc_bit b"
  by (rule bit_eqI) (auto simp: bit_crc_bit bit_simps)

lemma crc_bit_pow_xor: "(crc_bit ^^ n) (a XOR b) = (crc_bit ^^ n) a XOR (crc_bit ^^ n) b"
  by (induction n arbitrary: a b) (simp_all add: crc_bit_xor)

text \<open>The polynomial has its top bit set, so the bit shifted out can be read back.\<close>

lemma crc_bit_eq_0: "crc_bit c = 0 \<longleftrightarrow> c = 0"
proof
  assume z: "crc_bit c = 0"
  have low: "\<not> bit c 0"
  proof
    assume b: "bit c 0"
    have "bit (crc_bit c) 31 \<longleftrightarrow> (bit c 32 \<noteq> (bit c 0 \<and> bit kCrc32cPolynomial 31))"
      by (simp add: bit_crc_bit)
    moreover have "\<not> bit c 32" using bit_imp_le_length [of c 32] by auto
    moreover have "bit kCrc32cPolynomial 31" by (simp add: kCrc32cPolynomial_def)
    ultimately show False using b z by simp
  qed
  show "c = 0"
  proof (rule bit_eqI)
    fix n
    show "bit c n \<longleftrightarrow> bit (0 :: u32) n"
    proof (cases n)
      case 0
      with low show ?thesis by simp
    next
      case (Suc m)
      have "\<not> bit (crc_bit c) m" using z by simp
      with low Suc show ?thesis by (simp add: bit_crc_bit)
    qed
  qed
qed (simp add: crc_bit_def)

lemma crc_bit_pow_eq_0: "(crc_bit ^^ n) c = 0 \<longleftrightarrow> c = 0"
  by (induction n) (simp_all add: crc_bit_eq_0)

lemma crc_entry_inject: "crc_entry a = crc_entry b \<longleftrightarrow> a = b"
proof -
  have "crc_entry a XOR crc_entry b = crc_entry (a XOR b)"
    by (simp add: crc_entry_def crc_bit_pow_xor)
  then have "crc_entry a = crc_entry b \<longleftrightarrow> crc_entry (a XOR b) = 0"
    by (metis xor_word_eq_0)
  then show ?thesis by (simp add: crc_entry_def crc_bit_pow_eq_0 xor_word_eq_0)
qed
text \<open>A byte with its eight low bits clear is shifted out unchanged.\<close>

lemma crc_bit_pow_shift:
  assumes "\<And>k. k < n \<Longrightarrow> \<not> bit c k"
  shows "(crc_bit ^^ n) c = drop_bit n c"
  using assms
proof (induction n)
  case 0
  then show ?case by simp
next
  case (Suc n)
  then have "(crc_bit ^^ n) c = drop_bit n c" by simp
  moreover have "\<not> bit (drop_bit n c) 0" using Suc.prems [of n] by (simp add: bit_simps)
  ultimately show ?case
    by (auto intro!: bit_eqI simp: bit_crc_bit bit_simps)
qed

text \<open>The table-driven step is eight bit steps on the register with the byte mixed in.\<close>

lemma crc_step_bitwise: "crc_step crc raw = crc_entry (crc XOR ucast raw)"
proof -
  let ?x = "crc XOR ucast raw :: u32"
  let ?lo = "ucast (ucast ?x :: u8) :: u32"
  let ?hi = "?x XOR ?lo"
  have "crc_entry ?hi = drop_bit 8 ?hi"
    unfolding crc_entry_def by (rule crc_bit_pow_shift) (simp add: bit_simps)
  also have "drop_bit 8 ?hi = drop_bit 8 crc"
    by (rule bit_eqI) (auto simp: bit_simps dest: bit_imp_le_length)
  finally have hi: "crc_entry ?hi = drop_bit 8 crc" .
  have "crc_entry ?x = crc_entry ?lo XOR crc_entry ?hi"
    unfolding crc_entry_def crc_bit_pow_xor [symmetric] by (simp add: xor.left_commute)
  then show ?thesis
    by (simp add: crc_step_def Let_def table_lookup hi)
qed

lemma crc_step_inject_reg: "crc_step a raw = crc_step b raw \<longleftrightarrow> a = b"
  by (simp add: crc_step_bitwise crc_entry_inject xor_word_cancel)

lemma crc_step_inject_byte: "crc_step c a = crc_step c b \<longleftrightarrow> a = b"
proof
  assume "crc_step c a = crc_step c b"
  then have "ucast a XOR c = ucast b XOR c"
    by (simp add: crc_step_bitwise crc_entry_inject xor.commute)
  then have eq: "(ucast a :: u32) = ucast b" by (simp only: xor_word_cancel)
  show "a = b"
  proof (rule bit_eqI)
    fix n
    assume "possible_bit TYPE(u8) n"
    then have "n < 8" by (simp add: possible_bit_word)
    then show "bit a n \<longleftrightarrow> bit b n"
      using arg_cong [OF eq, of "\<lambda>w. bit w n"] by (simp add: bit_simps)
  qed
qed simp

lemma crc_fold_inject_reg: "foldl crc_step a bs = foldl crc_step b bs \<longleftrightarrow> a = b"
  by (induction bs arbitrary: a b) (simp_all add: crc_step_inject_reg)

lemma crc32c_extend_append:
  "crc32c_extend (crc32c_extend seed a) b = crc32c_extend seed (a @ b)"
  by (simp add: crc32c_extend_def)

lemma crc32c_one_byte: "crc32c (p @ a # s) = crc32c (p @ b # s) \<longleftrightarrow> a = b"
  by (simp add: crc32c_def crc32c_extend_def crc_fold_inject_reg crc_step_inject_byte)

section \<open>Text\<close>

text \<open>
  The lead byte gives the number of continuation bytes and its payload bits; a
  continuation byte in lead position, or a byte above the four-byte form, gives nothing.
\<close>

definition utf8_lead :: "u8 \<Rightarrow> (nat \<times> u32) option" where
  "utf8_lead lead =
     (if lead AND 0xE0 = 0xC0 then Some (1, ucast (lead AND 0x1F))
      else if lead AND 0xF0 = 0xE0 then Some (2, ucast (lead AND 0x0F))
      else if lead AND 0xF8 = 0xF0 then Some (3, ucast (lead AND 0x07))
      else None)"

primrec utf8_continue :: "u32 \<Rightarrow> bytes \<Rightarrow> u32 option" where
  "utf8_continue code_point [] = Some code_point"
| "utf8_continue code_point (cont # cs) =
     (if cont AND 0xC0 \<noteq> 0x80 then None
      else utf8_continue (push_bit 6 code_point OR ucast (cont AND 0x3F)) cs)"

fun is_valid_utf8 :: "bytes \<Rightarrow> bool" where
  "is_valid_utf8 [] = True"
| "is_valid_utf8 (lead # rest) =
     (if lead < 0x80 then is_valid_utf8 rest
      else (case utf8_lead lead of
        None \<Rightarrow> False
      | Some (extra, cp) \<Rightarrow>
          if extra = 1 \<and> cp = 0 then False
          else if length rest < extra then False
          else (case utf8_continue cp (take extra rest) of
            None \<Rightarrow> False
          | Some code_point \<Rightarrow>
              if extra = 2 \<and> code_point < 0x800 then False
              else if extra = 3 \<and> code_point < 0x10000 then False
              else if code_point > 0x10FFFF then False
              else if 0xD800 \<le> code_point \<and> code_point \<le> 0xDFFF then False
              else is_valid_utf8 (drop extra rest))))"

definition validate_text :: "bytes \<Rightarrow> nat \<Rightarrow> status" where
  "validate_text txt max_bytes =
     checks [(length txt \<le> max_bytes, EC_TooLarge),
             (is_valid_utf8 txt, EC_InvalidUtf8),
             (0 \<notin> set txt, EC_InvalidArgument)]"

lemma is_valid_utf8_ascii_append:
  "\<forall>b \<in> set a. b < 0x80 \<Longrightarrow> is_valid_utf8 (a @ s) = is_valid_utf8 s"
  by (induction a) auto

lemma is_valid_utf8_ascii: "\<forall>b \<in> set a. b < 0x80 \<Longrightarrow> is_valid_utf8 a"
  using is_valid_utf8_ascii_append [of a "[]"] by simp

lemma validate_text_Inr [simp]:
  "validate_text txt n = Inr u \<longleftrightarrow> length txt \<le> n \<and> is_valid_utf8 txt \<and> 0 \<notin> set txt"
  by (simp add: validate_text_def)

section \<open>Hexadecimal\<close>

definition hex_digit :: "u8 \<Rightarrow> char" where
  "hex_digit d = ''0123456789abcdef'' ! unat d"

definition hex_encode :: "bytes \<Rightarrow> string" where
  "hex_encode bs = concat (map (\<lambda>v. [hex_digit (drop_bit 4 v AND 0x0F), hex_digit (v AND 0x0F)]) bs)"

text \<open>\<^verbatim>\<open>hex_encode(value, width)\<close>: digit \<open>i\<close> from the right is the \<open>i\<close>-th nibble.\<close>

definition hex_encode_u64 :: "u64 \<Rightarrow> nat \<Rightarrow> string" where
  "hex_encode_u64 val width =
     (let used = (if width = 0 then 1 else if width > 16 then 16 else width)
      in rev (map (\<lambda>i. hex_digit (ucast (drop_bit (4 * i) val AND 0x0F))) [0..<used]))"

lemma length_hex_encode: "length (hex_encode bs) = 2 * length bs"
  by (induction bs) (simp_all add: hex_encode_def)

lemma length_hex_encode_u64: "length (hex_encode_u64 v w) = (if w = 0 then 1 else min w 16)"
  by (simp add: hex_encode_u64_def)

section \<open>The deterministic generator\<close>

record rng =
  rng_state :: u64
  rng_seed :: u64

definition make_rng :: "u64 \<Rightarrow> rng" where
  "make_rng seed = \<lparr>rng_state = seed, rng_seed = seed\<rparr>"

definition next_u64 :: "rng \<Rightarrow> u64 \<times> rng" where
  "next_u64 r =
     (let st = rng_state r + 0x9E3779B97F4A7C15;
          z1 = (st XOR drop_bit 30 st) * 0xBF58476D1CE4E5B9;
          z2 = (z1 XOR drop_bit 27 z1) * 0x94D049BB133111EB
      in (z2 XOR drop_bit 31 z2, r\<lparr>rng_state := st\<rparr>))"

definition next_below :: "rng \<Rightarrow> u64 \<Rightarrow> u64 \<times> rng" where
  "next_below r bound =
     (if bound = 0 then (0, r) else let (x, r') = next_u64 r in (x mod bound, r'))"

definition mix_seed :: "u64 \<Rightarrow> u64 \<Rightarrow> u64" where
  "mix_seed a b =
     (let h = a * 0x9E3779B97F4A7C15
      in h XOR (b + 0x9E3779B97F4A7C15 + push_bit 6 h + drop_bit 2 h))"

lemma next_below_bound: "bound \<noteq> 0 \<Longrightarrow> fst (next_below r bound) < bound"
  by (simp add: next_below_def Let_def case_prod_beta word_mod_less_divisor word_neq_0_conv)

section \<open>Evaluation\<close>

lemma crc_entry_unfold:
  "crc_entry x = crc_bit (crc_bit (crc_bit (crc_bit (crc_bit (crc_bit (crc_bit (crc_bit x)))))))"
  by (simp only: crc_entry_def numeral_eq_Suc pred_numeral_simps arith_simps funpow.simps comp_apply
      id_apply BitM.simps One_nat_def)

lemma crc_fold_Cons:
  "foldl crc_step c (b # bs) = foldl crc_step (crc_entry (c XOR ucast b)) bs"
  by (simp add: crc_step_bitwise)

lemma crc32c_eval: "crc32c bs = NOT (foldl crc_step 0xFFFFFFFF bs)"
proof -
  have "NOT (0 :: u32) = 0xFFFFFFFF" by simp
  then show ?thesis by (simp only: crc32c_def crc32c_extend_def)
qed

text \<open>Evaluation of a checksum: byte by byte, the register kept a numeral.\<close>

lemmas crc_eval = crc32c_eval crc_fold_Cons crc_entry_unfold crc_bit_def kCrc32cPolynomial_def

lemma crc32c_check_value: "crc32c [49, 50, 51, 52, 53, 54, 55, 56, 57] = 0xE3069283"
  by (simp add: crc_eval del: foldl_Cons)

end
