(* ===== verification/Identity.thy ===== *)
theory Identity
  imports Util
begin

text \<open>
  \<^verbatim>\<open>include/ttf/identity.hpp\<close>: the identities and generations, the boot identity of a
  process, session ids that carry their epoch, and the authority token with its rebinding
  from the session envelope. A \<^verbatim>\<open>StrongId\<close> is its 64-bit value; zero is the id that is
  not valid. The tags that keep two kinds of id apart at compile time are the type synonyms.
\<close>

section \<open>Strong ids\<close>

type_synonym training_job_id = u64
type_synonym training_generation = u64
type_synonym training_step_id = u64
type_synonym phase_id = u64
type_synonym parallelism_group_id = u64
type_synonym traffic_intent_id = u64
type_synonym workload_contract_generation = u64
type_synonym topology_generation = u64
type_synonym policy_generation = u64
type_synonym incarnation_id = u64
type_synonym epoch_id = u64
type_synonym session_id = u64
type_synonym checkpoint_burst_id = u64
type_synonym logical_time = u64

definition valid :: "u64 \<Rightarrow> bool" where
  "valid i \<longleftrightarrow> i \<noteq> 0"

lemma valid_simps [simp]: "\<not> valid 0" "valid 1" "valid (numeral k) \<longleftrightarrow> (numeral k :: u64) \<noteq> 0"
  by (simp_all add: valid_def)

section \<open>Boot identities\<close>

datatype boot_id = BootId (boot_hi: u64) (boot_lo: u64)

definition boot_valid :: "boot_id \<Rightarrow> bool" where
  "boot_valid b \<longleftrightarrow> boot_hi b \<noteq> 0 \<or> boot_lo b \<noteq> 0"

text \<open>The defaulted three-way comparison orders by the high half, then the low half.\<close>

definition boot_less :: "boot_id \<Rightarrow> boot_id \<Rightarrow> bool" where
  "boot_less a b \<longleftrightarrow> boot_hi a < boot_hi b \<or> boot_hi a = boot_hi b \<and> boot_lo a < boot_lo b"

definition boot_less_eq :: "boot_id \<Rightarrow> boot_id \<Rightarrow> bool" where
  "boot_less_eq a b \<longleftrightarrow> boot_hi a < boot_hi b \<or> boot_hi a = boot_hi b \<and> boot_lo a \<le> boot_lo b"

instantiation boot_id :: linorder
begin

definition less_boot_id :: "boot_id \<Rightarrow> boot_id \<Rightarrow> bool" where
  "less_boot_id = boot_less"

definition less_eq_boot_id :: "boot_id \<Rightarrow> boot_id \<Rightarrow> bool" where
  "less_eq_boot_id = boot_less_eq"

instance
  by standard
    (auto simp: less_boot_id_def less_eq_boot_id_def boot_less_def boot_less_eq_def boot_id.expand)

end

definition mint_boot :: "u64 \<Rightarrow> boot_id" where
  "mint_boot seed =
     (let (hi, r1) = next_u64 (make_rng seed);
          (lo, r2) = next_u64 r1
      in if hi = 0 \<and> lo = 0 then BootId hi 1 else BootId hi lo)"

lemma mint_boot_valid: "boot_valid (mint_boot seed)"
  by (simp add: mint_boot_def boot_valid_def case_prod_beta Let_def)

definition boot_to_hex :: "boot_id \<Rightarrow> string" where
  "boot_to_hex b = hex_encode_u64 (boot_hi b) 16 @ hex_encode_u64 (boot_lo b) 16"

section \<open>Session ids\<close>

definition make_session_id :: "epoch_id \<Rightarrow> u32 \<Rightarrow> session_id" where
  "make_session_id epoch ordinal = push_bit 32 epoch OR ucast ordinal"

definition session_epoch :: "session_id \<Rightarrow> epoch_id" where
  "session_epoch session = drop_bit 32 session"

definition session_ordinal :: "session_id \<Rightarrow> u32" where
  "session_ordinal session = ucast (session AND 0xFFFFFFFF)"

lemma bit_make_session_id:
  "bit (make_session_id e k) n \<longleftrightarrow>
     (if n < 32 then bit k n else n < 64 \<and> bit e (n - 32))"
  by (auto simp: make_session_id_def bit_simps dest: bit_imp_le_length)

lemma session_ordinal_make: "session_ordinal (make_session_id e k) = k"
proof (rule bit_eqI)
  fix n
  assume "possible_bit TYPE(u32) n"
  then have n: "n < 32" by simp
  have "bit (0xFFFFFFFF :: u64) n"
  proof -
    have "(0xFFFFFFFF :: u64) = mask 32" by (simp add: mask_eq_exp_minus_1)
    then show ?thesis using n by (simp only: bit_mask_iff) simp
  qed
  then show "bit (session_ordinal (make_session_id e k)) n = bit k n"
    using n by (simp add: session_ordinal_def bit_simps bit_make_session_id)
qed

lemma session_epoch_make:
  assumes "unat e < 2 ^ 32"
  shows "session_epoch (make_session_id e k) = e"
proof (rule bit_eqI)
  fix n
  assume "possible_bit TYPE(u64) n"
  have "\<not> bit e n" if "32 \<le> n"
  proof -
    have "take_bit 32 (unat e) = unat e"
      using assms by (rule take_bit_nat_eq_self)
    then have "\<not> bit (unat e) n" using that by (metis bit_take_bit_iff not_less)
    then show ?thesis by (simp add: bit_unsigned_iff)
  qed
  then show "bit (session_epoch (make_session_id e k)) n = bit e n"
    by (cases "n < 32") (auto simp: session_epoch_def bit_simps bit_make_session_id)
qed

section \<open>Authority tokens\<close>

record authority_token =
  at_job :: training_job_id
  at_job_generation :: training_generation
  at_incarnation :: incarnation_id
  at_boot :: boot_id
  at_session :: session_id
  at_epoch :: epoch_id
  at_contract_generation :: workload_contract_generation
  at_topology_generation :: topology_generation
  at_policy_generation :: policy_generation
  at_step :: training_step_id
  at_phase :: phase_id
  at_sequence :: u64
  at_nonce :: u64

definition empty_token :: authority_token where
  "empty_token = \<lparr>at_job = 0, at_job_generation = 0, at_incarnation = 0, at_boot = BootId 0 0,
     at_session = 0, at_epoch = 0, at_contract_generation = 0, at_topology_generation = 0,
     at_policy_generation = 0, at_step = 0, at_phase = 0, at_sequence = 0, at_nonce = 0\<rparr>"

record rebind_result =
  rb_job_mismatch :: bool
  rb_incarnation_mismatch :: bool
  rb_boot_mismatch :: bool
  rb_session_mismatch :: bool
  rb_epoch_mismatch :: bool

definition rebind_any :: "rebind_result \<Rightarrow> bool" where
  "rebind_any r \<longleftrightarrow> rb_job_mismatch r \<or> rb_incarnation_mismatch r \<or> rb_boot_mismatch r \<or>
     rb_session_mismatch r \<or> rb_epoch_mismatch r"

definition rebind_from ::
  "authority_token \<Rightarrow> authority_token \<Rightarrow> rebind_result \<times> authority_token" where
  "rebind_from token envelope =
     (\<lparr>rb_job_mismatch = (at_job envelope \<noteq> at_job token),
       rb_incarnation_mismatch = (at_incarnation envelope \<noteq> at_incarnation token),
       rb_boot_mismatch = (at_boot envelope \<noteq> at_boot token),
       rb_session_mismatch = (at_session envelope \<noteq> at_session token),
       rb_epoch_mismatch = (at_epoch envelope \<noteq> at_epoch token)\<rparr>,
      token\<lparr>at_job := at_job envelope, at_incarnation := at_incarnation envelope,
        at_boot := at_boot envelope, at_session := at_session envelope,
        at_epoch := at_epoch envelope\<rparr>)"

text \<open>A token that agrees with its envelope is left as it is; any other is reported.\<close>

lemma rebind_from_agrees:
  "\<not> rebind_any (fst (rebind_from t e)) \<longleftrightarrow> snd (rebind_from t e) = t"
  by (cases t) (auto simp: rebind_any_def rebind_from_def)

lemma rebind_from_provenance:
  "at_job (snd (rebind_from t e)) = at_job e"
  "at_incarnation (snd (rebind_from t e)) = at_incarnation e"
  "at_boot (snd (rebind_from t e)) = at_boot e"
  "at_session (snd (rebind_from t e)) = at_session e"
  "at_epoch (snd (rebind_from t e)) = at_epoch e"
  by (simp_all add: rebind_from_def)

section \<open>Text rendering\<close>

text \<open>A string literal as bytes, and the decimal rendering \<^verbatim>\<open>std::to_string\<close>.\<close>

definition ascii :: "string \<Rightarrow> bytes" where
  "ascii s = map of_char s"

fun dec_nat :: "nat \<Rightarrow> bytes" where
  "dec_nat n = (if n < 10 then [of_nat (48 + n)] else dec_nat (n div 10) @ [of_nat (48 + n mod 10)])"

declare dec_nat.simps [simp del]

definition dec :: "u64 \<Rightarrow> bytes" where
  "dec v = dec_nat (unat v)"

definition describe :: "authority_token \<Rightarrow> bytes" where
  "describe t = ascii ''job='' @ dec (at_job t) @ ascii '' gen='' @ dec (at_job_generation t) @
     ascii '' inc='' @ dec (at_incarnation t) @ ascii '' epoch='' @ dec (at_epoch t) @
     ascii '' step='' @ dec (at_step t) @ ascii '' phase='' @ dec (at_phase t) @
     ascii '' contract='' @ dec (at_contract_generation t) @
     ascii '' topo='' @ dec (at_topology_generation t) @
     ascii '' policy='' @ dec (at_policy_generation t)"

section \<open>Label matching\<close>

text \<open>\<^verbatim>\<open>std::toupper\<close> in the C locale moves the 26 lower-case letters only.\<close>

definition to_upper :: "u8 \<Rightarrow> u8" where
  "to_upper b = (if 97 \<le> b \<and> b \<le> 122 then b - 32 else b)"

definition iequals :: "bytes \<Rightarrow> bytes \<Rightarrow> bool" where
  "iequals lhs rhs \<longleftrightarrow> length lhs = length rhs \<and> list_all2 (\<lambda>a b. to_upper a = to_upper b) lhs rhs"

primrec match_any_from :: "nat \<Rightarrow> bytes \<Rightarrow> bytes list \<Rightarrow> nat option" where
  "match_any_from i txt [] = None"
| "match_any_from i txt (n # ns) = (if iequals txt n then Some i else match_any_from (Suc i) txt ns)"

definition match_any :: "bytes \<Rightarrow> bytes list \<Rightarrow> nat option" where
  "match_any txt names = match_any_from 0 txt names"

lemma iequals_map: "iequals a b \<longleftrightarrow> map to_upper a = map to_upper b"
  by (auto simp: iequals_def list_all2_conv_all_nth list_eq_iff_nth_eq)

lemma match_any_from_Some:
  "match_any_from i txt ns = Some k \<Longrightarrow> \<exists>j. k = i + j \<and> j < length ns \<and> iequals txt (ns ! j)"
proof (induction ns arbitrary: i)
  case Nil
  then show ?case by simp
next
  case (Cons n ns)
  show ?case
  proof (cases "iequals txt n")
    case True
    with Cons.prems show ?thesis by (intro exI [of _ 0]) simp
  next
    case False
    with Cons.prems have "match_any_from (Suc i) txt ns = Some k" by simp
    then obtain j where "k = Suc i + j" "j < length ns" "iequals txt (ns ! j)"
      using Cons.IH by blast
    then show ?thesis by (intro exI [of _ "Suc j"]) simp
  qed
qed

lemma match_any_Some:
  "match_any txt ns = Some k \<Longrightarrow> k < length ns \<and> iequals txt (ns ! k)"
  using match_any_from_Some [of 0 "txt" ns k] by (auto simp: match_any_def)

lemma match_any_None: "match_any txt ns = None \<longleftrightarrow> (\<forall>n \<in> set ns. \<not> iequals txt n)"
proof -
  have "match_any_from i txt ns = None \<longleftrightarrow> (\<forall>n \<in> set ns. \<not> iequals txt n)" for i
    by (induction ns arbitrary: i) auto
  then show ?thesis by (simp add: match_any_def)
qed

end
