(* ===== verification/Explain.thy ===== *)
theory Explain
  imports Identity
begin

text \<open>
  \<^verbatim>\<open>include/ttf/explain.hpp\<close> and the explanation part of \<^verbatim>\<open>src/model.cpp\<close>: the bounded
  list of clauses that names the training semantics behind a decision, and the wording of
  the clauses the core emits. Like the error codes, an explanation code is a wrapped 16-bit
  word of which the enumerators are names.
\<close>

section \<open>Codes and clauses\<close>

datatype explanation_code = ExplanationCode (explanation_raw: u16)

abbreviation EX_Unknown :: explanation_code where "EX_Unknown \<equiv> ExplanationCode 0"
abbreviation EX_JobGenerationBound :: explanation_code where "EX_JobGenerationBound \<equiv> ExplanationCode 1"
abbreviation EX_StepBound :: explanation_code where "EX_StepBound \<equiv> ExplanationCode 2"
abbreviation EX_PhaseBound :: explanation_code where "EX_PhaseBound \<equiv> ExplanationCode 3"
abbreviation EX_GroupBound :: explanation_code where "EX_GroupBound \<equiv> ExplanationCode 4"
abbreviation EX_ContractGenerationBound :: explanation_code where "EX_ContractGenerationBound \<equiv> ExplanationCode 5"
abbreviation EX_TopologyGenerationBound :: explanation_code where "EX_TopologyGenerationBound \<equiv> ExplanationCode 6"
abbreviation EX_PolicyGenerationBound :: explanation_code where "EX_PolicyGenerationBound \<equiv> ExplanationCode 7"
abbreviation EX_IncarnationBound :: explanation_code where "EX_IncarnationBound \<equiv> ExplanationCode 8"
abbreviation EX_PhaseClassKnown :: explanation_code where "EX_PhaseClassKnown \<equiv> ExplanationCode 10"
abbreviation EX_PhaseClassUnknownConservative :: explanation_code where "EX_PhaseClassUnknownConservative \<equiv> ExplanationCode 11"
abbreviation EX_UnknownPhaseCeilingApplied :: explanation_code where "EX_UnknownPhaseCeilingApplied \<equiv> ExplanationCode 12"
abbreviation EX_UnknownPhaseNotAllowed :: explanation_code where "EX_UnknownPhaseNotAllowed \<equiv> ExplanationCode 13"
abbreviation EX_BarrierCritical :: explanation_code where "EX_BarrierCritical \<equiv> ExplanationCode 14"
abbreviation EX_SlackRemaining :: explanation_code where "EX_SlackRemaining \<equiv> ExplanationCode 15"
abbreviation EX_SlackExhausted :: explanation_code where "EX_SlackExhausted \<equiv> ExplanationCode 16"
abbreviation EX_DeadlineUnspecified :: explanation_code where "EX_DeadlineUnspecified \<equiv> ExplanationCode 17"
abbreviation EX_CapacityAvailable :: explanation_code where "EX_CapacityAvailable \<equiv> ExplanationCode 20"
abbreviation EX_CapacityInsufficient :: explanation_code where "EX_CapacityInsufficient \<equiv> ExplanationCode 21"
abbreviation EX_CapacityPreempted :: explanation_code where "EX_CapacityPreempted \<equiv> ExplanationCode 22"
abbreviation EX_PreemptionVictim :: explanation_code where "EX_PreemptionVictim \<equiv> ExplanationCode 23"
abbreviation EX_DeferredLowerPriority :: explanation_code where "EX_DeferredLowerPriority \<equiv> ExplanationCode 24"
abbreviation EX_RateClampedToCeiling :: explanation_code where "EX_RateClampedToCeiling \<equiv> ExplanationCode 25"
abbreviation EX_RateClampedToFloor :: explanation_code where "EX_RateClampedToFloor \<equiv> ExplanationCode 26"
abbreviation EX_CheckpointIsolationActive :: explanation_code where "EX_CheckpointIsolationActive \<equiv> ExplanationCode 30"
abbreviation EX_CheckpointIsolationPriorityBoost :: explanation_code where "EX_CheckpointIsolationPriorityBoost \<equiv> ExplanationCode 31"
abbreviation EX_CheckpointClassPreserved :: explanation_code where "EX_CheckpointClassPreserved \<equiv> ExplanationCode 32"
abbreviation EX_IsolationThrottled :: explanation_code where "EX_IsolationThrottled \<equiv> ExplanationCode 33"
abbreviation EX_IsolationDeferred :: explanation_code where "EX_IsolationDeferred \<equiv> ExplanationCode 34"
abbreviation EX_CheckpointBurstOpened :: explanation_code where "EX_CheckpointBurstOpened \<equiv> ExplanationCode 35"
abbreviation EX_CheckpointBurstClosed :: explanation_code where "EX_CheckpointBurstClosed \<equiv> ExplanationCode 36"
abbreviation EX_StragglerHold :: explanation_code where "EX_StragglerHold \<equiv> ExplanationCode 40"
abbreviation EX_StragglerRelease :: explanation_code where "EX_StragglerRelease \<equiv> ExplanationCode 41"
abbreviation EX_StragglerThrottle :: explanation_code where "EX_StragglerThrottle \<equiv> ExplanationCode 42"
abbreviation EX_StragglerEvidenceMissing :: explanation_code where "EX_StragglerEvidenceMissing \<equiv> ExplanationCode 43"
abbreviation EX_StaleStepFenced :: explanation_code where "EX_StaleStepFenced \<equiv> ExplanationCode 50"
abbreviation EX_StaleJobGenerationFenced :: explanation_code where "EX_StaleJobGenerationFenced \<equiv> ExplanationCode 51"
abbreviation EX_StaleIncarnationFenced :: explanation_code where "EX_StaleIncarnationFenced \<equiv> ExplanationCode 52"
abbreviation EX_StaleEpochFenced :: explanation_code where "EX_StaleEpochFenced \<equiv> ExplanationCode 53"
abbreviation EX_StaleContractFenced :: explanation_code where "EX_StaleContractFenced \<equiv> ExplanationCode 54"
abbreviation EX_StaleTopologyFenced :: explanation_code where "EX_StaleTopologyFenced \<equiv> ExplanationCode 55"
abbreviation EX_StalePolicyFenced :: explanation_code where "EX_StalePolicyFenced \<equiv> ExplanationCode 56"
abbreviation EX_StaleBootIdentityFenced :: explanation_code where "EX_StaleBootIdentityFenced \<equiv> ExplanationCode 57"
abbreviation EX_ReplayRejected :: explanation_code where "EX_ReplayRejected \<equiv> ExplanationCode 58"
abbreviation EX_DuplicateIntent :: explanation_code where "EX_DuplicateIntent \<equiv> ExplanationCode 59"
abbreviation EX_IncarnationFresh :: explanation_code where "EX_IncarnationFresh \<equiv> ExplanationCode 60"
abbreviation EX_IncarnationRetired :: explanation_code where "EX_IncarnationRetired \<equiv> ExplanationCode 61"
abbreviation EX_RejoinRequiresFreshAuthority :: explanation_code where "EX_RejoinRequiresFreshAuthority \<equiv> ExplanationCode 62"
abbreviation EX_EvidenceReal :: explanation_code where "EX_EvidenceReal \<equiv> ExplanationCode 70"
abbreviation EX_EvidenceSynthetic :: explanation_code where "EX_EvidenceSynthetic \<equiv> ExplanationCode 71"
abbreviation EX_EvidenceUnsupported :: explanation_code where "EX_EvidenceUnsupported \<equiv> ExplanationCode 72"
abbreviation EX_EvidenceMissing :: explanation_code where "EX_EvidenceMissing \<equiv> ExplanationCode 73"
abbreviation EX_AccountingOpened :: explanation_code where "EX_AccountingOpened \<equiv> ExplanationCode 80"
abbreviation EX_AccountingClosed :: explanation_code where "EX_AccountingClosed \<equiv> ExplanationCode 81"
abbreviation EX_FlowCompleted :: explanation_code where "EX_FlowCompleted \<equiv> ExplanationCode 82"
abbreviation EX_FlowCancelled :: explanation_code where "EX_FlowCancelled \<equiv> ExplanationCode 83"
abbreviation EX_StepClosedWithCancellation :: explanation_code where "EX_StepClosedWithCancellation \<equiv> ExplanationCode 84"
abbreviation EX_LateCompletionRefused :: explanation_code where "EX_LateCompletionRefused \<equiv> ExplanationCode 85"
abbreviation EX_PolicyGenerationChanged :: explanation_code where "EX_PolicyGenerationChanged \<equiv> ExplanationCode 90"
abbreviation EX_DecisionInvalidated :: explanation_code where "EX_DecisionInvalidated \<equiv> ExplanationCode 91"
abbreviation EX_DecisionRevalidated :: explanation_code where "EX_DecisionRevalidated \<equiv> ExplanationCode 92"
abbreviation EX_StrictInvalidationApplied :: explanation_code where "EX_StrictInvalidationApplied \<equiv> ExplanationCode 93"

definition explanation_names :: "(u16 \<times> string) list" where
  "explanation_names = [
     (0, ''UNKNOWN''),
     (1, ''JOB_GENERATION_BOUND''),
     (2, ''STEP_BOUND''),
     (3, ''PHASE_BOUND''),
     (4, ''GROUP_BOUND''),
     (5, ''CONTRACT_GENERATION_BOUND''),
     (6, ''TOPOLOGY_GENERATION_BOUND''),
     (7, ''POLICY_GENERATION_BOUND''),
     (8, ''INCARNATION_BOUND''),
     (10, ''PHASE_CLASS_KNOWN''),
     (11, ''PHASE_CLASS_UNKNOWN_CONSERVATIVE''),
     (12, ''UNKNOWN_PHASE_CEILING_APPLIED''),
     (13, ''UNKNOWN_PHASE_NOT_ALLOWED''),
     (14, ''BARRIER_CRITICAL''),
     (15, ''SLACK_REMAINING''),
     (16, ''SLACK_EXHAUSTED''),
     (17, ''DEADLINE_UNSPECIFIED''),
     (20, ''CAPACITY_AVAILABLE''),
     (21, ''CAPACITY_INSUFFICIENT''),
     (22, ''CAPACITY_PREEMPTED''),
     (23, ''PREEMPTION_VICTIM''),
     (24, ''DEFERRED_LOWER_PRIORITY''),
     (25, ''RATE_CLAMPED_TO_CEILING''),
     (26, ''RATE_CLAMPED_TO_FLOOR''),
     (30, ''CHECKPOINT_ISOLATION_ACTIVE''),
     (31, ''CHECKPOINT_ISOLATION_PRIORITY_BOOST''),
     (32, ''CHECKPOINT_CLASS_PRESERVED''),
     (33, ''ISOLATION_THROTTLED''),
     (34, ''ISOLATION_DEFERRED''),
     (35, ''CHECKPOINT_BURST_OPENED''),
     (36, ''CHECKPOINT_BURST_CLOSED''),
     (40, ''STRAGGLER_HOLD''),
     (41, ''STRAGGLER_RELEASE''),
     (42, ''STRAGGLER_THROTTLE''),
     (43, ''STRAGGLER_EVIDENCE_MISSING''),
     (50, ''STALE_STEP_FENCED''),
     (51, ''STALE_JOB_GENERATION_FENCED''),
     (52, ''STALE_INCARNATION_FENCED''),
     (53, ''STALE_EPOCH_FENCED''),
     (54, ''STALE_CONTRACT_FENCED''),
     (55, ''STALE_TOPOLOGY_FENCED''),
     (56, ''STALE_POLICY_FENCED''),
     (57, ''STALE_BOOT_IDENTITY_FENCED''),
     (58, ''REPLAY_REJECTED''),
     (59, ''DUPLICATE_INTENT''),
     (60, ''INCARNATION_FRESH''),
     (61, ''INCARNATION_RETIRED''),
     (62, ''REJOIN_REQUIRES_FRESH_AUTHORITY''),
     (70, ''EVIDENCE_REAL''),
     (71, ''EVIDENCE_SYNTHETIC''),
     (72, ''EVIDENCE_UNSUPPORTED''),
     (73, ''EVIDENCE_MISSING''),
     (80, ''ACCOUNTING_OPENED''),
     (81, ''ACCOUNTING_CLOSED''),
     (82, ''FLOW_COMPLETED''),
     (83, ''FLOW_CANCELLED''),
     (84, ''STEP_CLOSED_WITH_CANCELLATION''),
     (85, ''LATE_COMPLETION_REFUSED''),
     (90, ''POLICY_GENERATION_CHANGED''),
     (91, ''DECISION_INVALIDATED''),
     (92, ''DECISION_REVALIDATED''),
     (93, ''STRICT_INVALIDATION_APPLIED'')]"

definition explanation_name :: "explanation_code \<Rightarrow> string" where
  "explanation_name code =
     (case map_of explanation_names (explanation_raw code) of Some n \<Rightarrow> n | None \<Rightarrow> ''UNKNOWN'')"

datatype explanation_clause = Clause (clause_code: explanation_code) (clause_detail: bytes)

type_synonym explanation = "explanation_clause list"

text \<open>\<^verbatim>\<open>Explanation::add\<close>: a full explanation drops the clause.\<close>

definition explain :: "explanation_code \<Rightarrow> bytes \<Rightarrow> u32 \<Rightarrow> explanation \<Rightarrow> explanation" where
  "explain code detail max_clauses e =
     (if length e \<ge> unat max_clauses then e else e @ [Clause code detail])"

definition explain_code :: "explanation_code \<Rightarrow> u32 \<Rightarrow> explanation \<Rightarrow> explanation" where
  "explain_code code max_clauses e = explain code (ascii (explanation_name code)) max_clauses e"

definition explanation_contains :: "explanation \<Rightarrow> explanation_code \<Rightarrow> bool" where
  "explanation_contains e code = list_ex (\<lambda>c. clause_code c = code) e"

primrec summary_from :: "nat \<Rightarrow> explanation \<Rightarrow> bytes" where
  "summary_from i [] = []"
| "summary_from i (c # cs) =
     (if i \<noteq> 0 then ascii ''; '' else []) @ ascii (explanation_name (clause_code c)) @
     (if clause_detail c \<noteq> [] then ascii '': '' @ clause_detail c else []) @ summary_from (Suc i) cs"

definition explanation_summary :: "explanation \<Rightarrow> bytes" where
  "explanation_summary e = summary_from 0 e"

lemma length_explain: "length e \<le> unat m \<Longrightarrow> length (explain c d m e) \<le> unat m"
  by (simp add: explain_def)

lemma length_explain_code: "length e \<le> unat m \<Longrightarrow> length (explain_code c m e) \<le> unat m"
  by (simp add: explain_code_def length_explain)

lemma explain_keeps: "set e \<subseteq> set (explain c d m e)"
  by (auto simp: explain_def)

section \<open>The wording of the clauses\<close>

definition tx_no_such_job :: bytes where
  "tx_no_such_job = ascii ''no such job''"

definition tx_job_retired :: bytes where
  "tx_job_retired = ascii ''job is retired''"

definition tx_stale_generation :: bytes where
  "tx_stale_generation = ascii ''token job generation is not the current generation''"

definition tx_stale_epoch :: bytes where
  "tx_stale_epoch = ascii ''token epoch is not the current coordinator epoch''"

definition tx_incarnation_retired :: bytes where
  "tx_incarnation_retired = ascii ''token incarnation has been retired''"

definition tx_stale_incarnation :: bytes where
  "tx_stale_incarnation = ascii ''token incarnation is not the current incarnation''"

definition tx_current_retired :: bytes where
  "tx_current_retired = ascii ''current incarnation is retired''"

definition tx_stale_boot :: bytes where
  "tx_stale_boot = ascii ''token boot identity is not the current boot identity''"

definition tx_stale_contract :: bytes where
  "tx_stale_contract = ascii ''token workload contract generation is stale''"

definition tx_stale_topology :: bytes where
  "tx_stale_topology = ascii ''token topology generation is stale''"

definition tx_unissued_policy :: bytes where
  "tx_unissued_policy = ascii ''token claims a policy generation the fabric has not issued''"

definition tx_no_step :: bytes where
  "tx_no_step = ascii ''no step is open for this job''"

definition tx_no_step_id :: bytes where
  "tx_no_step_id = ascii ''token carries no step id''"

definition tx_stale_step :: bytes where
  "tx_stale_step = ascii ''token step is not the open step''"

definition tx_step_incarnation :: bytes where
  "tx_step_incarnation = ascii ''open step belongs to a different incarnation''"

definition tx_stale_phase :: bytes where
  "tx_stale_phase = ascii ''token phase does not belong to the open step''"

definition tx_phase_closed :: bytes where
  "tx_phase_closed = ascii ''phase is already closed''"

definition tx_intent_limit :: bytes where
  "tx_intent_limit = ascii ''intent limit for this step reached''"

definition tx_unknown_refused :: bytes where
  "tx_unknown_refused = ascii ''workload contract does not admit traffic in UNKNOWN phases''"

definition tx_intent_bytes :: bytes where
  "tx_intent_bytes = ascii ''intent byte estimate exceeds the per-intent contract limit''"

definition tx_step_bytes :: bytes where
  "tx_step_bytes = ascii ''step byte ceiling for this workload contract would be exceeded''"

definition tx_flow_limit :: bytes where
  "tx_flow_limit = ascii ''active flow limit for this step reached''"

definition tx_no_evidence :: bytes where
  "tx_no_evidence = ascii ''no usable capacity evidence for this parallelism group''"

definition tx_unknown_conservative :: bytes where
  "tx_unknown_conservative = ascii ''the framework label was not a recognised phase class, so it is treated as best effort''"

definition tx_barrier :: bytes where
  "tx_barrier = ascii ''phase participates in a hard synchronization barrier for this step''"

definition tx_class_preserved :: bytes where
  "tx_class_preserved = ascii ''service class stays CHECKPOINT; isolation does not borrow synchronization-critical class''"

definition tx_isolation_cancelled :: bytes where
  "tx_isolation_cancelled = ascii ''cancelled because a checkpoint burst isolates the group''"

definition tx_isolation_reduced :: bytes where
  "tx_isolation_reduced = ascii ''grant reduced while the checkpoint burst isolates the group''"

definition tx_all_arrived :: bytes where
  "tx_all_arrived = ascii ''all expected participants arrived''"

definition tx_no_grace :: bytes where
  "tx_no_grace = ascii ''no grace window was declared, so no hold is applied''"

definition tx_no_slack :: bytes where
  "tx_no_slack = ascii ''no slack remains before the step deadline, so the sync point releases at the deadline''"

definition tx_job_generation :: "u64 \<Rightarrow> bytes" where
  "tx_job_generation g = ascii ''job generation '' @ dec g"

definition tx_group :: "u64 \<Rightarrow> bytes" where
  "tx_group g = ascii ''group '' @ dec g"

definition tx_granted :: "u64 \<Rightarrow> u64 \<Rightarrow> bytes" where
  "tx_granted lo hi = ascii ''granted '' @ dec lo @ ascii '' bps of '' @ dec hi @ ascii '' bps requested''"

definition tx_preempted :: "u64 \<Rightarrow> bytes" where
  "tx_preempted n = dec n @ ascii '' lower-priority flow(s) displaced''"

definition tx_unknown_ceiling :: "u64 \<Rightarrow> bytes" where
  "tx_unknown_ceiling c = ascii ''UNKNOWN phase traffic is capped at '' @ dec c @ ascii '' bps''"

definition tx_slack :: "u64 \<Rightarrow> bytes" where
  "tx_slack s = ascii ''slack '' @ dec s @ ascii '' ticks''"

definition tx_burst_holds :: "u64 \<Rightarrow> u64 \<Rightarrow> bytes" where
  "tx_burst_holds b g = ascii ''checkpoint burst '' @ dec b @ ascii '' holds group '' @ dec g"

definition tx_priority_raised :: "u64 \<Rightarrow> bytes" where
  "tx_priority_raised p = ascii ''effective priority raised to '' @ dec p @ ascii '' for the burst window''"

definition tx_clamped_ceiling :: "u64 \<Rightarrow> u64 \<Rightarrow> bytes" where
  "tx_clamped_ceiling a b = ascii ''granted maximum reduced from '' @ dec a @ ascii '' to '' @ dec b @ ascii '' bps''"

definition tx_accounting_opened :: "u64 \<Rightarrow> u64 \<Rightarrow> bytes" where
  "tx_accounting_opened s n = ascii ''step '' @ dec s @ ascii '' now has '' @ dec n @ ascii '' active flow(s)''"

definition tx_policy_advanced :: "u64 \<Rightarrow> u64 \<Rightarrow> bytes" where
  "tx_policy_advanced a b = ascii ''policy advanced from '' @ dec a @ ascii '' to '' @ dec b"

definition tx_outstanding :: "u64 \<Rightarrow> bytes" where
  "tx_outstanding n = dec n @ ascii '' participant(s) outstanding''"

definition tx_holding :: "u64 \<Rightarrow> u64 \<Rightarrow> bytes" where
  "tx_holding n h = dec n @ ascii '' participant(s) outstanding; holding '' @ dec h @ ascii '' ticks''"

definition tx_retired_fenced :: "u64 \<Rightarrow> bytes" where
  "tx_retired_fenced i = ascii ''incarnation '' @ dec i @ ascii '' retired; its decisions and flows are fenced''"

definition tx_resume_floor :: "u64 \<Rightarrow> bytes" where
  "tx_resume_floor s = ascii ''the replacement may only open steps greater than '' @ dec s"

definition tx_minted :: "u64 \<Rightarrow> boot_id \<Rightarrow> bytes" where
  "tx_minted i b = ascii ''incarnation '' @ dec i @ ascii '' minted for boot identity '' @ ascii (boot_to_hex b)"

text \<open>Clauses that name a class take its spelling.\<close>

definition tx_step_phase :: "u64 \<Rightarrow> string \<Rightarrow> bytes" where
  "tx_step_phase s c = ascii ''step '' @ dec s @ ascii '' phase '' @ ascii c"

definition tx_class_conflict :: "string \<Rightarrow> string \<Rightarrow> bytes" where
  "tx_class_conflict declared registered = ascii ''declared phase class '' @ ascii declared @
     ascii '' contradicts the registered phase class '' @ ascii registered"

definition tx_isolated :: "u64 \<Rightarrow> string \<Rightarrow> bytes" where
  "tx_isolated g c = ascii ''checkpoint burst on group '' @ dec g @
     ascii '' isolates this group from '' @ ascii c @ ascii '' traffic''"

definition tx_above_ceiling :: "string \<Rightarrow> bytes" where
  "tx_above_ceiling c = ascii ''requested minimum rate exceeds the '' @ ascii c @ ascii '' ceiling''"

definition tx_floor_above :: "string \<Rightarrow> bytes" where
  "tx_floor_above c = ascii ''service class floor exceeds the rate envelope for '' @ ascii c"

definition tx_no_capacity :: "u64 \<Rightarrow> string \<Rightarrow> bytes" where
  "tx_no_capacity g c = ascii ''group '' @ dec g @ ascii '' has no free capacity at '' @ ascii c @
     ascii '' priority''"

definition tx_clamped_floor :: "string \<Rightarrow> u64 \<Rightarrow> bytes" where
  "tx_clamped_floor c b = ascii ''granted minimum raised to the '' @ ascii c @ ascii '' floor of '' @
     dec b @ ascii '' bps''"

end
