(* ===== verification/Model.thy ===== *)
theory Model
  imports Explain
begin

text \<open>
  The value types of the public headers and their validation in \<^verbatim>\<open>src/model.cpp\<close>:
  phases, parallelism groups, the workload contract and the topology evidence, whose lookup
  is a binary search over strictly ordered link records.
\<close>

section \<open>Phases\<close>

datatype phase_class = PC_Unknown | PC_ForwardComm | PC_BackwardComm | PC_GradientSync
  | PC_ParameterSync | PC_PipelineTransfer | PC_DataIngest | PC_Checkpoint | PC_Recovery | PC_Control

text \<open>The enumerators in the order of their values.\<close>

definition phase_classes :: "phase_class list" where
  "phase_classes = [PC_Unknown, PC_ForwardComm, PC_BackwardComm, PC_GradientSync, PC_ParameterSync,
     PC_PipelineTransfer, PC_DataIngest, PC_Checkpoint, PC_Recovery, PC_Control]"

definition kPhaseClassCount :: nat where "kPhaseClassCount = 10"

primrec phase_class_raw :: "phase_class \<Rightarrow> nat" where
  "phase_class_raw PC_Unknown = 0"
| "phase_class_raw PC_ForwardComm = 1"
| "phase_class_raw PC_BackwardComm = 2"
| "phase_class_raw PC_GradientSync = 3"
| "phase_class_raw PC_ParameterSync = 4"
| "phase_class_raw PC_PipelineTransfer = 5"
| "phase_class_raw PC_DataIngest = 6"
| "phase_class_raw PC_Checkpoint = 7"
| "phase_class_raw PC_Recovery = 8"
| "phase_class_raw PC_Control = 9"

primrec phase_class_name :: "phase_class \<Rightarrow> string" where
  "phase_class_name PC_Unknown = ''UNKNOWN''"
| "phase_class_name PC_ForwardComm = ''FORWARD_COMM''"
| "phase_class_name PC_BackwardComm = ''BACKWARD_COMM''"
| "phase_class_name PC_GradientSync = ''GRADIENT_SYNC''"
| "phase_class_name PC_ParameterSync = ''PARAMETER_SYNC''"
| "phase_class_name PC_PipelineTransfer = ''PIPELINE_TRANSFER''"
| "phase_class_name PC_DataIngest = ''DATA_INGEST''"
| "phase_class_name PC_Checkpoint = ''CHECKPOINT''"
| "phase_class_name PC_Recovery = ''RECOVERY''"
| "phase_class_name PC_Control = ''CONTROL''"

lemma phase_classes_nth: "phase_classes ! phase_class_raw c = c"
  by (cases c) (simp_all add: phase_classes_def)

lemma phase_class_raw_less: "phase_class_raw c < kPhaseClassCount"
  by (cases c) (simp_all add: kPhaseClassCount_def)

text \<open>The class and whether the label was one of the canonical spellings.\<close>

definition parse_phase_class :: "bytes \<Rightarrow> phase_class \<times> bool" where
  "parse_phase_class label =
     (case match_any label (map (ascii \<circ> phase_class_name) phase_classes) of
        None \<Rightarrow> (PC_Unknown, False)
      | Some index \<Rightarrow> (phase_classes ! index, True))"

datatype sync_criticality = SyncUnknown | SyncBestEffort | SyncSoft | SyncHard

primrec sync_criticality_raw :: "sync_criticality \<Rightarrow> nat" where
  "sync_criticality_raw SyncUnknown = 0"
| "sync_criticality_raw SyncBestEffort = 1"
| "sync_criticality_raw SyncSoft = 2"
| "sync_criticality_raw SyncHard = 3"

primrec sync_criticality_name :: "sync_criticality \<Rightarrow> string" where
  "sync_criticality_name SyncUnknown = ''UNKNOWN''"
| "sync_criticality_name SyncBestEffort = ''BEST_EFFORT''"
| "sync_criticality_name SyncSoft = ''SOFT''"
| "sync_criticality_name SyncHard = ''HARD''"

definition parse_sync_criticality :: "bytes \<Rightarrow> sync_criticality" where
  "parse_sync_criticality label =
     (let values = [SyncUnknown, SyncBestEffort, SyncSoft, SyncHard]
      in case match_any label (map (ascii \<circ> sync_criticality_name) values) of
           None \<Rightarrow> SyncUnknown
         | Some index \<Rightarrow> values ! index)"

record sync_deadline =
  sd_deadline_at :: logical_time
  sd_slack_ticks :: u64

definition has_deadline :: "sync_deadline \<Rightarrow> bool" where
  "has_deadline d \<longleftrightarrow> sd_deadline_at d \<noteq> 0"

datatype phase_disposition = PhaseOpen | PhaseCompleted | PhaseCancelled | PhaseFenced

text \<open>\<^verbatim>\<open>PhaseDisposition::Unknown\<close>, the value of a phase that is still open, is \<open>PhaseOpen\<close>.\<close>

primrec phase_disposition_raw :: "phase_disposition \<Rightarrow> nat" where
  "phase_disposition_raw PhaseOpen = 0"
| "phase_disposition_raw PhaseCompleted = 1"
| "phase_disposition_raw PhaseCancelled = 2"
| "phase_disposition_raw PhaseFenced = 3"

primrec phase_disposition_name :: "phase_disposition \<Rightarrow> string" where
  "phase_disposition_name PhaseOpen = ''UNKNOWN''"
| "phase_disposition_name PhaseCompleted = ''COMPLETED''"
| "phase_disposition_name PhaseCancelled = ''CANCELLED''"
| "phase_disposition_name PhaseFenced = ''FENCED''"

record phase_spec =
  ps_cls :: phase_class
  ps_group :: parallelism_group_id
  ps_criticality :: sync_criticality
  ps_deadline :: sync_deadline
  ps_hint :: bytes

definition phase_spec_validate :: "phase_spec \<Rightarrow> status" where
  "phase_spec_validate s =
     rbind (validate_text (ps_hint s) kMaxStringBytes) (\<lambda>_.
     checks [(valid (ps_group s), EC_InvalidArgument),
             (\<not> sd_slack_ticks (ps_deadline s) > 2 ^ 40, EC_OutOfRange)])"

record phase_record =
  pr_id :: phase_id
  pr_step :: training_step_id
  pr_spec :: phase_spec
  pr_opened_at :: logical_time
  pr_closed_at :: logical_time
  pr_disposition :: phase_disposition

definition phase_active :: "phase_record \<Rightarrow> bool" where
  "phase_active p \<longleftrightarrow> pr_disposition p = PhaseOpen"

section \<open>Parallelism groups\<close>

datatype parallelism_kind = PK_Unknown | PK_Data | PK_Tensor | PK_Pipeline | PK_Expert
  | PK_ContextReplica | PK_OptimizerShard

definition parallelism_kinds :: "parallelism_kind list" where
  "parallelism_kinds = [PK_Unknown, PK_Data, PK_Tensor, PK_Pipeline, PK_Expert, PK_ContextReplica,
     PK_OptimizerShard]"

primrec parallelism_kind_raw :: "parallelism_kind \<Rightarrow> nat" where
  "parallelism_kind_raw PK_Unknown = 0"
| "parallelism_kind_raw PK_Data = 1"
| "parallelism_kind_raw PK_Tensor = 2"
| "parallelism_kind_raw PK_Pipeline = 3"
| "parallelism_kind_raw PK_Expert = 4"
| "parallelism_kind_raw PK_ContextReplica = 5"
| "parallelism_kind_raw PK_OptimizerShard = 6"

primrec parallelism_kind_name :: "parallelism_kind \<Rightarrow> string" where
  "parallelism_kind_name PK_Unknown = ''UNKNOWN''"
| "parallelism_kind_name PK_Data = ''DATA''"
| "parallelism_kind_name PK_Tensor = ''TENSOR''"
| "parallelism_kind_name PK_Pipeline = ''PIPELINE''"
| "parallelism_kind_name PK_Expert = ''EXPERT''"
| "parallelism_kind_name PK_ContextReplica = ''CONTEXT_REPLICA''"
| "parallelism_kind_name PK_OptimizerShard = ''OPTIMIZER_SHARD''"

definition parse_parallelism_kind :: "bytes \<Rightarrow> parallelism_kind \<times> bool" where
  "parse_parallelism_kind label =
     (case match_any label (map (ascii \<circ> parallelism_kind_name) parallelism_kinds) of
        None \<Rightarrow> (PK_Unknown, False)
      | Some index \<Rightarrow> (parallelism_kinds ! index, True))"

record parallelism_group =
  pg_id :: parallelism_group_id
  pg_job :: training_job_id
  pg_kind :: parallelism_kind
  pg_member_count :: u32
  pg_name :: bytes

definition group_validate_limits :: "parallelism_group \<Rightarrow> status" where
  "group_validate_limits g =
     rbind (checks [(valid (pg_id g), EC_InvalidArgument),
                    (pg_member_count g \<noteq> 0, EC_InvalidArgument),
                    (\<not> pg_member_count g > 2 ^ 22, EC_OutOfRange)]) (\<lambda>_.
     validate_text (pg_name g) kMaxStringBytes)"

definition group_validate :: "parallelism_group \<Rightarrow> status" where
  "group_validate g =
     rbind (check (valid (pg_job g)) EC_InvalidArgument) (\<lambda>_. group_validate_limits g)"

section \<open>Workload contracts\<close>

record workload_contract =
  wc_job :: training_job_id
  wc_generation :: workload_contract_generation
  wc_name :: bytes
  wc_max_parallelism_groups :: u32
  wc_max_phases_per_step :: u32
  wc_max_intents_per_step :: u32
  wc_max_active_flows_per_step :: u32
  wc_max_bytes_per_step :: u64
  wc_max_bytes_per_intent :: u64
  wc_history_steps :: u32
  wc_allow_unknown_phase :: bool

definition default_contract :: workload_contract where
  "default_contract = \<lparr>wc_job = 0, wc_generation = 0, wc_name = [], wc_max_parallelism_groups = 64,
     wc_max_phases_per_step = 64, wc_max_intents_per_step = 4096,
     wc_max_active_flows_per_step = 1024, wc_max_bytes_per_step = 2 ^ 40,
     wc_max_bytes_per_intent = 2 ^ 38, wc_history_steps = 16, wc_allow_unknown_phase = False\<rparr>"

definition contract_validate_limits :: "workload_contract \<Rightarrow> status" where
  "contract_validate_limits c =
     rbind (validate_text (wc_name c) kMaxStringBytes) (\<lambda>_.
     checks
      [(\<not> (wc_max_parallelism_groups c = 0 \<or> wc_max_parallelism_groups c > 2 ^ 16), EC_OutOfRange),
       (\<not> (wc_max_phases_per_step c = 0 \<or> wc_max_phases_per_step c > 2 ^ 16), EC_OutOfRange),
       (\<not> (wc_max_intents_per_step c = 0 \<or> wc_max_intents_per_step c > 2 ^ 24), EC_OutOfRange),
       (\<not> (wc_max_active_flows_per_step c = 0 \<or> wc_max_active_flows_per_step c > 2 ^ 24), EC_OutOfRange),
       (\<not> (wc_max_bytes_per_step c = 0 \<or> wc_max_bytes_per_step c > 2 ^ 60), EC_OutOfRange),
       (\<not> (wc_max_bytes_per_intent c = 0 \<or> wc_max_bytes_per_intent c > wc_max_bytes_per_step c), EC_OutOfRange),
       (\<not> (wc_history_steps c = 0 \<or> wc_history_steps c > 1024), EC_OutOfRange)])"

definition contract_validate :: "workload_contract \<Rightarrow> status" where
  "contract_validate c =
     rbind (check (valid (wc_job c)) EC_InvalidArgument) (\<lambda>_. contract_validate_limits c)"

section \<open>Topology evidence\<close>

text \<open>The sanity bounds of \<^verbatim>\<open>decision.hpp\<close> on rates and sizes.\<close>

definition kMaxRateBps :: u64 where "kMaxRateBps = 1000000000000000"
definition kMaxIntentBytes :: u64 where "kMaxIntentBytes = 2 ^ 50"

datatype evidence_label = EvUnsupported | EvSynthetic | EvReal

primrec evidence_label_raw :: "evidence_label \<Rightarrow> nat" where
  "evidence_label_raw EvUnsupported = 0"
| "evidence_label_raw EvSynthetic = 1"
| "evidence_label_raw EvReal = 2"

primrec evidence_label_name :: "evidence_label \<Rightarrow> string" where
  "evidence_label_name EvUnsupported = ''UNSUPPORTED''"
| "evidence_label_name EvSynthetic = ''SYNTHETIC''"
| "evidence_label_name EvReal = ''REAL''"

definition parse_evidence_label :: "bytes \<Rightarrow> evidence_label" where
  "parse_evidence_label label =
     (let values = [EvUnsupported, EvSynthetic, EvReal]
      in case match_any label (map (ascii \<circ> evidence_label_name) values) of
           None \<Rightarrow> EvUnsupported
         | Some index \<Rightarrow> values ! index)"

record link_capacity =
  lc_group :: parallelism_group_id
  lc_capacity_bps :: u64
  lc_reserved_bps :: u64
  lc_label :: evidence_label
  lc_source :: bytes

definition available_bps :: "link_capacity \<Rightarrow> u64" where
  "available_bps l =
     (if lc_capacity_bps l > lc_reserved_bps l then lc_capacity_bps l - lc_reserved_bps l else 0)"

definition link_validate :: "link_capacity \<Rightarrow> status" where
  "link_validate l =
     rbind (checks [(valid (lc_group l), EC_InvalidArgument),
                    (\<not> lc_capacity_bps l > kMaxRateBps, EC_OutOfRange),
                    (\<not> lc_reserved_bps l > lc_capacity_bps l, EC_InvalidArgument)]) (\<lambda>_.
     validate_text (lc_source l) kMaxStringBytes)"

record topology_evidence =
  te_generation :: topology_generation
  te_job :: training_job_id
  te_label :: evidence_label
  te_links :: "link_capacity list"

definition no_topology :: topology_evidence where
  "no_topology = \<lparr>te_generation = 0, te_job = 0, te_label = EvUnsupported, te_links = []\<rparr>"

text \<open>\<^verbatim>\<open>std::lower_bound\<close>: halve the range until it is empty.\<close>

function lower_bound :: "('a \<Rightarrow> bool) \<Rightarrow> 'a list \<Rightarrow> nat \<Rightarrow> nat \<Rightarrow> nat" where
  "lower_bound below xs first len =
     (if len = 0 then first
      else let half = len div 2; it = first + half
           in if below (xs ! it) then lower_bound below xs (Suc it) (len - Suc half)
              else lower_bound below xs first half)"
  by pat_completeness auto
termination
  by (relation "measure (\<lambda>(below, xs, first, len). len)") auto

declare lower_bound.simps [simp del]

definition topology_find :: "topology_evidence \<Rightarrow> parallelism_group_id \<Rightarrow> link_capacity option" where
  "topology_find t g =
     (let links = te_links t;
          it = lower_bound (\<lambda>link. lc_group link < g) links 0 (length links)
      in if it = length links \<or> lc_group (links ! it) \<noteq> g then None else Some (links ! it))"

text \<open>Each record is validated, then compared with the one before it.\<close>

primrec validate_links_after :: "link_capacity option \<Rightarrow> link_capacity list \<Rightarrow> status" where
  "validate_links_after prev [] = Inr ()"
| "validate_links_after prev (l # ls) =
     rbind (link_validate l) (\<lambda>_.
     rbind (check (\<not> (case prev of None \<Rightarrow> False | Some p \<Rightarrow> lc_group p \<ge> lc_group l)) EC_Conflict) (\<lambda>_.
     validate_links_after (Some l) ls))"

definition validate_links :: "topology_evidence \<Rightarrow> status" where
  "validate_links t =
     rbind (check (\<not> length (te_links t) > kMaxCollectionItems) EC_TooLarge) (\<lambda>_.
     validate_links_after None (te_links t))"

definition topology_validate :: "topology_evidence \<Rightarrow> status" where
  "topology_validate t =
     rbind (checks [(valid (te_generation t), EC_InvalidArgument),
                    (valid (te_job t), EC_InvalidArgument)]) (\<lambda>_. validate_links t)"

section \<open>The lookup finds exactly the record of a group\<close>

text \<open>Where the test holds on a prefix of the range, the search returns its length.\<close>

lemma lower_bound_boundary:
  assumes "first \<le> k" and "k \<le> first + len"
    and "\<And>i. first \<le> i \<Longrightarrow> i < first + len \<Longrightarrow> below (xs ! i) \<longleftrightarrow> i < k"
  shows "lower_bound below xs first len = k"
  using assms
proof (induction below xs first len rule: lower_bound.induct)
  case (1 below xs first len)
  let ?half = "len div 2"
  show ?case
  proof (cases "len = 0")
    case True
    with "1.prems"(1,2) show ?thesis by (simp add: lower_bound.simps)
  next
    case False
    then have it: "first + ?half < first + len" by simp
    show ?thesis
    proof (cases "below (xs ! (first + ?half))")
      case True
      then have "first + ?half < k" using "1.prems"(3) it by simp
      then have "lower_bound below xs (Suc (first + ?half)) (len - Suc ?half) = k"
        using "1.prems" False True by (intro "1.IH"(1)) auto
      with False True show ?thesis by (simp add: lower_bound.simps [of below xs first len] Let_def)
    next
      case below: False
      then have "k \<le> first + ?half" using "1.prems"(3) it by (simp add: not_less)
      then have "lower_bound below xs first ?half = k"
        using "1.prems" False below by (intro "1.IH"(2)) auto
      with False below show ?thesis by (simp add: lower_bound.simps [of below xs first len] Let_def)
    qed
  qed
qed

definition links_ascending :: "link_capacity list \<Rightarrow> bool" where
  "links_ascending ls \<longleftrightarrow> sorted_wrt (\<lambda>a b. lc_group a < lc_group b) ls"

lemma validate_links_after_Inr:
  "validate_links_after prev ls = Inr u \<Longrightarrow>
     links_ascending ls \<and> (\<forall>l \<in> set ls. link_validate l = Inr ()) \<and>
     (\<forall>p. prev = Some p \<longrightarrow> (\<forall>l \<in> set ls. lc_group p < lc_group l))"
proof (induction ls arbitrary: prev)
  case Nil
  then show ?case by (simp add: links_ascending_def)
next
  case (Cons l ls)
  then have "links_ascending ls \<and> (\<forall>m \<in> set ls. link_validate m = Inr ()) \<and>
      (\<forall>m \<in> set ls. lc_group l < lc_group m)"
    using Cons.IH [of "Some l"] by auto
  with Cons.prems show ?case
    by (auto simp: links_ascending_def not_le split: option.splits)
qed

lemma validate_links_Inr:
  "validate_links t = Inr u \<Longrightarrow>
     links_ascending (te_links t) \<and> (\<forall>l \<in> set (te_links t). link_validate l = Inr ())"
  by (auto simp: validate_links_def dest: validate_links_after_Inr)

lemma topology_find_eq_find:
  assumes "links_ascending (te_links t)"
  shows "topology_find t g = find (\<lambda>l. lc_group l = g) (te_links t)"
proof -
  let ?ls = "te_links t"
  let ?P = "\<lambda>l. lc_group l < g"
  define k where "k = length (takeWhile ?P ?ls)"
  have kle: "k \<le> length ?ls" unfolding k_def by (rule length_takeWhile_le)
  have mono: "lc_group (?ls ! i) < lc_group (?ls ! j)" if "i < j" "j < length ?ls" for i j
    using assms that unfolding links_ascending_def by (rule sorted_wrt_nth_less)
  have below: "?P (?ls ! i) \<longleftrightarrow> i < k" if i: "i < length ?ls" for i
  proof
    assume "i < k"
    then show "?P (?ls ! i)"
      unfolding k_def by (metis nth_mem set_takeWhileD takeWhile_nth)
  next
    assume P: "?P (?ls ! i)"
    show "i < k"
    proof (rule ccontr)
      assume "\<not> i < k"
      then have "k < length ?ls" "k \<le> i" using i by auto
      then have "\<not> ?P (?ls ! k)" unfolding k_def by (metis nth_length_takeWhile)
      with P mono [of k i] i \<open>k \<le> i\<close> show False by (cases "k = i") auto
    qed
  qed
  have lb: "lower_bound ?P ?ls 0 (length ?ls) = k"
    by (rule lower_bound_boundary) (use kle below in auto)
  show ?thesis
  proof (cases "k < length ?ls \<and> lc_group (?ls ! k) = g")
    case True
    have "lc_group (?ls ! j) \<noteq> g" if "j < k" for j
      using below [of j] that kle by (metis less_irrefl order_less_le_trans)
    with True have "find (\<lambda>l. lc_group l = g) ?ls = Some (?ls ! k)"
      unfolding find_Some_iff by blast
    with True lb show ?thesis by (simp add: topology_find_def Let_def)
  next
    case False
    have "lc_group l \<noteq> g" if "l \<in> set ?ls" for l
    proof
      assume g: "lc_group l = g"
      from that obtain i where i: "i < length ?ls" "?ls ! i = l" by (metis in_set_conv_nth)
      then have "k \<le> i" using g below [of i] by (metis less_irrefl not_less)
      moreover have "\<not> ?P (?ls ! k)" if "k < length ?ls" using below [OF that] by simp
      ultimately show False using False g i mono [of k i]
        by (metis le_eq_less_or_eq le_less_trans not_less_iff_gr_or_eq)
    qed
    then have "find (\<lambda>l. lc_group l = g) ?ls = None" by (simp add: find_None_iff)
    with False lb kle show ?thesis by (auto simp: topology_find_def Let_def)
  qed
qed

lemma topology_find_group: "topology_find t g = Some l \<Longrightarrow> lc_group l = g"
  by (auto simp: topology_find_def Let_def split: if_splits)

lemma link_validate_bound: "link_validate l = Inr u \<Longrightarrow> available_bps l \<le> kMaxRateBps"
  by (auto simp: link_validate_def available_bps_def word_le_nat_alt unat_sub not_less)

end
