(* ===== verification/Policy.thy ===== *)
theory Policy
  imports Model
begin

text \<open>
  \<^verbatim>\<open>include/ttf/policy.hpp\<close> and its part of \<^verbatim>\<open>src/model.cpp\<close>: service classes, the
  policy document with its validation and lookups, and the policy the runtime ships with.
  A valid policy has an answer for every phase class, keeps unknown phases best effort and
  orders its classes totally by priority.
\<close>

section \<open>Service classes\<close>

datatype service_class = SC_Unknown | SC_BestEffort | SC_DataIngest | SC_PipelineTransfer
  | SC_ActivationTransfer | SC_Checkpoint | SC_ParameterSync | SC_GradientSync | SC_Recovery
  | SC_Barrier | SC_Control

definition service_classes :: "service_class list" where
  "service_classes = [SC_Unknown, SC_BestEffort, SC_DataIngest, SC_PipelineTransfer,
     SC_ActivationTransfer, SC_Checkpoint, SC_ParameterSync, SC_GradientSync, SC_Recovery,
     SC_Barrier, SC_Control]"

definition kServiceClassCount :: nat where "kServiceClassCount = 11"

primrec service_class_raw :: "service_class \<Rightarrow> nat" where
  "service_class_raw SC_Unknown = 0"
| "service_class_raw SC_BestEffort = 1"
| "service_class_raw SC_DataIngest = 2"
| "service_class_raw SC_PipelineTransfer = 3"
| "service_class_raw SC_ActivationTransfer = 4"
| "service_class_raw SC_Checkpoint = 5"
| "service_class_raw SC_ParameterSync = 6"
| "service_class_raw SC_GradientSync = 7"
| "service_class_raw SC_Recovery = 8"
| "service_class_raw SC_Barrier = 9"
| "service_class_raw SC_Control = 10"

primrec service_class_name :: "service_class \<Rightarrow> string" where
  "service_class_name SC_Unknown = ''UNKNOWN''"
| "service_class_name SC_BestEffort = ''BEST_EFFORT''"
| "service_class_name SC_DataIngest = ''DATA_INGEST''"
| "service_class_name SC_PipelineTransfer = ''PIPELINE_TRANSFER''"
| "service_class_name SC_ActivationTransfer = ''ACTIVATION_TRANSFER''"
| "service_class_name SC_Checkpoint = ''CHECKPOINT''"
| "service_class_name SC_ParameterSync = ''PARAMETER_SYNC''"
| "service_class_name SC_GradientSync = ''GRADIENT_SYNC''"
| "service_class_name SC_Recovery = ''RECOVERY''"
| "service_class_name SC_Barrier = ''BARRIER''"
| "service_class_name SC_Control = ''CONTROL''"

definition parse_service_class :: "bytes \<Rightarrow> service_class option" where
  "parse_service_class label =
     map_option ((!) service_classes) (match_any label (map (ascii \<circ> service_class_name) service_classes))"

record service_class_spec =
  scs_cls :: service_class
  scs_priority :: u8
  scs_weight :: u32
  scs_floor_bps :: u64
  scs_ceiling_bps :: u64
  scs_isolation_ceiling_bps :: u64
  scs_preemptible :: bool
  scs_barrier_critical :: bool
  scs_deferrable :: bool

definition spec_validate :: "service_class_spec \<Rightarrow> status" where
  "spec_validate s =
     checks [(scs_cls s \<noteq> SC_Unknown, EC_InvalidArgument),
             (\<not> scs_priority s > 200, EC_OutOfRange),
             (scs_weight s \<noteq> 0, EC_InvalidArgument),
             (\<not> (scs_ceiling_bps s \<noteq> 0 \<and> scs_ceiling_bps s < scs_floor_bps s), EC_InvalidArgument),
             (\<not> (scs_ceiling_bps s > kMaxRateBps \<or> scs_floor_bps s > kMaxRateBps), EC_OutOfRange)]"

section \<open>Policy documents\<close>

text \<open>\<open>pd_phase_class_map\<close> is the array indexed by phase class, of length ten.\<close>

record policy_document =
  pd_generation :: policy_generation
  pd_phase_class_map :: "service_class list"
  pd_classes :: "service_class_spec list"
  pd_unknown_phase_ceiling_bps :: u64
  pd_checkpoint_isolation_priority :: u8
  pd_strict_generation_invalidation :: bool
  pd_allow_preemption :: bool
  pd_max_active_flows_per_step :: u32
  pd_max_history_steps :: u32
  pd_max_explanation_clauses :: u32
  pd_defer_backoff_ticks :: u64

definition policy_find :: "policy_document \<Rightarrow> service_class \<Rightarrow> service_class_spec option" where
  "policy_find p cls = find (\<lambda>s. scs_cls s = cls) (pd_classes p)"

definition class_for_phase :: "policy_document \<Rightarrow> phase_class \<Rightarrow> service_class" where
  "class_for_phase p cls =
     (let index = phase_class_raw cls
      in if index \<ge> length (pd_phase_class_map p) then SC_BestEffort else pd_phase_class_map p ! index)"

primrec validate_specs :: "service_class_spec list \<Rightarrow> status" where
  "validate_specs [] = Inr ()"
| "validate_specs (s # ss) = rbind (spec_validate s) (\<lambda>_. validate_specs ss)"

text \<open>The two nested loops: every pair of definitions differs in priority and in class.\<close>

primrec validate_unique :: "service_class_spec list \<Rightarrow> status" where
  "validate_unique [] = Inr ()"
| "validate_unique (s # ss) =
     rbind (checks (concat (map (\<lambda>t. [(scs_priority s \<noteq> scs_priority t, EC_Conflict),
                                      (scs_cls s \<noteq> scs_cls t, EC_Conflict)]) ss)))
       (\<lambda>_. validate_unique ss)"

primrec validate_mapped :: "policy_document \<Rightarrow> service_class list \<Rightarrow> status" where
  "validate_mapped p [] = Inr ()"
| "validate_mapped p (c # cs) =
     rbind (checks [(c \<noteq> SC_Unknown, EC_InvalidArgument),
                    (policy_find p c \<noteq> None, EC_InvalidArgument)]) (\<lambda>_. validate_mapped p cs)"

definition policy_validate :: "policy_document \<Rightarrow> status" where
  "policy_validate p =
     rbind (checks [(valid (pd_generation p), EC_InvalidArgument),
                    (pd_classes p \<noteq> [], EC_InvalidArgument)]) (\<lambda>_.
     rbind (validate_specs (pd_classes p)) (\<lambda>_.
     rbind (validate_unique (pd_classes p)) (\<lambda>_.
     rbind (check (pd_phase_class_map p ! phase_class_raw PC_Unknown = SC_BestEffort)
              EC_ConservativeUnknownPhase) (\<lambda>_.
     rbind (validate_mapped p (pd_phase_class_map p)) (\<lambda>_.
     checks
      [(\<not> pd_unknown_phase_ceiling_bps p > kMaxRateBps, EC_OutOfRange),
       (\<not> (pd_max_explanation_clauses p = 0 \<or> pd_max_explanation_clauses p > 64), EC_OutOfRange),
       (\<not> (pd_max_history_steps p = 0 \<or> pd_max_history_steps p > 1024), EC_OutOfRange),
       (\<not> (pd_max_active_flows_per_step p = 0 \<or> pd_max_active_flows_per_step p > 2 ^ 24), EC_OutOfRange),
       (\<not> (pd_defer_backoff_ticks p = 0 \<or> pd_defer_backoff_ticks p > 2 ^ 24), EC_OutOfRange)])))))"

definition default_spec ::
  "service_class \<Rightarrow> u8 \<Rightarrow> u32 \<Rightarrow> u64 \<Rightarrow> u64 \<Rightarrow> u64 \<Rightarrow> bool \<Rightarrow> bool \<Rightarrow> bool \<Rightarrow> service_class_spec" where
  "default_spec cls priority weight flr ceil isolation preemptible barrier deferrable =
     \<lparr>scs_cls = cls, scs_priority = priority, scs_weight = weight, scs_floor_bps = flr,
      scs_ceiling_bps = ceil, scs_isolation_ceiling_bps = isolation, scs_preemptible = preemptible,
      scs_barrier_critical = barrier, scs_deferrable = deferrable\<rparr>"

definition default_classes :: "service_class_spec list" where
  "default_classes =
    [default_spec SC_Control 0 4 0 0 0 False True False,
     default_spec SC_Barrier 1 8 0 0 0 False True False,
     default_spec SC_Recovery 2 8 0 0 0 False True True,
     default_spec SC_GradientSync 3 16 0 0 0 False False True,
     default_spec SC_ParameterSync 4 16 0 0 0 False False True,
     default_spec SC_Checkpoint 5 8 0 0 kMaxRateBps True False False,
     default_spec SC_ActivationTransfer 6 12 0 0 0 True False True,
     default_spec SC_PipelineTransfer 7 12 0 0 0 True False True,
     default_spec SC_DataIngest 8 4 0 0 0 True False True,
     default_spec SC_BestEffort 9 1 0 0 0 True False True]"

definition make_default_policy :: "policy_generation \<Rightarrow> policy_document" where
  "make_default_policy generation =
     \<lparr>pd_generation = generation,
      pd_phase_class_map = [SC_BestEffort, SC_ActivationTransfer, SC_ActivationTransfer,
        SC_GradientSync, SC_ParameterSync, SC_PipelineTransfer, SC_DataIngest, SC_Checkpoint,
        SC_Recovery, SC_Control],
      pd_classes = default_classes,
      pd_unknown_phase_ceiling_bps = 1000000000,
      pd_checkpoint_isolation_priority = 2,
      pd_strict_generation_invalidation = True,
      pd_allow_preemption = True,
      pd_max_active_flows_per_step = 4096,
      pd_max_history_steps = 32,
      pd_max_explanation_clauses = 8,
      pd_defer_backoff_ticks = 4\<rparr>"

section \<open>What a valid policy guarantees\<close>

text \<open>The array has its fixed length; the type of the C++ member guarantees it.\<close>

definition policy_shape :: "policy_document \<Rightarrow> bool" where
  "policy_shape p \<longleftrightarrow> length (pd_phase_class_map p) = kPhaseClassCount"

definition policy_ok :: "policy_document \<Rightarrow> bool" where
  "policy_ok p \<longleftrightarrow> policy_shape p \<and> policy_validate p = Inr ()"

lemma validate_specs_Inr: "validate_specs ss = Inr u \<Longrightarrow> s \<in> set ss \<Longrightarrow> spec_validate s = Inr ()"
  by (induction ss) auto

lemma validate_mapped_Inr:
  "validate_mapped p cs = Inr u \<Longrightarrow> c \<in> set cs \<Longrightarrow> c \<noteq> SC_Unknown \<and> policy_find p c \<noteq> None"
  by (induction cs) auto

lemma validate_unique_Inr:
  "validate_unique ss = Inr u \<Longrightarrow> distinct (map scs_priority ss) \<and> distinct (map scs_cls ss)"
  by (induction ss) fastforce+

lemma policy_find_mem: "policy_find p c = Some s \<Longrightarrow> s \<in> set (pd_classes p) \<and> scs_cls s = c"
  by (auto simp: policy_find_def find_Some_iff)

lemma policy_okD:
  assumes "policy_ok p"
  shows "valid (pd_generation p)"
    and "\<And>s. s \<in> set (pd_classes p) \<Longrightarrow> spec_validate s = Inr ()"
    and "distinct (map scs_priority (pd_classes p))"
    and "pd_unknown_phase_ceiling_bps p \<le> kMaxRateBps"
    and "pd_max_active_flows_per_step p \<le> 2 ^ 24"
  using assms
  by (auto simp: policy_ok_def policy_validate_def not_less dest: validate_specs_Inr validate_unique_Inr)

lemma policy_find_valid:
  assumes "policy_ok p" and "policy_find p c = Some s"
  shows "scs_cls s \<noteq> SC_Unknown" and "scs_priority s \<le> 200"
    and "scs_floor_bps s \<le> kMaxRateBps" and "scs_ceiling_bps s \<le> kMaxRateBps"
  using policy_okD(2) [OF assms(1)] policy_find_mem [OF assms(2)]
  by (auto simp: spec_validate_def not_less)

lemma class_for_phase_defined:
  assumes "policy_ok p"
  shows "class_for_phase p c \<noteq> SC_Unknown \<and> policy_find p (class_for_phase p c) \<noteq> None"
proof -
  have "phase_class_raw c < length (pd_phase_class_map p)"
    using assms phase_class_raw_less [of c] by (simp add: policy_ok_def policy_shape_def)
  then have "class_for_phase p c \<in> set (pd_phase_class_map p)"
    by (simp add: class_for_phase_def Let_def)
  with assms show ?thesis
    by (auto simp: policy_ok_def policy_validate_def dest: validate_mapped_Inr)
qed

lemma class_for_unknown_phase:
  assumes "policy_ok p"
  shows "class_for_phase p PC_Unknown = SC_BestEffort"
  using assms by (auto simp: policy_ok_def policy_validate_def class_for_phase_def policy_shape_def
      kPhaseClassCount_def)

lemma policy_priority_inject:
  assumes "policy_ok p" and "s \<in> set (pd_classes p)" and "t \<in> set (pd_classes p)"
    and "scs_priority s = scs_priority t"
  shows "s = t"
  using assms policy_okD(3) [OF assms(1)] by (metis distinct_map inj_onD)

lemma default_policy_ok:
  assumes "valid g"
  shows "policy_ok (make_default_policy g)"
  using assms
  by (simp add: policy_ok_def policy_shape_def kPhaseClassCount_def policy_validate_def
      make_default_policy_def default_classes_def default_spec_def spec_validate_def check_def
      policy_find_def kMaxRateBps_def)

end
