(* ===== verification/Records.thy ===== *)
theory Records
  imports Policy
begin

text \<open>
  The requests, results and evidence of the public interface: \<^verbatim>\<open>include/ttf/decision.hpp\<close>,
  \<^verbatim>\<open>accounting.hpp\<close> and the structures of \<^verbatim>\<open>fabric.hpp\<close>. Field prefixes abbreviate the
  structure; the constants at the end of a structure's group are its default member
  initializers.
\<close>

section \<open>Intents and decisions\<close>

datatype decision_outcome = Admit | Defer | Reject | Revalidate | Throttle

record traffic_intent =
  ti_authority :: authority_token
  ti_group :: parallelism_group_id
  ti_declared_phase_class :: phase_class
  ti_purpose :: bytes
  ti_min_bps :: u64
  ti_max_bps :: u64
  ti_bytes_estimate :: u64
  ti_participants :: u32
  ti_barrier_participant :: bool
  ti_preemptible :: bool
  ti_allow_defer :: bool

definition intent_validate :: "traffic_intent \<Rightarrow> status" where
  "intent_validate i =
     rbind (checks
      [(valid (ti_group i), EC_InvalidArgument),
       (valid (at_job (ti_authority i)), EC_InvalidArgument),
       (valid (at_step (ti_authority i)), EC_InvalidArgument),
       (valid (at_phase (ti_authority i)), EC_InvalidArgument),
       (valid (at_incarnation (ti_authority i)), EC_InvalidArgument),
       (\<not> ti_min_bps i > ti_max_bps i, EC_InvalidArgument),
       (\<not> ti_max_bps i > kMaxRateBps, EC_OutOfRange),
       (\<not> ti_bytes_estimate i > kMaxIntentBytes, EC_OutOfRange),
       (\<not> (ti_participants i = 0 \<or> ti_participants i > 2 ^ 22), EC_OutOfRange)]) (\<lambda>_.
     validate_text (ti_purpose i) kMaxStringBytes)"

lemma intent_validate_rates:
  assumes "intent_validate i = Inr ()"
  shows "ti_min_bps i \<le> ti_max_bps i" and "ti_max_bps i \<le> kMaxRateBps"
    and "ti_bytes_estimate i \<le> kMaxIntentBytes" and "valid (ti_group i)"
    and "valid (at_phase (ti_authority i))" and "valid (at_step (ti_authority i))"
  using assms by (auto simp: intent_validate_def not_less)

record traffic_decision =
  td_intent :: traffic_intent_id
  td_authority :: authority_token
  td_group :: parallelism_group_id
  td_phase :: phase_id
  td_phase_class :: phase_class
  td_contract_generation :: workload_contract_generation
  td_topology_generation :: topology_generation
  td_policy_generation :: policy_generation
  td_outcome :: decision_outcome
  td_reason :: error_code
  td_service_class :: service_class
  td_effective_priority :: u8
  td_granted_min_bps :: u64
  td_granted_max_bps :: u64
  td_bytes_estimate :: u64
  td_issued_at :: logical_time
  td_defer_until :: logical_time
  td_isolated :: bool
  td_invalidated :: bool
  td_burst :: checkpoint_burst_id
  td_evidence :: evidence_label
  td_explanation :: explanation

definition default_decision :: traffic_decision where
  "default_decision = \<lparr>td_intent = 0, td_authority = empty_token, td_group = 0, td_phase = 0,
     td_phase_class = PC_Unknown, td_contract_generation = 0, td_topology_generation = 0,
     td_policy_generation = 0, td_outcome = Reject, td_reason = EC_Internal,
     td_service_class = SC_Unknown, td_effective_priority = 255, td_granted_min_bps = 0,
     td_granted_max_bps = 0, td_bytes_estimate = 0, td_issued_at = 0, td_defer_until = 0,
     td_isolated = False, td_invalidated = False, td_burst = 0, td_evidence = EvUnsupported,
     td_explanation = []\<rparr>"

definition admitted :: "traffic_decision \<Rightarrow> bool" where
  "admitted d \<longleftrightarrow> td_outcome d = Admit \<or> td_outcome d = Throttle"

definition usable :: "traffic_decision \<Rightarrow> bool" where
  "usable d \<longleftrightarrow> admitted d \<and> \<not> td_invalidated d"

record flow_completion =
  fc_authority :: authority_token
  fc_intent :: traffic_intent_id
  fc_bytes_transferred :: u64
  fc_cancelled :: bool

record flow_receipt =
  fr_intent :: traffic_intent_id
  fr_accepted :: bool
  fr_reason :: error_code
  fr_at :: logical_time
  fr_bytes_credited :: u64
  fr_released_min_bps :: u64

section \<open>Accounting\<close>

record fence_event =
  fe_reason :: error_code
  fe_at :: logical_time
  fe_step :: training_step_id
  fe_phase :: phase_id
  fe_intent :: traffic_intent_id
  fe_observed_incarnation :: incarnation_id
  fe_current_incarnation :: incarnation_id
  fe_observed_epoch :: epoch_id
  fe_current_epoch :: epoch_id
  fe_sequence :: u64

record step_accounting =
  sa_step :: training_step_id
  sa_admitted :: u32
  sa_deferred :: u32
  sa_rejected :: u32
  sa_throttled :: u32
  sa_completed :: u32
  sa_cancelled :: u32
  sa_fenced :: u32
  sa_active_flows :: u32
  sa_bytes_requested :: u64
  sa_bytes_committed :: u64
  sa_bytes_completed :: u64
  sa_bytes_cancelled :: u64
  sa_granted_min_bps :: u64
  sa_active_min_bps :: u64
  sa_closed :: bool

definition empty_accounting :: "training_step_id \<Rightarrow> step_accounting" where
  "empty_accounting step = \<lparr>sa_step = step, sa_admitted = 0, sa_deferred = 0, sa_rejected = 0,
     sa_throttled = 0, sa_completed = 0, sa_cancelled = 0, sa_fenced = 0, sa_active_flows = 0,
     sa_bytes_requested = 0, sa_bytes_committed = 0, sa_bytes_completed = 0,
     sa_bytes_cancelled = 0, sa_granted_min_bps = 0, sa_active_min_bps = 0, sa_closed = False\<rparr>"

definition balanced :: "step_accounting \<Rightarrow> bool" where
  "balanced a \<longleftrightarrow> sa_active_flows a = 0 \<and> sa_active_min_bps a = 0 \<and>
     sa_bytes_committed a = sa_bytes_completed a + sa_bytes_cancelled a"

record phase_summary =
  su_id :: phase_id
  su_cls :: phase_class
  su_group :: parallelism_group_id
  su_criticality :: sync_criticality
  su_disposition :: phase_disposition
  su_opened_at :: logical_time
  su_closed_at :: logical_time
  su_admitted :: u32
  su_deferred :: u32
  su_rejected :: u32
  su_completed :: u32
  su_cancelled :: u32
  su_bytes_committed :: u64
  su_bytes_completed :: u64

definition kMaxRetainedFenceEvents :: u32 where "kMaxRetainedFenceEvents = 64"

record step_report =
  rp_job :: training_job_id
  rp_job_generation :: training_generation
  rp_step :: training_step_id
  rp_opened_at :: logical_time
  rp_closed_at :: logical_time
  rp_accounting :: step_accounting
  rp_phases :: "phase_summary list"
  rp_fences :: "fence_event list"
  rp_fences_observed :: u64
  rp_closed_with_cancellation :: bool

definition report_balanced :: "step_report \<Rightarrow> bool" where
  "report_balanced r = balanced (rp_accounting r)"

section \<open>Requests and results of the fabric\<close>

record job_handle =
  jh_job :: training_job_id
  jh_generation :: training_generation
  jh_contract_generation :: workload_contract_generation
  jh_incarnation :: incarnation_id
  jh_epoch :: epoch_id
  jh_topology_generation :: topology_generation
  jh_policy_generation :: policy_generation
  jh_boot :: boot_id
  jh_issued_at :: logical_time

record job_registration =
  jr_job :: training_job_id
  jr_name :: bytes
  jr_boot :: boot_id
  jr_contract :: workload_contract
  jr_incarnation :: incarnation_id
  jr_epoch :: epoch_id

record group_registration =
  gr_authority :: authority_token
  gr_group :: parallelism_group

record step_open_request =
  so_authority :: authority_token
  so_step :: training_step_id
  so_deadline_at :: logical_time
  so_slack_ticks :: u64

datatype step_disposition = StepCompleted | StepCancelled | StepFenced

record phase_open_request =
  po_authority :: authority_token
  po_spec :: phase_spec

record checkpoint_burst_request =
  cb_authority :: authority_token
  cb_group :: parallelism_group_id
  cb_expected_bytes :: u64
  cb_deadline_at :: logical_time
  cb_reason :: bytes

record pacing_intent =
  pi_authority :: authority_token
  pi_group :: parallelism_group_id
  pi_expected_participants :: u32
  pi_arrived_participants :: u32
  pi_grace_ticks :: u64
  pi_max_hold_ticks :: u64
  pi_release_on_deadline :: bool

record pacing_decision =
  pn_outcome :: decision_outcome
  pn_reason :: error_code
  pn_service_class :: service_class
  pn_effective_priority :: u8
  pn_stragglers :: u32
  pn_hold_until :: logical_time
  pn_evaluated_at :: logical_time
  pn_explanation :: explanation

record recovery_request =
  rr_job :: training_job_id
  rr_job_generation :: training_generation
  rr_new_boot :: boot_id
  rr_expected_retired_incarnation :: incarnation_id
  rr_epoch :: epoch_id
  rr_resume_step :: training_step_id
  rr_cause :: error_code

record recovery_grant =
  rg_job :: training_job_id
  rg_job_generation :: training_generation
  rg_new_incarnation :: incarnation_id
  rg_retired_incarnation :: incarnation_id
  rg_resume_step_floor :: training_step_id
  rg_epoch :: epoch_id
  rg_issued_at :: logical_time
  rg_cancelled_flows :: u32
  rg_fenced_operations :: u32
  rg_explanation :: explanation

record policy_apply_result =
  pa_generation :: policy_generation
  pa_decisions_invalidated :: u32
  pa_flows_cancelled :: u32
  pa_jobs_affected :: u32

record revalidation_result =
  rv_intent :: traffic_intent_id
  rv_still_valid :: bool
  rv_reason :: error_code
  rv_decision :: traffic_decision

record job_view =
  jv_job :: training_job_id
  jv_name :: bytes
  jv_generation :: training_generation
  jv_contract_generation :: workload_contract_generation
  jv_incarnation :: incarnation_id
  jv_boot :: boot_id
  jv_epoch :: epoch_id
  jv_topology_generation :: topology_generation
  jv_topology_label :: evidence_label
  jv_policy_generation :: policy_generation
  jv_last_closed_step :: training_step_id
  jv_current_step :: training_step_id
  jv_step_active :: bool
  jv_group_count :: u32
  jv_active_flows :: u32
  jv_active_min_bps :: u64
  jv_retained_steps :: u32
  jv_retired_incarnations :: u32
  jv_accounting :: step_accounting
  jv_open_phases :: "phase_summary list"
  jv_recent_fences :: "fence_event list"
  jv_group_utilized_bps_reported :: u32

record group_utilization_entry =
  gu_group :: parallelism_group_id
  gu_capacity_bps :: u64
  gu_reserved_bps :: u64
  gu_utilized_bps :: u64
  gu_active_flows :: u32
  gu_label :: evidence_label

end
