(* ===== verification/State.thy ===== *)
theory State
  imports Records
begin

text \<open>
  \<^verbatim>\<open>src/state.hpp\<close> and the configuration and counters of \<^verbatim>\<open>fabric.hpp\<close>: the state the
  fabric keeps under its one mutex. Hash maps are tables; \<^verbatim>\<open>unordered_set\<close> is a set;
  \<^verbatim>\<open>std::optional\<close> is an option. The handlers of the code hold references into the job
  and its open step at the same time as the state: the three are separate values here,
  and \<open>store_job\<close> writes them back.
\<close>

section \<open>Flows, phases and bursts of a step\<close>

record flow_state =
  fs_intent :: traffic_intent_id
  fs_group :: parallelism_group_id
  fs_phase :: phase_id
  fs_step :: training_step_id
  fs_incarnation :: incarnation_id
  fs_service_class :: service_class
  fs_effective_priority :: u8
  fs_granted_min_bps :: u64
  fs_granted_max_bps :: u64
  fs_bytes_estimate :: u64
  fs_granted_at :: logical_time
  fs_isolated :: bool
  fs_throttled :: bool

record phase_accounting =
  ph_admitted :: u32
  ph_deferred :: u32
  ph_rejected :: u32
  ph_throttled :: u32
  ph_completed :: u32
  ph_cancelled :: u32
  ph_bytes_committed :: u64
  ph_bytes_completed :: u64

definition empty_phase_accounting :: phase_accounting where
  "empty_phase_accounting = \<lparr>ph_admitted = 0, ph_deferred = 0, ph_rejected = 0, ph_throttled = 0,
     ph_completed = 0, ph_cancelled = 0, ph_bytes_committed = 0, ph_bytes_completed = 0\<rparr>"

record checkpoint_burst_state =
  bs_id :: checkpoint_burst_id
  bs_group :: parallelism_group_id
  bs_expected_bytes :: u64
  bs_opened_at :: logical_time
  bs_deadline_at :: logical_time
  bs_reason :: bytes
  bs_displaced_flows :: u32
  bs_throttled_flows :: u32
  bs_active :: bool

record step_state =
  ss_step :: training_step_id
  ss_job_generation :: training_generation
  ss_incarnation :: incarnation_id
  ss_opened_at :: logical_time
  ss_deadline_at :: logical_time
  ss_slack_ticks :: u64
  ss_phases :: "(phase_id, phase_record) table"
  ss_phase_order :: "phase_id list"
  ss_phase_accounting :: "(phase_id, phase_accounting) table"
  ss_flows :: "(traffic_intent_id, flow_state) table"
  ss_phase_active_flows :: "(phase_id, u32) table"
  ss_accounting :: step_accounting
  ss_fences :: "fence_event list"
  ss_fences_observed :: u64
  ss_intents_seen :: u64
  ss_burst :: "checkpoint_burst_state option"
  ss_closed :: bool

definition new_step ::
  "training_step_id \<Rightarrow> training_generation \<Rightarrow> incarnation_id \<Rightarrow> logical_time \<Rightarrow> logical_time \<Rightarrow> u64 \<Rightarrow> step_state"
where
  "new_step step generation incarnation opened_at deadline_at slack =
     \<lparr>ss_step = step, ss_job_generation = generation, ss_incarnation = incarnation,
      ss_opened_at = opened_at, ss_deadline_at = deadline_at, ss_slack_ticks = slack,
      ss_phases = [], ss_phase_order = [], ss_phase_accounting = [], ss_flows = [],
      ss_phase_active_flows = [], ss_accounting = empty_accounting step, ss_fences = [],
      ss_fences_observed = 0, ss_intents_seen = 0, ss_burst = None, ss_closed = False\<rparr>"

section \<open>Jobs\<close>

record retired_incarnation =
  ri_incarnation :: incarnation_id
  ri_boot :: boot_id
  ri_retired_at :: logical_time
  ri_cause :: error_code

record job_state =
  js_id :: training_job_id
  js_name :: bytes
  js_generation :: training_generation
  js_contract :: workload_contract
  js_incarnation :: incarnation_id
  js_boot :: boot_id
  js_epoch :: epoch_id
  js_retired :: bool
  js_groups :: "(parallelism_group_id, parallelism_group) table"
  js_group_order :: "parallelism_group_id list"
  js_group_utilized_bps :: "(parallelism_group_id, u64) table"
  js_group_active_flows :: "(parallelism_group_id, u32) table"
  js_topology :: topology_evidence
  js_retired_incarnations :: "retired_incarnation list"
  js_retired_set :: "incarnation_id set"
  js_highest_step :: training_step_id
  js_last_closed_step :: training_step_id
  js_step :: "step_state option"
  js_history :: "step_report list"
  js_decisions :: "(traffic_intent_id, traffic_decision) table"
  js_decision_order :: "traffic_intent_id list"
  js_receipts :: "(traffic_intent_id, flow_receipt) table"
  js_receipt_order :: "traffic_intent_id list"
  js_recent_fences :: "fence_event list"
  js_next_intent_id :: u64
  js_next_phase_id :: u64
  js_next_burst_id :: u64
  js_next_incarnation :: u64
  js_next_topology_generation :: u64
  js_pacing_records :: u32
  js_last_activity :: logical_time

section \<open>The fabric\<close>

record fabric_config =
  cf_max_jobs :: u32
  cf_max_retired_incarnations_per_job :: u32
  cf_max_decisions_retained_per_job :: u32
  cf_max_flow_receipts_per_job :: u32
  cf_max_fence_events_per_step :: u32
  cf_max_history_steps :: u32
  cf_max_explanation_clauses :: u32
  cf_max_pacing_records_per_job :: u32
  cf_start_time :: logical_time

definition default_config :: fabric_config where
  "default_config = \<lparr>cf_max_jobs = 256, cf_max_retired_incarnations_per_job = 64,
     cf_max_decisions_retained_per_job = 4096, cf_max_flow_receipts_per_job = 4096,
     cf_max_fence_events_per_step = kMaxRetainedFenceEvents, cf_max_history_steps = 32,
     cf_max_explanation_clauses = 8, cf_max_pacing_records_per_job = 256, cf_start_time = 0\<rparr>"

record fabric_stats =
  st_operations :: u64
  st_decisions_admitted :: u64
  st_decisions_deferred :: u64
  st_decisions_rejected :: u64
  st_decisions_throttled :: u64
  st_flows_completed :: u64
  st_flows_cancelled :: u64
  st_fenced_operations :: u64
  st_preemptions :: u64
  st_replay_rejections :: u64
  st_arbitration_scans :: u64
  st_decisions_retained :: u64
  st_decisions_evicted :: u64
  st_steps_closed :: u64
  st_policy_generation :: u64
  st_topology_generation :: u64

definition empty_stats :: fabric_stats where
  "empty_stats = \<lparr>st_operations = 0, st_decisions_admitted = 0, st_decisions_deferred = 0,
     st_decisions_rejected = 0, st_decisions_throttled = 0, st_flows_completed = 0,
     st_flows_cancelled = 0, st_fenced_operations = 0, st_preemptions = 0,
     st_replay_rejections = 0, st_arbitration_scans = 0, st_decisions_retained = 0,
     st_decisions_evicted = 0, st_steps_closed = 0, st_policy_generation = 0,
     st_topology_generation = 0\<rparr>"

record fabric_state =
  fb_config :: fabric_config
  fb_now :: logical_time
  fb_policy :: policy_document
  fb_jobs :: "(training_job_id, job_state) table"
  fb_stats :: fabric_stats
  fb_next_job_id :: u64

text \<open>The constructor of \<^verbatim>\<open>Fabric::Impl\<close>.\<close>

definition make_fabric :: "fabric_config \<Rightarrow> fabric_state" where
  "make_fabric config = \<lparr>fb_config = config, fb_now = cf_start_time config,
     fb_policy = make_default_policy 1, fb_jobs = [], fb_stats = empty_stats,
     fb_next_job_id = 1\<rparr>"

section \<open>Writing back\<close>

type_synonym work = "fabric_state \<times> job_state \<times> step_state"

abbreviation bump :: "((u64 \<Rightarrow> u64) \<Rightarrow> fabric_stats \<Rightarrow> fabric_stats) \<Rightarrow> fabric_state \<Rightarrow> fabric_state" where
  "bump field st \<equiv> st\<lparr>fb_stats := field (\<lambda>n. n + 1) (fb_stats st)\<rparr>"

definition store_job :: "training_job_id \<Rightarrow> job_state \<Rightarrow> fabric_state \<Rightarrow> fabric_state" where
  "store_job k job st = st\<lparr>fb_jobs := put k job (fb_jobs st)\<rparr>"

definition store_step :: "training_job_id \<Rightarrow> work \<Rightarrow> fabric_state" where
  "store_step k w = (case w of (st, job, step) \<Rightarrow> store_job k (job\<lparr>js_step := Some step\<rparr>) st)"

text \<open>\<^verbatim>\<open>if (it != end) it->second = f(it->second)\<close>\<close>

definition adjust :: "('v \<Rightarrow> 'v) \<Rightarrow> 'k \<Rightarrow> ('k, 'v) table \<Rightarrow> ('k, 'v) table" where
  "adjust f k t = (case map_of t k of None \<Rightarrow> t | Some v \<Rightarrow> put k (f v) t)"

lemma map_of_adjust [table_simps, simp]:
  "map_of (adjust f k t) k' = (if k' = k then map_option f (map_of t k) else map_of t k')"
  by (simp add: adjust_def split: option.split)

lemma wf_adjust [simp, intro]: "wf_table t \<Longrightarrow> wf_table (adjust f k t)"
  by (simp add: adjust_def split: option.split)

lemma has_key_adjust [simp]: "has_key (adjust f k t) k' \<longleftrightarrow> has_key t k'"
  by (auto simp: has_key_def)

lemma get0_adjust: "get0 (adjust f k t) k' = (if k' = k \<and> has_key t k then f (get0 t k) else get0 t k')"
  by (auto simp: get0_def has_key_def split: option.split)

lemma length_adjust [simp]: "length (adjust f k t) = length t"
  by (simp add: adjust_def length_put has_key_def split: option.split)

lemma store_job_simps [simp]:
  "fb_jobs (store_job k job st) = put k job (fb_jobs st)"
  "fb_config (store_job k job st) = fb_config st"
  "fb_now (store_job k job st) = fb_now st"
  "fb_policy (store_job k job st) = fb_policy st"
  "fb_stats (store_job k job st) = fb_stats st"
  "fb_next_job_id (store_job k job st) = fb_next_job_id st"
  by (simp_all add: store_job_def)

end
