(* ===== verification/Core.thy ===== *)
theory Core
  imports State
begin

text \<open>
  The shared helpers at the top of \<^verbatim>\<open>src/fabric_core.cpp\<close>: the clock, fences, the bounded
  stores of decisions and receipts, the utilisation of a group, closing flows, the
  resolution of an authority token, decisions, capacity arbitration, step reports and the
  fencing of an open step. A function that mutates several of state, job and step takes
  and returns them.
\<close>

section \<open>Early returns\<close>

type_synonym 'a outcome = "'a result \<times> fabric_state"

text \<open>\<^verbatim>\<open>TTF_TRY(s); rest\<close> and \<^verbatim>\<open>if (!b) return Error(e); rest\<close>\<close>

definition ttf_try :: "status \<Rightarrow> fabric_state \<Rightarrow> 'a outcome \<Rightarrow> 'a outcome" where
  "ttf_try s st rest = (case s of Inl e \<Rightarrow> (Inl e, st) | Inr _ \<Rightarrow> rest)"

definition require :: "bool \<Rightarrow> error_code \<Rightarrow> fabric_state \<Rightarrow> 'a outcome \<Rightarrow> 'a outcome" where
  "require b e st rest = (if b then rest else (Inl e, st))"

section \<open>The clock and the arbitration order\<close>

definition tick :: "fabric_state \<Rightarrow> fabric_state" where
  "tick st = bump st_operations_update (st\<lparr>fb_now := fb_now st + 1\<rparr>)"

datatype arbitration_key =
  ArbitrationKey (ak_priority: u8) (ak_criticality: u8) (ak_slack: u64) (ak_intent: u64)

definition key_less :: "arbitration_key \<Rightarrow> arbitration_key \<Rightarrow> bool" where
  "key_less lhs rhs =
     (if ak_priority lhs \<noteq> ak_priority rhs then ak_priority lhs < ak_priority rhs
      else if ak_criticality lhs \<noteq> ak_criticality rhs then ak_criticality lhs > ak_criticality rhs
      else if ak_slack lhs \<noteq> ak_slack rhs then ak_slack lhs < ak_slack rhs
      else ak_intent lhs < ak_intent rhs)"

instantiation arbitration_key :: linorder
begin

definition less_arbitration_key :: "arbitration_key \<Rightarrow> arbitration_key \<Rightarrow> bool" where
  "less_arbitration_key = key_less"

definition less_eq_arbitration_key :: "arbitration_key \<Rightarrow> arbitration_key \<Rightarrow> bool" where
  "less_eq_arbitration_key lhs rhs \<longleftrightarrow> lhs = rhs \<or> lhs < rhs"

lemma less_arbitration_key_fields:
  "ArbitrationKey p c s i < ArbitrationKey p' c' s' i' \<longleftrightarrow>
     p < p' \<or> p = p' \<and> (c > c' \<or> c = c' \<and> (s < s' \<or> s = s' \<and> i < i'))"
  by (auto simp: less_arbitration_key_def key_less_def)

instance
proof
  fix x y z :: arbitration_key
  obtain p c s i where x: "x = ArbitrationKey p c s i" by (cases x)
  obtain p' c' s' i' where y: "y = ArbitrationKey p' c' s' i'" by (cases y)
  obtain p'' c'' s'' i'' where z: "z = ArbitrationKey p'' c'' s'' i''" by (cases z)
  note fields = x y z less_eq_arbitration_key_def less_arbitration_key_fields
  show "x < y \<longleftrightarrow> x \<le> y \<and> \<not> y \<le> x" by (auto simp: fields)
  show "x \<le> x" by (simp add: less_eq_arbitration_key_def)
  show "x \<le> y \<or> y \<le> x" by (auto simp: fields)
  show "x \<le> z" if "x \<le> y" "y \<le> z" using that by (auto simp: fields)
  show "x = y" if "x \<le> y" "y \<le> x" using that by (auto simp: fields)
qed

end

primrec criticality_rank :: "sync_criticality \<Rightarrow> u8" where
  "criticality_rank SyncHard = 3"
| "criticality_rank SyncSoft = 2"
| "criticality_rank SyncBestEffort = 1"
| "criticality_rank SyncUnknown = 0"

section \<open>Fences\<close>

definition make_fence ::
  "fabric_state \<Rightarrow> training_step_id \<Rightarrow> phase_id \<Rightarrow> traffic_intent_id \<Rightarrow> fence_event" where
  "make_fence st step phase intent = \<lparr>fe_reason = EC_Ok, fe_at = fb_now st, fe_step = step,
     fe_phase = phase, fe_intent = intent, fe_observed_incarnation = 0,
     fe_current_incarnation = 0, fe_observed_epoch = 0, fe_current_epoch = 0, fe_sequence = 0\<rparr>"

text \<open>
  \<^verbatim>\<open>record_fence\<close>: the counter and the fences of the job, and the part for the step that
  is skipped where the pointer is null. With a cap of zero the code erases the first
  element of an empty vector; \<open>tl\<close> leaves it empty.
\<close>

definition fence_cap :: "fabric_state \<Rightarrow> nat" where
  "fence_cap st = unat (cf_max_fence_events_per_step (fb_config st))"

definition record_fence :: "fabric_state \<Rightarrow> job_state \<Rightarrow> fence_event \<Rightarrow> fabric_state \<times> job_state" where
  "record_fence st job event =
     (bump st_fenced_operations_update st,
      job\<lparr>js_recent_fences :=
        (if length (js_recent_fences job) \<ge> fence_cap st then tl (js_recent_fences job)
         else js_recent_fences job) @ [event]\<rparr>)"

definition record_step_fence :: "fabric_state \<Rightarrow> step_state \<Rightarrow> fence_event \<Rightarrow> step_state" where
  "record_step_fence st step event =
     step\<lparr>ss_fences_observed := ss_fences_observed step + 1,
       ss_fences := (if length (ss_fences step) < fence_cap st then ss_fences step @ [event]
                     else ss_fences step)\<rparr>"

section \<open>Bounded stores\<close>

text \<open>Evict the oldest keys until the order fits; count the entries that were there.\<close>

primrec evict :: "nat \<Rightarrow> 'k list \<Rightarrow> ('k, 'v) table \<Rightarrow> nat \<Rightarrow> 'k list \<times> ('k, 'v) table \<times> nat" where
  "evict cap [] t n = ([], t, n)"
| "evict cap (x # xs) t n =
     (if length (x # xs) > cap then evict cap xs (del x t) (if has_key t x then Suc n else n)
      else (x # xs, t, n))"

definition record_decision ::
  "fabric_state \<Rightarrow> job_state \<Rightarrow> traffic_decision \<Rightarrow> fabric_state \<times> job_state" where
  "record_decision st job decision =
     (let cap = unat (cf_max_decisions_retained_per_job (fb_config st));
          (order, decisions, n) =
            evict cap (js_decision_order job @ [td_intent decision])
              (put (td_intent decision) decision (js_decisions job)) 0
      in (st\<lparr>fb_stats := (fb_stats st)
            \<lparr>st_decisions_evicted := st_decisions_evicted (fb_stats st) + of_nat n,
             st_decisions_retained := of_nat (length decisions)\<rparr>\<rparr>,
          job\<lparr>js_decisions := decisions, js_decision_order := order\<rparr>))"

definition record_receipt :: "fabric_state \<Rightarrow> job_state \<Rightarrow> flow_receipt \<Rightarrow> job_state" where
  "record_receipt st job receipt =
     (let cap = unat (cf_max_flow_receipts_per_job (fb_config st));
          (order, receipts, _) =
            evict cap (js_receipt_order job @ [fr_intent receipt])
              (put (fr_intent receipt) receipt (js_receipts job)) 0
      in job\<lparr>js_receipts := receipts, js_receipt_order := order\<rparr>)"

section \<open>Utilisation and flow closure\<close>

definition acquire_utilization :: "job_state \<Rightarrow> flow_state \<Rightarrow> job_state" where
  "acquire_utilization job flow =
     job\<lparr>js_group_utilized_bps :=
           put (fs_group flow) (get0 (js_group_utilized_bps job) (fs_group flow) + fs_granted_min_bps flow)
             (js_group_utilized_bps job),
         js_group_active_flows :=
           put (fs_group flow) (get0 (js_group_active_flows job) (fs_group flow) + 1)
             (js_group_active_flows job)\<rparr>"

definition release_utilization :: "job_state \<Rightarrow> flow_state \<Rightarrow> job_state" where
  "release_utilization job flow =
     job\<lparr>js_group_utilized_bps :=
           adjust (\<lambda>u. sat_sub u (fs_granted_min_bps flow)) (fs_group flow) (js_group_utilized_bps job),
         js_group_active_flows :=
           adjust (\<lambda>n. sat_sub n 1) (fs_group flow) (js_group_active_flows job)\<rparr>"

definition utilized_bps :: "job_state \<Rightarrow> parallelism_group_id \<Rightarrow> u64" where
  "utilized_bps job grp = get0 (js_group_utilized_bps job) grp"

definition active_flow_count :: "job_state \<Rightarrow> parallelism_group_id \<Rightarrow> u32" where
  "active_flow_count job grp = get0 (js_group_active_flows job) grp"

text \<open>The effect of \<^verbatim>\<open>close_flow\<close> on the accounting of the step and of the phase.\<close>

definition close_accounting :: "flow_state \<Rightarrow> bool \<Rightarrow> u64 \<Rightarrow> step_accounting \<Rightarrow> step_accounting" where
  "close_accounting flow completed bytes a =
     (let a1 = a\<lparr>sa_active_flows := sat_sub (sa_active_flows a) 1,
                 sa_active_min_bps := sat_sub (sa_active_min_bps a) (fs_granted_min_bps flow),
                 sa_bytes_committed := sat_sub (sa_bytes_committed a) (fs_bytes_estimate flow)\<rparr>
      in if completed
         then a1\<lparr>sa_bytes_committed := sa_bytes_committed a1 + bytes,
                 sa_bytes_completed := sa_bytes_completed a1 + bytes,
                 sa_completed := sa_completed a1 + 1\<rparr>
         else a1\<lparr>sa_cancelled := sa_cancelled a1 + 1\<rparr>)"

definition close_phase_accounting ::
  "flow_state \<Rightarrow> bool \<Rightarrow> u64 \<Rightarrow> phase_accounting \<Rightarrow> phase_accounting" where
  "close_phase_accounting flow completed bytes p =
     (let p1 = p\<lparr>ph_bytes_committed := sat_sub (ph_bytes_committed p) (fs_bytes_estimate flow)\<rparr>
      in if completed
         then p1\<lparr>ph_bytes_committed := ph_bytes_committed p1 + bytes,
                 ph_bytes_completed := ph_bytes_completed p1 + bytes,
                 ph_completed := ph_completed p1 + 1\<rparr>
         else p1\<lparr>ph_cancelled := ph_cancelled p1 + 1\<rparr>)"

text \<open>\<^verbatim>\<open>step.phase_accounting[id]\<close> makes an empty entry for an id it does not have.\<close>

definition phase_accounting_of :: "step_state \<Rightarrow> phase_id \<Rightarrow> phase_accounting" where
  "phase_accounting_of step phase =
     (case map_of (ss_phase_accounting step) phase of None \<Rightarrow> empty_phase_accounting | Some p \<Rightarrow> p)"

definition closure_receipt :: "logical_time \<Rightarrow> flow_state \<Rightarrow> bool \<Rightarrow> u64 \<Rightarrow> error_code \<Rightarrow> flow_receipt" where
  "closure_receipt now flow completed bytes reason =
     \<lparr>fr_intent = fs_intent flow, fr_accepted = True,
      fr_reason = (if completed then EC_Ok else reason), fr_at = now,
      fr_bytes_credited = (if completed then bytes else 0),
      fr_released_min_bps = fs_granted_min_bps flow\<rparr>"

text \<open>\<^verbatim>\<open>close_flow\<close>, with its effect on the step and on the counters named.\<close>

definition close_in_step :: "flow_state \<Rightarrow> bool \<Rightarrow> u64 \<Rightarrow> step_state \<Rightarrow> step_state" where
  "close_in_step flow completed bytes step =
     step\<lparr>ss_accounting := close_accounting flow completed bytes (ss_accounting step),
          ss_phase_accounting :=
            put (fs_phase flow)
              (close_phase_accounting flow completed bytes (phase_accounting_of step (fs_phase flow)))
              (ss_phase_accounting step),
          ss_phase_active_flows :=
            adjust (\<lambda>n. sat_sub n 1) (fs_phase flow) (ss_phase_active_flows step),
          ss_flows := del (fs_intent flow) (ss_flows step)\<rparr>"

definition count_closure :: "bool \<Rightarrow> fabric_state \<Rightarrow> fabric_state" where
  "count_closure completed st =
     (if completed then bump st_flows_completed_update st else bump st_flows_cancelled_update st)"

definition close_flow ::
  "fabric_state \<Rightarrow> job_state \<Rightarrow> step_state \<Rightarrow> flow_state \<Rightarrow> bool \<Rightarrow> u64 \<Rightarrow> error_code \<Rightarrow> work" where
  "close_flow st job step flow completed bytes reason =
     (let st1 = count_closure completed st
      in (st1,
          record_receipt st1 (release_utilization job flow)
            (closure_receipt (fb_now st1) flow completed bytes reason),
          close_in_step flow completed bytes step))"

text \<open>
  The loop several operations run over a sorted list of intents: look the flow up, skip
  it where it is gone, cancel it with the reason, and rewrite its decision where one is
  retained. The number of flows it closed is counted.
\<close>

primrec close_each ::
  "error_code \<Rightarrow> (traffic_decision \<Rightarrow> traffic_decision) \<Rightarrow> traffic_intent_id list \<Rightarrow> work \<Rightarrow> work \<times> nat"
where
  "close_each reason mark [] w = (w, 0)"
| "close_each reason mark (i # is) w =
     (case w of (st, job, step) \<Rightarrow>
        case map_of (ss_flows step) i of
          None \<Rightarrow> close_each reason mark is w
        | Some flow \<Rightarrow>
            (let (st1, job1, step1) = close_flow st job step flow False 0 reason;
                 job2 = job1\<lparr>js_decisions := adjust mark i (js_decisions job1)\<rparr>;
                 (w', n) = close_each reason mark is (st1, job2, step1)
             in (w', Suc n)))"

definition cancel_all_flows :: "fabric_state \<Rightarrow> job_state \<Rightarrow> step_state \<Rightarrow> error_code \<Rightarrow> work" where
  "cancel_all_flows st job step reason =
     fst (close_each reason
            (\<lambda>d. d\<lparr>td_outcome := Reject, td_reason := reason, td_invalidated := True\<rparr>)
            (std_sort (<) (keys (ss_flows step))) (st, job, step))"

definition cancel_flows_in_phase ::
  "fabric_state \<Rightarrow> job_state \<Rightarrow> step_state \<Rightarrow> phase_id \<Rightarrow> error_code \<Rightarrow> work" where
  "cancel_flows_in_phase st job step phase reason =
     fst (close_each reason (\<lambda>d. d)
            (std_sort (<) (keys (filter (\<lambda>e. fs_phase (snd e) = phase) (ss_flows step)))) (st, job, step))"

section \<open>Isolation and priority\<close>

definition step_has_isolation :: "step_state \<Rightarrow> parallelism_group_id \<Rightarrow> bool" where
  "step_has_isolation step grp =
     (case ss_burst step of None \<Rightarrow> False | Some b \<Rightarrow> bs_active b \<and> bs_group b = grp)"

text \<open>The addition and the minimum are at \<^verbatim>\<open>unsigned int\<close>; the result fits a byte.\<close>

definition demoted_priority :: "policy_document \<Rightarrow> u8" where
  "demoted_priority policy = ucast (min (200 :: u32) (ucast (pd_checkpoint_isolation_priority policy) + 1))"

definition effective_priority_for :: "policy_document \<Rightarrow> service_class \<Rightarrow> bool \<Rightarrow> u8" where
  "effective_priority_for policy cls isolation_active =
     (let spec = policy_find policy cls;
          base = (case spec of None \<Rightarrow> 200 | Some s \<Rightarrow> scs_priority s)
      in if \<not> isolation_active then base
         else if cls = SC_Checkpoint then pd_checkpoint_isolation_priority policy
         else if (case spec of None \<Rightarrow> False | Some s \<Rightarrow> scs_barrier_critical s) then base
         else max base (demoted_priority policy))"

section \<open>Authority\<close>

text \<open>
  \<^verbatim>\<open>resolve_authority\<close> with its two flags: \<open>resolve_job\<close> for (false, false), \<open>resolve_step\<close>
  for (true, false), \<open>resolve_phase\<close> for (true, true); each runs the checks of the one
  before it first. A refusal carries what the code leaves in \<^verbatim>\<open>ResolvedAuthority\<close> and in
  the fence event: the job where it was found, the step where it was reached.
\<close>

record refusal =
  rf_job :: "job_state option"
  rf_step :: "step_state option"
  rf_failure :: error_code
  rf_detail :: bytes
  rf_fence :: fence_event

definition authority_fence :: "fabric_state \<Rightarrow> job_state \<Rightarrow> authority_token \<Rightarrow> error_code \<Rightarrow> fence_event" where
  "authority_fence st job token code =
     (make_fence st (at_step token) (at_phase token) 0)
       \<lparr>fe_reason := code,
        fe_observed_incarnation := at_incarnation token,
        fe_current_incarnation := js_incarnation job,
        fe_observed_epoch := at_epoch token,
        fe_current_epoch := js_epoch job,
        fe_sequence := at_sequence token\<rparr>"

text \<open>The checks against the job, in order; \<open>None\<close> where all of them pass.\<close>

definition job_failure ::
  "policy_document \<Rightarrow> job_state \<Rightarrow> authority_token \<Rightarrow> (error_code \<times> bytes) option" where
  "job_failure policy job token =
     (if js_retired job then Some (EC_JobRetired, tx_job_retired)
      else if at_job_generation token \<noteq> js_generation job
      then Some (EC_StaleJobGeneration, tx_stale_generation)
      else if valid (js_epoch job) \<and> at_epoch token \<noteq> js_epoch job
      then Some (EC_StaleEpoch, tx_stale_epoch)
      else if at_incarnation token \<noteq> js_incarnation job
      then (if at_incarnation token \<in> js_retired_set job
            then Some (EC_IncarnationRetired, tx_incarnation_retired)
            else Some (EC_StaleIncarnation, tx_stale_incarnation))
      else if at_incarnation token \<in> js_retired_set job
      then Some (EC_IncarnationRetired, tx_current_retired)
      else if at_boot token \<noteq> js_boot job then Some (EC_StaleBootIdentity, tx_stale_boot)
      else if at_contract_generation token \<noteq> wc_generation (js_contract job)
      then Some (EC_StaleContractGeneration, tx_stale_contract)
      else if valid (te_generation (js_topology job)) \<and>
              at_topology_generation token \<noteq> te_generation (js_topology job)
      then Some (EC_StaleTopologyGeneration, tx_stale_topology)
      else if valid (at_policy_generation token) \<and> at_policy_generation token > pd_generation policy
      then Some (EC_StalePolicyGeneration, tx_unissued_policy)
      else None)"

definition step_failure :: "step_state \<Rightarrow> authority_token \<Rightarrow> (error_code \<times> bytes) option" where
  "step_failure step token =
     (if \<not> valid (at_step token) then Some (EC_StaleStep, tx_no_step_id)
      else if at_step token \<noteq> ss_step step then Some (EC_StaleStep, tx_stale_step)
      else if at_incarnation token \<noteq> ss_incarnation step
      then Some (EC_StaleIncarnation, tx_step_incarnation)
      else None)"

definition refuse ::
  "fabric_state \<Rightarrow> authority_token \<Rightarrow> job_state \<Rightarrow> step_state option \<Rightarrow> error_code \<times> bytes \<Rightarrow> refusal" where
  "refuse st token job step f =
     \<lparr>rf_job = Some job, rf_step = step, rf_failure = fst f, rf_detail = snd f,
      rf_fence = authority_fence st job token (fst f)\<rparr>"

definition resolve_job :: "fabric_state \<Rightarrow> authority_token \<Rightarrow> refusal + job_state" where
  "resolve_job st token =
     (case map_of (fb_jobs st) (at_job token) of
        None \<Rightarrow>
          Inl \<lparr>rf_job = None, rf_step = None, rf_failure = EC_UnknownJob, rf_detail = tx_no_such_job,
            rf_fence = (make_fence st (at_step token) (at_phase token) 0)\<lparr>fe_reason := EC_UnknownJob\<rparr>\<rparr>
      | Some job \<Rightarrow>
          (case job_failure (fb_policy st) job token of
             Some f \<Rightarrow> Inl (refuse st token job None f)
           | None \<Rightarrow> Inr job))"

definition resolve_step :: "fabric_state \<Rightarrow> authority_token \<Rightarrow> refusal + job_state \<times> step_state" where
  "resolve_step st token =
     (case resolve_job st token of
        Inl r \<Rightarrow> Inl r
      | Inr job \<Rightarrow>
          (case js_step job of
             None \<Rightarrow> Inl (refuse st token job None (EC_StepNotActive, tx_no_step))
           | Some step \<Rightarrow>
               (case step_failure step token of
                  Some f \<Rightarrow> Inl (refuse st token job (Some step) f)
                | None \<Rightarrow> Inr (job, step))))"

definition resolve_phase ::
  "fabric_state \<Rightarrow> authority_token \<Rightarrow> refusal + job_state \<times> step_state \<times> phase_record" where
  "resolve_phase st token =
     (case resolve_step st token of
        Inl r \<Rightarrow> Inl r
      | Inr (job, step) \<Rightarrow>
          (case map_of (ss_phases step) (at_phase token) of
             None \<Rightarrow> Inl (refuse st token job (Some step) (EC_StalePhase, tx_stale_phase))
           | Some phase \<Rightarrow>
               if \<not> phase_active phase
               then Inl (refuse st token job (Some step) (EC_PhaseNotActive, tx_phase_closed))
               else Inr (job, step, phase)))"

text \<open>
  Recording a refusal writes fences only: into the job, and into its open step where the
  resolution had reached it. \<open>k\<close> is the key the job was found under.
\<close>

definition store_fence ::
  "training_job_id \<Rightarrow> fabric_state \<Rightarrow> job_state \<Rightarrow> step_state option \<Rightarrow> fence_event \<Rightarrow> fabric_state" where
  "store_fence k st job step event =
     (let (st1, job1) = record_fence st job event
      in store_job k
           (case step of None \<Rightarrow> job1
            | Some s \<Rightarrow> job1\<lparr>js_step := Some (record_step_fence st s event)\<rparr>) st1)"

definition authority_status :: "fabric_state \<Rightarrow> authority_token \<Rightarrow> refusal \<Rightarrow> 'a outcome" where
  "authority_status st token r =
     (Inl (rf_failure r),
      case rf_job r of
        None \<Rightarrow> bump st_fenced_operations_update st
      | Some job \<Rightarrow> store_fence (at_job token) st job (rf_step r) (rf_fence r))"

section \<open>Decisions\<close>

definition max_clauses :: "fabric_state \<Rightarrow> u32" where
  "max_clauses st = pd_max_explanation_clauses (fb_policy st)"

definition base_decision ::
  "fabric_state \<Rightarrow> job_state \<Rightarrow> traffic_intent \<Rightarrow> phase_record option \<Rightarrow> traffic_decision" where
  "base_decision st job intent phase =
     default_decision
       \<lparr>td_authority := ti_authority intent,
        td_group := ti_group intent,
        td_phase := at_phase (ti_authority intent),
        td_phase_class := (case phase of None \<Rightarrow> PC_Unknown | Some p \<Rightarrow> ps_cls (pr_spec p)),
        td_contract_generation := wc_generation (js_contract job),
        td_topology_generation := te_generation (js_topology job),
        td_policy_generation := pd_generation (fb_policy st),
        td_bytes_estimate := ti_bytes_estimate intent,
        td_issued_at := fb_now st,
        td_evidence := te_label (js_topology job),
        td_explanation :=
          (let e = explain EX_JobGenerationBound (tx_job_generation (js_generation job)) (max_clauses st) []
           in case phase of
                None \<Rightarrow> e
              | Some p \<Rightarrow>
                  explain EX_GroupBound (tx_group (ti_group intent)) (max_clauses st)
                    (explain EX_StepBound
                       (tx_step_phase (pr_step p) (phase_class_name (ps_cls (pr_spec p))))
                       (max_clauses st) e))\<rparr>"

definition add_clause :: "fabric_state \<Rightarrow> explanation_code \<Rightarrow> bytes \<Rightarrow> traffic_decision \<Rightarrow> traffic_decision" where
  "add_clause st code detail d =
     d\<lparr>td_explanation := explain code detail (max_clauses st) (td_explanation d)\<rparr>"

definition add_code :: "fabric_state \<Rightarrow> explanation_code \<Rightarrow> traffic_decision \<Rightarrow> traffic_decision" where
  "add_code st code d =
     d\<lparr>td_explanation := explain_code code (max_clauses st) (td_explanation d)\<rparr>"

definition reject_decision ::
  "fabric_state \<Rightarrow> job_state \<Rightarrow> traffic_intent \<Rightarrow> phase_record option \<Rightarrow> error_code \<Rightarrow> bytes \<Rightarrow>
   traffic_decision \<times> fabric_state" where
  "reject_decision st job intent phase reason detail =
     (add_clause st EX_Unknown detail
        ((base_decision st job intent phase)
           \<lparr>td_outcome := Reject, td_reason := reason, td_service_class := SC_Unknown,
            td_effective_priority := 0\<rparr>),
      bump st_decisions_rejected_update st)"

section \<open>Capacity arbitration\<close>

record capacity_result =
  cr_reason :: error_code
  cr_granted_min_bps :: u64
  cr_granted_max_bps :: u64
  cr_preempted :: "traffic_intent_id list"

text \<open>A flow another of the given priority may displace on the group.\<close>

definition preemptible_by ::
  "policy_document \<Rightarrow> parallelism_group_id \<Rightarrow> u8 \<Rightarrow> flow_state \<Rightarrow> bool" where
  "preemptible_by policy grp priority flow =
     (fs_group flow = grp \<and>
      (case policy_find policy (fs_service_class flow) of
         None \<Rightarrow> False
       | Some spec \<Rightarrow> scs_preemptible spec \<and> \<not> scs_barrier_critical spec) \<and>
      \<not> fs_effective_priority flow \<le> priority)"

text \<open>The least urgent flow first; equal priorities by intent id.\<close>

definition victim_before :: "flow_state \<Rightarrow> flow_state \<Rightarrow> bool" where
  "victim_before lhs rhs =
     (if fs_effective_priority lhs \<noteq> fs_effective_priority rhs
      then fs_effective_priority lhs > fs_effective_priority rhs
      else fs_intent lhs < fs_intent rhs)"

primrec take_victims :: "u64 \<Rightarrow> u64 \<Rightarrow> flow_state list \<Rightarrow> u64 \<times> flow_state list" where
  "take_victims need available [] = (available, [])"
| "take_victims need available (v # vs) =
     (if available \<ge> need then (available, [])
      else let (a, rest) = take_victims need (available + fs_granted_min_bps v) vs in (a, v # rest))"

definition preemption_order ::
  "policy_document \<Rightarrow> step_state \<Rightarrow> parallelism_group_id \<Rightarrow> u8 \<Rightarrow> flow_state list" where
  "preemption_order policy step grp priority =
     std_sort victim_before (filter (preemptible_by policy grp priority) (map snd (ss_flows step)))"

definition arbitrate_capacity ::
  "fabric_state \<Rightarrow> job_state \<Rightarrow> step_state \<Rightarrow> parallelism_group_id \<Rightarrow> u8 \<Rightarrow> u64 \<Rightarrow> u64 \<Rightarrow>
   capacity_result \<times> fabric_state" where
  "arbitrate_capacity st job step grp priority min_bps max_bps =
     (let failed = (\<lambda>reason. \<lparr>cr_reason = reason, cr_granted_min_bps = 0, cr_granted_max_bps = 0,
                               cr_preempted = []\<rparr>)
      in case topology_find (js_topology job) grp of
           None \<Rightarrow> (failed EC_MissingTopologyEvidence, st)
         | Some link \<Rightarrow>
             if lc_label link = EvUnsupported then (failed EC_MissingTopologyEvidence, st)
             else
               let capacity = available_bps link;
                   used = utilized_bps job grp;
                   available = (if capacity > used then capacity - used else 0);
                   scan = (min_bps > available \<and> pd_allow_preemption (fb_policy st));
                   st1 = (if scan
                          then st\<lparr>fb_stats := (fb_stats st)\<lparr>st_arbitration_scans :=
                                 st_arbitration_scans (fb_stats st) + of_nat (length (ss_flows step))\<rparr>\<rparr>
                          else st);
                   (available1, victims) =
                     (if scan
                      then take_victims min_bps available (preemption_order (fb_policy st) step grp priority)
                      else (available, []))
               in if min_bps \<le> available1
                  then (\<lparr>cr_reason = EC_Ok, cr_granted_min_bps = min_bps,
                         cr_granted_max_bps = max min_bps (min max_bps available1),
                         cr_preempted = map fs_intent victims\<rparr>, st1)
                  else (failed EC_NoCapacity, st1))"

section \<open>Step reports and history\<close>

definition summary_accounting :: "phase_accounting option \<Rightarrow> phase_summary \<Rightarrow> phase_summary" where
  "summary_accounting accounting s =
     (case accounting of
        None \<Rightarrow> s
      | Some p \<Rightarrow> s\<lparr>su_admitted := ph_admitted p, su_deferred := ph_deferred p,
                  su_rejected := ph_rejected p, su_completed := ph_completed p,
                  su_cancelled := ph_cancelled p, su_bytes_committed := ph_bytes_committed p,
                  su_bytes_completed := ph_bytes_completed p\<rparr>)"

definition phase_summary_of :: "step_state \<Rightarrow> phase_record \<Rightarrow> phase_id \<Rightarrow> phase_summary" where
  "phase_summary_of step p i =
     summary_accounting (map_of (ss_phase_accounting step) i)
       \<lparr>su_id = pr_id p, su_cls = ps_cls (pr_spec p), su_group = ps_group (pr_spec p),
        su_criticality = ps_criticality (pr_spec p), su_disposition = pr_disposition p,
        su_opened_at = pr_opened_at p, su_closed_at = pr_closed_at p,
        su_admitted = 0, su_deferred = 0, su_rejected = 0, su_completed = 0, su_cancelled = 0,
        su_bytes_committed = 0, su_bytes_completed = 0\<rparr>"

definition build_report :: "job_state \<Rightarrow> step_state \<Rightarrow> logical_time \<Rightarrow> bool \<Rightarrow> step_report" where
  "build_report job step closed_at with_cancellation =
     \<lparr>rp_job = js_id job, rp_job_generation = js_generation job, rp_step = ss_step step,
      rp_opened_at = ss_opened_at step, rp_closed_at = closed_at,
      rp_accounting = ss_accounting step,
      rp_phases = concat (map (\<lambda>i. case map_of (ss_phases step) i of
                                      None \<Rightarrow> []
                                    | Some p \<Rightarrow> [phase_summary_of step p i])
                           (std_sort (<) (ss_phase_order step))),
      rp_fences = ss_fences step, rp_fences_observed = ss_fences_observed step,
      rp_closed_with_cancellation = with_cancellation\<rparr>"

text \<open>\<^verbatim>\<open>report.accounting.closed = b\<close>\<close>

definition set_closed :: "bool \<Rightarrow> step_report \<Rightarrow> step_report" where
  "set_closed b report = report\<lparr>rp_accounting := (rp_accounting report)\<lparr>sa_closed := b\<rparr>\<rparr>"

definition trim_front :: "nat \<Rightarrow> 'a list \<Rightarrow> 'a list" where
  "trim_front bound xs = drop (length xs - bound) xs"

definition push_history :: "job_state \<Rightarrow> step_report \<Rightarrow> u32 \<Rightarrow> job_state" where
  "push_history job report cap =
     job\<lparr>js_history := trim_front (max 1 (unat cap)) (js_history job @ [report])\<rparr>"

definition close_phases :: "phase_disposition \<Rightarrow> logical_time \<Rightarrow> step_state \<Rightarrow> step_state" where
  "close_phases disposition now step =
     step\<lparr>ss_phases := map_vals (\<lambda>p. if phase_active p
        then p\<lparr>pr_disposition := disposition, pr_closed_at := now\<rparr> else p) (ss_phases step)\<rparr>"

text \<open>
  The end both ways of closing a step share: the step is marked closed and reported, the
  job forgets it and keeps the report in its bounded history.
\<close>

definition seal_step :: "fabric_state \<Rightarrow> job_state \<Rightarrow> step_state \<Rightarrow> bool \<Rightarrow> fabric_state \<times> job_state \<times> step_report" where
  "seal_step st job step cancelled =
     (let report = set_closed True (build_report job (step\<lparr>ss_closed := True\<rparr>) (fb_now st) cancelled);
          job1 = job\<lparr>js_last_closed_step := ss_step step, js_step := None\<rparr>
      in (bump st_steps_closed_update st,
          push_history job1 report (wc_history_steps (js_contract job1)), report))"

definition fence_open_step ::
  "fabric_state \<Rightarrow> job_state \<Rightarrow> step_state \<Rightarrow> error_code \<Rightarrow> fabric_state \<times> job_state \<times> step_report" where
  "fence_open_step st job step reason =
     (let fence = (make_fence st (ss_step step) 0 0)
            \<lparr>fe_reason := reason, fe_observed_incarnation := ss_incarnation step,
             fe_current_incarnation := js_incarnation job, fe_observed_epoch := js_epoch job,
             fe_current_epoch := js_epoch job\<rparr>;
          (st1, job1) = record_fence st job fence;
          step1 = record_step_fence st step fence;
          (st2, job2, step2) = cancel_all_flows st1 job1 step1 reason;
          step3 = close_phases PhaseFenced (fb_now st2) step2
      in seal_step st2 job2 step3 (sa_cancelled (ss_accounting step3) > 0))"

end
