(* ===== verification/Lifecycle.thy ===== *)
theory Lifecycle
  imports Core
begin

text \<open>
  Registration and the lifecycle of steps and phases, the second half of
  \<^verbatim>\<open>src/fabric_core.cpp\<close>: jobs, groups, topology evidence, policies, retirement, steps and
  phases. Each handler returns its result and the state, which a refusal or an error may
  have changed too.
\<close>

section \<open>Generation changes\<close>

text \<open>Whether a flow is cancelled under the current policy.\<close>

definition must_invalidate :: "policy_document \<Rightarrow> step_state \<Rightarrow> flow_state \<Rightarrow> bool" where
  "must_invalidate policy step flow =
     (pd_strict_generation_invalidation policy \<or>
      (let mapped = (case map_of (ss_phases step) (fs_phase flow) of
                       None \<Rightarrow> SC_Unknown
                     | Some p \<Rightarrow> class_for_phase policy (ps_cls (pr_spec p)));
           priority = effective_priority_for policy mapped (step_has_isolation step (fs_group flow))
       in mapped \<noteq> fs_service_class flow \<or> priority \<noteq> fs_effective_priority flow \<or>
          (case policy_find policy mapped of
             None \<Rightarrow> True
           | Some spec \<Rightarrow> scs_ceiling_bps spec \<noteq> 0 \<and> fs_granted_min_bps flow > scs_ceiling_bps spec)))"

definition invalidate_for_generation_change ::
  "fabric_state \<Rightarrow> job_state \<Rightarrow> policy_apply_result \<Rightarrow> error_code \<Rightarrow>
   fabric_state \<times> job_state \<times> policy_apply_result" where
  "invalidate_for_generation_change st job result cause =
     (case js_step job of
        None \<Rightarrow> (st, job, result)
      | Some step \<Rightarrow>
          (let victims = std_sort (<) (map fs_intent
                           (filter (must_invalidate (fb_policy st) step) (map snd (ss_flows step))));
               ((st1, job1, step1), n) =
                 close_each cause
                   (\<lambda>d. d\<lparr>td_invalidated := True, td_outcome := Revalidate, td_reason := cause\<rparr>)
                   victims (st, job, step)
           in (st1, job1\<lparr>js_step := Some step1\<rparr>,
               result\<lparr>pa_decisions_invalidated := pa_decisions_invalidated result + of_nat n,
                 pa_flows_cancelled := pa_flows_cancelled result + of_nat n,
                 pa_jobs_affected := pa_jobs_affected result + (if victims = [] then 0 else 1)\<rparr>)))"

definition no_result :: policy_apply_result where
  "no_result = \<lparr>pa_generation = 0, pa_decisions_invalidated = 0, pa_flows_cancelled = 0,
     pa_jobs_affected = 0\<rparr>"

section \<open>Registration\<close>

definition new_job ::
  "job_registration \<Rightarrow> training_job_id \<Rightarrow> workload_contract \<Rightarrow> logical_time \<Rightarrow> job_state" where
  "new_job reg i contract now =
     (let incarnation = (if valid (jr_incarnation reg) then jr_incarnation reg else 1)
      in \<lparr>js_id = i, js_name = jr_name reg, js_generation = 1, js_contract = contract,
          js_incarnation = incarnation, js_boot = jr_boot reg, js_epoch = jr_epoch reg,
          js_retired = False, js_groups = [], js_group_order = [], js_group_utilized_bps = [],
          js_group_active_flows = [], js_topology = no_topology, js_retired_incarnations = [],
          js_retired_set = {}, js_highest_step = 0, js_last_closed_step = 0, js_step = None,
          js_history = [], js_decisions = [], js_decision_order = [], js_receipts = [],
          js_receipt_order = [], js_recent_fences = [], js_next_intent_id = 1,
          js_next_phase_id = 1, js_next_burst_id = 1, js_next_incarnation = incarnation + 1,
          js_next_topology_generation = 1, js_pacing_records = 0, js_last_activity = now\<rparr>)"

definition handle_of :: "fabric_state \<Rightarrow> job_state \<Rightarrow> job_handle" where
  "handle_of st job = \<lparr>jh_job = js_id job, jh_generation = js_generation job,
     jh_contract_generation = wc_generation (js_contract job), jh_incarnation = js_incarnation job,
     jh_epoch = js_epoch job, jh_topology_generation = te_generation (js_topology job),
     jh_policy_generation = pd_generation (fb_policy st), jh_boot = js_boot job,
     jh_issued_at = fb_now st\<rparr>"

definition registered_contract :: "job_registration \<Rightarrow> training_job_id \<Rightarrow> workload_contract" where
  "registered_contract reg i =
     (jr_contract reg)\<lparr>wc_job := i, wc_generation := 1,
       wc_name := (if wc_name (jr_contract reg) = [] then jr_name reg else wc_name (jr_contract reg))\<rparr>"

definition register_job :: "fabric_state \<Rightarrow> job_registration \<Rightarrow> job_handle outcome" where
  "register_job st reg =
     require (\<not> length (fb_jobs st) \<ge> unat (cf_max_jobs (fb_config st))) EC_ResourceExhausted st (
     ttf_try (validate_text (jr_name reg) kMaxStringBytes) st (
     require (boot_valid (jr_boot reg)) EC_InvalidArgument st (
     let i = (if valid (jr_job reg) then jr_job reg else fb_next_job_id st)
     in require (\<not> has_key (fb_jobs st) i) EC_AlreadyExists st (
     let st1 = st\<lparr>fb_next_job_id := max (fb_next_job_id st) (i + 1)\<rparr>;
         contract = registered_contract reg i
     in ttf_try (contract_validate contract) st1 (
     let job = new_job reg i contract (fb_now st1)
     in (Inr (handle_of st1 job), store_job i job st1))))))"

definition register_group :: "fabric_state \<Rightarrow> group_registration \<Rightarrow> unit outcome" where
  "register_group st reg =
     (case resolve_job st (gr_authority reg) of
        Inl r \<Rightarrow> authority_status st (gr_authority reg) r
      | Inr job \<Rightarrow>
          let g = (gr_group reg)\<lparr>pg_job := js_id job\<rparr>; i = pg_id g
          in ttf_try (group_validate g) st (
             require (\<not> has_key (js_groups job) i) EC_AlreadyExists st (
             require (\<not> length (js_groups job) \<ge> unat (wc_max_parallelism_groups (js_contract job)))
               EC_ContractLimitExceeded st
             (Inr (),
              store_job (at_job (gr_authority reg))
                (job\<lparr>js_groups := put i g (js_groups job),
                     js_group_order := js_group_order job @ [i],
                     js_group_utilized_bps := put i 0 (js_group_utilized_bps job),
                     js_group_active_flows := put i 0 (js_group_active_flows job),
                     js_last_activity := fb_now st\<rparr>) st))))"

definition publish_topology ::
  "fabric_state \<Rightarrow> authority_token \<Rightarrow> topology_evidence \<Rightarrow> topology_generation outcome" where
  "publish_topology st authority evidence0 =
     (case resolve_job st authority of
        Inl r \<Rightarrow> authority_status st authority r
      | Inr job \<Rightarrow>
          let evidence = evidence0\<lparr>te_job := js_id job, te_generation := js_next_topology_generation job\<rparr>
          in ttf_try (topology_validate evidence) st (
             let job1 = job\<lparr>js_next_topology_generation := js_next_topology_generation job + 1\<rparr>;
                 (st2, job2, _) =
                   invalidate_for_generation_change st job1 no_result EC_StaleTopologyGeneration;
                 st3 = st2\<lparr>fb_stats := (fb_stats st2)
                          \<lparr>st_topology_generation := max (st_topology_generation (fb_stats st2)) (te_generation evidence)\<rparr>\<rparr>
             in (Inr (te_generation evidence),
                 store_job (at_job authority)
                   (job2\<lparr>js_topology := evidence, js_last_activity := fb_now st3\<rparr>) st3)))"

text \<open>The loop of \<^verbatim>\<open>apply_policy\<close> over the jobs, in the order of the container.\<close>

primrec invalidate_jobs ::
  "error_code \<Rightarrow> (training_job_id \<times> job_state) list \<Rightarrow> fabric_state \<Rightarrow> policy_apply_result \<Rightarrow>
   (training_job_id, job_state) table \<times> fabric_state \<times> policy_apply_result" where
  "invalidate_jobs cause [] st result = ([], st, result)"
| "invalidate_jobs cause (e # es) st result =
     (let (st1, job1, result1) = invalidate_for_generation_change st (snd e) result cause;
          (rest, st2, result2) = invalidate_jobs cause es st1 result1
      in ((fst e, job1) # rest, st2, result2))"

definition apply_policy :: "fabric_state \<Rightarrow> policy_document \<Rightarrow> policy_apply_result outcome" where
  "apply_policy st policy =
     ttf_try (policy_validate policy) st (
     require (\<not> pd_generation policy \<le> pd_generation (fb_policy st)) EC_Conflict st (
     let st1 = st\<lparr>fb_policy := policy,
                 fb_stats := (fb_stats st)\<lparr>st_policy_generation := pd_generation policy\<rparr>\<rparr>;
         (jobs, st2, result) =
           invalidate_jobs EC_PolicyInvalidated (fb_jobs st1) st1
             (no_result\<lparr>pa_generation := pd_generation policy\<rparr>)
     in (Inr result, st2\<lparr>fb_jobs := jobs\<rparr>)))"

definition retire_job :: "fabric_state \<Rightarrow> authority_token \<Rightarrow> unit outcome" where
  "retire_job st authority =
     (case resolve_job st authority of
        Inl r \<Rightarrow> authority_status st authority r
      | Inr job \<Rightarrow>
          let (st1, job1) =
                (case js_step job of
                   None \<Rightarrow> (st, job)
                 | Some step \<Rightarrow>
                     (let (st1, job1, _) = fence_open_step st job step EC_JobRetired in (st1, job1)))
          in (Inr (),
              store_job (at_job authority) (job1\<lparr>js_retired := True, js_last_activity := fb_now st1\<rparr>) st1))"

section \<open>Steps and phases\<close>

definition begin_step :: "fabric_state \<Rightarrow> step_open_request \<Rightarrow> step_report outcome" where
  "begin_step st req =
     require (valid (so_step req)) EC_InvalidArgument st (
     case resolve_job st (so_authority req) of
       Inl r \<Rightarrow> authority_status st (so_authority req) r
     | Inr job \<Rightarrow>
         require (js_step job = None) EC_Conflict st (
         if so_step req \<le> js_highest_step job
         then let fence = (make_fence st (so_step req) 0 0)\<lparr>fe_reason := EC_StaleStep\<rparr>
              in (Inl EC_StaleStep, store_fence (at_job (so_authority req)) st job None fence)
         else
           let step = new_step (so_step req) (js_generation job) (js_incarnation job) (fb_now st)
                        (so_deadline_at req) (so_slack_ticks req);
               job1 = job\<lparr>js_step := Some step, js_highest_step := so_step req,
                          js_last_activity := fb_now st\<rparr>
           in (Inr (set_closed False (build_report job1 step 0 False)),
               store_job (at_job (so_authority req)) job1 st)))"

definition begin_phase :: "fabric_state \<Rightarrow> phase_open_request \<Rightarrow> phase_record outcome" where
  "begin_phase st req =
     ttf_try (phase_spec_validate (po_spec req)) st (
     case resolve_step st (po_authority req) of
       Inl r \<Rightarrow> authority_status st (po_authority req) r
     | Inr (job, step) \<Rightarrow>
         require (has_key (js_groups job) (ps_group (po_spec req))) EC_UnknownGroup st (
         require (\<not> length (ss_phases step) \<ge> unat (wc_max_phases_per_step (js_contract job)))
           EC_ContractLimitExceeded st (
         let i = js_next_phase_id job;
             record0 = \<lparr>pr_id = i, pr_step = ss_step step, pr_spec = po_spec req,
                       pr_opened_at = fb_now st, pr_closed_at = 0, pr_disposition = PhaseOpen\<rparr>;
             step1 = step\<lparr>ss_phases := emplace i record0 (ss_phases step),
                          ss_phase_order := ss_phase_order step @ [i],
                          ss_phase_accounting := put i empty_phase_accounting (ss_phase_accounting step),
                          ss_phase_active_flows := put i 0 (ss_phase_active_flows step)\<rparr>;
             job1 = job\<lparr>js_next_phase_id := js_next_phase_id job + 1, js_last_activity := fb_now st\<rparr>
         in (Inr record0, store_step (at_job (po_authority req)) (st, job1, step1)))))"

definition end_phase ::
  "fabric_state \<Rightarrow> authority_token \<Rightarrow> phase_id \<Rightarrow> phase_disposition \<Rightarrow> phase_record outcome" where
  "end_phase st authority phase disposition =
     require (disposition \<noteq> PhaseOpen) EC_InvalidArgument st (
     case resolve_step st authority of
       Inl r \<Rightarrow> authority_status st authority r
     | Inr (job, step) \<Rightarrow>
         (case map_of (ss_phases step) phase of
            None \<Rightarrow> (Inl EC_StalePhase, st)
          | Some p \<Rightarrow>
              require (phase_active p) EC_PhaseAlreadyClosed st (
              let (st1, job1, step1) = cancel_flows_in_phase st job step phase EC_Cancelled;
                  p1 = p\<lparr>pr_disposition := disposition, pr_closed_at := fb_now st1\<rparr>
              in (Inr p1,
                  store_step (at_job authority)
                    (st1, job1\<lparr>js_last_activity := fb_now st1\<rparr>,
                     step1\<lparr>ss_phases := put phase p1 (ss_phases step1)\<rparr>)))))"

definition end_step :: "fabric_state \<Rightarrow> authority_token \<Rightarrow> step_disposition \<Rightarrow> step_report outcome" where
  "end_step st authority disposition =
     (case resolve_step st authority of
        Inl r \<Rightarrow> authority_status st authority r
      | Inr (job, step) \<Rightarrow>
          let cancelled = (disposition \<noteq> StepCompleted \<or> ss_flows step \<noteq> []);
              (st1, job1, step1) =
                (if ss_flows step \<noteq> [] then cancel_all_flows st job step EC_Cancelled
                 else (st, job, step));
              step2 = close_phases (if disposition = StepCancelled then PhaseCancelled else PhaseCompleted)
                        (fb_now st1) step1;
              (st3, job3, report) = seal_step st1 job1 step2 cancelled
          in (Inr report, store_job (at_job authority) (job3\<lparr>js_last_activity := fb_now st3\<rparr>) st3))"

end
