(* ===== verification/Traffic.thy ===== *)
theory Traffic
  imports Lifecycle
begin

text \<open>
  \<^verbatim>\<open>src/fabric_traffic.cpp\<close>: the request path that decides which traffic may run, flow
  completion, revalidation, checkpoint bursts and pacing. \<^verbatim>\<open>request_traffic\<close> is one C++
  function of three hundred lines; it is composed here of the refusal path, the checks
  before arbitration, the answers when capacity is missing, and the admission, in the
  order of the code.
\<close>

section \<open>Requesting traffic: the answers that admit nothing\<close>

definition make_deferral ::
  "fabric_state \<Rightarrow> job_state \<Rightarrow> traffic_intent \<Rightarrow> phase_record option \<Rightarrow> service_class \<Rightarrow> u8 \<Rightarrow>
   error_code \<Rightarrow> logical_time \<Rightarrow> bytes \<Rightarrow> traffic_decision \<times> fabric_state" where
  "make_deferral st job intent phase cls priority reason until detail =
     (add_clause st (if reason = EC_IsolationActive then EX_IsolationDeferred else EX_DeferredLowerPriority)
        detail
        ((base_decision st job intent phase)
           \<lparr>td_outcome := Defer, td_reason := reason, td_service_class := cls,
            td_effective_priority := priority, td_defer_until := until\<rparr>),
      bump st_decisions_deferred_update st)"

text \<open>The clause the refusal of a stale token adds.\<close>

definition fenced_clause :: "fabric_state \<Rightarrow> error_code \<Rightarrow> traffic_decision \<Rightarrow> traffic_decision" where
  "fenced_clause st failure d =
     (if failure = EC_StaleStep then add_code st EX_StaleStepFenced d
      else if failure = EC_StaleIncarnation \<or> failure = EC_IncarnationRetired
      then add_code st EX_StaleIncarnationFenced d
      else if failure = EC_StaleJobGeneration then add_code st EX_StaleJobGenerationFenced d
      else if failure = EC_StaleBootIdentity then add_code st EX_StaleBootIdentityFenced d
      else d)"

definition unbound_decision :: "fabric_state \<Rightarrow> traffic_intent \<Rightarrow> traffic_decision" where
  "unbound_decision st intent =
     default_decision\<lparr>td_authority := ti_authority intent, td_group := ti_group intent,
       td_phase_class := PC_Unknown, td_bytes_estimate := ti_bytes_estimate intent,
       td_issued_at := fb_now st\<rparr>"

text \<open>
  A token that does not resolve: the request is answered with a rejection. The refusal is
  recorded as a fence and counted once more in \<^verbatim>\<open>fenced_operations\<close>, as the code does.
\<close>

definition refuse_traffic :: "fabric_state \<Rightarrow> traffic_intent \<Rightarrow> refusal \<Rightarrow> traffic_decision outcome" where
  "refuse_traffic st intent r =
     (case rf_job r of
        None \<Rightarrow>
          (Inr (add_clause st EX_Unknown (rf_detail r)
                  ((unbound_decision st intent)\<lparr>td_outcome := Reject, td_reason := rf_failure r\<rparr>)),
           bump st_decisions_rejected_update (bump st_fenced_operations_update st))
      | Some job0 \<Rightarrow>
          let (st1, job1) = record_fence st job0 (rf_fence r);
              job2 = (case rf_step r of
                        None \<Rightarrow> job1
                      | Some s \<Rightarrow> job1\<lparr>js_step := Some (record_step_fence st s (rf_fence r))\<rparr>);
              st2 = bump st_fenced_operations_update st1;
              (d0, st3) = reject_decision st2 job2 intent None (rf_failure r) (rf_detail r);
              d = (fenced_clause st3 (rf_failure r) d0)\<lparr>td_intent := js_next_intent_id job2\<rparr>;
              job3 = job2\<lparr>js_next_intent_id := js_next_intent_id job2 + 1\<rparr>;
              (st4, job4) = record_decision st3 job3 d
          in (Inr d, store_job (at_job (ti_authority intent)) job4 st4))"

text \<open>The lambda \<^verbatim>\<open>finish\<close>: the decision is counted once in step and phase, then retained.\<close>

definition count_outcome :: "decision_outcome \<Rightarrow> step_accounting \<Rightarrow> step_accounting" where
  "count_outcome x a =
     (case x of
        Admit \<Rightarrow> a\<lparr>sa_admitted := sa_admitted a + 1\<rparr>
      | Throttle \<Rightarrow> a\<lparr>sa_throttled := sa_throttled a + 1\<rparr>
      | Defer \<Rightarrow> a\<lparr>sa_deferred := sa_deferred a + 1\<rparr>
      | Reject \<Rightarrow> a\<lparr>sa_rejected := sa_rejected a + 1\<rparr>
      | Revalidate \<Rightarrow> a\<lparr>sa_rejected := sa_rejected a + 1\<rparr>)"

definition count_phase_outcome :: "decision_outcome \<Rightarrow> phase_accounting \<Rightarrow> phase_accounting" where
  "count_phase_outcome x p =
     (case x of
        Admit \<Rightarrow> p\<lparr>ph_admitted := ph_admitted p + 1\<rparr>
      | Throttle \<Rightarrow> p\<lparr>ph_throttled := ph_throttled p + 1\<rparr>
      | Defer \<Rightarrow> p\<lparr>ph_deferred := ph_deferred p + 1\<rparr>
      | Reject \<Rightarrow> p\<lparr>ph_rejected := ph_rejected p + 1\<rparr>
      | Revalidate \<Rightarrow> p\<lparr>ph_rejected := ph_rejected p + 1\<rparr>)"

definition update_phase_accounting ::
  "phase_id \<Rightarrow> (phase_accounting \<Rightarrow> phase_accounting) \<Rightarrow> step_state \<Rightarrow> step_state" where
  "update_phase_accounting i f step =
     step\<lparr>ss_phase_accounting := put i (f (phase_accounting_of step i)) (ss_phase_accounting step)\<rparr>"

definition finish_request ::
  "training_job_id \<Rightarrow> traffic_intent_id \<Rightarrow> phase_id \<Rightarrow> work \<Rightarrow> traffic_decision \<Rightarrow> traffic_decision outcome"
where
  "finish_request k intent_id phase w decision =
     (case w of (st, job, step) \<Rightarrow>
        let d = decision\<lparr>td_intent := intent_id\<rparr>;
            step1 = update_phase_accounting phase (count_phase_outcome (td_outcome d))
              (step\<lparr>ss_accounting := count_outcome (td_outcome d) (ss_accounting step)\<rparr>);
            (st1, job1) = record_decision st job d
        in (Inr d, store_step k (st1, job1\<lparr>js_last_activity := fb_now st1\<rparr>, step1)))"

section \<open>Requesting traffic: the checks before arbitration\<close>

text \<open>
  What the checks hand to the arbitration: the class and its definition, whether a burst
  isolates the group, the priority, and the rates that remain to be granted.
\<close>

record traffic_plan =
  tp_cls :: service_class
  tp_spec :: service_class_spec
  tp_isolation :: bool
  tp_priority :: u8
  tp_min_grant :: u64
  tp_effective_max :: u64

text \<open>
  What is answered without a grant: a rejection with reason, detail and at most one more
  clause, or a deferral. The checks end with an error of the operation, such an answer, or
  a plan.
\<close>

datatype answer =
    Turn_down error_code bytes "explanation_code option"
  | Put_off service_class u8 error_code logical_time bytes

datatype screening = Fail error_code | Answer answer | Proceed traffic_plan

definition backoff_until :: "fabric_state \<Rightarrow> u8 \<Rightarrow> logical_time" where
  "backoff_until st priority =
     fb_now st + pd_defer_backoff_ticks (fb_policy st) * ucast ((ucast priority :: u32) + 1)"

definition rate_ceiling :: "policy_document \<Rightarrow> service_class_spec \<Rightarrow> bool \<Rightarrow> u64" where
  "rate_ceiling policy spec unknown_phase =
     (if unknown_phase
      then (if scs_ceiling_bps spec = 0 then pd_unknown_phase_ceiling_bps policy
            else min (scs_ceiling_bps spec) (pd_unknown_phase_ceiling_bps policy))
      else scs_ceiling_bps spec)"

definition screen_rates ::
  "fabric_state \<Rightarrow> job_state \<Rightarrow> step_state \<Rightarrow> traffic_intent \<Rightarrow> bool \<Rightarrow> service_class \<Rightarrow>
   service_class_spec \<Rightarrow> bool \<Rightarrow> u8 \<Rightarrow> screening" where
  "screen_rates st job step intent unknown_phase cls spec isolation priority =
     (let ceiling = rate_ceiling (fb_policy st) spec unknown_phase;
          effective_max = (if ceiling \<noteq> 0 then min (ti_max_bps intent) ceiling else ti_max_bps intent);
          min_grant = max (ti_min_bps intent) (scs_floor_bps spec)
      in if ceiling \<noteq> 0 \<and> ti_min_bps intent > ceiling
         then Answer (Turn_down EC_RateAboveCeiling (tx_above_ceiling (service_class_name cls)) None)
         else if min_grant > effective_max
         then Answer (Turn_down EC_RateAboveCeiling (tx_floor_above (service_class_name cls)) None)
         else if ti_bytes_estimate intent > wc_max_bytes_per_intent (js_contract job)
         then Answer (Turn_down EC_ContractLimitExceeded tx_intent_bytes None)
         else if (case checked_add (sa_bytes_committed (ss_accounting step)) (ti_bytes_estimate intent) of
                    None \<Rightarrow> True
                  | Some projected \<Rightarrow> projected > wc_max_bytes_per_step (js_contract job))
         then Answer (Turn_down EC_ContractLimitExceeded tx_step_bytes None)
         else if length (ss_flows step) \<ge>
                 unat (min (wc_max_active_flows_per_step (js_contract job))
                           (pd_max_active_flows_per_step (fb_policy st)))
         then Answer (Turn_down EC_ResourceExhausted tx_flow_limit None)
         else Proceed \<lparr>tp_cls = cls, tp_spec = spec, tp_isolation = isolation,
                tp_priority = priority, tp_min_grant = min_grant, tp_effective_max = effective_max\<rparr>)"

definition screen_request ::
  "fabric_state \<Rightarrow> job_state \<Rightarrow> step_state \<Rightarrow> traffic_intent \<Rightarrow> phase_record \<Rightarrow> screening" where
  "screen_request st job step intent phase =
     (let phase_class = ps_cls (pr_spec phase);
          unknown_phase = (phase_class = PC_Unknown);
          policy = fb_policy st
      in if ss_intents_seen step > ucast (wc_max_intents_per_step (js_contract job))
         then Answer (Turn_down EC_ContractLimitExceeded tx_intent_limit None)
         else if ti_declared_phase_class intent \<noteq> PC_Unknown \<and> ti_declared_phase_class intent \<noteq> phase_class
         then Answer (Turn_down EC_Conflict
                (tx_class_conflict (phase_class_name (ti_declared_phase_class intent))
                   (phase_class_name phase_class)) None)
         else if unknown_phase \<and> \<not> wc_allow_unknown_phase (js_contract job)
         then Answer (Turn_down EC_ConservativeUnknownPhase tx_unknown_refused (Some EX_UnknownPhaseNotAllowed))
         else
           let cls = class_for_phase policy phase_class
           in (case policy_find policy cls of
                 None \<Rightarrow> Fail EC_Internal
               | Some spec \<Rightarrow>
                   let isolation = step_has_isolation step (ti_group intent);
                       priority = effective_priority_for policy cls isolation
                   in if isolation \<and> cls \<noteq> SC_Checkpoint \<and> \<not> scs_barrier_critical spec
                      then let detail = tx_isolated (ti_group intent) (service_class_name cls)
                           in if scs_deferrable spec \<and> ti_allow_defer intent
                              then Answer (Put_off cls priority EC_IsolationActive (backoff_until st priority) detail)
                              else Answer (Turn_down EC_IsolationActive detail None)
                      else screen_rates st job step intent unknown_phase cls spec isolation priority))"

section \<open>Requesting traffic: arbitration and admission\<close>

definition arbitration_priority :: "phase_record \<Rightarrow> traffic_plan \<Rightarrow> u8" where
  "arbitration_priority phase plan = (if ps_cls (pr_spec phase) = PC_Unknown then 255 else tp_priority plan)"

text \<open>The answer where arbitration found no capacity.\<close>

definition capacity_refusal ::
  "fabric_state \<Rightarrow> job_state \<Rightarrow> traffic_intent \<Rightarrow> traffic_plan \<Rightarrow> error_code \<Rightarrow> answer" where
  "capacity_refusal st job intent plan reason =
     (if reason = EC_MissingTopologyEvidence
      then Turn_down reason tx_no_evidence
             (Some (if topology_find (js_topology job) (ti_group intent) = None
                    then EX_EvidenceMissing else EX_EvidenceUnsupported))
      else
        let detail = tx_no_capacity (ti_group intent) (service_class_name (tp_cls plan))
        in if scs_deferrable (tp_spec plan) \<and> ti_allow_defer intent
           then Put_off (tp_cls plan) (tp_priority plan) EC_NoCapacity
                  (backoff_until st (tp_priority plan)) detail
           else Turn_down EC_NoCapacity detail None)"

definition preempt_flows :: "traffic_intent_id list \<Rightarrow> work \<Rightarrow> work \<times> nat" where
  "preempt_flows victims w =
     (case w of (st0, _, _) \<Rightarrow>
        let ((st, job, step), n) =
              close_each EC_NoCapacity
                (\<lambda>d. add_code st0 EX_PreemptionVictim
                   (d\<lparr>td_invalidated := True, td_outcome := Defer, td_reason := EC_NoCapacity\<rparr>))
                victims w
        in ((st\<lparr>fb_stats := (fb_stats st)\<lparr>st_preemptions := st_preemptions (fb_stats st) + of_nat n\<rparr>\<rparr>,
             job, step), n))"

definition granted_flow ::
  "fabric_state \<Rightarrow> step_state \<Rightarrow> traffic_intent \<Rightarrow> phase_record \<Rightarrow> traffic_plan \<Rightarrow> capacity_result \<Rightarrow>
   traffic_intent_id \<Rightarrow> flow_state" where
  "granted_flow st step intent phase plan capacity intent_id =
     \<lparr>fs_intent = intent_id, fs_group = ti_group intent, fs_phase = pr_id phase,
      fs_step = ss_step step, fs_incarnation = ss_incarnation step,
      fs_service_class = tp_cls plan, fs_effective_priority = tp_priority plan,
      fs_granted_min_bps = cr_granted_min_bps capacity,
      fs_granted_max_bps = cr_granted_max_bps capacity,
      fs_bytes_estimate = ti_bytes_estimate intent, fs_granted_at = fb_now st,
      fs_isolated = (tp_isolation plan \<and> tp_cls plan = SC_Checkpoint), fs_throttled = False\<rparr>"

definition open_accounting :: "flow_state \<Rightarrow> step_accounting \<Rightarrow> step_accounting" where
  "open_accounting flow a =
     a\<lparr>sa_active_flows := sa_active_flows a + 1,
       sa_active_min_bps := sa_active_min_bps a + fs_granted_min_bps flow,
       sa_granted_min_bps := sa_granted_min_bps a + fs_granted_min_bps flow,
       sa_bytes_committed := sa_bytes_committed a + fs_bytes_estimate flow\<rparr>"

definition open_flow :: "job_state \<Rightarrow> step_state \<Rightarrow> flow_state \<Rightarrow> job_state \<times> step_state" where
  "open_flow job step flow =
     (acquire_utilization job flow,
      update_phase_accounting (fs_phase flow)
        (\<lambda>p. p\<lparr>ph_bytes_committed := ph_bytes_committed p + fs_bytes_estimate flow\<rparr>)
        (step\<lparr>ss_flows := put (fs_intent flow) flow (ss_flows step),
              ss_accounting := open_accounting flow (ss_accounting step),
              ss_phase_active_flows := adjust (\<lambda>n. n + 1) (fs_phase flow) (ss_phase_active_flows step)\<rparr>))"

text \<open>The clauses of an admission, in the order they are added.\<close>

definition admission_clauses ::
  "fabric_state \<Rightarrow> step_state \<Rightarrow> traffic_intent \<Rightarrow> phase_record \<Rightarrow> traffic_plan \<Rightarrow> flow_state \<Rightarrow> nat \<Rightarrow>
   (explanation_code \<times> bytes) list" where
  "admission_clauses st step intent phase plan flow preempted =
     (let lo = fs_granted_min_bps flow; hi = fs_granted_max_bps flow;
          cls = ps_cls (pr_spec phase); deadline = ps_deadline (pr_spec phase)
      in [(EX_CapacityAvailable, tx_granted lo hi)] @
         (if preempted > 0 then [(EX_CapacityPreempted, tx_preempted (of_nat preempted))] else []) @
         (if cls = PC_Unknown
          then [(EX_PhaseClassUnknownConservative, tx_unknown_conservative),
                (EX_UnknownPhaseCeilingApplied, tx_unknown_ceiling (pd_unknown_phase_ceiling_bps (fb_policy st)))]
          else [(EX_PhaseClassKnown, ascii (phase_class_name cls))]) @
         (if ps_criticality (pr_spec phase) = SyncHard then [(EX_BarrierCritical, tx_barrier)] else []) @
         (if has_deadline deadline
          then [(if sd_slack_ticks deadline > 0 then EX_SlackRemaining else EX_SlackExhausted,
                 tx_slack (sd_slack_ticks deadline))] else []) @
         (if fs_isolated flow
          then [(EX_CheckpointIsolationActive,
                 tx_burst_holds (case ss_burst step of None \<Rightarrow> 0 | Some b \<Rightarrow> bs_id b) (ti_group intent)),
                (EX_CheckpointIsolationPriorityBoost, tx_priority_raised (ucast (tp_priority plan))),
                (EX_CheckpointClassPreserved, tx_class_preserved)] else []) @
         (if hi < ti_max_bps intent
          then [(EX_RateClampedToCeiling, tx_clamped_ceiling (ti_max_bps intent) hi)] else []) @
         (if lo > ti_min_bps intent
          then [(EX_RateClampedToFloor, tx_clamped_floor (service_class_name (tp_cls plan)) lo)] else []) @
         [(EX_AccountingOpened,
           tx_accounting_opened (ss_step step) (ucast (sa_active_flows (ss_accounting step))))])"

definition admission_decision ::
  "fabric_state \<Rightarrow> job_state \<Rightarrow> step_state \<Rightarrow> traffic_intent \<Rightarrow> phase_record \<Rightarrow> traffic_plan \<Rightarrow> flow_state \<Rightarrow>
   nat \<Rightarrow> traffic_decision" where
  "admission_decision st job step intent phase plan flow preempted =
     fold (\<lambda>(code, detail). add_clause st code detail)
       (admission_clauses st step intent phase plan flow preempted)
       ((base_decision st job intent (Some phase))
          \<lparr>td_outcome := Admit, td_reason := EC_Ok, td_service_class := tp_cls plan,
           td_effective_priority := tp_priority plan,
           td_granted_min_bps := fs_granted_min_bps flow,
           td_granted_max_bps := fs_granted_max_bps flow,
           td_isolated := fs_isolated flow,
           td_burst := (if fs_isolated flow
                        then (case ss_burst step of None \<Rightarrow> 0 | Some b \<Rightarrow> bs_id b) else 0)\<rparr>)"

definition admit_flow ::
  "work \<Rightarrow> traffic_intent \<Rightarrow> phase_record \<Rightarrow> traffic_plan \<Rightarrow> capacity_result \<Rightarrow> traffic_intent_id \<Rightarrow>
   work \<times> traffic_decision" where
  "admit_flow w intent phase plan capacity intent_id =
     (let ((st1, job1, step1), preempted) = preempt_flows (cr_preempted capacity) w;
          flow = granted_flow st1 step1 intent phase plan capacity intent_id;
          (job2, step2) = open_flow job1 step1 flow;
          st2 = bump st_decisions_admitted_update st1
      in ((st2, job2, step2), admission_decision st2 job2 step2 intent phase plan flow preempted))"

text \<open>A rejection or a deferral as a decision.\<close>

definition answer_decision ::
  "fabric_state \<Rightarrow> job_state \<Rightarrow> traffic_intent \<Rightarrow> phase_record \<Rightarrow> answer \<Rightarrow> traffic_decision \<times> fabric_state"
where
  "answer_decision st job intent phase a =
     (case a of
        Put_off cls priority reason until detail \<Rightarrow>
          make_deferral st job intent (Some phase) cls priority reason until detail
      | Turn_down reason detail code \<Rightarrow>
          (let (d, st1) = reject_decision st job intent (Some phase) reason detail
           in (case code of None \<Rightarrow> d | Some c \<Rightarrow> add_code st1 c d, st1)))"

definition decide_traffic ::
  "work \<Rightarrow> traffic_intent \<Rightarrow> phase_record \<Rightarrow> traffic_intent_id \<Rightarrow> error_code + work \<times> traffic_decision"
where
  "decide_traffic w intent phase intent_id =
     (case w of (st, job, step) \<Rightarrow>
        (case screen_request st job step intent phase of
           Fail e \<Rightarrow> Inl e
         | Answer a \<Rightarrow> (let (d, st1) = answer_decision st job intent phase a in Inr ((st1, job, step), d))
         | Proceed plan \<Rightarrow>
             (let (capacity, st1) =
                    arbitrate_capacity st job step (ti_group intent) (arbitration_priority phase plan)
                      (tp_min_grant plan) (tp_effective_max plan)
              in if cr_reason capacity \<noteq> EC_Ok
                 then let (d, st2) = answer_decision st1 job intent phase
                                       (capacity_refusal st1 job intent plan (cr_reason capacity))
                      in Inr ((st2, job, step), d)
                 else Inr (admit_flow (st1, job, step) intent phase plan capacity intent_id))))"

definition request_traffic :: "fabric_state \<Rightarrow> traffic_intent \<Rightarrow> traffic_decision outcome" where
  "request_traffic st intent =
     ttf_try (intent_validate intent) st (
     case resolve_phase st (ti_authority intent) of
       Inl r \<Rightarrow> refuse_traffic st intent r
     | Inr (job, step, phase) \<Rightarrow>
         let k = at_job (ti_authority intent);
             intent_id = js_next_intent_id job;
             job1 = job\<lparr>js_next_intent_id := js_next_intent_id job + 1\<rparr>;
             step1 = update_phase_accounting (pr_id phase) (\<lambda>p. p)
                       (step\<lparr>ss_intents_seen := ss_intents_seen step + 1\<rparr>)
         in (case decide_traffic (st, job1, step1) intent phase intent_id of
               Inl e \<Rightarrow> (Inl e, store_step k (st, job1, step1))
             | Inr (w, d) \<Rightarrow> finish_request k intent_id (pr_id phase) w d))"

section \<open>Completion and revalidation\<close>

definition complete_flow :: "fabric_state \<Rightarrow> flow_completion \<Rightarrow> flow_receipt outcome" where
  "complete_flow st c =
     (let token = fc_authority c; k = at_job token;
          fence = make_fence st (at_step token) (at_phase token) (fc_intent c)
      in case resolve_step st token of
           Inl r \<Rightarrow>
             (case rf_job r of
                None \<Rightarrow> (Inl (rf_failure r), bump st_fenced_operations_update st)
              | Some job \<Rightarrow>
                  if has_key (js_receipts job) (fc_intent c)
                  then (Inl EC_FlowAlreadyClosed,
                        store_fence k st job (rf_step r) ((rf_fence r)\<lparr>fe_reason := EC_FlowAlreadyClosed\<rparr>))
                  else authority_status st token r)
         | Inr (job, step) \<Rightarrow>
             (case map_of (ss_flows step) (fc_intent c) of
                None \<Rightarrow>
                  let reason = (if has_key (js_receipts job) (fc_intent c)
                                then EC_FlowAlreadyClosed else EC_FlowNotActive)
                  in (Inl reason, store_fence k st job (Some step) (fence\<lparr>fe_reason := reason\<rparr>))
              | Some flow \<Rightarrow>
                  require (\<not> fc_bytes_transferred c > wc_max_bytes_per_intent (js_contract job))
                    EC_ContractLimitExceeded st (
                  let (st1, job1, step1) =
                        close_flow st job step flow (\<not> fc_cancelled c) (fc_bytes_transferred c) EC_Cancelled
                  in (case map_of (js_receipts job1) (fc_intent c) of
                        None \<Rightarrow> (Inl EC_Internal, store_step k (st1, job1, step1))
                      | Some receipt \<Rightarrow>
                          (Inr receipt,
                           store_step k (st1, job1\<lparr>js_last_activity := fb_now st1\<rparr>, step1))))))"

text \<open>Whether the current policy would issue the decision again.\<close>

definition policy_disagrees :: "policy_document \<Rightarrow> step_state \<Rightarrow> traffic_decision \<Rightarrow> bool" where
  "policy_disagrees policy step d =
     (let mapped = (case map_of (ss_phases step) (td_phase d) of
                      None \<Rightarrow> SC_Unknown
                    | Some p \<Rightarrow> class_for_phase policy (ps_cls (pr_spec p)));
          priority = effective_priority_for policy mapped (step_has_isolation step (td_group d))
      in mapped \<noteq> td_service_class d \<or> priority \<noteq> td_effective_priority d \<or>
         policy_find policy mapped = None)"

definition revalidate_decision ::
  "fabric_state \<Rightarrow> authority_token \<Rightarrow> traffic_intent_id \<Rightarrow> job_state \<Rightarrow> step_state \<Rightarrow> traffic_decision \<Rightarrow>
   revalidation_result outcome" where
  "revalidate_decision st authority intent job step previous =
     (let policy = fb_policy st;
          answer = (\<lambda>ok reason d. \<lparr>rv_intent = intent, rv_still_valid = ok, rv_reason = reason, rv_decision = d\<rparr>);
          active = has_key (ss_flows step) intent;
          write = (\<lambda>d. store_job (at_job authority) (job\<lparr>js_decisions := put intent d (js_decisions job)\<rparr>) st)
      in if at_step (td_authority previous) \<noteq> ss_step step
         then (Inr (answer False EC_StaleStep previous), st)
         else if td_invalidated previous
         then (Inr (answer False (td_reason previous) previous), st)
         else if td_policy_generation previous < pd_generation policy
         then
           let refreshed = add_clause st EX_PolicyGenerationChanged
                 (tx_policy_advanced (td_policy_generation previous) (pd_generation policy))
                 (previous\<lparr>td_policy_generation := pd_generation policy\<rparr>)
           in if pd_strict_generation_invalidation policy \<or> policy_disagrees policy step previous
              then
                let d = add_code st (if pd_strict_generation_invalidation policy
                                     then EX_StrictInvalidationApplied else EX_DecisionInvalidated)
                          (refreshed\<lparr>td_invalidated := True, td_outcome := Revalidate,
                             td_reason := EC_PolicyInvalidated\<rparr>)
                in (Inr (answer False EC_PolicyInvalidated d), write d)
              else
                let d = add_code st EX_DecisionRevalidated refreshed
                in (Inr (answer active (if active then EC_Ok else EC_FlowNotActive) d), write d)
         else (Inr (answer active (if active then EC_Ok else EC_FlowNotActive) previous), st))"

definition revalidate_flow ::
  "fabric_state \<Rightarrow> authority_token \<Rightarrow> traffic_intent_id \<Rightarrow> revalidation_result outcome" where
  "revalidate_flow st authority intent =
     (case resolve_step st authority of
        Inl r \<Rightarrow> authority_status st authority r
      | Inr (job, step) \<Rightarrow>
          (case map_of (js_decisions job) intent of
             None \<Rightarrow>
               (Inr \<lparr>rv_intent = intent, rv_still_valid = False, rv_reason = EC_NotRegistered,
                     rv_decision = default_decision\<rparr>, st)
           | Some previous \<Rightarrow> revalidate_decision st authority intent job step previous))"

section \<open>Checkpoint bursts\<close>

text \<open>The flow loses its grant above the isolation ceiling of its class.\<close>

definition throttle_flow ::
  "work \<Rightarrow> checkpoint_burst_id \<Rightarrow> flow_state \<Rightarrow> u64 \<Rightarrow> work" where
  "throttle_flow w burst flow reduced =
     (case w of (st, job, step) \<Rightarrow>
        let delta = fs_granted_min_bps flow - reduced;
            flow1 = flow\<lparr>fs_granted_min_bps := reduced,
                         fs_granted_max_bps := min (fs_granted_max_bps flow) reduced,
                         fs_throttled := True\<rparr>;
            a = ss_accounting step;
            mark = (\<lambda>d. add_clause st EX_IsolationThrottled tx_isolation_reduced
                      (d\<lparr>td_outcome := Throttle, td_granted_min_bps := fs_granted_min_bps flow1,
                         td_granted_max_bps := fs_granted_max_bps flow1, td_isolated := True,
                         td_burst := burst\<rparr>))
        in (if has_key (js_decisions job) (fs_intent flow) then bump st_decisions_throttled_update st else st,
            job\<lparr>js_group_utilized_bps :=
                  put (fs_group flow) (sat_sub (get0 (js_group_utilized_bps job) (fs_group flow)) delta)
                    (js_group_utilized_bps job),
                js_decisions := adjust mark (fs_intent flow) (js_decisions job)\<rparr>,
            step\<lparr>ss_accounting := a\<lparr>sa_active_min_bps := sat_sub (sa_active_min_bps a) delta\<rparr>,
                 ss_flows := put (fs_intent flow) flow1 (ss_flows step)\<rparr>))"

definition displace_flow :: "work \<Rightarrow> flow_state \<Rightarrow> work" where
  "displace_flow w flow =
     (case w of (st, job, step) \<Rightarrow>
        let (st1, job1, step1) = close_flow st job step flow False 0 EC_IsolationActive;
            mark = (\<lambda>d. add_clause st1 EX_IsolationDeferred tx_isolation_cancelled
                      (d\<lparr>td_invalidated := True, td_outcome := Defer, td_reason := EC_IsolationActive\<rparr>))
        in (st1, job1\<lparr>js_decisions := adjust mark (fs_intent flow) (js_decisions job1)\<rparr>, step1))"

primrec isolate_flows ::
  "checkpoint_burst_id \<Rightarrow> traffic_intent_id list \<Rightarrow> work \<Rightarrow> work \<times> u32 \<times> u32" where
  "isolate_flows burst [] w = (w, 0, 0)"
| "isolate_flows burst (i # is) w =
     (case w of (st, job, step) \<Rightarrow>
        (case map_of (ss_flows step) i of
           None \<Rightarrow> isolate_flows burst is w
         | Some flow \<Rightarrow>
             (case policy_find (fb_policy st) (fs_service_class flow) of
                None \<Rightarrow> isolate_flows burst is w
              | Some spec \<Rightarrow>
                  if fs_service_class flow = SC_Checkpoint \<or> scs_barrier_critical spec
                  then isolate_flows burst is w
                  else if scs_isolation_ceiling_bps spec = 0
                  then let (w', displaced, throttled) = isolate_flows burst is (displace_flow w flow)
                       in (w', displaced + 1, throttled)
                  else if fs_granted_min_bps flow > scs_isolation_ceiling_bps spec
                  then let (w', displaced, throttled) =
                             isolate_flows burst is
                               (throttle_flow w burst flow (scs_isolation_ceiling_bps spec))
                       in (w', displaced, throttled + 1)
                  else isolate_flows burst is w)))"

definition begin_checkpoint_burst ::
  "fabric_state \<Rightarrow> checkpoint_burst_request \<Rightarrow> checkpoint_burst_id outcome" where
  "begin_checkpoint_burst st req =
     ttf_try (validate_text (cb_reason req) kMaxStringBytes) st (
     case resolve_step st (cb_authority req) of
       Inl r \<Rightarrow> authority_status st (cb_authority req) r
     | Inr (job, step) \<Rightarrow>
         require (has_key (js_groups job) (cb_group req)) EC_UnknownGroup st (
         require (\<not> (case ss_burst step of None \<Rightarrow> False | Some b \<Rightarrow> bs_active b)) EC_BurstAlreadyActive st (
         let i = js_next_burst_id job;
             job1 = job\<lparr>js_next_burst_id := js_next_burst_id job + 1\<rparr>;
             order = std_sort (<) (keys (filter (\<lambda>e. fs_group (snd e) = cb_group req) (ss_flows step)));
             ((st2, job2, step2), displaced, throttled) = isolate_flows i order (st, job1, step);
             burst = \<lparr>bs_id = i, bs_group = cb_group req, bs_expected_bytes = cb_expected_bytes req,
                      bs_opened_at = fb_now st, bs_deadline_at = cb_deadline_at req,
                      bs_reason = cb_reason req, bs_displaced_flows = displaced,
                      bs_throttled_flows = throttled, bs_active = True\<rparr>
         in (Inr i,
             store_step (at_job (cb_authority req))
               (st2, job2\<lparr>js_last_activity := fb_now st2\<rparr>, step2\<lparr>ss_burst := Some burst\<rparr>)))))"

definition end_checkpoint_burst ::
  "fabric_state \<Rightarrow> authority_token \<Rightarrow> checkpoint_burst_id \<Rightarrow> unit outcome" where
  "end_checkpoint_burst st authority i =
     (case resolve_step st authority of
        Inl r \<Rightarrow> authority_status st authority r
      | Inr (job, step) \<Rightarrow>
          (case ss_burst step of
             None \<Rightarrow> (Inl EC_BurstNotActive, st)
           | Some b \<Rightarrow>
               require (bs_active b) EC_BurstNotActive st (
               require (bs_id b = i) EC_NotFound st
               (Inr (),
                store_step (at_job authority)
                  (st, job\<lparr>js_last_activity := fb_now st\<rparr>,
                   step\<lparr>ss_burst := Some (b\<lparr>bs_active := False\<rparr>)\<rparr>)))))"

section \<open>Pacing\<close>

definition pacing_hold :: "fabric_state \<Rightarrow> step_state \<Rightarrow> pacing_intent \<Rightarrow> pacing_decision \<Rightarrow> pacing_decision" where
  "pacing_hold st step intent d =
     (let now = fb_now st; n = max_clauses st;
          hold0 = min (pi_grace_ticks intent) (pi_max_hold_ticks intent);
          limit = (if ss_deadline_at step > now then ss_deadline_at step else now);
          until_deadline = limit - now;
          late = (ss_deadline_at step \<noteq> 0 \<and> hold0 > until_deadline);
          hold = (if late then until_deadline else hold0)
      in if late \<and> ss_slack_ticks step = 0 \<and> pi_release_on_deadline intent
         then d\<lparr>pn_outcome := Throttle, pn_reason := EC_NoCapacity, pn_hold_until := limit,
                pn_explanation :=
                  explain EX_StragglerThrottle (tx_outstanding (ucast (pn_stragglers d))) n
                    (explain EX_SlackExhausted tx_no_slack n (pn_explanation d))\<rparr>
         else d\<lparr>pn_outcome := Defer, pn_reason := EC_PacingHeld, pn_hold_until := now + hold,
                pn_explanation :=
                  explain EX_StragglerHold (tx_holding (ucast (pn_stragglers d)) hold) n (pn_explanation d)\<rparr>)"

definition pacing_answer :: "fabric_state \<Rightarrow> step_state \<Rightarrow> pacing_intent \<Rightarrow> pacing_decision" where
  "pacing_answer st step intent =
     (let d = \<lparr>pn_outcome = Reject, pn_reason = EC_Internal, pn_service_class = SC_Barrier,
               pn_effective_priority = (case policy_find (fb_policy st) SC_Barrier of
                                          None \<Rightarrow> 1 | Some spec \<Rightarrow> scs_priority spec),
               pn_stragglers = pi_expected_participants intent - pi_arrived_participants intent,
               pn_hold_until = 0, pn_evaluated_at = fb_now st, pn_explanation = []\<rparr>
      in if pn_stragglers d = 0
         then d\<lparr>pn_outcome := Admit, pn_reason := EC_Ok,
                pn_explanation := explain EX_StragglerRelease tx_all_arrived (max_clauses st) []\<rparr>
         else if pi_grace_ticks intent = 0 \<or> pi_max_hold_ticks intent = 0
         then d\<lparr>pn_outcome := Admit, pn_reason := EC_Ok,
                pn_explanation := explain EX_StragglerEvidenceMissing tx_no_grace (max_clauses st) []\<rparr>
         else pacing_hold st step intent d)"

definition evaluate_pacing :: "fabric_state \<Rightarrow> pacing_intent \<Rightarrow> pacing_decision outcome" where
  "evaluate_pacing st intent =
     require (pi_expected_participants intent \<noteq> 0) EC_InvalidArgument st (
     require (\<not> pi_arrived_participants intent > pi_expected_participants intent) EC_InvalidArgument st (
     case resolve_step st (pi_authority intent) of
       Inl r \<Rightarrow> authority_status st (pi_authority intent) r
     | Inr (job, step) \<Rightarrow>
         require (has_key (js_groups job) (pi_group intent)) EC_UnknownGroup st (
         require (\<not> js_pacing_records job \<ge> cf_max_pacing_records_per_job (fb_config st))
           EC_ResourceExhausted st
         (Inr (pacing_answer st step intent),
          store_job (at_job (pi_authority intent))
            (job\<lparr>js_pacing_records := js_pacing_records job + 1, js_last_activity := fb_now st\<rparr>) st))))"

end
