(* ===== verification/Recovery.thy ===== *)
theory Recovery
  imports Traffic
begin

text \<open>
  \<^verbatim>\<open>src/fabric_recovery.cpp\<close>: admission of a replacement incarnation, retirement of the
  current one, and the read-only views.
\<close>

section \<open>Replacement and retirement\<close>

text \<open>Both operations retire the current incarnation the same way.\<close>

definition retire_current :: "fabric_state \<Rightarrow> job_state \<Rightarrow> error_code \<Rightarrow> job_state" where
  "retire_current st job cause =
     job\<lparr>js_retired_set := insert (js_incarnation job) (js_retired_set job),
         js_retired_incarnations :=
           trim_front (unat (cf_max_retired_incarnations_per_job (fb_config st)))
             (js_retired_incarnations job @
              [\<lparr>ri_incarnation = js_incarnation job, ri_boot = js_boot job,
                ri_retired_at = fb_now st, ri_cause = cause\<rparr>])\<rparr>"

definition replacement_checks :: "job_state \<Rightarrow> recovery_request \<Rightarrow> status" where
  "replacement_checks job req =
     checks
      [(\<not> js_retired job, EC_JobRetired),
       (rr_job_generation req = js_generation job, EC_StaleJobGeneration),
       (\<not> (valid (js_epoch job) \<and> rr_epoch req \<noteq> js_epoch job), EC_StaleEpoch),
       (boot_valid (rr_new_boot req), EC_InvalidArgument),
       (rr_new_boot req \<noteq> js_boot job, EC_Conflict),
       (rr_expected_retired_incarnation req = js_incarnation job, EC_StaleIncarnation),
       (\<not> (valid (rr_resume_step req) \<and> rr_resume_step req \<le> js_highest_step job), EC_StaleStep)]"

definition admit_replacement :: "fabric_state \<Rightarrow> recovery_request \<Rightarrow> recovery_grant outcome" where
  "admit_replacement st req =
     (case map_of (fb_jobs st) (rr_job req) of
        None \<Rightarrow> (Inl EC_UnknownJob, st)
      | Some job \<Rightarrow>
          ttf_try (replacement_checks job req) st (
          let (st1, job1, cancelled, fenced) =
                (case js_step job of
                   None \<Rightarrow> (st, job, 0, 0)
                 | Some step \<Rightarrow>
                     (let (st1, job1, report) = fence_open_step st job step EC_IncarnationRetired
                      in (st1, job1, sa_cancelled (rp_accounting report), ucast (rp_fences_observed report))));
              job2 = (retire_current st1 job1 (rr_cause req))
                       \<lparr>js_incarnation := js_next_incarnation job1,
                        js_next_incarnation := js_next_incarnation job1 + 1,
                        js_boot := rr_new_boot req\<rparr>;
              n = max_clauses st1;
              grant = \<lparr>rg_job = js_id job, rg_job_generation = js_generation job,
                       rg_new_incarnation = js_incarnation job2,
                       rg_retired_incarnation = js_incarnation job,
                       rg_resume_step_floor = js_highest_step job2, rg_epoch = js_epoch job,
                       rg_issued_at = fb_now st, rg_cancelled_flows = cancelled,
                       rg_fenced_operations = fenced,
                       rg_explanation =
                         explain EX_RejoinRequiresFreshAuthority (tx_resume_floor (js_highest_step job2)) n
                           (explain EX_IncarnationRetired (tx_retired_fenced (js_incarnation job1)) n
                              (explain EX_IncarnationFresh
                                 (tx_minted (js_incarnation job2) (rr_new_boot req)) n []))\<rparr>
          in (Inr grant, store_job (rr_job req) (job2\<lparr>js_last_activity := fb_now st1\<rparr>) st1)))"

definition retire_incarnation :: "fabric_state \<Rightarrow> authority_token \<Rightarrow> unit outcome" where
  "retire_incarnation st authority =
     (case resolve_job st authority of
        Inl r \<Rightarrow> authority_status st authority r
      | Inr job \<Rightarrow>
          let (st1, job1) =
                (case js_step job of
                   None \<Rightarrow> (st, job)
                 | Some step \<Rightarrow>
                     (let (st1, job1, _) = fence_open_step st job step EC_IncarnationRetired in (st1, job1)))
          in (Inr (),
              store_job (at_job authority)
                ((retire_current st1 job1 EC_IncarnationRetired)\<lparr>js_last_activity := fb_now st1\<rparr>) st1))"

section \<open>Views\<close>

text \<open>A view reads the state and returns a copy; it has no state to return.\<close>

definition with_job :: "fabric_state \<Rightarrow> training_job_id \<Rightarrow> (job_state \<Rightarrow> 'a result) \<Rightarrow> 'a result" where
  "with_job st i f = (case map_of (fb_jobs st) i of None \<Rightarrow> Inl EC_UnknownJob | Some job \<Rightarrow> f job)"

definition open_phases :: "step_state \<Rightarrow> phase_summary list" where
  "open_phases step =
     concat (map (\<lambda>i. case map_of (ss_phases step) i of
                        None \<Rightarrow> []
                      | Some p \<Rightarrow> if phase_active p
                                  then [(phase_summary_of step p i)\<lparr>su_closed_at := 0\<rparr>] else [])
             (std_sort (<) (ss_phase_order step)))"

definition view_of :: "fabric_state \<Rightarrow> job_state \<Rightarrow> job_view" where
  "view_of st job =
     (let step = js_step job;
          a = (case step of None \<Rightarrow> empty_accounting 0 | Some s \<Rightarrow> ss_accounting s)
      in \<lparr>jv_job = js_id job, jv_name = js_name job, jv_generation = js_generation job,
          jv_contract_generation = wc_generation (js_contract job),
          jv_incarnation = js_incarnation job, jv_boot = js_boot job, jv_epoch = js_epoch job,
          jv_topology_generation = te_generation (js_topology job),
          jv_topology_label = te_label (js_topology job),
          jv_policy_generation = pd_generation (fb_policy st),
          jv_last_closed_step = js_last_closed_step job,
          jv_current_step = (case step of None \<Rightarrow> 0 | Some s \<Rightarrow> ss_step s),
          jv_step_active = (step \<noteq> None),
          jv_group_count = of_nat (length (js_groups job)),
          jv_active_flows = sa_active_flows a, jv_active_min_bps = sa_active_min_bps a,
          jv_retained_steps = of_nat (length (js_history job)),
          jv_retired_incarnations = of_nat (length (js_retired_incarnations job)),
          jv_accounting = a,
          jv_open_phases = (case step of None \<Rightarrow> [] | Some s \<Rightarrow> open_phases s),
          jv_recent_fences = js_recent_fences job,
          jv_group_utilized_bps_reported =
            of_nat (length (filter (\<lambda>e. snd e > 0) (js_group_utilized_bps job)))\<rparr>)"

definition lookup_job :: "fabric_state \<Rightarrow> training_job_id \<Rightarrow> job_view result" where
  "lookup_job st i = with_job st i (\<lambda>job. Inr (view_of st job))"

definition lookup_handle :: "fabric_state \<Rightarrow> training_job_id \<Rightarrow> job_handle result" where
  "lookup_handle st i = with_job st i (\<lambda>job. Inr (handle_of st job))"

definition lookup_decision ::
  "fabric_state \<Rightarrow> training_job_id \<Rightarrow> traffic_intent_id \<Rightarrow> traffic_decision result" where
  "lookup_decision st i intent =
     with_job st i (\<lambda>job. case map_of (js_decisions job) intent of
        None \<Rightarrow> Inl EC_NotRegistered | Some d \<Rightarrow> Inr d)"

definition lookup_step_report ::
  "fabric_state \<Rightarrow> training_job_id \<Rightarrow> training_step_id \<Rightarrow> step_report result" where
  "lookup_step_report st i step =
     with_job st i (\<lambda>job.
       case find (\<lambda>r. rp_step r = step) (rev (js_history job)) of
         Some r \<Rightarrow> Inr r
       | None \<Rightarrow>
           (case js_step job of
              Some s \<Rightarrow> if ss_step s = step then Inr (set_closed False (build_report job s 0 False))
                        else Inl EC_NotFound
            | None \<Rightarrow> Inl EC_NotFound))"

definition lookup_flow_receipt ::
  "fabric_state \<Rightarrow> training_job_id \<Rightarrow> traffic_intent_id \<Rightarrow> flow_receipt result" where
  "lookup_flow_receipt st i intent =
     with_job st i (\<lambda>job. case map_of (js_receipts job) intent of
        None \<Rightarrow> Inl EC_NotRegistered | Some r \<Rightarrow> Inr r)"

definition utilization_entry :: "job_state \<Rightarrow> parallelism_group_id \<Rightarrow> group_utilization_entry" where
  "utilization_entry job g =
     (let link = topology_find (js_topology job) g
      in \<lparr>gu_group = g,
          gu_capacity_bps = (case link of None \<Rightarrow> 0 | Some l \<Rightarrow> lc_capacity_bps l),
          gu_reserved_bps = (case link of None \<Rightarrow> 0 | Some l \<Rightarrow> lc_reserved_bps l),
          gu_utilized_bps = utilized_bps job g, gu_active_flows = active_flow_count job g,
          gu_label = (case link of None \<Rightarrow> EvUnsupported | Some l \<Rightarrow> lc_label l)\<rparr>)"

definition group_utilization ::
  "fabric_state \<Rightarrow> training_job_id \<Rightarrow> group_utilization_entry list result" where
  "group_utilization st i =
     with_job st i (\<lambda>job. Inr (map (utilization_entry job) (std_sort (<) (js_group_order job))))"

definition current_policy :: "fabric_state \<Rightarrow> policy_document result" where
  "current_policy st = Inr (fb_policy st)"

definition list_jobs :: "fabric_state \<Rightarrow> training_job_id list result" where
  "list_jobs st = Inr (std_sort (<) (keys (fb_jobs st)))"

end
