(* ===== verification/Api.thy ===== *)
theory Api
  imports Recovery
begin

text \<open>
  \<^verbatim>\<open>src/fabric_api.cpp\<close>: every mutating method takes the one mutex, advances the clock and
  runs the handler, so a fabric is a state machine whose step is one call. The operations
  are gathered in a datatype, a call is a transition, and the states a fabric can be in are
  those a sequence of calls leads to from the constructor.
\<close>

section \<open>Epochs\<close>

text \<open>The loop stops at the first job whose epoch is not below; jobs before it keep the new one.\<close>

primrec rebase_jobs ::
  "epoch_id \<Rightarrow> (training_job_id \<times> job_state) list \<Rightarrow> (training_job_id, job_state) table \<times> u32 option" where
  "rebase_jobs epoch [] = ([], Some 0)"
| "rebase_jobs epoch (e # es) =
     (if js_epoch (snd e) \<ge> epoch then (e # es, None)
      else let (rest, n) = rebase_jobs epoch es
           in ((fst e, (snd e)\<lparr>js_epoch := epoch\<rparr>) # rest, map_option (\<lambda>k. k + 1) n))"

definition RebaseEpoch :: "fabric_state \<Rightarrow> epoch_id \<Rightarrow> u32 outcome" where
  "RebaseEpoch st epoch =
     require (valid epoch) EC_InvalidArgument st (
     let st1 = tick st; (jobs, n) = rebase_jobs epoch (fb_jobs st1); st2 = st1\<lparr>fb_jobs := jobs\<rparr>
     in (case n of None \<Rightarrow> (Inl EC_Conflict, st2) | Some k \<Rightarrow> (Inr k, st2)))"

section \<open>Operations\<close>

datatype operation =
    Op_RegisterJob job_registration
  | Op_RegisterGroup group_registration
  | Op_PublishTopologyEvidence authority_token topology_evidence
  | Op_ApplyPolicy policy_document
  | Op_RetireJob authority_token
  | Op_RebaseEpoch epoch_id
  | Op_BeginStep step_open_request
  | Op_BeginPhase phase_open_request
  | Op_EndPhase authority_token phase_id phase_disposition
  | Op_EndStep authority_token step_disposition
  | Op_RequestTraffic traffic_intent
  | Op_CompleteFlow flow_completion
  | Op_RevalidateFlow authority_token traffic_intent_id
  | Op_BeginCheckpointBurst checkpoint_burst_request
  | Op_EndCheckpointBurst authority_token checkpoint_burst_id
  | Op_EvaluatePacing pacing_intent
  | Op_AdmitReplacement recovery_request
  | Op_RetireIncarnation authority_token

definition RegisterJob :: "fabric_state \<Rightarrow> job_registration \<Rightarrow> job_handle outcome" where
  "RegisterJob st registration = register_job (tick st) registration"

definition RegisterGroup :: "fabric_state \<Rightarrow> group_registration \<Rightarrow> unit outcome" where
  "RegisterGroup st registration = register_group (tick st) registration"

definition PublishTopologyEvidence ::
  "fabric_state \<Rightarrow> authority_token \<Rightarrow> topology_evidence \<Rightarrow> topology_generation outcome" where
  "PublishTopologyEvidence st authority evidence = publish_topology (tick st) authority evidence"

definition ApplyPolicy :: "fabric_state \<Rightarrow> policy_document \<Rightarrow> policy_apply_result outcome" where
  "ApplyPolicy st policy = apply_policy (tick st) policy"

definition RetireJob :: "fabric_state \<Rightarrow> authority_token \<Rightarrow> unit outcome" where
  "RetireJob st authority = retire_job (tick st) authority"

definition BeginStep :: "fabric_state \<Rightarrow> step_open_request \<Rightarrow> step_report outcome" where
  "BeginStep st request = begin_step (tick st) request"

definition BeginPhase :: "fabric_state \<Rightarrow> phase_open_request \<Rightarrow> phase_record outcome" where
  "BeginPhase st request = begin_phase (tick st) request"

definition EndPhase ::
  "fabric_state \<Rightarrow> authority_token \<Rightarrow> phase_id \<Rightarrow> phase_disposition \<Rightarrow> phase_record outcome" where
  "EndPhase st authority phase disposition = end_phase (tick st) authority phase disposition"

definition EndStep :: "fabric_state \<Rightarrow> authority_token \<Rightarrow> step_disposition \<Rightarrow> step_report outcome" where
  "EndStep st authority disposition = end_step (tick st) authority disposition"

definition RequestTraffic :: "fabric_state \<Rightarrow> traffic_intent \<Rightarrow> traffic_decision outcome" where
  "RequestTraffic st intent = request_traffic (tick st) intent"

definition CompleteFlow :: "fabric_state \<Rightarrow> flow_completion \<Rightarrow> flow_receipt outcome" where
  "CompleteFlow st completion = complete_flow (tick st) completion"

definition RevalidateFlow ::
  "fabric_state \<Rightarrow> authority_token \<Rightarrow> traffic_intent_id \<Rightarrow> revalidation_result outcome" where
  "RevalidateFlow st authority intent = revalidate_flow (tick st) authority intent"

definition BeginCheckpointBurst ::
  "fabric_state \<Rightarrow> checkpoint_burst_request \<Rightarrow> checkpoint_burst_id outcome" where
  "BeginCheckpointBurst st request = begin_checkpoint_burst (tick st) request"

definition EndCheckpointBurst ::
  "fabric_state \<Rightarrow> authority_token \<Rightarrow> checkpoint_burst_id \<Rightarrow> unit outcome" where
  "EndCheckpointBurst st authority burst = end_checkpoint_burst (tick st) authority burst"

definition EvaluatePacing :: "fabric_state \<Rightarrow> pacing_intent \<Rightarrow> pacing_decision outcome" where
  "EvaluatePacing st intent = evaluate_pacing (tick st) intent"

definition AdmitReplacement :: "fabric_state \<Rightarrow> recovery_request \<Rightarrow> recovery_grant outcome" where
  "AdmitReplacement st request = admit_replacement (tick st) request"

definition RetireIncarnation :: "fabric_state \<Rightarrow> authority_token \<Rightarrow> unit outcome" where
  "RetireIncarnation st authority = retire_incarnation (tick st) authority"

text \<open>The state after a call, whatever the call returned.\<close>

definition apply_operation :: "fabric_state \<Rightarrow> operation \<Rightarrow> fabric_state" where
  "apply_operation st x =
     (case x of
        Op_RegisterJob r \<Rightarrow> snd (RegisterJob st r)
      | Op_RegisterGroup r \<Rightarrow> snd (RegisterGroup st r)
      | Op_PublishTopologyEvidence a e \<Rightarrow> snd (PublishTopologyEvidence st a e)
      | Op_ApplyPolicy p \<Rightarrow> snd (ApplyPolicy st p)
      | Op_RetireJob a \<Rightarrow> snd (RetireJob st a)
      | Op_RebaseEpoch e \<Rightarrow> snd (RebaseEpoch st e)
      | Op_BeginStep r \<Rightarrow> snd (BeginStep st r)
      | Op_BeginPhase r \<Rightarrow> snd (BeginPhase st r)
      | Op_EndPhase a p d \<Rightarrow> snd (EndPhase st a p d)
      | Op_EndStep a d \<Rightarrow> snd (EndStep st a d)
      | Op_RequestTraffic i \<Rightarrow> snd (RequestTraffic st i)
      | Op_CompleteFlow c \<Rightarrow> snd (CompleteFlow st c)
      | Op_RevalidateFlow a i \<Rightarrow> snd (RevalidateFlow st a i)
      | Op_BeginCheckpointBurst r \<Rightarrow> snd (BeginCheckpointBurst st r)
      | Op_EndCheckpointBurst a b \<Rightarrow> snd (EndCheckpointBurst st a b)
      | Op_EvaluatePacing i \<Rightarrow> snd (EvaluatePacing st i)
      | Op_AdmitReplacement r \<Rightarrow> snd (AdmitReplacement st r)
      | Op_RetireIncarnation a \<Rightarrow> snd (RetireIncarnation st a))"

end
