(* ===== verification/Ledger.thy ===== *)
theory Ledger
  imports Api
begin

text \<open>
  The accounting of an open step against the flows it holds. A counter is exact when it is
  the sum of a weight over the flows a selection picks; opening, throttling and closing a
  flow keep every counter exact, because the saturating subtractions never saturate and
  the additions never wrap, as long as the contract is one the 64-bit counters can hold.
\<close>

section \<open>Exact counters\<close>

definition exact :: "('v \<Rightarrow> bool) \<Rightarrow> ('v \<Rightarrow> nat) \<Rightarrow> 'a::len word \<Rightarrow> ('k, 'v) table \<Rightarrow> bool" where
  "exact p w c t \<longleftrightarrow> unat c = tally p w t"

lemma exact_empty: "exact p w c [] \<longleftrightarrow> c = 0"
  by (simp add: exact_def unat_eq_0)

lemma exact_del:
  assumes "exact p w c t" and "wf_table t" and "map_of t k = Some v" and "p v \<Longrightarrow> unat x = w v"
    and "p v"
  shows "exact p w (sat_sub c x) (del k t)"
  using tally_del [OF assms(2,3), of p w] assms(1,4,5) by (simp add: exact_def)

lemma exact_del_other:
  assumes "exact p w c t" and "wf_table t" and "map_of t k = Some v" and "\<not> p v"
  shows "exact p w c (del k t)"
  using tally_del [OF assms(2,3), of p w] assms(1,4) by (simp add: exact_def)

lemma exact_del_if:
  assumes c: "exact p w c t" and wf: "wf_table t" and v: "map_of t k = Some v"
    and x: "p v \<Longrightarrow> unat x = w v"
  shows "exact p w (if p v then sat_sub c x else c) (del k t)"
proof (cases "p v")
  case True
  then show ?thesis using exact_del [OF c wf v x True] by simp
next
  case False
  then show ?thesis using exact_del_other [OF c wf v] by simp
qed

lemma exact_put:
  fixes c x :: "'a::len word"
  assumes "exact p w c t" and "\<not> has_key t k" and "p v" and "unat x = w v"
    and "tally p w t + w v < 2 ^ LENGTH('a)"
  shows "exact p w (c + x) (put k v t)"
  using assms by (simp add: exact_def tally_put_fresh unat_plus)

lemma exact_put_other:
  assumes "exact p w c t" and "\<not> has_key t k" and "\<not> p v"
  shows "exact p w c (put k v t)"
  using assms by (simp add: exact_def tally_put_fresh)

lemma exact_put_if:
  fixes c x :: "'a::len word"
  assumes c: "exact p w c t" and fresh: "\<not> has_key t k" and x: "p v \<Longrightarrow> unat x = w v"
    and room: "tally p w t + w v < 2 ^ LENGTH('a)"
  shows "exact p w (if p v then c + x else c) (put k v t)"
proof (cases "p v")
  case True
  then show ?thesis using exact_put [OF c fresh True x [OF True] room] by simp
next
  case False
  then show ?thesis using exact_put_other [OF c fresh] by simp
qed

lemma tally_put_same:
  assumes "wf_table t" and "map_of t k = Some v" and "p v' = p v" and "w v' = w v"
  shows "tally p w (put k v' t) = tally p w t"
  using tally_put [OF assms(1,2), of p w v'] assms(3,4) by (auto split: if_splits)

lemma exact_lower:
  assumes "exact p w c t" and "wf_table t" and "map_of t k = Some v" and "p v" and "p v'"
    and "w v' + unat x = w v"
  shows "exact p w (sat_sub c x) (put k v' t)"
  using tally_put [OF assms(2,3), of p w v'] assms by (simp add: exact_def)

lemma exact_same:
  assumes "exact p w c t" and "wf_table t" and "map_of t k = Some v" and "p v' = p v"
    and "p v \<Longrightarrow> w v' = w v"
  shows "exact p w c (put k v' t)"
  using tally_put [OF assms(2,3), of p w v'] assms by (auto simp: exact_def split: if_splits)

section \<open>What is kept of a step\<close>

abbreviation rate_of :: "flow_state \<Rightarrow> nat" where "rate_of f \<equiv> unat (fs_granted_min_bps f)"
abbreviation size_of :: "flow_state \<Rightarrow> nat" where "size_of f \<equiv> unat (fs_bytes_estimate f)"

definition max_rate :: nat where "max_rate = 1000000000000000"

text \<open>
  A contract whose limits the counters can hold: the bytes of a step with every flow late
  by a full intent, and the rates of all its flows at the highest rate.
\<close>

definition contract_fits :: "workload_contract \<Rightarrow> bool" where
  "contract_fits c \<longleftrightarrow>
     wc_max_active_flows_per_step c \<le> 2 ^ 24 \<and>
     unat (wc_max_bytes_per_step c) +
       unat (wc_max_active_flows_per_step c) * unat (wc_max_bytes_per_intent c) < 2 ^ 64 \<and>
     unat (wc_max_active_flows_per_step c) * max_rate < 2 ^ 64"

lemma default_contract_fits: "contract_fits default_contract"
  by (simp add: contract_fits_def default_contract_def max_rate_def)

definition flow_fits :: "step_state \<Rightarrow> traffic_intent_id \<Rightarrow> flow_state \<Rightarrow> bool" where
  "flow_fits s i f \<longleftrightarrow>
     fs_intent f = i \<and> fs_step f = ss_step s \<and> fs_incarnation f = ss_incarnation s \<and>
     rate_of f \<le> max_rate \<and>
     (\<exists>p. map_of (ss_phases s) (fs_phase f) = Some p \<and> phase_active p)"

definition flows_ok :: "job_state \<Rightarrow> step_state \<Rightarrow> bool" where
  "flows_ok job s \<longleftrightarrow>
     wf_table (ss_flows s) \<and> wf_table (ss_phases s) \<and>
     (\<forall>i f. map_of (ss_flows s) i = Some f \<longrightarrow> flow_fits s i f \<and> i < js_next_intent_id job) \<and>
     (\<forall>i p. map_of (ss_phases s) i = Some p \<longrightarrow> pr_id p = i \<and> pr_step p = ss_step s \<and> i < js_next_phase_id job) \<and>
     (\<forall>i. has_key (ss_phase_active_flows s) i \<longleftrightarrow> has_key (ss_phases s) i)"

definition ledger :: "workload_contract \<Rightarrow> step_state \<Rightarrow> bool" where
  "ledger c s \<longleftrightarrow>
     (let a = ss_accounting s; fl = ss_flows s in
        length fl \<le> unat (wc_max_active_flows_per_step c) \<and>
        exact (\<lambda>_. True) (\<lambda>_. 1) (sa_active_flows a) fl \<and>
        exact (\<lambda>_. True) rate_of (sa_active_min_bps a) fl \<and>
        unat (sa_bytes_committed a) = unat (sa_bytes_completed a) + tally (\<lambda>_. True) size_of fl \<and>
        unat (sa_bytes_committed a) + length fl * unat (wc_max_bytes_per_intent c)
          \<le> unat (wc_max_bytes_per_step c)
            + unat (wc_max_active_flows_per_step c) * unat (wc_max_bytes_per_intent c) \<and>
        sa_bytes_cancelled a = 0)"

definition phase_ledger :: "step_state \<Rightarrow> bool" where
  "phase_ledger s \<longleftrightarrow>
     (\<forall>i. let a = phase_accounting_of s i; sel = (\<lambda>f. fs_phase f = i) in
        unat (ph_bytes_committed a) = unat (ph_bytes_completed a) + tally sel size_of (ss_flows s) \<and>
        unat (ph_bytes_completed a) \<le> unat (sa_bytes_completed (ss_accounting s)) \<and>
        exact sel (\<lambda>_. 1) (get0 (ss_phase_active_flows s) i) (ss_flows s))"

lemma contract_fitsD:
  assumes "contract_fits c"
  shows "wc_max_active_flows_per_step c \<le> 2 ^ 24"
    and "unat (wc_max_bytes_per_step c) +
      unat (wc_max_active_flows_per_step c) * unat (wc_max_bytes_per_intent c) < 18446744073709551616"
    and "unat (wc_max_active_flows_per_step c) * max_rate < 18446744073709551616"
  using assms by (simp_all add: contract_fits_def)

lemma ledgerD:
  assumes "ledger c s"
  shows "length (ss_flows s) \<le> unat (wc_max_active_flows_per_step c)"
    and "exact (\<lambda>_. True) (\<lambda>_. 1) (sa_active_flows (ss_accounting s)) (ss_flows s)"
    and "exact (\<lambda>_. True) rate_of (sa_active_min_bps (ss_accounting s)) (ss_flows s)"
    and "unat (sa_bytes_committed (ss_accounting s)) =
      unat (sa_bytes_completed (ss_accounting s)) + tally (\<lambda>_. True) size_of (ss_flows s)"
    and "unat (sa_bytes_committed (ss_accounting s)) + length (ss_flows s) * unat (wc_max_bytes_per_intent c)
      \<le> unat (wc_max_bytes_per_step c)
        + unat (wc_max_active_flows_per_step c) * unat (wc_max_bytes_per_intent c)"
    and "sa_bytes_cancelled (ss_accounting s) = 0"
  using assms by (simp_all add: ledger_def Let_def)

lemma ledgerI:
  assumes "length (ss_flows s) \<le> unat (wc_max_active_flows_per_step c)"
    and "exact (\<lambda>_. True) (\<lambda>_. 1) (sa_active_flows (ss_accounting s)) (ss_flows s)"
    and "exact (\<lambda>_. True) rate_of (sa_active_min_bps (ss_accounting s)) (ss_flows s)"
    and "unat (sa_bytes_committed (ss_accounting s)) =
      unat (sa_bytes_completed (ss_accounting s)) + tally (\<lambda>_. True) size_of (ss_flows s)"
    and "unat (sa_bytes_committed (ss_accounting s)) + length (ss_flows s) * unat (wc_max_bytes_per_intent c)
      \<le> unat (wc_max_bytes_per_step c)
        + unat (wc_max_active_flows_per_step c) * unat (wc_max_bytes_per_intent c)"
    and "sa_bytes_cancelled (ss_accounting s) = 0"
  shows "ledger c s"
  using assms by (simp add: ledger_def Let_def)

section \<open>Closing a flow\<close>

lemma close_in_step_simps [simp]:
  "ss_flows (close_in_step f c b s) = del (fs_intent f) (ss_flows s)"
  "ss_accounting (close_in_step f c b s) = close_accounting f c b (ss_accounting s)"
  "ss_phase_active_flows (close_in_step f c b s) =
     adjust (\<lambda>n. sat_sub n 1) (fs_phase f) (ss_phase_active_flows s)"
  "ss_phases (close_in_step f c b s) = ss_phases s"
  "ss_step (close_in_step f c b s) = ss_step s"
  "ss_incarnation (close_in_step f c b s) = ss_incarnation s"
  "ss_job_generation (close_in_step f c b s) = ss_job_generation s"
  "ss_burst (close_in_step f c b s) = ss_burst s"
  "phase_accounting_of (close_in_step f c b s) i =
     (if fs_phase f = i then close_phase_accounting f c b (phase_accounting_of s i)
      else phase_accounting_of s i)"
  by (simp_all add: close_in_step_def phase_accounting_of_def)

lemma close_accounting_simps [simp]:
  "sa_active_flows (close_accounting f c b a) = sat_sub (sa_active_flows a) 1"
  "sa_active_min_bps (close_accounting f c b a) = sat_sub (sa_active_min_bps a) (fs_granted_min_bps f)"
  "sa_bytes_committed (close_accounting f c b a) =
     sat_sub (sa_bytes_committed a) (fs_bytes_estimate f) + (if c then b else 0)"
  "sa_bytes_completed (close_accounting f c b a) = sa_bytes_completed a + (if c then b else 0)"
  "sa_bytes_cancelled (close_accounting f c b a) = sa_bytes_cancelled a"
  by (simp_all add: close_accounting_def Let_def)

lemma close_phase_accounting_simps [simp]:
  "ph_bytes_committed (close_phase_accounting f c b p) =
     sat_sub (ph_bytes_committed p) (fs_bytes_estimate f) + (if c then b else 0)"
  "ph_bytes_completed (close_phase_accounting f c b p) = ph_bytes_completed p + (if c then b else 0)"
  by (simp_all add: close_phase_accounting_def Let_def)

lemma flow_fits_cong:
  "ss_step s' = ss_step s \<Longrightarrow> ss_incarnation s' = ss_incarnation s \<Longrightarrow> ss_phases s' = ss_phases s \<Longrightarrow>
   flow_fits s' i f = flow_fits s i f"
  by (simp add: flow_fits_def)

lemma close_flows_ok:
  assumes "flows_ok job s"
  shows "flows_ok job (close_in_step f c b s)"
  using assms by (auto simp: flows_ok_def flow_fits_def)

lemma close_ledger:
  assumes ok: "ledger k s" and wf: "wf_table (ss_flows s)" and f: "map_of (ss_flows s) i = Some f"
    and i: "fs_intent f = i" and fits: "contract_fits k"
    and b: "c \<Longrightarrow> b \<le> wc_max_bytes_per_intent k"
  shows "ledger k (close_in_step f c b s)"
proof -
  let ?a = "ss_accounting s" and ?fl = "ss_flows s" and ?b = "if c then b else 0"
  let ?M = "unat (wc_max_bytes_per_intent k)"
  have len: "Suc (length (del i ?fl)) = length ?fl"
    using length_del [OF wf] f by (simp add: has_keyI)
  have room: "length ?fl * ?M = length (del i ?fl) * ?M + ?M"
    unfolding len [symmetric] by simp
  have size: "tally (\<lambda>_. True) size_of (del i ?fl) + size_of f = tally (\<lambda>_. True) size_of ?fl"
    using tally_del [OF wf f, of "\<lambda>_. True" size_of] by simp
  have bM: "unat ?b \<le> ?M" using b by (simp add: word_le_nat_alt)
  note L = ledgerD [OF ok]
  have committed: "unat (sa_bytes_committed ?a) + length ?fl * ?M < 18446744073709551616"
    using L(5) contract_fitsD(2) [OF fits] by linarith
  have sum1: "unat (sat_sub (sa_bytes_committed ?a) (fs_bytes_estimate f) + ?b)
      = (unat (sa_bytes_committed ?a) - size_of f) + unat ?b"
    using committed bM room by (subst unat_plus64) simp_all
  have sum2: "unat (sa_bytes_completed ?a + ?b) = unat (sa_bytes_completed ?a) + unat ?b"
    using L(4) committed bM room by (intro unat_plus64) linarith
  show ?thesis
  proof (rule ledgerI, unfold close_in_step_simps close_accounting_simps i)
    show "exact (\<lambda>_. True) (\<lambda>_. 1) (sat_sub (sa_active_flows ?a) 1) (del i ?fl)"
      by (rule exact_del [OF L(2) wf f]) simp_all
    show "exact (\<lambda>_. True) rate_of (sat_sub (sa_active_min_bps ?a) (fs_granted_min_bps f)) (del i ?fl)"
      by (rule exact_del [OF L(3) wf f]) simp_all
    show "length (del i ?fl) \<le> unat (wc_max_active_flows_per_step k)"
      using L(1) len by simp
    show "unat (sat_sub (sa_bytes_committed ?a) (fs_bytes_estimate f) + ?b) =
        unat (sa_bytes_completed ?a + ?b) + tally (\<lambda>_. True) size_of (del i ?fl)"
      unfolding sum1 sum2 using L(4) size by simp
    show "unat (sat_sub (sa_bytes_committed ?a) (fs_bytes_estimate f) + ?b) + length (del i ?fl) * ?M
        \<le> unat (wc_max_bytes_per_step k) + unat (wc_max_active_flows_per_step k) * ?M"
      unfolding sum1 using L(5) bM room by simp
    show "sa_bytes_cancelled ?a = 0" by (rule L(6))
  qed
qed

lemma get0_adjust_sat_sub:
  "get0 (adjust (\<lambda>u. sat_sub u x) k t) k' = (if k = k' then sat_sub (get0 t k') x else get0 t k')"
  by (cases "map_of t k") (auto simp: adjust_def get0_def sat_sub_def)

lemma size_in_phase_le:
  "tally (\<lambda>f. fs_phase f = i) size_of fl \<le> tally (\<lambda>_. True) size_of fl"
  by (rule tally_mono_sel) simp

lemma phase_ledgerD:
  assumes "phase_ledger s"
  shows "unat (ph_bytes_committed (phase_accounting_of s i)) =
      unat (ph_bytes_completed (phase_accounting_of s i)) + tally (\<lambda>f. fs_phase f = i) size_of (ss_flows s)"
    and "unat (ph_bytes_completed (phase_accounting_of s i)) \<le> unat (sa_bytes_completed (ss_accounting s))"
    and "exact (\<lambda>f. fs_phase f = i) (\<lambda>_. 1) (get0 (ss_phase_active_flows s) i) (ss_flows s)"
  using assms by (simp_all add: phase_ledger_def Let_def)

lemma phase_ledgerI:
  assumes "\<And>i. unat (ph_bytes_committed (phase_accounting_of s i)) =
      unat (ph_bytes_completed (phase_accounting_of s i)) + tally (\<lambda>f. fs_phase f = i) size_of (ss_flows s)"
    and "\<And>i. unat (ph_bytes_completed (phase_accounting_of s i)) \<le> unat (sa_bytes_completed (ss_accounting s))"
    and "\<And>i. exact (\<lambda>f. fs_phase f = i) (\<lambda>_. 1) (get0 (ss_phase_active_flows s) i) (ss_flows s)"
  shows "phase_ledger s"
  using assms by (simp add: phase_ledger_def Let_def)

lemma close_phase_ledger:
  assumes ph: "phase_ledger s" and ok: "ledger k s" and wf: "wf_table (ss_flows s)"
    and f: "map_of (ss_flows s) j = Some f" and j: "fs_intent f = j" and fits: "contract_fits k"
    and b: "c \<Longrightarrow> b \<le> wc_max_bytes_per_intent k"
  shows "phase_ledger (close_in_step f c b s)"
proof -
  let ?a = "ss_accounting s" and ?fl = "ss_flows s" and ?b = "if c then b else 0"
  let ?M = "unat (wc_max_bytes_per_intent k)"
  note L = ledgerD [OF ok] and P = phase_ledgerD [OF ph]
  have "length ?fl * ?M = length (del j ?fl) * ?M + ?M"
    using length_del [OF wf has_keyI [OF f]] by (metis add.commute mult_Suc)
  then have room: "unat (sa_bytes_committed ?a) + ?M < 18446744073709551616"
    using L(5) contract_fitsD(2) [OF fits] by linarith
  have bM: "unat ?b \<le> ?M" using b by (simp add: word_le_nat_alt)
  have sum2: "unat (sa_bytes_completed ?a + ?b) = unat (sa_bytes_completed ?a) + unat ?b"
    using L(4) room bM by (intro unat_plus64) linarith
  show ?thesis
  proof (rule phase_ledgerI)
    fix i
    let ?p = "phase_accounting_of s i"
    have committed: "unat (ph_bytes_committed ?p) \<le> unat (sa_bytes_committed ?a)"
      using P(1,2) [of i] L(4) size_in_phase_le [of i ?fl] by linarith
    have psum1: "unat (sat_sub (ph_bytes_committed ?p) (fs_bytes_estimate f) + ?b)
        = (unat (ph_bytes_committed ?p) - size_of f) + unat ?b"
      using committed room bM by (subst unat_plus64) simp_all
    have psum2: "unat (ph_bytes_completed ?p + ?b) = unat (ph_bytes_completed ?p) + unat ?b"
      using P(1) [of i] committed room bM by (intro unat_plus64) linarith
    have size: "tally (\<lambda>f. fs_phase f = i) size_of (del j ?fl) + (if fs_phase f = i then size_of f else 0)
        = tally (\<lambda>f. fs_phase f = i) size_of ?fl"
      using tally_del [OF wf f, of "\<lambda>f. fs_phase f = i" size_of] by simp
    show "unat (ph_bytes_committed (phase_accounting_of (close_in_step f c b s) i)) =
        unat (ph_bytes_completed (phase_accounting_of (close_in_step f c b s) i)) +
        tally (\<lambda>f. fs_phase f = i) size_of (ss_flows (close_in_step f c b s))"
    proof (cases "fs_phase f = i")
      case True
      with size P(1) [of i] have "unat (ph_bytes_committed ?p) - size_of f + unat ?b =
          unat (ph_bytes_completed ?p) + unat ?b + tally (\<lambda>f. fs_phase f = i) size_of (del j ?fl)"
        by simp
      with True psum1 psum2 j show ?thesis by (simp del: if_split)
    next
      case False
      with size P(1) [of i] j show ?thesis by simp
    qed
    show "unat (ph_bytes_completed (phase_accounting_of (close_in_step f c b s) i))
        \<le> unat (sa_bytes_completed (ss_accounting (close_in_step f c b s)))"
      using psum2 sum2 P(2) [of i] by (cases "fs_phase f = i") (simp_all del: if_split)
    show "exact (\<lambda>f. fs_phase f = i) (\<lambda>_. 1) (get0 (ss_phase_active_flows (close_in_step f c b s)) i)
        (ss_flows (close_in_step f c b s))"
      unfolding close_in_step_simps get0_adjust_sat_sub j by (rule exact_del_if [OF P(3) wf f]) simp
  qed
qed

section \<open>The utilisation of the groups\<close>

definition groups_exact :: "job_state \<Rightarrow> (traffic_intent_id, flow_state) table \<Rightarrow> bool" where
  "groups_exact job fl \<longleftrightarrow>
     (\<forall>g. exact (\<lambda>f. fs_group f = g) rate_of (utilized_bps job g) fl \<and>
          exact (\<lambda>f. fs_group f = g) (\<lambda>_. 1) (active_flow_count job g) fl)"

lemma utilized_release:
  "utilized_bps (release_utilization job f) g =
     (if fs_group f = g then sat_sub (utilized_bps job g) (fs_granted_min_bps f) else utilized_bps job g)"
  "active_flow_count (release_utilization job f) g =
     (if fs_group f = g then sat_sub (active_flow_count job g) 1 else active_flow_count job g)"
  by (simp_all add: utilized_bps_def active_flow_count_def release_utilization_def get0_adjust_sat_sub)

lemma utilized_acquire:
  "utilized_bps (acquire_utilization job f) g =
     (if fs_group f = g then utilized_bps job g + fs_granted_min_bps f else utilized_bps job g)"
  "active_flow_count (acquire_utilization job f) g =
     (if fs_group f = g then active_flow_count job g + 1 else active_flow_count job g)"
  by (simp_all add: utilized_bps_def active_flow_count_def acquire_utilization_def)

lemma close_groups_exact:
  assumes "groups_exact job fl" and wf: "wf_table fl" and f: "map_of fl i = Some f"
  shows "groups_exact (release_utilization job f) (del i fl)"
  unfolding groups_exact_def utilized_release
proof (intro allI conjI)
  fix g
  have G: "exact (\<lambda>f. fs_group f = g) rate_of (utilized_bps job g) fl"
    "exact (\<lambda>f. fs_group f = g) (\<lambda>_. 1) (active_flow_count job g) fl"
    using assms(1) by (simp_all add: groups_exact_def)
  show "exact (\<lambda>f. fs_group f = g) rate_of
      (if fs_group f = g then sat_sub (utilized_bps job g) (fs_granted_min_bps f) else utilized_bps job g)
      (del i fl)"
    by (rule exact_del_if [OF G(1) wf f]) simp
  show "exact (\<lambda>f. fs_group f = g) (\<lambda>_. 1)
      (if fs_group f = g then sat_sub (active_flow_count job g) 1 else active_flow_count job g) (del i fl)"
    by (rule exact_del_if [OF G(2) wf f]) simp
qed

lemma rates_bounded:
  assumes "\<And>i f. map_of fl i = Some f \<Longrightarrow> rate_of f \<le> max_rate" and "wf_table fl"
  shows "tally p rate_of fl \<le> length fl * max_rate"
  using assms by (intro tally_le_length) (simp add: set_table)

lemma room_for_a_rate:
  assumes "\<And>i f. map_of fl i = Some f \<Longrightarrow> rate_of f \<le> max_rate" and "wf_table fl"
    and "length fl < unat (wc_max_active_flows_per_step k)" and "contract_fits k" and "rate_of f \<le> max_rate"
  shows "tally p rate_of fl + rate_of f < 2 ^ 64"
proof -
  have "Suc (length fl) * max_rate \<le> unat (wc_max_active_flows_per_step k) * max_rate"
    using assms(3) by (intro mult_le_mono1) simp
  moreover have "tally p rate_of fl \<le> length fl * max_rate" using assms(1,2) by (rule rates_bounded)
  ultimately show ?thesis using contract_fitsD(3) [OF assms(4)] assms(5) by simp
qed

lemma room_for_a_flow:
  assumes "length fl < unat (wc_max_active_flows_per_step k)" and "contract_fits k"
  shows "tally p (\<lambda>_. 1) fl + 1 < 2 ^ 32"
proof -
  have "unat (wc_max_active_flows_per_step k) \<le> 2 ^ 24"
    using contract_fitsD(1) [OF assms(2)] by (simp add: word_le_nat_alt)
  moreover have "tally p (\<lambda>_. 1) fl \<le> length fl" using tally_le_length [of fl "\<lambda>_. 1" 1 p] by simp
  ultimately show ?thesis using assms(1) by simp
qed

section \<open>Opening a flow\<close>

lemma open_flow_simps [simp]:
  "fst (open_flow job s f) = acquire_utilization job f"
  "ss_flows (snd (open_flow job s f)) = put (fs_intent f) f (ss_flows s)"
  "ss_accounting (snd (open_flow job s f)) = open_accounting f (ss_accounting s)"
  "ss_phases (snd (open_flow job s f)) = ss_phases s"
  "ss_step (snd (open_flow job s f)) = ss_step s"
  "ss_incarnation (snd (open_flow job s f)) = ss_incarnation s"
  "ss_job_generation (snd (open_flow job s f)) = ss_job_generation s"
  "ss_burst (snd (open_flow job s f)) = ss_burst s"
  "ss_phase_active_flows (snd (open_flow job s f)) =
     adjust (\<lambda>n. n + 1) (fs_phase f) (ss_phase_active_flows s)"
  "phase_accounting_of (snd (open_flow job s f)) i =
     (if fs_phase f = i
      then (phase_accounting_of s i)
        \<lparr>ph_bytes_committed := ph_bytes_committed (phase_accounting_of s i) + fs_bytes_estimate f\<rparr>
      else phase_accounting_of s i)"
  by (simp_all add: open_flow_def update_phase_accounting_def phase_accounting_of_def)

lemma open_accounting_simps [simp]:
  "sa_active_flows (open_accounting f a) = sa_active_flows a + 1"
  "sa_active_min_bps (open_accounting f a) = sa_active_min_bps a + fs_granted_min_bps f"
  "sa_bytes_committed (open_accounting f a) = sa_bytes_committed a + fs_bytes_estimate f"
  "sa_bytes_completed (open_accounting f a) = sa_bytes_completed a"
  "sa_bytes_cancelled (open_accounting f a) = sa_bytes_cancelled a"
  by (simp_all add: open_accounting_def)

lemma open_flows_ok:
  assumes "flows_ok job s" and "flow_fits s (fs_intent f) f" and "fs_intent f < js_next_intent_id job"
  shows "flows_ok job (snd (open_flow job' s f))"
  using assms by (auto simp: flows_ok_def flow_fits_def)

text \<open>What the checks before arbitration leave room for.\<close>

definition has_room :: "workload_contract \<Rightarrow> step_state \<Rightarrow> flow_state \<Rightarrow> bool" where
  "has_room k s f \<longleftrightarrow>
     length (ss_flows s) < unat (wc_max_active_flows_per_step k) \<and>
     unat (sa_bytes_committed (ss_accounting s)) + size_of f \<le> unat (wc_max_bytes_per_step k)"

lemma open_ledger:
  assumes ok: "ledger k s" and fo: "flows_ok job s" and fresh: "\<not> has_key (ss_flows s) (fs_intent f)"
    and room: "has_room k s f" and fits: "contract_fits k" and rate: "rate_of f \<le> max_rate"
  shows "ledger k (snd (open_flow job' s f))"
proof -
  let ?a = "ss_accounting s" and ?fl = "ss_flows s" and ?M = "unat (wc_max_bytes_per_intent k)"
  note L = ledgerD [OF ok]
  have R: "length ?fl < unat (wc_max_active_flows_per_step k)"
    "unat (sa_bytes_committed ?a) + size_of f \<le> unat (wc_max_bytes_per_step k)"
    using room by (simp_all add: has_room_def)
  have bounded: "rate_of v \<le> max_rate" if "map_of ?fl i = Some v" for i v
    using fo that by (auto simp: flows_ok_def flow_fits_def)
  have wf: "wf_table ?fl" using fo by (simp add: flows_ok_def)
  have len: "length (put (fs_intent f) f ?fl) = Suc (length ?fl)" using fresh by (simp add: length_put)
  have "Suc (length ?fl) * ?M \<le> unat (wc_max_active_flows_per_step k) * ?M"
    using R(1) by (intro mult_le_mono1) simp
  then have more: "Suc (length ?fl) * ?M + unat (wc_max_bytes_per_step k)
      \<le> unat (wc_max_bytes_per_step k) + unat (wc_max_active_flows_per_step k) * ?M" by simp
  have sum: "unat (sa_bytes_committed ?a + fs_bytes_estimate f) = unat (sa_bytes_committed ?a) + size_of f"
    using R(2) contract_fitsD(2) [OF fits] by (intro unat_plus64) linarith
  show ?thesis
  proof (rule ledgerI, unfold open_flow_simps open_accounting_simps len)
    show "Suc (length ?fl) \<le> unat (wc_max_active_flows_per_step k)" using R(1) by simp
    show "exact (\<lambda>_. True) (\<lambda>_. 1) (sa_active_flows ?a + 1) (put (fs_intent f) f ?fl)"
      using room_for_a_flow [OF R(1) fits, of "\<lambda>_. True"] by (intro exact_put [OF L(2) fresh]) simp_all
    show "exact (\<lambda>_. True) rate_of (sa_active_min_bps ?a + fs_granted_min_bps f) (put (fs_intent f) f ?fl)"
      using room_for_a_rate [of ?fl k f "\<lambda>_. True", OF bounded wf R(1) fits rate]
      by (intro exact_put [OF L(3) fresh]) simp_all
    show "unat (sa_bytes_committed ?a + fs_bytes_estimate f) =
        unat (sa_bytes_completed ?a) + tally (\<lambda>_. True) size_of (put (fs_intent f) f ?fl)"
      unfolding sum using L(4) fresh by (simp add: tally_put_fresh)
    show "unat (sa_bytes_committed ?a + fs_bytes_estimate f) + Suc (length ?fl) * ?M
        \<le> unat (wc_max_bytes_per_step k) + unat (wc_max_active_flows_per_step k) * ?M"
      unfolding sum using R(2) more by linarith
    show "sa_bytes_cancelled ?a = 0" by (rule L(6))
  qed
qed

lemma open_phase_ledger:
  assumes ph: "phase_ledger s" and ok: "ledger k s" and fo: "flows_ok job s"
    and fresh: "\<not> has_key (ss_flows s) (fs_intent f)" and room: "has_room k s f" and fits: "contract_fits k"
    and phase: "has_key (ss_phases s) (fs_phase f)"
  shows "phase_ledger (snd (open_flow job' s f))"
proof (rule phase_ledgerI)
  fix i
  let ?a = "ss_accounting s" and ?fl = "ss_flows s" and ?p = "phase_accounting_of s i"
  note L = ledgerD [OF ok] and P = phase_ledgerD [OF ph]
  have R: "length ?fl < unat (wc_max_active_flows_per_step k)"
    "unat (sa_bytes_committed ?a) + size_of f \<le> unat (wc_max_bytes_per_step k)"
    using room by (simp_all add: has_room_def)
  have "unat (ph_bytes_committed ?p) \<le> unat (sa_bytes_committed ?a)"
    using P(1,2) [of i] L(4) size_in_phase_le [of i ?fl] by linarith
  then have sum: "unat (ph_bytes_committed ?p + fs_bytes_estimate f) = unat (ph_bytes_committed ?p) + size_of f"
    using R(2) contract_fitsD(2) [OF fits] by (intro unat_plus64) linarith
  show "unat (ph_bytes_committed (phase_accounting_of (snd (open_flow job' s f)) i)) =
      unat (ph_bytes_completed (phase_accounting_of (snd (open_flow job' s f)) i)) +
      tally (\<lambda>f. fs_phase f = i) size_of (ss_flows (snd (open_flow job' s f)))"
    using P(1) [of i] sum by (simp add: tally_put_fresh [OF fresh])
  show "unat (ph_bytes_completed (phase_accounting_of (snd (open_flow job' s f)) i))
      \<le> unat (sa_bytes_completed (ss_accounting (snd (open_flow job' s f))))"
    using P(2) [of i] by simp
  have "has_key (ss_phase_active_flows s) (fs_phase f)"
    using fo phase by (simp add: flows_ok_def)
  then have count: "get0 (ss_phase_active_flows (snd (open_flow job' s f))) i =
      (if fs_phase f = i then get0 (ss_phase_active_flows s) i + 1 else get0 (ss_phase_active_flows s) i)"
    by (auto simp: get0_adjust)
  show "exact (\<lambda>f. fs_phase f = i) (\<lambda>_. 1)
      (get0 (ss_phase_active_flows (snd (open_flow job' s f))) i) (ss_flows (snd (open_flow job' s f)))"
    unfolding count using room_for_a_flow [OF R(1) fits, of "\<lambda>f. fs_phase f = i"]
    by (simp only: open_flow_simps) (rule exact_put_if [OF P(3) fresh], simp_all)
qed

lemma open_groups_exact:
  assumes G: "groups_exact job (ss_flows s)" and fo: "flows_ok job0 s" and fits: "contract_fits k"
    and fresh: "\<not> has_key (ss_flows s) (fs_intent f)" and room: "has_room k s f"
    and rate: "rate_of f \<le> max_rate"
  shows "groups_exact (acquire_utilization job f) (put (fs_intent f) f (ss_flows s))"
  unfolding groups_exact_def utilized_acquire
proof (intro allI conjI)
  fix g
  let ?fl = "ss_flows s" and ?in = "\<lambda>f. fs_group f = g"
  have E: "exact ?in rate_of (utilized_bps job g) ?fl" "exact ?in (\<lambda>_. 1) (active_flow_count job g) ?fl"
    using G by (simp_all add: groups_exact_def)
  have R: "length ?fl < unat (wc_max_active_flows_per_step k)" using room by (simp add: has_room_def)
  have bounded: "rate_of v \<le> max_rate" if "map_of ?fl i = Some v" for i v
    using fo that by (auto simp: flows_ok_def flow_fits_def)
  have wf: "wf_table ?fl" using fo by (simp add: flows_ok_def)
  show "exact ?in rate_of (if fs_group f = g then utilized_bps job g + fs_granted_min_bps f else utilized_bps job g)
      (put (fs_intent f) f ?fl)"
    using room_for_a_rate [of ?fl k f ?in, OF bounded wf R fits rate]
    by (intro exact_put_if [OF E(1) fresh]) simp_all
  show "exact ?in (\<lambda>_. 1) (if fs_group f = g then active_flow_count job g + 1 else active_flow_count job g)
      (put (fs_intent f) f ?fl)"
    using room_for_a_flow [OF R fits, of ?in] by (intro exact_put_if [OF E(2) fresh]) simp_all
qed

section \<open>Throttling a flow\<close>

text \<open>The parts of \<open>throttle_flow\<close> the accounting sees.\<close>

definition lowered :: "flow_state \<Rightarrow> u64 \<Rightarrow> flow_state" where
  "lowered f reduced = f\<lparr>fs_granted_min_bps := reduced,
     fs_granted_max_bps := min (fs_granted_max_bps f) reduced, fs_throttled := True\<rparr>"

lemma lowered_simps [simp]:
  "fs_granted_min_bps (lowered f r) = r" "fs_bytes_estimate (lowered f r) = fs_bytes_estimate f"
  "fs_intent (lowered f r) = fs_intent f" "fs_group (lowered f r) = fs_group f"
  "fs_phase (lowered f r) = fs_phase f" "fs_step (lowered f r) = fs_step f"
  "fs_incarnation (lowered f r) = fs_incarnation f"
  "fs_service_class (lowered f r) = fs_service_class f"
  by (simp_all add: lowered_def)

definition throttle_in_step :: "flow_state \<Rightarrow> u64 \<Rightarrow> step_state \<Rightarrow> step_state" where
  "throttle_in_step f r s = s\<lparr>ss_accounting := (ss_accounting s)
       \<lparr>sa_active_min_bps := sat_sub (sa_active_min_bps (ss_accounting s)) (fs_granted_min_bps f - r)\<rparr>,
     ss_flows := put (fs_intent f) (lowered f r) (ss_flows s)\<rparr>"

definition throttle_in_job :: "flow_state \<Rightarrow> u64 \<Rightarrow> job_state \<Rightarrow> job_state" where
  "throttle_in_job f r job = job\<lparr>js_group_utilized_bps :=
     put (fs_group f) (sat_sub (get0 (js_group_utilized_bps job) (fs_group f)) (fs_granted_min_bps f - r))
       (js_group_utilized_bps job)\<rparr>"

lemma throttle_in_step_simps [simp]:
  "ss_flows (throttle_in_step f r s) = put (fs_intent f) (lowered f r) (ss_flows s)"
  "sa_active_flows (ss_accounting (throttle_in_step f r s)) = sa_active_flows (ss_accounting s)"
  "sa_active_min_bps (ss_accounting (throttle_in_step f r s)) =
     sat_sub (sa_active_min_bps (ss_accounting s)) (fs_granted_min_bps f - r)"
  "sa_bytes_committed (ss_accounting (throttle_in_step f r s)) = sa_bytes_committed (ss_accounting s)"
  "sa_bytes_completed (ss_accounting (throttle_in_step f r s)) = sa_bytes_completed (ss_accounting s)"
  "sa_bytes_cancelled (ss_accounting (throttle_in_step f r s)) = sa_bytes_cancelled (ss_accounting s)"
  "ss_phases (throttle_in_step f r s) = ss_phases s"
  "ss_step (throttle_in_step f r s) = ss_step s"
  "ss_incarnation (throttle_in_step f r s) = ss_incarnation s"
  "ss_job_generation (throttle_in_step f r s) = ss_job_generation s"
  "ss_phase_active_flows (throttle_in_step f r s) = ss_phase_active_flows s"
  "phase_accounting_of (throttle_in_step f r s) i = phase_accounting_of s i"
  by (simp_all add: throttle_in_step_def phase_accounting_of_def)

lemma utilized_throttle:
  "utilized_bps (throttle_in_job f r job) g =
     (if fs_group f = g then sat_sub (utilized_bps job g) (fs_granted_min_bps f - r) else utilized_bps job g)"
  "active_flow_count (throttle_in_job f r job) g = active_flow_count job g"
  by (simp_all add: utilized_bps_def active_flow_count_def throttle_in_job_def)

lemma delta_exact: "(r :: u64) < x \<Longrightarrow> unat r + unat (x - r) = unat x"
  by (simp add: unat_sub word_le_nat_alt word_less_nat_alt)

lemma throttle_flows_ok:
  assumes "flows_ok job s" and "map_of (ss_flows s) i = Some f" and "r < fs_granted_min_bps f"
  shows "flows_ok job (throttle_in_step f r s)"
proof -
  have "fs_intent f = i" "rate_of f \<le> max_rate" using assms(1,2) by (auto simp: flows_ok_def flow_fits_def)
  moreover have "unat r \<le> rate_of f" using assms(3) by (simp add: word_less_nat_alt)
  ultimately have "flow_fits (throttle_in_step f r s) i (lowered f r)" "fs_intent f = i"
    using assms(1,2) by (auto simp: flows_ok_def flow_fits_def intro: order_trans)
  with assms(1,2) show ?thesis by (auto simp: flows_ok_def flow_fits_def)
qed

lemma throttle_ledger:
  assumes ok: "ledger k s" and wf: "wf_table (ss_flows s)" and f: "map_of (ss_flows s) i = Some f"
    and i: "fs_intent f = i" and r: "r < fs_granted_min_bps f"
  shows "ledger k (throttle_in_step f r s)"
proof (rule ledgerI, unfold throttle_in_step_simps i)
  note L = ledgerD [OF ok]
  have len: "length (put i (lowered f r) (ss_flows s)) = length (ss_flows s)"
    using has_keyI [OF f] by (simp add: length_put)
  show "length (put i (lowered f r) (ss_flows s)) \<le> unat (wc_max_active_flows_per_step k)"
    using L(1) len by simp
  show "exact (\<lambda>_. True) (\<lambda>_. 1) (sa_active_flows (ss_accounting s)) (put i (lowered f r) (ss_flows s))"
    by (rule exact_same [OF L(2) wf f]) simp_all
  show "exact (\<lambda>_. True) rate_of (sat_sub (sa_active_min_bps (ss_accounting s)) (fs_granted_min_bps f - r))
      (put i (lowered f r) (ss_flows s))"
    using delta_exact [OF r] by (intro exact_lower [OF L(3) wf f]) simp_all
  have "tally (\<lambda>_. True) size_of (put i (lowered f r) (ss_flows s)) = tally (\<lambda>_. True) size_of (ss_flows s)"
    by (rule tally_put_same [OF wf f]) simp_all
  then show "unat (sa_bytes_committed (ss_accounting s)) = unat (sa_bytes_completed (ss_accounting s)) +
      tally (\<lambda>_. True) size_of (put i (lowered f r) (ss_flows s))"
    using L(4) by simp
  show "unat (sa_bytes_committed (ss_accounting s)) +
      length (put i (lowered f r) (ss_flows s)) * unat (wc_max_bytes_per_intent k)
      \<le> unat (wc_max_bytes_per_step k) +
        unat (wc_max_active_flows_per_step k) * unat (wc_max_bytes_per_intent k)"
    using L(5) len by simp
  show "sa_bytes_cancelled (ss_accounting s) = 0" by (rule L(6))
qed

lemma throttle_phase_ledger:
  assumes ph: "phase_ledger s" and wf: "wf_table (ss_flows s)" and f: "map_of (ss_flows s) i = Some f"
    and i: "fs_intent f = i"
  shows "phase_ledger (throttle_in_step f r s)"
proof (rule phase_ledgerI, unfold throttle_in_step_simps i)
  fix j
  note P = phase_ledgerD [OF ph]
  have "tally (\<lambda>f. fs_phase f = j) size_of (put i (lowered f r) (ss_flows s)) =
      tally (\<lambda>f. fs_phase f = j) size_of (ss_flows s)"
    by (rule tally_put_same [OF wf f]) simp_all
  then show "unat (ph_bytes_committed (phase_accounting_of s j)) =
      unat (ph_bytes_completed (phase_accounting_of s j)) +
      tally (\<lambda>f. fs_phase f = j) size_of (put i (lowered f r) (ss_flows s))"
    using P(1) [of j] by simp
  show "unat (ph_bytes_completed (phase_accounting_of s j)) \<le> unat (sa_bytes_completed (ss_accounting s))"
    by (rule P(2))
  show "exact (\<lambda>f. fs_phase f = j) (\<lambda>_. 1) (get0 (ss_phase_active_flows s) j) (put i (lowered f r) (ss_flows s))"
    by (rule exact_same [OF P(3) wf f]) simp_all
qed

lemma throttle_groups_exact:
  assumes G: "groups_exact job fl" and wf: "wf_table fl" and f: "map_of fl i = Some f"
    and r: "r < fs_granted_min_bps f"
  shows "groups_exact (throttle_in_job f r job) (put i (lowered f r) fl)"
  unfolding groups_exact_def utilized_throttle
proof (intro allI conjI)
  fix g
  have E: "exact (\<lambda>f. fs_group f = g) rate_of (utilized_bps job g) fl"
    "exact (\<lambda>f. fs_group f = g) (\<lambda>_. 1) (active_flow_count job g) fl"
    using G by (simp_all add: groups_exact_def)
  show "exact (\<lambda>f. fs_group f = g) rate_of
      (if fs_group f = g then sat_sub (utilized_bps job g) (fs_granted_min_bps f - r) else utilized_bps job g)
      (put i (lowered f r) fl)"
  proof (cases "fs_group f = g")
    case True
    with exact_lower [OF E(1) wf f, of "lowered f r" "fs_granted_min_bps f - r"] delta_exact [OF r]
    show ?thesis by simp
  next
    case False
    with exact_same [OF E(1) wf f, of "lowered f r"] show ?thesis by simp
  qed
  show "exact (\<lambda>f. fs_group f = g) (\<lambda>_. 1) (active_flow_count job g) (put i (lowered f r) fl)"
    by (rule exact_same [OF E(2) wf f]) simp_all
qed

end
