(* ===== verification/Machine.thy ===== *)
theory Machine
  imports Ledger
begin

text \<open>
  The job as an abstract machine. A handler of the fabric does to a job a sequence of a
  few kinds of move: a quiet update the accounting does not see, closing, admitting or
  throttling a flow, opening and sealing a step, opening and closing a phase, publishing
  evidence, retiring and replacing the incarnation. The moves are an inductive relation
  with the guards the handlers establish; invariants are proved once per move, and
  \<open>Simulation\<close> shows that every call of the fabric is a sequence of moves.
\<close>

section \<open>Well-formed jobs\<close>

definition step_ok :: "job_state \<Rightarrow> step_state \<Rightarrow> bool" where
  "step_ok job s \<longleftrightarrow>
     ss_step s = js_highest_step job \<and> ss_incarnation s = js_incarnation job \<and>
     ss_job_generation s = js_generation job \<and> \<not> js_retired job \<and> flows_ok job s \<and>
     (contract_fits (js_contract job) \<longrightarrow> ledger (js_contract job) s \<and> phase_ledger s)"

definition history_ok :: "job_state \<Rightarrow> bool" where
  "history_ok job \<longleftrightarrow>
     sorted_wrt (<) (map rp_step (js_history job)) \<and>
     length (js_history job) \<le> max 1 (unat (wc_history_steps (js_contract job))) \<and>
     (\<forall>r \<in> set (js_history job).
        sa_closed (rp_accounting r) \<and> rp_step r \<le> js_highest_step job \<and>
        (\<forall>s. js_step job = Some s \<longrightarrow> rp_step r < ss_step s) \<and>
        (contract_fits (js_contract job) \<longrightarrow> report_balanced r))"

definition job_ok :: "job_state \<Rightarrow> bool" where
  "job_ok job \<longleftrightarrow> history_ok job \<and> (\<forall>s. js_step job = Some s \<longrightarrow> step_ok job s)"

text \<open>
  What holds where intents name registered groups and the policy invalidates strictly:
  the utilisation of every group is the sum of the grants, within what its link offers.
\<close>

definition open_flows :: "job_state \<Rightarrow> (traffic_intent_id, flow_state) table" where
  "open_flows job = (case js_step job of None \<Rightarrow> [] | Some s \<Rightarrow> ss_flows s)"

definition link_limit :: "job_state \<Rightarrow> parallelism_group_id \<Rightarrow> nat" where
  "link_limit job g =
     (case topology_find (js_topology job) g of None \<Rightarrow> 0 | Some l \<Rightarrow> unat (available_bps l))"

definition job_tight :: "job_state \<Rightarrow> bool" where
  "job_tight job \<longleftrightarrow>
     (\<forall>i f. map_of (open_flows job) i = Some f \<longrightarrow> has_key (js_groups job) (fs_group f)) \<and>
     (contract_fits (js_contract job) \<longrightarrow>
        groups_exact job (open_flows job) \<and> (\<forall>g. unat (utilized_bps job g) \<le> link_limit job g))"

section \<open>The protected part of a job\<close>

definition step_core where
  "step_core s = (ss_step s, ss_incarnation s, ss_job_generation s, ss_phases s,
     (\<lambda>i. ph_bytes_committed (phase_accounting_of s i)), (\<lambda>i. ph_bytes_completed (phase_accounting_of s i)),
     ss_flows s, ss_phase_active_flows s, sa_active_flows (ss_accounting s),
     sa_active_min_bps (ss_accounting s), sa_bytes_committed (ss_accounting s),
     sa_bytes_completed (ss_accounting s), sa_bytes_cancelled (ss_accounting s))"

definition job_core where
  "job_core j = (js_id j, js_generation j, js_contract j, js_incarnation j, js_boot j, js_epoch j,
     js_retired j, js_groups j, js_group_utilized_bps j, js_group_active_flows j, js_topology j,
     js_retired_set j, js_highest_step j, js_history j, js_next_intent_id j, js_next_phase_id j,
     js_next_incarnation j, map_option step_core (js_step j))"

definition pack :: "job_state \<Rightarrow> step_state \<Rightarrow> job_state" where
  "pack job s = job\<lparr>js_step := Some s\<rparr>"

lemma pack_simps [simp]:
  "js_step (pack j s) = Some s" "pack (pack j s) s' = pack j s'"
  "js_id (pack j s) = js_id j" "js_generation (pack j s) = js_generation j"
  "js_contract (pack j s) = js_contract j" "js_incarnation (pack j s) = js_incarnation j"
  "js_boot (pack j s) = js_boot j" "js_epoch (pack j s) = js_epoch j"
  "js_retired (pack j s) = js_retired j" "js_groups (pack j s) = js_groups j"
  "js_group_utilized_bps (pack j s) = js_group_utilized_bps j"
  "js_group_active_flows (pack j s) = js_group_active_flows j"
  "js_topology (pack j s) = js_topology j" "js_retired_set (pack j s) = js_retired_set j"
  "js_highest_step (pack j s) = js_highest_step j" "js_history (pack j s) = js_history j"
  "js_next_intent_id (pack j s) = js_next_intent_id j"
  "js_next_phase_id (pack j s) = js_next_phase_id j"
  "js_next_incarnation (pack j s) = js_next_incarnation j"
  "js_decisions (pack j s) = js_decisions j"
  by (simp_all add: pack_def)

lemma pack_same: "js_step j = Some s \<Longrightarrow> pack j s = j"
  by (simp add: pack_def)

lemma job_core_eqs:
  assumes "job_core j' = job_core j"
  shows "js_id j' = js_id j" "js_generation j' = js_generation j" "js_contract j' = js_contract j"
    "js_incarnation j' = js_incarnation j" "js_boot j' = js_boot j" "js_epoch j' = js_epoch j"
    "js_retired j' = js_retired j" "js_groups j' = js_groups j"
    "js_group_utilized_bps j' = js_group_utilized_bps j"
    "js_group_active_flows j' = js_group_active_flows j" "js_topology j' = js_topology j"
    "js_retired_set j' = js_retired_set j" "js_highest_step j' = js_highest_step j"
    "js_history j' = js_history j" "js_next_intent_id j' = js_next_intent_id j"
    "js_next_phase_id j' = js_next_phase_id j" "js_next_incarnation j' = js_next_incarnation j"
    "map_option step_core (js_step j') = map_option step_core (js_step j)"
  using assms unfolding job_core_def by (simp_all only: prod.inject)

lemma job_core_step:
  assumes "job_core j' = job_core j"
  shows "js_step j' = Some s' \<Longrightarrow> \<exists>s. js_step j = Some s \<and> step_core s' = step_core s"
  using job_core_eqs(18) [OF assms] by (cases "js_step j") auto

lemma step_core_cong:
  assumes "step_core s' = step_core s"
  shows "ledger c s' = ledger c s" and "phase_ledger s' = phase_ledger s"
    and "ss_flows s' = ss_flows s"
    and "js_next_intent_id j' = js_next_intent_id j \<Longrightarrow> js_next_phase_id j' = js_next_phase_id j \<Longrightarrow>
         flows_ok j' s' = flows_ok j s"
proof -
  have eqs: "ss_step s' = ss_step s" "ss_incarnation s' = ss_incarnation s" "ss_phases s' = ss_phases s"
    "ss_flows s' = ss_flows s" "ss_phase_active_flows s' = ss_phase_active_flows s"
    "sa_active_flows (ss_accounting s') = sa_active_flows (ss_accounting s)"
    "sa_active_min_bps (ss_accounting s') = sa_active_min_bps (ss_accounting s)"
    "sa_bytes_committed (ss_accounting s') = sa_bytes_committed (ss_accounting s)"
    "sa_bytes_completed (ss_accounting s') = sa_bytes_completed (ss_accounting s)"
    "sa_bytes_cancelled (ss_accounting s') = sa_bytes_cancelled (ss_accounting s)"
    "\<And>i. ph_bytes_committed (phase_accounting_of s' i) = ph_bytes_committed (phase_accounting_of s i)"
    "\<And>i. ph_bytes_completed (phase_accounting_of s' i) = ph_bytes_completed (phase_accounting_of s i)"
    using assms by (simp_all add: step_core_def fun_eq_iff)
  show "ledger c s' = ledger c s" "phase_ledger s' = phase_ledger s" "ss_flows s' = ss_flows s"
    by (simp_all add: ledger_def phase_ledger_def Let_def eqs)
  show "flows_ok j' s' = flows_ok j s"
    if "js_next_intent_id j' = js_next_intent_id j" "js_next_phase_id j' = js_next_phase_id j"
    using that by (simp add: flows_ok_def flow_fits_def eqs)
qed

lemma step_ok_core:
  assumes core: "job_core j' = job_core j" and s: "step_core s' = step_core s"
  shows "step_ok j' s' = step_ok j s"
proof -
  have "ss_step s' = ss_step s" "ss_incarnation s' = ss_incarnation s"
    "ss_job_generation s' = ss_job_generation s"
    using s by (simp_all add: step_core_def)
  then show ?thesis
    using step_core_cong(4) [OF s job_core_eqs(15,16) [OF core]]
    by (simp add: step_ok_def job_core_eqs [OF core] step_core_cong(1,2) [OF s])
qed

lemma job_ok_core:
  assumes core: "job_core j' = job_core j" and ok: "job_ok j"
  shows "job_ok j'"
proof -
  have step: "\<exists>s. js_step j = Some s \<and> step_core s' = step_core s" if "js_step j' = Some s'" for s'
    using job_core_step [OF core that] .
  then have "\<exists>s. js_step j = Some s \<and> ss_step s' = ss_step s" if "js_step j' = Some s'" for s'
    using that by (fastforce simp: step_core_def)
  then have "history_ok j'"
    using ok unfolding job_ok_def history_ok_def job_core_eqs [OF core] by metis
  moreover have "step_ok j' s'" if s': "js_step j' = Some s'" for s'
  proof -
    obtain s where "js_step j = Some s" "step_core s' = step_core s" using step [OF s'] by blast
    then show ?thesis using ok step_ok_core [OF core, of s' s] by (simp add: job_ok_def)
  qed
  ultimately show ?thesis by (simp add: job_ok_def)
qed

lemma open_flows_core:
  assumes "job_core j' = job_core j"
  shows "open_flows j' = open_flows j"
  using job_core_eqs(18) [OF assms]
  by (cases "js_step j"; cases "js_step j'") (auto simp: open_flows_def step_core_def)

lemma job_tight_core:
  assumes core: "job_core j' = job_core j" and "job_tight j"
  shows "job_tight j'"
  using assms(2) unfolding job_tight_def groups_exact_def utilized_bps_def active_flow_count_def
    link_limit_def open_flows_core [OF core] job_core_eqs [OF core] .

section \<open>Closing flows\<close>

text \<open>Any number of closures and quiet updates, as the loops over victims make them.\<close>

inductive closing :: "job_state \<Rightarrow> job_state \<Rightarrow> bool" where
  closing_refl: "closing j j"
| closing_quiet: "closing j j' \<Longrightarrow> job_core j'' = job_core j' \<Longrightarrow> closing j j''"
| closing_close: "closing j j' \<Longrightarrow> js_step j' = Some s \<Longrightarrow> map_of (ss_flows s) i = Some f \<Longrightarrow>
    (c \<Longrightarrow> b \<le> wc_max_bytes_per_intent (js_contract j')) \<Longrightarrow>
    closing j (pack (release_utilization j' f) (close_in_step f c b s))"

lemma release_simps [simp]:
  "js_id (release_utilization j f) = js_id j" "js_generation (release_utilization j f) = js_generation j"
  "js_contract (release_utilization j f) = js_contract j"
  "js_incarnation (release_utilization j f) = js_incarnation j"
  "js_boot (release_utilization j f) = js_boot j" "js_epoch (release_utilization j f) = js_epoch j"
  "js_retired (release_utilization j f) = js_retired j"
  "js_groups (release_utilization j f) = js_groups j"
  "js_topology (release_utilization j f) = js_topology j"
  "js_retired_set (release_utilization j f) = js_retired_set j"
  "js_highest_step (release_utilization j f) = js_highest_step j"
  "js_history (release_utilization j f) = js_history j"
  "js_next_intent_id (release_utilization j f) = js_next_intent_id j"
  "js_next_phase_id (release_utilization j f) = js_next_phase_id j"
  "js_next_incarnation (release_utilization j f) = js_next_incarnation j"
  "js_step (release_utilization j f) = js_step j"
  "js_decisions (release_utilization j f) = js_decisions j"
  "release_utilization (pack j s) f = pack (release_utilization j f) s"
  by (simp_all add: release_utilization_def pack_def)

text \<open>The fields no closure touches.\<close>

definition job_frame where
  "job_frame j = (js_id j, js_generation j, js_contract j, js_incarnation j, js_boot j, js_epoch j,
     js_retired j, js_groups j, js_topology j, js_retired_set j, js_highest_step j, js_history j,
     js_next_intent_id j, js_next_phase_id j, js_next_incarnation j)"

lemma closing_frame: "closing j j' \<Longrightarrow> job_frame j' = job_frame j"
  by (induction rule: closing.induct) (auto simp: job_frame_def dest: job_core_eqs)

lemma flow_in_okD:
  assumes "flows_ok job s" and "map_of (ss_flows s) i = Some f"
  shows "fs_intent f = i" and "flow_fits s i f" and "i < js_next_intent_id job" and "wf_table (ss_flows s)"
    and "has_key (ss_phases s) (fs_phase f)" and "rate_of f \<le> max_rate"
proof -
  show fits: "flow_fits s i f" "i < js_next_intent_id job" "wf_table (ss_flows s)"
    using assms by (auto simp: flows_ok_def)
  then show "fs_intent f = i" "rate_of f \<le> max_rate" by (simp_all add: flow_fits_def)
  from fits(1) obtain p where "map_of (ss_phases s) (fs_phase f) = Some p" by (auto simp: flow_fits_def)
  then show "has_key (ss_phases s) (fs_phase f)" by (rule has_keyI)
qed

lemma utilization_frame [simp]:
  "utilized_bps (pack j s) g = utilized_bps j g" "active_flow_count (pack j s) g = active_flow_count j g"
  "groups_exact (pack j s) fl = groups_exact j fl" "link_limit (pack j s) g = link_limit j g"
  "link_limit (release_utilization j f) g = link_limit j g" "open_flows (pack j s) = ss_flows s"
  by (simp_all add: utilized_bps_def active_flow_count_def groups_exact_def link_limit_def open_flows_def)

lemma close_job_ok:
  assumes ok: "job_ok j" and s: "js_step j = Some s" and f: "map_of (ss_flows s) i = Some f"
    and b: "c \<Longrightarrow> b \<le> wc_max_bytes_per_intent (js_contract j)"
  shows "job_ok (pack (release_utilization j f) (close_in_step f c b s))"
proof -
  have S: "step_ok j s" using ok s by (simp add: job_ok_def)
  then have fo: "flows_ok j s" by (simp add: step_ok_def)
  note F = flow_in_okD [OF fo f]
  have "flows_ok (pack (release_utilization j f) (close_in_step f c b s)) (close_in_step f c b s)"
    using close_flows_ok [OF fo, of f c b] by (simp add: flows_ok_def)
  moreover have "ledger (js_contract j) (close_in_step f c b s) \<and> phase_ledger (close_in_step f c b s)"
    if "contract_fits (js_contract j)"
    using S that close_ledger [OF _ F(4) f F(1) that b] close_phase_ledger [OF _ _ F(4) f F(1) that b]
    by (auto simp: step_ok_def)
  ultimately have "step_ok (pack (release_utilization j f) (close_in_step f c b s)) (close_in_step f c b s)"
    using S by (simp add: step_ok_def)
  moreover have "history_ok (pack (release_utilization j f) (close_in_step f c b s))"
    using ok s by (simp add: job_ok_def history_ok_def)
  ultimately show ?thesis by (simp add: job_ok_def)
qed

lemma closing_job_ok: "closing j j' \<Longrightarrow> job_ok j \<Longrightarrow> job_ok j'"
  by (induction rule: closing.induct) (auto intro: job_ok_core close_job_ok)

text \<open>Under a tight job the utilisation of every group can only fall.\<close>

lemma tight_close:
  assumes T: "job_tight j" and ok: "job_ok j" and s: "js_step j = Some s" and f: "map_of (ss_flows s) i = Some f"
  shows "job_tight (pack (release_utilization j f) (close_in_step f c b s))"
proof -
  have fo: "flows_ok j s" using ok s by (simp add: job_ok_def step_ok_def)
  note F = flow_in_okD [OF fo f]
  have flows: "open_flows j = ss_flows s" using s by (simp add: open_flows_def)
  have known: "has_key (js_groups j) (fs_group f')" if "map_of (del i (ss_flows s)) i' = Some f'" for i' f'
    using T that flows by (auto simp: job_tight_def split: if_splits)
  have "groups_exact (release_utilization j f) (del i (ss_flows s))"
    if "contract_fits (js_contract j)"
    using T that flows by (intro close_groups_exact [OF _ F(4) f]) (simp add: job_tight_def)
  moreover have "unat (utilized_bps (release_utilization j f) g) \<le> link_limit j g"
    if "contract_fits (js_contract j)" for g
  proof -
    have "unat (utilized_bps (release_utilization j f) g) \<le> unat (utilized_bps j g)"
      by (simp add: utilized_release)
    also have "\<dots> \<le> link_limit j g" using T that by (simp add: job_tight_def)
    finally show ?thesis .
  qed
  ultimately show ?thesis using known by (simp add: job_tight_def F(1))
qed

lemma closing_job_tight:
  assumes "closing j j'" and "job_ok j" and "job_tight j"
  shows "job_tight j'"
  using assms
proof (induction rule: closing.induct)
  case (closing_quiet j j' j'')
  then show ?case using job_tight_core by blast
next
  case (closing_close j j' s i f c b)
  then show ?case using tight_close closing_job_ok by blast
qed

text \<open>\<open>close_flow\<close> and the loop over a list of intents are closures.\<close>

lemma record_receipt_core [simp]: "job_core (record_receipt st j r) = job_core j"
  by (simp add: record_receipt_def Let_def job_core_def split: prod.split)

lemma record_receipt_step [simp]:
  "js_step (record_receipt st j r) = js_step j" "js_decisions (record_receipt st j r) = js_decisions j"
  by (simp_all add: record_receipt_def Let_def split: prod.split)

lemma job_core_pack:
  "job_core j' = job_core j \<Longrightarrow> step_core s' = step_core s \<Longrightarrow> job_core (pack j' s') = job_core (pack j s)"
  by (simp add: job_core_def)

lemma job_core_decisions [simp]:
  "job_core (j\<lparr>js_decisions := x\<rparr>) = job_core j" "js_step (j\<lparr>js_decisions := x\<rparr>) = js_step j"
  by (simp_all add: job_core_def)

lemma close_flow_closing:
  assumes "closing j0 (pack j s)" and "map_of (ss_flows s) i = Some f"
    and "c \<Longrightarrow> b \<le> wc_max_bytes_per_intent (js_contract j)"
    and "close_flow st j s f c b r = (st', j', s')" and "job_core j'' = job_core j'"
  shows "closing j0 (pack j'' s')"
proof (rule closing_quiet)
  show "closing j0 (pack (release_utilization (pack j s) f) (close_in_step f c b s))"
    by (rule closing_close [OF assms(1) _ assms(2)]) (use assms(3) in simp_all)
  have s': "s' = close_in_step f c b s" and j': "job_core j' = job_core (release_utilization j f)"
    using assms(4) by (auto simp: close_flow_def Let_def)
  have "job_core j'' = job_core (release_utilization j f)" using assms(5) j' by (rule trans)
  then show "job_core (pack j'' s') = job_core (pack (release_utilization (pack j s) f) (close_in_step f c b s))"
    unfolding s' release_simps pack_simps by (rule job_core_pack) (rule refl)
qed

lemma close_each_closing:
  assumes "closing j0 (pack j s)" and "close_each r mark is (st, j, s) = ((st', j', s'), n)"
  shows "closing j0 (pack j' s')"
  using assms
proof (induction "is" arbitrary: st j s n)
  case Nil
  then show ?case by simp
next
  case (Cons i "is")
  show ?case
  proof (cases "map_of (ss_flows s) i")
    case None
    with Cons show ?thesis by simp
  next
    case (Some f)
    obtain st1 j1 s1 where cf: "close_flow st j s f False 0 r = (st1, j1, s1)" by (metis prod_cases3)
    obtain w m where rest: "close_each r mark is
        (st1, j1\<lparr>js_decisions := adjust mark i (js_decisions j1)\<rparr>, s1) = (w, m)" by fastforce
    have "w = (st', j', s')" using Cons.prems(2) Some cf rest by (simp add: Let_def)
    moreover have "closing j0 (pack (j1\<lparr>js_decisions := adjust mark i (js_decisions j1)\<rparr>) s1)"
      by (rule close_flow_closing [OF Cons.prems(1) Some _ cf]) simp_all
    ultimately show ?thesis using Cons.IH rest by blast
  qed
qed

text \<open>What the loop leaves in the step, and what it takes out of it.\<close>

lemma close_each_step:
  assumes "flows_ok j s" and "close_each r mark is (st, j, s) = ((st', j', s'), n)"
  shows "ss_flows s' = fold del is (ss_flows s)" and "flows_ok j s'"
    and "ss_phases s' = ss_phases s" and "ss_step s' = ss_step s" and "ss_incarnation s' = ss_incarnation s"
    and "ss_burst s' = ss_burst s"
    and "unat (sa_bytes_committed (ss_accounting s')) \<le> unat (sa_bytes_committed (ss_accounting s))"
proof -
  have "ss_flows s' = fold del is (ss_flows s) \<and> flows_ok j0 s' \<and> ss_phases s' = ss_phases s \<and>
      ss_step s' = ss_step s \<and> ss_incarnation s' = ss_incarnation s \<and> ss_burst s' = ss_burst s \<and>
      unat (sa_bytes_committed (ss_accounting s')) \<le> unat (sa_bytes_committed (ss_accounting s))"
    if "flows_ok j0 s" for j0
    using that assms(2)
  proof (induction "is" arbitrary: st j s n)
    case Nil
    then show ?case by simp
  next
    case (Cons i "is")
    show ?case
    proof (cases "map_of (ss_flows s) i")
      case None
      then have "del i (ss_flows s) = ss_flows s" by (simp add: del_absent has_key_def)
      with None Cons show ?thesis by simp
    next
      case (Some f)
      have i: "fs_intent f = i" using flow_in_okD(1) [OF Cons.prems(1) Some] .
      let ?s1 = "close_in_step f False 0 s"
      obtain st1 j1 where cf: "close_flow st j s f False 0 r = (st1, j1, ?s1)"
        by (simp add: close_flow_def Let_def)
      obtain w m where rest: "close_each r mark is
          (st1, j1\<lparr>js_decisions := adjust mark i (js_decisions j1)\<rparr>, ?s1) = (w, m)" by fastforce
      have w: "w = (st', j', s')" using Cons.prems(2) Some cf rest by (simp add: Let_def)
      have "flows_ok j0 ?s1" using Cons.prems(1) by (rule close_flows_ok)
      from Cons.IH [OF this rest [unfolded w]] i show ?thesis
        by (auto elim: order_trans [OF _ diff_le_self])
    qed
  qed
  from this [OF assms(1)] show
    "ss_flows s' = fold del is (ss_flows s)" "flows_ok j s'" "ss_phases s' = ss_phases s"
    "ss_step s' = ss_step s" "ss_incarnation s' = ss_incarnation s" "ss_burst s' = ss_burst s"
    "unat (sa_bytes_committed (ss_accounting s')) \<le> unat (sa_bytes_committed (ss_accounting s))"
    by blast+
qed

lemma length_fold_del_le: "length (fold del is t) \<le> length t"
  by (induction "is" arbitrary: t) (auto intro: order_trans length_del_le)

lemma has_key_fold_del: "has_key (fold del is t) k \<longleftrightarrow> has_key t k \<and> k \<notin> set is"
  by (induction "is" arbitrary: t) auto

lemma tally_fold_del:
  assumes "wf_table t" and "distinct (map fs_intent ws)"
    and "\<And>f. f \<in> set ws \<Longrightarrow> map_of t (fs_intent f) = Some f \<and> p f"
  shows "tally p w (fold del (map fs_intent ws) t) + sum_list (map w ws) = tally p w t"
  using assms
proof (induction ws arbitrary: t)
  case Nil
  then show ?case by simp
next
  case (Cons f ws)
  have f: "map_of t (fs_intent f) = Some f" "p f" using Cons.prems(3) by auto
  have "tally p w (fold del (map fs_intent ws) (del (fs_intent f) t)) + sum_list (map w ws)
      = tally p w (del (fs_intent f) t)"
    using Cons.prems by (intro Cons.IH) (auto simp: rev_image_eqI)
  then show ?case using tally_del [OF Cons.prems(1) f(1), of p w] f(2) by simp
qed

section \<open>Arbitration under exact utilisation\<close>

lemma take_victims_prefix:
  "take_victims need a vs = (a', ws) \<Longrightarrow> \<exists>rest. vs = ws @ rest"
proof (induction vs arbitrary: a a' ws)
  case Nil
  then show ?case by simp
next
  case (Cons v vs)
  show ?case
  proof (cases "need \<le> a")
    case True
    with Cons.prems show ?thesis by simp
  next
    case False
    obtain a1 ws1 where t: "take_victims need (a + fs_granted_min_bps v) vs = (a1, ws1)" by fastforce
    with Cons.IH obtain rest where "vs = ws1 @ rest" by blast
    with t False Cons.prems show ?thesis by auto
  qed
qed

lemma take_victims_sum:
  assumes "take_victims need a vs = (a', ws)" and "unat a + sum_list (map rate_of vs) < 2 ^ 64"
  shows "unat a' = unat a + sum_list (map rate_of ws)"
  using assms
proof (induction vs arbitrary: a a' ws)
  case Nil
  then show ?case by simp
next
  case (Cons v vs)
  show ?case
  proof (cases "need \<le> a")
    case True
    with Cons.prems show ?thesis by simp
  next
    case False
    obtain a1 ws1 where t: "take_victims need (a + fs_granted_min_bps v) vs = (a1, ws1)" by fastforce
    have sum: "unat (a + fs_granted_min_bps v) = unat a + rate_of v"
      using Cons.prems(2) by (intro unat_plus64) simp
    have "unat a1 = unat (a + fs_granted_min_bps v) + sum_list (map rate_of ws1)"
      using Cons.IH [OF t] sum Cons.prems(2) by simp
    with t False Cons.prems(1) sum show ?thesis by auto
  qed
qed

lemma preemption_order_props:
  assumes "flows_ok j s"
  shows "distinct (map fs_intent (preemption_order policy s g prio))"
    and "f \<in> set (preemption_order policy s g prio) \<Longrightarrow>
         map_of (ss_flows s) (fs_intent f) = Some f \<and> preemptible_by policy g prio f"
proof -
  have wf: "wf_table (ss_flows s)" using assms by (simp add: flows_ok_def)
  have key: "fs_intent v = i" if "(i, v) \<in> set (ss_flows s)" for i v
    using that flow_in_okD(1) [OF assms] by (simp add: set_table [OF wf])
  have "map (fs_intent \<circ> snd) (ss_flows s) = keys (ss_flows s)"
    using key by (auto simp: keys_def)
  then have dist: "distinct (map fs_intent (map snd (ss_flows s)))"
    using wf by (simp add: wf_table_def)
  let ?cs = "filter (preemptible_by policy g prio) (map snd (ss_flows s))"
  have "distinct (map fs_intent ?cs)" using dist by (rule distinct_map_filter)
  then have "distinct ?cs" "inj_on fs_intent (set ?cs)" unfolding distinct_map by auto
  then show "distinct (map fs_intent (preemption_order policy s g prio))"
    unfolding preemption_order_def distinct_map by simp
  show "map_of (ss_flows s) (fs_intent f) = Some f \<and> preemptible_by policy g prio f"
    if "f \<in> set (preemption_order policy s g prio)"
  proof -
    from that obtain i where i: "(i, f) \<in> set (ss_flows s)" "preemptible_by policy g prio f"
      by (auto simp: preemption_order_def)
    with key have "fs_intent f = i" by blast
    with i show ?thesis by (simp add: set_table [OF wf, symmetric])
  qed
qed

text \<open>The case analysis of the arbitration.\<close>

lemma arbitrate_capacity_Ok:
  assumes "arbitrate_capacity st j s g prio lo hi = (cap, st1)" and "cr_reason cap = EC_Ok"
  obtains link ws a where "topology_find (js_topology j) g = Some link" and "lc_label link \<noteq> EvUnsupported"
    and "cr_granted_min_bps cap = lo" and "cr_granted_max_bps cap = max lo (min hi a)"
    and "cr_preempted cap = map fs_intent ws" and "lo \<le> a"
    and "ws = [] \<and> unat a = unat (available_bps link) - unat (utilized_bps j g) \<or>
      pd_allow_preemption (fb_policy st) \<and> \<not> lo \<le> sat_sub (available_bps link) (utilized_bps j g) \<and>
      take_victims lo (sat_sub (available_bps link) (utilized_bps j g))
        (preemption_order (fb_policy st) s g prio) = (a, ws)"
proof -
  let ?fail = "EC_MissingTopologyEvidence"
  obtain link where link: "topology_find (js_topology j) g = Some link" "lc_label link \<noteq> EvUnsupported"
    using assms by (auto simp: arbitrate_capacity_def split: option.splits if_splits)
  let ?avail = "if available_bps link > utilized_bps j g then available_bps link - utilized_bps j g else 0"
  have avail: "?avail = sat_sub (available_bps link) (utilized_bps j g)"
    by (auto simp: sat_sub_def)
  show thesis
  proof (cases "lo > ?avail \<and> pd_allow_preemption (fb_policy st)")
    case True
    obtain a ws where t: "take_victims lo ?avail (preemption_order (fb_policy st) s g prio) = (a, ws)"
      by fastforce
    with assms link True have "lo \<le> a" "cr_granted_min_bps cap = lo"
      "cr_granted_max_bps cap = max lo (min hi a)" "cr_preempted cap = map fs_intent ws"
      by (auto simp: arbitrate_capacity_def Let_def simp del: if_split split: if_splits)
    with link True t show thesis unfolding avail by (intro that) auto
  next
    case False
    with assms link have "lo \<le> ?avail" "cr_granted_min_bps cap = lo"
      "cr_granted_max_bps cap = max lo (min hi ?avail)" "cr_preempted cap = []"
      by (auto simp: arbitrate_capacity_def Let_def simp del: if_split split: if_splits)
    with link show thesis unfolding avail by (intro that [of link ?avail "[]"]) (auto simp: avail)
  qed
qed

lemma tightD:
  assumes "job_tight j" and "contract_fits (js_contract j)"
  shows "groups_exact j (open_flows j)" and "unat (utilized_bps j g) \<le> link_limit j g"
    and "unat (utilized_bps j g) = tally (\<lambda>f. fs_group f = g) rate_of (open_flows j)"
  using assms unfolding job_tight_def groups_exact_def exact_def by blast+

lemma arbitration_tight:
  assumes T: "job_tight j" and ok: "job_ok j" and fits: "contract_fits (js_contract j)"
    and s: "js_step j = Some s"
    and arb: "arbitrate_capacity st j s g prio lo hi = (cap, st1)" "cr_reason cap = EC_Ok"
    and ce: "close_each r mark (cr_preempted cap) (st2, j, s) = ((st3, j1, s1), n)"
  shows "unat (utilized_bps j1 g) + unat (cr_granted_min_bps cap) \<le> link_limit j g"
proof -
  have fo: "flows_ok j s" using ok s by (simp add: job_ok_def step_ok_def)
  have wf: "wf_table (ss_flows s)" using fo by (simp add: flows_ok_def)
  have flows: "open_flows j = ss_flows s" using s by (simp add: open_flows_def)
  obtain link ws a where link: "topology_find (js_topology j) g = Some link"
    and lo: "cr_granted_min_bps cap = lo" "lo \<le> a" and pre: "cr_preempted cap = map fs_intent ws"
    and how: "ws = [] \<and> unat a = unat (available_bps link) - unat (utilized_bps j g) \<or>
      pd_allow_preemption (fb_policy st) \<and> \<not> lo \<le> sat_sub (available_bps link) (utilized_bps j g) \<and>
      take_victims lo (sat_sub (available_bps link) (utilized_bps j g))
        (preemption_order (fb_policy st) s g prio) = (a, ws)"
    using arbitrate_capacity_Ok [OF arb] by metis
  have limit: "link_limit j g = unat (available_bps link)" using link by (simp add: link_limit_def)
  have used: "unat (utilized_bps j g) \<le> unat (available_bps link)"
    using tightD(2) [OF T fits, of g] limit by simp
  have lo': "unat lo \<le> unat a" using lo(2) by (simp add: word_le_nat_alt)
  from how show ?thesis
  proof (elim disjE conjE)
    assume "ws = []" "unat a = unat (available_bps link) - unat (utilized_bps j g)"
    moreover from this have "j1 = j" using ce pre by simp
    ultimately show ?thesis using lo lo' used limit by simp
  next
    let ?vs = "preemption_order (fb_policy st) s g prio" and ?in = "\<lambda>f. fs_group f = g"
    assume t: "take_victims lo (sat_sub (available_bps link) (utilized_bps j g)) ?vs = (a, ws)"
    have order: "map_of (ss_flows s) (fs_intent f) = Some f \<and> ?in f" if "f \<in> set ?vs" for f
      using preemption_order_props(2) [OF fo that] by (simp add: preemptible_by_def)
    have total: "tally ?in rate_of (fold del (map fs_intent ?vs) (ss_flows s)) + sum_list (map rate_of ?vs)
        = tally ?in rate_of (ss_flows s)"
      using preemption_order_props(1) [OF fo] order by (rule tally_fold_del [OF wf])
    have "unat (sat_sub (available_bps link) (utilized_bps j g)) + sum_list (map rate_of ?vs) < 2 ^ 64"
      using total tightD(3) [OF T fits, of g] flows used unat_max64 [of "available_bps link"] by simp
    then have a: "unat a = unat (available_bps link) - unat (utilized_bps j g) + sum_list (map rate_of ws)"
      using take_victims_sum [OF t] by simp
    obtain rest where rest: "?vs = ws @ rest" using take_victims_prefix [OF t] by blast
    have "distinct (map fs_intent ws)" using preemption_order_props(1) [OF fo, of "fb_policy st" g prio] rest by simp
    moreover have "map_of (ss_flows s) (fs_intent f) = Some f \<and> ?in f" if "f \<in> set ws" for f
      using order [of f] that rest by simp
    ultimately have gone: "tally ?in rate_of (fold del (map fs_intent ws) (ss_flows s)) + sum_list (map rate_of ws)
        = tally ?in rate_of (ss_flows s)"
      by (rule tally_fold_del [OF wf])
    have cl: "closing j (pack j1 s1)"
      using close_each_closing [OF _ ce, of j] closing_refl [of j] pack_same [OF s] by simp
    have "contract_fits (js_contract (pack j1 s1))"
      using closing_frame [OF cl] fits by (simp add: job_frame_def)
    then have "unat (utilized_bps j1 g) = tally ?in rate_of (ss_flows s1)"
      using tightD(3) [OF closing_job_tight [OF cl ok T], of g] by simp
    then have "unat (utilized_bps j1 g) + sum_list (map rate_of ws) = unat (utilized_bps j g)"
      using gone close_each_step(1) [OF fo ce] pre tightD(3) [OF T fits, of g] flows by simp
    with a lo lo' used limit show ?thesis by simp
  qed
qed

section \<open>Moves\<close>

inductive move :: "bool \<Rightarrow> nat \<Rightarrow> job_state \<Rightarrow> job_state \<Rightarrow> bool" for d where
  move_quiet: "job_core j' = job_core j \<Longrightarrow> move d 0 j j'"
| move_closing: "closing j j' \<Longrightarrow> move d 0 j j'"
| move_mint: "unat (js_next_intent_id j) + 1 < 2 ^ 64 \<Longrightarrow>
    move d 1 j (j\<lparr>js_next_intent_id := js_next_intent_id j + 1\<rparr>)"
| move_admit: "js_step j = Some s \<Longrightarrow>
    arbitrate_capacity st j s (fs_group f) prio lo hi = (cap, st1) \<Longrightarrow> cr_reason cap = EC_Ok \<Longrightarrow>
    close_each r mark (cr_preempted cap) (st2, j, s) = ((st3, j1, s1), n) \<Longrightarrow>
    fs_granted_min_bps f = cr_granted_min_bps cap \<Longrightarrow> flow_fits s (fs_intent f) f \<Longrightarrow>
    \<not> has_key (ss_flows s) (fs_intent f) \<Longrightarrow> fs_intent f < js_next_intent_id j \<Longrightarrow>
    has_room (js_contract j) s f \<Longrightarrow> (d \<Longrightarrow> has_key (js_groups j) (fs_group f)) \<Longrightarrow>
    move d 0 j (pack (acquire_utilization j1 f) (snd (open_flow j1 s1 f)))"
| move_throttle: "js_step j = Some s \<Longrightarrow> map_of (ss_flows s) i = Some f \<Longrightarrow> r < fs_granted_min_bps f \<Longrightarrow>
    move d 0 j (pack (throttle_in_job f r j) (throttle_in_step f r s))"
| move_begin_step: "js_step j = None \<Longrightarrow> js_highest_step j < i \<Longrightarrow> \<not> js_retired j \<Longrightarrow>
    move d 0 j (pack (j\<lparr>js_highest_step := i\<rparr>)
      (new_step i (js_generation j) (js_incarnation j) opened deadline slack))"
| move_begin_phase: "js_step j = Some s \<Longrightarrow> unat (js_next_phase_id j) + 1 < 2 ^ 64 \<Longrightarrow>
    pr_id p = js_next_phase_id j \<Longrightarrow> pr_step p = ss_step s \<Longrightarrow>
    move d 1 j (pack (j\<lparr>js_next_phase_id := js_next_phase_id j + 1\<rparr>)
      (s\<lparr>ss_phases := emplace (js_next_phase_id j) p (ss_phases s),
         ss_phase_order := ss_phase_order s @ [js_next_phase_id j],
         ss_phase_accounting := put (js_next_phase_id j) empty_phase_accounting (ss_phase_accounting s),
         ss_phase_active_flows := put (js_next_phase_id j) 0 (ss_phase_active_flows s)\<rparr>))"
| move_end_phase: "js_step j = Some s \<Longrightarrow> map_of (ss_phases s) i = Some p \<Longrightarrow>
    (\<And>k f. map_of (ss_flows s) k = Some f \<Longrightarrow> fs_phase f \<noteq> i) \<Longrightarrow>
    pr_id p' = pr_id p \<Longrightarrow> pr_step p' = pr_step p \<Longrightarrow>
    move d 0 j (pack j (s\<lparr>ss_phases := put i p' (ss_phases s)\<rparr>))"
| move_seal: "js_step j = Some s \<Longrightarrow> ss_flows s = [] \<Longrightarrow> seal_step st j (close_phases x t s) c = (st', j', report) \<Longrightarrow>
    move d 0 j j'"
| move_topology: "(d \<Longrightarrow> open_flows j = []) \<Longrightarrow> move d 0 j (j\<lparr>js_topology := e\<rparr>)"
| move_group: "\<not> has_key (js_groups j) i \<Longrightarrow>
    move d 0 j (j\<lparr>js_groups := put i g (js_groups j),
      js_group_utilized_bps := put i 0 (js_group_utilized_bps j),
      js_group_active_flows := put i 0 (js_group_active_flows j)\<rparr>)"
| move_retire: "js_step j = None \<Longrightarrow> move d 0 j (j\<lparr>js_retired := True\<rparr>)"
| move_retire_incarnation:
    "move d 0 j (j\<lparr>js_retired_set := insert (js_incarnation j) (js_retired_set j)\<rparr>)"
| move_replace: "js_step j = None \<Longrightarrow> js_incarnation j \<in> js_retired_set j \<Longrightarrow>
    move d 0 j (j\<lparr>js_incarnation := js_next_incarnation j,
      js_next_incarnation := js_next_incarnation j + 1, js_boot := boot\<rparr>)"
| move_epoch: "js_epoch j < e \<Longrightarrow> move d 0 j (j\<lparr>js_epoch := e\<rparr>)"

inductive_cases move_elim: "move d m j j'"

text \<open>A sequence of moves, with the number of ids it minted.\<close>

inductive moves :: "bool \<Rightarrow> nat \<Rightarrow> job_state \<Rightarrow> job_state \<Rightarrow> bool" for d where
  moves_refl: "moves d 0 j j"
| moves_step: "moves d m j j' \<Longrightarrow> move d n j' j'' \<Longrightarrow> moves d (m + n) j j''"

lemma moves_one: "move d m j j' \<Longrightarrow> moves d m j j'"
  using moves_step [OF moves_refl] by fastforce

lemma moves_then: "moves d m j j' \<Longrightarrow> move d 0 j' j'' \<Longrightarrow> moves d m j j''"
  using moves_step by fastforce

lemma moves_trans: "moves d n j' j'' \<Longrightarrow> moves d m j j' \<Longrightarrow> moves d (m + n) j j''"
proof (induction arbitrary: m rule: moves.induct)
  case (moves_refl j)
  then show ?case by simp
next
  case (moves_step m' j j' n j'')
  from moves.moves_step [OF moves_step.IH [OF moves_step.prems] moves_step.hyps(2)]
  show ?case by (simp add: add.assoc)
qed

lemma moves_quiet: "moves d m j j' \<Longrightarrow> job_core j'' = job_core j' \<Longrightarrow> moves d m j j''"
  by (rule moves_then [OF _ move_quiet])

section \<open>Every move keeps a job well-formed\<close>

lemma job_okD:
  assumes "job_ok j" and "js_step j = Some s"
  shows "step_ok j s" and "flows_ok j s" and "ss_step s = js_highest_step j" and "\<not> js_retired j"
    and "contract_fits (js_contract j) \<Longrightarrow> ledger (js_contract j) s \<and> phase_ledger s"
    and "history_ok j"
  using assms by (simp_all add: job_ok_def step_ok_def)

lemma pack_job_ok:
  assumes "job_ok j" and "js_step j = Some s" and "step_ok j' s'" and "ss_step s' = ss_step s"
    and "js_history j' = js_history j" and "js_contract j' = js_contract j"
    and "js_highest_step j' = js_highest_step j"
  shows "job_ok (pack j' s')"
proof -
  have "history_ok (pack j' s')"
    using assms by (auto simp: job_ok_def history_ok_def)
  moreover have "step_ok (pack j' s') s'"
    using assms(3) by (auto simp: step_ok_def flows_ok_def)
  ultimately show ?thesis by (simp add: job_ok_def)
qed

lemma acquire_simps [simp]:
  "js_id (acquire_utilization j f) = js_id j" "js_generation (acquire_utilization j f) = js_generation j"
  "js_contract (acquire_utilization j f) = js_contract j"
  "js_incarnation (acquire_utilization j f) = js_incarnation j"
  "js_boot (acquire_utilization j f) = js_boot j" "js_epoch (acquire_utilization j f) = js_epoch j"
  "js_retired (acquire_utilization j f) = js_retired j"
  "js_groups (acquire_utilization j f) = js_groups j"
  "js_topology (acquire_utilization j f) = js_topology j"
  "js_retired_set (acquire_utilization j f) = js_retired_set j"
  "js_highest_step (acquire_utilization j f) = js_highest_step j"
  "js_history (acquire_utilization j f) = js_history j"
  "js_next_intent_id (acquire_utilization j f) = js_next_intent_id j"
  "js_next_phase_id (acquire_utilization j f) = js_next_phase_id j"
  "js_next_incarnation (acquire_utilization j f) = js_next_incarnation j"
  by (simp_all add: acquire_utilization_def)

lemma open_job_ok:
  assumes ok: "job_ok j" and s: "js_step j = Some s" and fits: "flow_fits s (fs_intent f) f"
    and fresh: "\<not> has_key (ss_flows s) (fs_intent f)" and less: "fs_intent f < js_next_intent_id j"
    and room: "has_room (js_contract j) s f"
  shows "job_ok (pack (acquire_utilization j f) (snd (open_flow j' s f)))"
proof (rule pack_job_ok [OF ok s])
  note J = job_okD [OF ok s]
  have rate: "rate_of f \<le> max_rate" using fits by (simp add: flow_fits_def)
  have phase: "has_key (ss_phases s) (fs_phase f)" using fits by (auto simp: flow_fits_def intro: has_keyI)
  have "flows_ok (acquire_utilization j f) (snd (open_flow j' s f))"
    using open_flows_ok [OF J(2) fits less, of j'] by (simp add: flows_ok_def)
  moreover have "ledger (js_contract j) (snd (open_flow j' s f)) \<and> phase_ledger (snd (open_flow j' s f))"
    if "contract_fits (js_contract j)"
    using J(5) [OF that] open_ledger [OF _ J(2) fresh room that rate]
      open_phase_ledger [OF _ _ J(2) fresh room that phase] by blast
  ultimately show "step_ok (acquire_utilization j f) (snd (open_flow j' s f))"
    using J(1) by (simp add: step_ok_def)
qed simp_all

lemma throttle_in_job_simps [simp]:
  "js_contract (throttle_in_job f r j) = js_contract j"
  "js_history (throttle_in_job f r j) = js_history j"
  "js_highest_step (throttle_in_job f r j) = js_highest_step j"
  "js_incarnation (throttle_in_job f r j) = js_incarnation j"
  "js_generation (throttle_in_job f r j) = js_generation j"
  "js_retired (throttle_in_job f r j) = js_retired j"
  "js_next_intent_id (throttle_in_job f r j) = js_next_intent_id j"
  "js_next_phase_id (throttle_in_job f r j) = js_next_phase_id j"
  "js_groups (throttle_in_job f r j) = js_groups j" "js_topology (throttle_in_job f r j) = js_topology j"
  "js_retired_set (throttle_in_job f r j) = js_retired_set j"
  "js_epoch (throttle_in_job f r j) = js_epoch j" "js_id (throttle_in_job f r j) = js_id j"
  "js_next_incarnation (throttle_in_job f r j) = js_next_incarnation j"
  "js_boot (throttle_in_job f r j) = js_boot j"
  by (simp_all add: throttle_in_job_def)

lemma throttle_job_ok:
  assumes ok: "job_ok j" and s: "js_step j = Some s" and f: "map_of (ss_flows s) i = Some f"
    and r: "r < fs_granted_min_bps f"
  shows "job_ok (pack (throttle_in_job f r j) (throttle_in_step f r s))"
proof (rule pack_job_ok [OF ok s])
  note J = job_okD [OF ok s]
  note F = flow_in_okD [OF J(2) f]
  have "flows_ok (throttle_in_job f r j) (throttle_in_step f r s)"
    using throttle_flows_ok [OF J(2) f r] by (simp add: flows_ok_def)
  moreover have "ledger (js_contract j) (throttle_in_step f r s) \<and> phase_ledger (throttle_in_step f r s)"
    if "contract_fits (js_contract j)"
    using J(5) [OF that] throttle_ledger [OF _ F(4) f F(1) r] throttle_phase_ledger [OF _ F(4) f F(1)] by blast
  ultimately show "step_ok (throttle_in_job f r j) (throttle_in_step f r s)"
    using J(1) by (simp add: step_ok_def)
qed simp_all

text \<open>A step that is sealed has no flows left, so its report balances.\<close>

lemma ledger_empty_balanced:
  assumes "ledger k s" and "ss_flows s = []"
  shows "balanced (ss_accounting s)"
proof -
  note L = ledgerD [OF assms(1)]
  have "sa_active_flows (ss_accounting s) = 0" "sa_active_min_bps (ss_accounting s) = 0"
    using L(2,3) assms(2) by (simp_all add: exact_empty)
  moreover have "sa_bytes_committed (ss_accounting s) = sa_bytes_completed (ss_accounting s)"
    using L(4) assms(2) by (simp add: word_unat_eq_iff)
  ultimately show ?thesis using L(6) by (simp add: balanced_def)
qed

lemma set_trim_front: "set (trim_front n xs) \<subseteq> set xs"
  by (auto simp: trim_front_def dest: in_set_dropD)

lemma seal_step_props:
  assumes "seal_step st j s c = (st', j', report)"
  shows "js_step j' = None" "js_contract j' = js_contract j" "js_highest_step j' = js_highest_step j"
    "js_history j' = trim_front (max 1 (unat (wc_history_steps (js_contract j)))) (js_history j @ [report])"
    "rp_step report = ss_step s" "sa_closed (rp_accounting report)"
    "report_balanced report = balanced (ss_accounting s)" "js_retired j' = js_retired j"
    "js_groups j' = js_groups j" "utilized_bps j' g = utilized_bps j g"
    "active_flow_count j' g = active_flow_count j g" "js_topology j' = js_topology j"
    "js_retired_set j' = js_retired_set j" "js_next_intent_id j' = js_next_intent_id j"
    "js_next_phase_id j' = js_next_phase_id j" "js_epoch j' = js_epoch j"
    "js_generation j' = js_generation j" "js_id j' = js_id j" "js_incarnation j' = js_incarnation j"
    "js_next_incarnation j' = js_next_incarnation j" "js_boot j' = js_boot j"
  using assms by (auto simp: seal_step_def Let_def push_history_def set_closed_def build_report_def
      report_balanced_def balanced_def utilized_bps_def active_flow_count_def)

lemma close_phases_simps [simp]:
  "ss_flows (close_phases x t s) = ss_flows s" "ss_accounting (close_phases x t s) = ss_accounting s"
  "ss_step (close_phases x t s) = ss_step s" "ss_burst (close_phases x t s) = ss_burst s"
  by (simp_all add: close_phases_def)

lemma seal_job_ok:
  assumes ok: "job_ok j" and s: "js_step j = Some s" and fl: "ss_flows s = []"
    and seal: "seal_step st j (close_phases x t s) c = (st', j', report)"
  shows "job_ok j'"
proof -
  note J = job_okD [OF ok s] and S = seal_step_props [OF seal]
  let ?h = "js_history j @ [report]"
  have H: "sorted_wrt (<) (map rp_step (js_history j))"
    "\<And>r. r \<in> set (js_history j) \<Longrightarrow> sa_closed (rp_accounting r) \<and> rp_step r < ss_step s \<and>
      (contract_fits (js_contract j) \<longrightarrow> report_balanced r)"
    using J(6) s by (auto simp: history_ok_def)
  have "sorted_wrt (<) (map rp_step ?h)"
    using H S(5) by (auto simp: sorted_wrt_append)
  then have sorted: "sorted_wrt (<) (map rp_step (js_history j'))"
    unfolding S(4) trim_front_def drop_map [symmetric] by (rule sorted_wrt_drop)
  have each: "sa_closed (rp_accounting r) \<and> rp_step r \<le> js_highest_step j \<and>
      (contract_fits (js_contract j) \<longrightarrow> report_balanced r)" if "r \<in> set (js_history j')" for r
  proof -
    have "r \<in> set ?h" using that S(4) set_trim_front by fastforce
    moreover have "report_balanced report" if "contract_fits (js_contract j)"
      using J(5) [OF that] ledger_empty_balanced fl S(7) by auto
    ultimately show ?thesis using H(2) S(5,6) J(3) by (auto intro: less_imp_le)
  qed
  have len: "length (js_history j') \<le> max 1 (unat (wc_history_steps (js_contract j)))"
    using S(4) by (simp add: trim_front_def)
  show ?thesis
    using sorted each len S(1-3) by (auto simp: job_ok_def history_ok_def)
qed

lemma begin_step_job_ok:
  assumes ok: "job_ok j" and none: "js_step j = None" and less: "js_highest_step j < i"
    and live: "\<not> js_retired j"
  shows "job_ok (pack (j\<lparr>js_highest_step := i\<rparr>)
    (new_step i (js_generation j) (js_incarnation j) opened deadline slack))"
    (is "job_ok (pack ?j ?s)")
proof -
  have "flows_ok ?j ?s" by (simp add: flows_ok_def new_step_def)
  moreover have "ledger k ?s" for k
    by (rule ledgerI) (simp_all add: new_step_def empty_accounting_def exact_empty)
  moreover have "phase_ledger ?s"
    by (rule phase_ledgerI)
      (simp_all add: new_step_def phase_accounting_of_def empty_phase_accounting_def exact_def get0_def)
  ultimately have "step_ok (pack ?j ?s) ?s"
    using live by (simp add: step_ok_def flows_ok_def new_step_def)
  moreover have "history_ok (pack ?j ?s)"
    using ok less by (auto simp: job_ok_def history_ok_def new_step_def intro: order_trans)
  ultimately show ?thesis by (simp add: job_ok_def)
qed

lemma begin_phase_job_ok:
  assumes ok: "job_ok j" and s: "js_step j = Some s" and room: "unat (js_next_phase_id j) + 1 < 2 ^ 64"
    and p: "pr_id p = js_next_phase_id j" "pr_step p = ss_step s"
  shows "job_ok (pack (j\<lparr>js_next_phase_id := js_next_phase_id j + 1\<rparr>)
      (s\<lparr>ss_phases := emplace (js_next_phase_id j) p (ss_phases s),
         ss_phase_order := ss_phase_order s @ [js_next_phase_id j],
         ss_phase_accounting := put (js_next_phase_id j) empty_phase_accounting (ss_phase_accounting s),
         ss_phase_active_flows := put (js_next_phase_id j) 0 (ss_phase_active_flows s)\<rparr>))"
    (is "job_ok (pack ?j ?s)")
proof (rule pack_job_ok [OF ok s])
  note J = job_okD [OF ok s]
  let ?i = "js_next_phase_id j"
  have next_id: "k < ?i \<Longrightarrow> k < ?i + 1" for k
    using room by (simp add: word_less_nat_alt unat_Suc64)
  have fresh: "\<not> has_key (ss_phases s) ?i"
    using J(2) unfolding flows_ok_def has_key_def by (metis less_irrefl not_None_eq)
  have unused: "fs_phase f \<noteq> ?i" if "map_of (ss_flows s) k = Some f" for k f
    using flow_in_okD(5) [OF J(2) that] fresh by auto
  have phases: "ss_phases ?s = put ?i p (ss_phases s)" using fresh by (simp add: emplace_def)
  have flows_ok: "flows_ok ?j ?s"
    unfolding flows_ok_def
  proof (intro conjI allI impI)
    show "wf_table (ss_flows ?s)" "wf_table (ss_phases ?s)" using J(2) by (simp_all add: flows_ok_def)
    show "has_key (ss_phase_active_flows ?s) k \<longleftrightarrow> has_key (ss_phases ?s) k" for k
      unfolding phases using J(2) by (simp add: flows_ok_def)
    fix k f
    assume "map_of (ss_flows ?s) k = Some f"
    then have f: "map_of (ss_flows s) k = Some f" by simp
    then show "flow_fits ?s k f"
      using flow_in_okD(2) [OF J(2) f] unused [OF f] phases by (simp add: flow_fits_def)
    show "k < js_next_intent_id ?j" using flow_in_okD(3) [OF J(2) f] by simp
  next
    fix k q
    assume "map_of (ss_phases ?s) k = Some q"
    moreover have "?i < ?i + 1" using room by (simp add: word_less_nat_alt unat_Suc64)
    moreover have "pr_id q = k \<and> pr_step q = ss_step s \<and> k < ?i" if "map_of (ss_phases s) k = Some q"
      using J(2) that by (simp add: flows_ok_def)
    ultimately show "pr_id q = k" "pr_step q = ss_step ?s" "k < js_next_phase_id ?j"
      using p next_id [of k] unfolding phases by (auto split: if_splits)
  qed
  have none: "tally (\<lambda>f. fs_phase f = ?i) w (ss_flows s) = 0" for w
  proof -
    have "tally (\<lambda>f. fs_phase f = ?i) w (ss_flows s) = tally (\<lambda>_. False) w (ss_flows s)"
      using unused J(2) by (intro tally_cong) (auto simp: flows_ok_def set_table)
    then show ?thesis by (simp add: tally_def)
  qed
  have "ledger (js_contract j) ?s \<and> phase_ledger ?s" if "contract_fits (js_contract j)"
  proof
    have L: "ledger (js_contract j) s" and P: "phase_ledger s" using J(5) that by auto
    show "ledger (js_contract j) ?s" using L by (simp add: ledger_def)
    have acc: "phase_accounting_of ?s k =
        (if k = ?i then empty_phase_accounting else phase_accounting_of s k)" for k
      by (simp add: phase_accounting_of_def)
    show "phase_ledger ?s"
    proof (rule phase_ledgerI)
      fix k
      note Pk = phase_ledgerD [OF P, of k]
      show "unat (ph_bytes_committed (phase_accounting_of ?s k)) =
          unat (ph_bytes_completed (phase_accounting_of ?s k)) + tally (\<lambda>f. fs_phase f = k) size_of (ss_flows ?s)"
        using Pk(1) none unfolding acc by (simp add: empty_phase_accounting_def)
      show "unat (ph_bytes_completed (phase_accounting_of ?s k)) \<le> unat (sa_bytes_completed (ss_accounting ?s))"
        using Pk(2) unfolding acc by (simp add: empty_phase_accounting_def)
      show "exact (\<lambda>f. fs_phase f = k) (\<lambda>_. 1) (get0 (ss_phase_active_flows ?s) k) (ss_flows ?s)"
        using Pk(3) none by (simp add: exact_def)
    qed
  qed
  with flows_ok J(1) show "step_ok ?j ?s" by (simp add: step_ok_def)
qed simp_all

lemma end_phase_job_ok:
  assumes ok: "job_ok j" and s: "js_step j = Some s" and p: "map_of (ss_phases s) i = Some p"
    and unused: "\<And>k f. map_of (ss_flows s) k = Some f \<Longrightarrow> fs_phase f \<noteq> i"
    and p': "pr_id p' = pr_id p" "pr_step p' = pr_step p"
  shows "job_ok (pack j (s\<lparr>ss_phases := put i p' (ss_phases s)\<rparr>))" (is "job_ok (pack j ?s)")
proof (rule pack_job_ok [OF ok s])
  note J = job_okD [OF ok s]
  have "flow_fits ?s k f" if f: "map_of (ss_flows s) k = Some f" for k f
    using flow_in_okD(2) [OF J(2) f] unused [OF f] by (simp add: flow_fits_def)
  moreover have "has_key (ss_phases s) i" using p by (rule has_keyI)
  ultimately have "flows_ok j ?s" using J(2) p p' by (auto simp: flows_ok_def split: if_splits)
  moreover have "ledger k ?s = ledger k s" "phase_ledger ?s = phase_ledger s" for k
    by (simp_all add: ledger_def phase_ledger_def phase_accounting_of_def)
  ultimately show "step_ok j ?s" using J(1) by (simp add: step_ok_def)
qed simp_all

text \<open>Fields outside the accounting of a job.\<close>

lemma flows_ok_frame:
  assumes "flows_ok j s" and "js_next_phase_id j' = js_next_phase_id j"
    and "js_next_intent_id j \<le> js_next_intent_id j'"
  shows "flows_ok j' s"
  unfolding flows_ok_def assms(2)
proof (intro conjI allI impI)
  show "i < js_next_intent_id j'" if "map_of (ss_flows s) i = Some f" for i f
    using flow_in_okD(3) [OF assms(1) that] assms(3) by simp
qed (use assms(1) in \<open>simp_all add: flows_ok_def\<close>)

lemma job_ok_frame:
  assumes "job_ok j" and "js_step j' = js_step j" and "js_history j' = js_history j"
    and "js_contract j' = js_contract j" and "js_highest_step j' = js_highest_step j"
    and "js_step j \<noteq> None \<Longrightarrow> js_incarnation j' = js_incarnation j \<and> js_generation j' = js_generation j \<and>
      js_retired j' = js_retired j"
    and "js_next_phase_id j' = js_next_phase_id j" and "js_next_intent_id j \<le> js_next_intent_id j'"
  shows "job_ok j'"
proof -
  have "step_ok j' s" if s: "js_step j' = Some s" for s
  proof -
    have s': "js_step j = Some s" using s assms(2) by simp
    have "flows_ok j' s" using job_okD(2) [OF assms(1) s'] assms(7,8) by (rule flows_ok_frame)
    with job_okD(1) [OF assms(1) s'] assms(4-6) s' show ?thesis by (simp add: step_ok_def)
  qed
  moreover have "history_ok j'"
    using assms(1) unfolding job_ok_def history_ok_def assms(2-5) by blast
  ultimately show ?thesis by (simp add: job_ok_def)
qed

lemma admit_job_ok:
  assumes ok: "job_ok j" and s: "js_step j = Some s"
    and ce: "close_each r mark is (st2, j, s) = ((st3, j1, s1), n)"
    and fits: "flow_fits s (fs_intent f) f" and fresh: "\<not> has_key (ss_flows s) (fs_intent f)"
    and less: "fs_intent f < js_next_intent_id j" and room: "has_room (js_contract j) s f"
  shows "job_ok (pack (acquire_utilization j1 f) (snd (open_flow j1 s1 f)))"
proof -
  have cl: "closing j (pack j1 s1)"
    using close_each_closing [OF _ ce, of j] closing_refl [of j] pack_same [OF s] by simp
  note E = close_each_step [OF job_okD(2) [OF ok s] ce]
  have frame: "js_contract j1 = js_contract j" "js_next_intent_id j1 = js_next_intent_id j"
    using closing_frame [OF cl] by (simp_all add: job_frame_def)
  have "job_ok (pack (acquire_utilization (pack j1 s1) f) (snd (open_flow j1 s1 f)))"
  proof (rule open_job_ok [OF closing_job_ok [OF cl ok]])
    show "flow_fits s1 (fs_intent f) f" using fits E(3-5) by (simp add: flow_fits_def)
    show "\<not> has_key (ss_flows s1) (fs_intent f)" using fresh E(1) by (simp add: has_key_fold_del)
    show "fs_intent f < js_next_intent_id (pack j1 s1)" using less frame by simp
    show "has_room (js_contract (pack j1 s1)) s1 f"
      using room E(1,7) frame length_fold_del_le [of "is" "ss_flows s"]
      by (simp add: has_room_def)
  qed simp
  moreover have "pack (acquire_utilization (pack j1 s1) f) x = pack (acquire_utilization j1 f) x" for x
    by (simp add: pack_def acquire_utilization_def)
  ultimately show ?thesis by simp
qed

lemma move_job_ok:
  assumes "move d m j j'" and ok: "job_ok j"
  shows "job_ok j'"
  using assms(1)
proof (cases rule: move.cases)
  case move_quiet
  then show ?thesis using ok job_ok_core by blast
next
  case move_closing
  then show ?thesis using ok closing_job_ok by blast
next
  case move_mint
  then show ?thesis
    by (auto intro!: job_ok_frame [OF ok] simp: word_le_nat_alt unat_Suc64)
next
  case (move_admit s st f prio lo hi cap st1 r mark st2 st3 j1 s1 n)
  then show ?thesis using admit_job_ok [OF ok] by simp
next
  case move_throttle
  then show ?thesis using throttle_job_ok [OF ok] by simp
next
  case move_begin_step
  then show ?thesis using begin_step_job_ok [OF ok] by simp
next
  case move_begin_phase
  then show ?thesis using begin_phase_job_ok [OF ok] by simp
next
  case (move_end_phase s i p p')
  have "job_ok (pack j (s\<lparr>ss_phases := put i p' (ss_phases s)\<rparr>))"
    using move_end_phase by (intro end_phase_job_ok [OF ok, of s i p]) simp_all
  then show ?thesis using move_end_phase by simp
next
  case move_seal
  then show ?thesis using seal_job_ok [OF ok] by blast
qed (auto intro!: job_ok_frame [OF ok])

section \<open>Disciplined moves keep the utilisation within the links\<close>

lemma job_tightI:
  assumes "\<And>i f. map_of (open_flows j) i = Some f \<Longrightarrow> has_key (js_groups j) (fs_group f)"
    and "contract_fits (js_contract j) \<Longrightarrow> groups_exact j (open_flows j)"
    and "\<And>g. contract_fits (js_contract j) \<Longrightarrow> unat (utilized_bps j g) \<le> link_limit j g"
  shows "job_tight j"
  using assms by (simp add: job_tight_def)

lemma job_tight_known:
  "job_tight j \<Longrightarrow> map_of (open_flows j) i = Some f \<Longrightarrow> has_key (js_groups j) (fs_group f)"
  by (simp add: job_tight_def)

lemma job_tight_frame:
  assumes T: "job_tight j" and "open_flows j' = open_flows j" and "js_groups j' = js_groups j"
    and "js_group_utilized_bps j' = js_group_utilized_bps j"
    and "js_group_active_flows j' = js_group_active_flows j" and "js_topology j' = js_topology j"
    and "js_contract j' = js_contract j"
  shows "job_tight j'"
  using T unfolding job_tight_def groups_exact_def utilized_bps_def active_flow_count_def link_limit_def
    assms(2-7) .

lemma open_flows_simps [simp]:
  "js_step j = Some s \<Longrightarrow> open_flows j = ss_flows s" "js_step j = None \<Longrightarrow> open_flows j = []"
  by (simp_all add: open_flows_def)

lemma idle_unutilized:
  assumes "job_tight j" and "contract_fits (js_contract j)" and "open_flows j = []"
  shows "unat (utilized_bps j g) = 0"
  using tightD(3) [OF assms(1,2), of g] assms(3) by simp

lemma admit_tight:
  assumes T: "job_tight j" and ok: "job_ok j" and s: "js_step j = Some s"
    and arb: "arbitrate_capacity st j s (fs_group f) prio lo hi = (cap, st1)" "cr_reason cap = EC_Ok"
    and ce: "close_each r mark (cr_preempted cap) (st2, j, s) = ((st3, j1, s1), n)"
    and grant: "fs_granted_min_bps f = cr_granted_min_bps cap" and fits: "flow_fits s (fs_intent f) f"
    and fresh: "\<not> has_key (ss_flows s) (fs_intent f)" and room: "has_room (js_contract j) s f"
    and known: "has_key (js_groups j) (fs_group f)"
  shows "job_tight (pack (acquire_utilization j1 f) (snd (open_flow j1 s1 f)))"
proof (rule job_tightI)
  have cl: "closing j (pack j1 s1)"
    using close_each_closing [OF _ ce, of j] closing_refl [of j] pack_same [OF s] by simp
  note T1 = closing_job_tight [OF cl ok T] and ok1 = closing_job_ok [OF cl ok]
  note E = close_each_step [OF job_okD(2) [OF ok s] ce]
  have frame: "js_contract j1 = js_contract j" "js_groups j1 = js_groups j" "js_topology j1 = js_topology j"
    using closing_frame [OF cl] by (simp_all add: job_frame_def)
  have rate: "rate_of f \<le> max_rate" using fits by (simp add: flow_fits_def)
  have fresh1: "\<not> has_key (ss_flows s1) (fs_intent f)" using fresh E(1) by (simp add: has_key_fold_del)
  have room1: "has_room (js_contract j) s1 f"
    using room E(1,7) length_fold_del_le [of "cr_preempted cap" "ss_flows s"] by (simp add: has_room_def)
  let ?j = "pack (acquire_utilization j1 f) (snd (open_flow j1 s1 f))"
  show "has_key (js_groups ?j) (fs_group f')" if "map_of (open_flows ?j) i = Some f'" for i f'
    using that known frame job_tight_known [OF T1, of i f'] by (auto split: if_splits)
  assume "contract_fits (js_contract ?j)"
  then have k: "contract_fits (js_contract j)" using frame by simp
  have "groups_exact j1 (ss_flows s1)" using tightD(1) [OF T1] k frame by simp
  then show "groups_exact ?j (open_flows ?j)"
    using open_groups_exact [OF _ E(2) k fresh1 room1 rate] by simp
  show "unat (utilized_bps ?j g) \<le> link_limit ?j g" for g
  proof (cases "fs_group f = g")
    case True
    have limit: "link_limit ?j g = link_limit j g" using frame by (simp add: link_limit_def)
    have sum: "unat (utilized_bps j1 g) + rate_of f \<le> link_limit j g"
      using arbitration_tight [OF T ok k s arb ce] grant True by simp
    have "link_limit j g \<le> 18446744073709551615"
      using unat_max64 by (simp add: link_limit_def split: option.split)
    then have "unat (utilized_bps j1 g + fs_granted_min_bps f) = unat (utilized_bps j1 g) + rate_of f"
      using sum by (intro unat_plus64) simp
    then show ?thesis using sum limit True by (simp add: utilized_acquire)
  next
    case False
    then show ?thesis
      using tightD(2) [OF T1, of g] k frame by (simp add: utilized_acquire link_limit_def)
  qed
qed

lemma throttle_tight:
  assumes T: "job_tight j" and ok: "job_ok j" and s: "js_step j = Some s"
    and f: "map_of (ss_flows s) i = Some f" and r: "r < fs_granted_min_bps f"
  shows "job_tight (pack (throttle_in_job f r j) (throttle_in_step f r s))"
proof (rule job_tightI)
  note F = flow_in_okD [OF job_okD(2) [OF ok s] f]
  let ?j = "pack (throttle_in_job f r j) (throttle_in_step f r s)"
  show "has_key (js_groups ?j) (fs_group f')" if "map_of (open_flows ?j) i' = Some f'" for i' f'
    using that s f F(1) job_tight_known [OF T, of i f] job_tight_known [OF T, of i' f']
    by (auto split: if_splits)
  assume "contract_fits (js_contract ?j)"
  then have k: "contract_fits (js_contract j)" by simp
  show "groups_exact ?j (open_flows ?j)"
    using throttle_groups_exact [OF _ F(4) f r] tightD(1) [OF T k] s F(1) by simp
  fix g
  have "unat (utilized_bps ?j g) \<le> unat (utilized_bps j g)" by (simp add: utilized_throttle)
  also have "\<dots> \<le> link_limit j g" by (rule tightD(2) [OF T k])
  finally show "unat (utilized_bps ?j g) \<le> link_limit ?j g" by (simp add: link_limit_def)
qed

lemma open_flows_wf: "job_ok j \<Longrightarrow> wf_table (open_flows j)"
  by (auto simp: open_flows_def job_ok_def step_ok_def flows_ok_def split: option.split)

lemma group_tight:
  assumes T: "job_tight j" and ok: "job_ok j" and fresh: "\<not> has_key (js_groups j) i"
  shows "job_tight (j\<lparr>js_groups := put i g (js_groups j),
      js_group_utilized_bps := put i 0 (js_group_utilized_bps j),
      js_group_active_flows := put i 0 (js_group_active_flows j)\<rparr>)" (is "job_tight ?j")
proof (rule job_tightI)
  have flows: "open_flows ?j = open_flows j" by (simp add: open_flows_def)
  have elsewhere: "fs_group f \<noteq> i" if "map_of (open_flows j) k = Some f" for k f
    using job_tight_known [OF T that] fresh by auto
  show "has_key (js_groups ?j) (fs_group f)" if "map_of (open_flows ?j) k = Some f" for k f
    using that flows job_tight_known [OF T, of k f] by simp
  assume "contract_fits (js_contract ?j)"
  then have k: "contract_fits (js_contract j)" by simp
  have util: "utilized_bps ?j h = (if h = i then 0 else utilized_bps j h)"
    "active_flow_count ?j h = (if h = i then 0 else active_flow_count j h)" for h
    by (simp_all add: utilized_bps_def active_flow_count_def)
  show "unat (utilized_bps ?j h) \<le> link_limit ?j h" for h
    using tightD(2) [OF T k, of h] by (simp add: util link_limit_def)
  have none: "tally (\<lambda>f. fs_group f = i) w (open_flows j) = 0" for w
  proof -
    have "tally (\<lambda>f. fs_group f = i) w (open_flows j) = tally (\<lambda>_. False) w (open_flows j)"
      using elsewhere open_flows_wf [OF ok] by (intro tally_cong) (simp add: set_table)
    then show ?thesis by (simp add: tally_def)
  qed
  show "groups_exact ?j (open_flows ?j)"
    using tightD(1) [OF T k] none unfolding groups_exact_def util flows by (simp add: exact_def)
qed

lemma move_job_tight:
  assumes "move True m j j'" and ok: "job_ok j" and T: "job_tight j"
  shows "job_tight j'"
  using assms(1)
proof (cases rule: move.cases)
  case move_quiet
  then show ?thesis using T job_tight_core by blast
next
  case move_closing
  then show ?thesis using closing_job_tight ok T by blast
next
  case (move_admit s st f prio lo hi cap st1 r mark st2 st3 j1 s1 n)
  then show ?thesis using admit_tight [OF T ok] by simp
next
  case move_throttle
  then show ?thesis using throttle_tight [OF T ok] by simp
next
  case move_group
  then show ?thesis using group_tight [OF T ok] by simp
next
  case (move_topology e)
  then have "open_flows j = []" "open_flows j' = []" by (simp_all add: open_flows_def)
  moreover have "unat (utilized_bps j' g) = 0" if "contract_fits (js_contract j)" for g
    using idle_unutilized [OF T that, of g] move_topology by (simp add: utilized_bps_def)
  ultimately show ?thesis
    using tightD(1) [OF T] move_topology
    by (intro job_tightI) (simp_all add: groups_exact_def utilized_bps_def active_flow_count_def)
next
  case (move_seal s st x t c st' report)
  note S = seal_step_props [OF move_seal(4)]
  have "open_flows j = []" "open_flows j' = []" using move_seal S(1) by simp_all
  moreover have "link_limit j' g = link_limit j g" for g using S(12) by (simp add: link_limit_def)
  ultimately show ?thesis
    using tightD(1,2) [OF T] S by (intro job_tightI) (simp_all add: groups_exact_def)
qed (auto intro!: job_tight_frame [OF T] simp: open_flows_def new_step_def)

text \<open>A run of moves, and what a new job satisfies.\<close>

lemma moves_job_ok: "moves d m j j' \<Longrightarrow> job_ok j \<Longrightarrow> job_ok j'"
  by (induction rule: moves.induct) (auto dest: move_job_ok)

lemma moves_job_tight: "moves True m j j' \<Longrightarrow> job_ok j \<Longrightarrow> job_tight j \<Longrightarrow> job_tight j'"
  by (induction rule: moves.induct) (auto dest: move_job_tight moves_job_ok)

lemma new_job_ok: "job_ok (new_job reg i c now)"
  by (simp add: job_ok_def history_ok_def new_job_def Let_def)

lemma new_job_tight: "job_tight (new_job reg i c now)"
  by (simp add: job_tight_def groups_exact_def open_flows_def new_job_def Let_def exact_def
      utilized_bps_def active_flow_count_def)

section \<open>What moves never take back\<close>

definition job_advances :: "job_state \<Rightarrow> job_state \<Rightarrow> bool" where
  "job_advances j j' \<longleftrightarrow>
     js_id j' = js_id j \<and> js_generation j' = js_generation j \<and> js_contract j' = js_contract j \<and>
     js_retired_set j \<subseteq> js_retired_set j' \<and> js_highest_step j \<le> js_highest_step j' \<and>
     js_epoch j \<le> js_epoch j' \<and> (js_retired j \<longrightarrow> js_retired j') \<and>
     (js_incarnation j' = js_incarnation j \<or> js_incarnation j \<in> js_retired_set j')"

lemma closing_advances: "closing j j' \<Longrightarrow> job_advances j j'"
  by (drule closing_frame) (auto simp: job_frame_def job_advances_def)

lemma move_advances:
  assumes "move d m j j'"
  shows "job_advances j j'"
  using assms
proof (cases rule: move.cases)
  case move_quiet
  then show ?thesis using job_core_eqs [OF move_quiet(2)] by (simp add: job_advances_def)
next
  case move_closing
  then show ?thesis by (simp add: closing_advances)
next
  case (move_admit s st f prio lo hi cap st1 r mark st2 st3 j1 s1 n)
  have "closing j (pack j1 s1)"
    using close_each_closing [OF _ move_admit(6), of j] closing_refl [of j] pack_same [OF move_admit(3)] by simp
  from closing_frame [OF this] show ?thesis using move_admit by (simp add: job_frame_def job_advances_def)
next
  case move_seal
  then show ?thesis using seal_step_props by (simp add: job_advances_def)
qed (auto simp: job_advances_def)

lemma job_advances_trans: "job_advances j j' \<Longrightarrow> job_advances j' j'' \<Longrightarrow> job_advances j j''"
  unfolding job_advances_def by (auto intro: order_trans)

lemma moves_advance: "moves d m j j' \<Longrightarrow> job_advances j j'"
proof (induction rule: moves.induct)
  case (moves_refl j)
  then show ?case by (simp add: job_advances_def)
next
  case (moves_step m j j' n j'')
  then show ?case using move_advances job_advances_trans by blast
qed

text \<open>The ids a move mints.\<close>

definition minted :: "job_state \<Rightarrow> nat" where
  "minted j = unat (js_next_intent_id j) + unat (js_next_phase_id j)"

lemma move_minted:
  assumes "move d m j j'"
  shows "minted j' = minted j + m"
  using assms
proof (cases rule: move.cases)
  case move_quiet
  then show ?thesis using job_core_eqs(15,16) [OF move_quiet(2)] by (simp add: minted_def move_quiet(1))
next
  case move_closing
  then show ?thesis using closing_frame by (simp add: minted_def job_frame_def)
next
  case (move_admit s st f prio lo hi cap st1 r mark st2 st3 j1 s1 n)
  have "closing j (pack j1 s1)"
    using close_each_closing [OF _ move_admit(6), of j] closing_refl [of j] pack_same [OF move_admit(3)] by simp
  from closing_frame [OF this] show ?thesis using move_admit by (simp add: job_frame_def minted_def)
next
  case move_seal
  then show ?thesis using seal_step_props by (simp add: minted_def)
qed (auto simp: minted_def unat_Suc64)

lemma moves_minted: "moves d m j j' \<Longrightarrow> minted j' = minted j + m"
  by (induction rule: moves.induct) (auto dest: move_minted)

end
