(* ===== verification/Gate.thy ===== *)
theory Gate
  imports Machine
begin

text \<open>
  The gate every handler passes: what a resolved token guarantees, and that a token that
  does not resolve changes nothing but the evidence of the refusal. The contract is stated
  once as a locale and interpreted for each handler that answers a refusal with
  \<^verbatim>\<open>authority_status\<close>.
\<close>

section \<open>What resolution guarantees\<close>

lemma resolve_job_Inr:
  assumes "resolve_job st t = Inr job"
  shows "map_of (fb_jobs st) (at_job t) = Some job" and "job_failure (fb_policy st) job t = None"
  using assms by (auto simp: resolve_job_def split: option.splits)

lemma resolve_step_Inr:
  assumes "resolve_step st t = Inr (job, step)"
  shows "map_of (fb_jobs st) (at_job t) = Some job" and "job_failure (fb_policy st) job t = None"
    and "js_step job = Some step" and "step_failure step t = None"
  using assms resolve_job_Inr [of st t] by (auto simp: resolve_step_def split: sum.splits option.splits)

lemma resolve_phase_Inr:
  assumes "resolve_phase st t = Inr (job, step, phase)"
  shows "resolve_step st t = Inr (job, step)" and "map_of (ss_phases step) (at_phase t) = Some phase"
    and "phase_active phase"
  using assms by (auto simp: resolve_phase_def split: sum.splits option.splits if_splits)

text \<open>The token a job accepts names its current generations and its live incarnation.\<close>

lemma job_failure_None:
  assumes "job_failure policy job t = None"
  shows "\<not> js_retired job" and "at_job_generation t = js_generation job"
    and "valid (js_epoch job) \<Longrightarrow> at_epoch t = js_epoch job"
    and "at_incarnation t = js_incarnation job" and "at_incarnation t \<notin> js_retired_set job"
    and "at_boot t = js_boot job" and "at_contract_generation t = wc_generation (js_contract job)"
    and "valid (te_generation (js_topology job)) \<Longrightarrow>
         at_topology_generation t = te_generation (js_topology job)"
    and "at_policy_generation t \<le> pd_generation policy"
  using assms by (auto simp: job_failure_def valid_def not_less split: if_splits)

lemma step_failure_None:
  assumes "step_failure step t = None"
  shows "valid (at_step t)" and "at_step t = ss_step step" and "at_incarnation t = ss_incarnation step"
  using assms by (auto simp: step_failure_def split: if_splits)

text \<open>A refusal points at the job and the step it was found under.\<close>

definition refusal_ok :: "fabric_state \<Rightarrow> authority_token \<Rightarrow> refusal \<Rightarrow> bool" where
  "refusal_ok st t r \<longleftrightarrow>
     (case rf_job r of
        None \<Rightarrow> rf_step r = None \<and> map_of (fb_jobs st) (at_job t) = None
      | Some job \<Rightarrow>
          map_of (fb_jobs st) (at_job t) = Some job \<and>
          (\<forall>s. rf_step r = Some s \<longrightarrow> js_step job = Some s))"

lemma resolve_job_Inl: "resolve_job st t = Inl r \<Longrightarrow> refusal_ok st t r"
  by (auto simp: resolve_job_def refusal_ok_def refuse_def split: option.splits)

lemma resolve_step_Inl: "resolve_step st t = Inl r \<Longrightarrow> refusal_ok st t r"
  using resolve_job_Inl [of st t] resolve_job_Inr [of st t]
  by (auto simp: resolve_step_def refusal_ok_def refuse_def split: sum.splits option.splits)

lemma resolve_phase_Inl: "resolve_phase st t = Inl r \<Longrightarrow> refusal_ok st t r"
  using resolve_step_Inl [of st t] resolve_step_Inr [of st t]
  by (auto simp: resolve_phase_def refusal_ok_def refuse_def split: sum.splits option.splits if_splits)

text \<open>A token the job refuses is refused whatever else the operation needs.\<close>

lemma resolve_refused:
  assumes "resolve_job st t = Inl r"
  shows "resolve_step st t = Inl r" and "resolve_phase st t = Inl r"
  using assms by (simp_all add: resolve_step_def resolve_phase_def)

section \<open>What a refusal may change\<close>

definition strip_step :: "step_state \<Rightarrow> step_state" where
  "strip_step s = s\<lparr>ss_fences := [], ss_fences_observed := 0\<rparr>"

definition strip_fences :: "job_state \<Rightarrow> job_state" where
  "strip_fences j = j\<lparr>js_recent_fences := [], js_step := map_option strip_step (js_step j)\<rparr>"

definition only_fences :: "fabric_state \<Rightarrow> fabric_state \<Rightarrow> bool" where
  "only_fences st st' \<longleftrightarrow>
     fb_config st' = fb_config st \<and> fb_now st' = fb_now st \<and> fb_policy st' = fb_policy st \<and>
     fb_next_job_id st' = fb_next_job_id st \<and>
     (fb_stats st')\<lparr>st_fenced_operations := 0\<rparr> = (fb_stats st)\<lparr>st_fenced_operations := 0\<rparr> \<and>
     (\<forall>k. map_option strip_fences (map_of (fb_jobs st') k) =
          map_option strip_fences (map_of (fb_jobs st) k))"

lemma only_fences_refl: "only_fences st st"
  by (simp add: only_fences_def)

lemma store_fence_only_fences:
  assumes "map_of (fb_jobs st) k = Some job" and "\<And>s. step = Some s \<Longrightarrow> js_step job = Some s"
  shows "only_fences st (store_fence k st job step event)"
  using assms
  by (cases step)
    (auto simp: only_fences_def store_fence_def record_fence_def record_step_fence_def
      strip_fences_def strip_step_def)

lemma authority_status_only_fences:
  assumes "refusal_ok st t r"
  shows "only_fences st (snd (authority_status st t r))" and "fst (authority_status st t r) = Inl (rf_failure r)"
proof -
  show "only_fences st (snd (authority_status st t r))"
  proof (cases "rf_job r")
    case None
    then show ?thesis by (simp add: authority_status_def only_fences_def)
  next
    case (Some job)
    then show ?thesis
      using assms by (auto simp: authority_status_def refusal_ok_def intro!: store_fence_only_fences)
  qed
qed (simp add: authority_status_def)

section \<open>Gated handlers\<close>

locale gated =
  fixes handler :: "fabric_state \<Rightarrow> 'r \<Rightarrow> 'a outcome"
    and token :: "'r \<Rightarrow> authority_token"
    and resolve :: "fabric_state \<Rightarrow> authority_token \<Rightarrow> refusal + 'w"
  assumes resolves: "resolve st t = Inl f \<Longrightarrow> refusal_ok st t f"
    and refuses: "resolve st (token r) = Inl f \<Longrightarrow>
      handler st r = authority_status st (token r) f \<or> (\<exists>e. handler st r = (Inl e, st))"
begin

lemma refused_only_fences:
  assumes "resolve st (token r) = Inl f"
  shows "only_fences st (snd (handler st r))"
  using refuses [OF assms] authority_status_only_fences(1) [OF resolves [OF assms]] only_fences_refl
  by auto

lemma refused_is_error:
  assumes "resolve st (token r) = Inl f"
  shows "\<exists>e. fst (handler st r) = Inl e"
  using refuses [OF assms] authority_status_only_fences(2) [OF resolves [OF assms]] by fastforce

lemma success_was_authorised:
  assumes "handler st r = (Inr x, st')"
  shows "\<exists>w. resolve st (token r) = Inr w"
  using assms refused_is_error [of st r] by (cases "resolve st (token r)") auto

end

lemmas gate_defs = ttf_try_def require_def

interpretation register_group_gate: gated register_group gr_authority resolve_job
  by unfold_locales (auto simp: register_group_def dest: resolve_job_Inl)

interpretation publish_topology_gate:
  gated "\<lambda>st (a, e). publish_topology st a e" fst resolve_job
  by unfold_locales (auto simp: publish_topology_def dest: resolve_job_Inl)

interpretation retire_job_gate: gated retire_job "\<lambda>a. a" resolve_job
  by unfold_locales (auto simp: retire_job_def dest: resolve_job_Inl)

interpretation begin_step_gate: gated begin_step so_authority resolve_job
  by unfold_locales (auto simp: begin_step_def gate_defs dest: resolve_job_Inl)

interpretation begin_phase_gate: gated begin_phase po_authority resolve_step
  by unfold_locales (auto simp: begin_phase_def gate_defs split: sum.split dest: resolve_step_Inl)

interpretation end_phase_gate:
  gated "\<lambda>st (a, p, d). end_phase st a p d" fst resolve_step
  by unfold_locales (auto simp: end_phase_def gate_defs dest: resolve_step_Inl)

interpretation end_step_gate: gated "\<lambda>st (a, d). end_step st a d" fst resolve_step
  by unfold_locales (auto simp: end_step_def dest: resolve_step_Inl)

interpretation revalidate_flow_gate: gated "\<lambda>st (a, i). revalidate_flow st a i" fst resolve_step
  by unfold_locales (auto simp: revalidate_flow_def dest: resolve_step_Inl)

interpretation begin_burst_gate: gated begin_checkpoint_burst cb_authority resolve_step
  by unfold_locales (auto simp: begin_checkpoint_burst_def gate_defs split: sum.split dest: resolve_step_Inl)

interpretation end_burst_gate: gated "\<lambda>st (a, b). end_checkpoint_burst st a b" fst resolve_step
  by unfold_locales (auto simp: end_checkpoint_burst_def dest: resolve_step_Inl)

interpretation evaluate_pacing_gate: gated evaluate_pacing pi_authority resolve_step
  by unfold_locales (auto simp: evaluate_pacing_def gate_defs dest: resolve_step_Inl)

interpretation retire_incarnation_gate: gated retire_incarnation "\<lambda>a. a" resolve_job
  by unfold_locales (auto simp: retire_incarnation_def dest: resolve_job_Inl)

text \<open>The completion of a flow refuses in its own words, and fences alike.\<close>

lemma complete_flow_refused:
  assumes "resolve_step st (fc_authority c) = Inl f"
  shows "only_fences st (snd (complete_flow st c))" and "\<exists>e. fst (complete_flow st c) = Inl e"
proof -
  have ok: "refusal_ok st (fc_authority c) f" using assms by (rule resolve_step_Inl)
  show "only_fences st (snd (complete_flow st c))"
  proof (cases "rf_job f")
    case None
    then show ?thesis using assms by (simp add: complete_flow_def Let_def only_fences_def)
  next
    case (Some job)
    then have "only_fences st (store_fence (at_job (fc_authority c)) st job (rf_step f) ev)" for ev
      using ok by (auto simp: refusal_ok_def intro!: store_fence_only_fences)
    then show ?thesis
      using Some assms by (simp add: complete_flow_def Let_def authority_status_only_fences(1) [OF ok])
  qed
  show "\<exists>e. fst (complete_flow st c) = Inl e"
    using assms by (cases "rf_job f") (simp_all add: complete_flow_def Let_def authority_status_def)
qed

end
