(* ===== verification/Simulation.thy ===== *)
theory Simulation
  imports Gate
begin

text \<open>
  Every call of the fabric is a sequence of moves on each job: the handlers refine the job
  machine. The argument is one lemma per handler; what it needs of the state is that jobs
  are well formed and that the id counters have room for one more id.
\<close>

section \<open>The simulation relation\<close>

definition fresh_job :: "training_job_id \<Rightarrow> job_state \<Rightarrow> bool" where
  "fresh_job k j \<longleftrightarrow> (\<exists>reg c now. j = new_job reg k c now \<and> contract_validate c = Inr ())"

definition sim :: "bool \<Rightarrow> fabric_state \<Rightarrow> fabric_state \<Rightarrow> bool" where
  "sim d st st' \<longleftrightarrow>
     (wf_table (fb_jobs st) \<longrightarrow> wf_table (fb_jobs st')) \<and>
     (\<forall>k. case map_of (fb_jobs st) k of
            Some j \<Rightarrow> \<exists>m j'. m \<le> 1 \<and> map_of (fb_jobs st') k = Some j' \<and> moves d m j j'
          | None \<Rightarrow> map_of (fb_jobs st') k = None \<or>
                    (\<exists>j'. map_of (fb_jobs st') k = Some j' \<and> fresh_job k j'))"

lemma sim_same: "fb_jobs st' = fb_jobs st \<Longrightarrow> sim d st st'"
  by (auto simp: sim_def intro!: exI [of _ "0 :: nat"] moves_refl split: option.split)

lemma sim_put:
  assumes j: "map_of (fb_jobs st) k = Some j" and mv: "moves d m j j'" "m \<le> 1"
    and jobs: "fb_jobs st' = put k j' (fb_jobs st)"
  shows "sim d st st'"
  unfolding sim_def jobs
proof (intro conjI impI allI wf_put)
  fix i
  show "case map_of (fb_jobs st) i of
      Some j \<Rightarrow> \<exists>m j''. m \<le> 1 \<and> map_of (put k j' (fb_jobs st)) i = Some j'' \<and> moves d m j j''
    | None \<Rightarrow> map_of (put k j' (fb_jobs st)) i = None \<or>
        (\<exists>j''. map_of (put k j' (fb_jobs st)) i = Some j'' \<and> fresh_job i j'')"
  proof (cases "i = k")
    case True
    then show ?thesis using j mv by auto
  next
    case False
    then show ?thesis by (auto intro!: exI [of _ "0 :: nat"] moves_refl split: option.split)
  qed
qed

lemma sim_via:
  assumes "fb_jobs st1 = fb_jobs st" and "sim d st1 st'"
  shows "sim d st st'"
  using assms by (simp add: sim_def)

lemma sim_new:
  assumes "map_of (fb_jobs st) k = None" and "fresh_job k j" and "fb_jobs st' = put k j (fb_jobs st)"
  shows "sim d st st'"
  using assms
  by (auto simp: sim_def intro!: exI [of _ "0 :: nat"] moves_refl split: option.split)

text \<open>What a handler may rely on.\<close>

definition ready :: "fabric_state \<Rightarrow> bool" where
  "ready st \<longleftrightarrow>
     (\<forall>k j. map_of (fb_jobs st) k = Some j \<longrightarrow> job_ok j \<and> js_id j = k \<and> minted j + 1 < 2 ^ 64)"

lemma readyD:
  assumes "ready st" and "map_of (fb_jobs st) k = Some j"
  shows "job_ok j" and "js_id j = k" and "unat (js_next_intent_id j) + 1 < 2 ^ 64"
    and "unat (js_next_phase_id j) + 1 < 2 ^ 64"
proof -
  have R: "job_ok j" "js_id j = k" "minted j + 1 < 2 ^ 64" using assms by (auto simp: ready_def)
  then show "job_ok j" "js_id j = k" by simp_all
  show "unat (js_next_intent_id j) + 1 < 2 ^ 64" "unat (js_next_phase_id j) + 1 < 2 ^ 64"
    using R(3) unfolding minted_def by linarith+
qed

section \<open>Refusals\<close>

lemma job_core_fences [simp]:
  "job_core (j\<lparr>js_recent_fences := x\<rparr>) = job_core j" "js_step (j\<lparr>js_recent_fences := x\<rparr>) = js_step j"
  by (simp_all add: job_core_def)

lemma step_core_fence [simp]: "step_core (record_step_fence st s ev) = step_core s"
  by (simp add: step_core_def record_step_fence_def phase_accounting_of_def)

lemma record_fence_core:
  assumes "record_fence st j ev = (st', j')"
  shows "job_core j' = job_core j" and "js_step j' = js_step j" and "fb_jobs st' = fb_jobs st"
    and "fb_policy st' = fb_policy st" and "fb_now st' = fb_now st"
  using assms by (auto simp: record_fence_def)

lemma store_fence_sim:
  assumes "map_of (fb_jobs st) k = Some j" and "\<And>s. step = Some s \<Longrightarrow> js_step j = Some s"
  shows "sim d st (store_fence k st j step ev)"
proof -
  obtain st1 j1 where r: "record_fence st j ev = (st1, j1)" by fastforce
  note R = record_fence_core [OF r]
  let ?j = "case step of None \<Rightarrow> j1 | Some s \<Rightarrow> j1\<lparr>js_step := Some (record_step_fence st s ev)\<rparr>"
  have "job_core ?j = job_core j"
  proof (cases step)
    case None
    then show ?thesis using R(1) by simp
  next
    case (Some s)
    have "job_core (pack j1 (record_step_fence st s ev)) = job_core (pack j s)"
      by (rule job_core_pack [OF R(1)]) simp
    then show ?thesis using Some pack_same [OF assms(2) [OF Some]] by (simp add: pack_def)
  qed
  then have "moves d 0 j ?j" by (rule moves_quiet [OF moves_refl])
  then show ?thesis
    by (rule sim_put [OF assms(1)]) (simp_all add: store_fence_def r R(3))
qed

lemma authority_status_sim:
  assumes "refusal_ok st t r"
  shows "sim d st (snd (authority_status st t r))"
proof (cases "rf_job r")
  case None
  then show ?thesis by (simp add: authority_status_def sim_same)
next
  case (Some j)
  then show ?thesis
    using assms by (auto simp: authority_status_def refusal_ok_def intro!: store_fence_sim)
qed

text \<open>The shape of a gated handler: it refuses, or it works on the job that was resolved.\<close>

lemma gated_job_sim:
  assumes "\<And>j. resolve_job st t = Inr j \<Longrightarrow> map_of (fb_jobs st) (at_job t) = Some j \<Longrightarrow> sim d st (snd (f j))"
  shows "sim d st (snd (case resolve_job st t of Inl r \<Rightarrow> authority_status st t r | Inr j \<Rightarrow> f j))"
  using assms resolve_job_Inr [of st t] resolve_job_Inl [of st t]
  by (auto simp: authority_status_sim split: sum.split)

lemma gated_step_sim:
  assumes "\<And>j s. resolve_step st t = Inr (j, s) \<Longrightarrow> map_of (fb_jobs st) (at_job t) = Some j \<Longrightarrow>
    js_step j = Some s \<Longrightarrow> sim d st (snd (f j s))"
  shows "sim d st (snd (case resolve_step st t of Inl r \<Rightarrow> authority_status st t r | Inr (j, s) \<Rightarrow> f j s))"
  using assms resolve_step_Inr [of st t] resolve_step_Inl [of st t]
  by (auto simp: authority_status_sim split: sum.split)

lemma require_sim: "(b \<Longrightarrow> sim d st (snd k)) \<Longrightarrow> sim d st (snd (require b e st k))"
  by (simp add: require_def sim_same)

lemma ttf_try_sim: "(s = Inr () \<Longrightarrow> sim d st (snd k)) \<Longrightarrow> sim d st (snd (ttf_try s st k))"
  by (cases s) (simp_all add: ttf_try_def sim_same)

lemma store_step_jobs [simp]:
  "fb_jobs (store_step k (st, j, s)) = put k (pack j s) (fb_jobs st)"
  by (simp add: store_step_def pack_def)

text \<open>Bookkeeping a handler may add at the end.\<close>

lemma job_core_activity [simp]:
  "job_core (j\<lparr>js_last_activity := x\<rparr>) = job_core j" "js_step (j\<lparr>js_last_activity := x\<rparr>) = js_step j"
  "job_core (j\<lparr>js_next_burst_id := y\<rparr>) = job_core j" "js_step (j\<lparr>js_next_burst_id := y\<rparr>) = js_step j"
  "job_core (j\<lparr>js_pacing_records := z, js_last_activity := x\<rparr>) = job_core j"
  by (simp_all add: job_core_def)

lemma pack_activity: "pack (j\<lparr>js_last_activity := x\<rparr>) s = (pack j s)\<lparr>js_last_activity := x\<rparr>"
  by (simp add: pack_def)

section \<open>Registration\<close>

lemma register_job_sim: "sim d st (snd (register_job st reg))"
proof -
  have new: "sim d st (snd (ttf_try (contract_validate (registered_contract reg i))
        (st\<lparr>fb_next_job_id := n\<rparr>) (Inr h, store_job i (new_job reg i (registered_contract reg i) t) st')))"
    if "\<not> has_key (fb_jobs st) i" "fb_jobs st' = fb_jobs st"
    for i n t st' and h :: job_handle
  proof (cases "contract_validate (registered_contract reg i)")
    case (Inr u)
    then have "fresh_job i (new_job reg i (registered_contract reg i) t)"
      unfolding fresh_job_def by (intro exI [of _ reg] exI [of _ t] exI [of _ "registered_contract reg i"]) simp
    then show ?thesis
      using that Inr by (auto simp: ttf_try_def has_key_def intro!: sim_new)
  qed (simp add: ttf_try_def sim_same)
  then show ?thesis
    unfolding register_job_def Let_def by (intro require_sim ttf_try_sim new) simp_all
qed

lemma register_group_sim: "sim d st (snd (register_group st reg))"
  unfolding register_group_def
proof (rule gated_job_sim)
  fix j
  assume j: "map_of (fb_jobs st) (at_job (gr_authority reg)) = Some j"
  let ?g = "(gr_group reg)\<lparr>pg_job := js_id j\<rparr>"
  let ?j = "j\<lparr>js_groups := put (pg_id ?g) ?g (js_groups j),
      js_group_utilized_bps := put (pg_id ?g) 0 (js_group_utilized_bps j),
      js_group_active_flows := put (pg_id ?g) 0 (js_group_active_flows j)\<rparr>"
  let ?j' = "j\<lparr>js_groups := put (pg_id ?g) ?g (js_groups j),
      js_group_order := js_group_order j @ [pg_id ?g],
      js_group_utilized_bps := put (pg_id ?g) 0 (js_group_utilized_bps j),
      js_group_active_flows := put (pg_id ?g) 0 (js_group_active_flows j),
      js_last_activity := fb_now st\<rparr>"
  have "sim d st (store_job (at_job (gr_authority reg)) ?j' st)" if "\<not> has_key (js_groups j) (pg_id ?g)"
  proof (rule sim_put [OF j])
    have "moves d 0 j ?j" by (rule moves_one [OF move_group [OF that]])
    then show "moves d 0 j ?j'" by (rule moves_quiet) (simp add: job_core_def)
  qed simp_all
  then show "sim d st (snd (let g = (gr_group reg)\<lparr>pg_job := js_id j\<rparr>; i = pg_id g
      in ttf_try (group_validate g) st (
         require (\<not> has_key (js_groups j) i) EC_AlreadyExists st (
         require (\<not> length (js_groups j) \<ge> unat (wc_max_parallelism_groups (js_contract j)))
           EC_ContractLimitExceeded st
         (Inr (),
          store_job (at_job (gr_authority reg))
            (j\<lparr>js_groups := put i g (js_groups j),
                 js_group_order := js_group_order j @ [i],
                 js_group_utilized_bps := put i 0 (js_group_utilized_bps j),
                 js_group_active_flows := put i 0 (js_group_active_flows j),
                 js_last_activity := fb_now st\<rparr>) st)))))"
    by (auto simp: Let_def intro!: require_sim ttf_try_sim)
qed

text \<open>Cancelling the flows of a job whose step is open, whatever the loop and the marks.\<close>

lemma close_each_state:
  assumes "close_each r mark is (st, j, s) = ((st', j', s'), n)"
  shows "fb_jobs st' = fb_jobs st" and "fb_policy st' = fb_policy st" and "fb_now st' = fb_now st"
    and "fb_config st' = fb_config st"
proof -
  have "fb_jobs st' = fb_jobs st \<and> fb_policy st' = fb_policy st \<and> fb_now st' = fb_now st \<and>
      fb_config st' = fb_config st"
    using assms
  proof (induction "is" arbitrary: st j s n)
    case Nil
    then show ?case by simp
  next
    case (Cons i "is")
    show ?case
    proof (cases "map_of (ss_flows s) i")
      case None
      with Cons show ?thesis by simp
    next
      case (Some f)
      obtain st1 j1 s1 where cf: "close_flow st j s f False 0 r = (st1, j1, s1)" by (metis prod_cases3)
      then have st1: "fb_jobs st1 = fb_jobs st" "fb_policy st1 = fb_policy st" "fb_now st1 = fb_now st"
        "fb_config st1 = fb_config st"
        by (auto simp: close_flow_def Let_def count_closure_def)
      obtain w m where rest: "close_each r mark is
          (st1, j1\<lparr>js_decisions := adjust mark i (js_decisions j1)\<rparr>, s1) = (w, m)" by fastforce
      have "w = (st', j', s')" using Cons.prems Some cf rest by (simp add: Let_def)
      from Cons.IH [OF rest [unfolded this]] st1 show ?thesis by simp
    qed
  qed
  then show "fb_jobs st' = fb_jobs st" "fb_policy st' = fb_policy st" "fb_now st' = fb_now st"
    "fb_config st' = fb_config st" by simp_all
qed

lemma close_each_moves:
  assumes "js_step j = Some s" and "close_each r mark is (st, j, s) = ((st', j', s'), n)"
  shows "moves d 0 j (pack j' s')"
  using close_each_closing [OF _ assms(2), of j] closing_refl [of j] pack_same [OF assms(1)]
  by (simp add: moves_one move_closing)

lemma close_each_empties:
  assumes "flows_ok j s" and "close_each r mark is (st, j, s) = ((st', j', s'), n)"
    and "\<And>i f. map_of (ss_flows s) i = Some f \<Longrightarrow> P f \<Longrightarrow> i \<in> set is"
    and "map_of (ss_flows s') i = Some f"
  shows "\<not> P f"
proof
  assume "P f"
  have keys: "map_of (fold del is t) = map_of t |` (- set is)" for t :: "('k, 'v) table" and "is"
    by (induction "is" arbitrary: t) (auto simp: restrict_map_def fun_eq_iff)
  have "map_of (fold del is (ss_flows s)) i = Some f"
    using assms(4) close_each_step(1) [OF assms(1,2)] by simp
  then have "map_of (ss_flows s) i = Some f" "i \<notin> set is"
    by (auto simp: keys restrict_map_def split: if_splits)
  with assms(3) \<open>P f\<close> show False by blast
qed

lemma invalidate_moves:
  assumes "invalidate_for_generation_change st j res cause = (st', j', res')"
  shows "moves d 0 j j'" and "fb_jobs st' = fb_jobs st" and "fb_policy st' = fb_policy st"
    and "fb_now st' = fb_now st"
proof -
  have "moves d 0 j j' \<and> fb_jobs st' = fb_jobs st \<and> fb_policy st' = fb_policy st \<and> fb_now st' = fb_now st"
  proof (cases "js_step j")
    case None
    with assms show ?thesis by (simp add: invalidate_for_generation_change_def moves_refl)
  next
    case (Some s)
    let ?mark = "\<lambda>d. d\<lparr>td_invalidated := True, td_outcome := Revalidate, td_reason := cause\<rparr>"
    let ?is = "std_sort (<) (map fs_intent (filter (must_invalidate (fb_policy st) s) (map snd (ss_flows s))))"
    obtain st1 j1 s1 n where ce: "close_each cause ?mark ?is (st, j, s) = ((st1, j1, s1), n)"
      by (metis prod.collapse)
    with assms Some have "st' = st1" "j' = pack j1 s1"
      by (auto simp: invalidate_for_generation_change_def Let_def pack_def split: prod.splits)
    then show ?thesis using close_each_moves [OF Some ce, of d] close_each_state [OF ce] by simp
  qed
  then show "moves d 0 j j'" "fb_jobs st' = fb_jobs st" "fb_policy st' = fb_policy st"
    "fb_now st' = fb_now st" by simp_all
qed

lemma invalidate_strict_empties:
  assumes "invalidate_for_generation_change st j res cause = (st', j', res')"
    and "pd_strict_generation_invalidation (fb_policy st)" and "job_ok j"
  shows "open_flows j' = []"
proof (cases "js_step j")
  case None
  with assms(1) show ?thesis by (simp add: invalidate_for_generation_change_def)
next
  case (Some s)
  let ?mark = "\<lambda>d. d\<lparr>td_invalidated := True, td_outcome := Revalidate, td_reason := cause\<rparr>"
  let ?is = "std_sort (<) (map fs_intent (filter (must_invalidate (fb_policy st) s) (map snd (ss_flows s))))"
  note fo = job_okD(2) [OF assms(3) Some]
  obtain st1 j1 s1 n where ce: "close_each cause ?mark ?is (st, j, s) = ((st1, j1, s1), n)"
    by (metis prod.collapse)
  with assms(1) Some have j': "j' = pack j1 s1"
    by (auto simp: invalidate_for_generation_change_def Let_def pack_def split: prod.splits)
  have "i \<in> set ?is" if f: "map_of (ss_flows s) i = Some f" for i f
  proof -
    have "f \<in> snd ` set (ss_flows s)" using map_of_SomeD [OF f] by force
    then show ?thesis
      using flow_in_okD(1) [OF fo f] assms(2) by (force simp: must_invalidate_def)
  qed
  then have "map_of (ss_flows s1) i = None" for i
    using close_each_empties [OF fo ce, of "\<lambda>_. True" i] by (cases "map_of (ss_flows s1) i") auto
  then have "e \<notin> set (ss_flows s1)" for e by (cases e) (metis map_of_eq_None_iff fst_conv image_eqI)
  then have "ss_flows s1 = []" by (cases "ss_flows s1") auto
  then show ?thesis using j' by simp
qed

lemma table_empty:
  assumes "\<And>i. map_of t i = None"
  shows "t = []"
proof (cases t)
  case (Cons e es)
  then have "map_of t (fst e) = Some (snd e)" by (cases e) simp
  with assms show ?thesis by simp
qed simp

lemma cancel_all_flows_props:
  assumes fo: "flows_ok j s" and ca: "cancel_all_flows st j s r = (st', j', s')" and cl: "closing j0 (pack j s)"
  shows "closing j0 (pack j' s')" and "ss_flows s' = []" and "fb_jobs st' = fb_jobs st"
    and "fb_policy st' = fb_policy st" and "fb_now st' = fb_now st"
proof -
  let ?mark = "\<lambda>d. d\<lparr>td_outcome := Reject, td_reason := r, td_invalidated := True\<rparr>"
  obtain n where ce: "close_each r ?mark (std_sort (<) (keys (ss_flows s))) (st, j, s) = ((st', j', s'), n)"
    using ca unfolding cancel_all_flows_def by (metis fst_conv surj_pair)
  show "closing j0 (pack j' s')" by (rule close_each_closing [OF cl ce])
  show "fb_jobs st' = fb_jobs st" "fb_policy st' = fb_policy st" "fb_now st' = fb_now st"
    using close_each_state [OF ce] by simp_all
  have "map_of (ss_flows s') i = None" for i
    using close_each_empties [OF fo ce, of "\<lambda>_. True" i]
    by (cases "map_of (ss_flows s') i") (auto simp: set_keys has_keyI)
  then show "ss_flows s' = []" by (rule table_empty)
qed

lemma seal_step_pack [simp]: "seal_step st (pack j x) s c = seal_step st j s c"
  by (simp add: seal_step_def build_report_def pack_def push_history_def Let_def)

lemma seal_step_state:
  assumes "seal_step st j s c = (st', j', report)"
  shows "fb_jobs st' = fb_jobs st" and "fb_policy st' = fb_policy st" and "fb_now st' = fb_now st"
  using assms by (auto simp: seal_step_def Let_def)

lemma fence_open_step_props:
  assumes ok: "job_ok j" and s: "js_step j = Some s" and fo: "fence_open_step st j s r = (st', j', report)"
  shows "moves d 0 j j'" and "js_step j' = None" and "fb_jobs st' = fb_jobs st"
    and "fb_policy st' = fb_policy st" and "fb_now st' = fb_now st"
proof -
  let ?ev = "(make_fence st (ss_step s) 0 0)
            \<lparr>fe_reason := r, fe_observed_incarnation := ss_incarnation s,
             fe_current_incarnation := js_incarnation j, fe_observed_epoch := js_epoch j,
             fe_current_epoch := js_epoch j\<rparr>"
  obtain st1 j1 where rf: "record_fence st j ?ev = (st1, j1)" by fastforce
  note R = record_fence_core [OF rf]
  let ?s1 = "record_step_fence st s ?ev"
  obtain st2 j2 s2 where ca: "cancel_all_flows st1 j1 ?s1 r = (st2, j2, s2)" by (metis prod_cases3)
  have seal: "seal_step st2 j2 (close_phases PhaseFenced (fb_now st2) s2)
      (sa_cancelled (ss_accounting (close_phases PhaseFenced (fb_now st2) s2)) > 0) = (st', j', report)"
    using fo rf ca by (simp add: fence_open_step_def Let_def)
  have core: "job_core (pack j1 ?s1) = job_core j"
    using job_core_pack [OF R(1), of ?s1 s] pack_same [OF s] by simp
  then have cl: "closing j (pack j1 ?s1)" by (rule closing_quiet [OF closing_refl])
  have "flows_ok j1 ?s1"
    using job_okD(2) [OF ok s] step_core_cong(4) [of ?s1 s j1 j] job_core_eqs(15,16) [OF R(1)] by simp
  note C = cancel_all_flows_props [OF this ca cl]
  have mv: "moves d 0 j (pack j2 s2)" by (rule moves_one [OF move_closing [OF C(1)]])
  have "move d 0 (pack j2 s2) j'"
    by (rule move_seal [OF _ C(2), where st = st2]) (use seal in simp_all)
  with mv show "moves d 0 j j'" by (rule moves_then)
  show "js_step j' = None" using seal_step_props(1) [OF seal] .
  show "fb_jobs st' = fb_jobs st" "fb_policy st' = fb_policy st" "fb_now st' = fb_now st"
    using seal_step_state [OF seal] C(3-5) R(3-5) by simp_all
qed

lemma publish_topology_sim:
  assumes rd: "ready st" and d: "d \<Longrightarrow> pd_strict_generation_invalidation (fb_policy st)"
  shows "sim d st (snd (publish_topology st t e))"
  unfolding publish_topology_def
proof (rule gated_job_sim)
  fix j
  assume j: "map_of (fb_jobs st) (at_job t) = Some j"
  let ?e = "e\<lparr>te_job := js_id j, te_generation := js_next_topology_generation j\<rparr>"
  let ?j1 = "j\<lparr>js_next_topology_generation := js_next_topology_generation j + 1\<rparr>"
  obtain st2 j2 x where inv: "invalidate_for_generation_change st ?j1 no_result EC_StaleTopologyGeneration
      = (st2, j2, x)" by (metis prod_cases3)
  have core: "job_core ?j1 = job_core j" by (simp add: job_core_def)
  have ok1: "job_ok ?j1" using readyD(1) [OF rd j] by (rule job_ok_core [OF core])
  have "moves d 0 j ?j1" using core by (rule moves_quiet [OF moves_refl])
  then have mv: "moves d 0 j j2" using moves_trans [OF invalidate_moves(1) [OF inv]] by fastforce
  have "move d 0 j2 (j2\<lparr>js_topology := ?e\<rparr>)"
    by (rule move_topology) (rule invalidate_strict_empties [OF inv d ok1])
  then have "moves d 0 j (j2\<lparr>js_topology := ?e\<rparr>)" by (rule moves_then [OF mv])
  then have mv': "moves d 0 j (j2\<lparr>js_topology := ?e, js_last_activity := a\<rparr>)" for a
    by (rule moves_quiet) (simp add: job_core_def)
  have "sim d st (store_job (at_job t) (j2\<lparr>js_topology := ?e, js_last_activity := a\<rparr>) st3)"
    if "fb_jobs st3 = fb_jobs st" for a st3
    by (rule sim_put [OF j mv']) (simp_all add: that)
  then show "sim d st (snd (let evidence = e\<lparr>te_job := js_id j, te_generation := js_next_topology_generation j\<rparr>
      in ttf_try (topology_validate evidence) st (
         let job1 = j\<lparr>js_next_topology_generation := js_next_topology_generation j + 1\<rparr>;
             (st2, job2, _) = invalidate_for_generation_change st job1 no_result EC_StaleTopologyGeneration;
             st3 = st2\<lparr>fb_stats := (fb_stats st2)
                      \<lparr>st_topology_generation := max (st_topology_generation (fb_stats st2)) (te_generation evidence)\<rparr>\<rparr>
         in (Inr (te_generation evidence),
             store_job (at_job t) (job2\<lparr>js_topology := evidence, js_last_activity := fb_now st3\<rparr>) st3))))"
    unfolding Let_def inv using invalidate_moves(2) [OF inv]
    by (intro ttf_try_sim) simp
qed

lemma invalidate_jobs_props:
  assumes "invalidate_jobs cause es st res = (es', st', res')"
  shows "map fst es' = map fst es"
    and "map_of es k = Some j \<Longrightarrow> \<exists>j'. map_of es' k = Some j' \<and> moves d 0 j j'"
    and "fb_policy st' = fb_policy st"
proof -
  have "map fst es' = map fst es \<and> fb_policy st' = fb_policy st \<and>
      (\<forall>j. map_of es k = Some j \<longrightarrow> (\<exists>j'. map_of es' k = Some j' \<and> moves d 0 j j'))"
    using assms
  proof (induction es arbitrary: st res es' st' res')
    case Nil
    then show ?case by simp
  next
    case (Cons e es)
    obtain st1 j1 res1 where inv: "invalidate_for_generation_change st (snd e) res cause = (st1, j1, res1)"
      by (metis prod_cases3)
    obtain rest st2 res2 where rest: "invalidate_jobs cause es st1 res1 = (rest, st2, res2)" by (metis prod_cases3)
    have "es' = (fst e, j1) # rest" "st' = st2" using Cons.prems inv rest by simp_all
    with Cons.IH [OF rest] invalidate_moves(1) [OF inv, where d = d] invalidate_moves(3) [OF inv]
    show ?case by auto
  qed
  then show "map fst es' = map fst es" "fb_policy st' = fb_policy st"
    "map_of es k = Some j \<Longrightarrow> \<exists>j'. map_of es' k = Some j' \<and> moves d 0 j j'" by blast+
qed

lemma apply_policy_sim: "sim d st (snd (apply_policy st p))"
proof -
  have "sim d st (st2\<lparr>fb_jobs := jobs\<rparr>)"
    if inv: "invalidate_jobs EC_PolicyInvalidated (fb_jobs st) st1 x = (jobs, st2, res)" for st1 x jobs st2 res
  proof -
    note I = invalidate_jobs_props [OF inv]
    show ?thesis
      unfolding sim_def
    proof (intro conjI impI allI)
      show "wf_table (fb_jobs (st2\<lparr>fb_jobs := jobs\<rparr>))" if "wf_table (fb_jobs st)"
        using that I(1) by (simp add: wf_table_def keys_def)
      fix k
      have "map_of jobs k = None" if "map_of (fb_jobs st) k = None"
        using that I(1) unfolding map_of_eq_None_iff by (metis list.set_map)
      then show "case map_of (fb_jobs st) k of
          Some j \<Rightarrow> \<exists>m j'. m \<le> 1 \<and> map_of (fb_jobs (st2\<lparr>fb_jobs := jobs\<rparr>)) k = Some j' \<and> moves d m j j'
        | None \<Rightarrow> map_of (fb_jobs (st2\<lparr>fb_jobs := jobs\<rparr>)) k = None \<or>
            (\<exists>j'. map_of (fb_jobs (st2\<lparr>fb_jobs := jobs\<rparr>)) k = Some j' \<and> fresh_job k j')"
        using I(2) [of k] by (fastforce split: option.split)
    qed
  qed
  then show ?thesis
    unfolding apply_policy_def Let_def by (intro ttf_try_sim require_sim) (simp split: prod.split)
qed

text \<open>Closing the open step of a job, where it has one.\<close>

lemma fence_if_open:
  assumes "job_ok j"
    and "(case js_step j of None \<Rightarrow> (st, j)
          | Some s \<Rightarrow> (let (st1, j1, _) = fence_open_step st j s r in (st1, j1))) = (st', j')"
  shows "moves d 0 j j'" and "js_step j' = None" and "fb_jobs st' = fb_jobs st"
proof -
  have "moves d 0 j j' \<and> js_step j' = None \<and> fb_jobs st' = fb_jobs st"
  proof (cases "js_step j")
    case None
    then show ?thesis using assms(2) by (simp add: moves_refl)
  next
    case (Some s)
    obtain st1 j1 x where f: "fence_open_step st j s r = (st1, j1, x)" by (metis prod_cases3)
    then show ?thesis using assms(2) Some fence_open_step_props [OF assms(1) Some f] by simp
  qed
  then show "moves d 0 j j'" "js_step j' = None" "fb_jobs st' = fb_jobs st" by simp_all
qed

lemma retire_job_sim:
  assumes rd: "ready st"
  shows "sim d st (snd (retire_job st t))"
  unfolding retire_job_def
proof (rule gated_job_sim)
  fix j
  assume j: "map_of (fb_jobs st) (at_job t) = Some j"
  obtain st1 j1 where f: "(case js_step j of None \<Rightarrow> (st, j)
      | Some s \<Rightarrow> (let (st1, j1, _) = fence_open_step st j s EC_JobRetired in (st1, j1))) = (st1, j1)"
    by fastforce
  note F = fence_if_open [OF readyD(1) [OF rd j] f]
  have "moves d 0 j (j1\<lparr>js_retired := True\<rparr>)" by (rule moves_then [OF F(1) move_retire [OF F(2)]])
  then have "moves d 0 j (j1\<lparr>js_retired := True, js_last_activity := a\<rparr>)" for a
    by (rule moves_quiet) (simp add: job_core_def)
  then have "sim d st (store_job (at_job t) (j1\<lparr>js_retired := True, js_last_activity := a\<rparr>) st1)" for a
    by (rule sim_put [OF j]) (simp_all add: F(3))
  then show "sim d st (snd (let (st1, job1) =
        (case js_step j of None \<Rightarrow> (st, j)
         | Some step \<Rightarrow> (let (st1, job1, _) = fence_open_step st j step EC_JobRetired in (st1, job1)))
      in (Inr (), store_job (at_job t) (job1\<lparr>js_retired := True, js_last_activity := fb_now st1\<rparr>) st1)))"
    unfolding Let_def f [unfolded Let_def] by simp
qed

lemma retire_incarnation_sim:
  assumes rd: "ready st"
  shows "sim d st (snd (retire_incarnation st t))"
  unfolding retire_incarnation_def
proof (rule gated_job_sim)
  fix j
  assume j: "map_of (fb_jobs st) (at_job t) = Some j"
  obtain st1 j1 where f: "(case js_step j of None \<Rightarrow> (st, j)
      | Some s \<Rightarrow> (let (st1, j1, _) = fence_open_step st j s EC_IncarnationRetired in (st1, j1))) = (st1, j1)"
    by fastforce
  note F = fence_if_open [OF readyD(1) [OF rd j] f]
  have "moves d 0 j (j1\<lparr>js_retired_set := insert (js_incarnation j1) (js_retired_set j1)\<rparr>)"
    by (rule moves_then [OF F(1) move_retire_incarnation])
  then have "moves d 0 j ((retire_current st1 j1 c)\<lparr>js_last_activity := a\<rparr>)" for a c
    by (rule moves_quiet) (simp add: job_core_def retire_current_def)
  then have "sim d st (store_job (at_job t) ((retire_current st1 j1 c)\<lparr>js_last_activity := a\<rparr>) st1)" for a c
    by (rule sim_put [OF j]) (simp_all add: F(3))
  then show "sim d st (snd (let (st1, job1) =
        (case js_step j of None \<Rightarrow> (st, j)
         | Some step \<Rightarrow> (let (st1, job1, _) = fence_open_step st j step EC_IncarnationRetired in (st1, job1)))
      in (Inr (), store_job (at_job t)
            ((retire_current st1 job1 EC_IncarnationRetired)\<lparr>js_last_activity := fb_now st1\<rparr>) st1)))"
    unfolding Let_def f [unfolded Let_def] by simp
qed

lemma admit_replacement_sim:
  assumes rd: "ready st"
  shows "sim d st (snd (admit_replacement st req))"
proof (cases "map_of (fb_jobs st) (rr_job req)")
  case None
  then show ?thesis by (simp add: admit_replacement_def sim_same)
next
  case (Some j)
  obtain st1 j1 where f': "(case js_step j of None \<Rightarrow> (st, j)
      | Some s \<Rightarrow> (let (st1, j1, _) = fence_open_step st j s EC_IncarnationRetired in (st1, j1))) = (st1, j1)"
    by fastforce
  have "\<exists>x y. (case js_step j of None \<Rightarrow> (st, j, 0, 0)
      | Some step \<Rightarrow> (let (st1, job1, report) = fence_open_step st j step EC_IncarnationRetired
          in (st1, job1, sa_cancelled (rp_accounting report), ucast (rp_fences_observed report)))) =
      (st1, j1, x, y :: u32)"
  proof (cases "js_step j")
    case None
    then show ?thesis using f' by simp
  next
    case (Some s)
    obtain a b c where "fence_open_step st j s EC_IncarnationRetired = (a, b, c)" by (metis prod_cases3)
    then show ?thesis using Some f' by simp
  qed
  then obtain x y where f: "(case js_step j of None \<Rightarrow> (st, j, 0, 0)
      | Some step \<Rightarrow> (let (st1, job1, report) = fence_open_step st j step EC_IncarnationRetired
          in (st1, job1, sa_cancelled (rp_accounting report), ucast (rp_fences_observed report)))) =
      (st1, j1, x, y :: u32)" by blast
  note F = fence_if_open [OF readyD(1) [OF rd Some] f']
  let ?j2 = "j1\<lparr>js_retired_set := insert (js_incarnation j1) (js_retired_set j1)\<rparr>"
  let ?j3 = "?j2\<lparr>js_incarnation := js_next_incarnation ?j2,
      js_next_incarnation := js_next_incarnation ?j2 + 1, js_boot := rr_new_boot req\<rparr>"
  have "moves d 0 j ?j2" by (rule moves_then [OF F(1) move_retire_incarnation])
  then have "moves d 0 j ?j3" by (rule moves_then [OF _ move_replace]) (simp_all add: F(2))
  then have "moves d 0 j ((retire_current st1 j1 c)
      \<lparr>js_incarnation := js_next_incarnation j1, js_next_incarnation := js_next_incarnation j1 + 1,
       js_boot := rr_new_boot req, js_last_activity := a\<rparr>)" for a c
    by (rule moves_quiet) (simp add: job_core_def retire_current_def)
  then have "sim d st (store_job (rr_job req) ((retire_current st1 j1 c)
      \<lparr>js_incarnation := js_next_incarnation j1, js_next_incarnation := js_next_incarnation j1 + 1,
       js_boot := rr_new_boot req, js_last_activity := a\<rparr>) st1)" for a c
    by (rule sim_put [OF Some]) (simp_all add: F(3))
  then show ?thesis
    unfolding admit_replacement_def Some option.case Let_def f [unfolded Let_def] prod.case
    by (intro ttf_try_sim) simp
qed

section \<open>Steps and phases\<close>

lemma begin_step_sim: 
  assumes rd: "ready st"
  shows "sim d st (snd (begin_step st req))"
  unfolding begin_step_def
proof (intro require_sim gated_job_sim)
  fix j
  assume r: "resolve_job st (so_authority req) = Inr j"
    and j: "map_of (fb_jobs st) (at_job (so_authority req)) = Some j" and none: "js_step j = None"
  let ?s = "new_step (so_step req) (js_generation j) (js_incarnation j) (fb_now st)
      (so_deadline_at req) (so_slack_ticks req)"
  let ?j = "j\<lparr>js_step := Some ?s, js_highest_step := so_step req, js_last_activity := fb_now st\<rparr>"
  have "\<not> js_retired j" using job_failure_None(1) [OF resolve_job_Inr(2) [OF r]] .
  then have "moves d 0 j (pack (j\<lparr>js_highest_step := so_step req\<rparr>) ?s)" if "js_highest_step j < so_step req"
    using that by (intro moves_one move_begin_step [OF none])
  then have "moves d 0 j ?j" if less: "js_highest_step j < so_step req"
    by (rule moves_quiet) (simp_all add: job_core_def pack_def less)
  then have "sim d st (store_job (at_job (so_authority req)) ?j st)" if "js_highest_step j < so_step req"
    using that by (intro sim_put [OF j, where m = 0]) simp_all
  then show "sim d st (snd (if so_step req \<le> js_highest_step j
      then let fence = (make_fence st (so_step req) 0 0)\<lparr>fe_reason := EC_StaleStep\<rparr>
           in (Inl EC_StaleStep, store_fence (at_job (so_authority req)) st j None fence)
      else let step = ?s;
               job1 = j\<lparr>js_step := Some step, js_highest_step := so_step req, js_last_activity := fb_now st\<rparr>
           in (Inr (set_closed False (build_report job1 step 0 False)),
               store_job (at_job (so_authority req)) job1 st)))"
    using store_fence_sim [OF j, of None] by (auto simp: Let_def)
qed

lemma begin_phase_sim:
  assumes rd: "ready st"
  shows "sim d st (snd (begin_phase st req))"
  unfolding begin_phase_def
proof (intro ttf_try_sim gated_step_sim)
  fix j s
  assume j: "map_of (fb_jobs st) (at_job (po_authority req)) = Some j" and s: "js_step j = Some s"
  let ?i = "js_next_phase_id j"
  let ?p = "\<lparr>pr_id = ?i, pr_step = ss_step s, pr_spec = po_spec req,
      pr_opened_at = fb_now st, pr_closed_at = 0, pr_disposition = PhaseOpen\<rparr>"
  let ?s = "s\<lparr>ss_phases := emplace ?i ?p (ss_phases s), ss_phase_order := ss_phase_order s @ [?i],
      ss_phase_accounting := put ?i empty_phase_accounting (ss_phase_accounting s),
      ss_phase_active_flows := put ?i 0 (ss_phase_active_flows s)\<rparr>"
  let ?j = "j\<lparr>js_next_phase_id := ?i + 1, js_last_activity := fb_now st\<rparr>"
  have "moves d 1 j (pack (j\<lparr>js_next_phase_id := ?i + 1\<rparr>) ?s)"
    using readyD(4) [OF rd j] by (intro moves_one move_begin_phase [OF s]) simp_all
  then have "moves d 1 j (pack ?j ?s)" by (rule moves_quiet) (simp add: job_core_def)
  then have "sim d st (store_step (at_job (po_authority req)) (st, ?j, ?s))"
    by (rule sim_put [OF j]) simp_all
  then show "sim d st (snd (require (has_key (js_groups j) (ps_group (po_spec req))) EC_UnknownGroup st (
         require (\<not> length (ss_phases s) \<ge> unat (wc_max_phases_per_step (js_contract j)))
           EC_ContractLimitExceeded st (
         let i = js_next_phase_id j;
             record0 = \<lparr>pr_id = i, pr_step = ss_step s, pr_spec = po_spec req,
                       pr_opened_at = fb_now st, pr_closed_at = 0, pr_disposition = PhaseOpen\<rparr>;
             step1 = s\<lparr>ss_phases := emplace i record0 (ss_phases s),
                          ss_phase_order := ss_phase_order s @ [i],
                          ss_phase_accounting := put i empty_phase_accounting (ss_phase_accounting s),
                          ss_phase_active_flows := put i 0 (ss_phase_active_flows s)\<rparr>;
             job1 = j\<lparr>js_next_phase_id := js_next_phase_id j + 1, js_last_activity := fb_now st\<rparr>
         in (Inr record0, store_step (at_job (po_authority req)) (st, job1, step1))))))"
    unfolding Let_def by (intro require_sim) simp
qed

lemma cancel_phase_props:
  assumes ok: "job_ok j" and s: "js_step j = Some s"
    and ca: "cancel_flows_in_phase st j s i r = (st', j', s')"
  shows "moves d 0 j (pack j' s')" and "ss_phases s' = ss_phases s" and "fb_jobs st' = fb_jobs st"
    and "map_of (ss_flows s') k = Some f \<Longrightarrow> fs_phase f \<noteq> i"
proof -
  let ?is = "std_sort (<) (keys (filter (\<lambda>e. fs_phase (snd e) = i) (ss_flows s)))"
  note fo = job_okD(2) [OF ok s]
  obtain n where ce: "close_each r (\<lambda>d. d) ?is (st, j, s) = ((st', j', s'), n)"
    using ca unfolding cancel_flows_in_phase_def by (metis fst_conv surj_pair)
  show "moves d 0 j (pack j' s')" by (rule close_each_moves [OF s ce])
  show "ss_phases s' = ss_phases s" by (rule close_each_step(3) [OF fo ce])
  show "fb_jobs st' = fb_jobs st" by (rule close_each_state(1) [OF ce])
  have "k \<in> set ?is" if "map_of (ss_flows s) k = Some f" "fs_phase f = i" for k f
    using map_of_SomeD [OF that(1)] that(2) by (force simp: keys_def)
  then show "fs_phase f \<noteq> i" if "map_of (ss_flows s') k = Some f"
    using close_each_empties [OF fo ce, of "\<lambda>f. fs_phase f = i", OF _ that] by blast
qed

lemma end_phase_sim:
  assumes rd: "ready st"
  shows "sim d st (snd (end_phase st t i x))"
  unfolding end_phase_def
proof (intro require_sim gated_step_sim)
  fix j s
  assume j: "map_of (fb_jobs st) (at_job t) = Some j" and s: "js_step j = Some s"
  show "sim d st (snd (case map_of (ss_phases s) i of
            None \<Rightarrow> (Inl EC_StalePhase, st)
          | Some p \<Rightarrow>
              require (phase_active p) EC_PhaseAlreadyClosed st (
              let (st1, job1, step1) = cancel_flows_in_phase st j s i EC_Cancelled;
                  p1 = p\<lparr>pr_disposition := x, pr_closed_at := fb_now st1\<rparr>
              in (Inr p1,
                  store_step (at_job t)
                    (st1, job1\<lparr>js_last_activity := fb_now st1\<rparr>,
                     step1\<lparr>ss_phases := put i p1 (ss_phases step1)\<rparr>)))))"
  proof (cases "map_of (ss_phases s) i")
    case None
    then show ?thesis by (simp add: sim_same)
  next
    case (Some p)
    obtain st1 j1 s1 where ca: "cancel_flows_in_phase st j s i EC_Cancelled = (st1, j1, s1)" by (metis prod_cases3)
    note C = cancel_phase_props [OF readyD(1) [OF rd j] s ca]
    let ?p = "p\<lparr>pr_disposition := x, pr_closed_at := fb_now st1\<rparr>"
    let ?s = "s1\<lparr>ss_phases := put i ?p (ss_phases s1)\<rparr>"
    have "move d 0 (pack j1 s1) (pack (pack j1 s1) ?s)"
      using Some C(2) by (intro move_end_phase [OF pack_simps(1)]) (auto dest: C(4))
    then have "moves d 0 j (pack j1 ?s)" using moves_then [OF C(1)] by simp
    then have "moves d 0 j (pack (j1\<lparr>js_last_activity := a\<rparr>) ?s)" for a
      by (rule moves_quiet) (simp add: job_core_def)
    then have "sim d st (store_step (at_job t) (st1, j1\<lparr>js_last_activity := a\<rparr>, ?s))" for a
      by (rule sim_put [OF j]) (simp_all add: C(3))
    then show ?thesis
      unfolding Some option.case ca Let_def prod.case by (intro require_sim) simp
  qed
qed

lemma end_step_sim:
  assumes rd: "ready st"
  shows "sim d st (snd (end_step st t x))"
  unfolding end_step_def
proof (rule gated_step_sim)
  fix j s
  assume j: "map_of (fb_jobs st) (at_job t) = Some j" and s: "js_step j = Some s"
  note ok = readyD(1) [OF rd j]
  obtain st1 j1 s1 where ca: "(if ss_flows s \<noteq> [] then cancel_all_flows st j s EC_Cancelled else (st, j, s))
      = (st1, j1, s1)" by (metis prod_cases3)
  have C: "closing j (pack j1 s1) \<and> ss_flows s1 = [] \<and> fb_jobs st1 = fb_jobs st"
  proof (cases "ss_flows s = []")
    case True
    then show ?thesis using ca pack_same [OF s] by (auto simp: closing_refl)
  next
    case False
    then have "cancel_all_flows st j s EC_Cancelled = (st1, j1, s1)" using ca by simp
    from cancel_all_flows_props [OF job_okD(2) [OF ok s] this, of j] show ?thesis
      using closing_refl [of j] pack_same [OF s] by simp
  qed
  let ?s = "close_phases (if x = StepCancelled then PhaseCancelled else PhaseCompleted) (fb_now st1) s1"
  let ?c = "x \<noteq> StepCompleted \<or> ss_flows s \<noteq> []"
  obtain st3 j3 r where seal: "seal_step st1 j1 ?s ?c = (st3, j3, r)" by (metis prod_cases3)
  have "move d 0 (pack j1 s1) j3"
    by (rule move_seal [OF pack_simps(1), where st = st1]) (use C seal in simp_all)
  then have "moves d 0 j j3" using C by (intro moves_then [OF moves_one [OF move_closing]]) simp_all
  then have "moves d 0 j (j3\<lparr>js_last_activity := a\<rparr>)" for a
    by (rule moves_quiet) simp
  then have "sim d st (store_job (at_job t) (j3\<lparr>js_last_activity := a\<rparr>) st3)" for a
    by (rule sim_put [OF j]) (use C seal_step_state(1) [OF seal] in simp_all)
  then show "sim d st (snd (let cancelled = ?c;
              (st1, job1, step1) = (if ss_flows s \<noteq> [] then cancel_all_flows st j s EC_Cancelled else (st, j, s));
              step2 = close_phases (if x = StepCancelled then PhaseCancelled else PhaseCompleted)
                        (fb_now st1) step1;
              (st3, job3, report) = seal_step st1 job1 step2 cancelled
          in (Inr report, store_job (at_job t) (job3\<lparr>js_last_activity := fb_now st3\<rparr>) st3)))"
    unfolding Let_def ca prod.case seal by simp
qed

section \<open>Traffic\<close>

lemma record_decision_props:
  assumes "record_decision st j dn = (st', j')"
  shows "job_core j' = job_core j" and "js_step j' = js_step j" and "fb_jobs st' = fb_jobs st"
    and "fb_policy st' = fb_policy st" and "fb_now st' = fb_now st"
  using assms by (auto simp: record_decision_def Let_def job_core_def split: prod.splits)

lemma reject_decision_jobs:
  "reject_decision st j i p e b = (dn, st') \<Longrightarrow> fb_jobs st' = fb_jobs st \<and> fb_policy st' = fb_policy st \<and>
     fb_now st' = fb_now st"
  by (auto simp: reject_decision_def)

lemma answer_decision_jobs:
  "answer_decision st j i p a = (dn, st') \<Longrightarrow> fb_jobs st' = fb_jobs st"
  by (cases a) (auto simp: answer_decision_def make_deferral_def reject_decision_def Let_def)

lemma refuse_traffic_sim:
  assumes rd: "ready st" and ok: "refusal_ok st (ti_authority i) r"
  shows "sim d st (snd (refuse_traffic st i r))"
proof (cases "rf_job r")
  case None
  then show ?thesis by (simp add: refuse_traffic_def sim_same)
next
  case (Some j)
  then have j: "map_of (fb_jobs st) (at_job (ti_authority i)) = Some j"
    and step: "\<And>s. rf_step r = Some s \<Longrightarrow> js_step j = Some s"
    using ok by (auto simp: refusal_ok_def)
  obtain st1 j1 where rf: "record_fence st j (rf_fence r) = (st1, j1)" by fastforce
  note R = record_fence_core [OF rf]
  define j2 where "j2 = (case rf_step r of None \<Rightarrow> j1
      | Some s \<Rightarrow> j1\<lparr>js_step := Some (record_step_fence st s (rf_fence r))\<rparr>)"
  have core2: "job_core j2 = job_core j"
  proof (cases "rf_step r")
    case None
    then show ?thesis using R(1) by (simp add: j2_def)
  next
    case (Some s)
    have "job_core (pack j1 (record_step_fence st s (rf_fence r))) = job_core (pack j s)"
      by (rule job_core_pack [OF R(1)]) simp
    then show ?thesis using Some pack_same [OF step [OF Some]] by (simp add: j2_def pack_def)
  qed
  let ?st2 = "bump st_fenced_operations_update st1"
  obtain d0 st3 where rj: "reject_decision ?st2 j2 i None (rf_failure r) (rf_detail r) = (d0, st3)" by fastforce
  let ?dn = "(fenced_clause st3 (rf_failure r) d0)\<lparr>td_intent := js_next_intent_id j2\<rparr>"
  let ?j3 = "j2\<lparr>js_next_intent_id := js_next_intent_id j2 + 1\<rparr>"
  obtain st4 j4 where rd4: "record_decision st3 ?j3 ?dn = (st4, j4)" by fastforce
  have next_id: "js_next_intent_id j2 = js_next_intent_id j" using job_core_eqs(15) [OF core2] .
  have "moves d 0 j j2" using core2 by (rule moves_quiet [OF moves_refl])
  moreover have "move d 1 j2 ?j3" using readyD(3) [OF rd j] next_id by (intro move_mint) simp
  ultimately have "moves d (0 + 1) j ?j3" by (rule moves_step)
  then have "moves d 1 j j4" using moves_quiet [OF _ record_decision_props(1) [OF rd4]] by simp
  then have "sim d st (store_job (at_job (ti_authority i)) j4 st4)"
    using record_decision_props(3) [OF rd4] reject_decision_jobs [OF rj] R(3)
    by (intro sim_put [OF j, where m = 1]) simp_all
  then show ?thesis
    using Some by (simp add: refuse_traffic_def Let_def rf rj rd4 j2_def [symmetric])
qed

text \<open>What a plan says about the request, the contract and the policy.\<close>

lemma screen_rates_Proceed:
  assumes "screen_rates st j s i unknown cls spec isol prio = Proceed plan"
  shows "tp_min_grant plan = max (ti_min_bps i) (scs_floor_bps spec)"
    and "tp_min_grant plan \<le> tp_effective_max plan" and "tp_effective_max plan \<le> ti_max_bps i"
    and "rate_ceiling (fb_policy st) spec unknown \<noteq> 0 \<Longrightarrow>
         tp_effective_max plan \<le> rate_ceiling (fb_policy st) spec unknown"
    and "tp_cls plan = cls" and "tp_spec plan = spec" and "tp_isolation plan = isol"
    and "tp_priority plan = prio"
    and "ti_bytes_estimate i \<le> wc_max_bytes_per_intent (js_contract j)"
    and "unat (sa_bytes_committed (ss_accounting s)) + unat (ti_bytes_estimate i)
         \<le> unat (wc_max_bytes_per_step (js_contract j))"
    and "length (ss_flows s) < unat (wc_max_active_flows_per_step (js_contract j))"
proof -
  let ?c = "rate_ceiling (fb_policy st) spec unknown"
  let ?max = "if ?c \<noteq> 0 then min (ti_max_bps i) ?c else ti_max_bps i"
  have P: "\<not> max (ti_min_bps i) (scs_floor_bps spec) > ?max"
    "\<not> ti_bytes_estimate i > wc_max_bytes_per_intent (js_contract j)"
    "\<not> (case checked_add (sa_bytes_committed (ss_accounting s)) (ti_bytes_estimate i) of
        None \<Rightarrow> True | Some projected \<Rightarrow> projected > wc_max_bytes_per_step (js_contract j))"
    "\<not> length (ss_flows s) \<ge> unat (min (wc_max_active_flows_per_step (js_contract j))
        (pd_max_active_flows_per_step (fb_policy st)))"
    and plan: "plan = \<lparr>tp_cls = cls, tp_spec = spec, tp_isolation = isol, tp_priority = prio,
      tp_min_grant = max (ti_min_bps i) (scs_floor_bps spec), tp_effective_max = ?max\<rparr>"
    using assms unfolding screen_rates_def Let_def by (simp_all split: if_splits)
  show "tp_min_grant plan = max (ti_min_bps i) (scs_floor_bps spec)" "tp_cls plan = cls"
    "tp_spec plan = spec" "tp_isolation plan = isol" "tp_priority plan = prio"
    by (simp_all add: plan)
  show "tp_min_grant plan \<le> tp_effective_max plan" using P(1) by (simp add: plan not_less)
  show "tp_effective_max plan \<le> ti_max_bps i" by (simp add: plan)
  show "?c \<noteq> 0 \<Longrightarrow> tp_effective_max plan \<le> ?c" by (simp add: plan)
  show "ti_bytes_estimate i \<le> wc_max_bytes_per_intent (js_contract j)" using P(2) by (simp add: not_less)
  obtain p where p: "checked_add (sa_bytes_committed (ss_accounting s)) (ti_bytes_estimate i) = Some p"
    "p \<le> wc_max_bytes_per_step (js_contract j)"
    using P(3) by (auto simp: not_less split: option.splits)
  show "unat (sa_bytes_committed (ss_accounting s)) + unat (ti_bytes_estimate i)
      \<le> unat (wc_max_bytes_per_step (js_contract j))"
    using p(2) checked_add_exact [OF p(1)] by (simp add: word_le_nat_alt)
  show "length (ss_flows s) < unat (wc_max_active_flows_per_step (js_contract j))"
    using P(4) by (simp add: unat_min not_le)
qed

lemma screen_request_Proceed:
  assumes "screen_request st j s i phase = Proceed plan"
  obtains spec where "policy_find (fb_policy st) (class_for_phase (fb_policy st) (ps_cls (pr_spec phase))) = Some spec"
    and "screen_rates st j s i (ps_cls (pr_spec phase) = PC_Unknown)
        (class_for_phase (fb_policy st) (ps_cls (pr_spec phase))) spec (step_has_isolation s (ti_group i))
        (effective_priority_for (fb_policy st) (class_for_phase (fb_policy st) (ps_cls (pr_spec phase)))
          (step_has_isolation s (ti_group i))) = Proceed plan"
    and "step_has_isolation s (ti_group i) \<Longrightarrow>
        class_for_phase (fb_policy st) (ps_cls (pr_spec phase)) = SC_Checkpoint \<or> scs_barrier_critical spec"
    and "ss_intents_seen s \<le> ucast (wc_max_intents_per_step (js_contract j))"
    and "ps_cls (pr_spec phase) = PC_Unknown \<Longrightarrow> wc_allow_unknown_phase (js_contract j)"
    and "ti_declared_phase_class i = PC_Unknown \<or> ti_declared_phase_class i = ps_cls (pr_spec phase)"
  using assms
  by (auto simp: screen_request_def Let_def not_less split: if_splits option.splits)

lemma arbitrate_capacity_pack [simp]:
  "arbitrate_capacity st (pack j x) s g prio lo hi = arbitrate_capacity st j s g prio lo hi"
  unfolding arbitrate_capacity_def utilization_frame pack_simps ..

lemma arbitrate_capacity_state:
  assumes "arbitrate_capacity st j s g prio lo hi = (cap, st1)"
  shows "fb_jobs st1 = fb_jobs st" and "fb_policy st1 = fb_policy st" and "fb_now st1 = fb_now st"
    and "cr_reason cap = EC_Ok \<Longrightarrow> cr_granted_min_bps cap = lo"
  using assms
  by (auto simp: arbitrate_capacity_def Let_def split: option.splits if_splits prod.splits)

lemma close_each_pack:
  assumes "close_each r mark is (st, j, s) = ((st', j', s'), n)"
  shows "close_each r mark is (st, pack j x, s) = ((st', pack j' x, s'), n)"
  using assms
proof (induction "is" arbitrary: st j s n)
  case Nil
  then show ?case by simp
next
  case (Cons i "is")
  show ?case
  proof (cases "map_of (ss_flows s) i")
    case None
    with Cons show ?thesis by simp
  next
    case (Some f)
    obtain st1 j1 s1 where cf: "close_flow st j s f False 0 r = (st1, j1, s1)" by (metis prod_cases3)
    then have cf': "close_flow st (pack j x) s f False 0 r = (st1, pack j1 x, s1)"
      by (auto simp: close_flow_def Let_def record_receipt_def pack_def release_utilization_def
          split: prod.splits)
    let ?j = "j1\<lparr>js_decisions := adjust mark i (js_decisions j1)\<rparr>"
    obtain w m where rest: "close_each r mark is (st1, ?j, s1) = (w, m)" by fastforce
    have w: "w = (st', j', s')" "n = Suc m" using Cons.prems Some cf rest by (simp_all add: Let_def)
    have "pack ?j x = (pack j1 x)\<lparr>js_decisions := adjust mark i (js_decisions (pack j1 x))\<rparr>"
      by (simp add: pack_def)
    then show ?thesis using Cons.IH [OF rest [unfolded w(1)]] Some cf' w(2) by (simp add: Let_def)
  qed
qed

lemma pr_id_of_phase:
  assumes "flows_ok j s" and "map_of (ss_phases s) i = Some p"
  shows "pr_id p = i"
  using assms by (simp add: flows_ok_def)

lemma admit_flow_moves:
  assumes ok: "job_ok (pack j s)" and phase: "map_of (ss_phases s) (pr_id phase) = Some phase" "phase_active phase"
    and valid: "intent_validate i = Inr ()" and plan: "screen_request st j s i phase = Proceed plan"
    and arb: "arbitrate_capacity st j s (ti_group i) prio (tp_min_grant plan) hi = (cap, st1)"
      "cr_reason cap = EC_Ok"
    and adm: "admit_flow (st1, j, s) i phase plan cap k = ((st', j', s'), dn)"
    and k: "k < js_next_intent_id j" "\<not> has_key (ss_flows s) k"
    and d: "d \<Longrightarrow> has_key (js_groups j) (ti_group i)"
  shows "move d 0 (pack j s) (pack j' s')" and "fb_jobs st' = fb_jobs st"
proof -
  let ?mark = "\<lambda>d. add_code st1 EX_PreemptionVictim
      (d\<lparr>td_invalidated := True, td_outcome := Defer, td_reason := EC_NoCapacity\<rparr>)"
  obtain st2 j2 s2 n where ce: "close_each EC_NoCapacity ?mark (cr_preempted cap) (st1, j, s) = ((st2, j2, s2), n)"
    by (metis prod.collapse)
  let ?st3 = "st2\<lparr>fb_stats := (fb_stats st2)\<lparr>st_preemptions := st_preemptions (fb_stats st2) + of_nat n\<rparr>\<rparr>"
  let ?f = "granted_flow ?st3 s2 i phase plan cap k"
  have pre: "preempt_flows (cr_preempted cap) (st1, j, s) = ((?st3, j2, s2), n)"
    by (simp add: preempt_flows_def ce)
  have eqs: "j' = acquire_utilization j2 ?f" "s' = snd (open_flow j2 s2 ?f)"
    "st' = bump st_decisions_admitted_update ?st3"
    using adm by (auto simp: admit_flow_def pre Let_def open_flow_def)
  show "fb_jobs st' = fb_jobs st"
    using eqs(3) close_each_state(1) [OF ce] arbitrate_capacity_state(1) [OF arb(1)] by simp
  have fo: "flows_ok (pack j s) s" using job_okD(2) [OF ok] by simp
  note E = close_each_step [OF fo close_each_pack [OF ce, of s]]
  from plan obtain spec where sr: "screen_rates st j s i (ps_cls (pr_spec phase) = PC_Unknown)
        (class_for_phase (fb_policy st) (ps_cls (pr_spec phase))) spec (step_has_isolation s (ti_group i))
        (effective_priority_for (fb_policy st) (class_for_phase (fb_policy st) (ps_cls (pr_spec phase)))
          (step_has_isolation s (ti_group i))) = Proceed plan" by (rule screen_request_Proceed)
  note R = screen_rates_Proceed [OF sr]
  have "tp_min_grant plan \<le> kMaxRateBps"
    using R(2,3) intent_validate_rates(2) [OF valid] by (blast intro: order_trans)
  then have rate: "unat (cr_granted_min_bps cap) \<le> max_rate"
    using arbitrate_capacity_state(4) [OF arb]
    by (simp add: kMaxRateBps_def max_rate_def word_le_nat_alt)
  have fits: "flow_fits s (fs_intent ?f) ?f"
    using phase rate E(4,5) by (simp add: flow_fits_def granted_flow_def)
  have room: "has_room (js_contract (pack j s)) s ?f"
    using R(10,11) by (simp add: has_room_def granted_flow_def)
  have pk: "pack (acquire_utilization (pack j2 s) f) x = pack (acquire_utilization j2 f) x"
    "snd (open_flow (pack j2 s) s2 f) = snd (open_flow j2 s2 f)" for f x
    by (simp_all add: pack_def acquire_utilization_def open_flow_def)
  have "move d 0 (pack j s) (pack (acquire_utilization (pack j2 s) ?f) (snd (open_flow (pack j2 s) s2 ?f)))"
  proof (rule move_admit [OF pack_simps(1)])
    show "arbitrate_capacity st (pack j s) s (fs_group ?f) prio (tp_min_grant plan) hi = (cap, st1)"
      using arb(1) by (simp add: granted_flow_def)
    show "cr_reason cap = EC_Ok" by (rule arb(2))
    show "close_each EC_NoCapacity ?mark (cr_preempted cap) (st1, pack j s, s) = ((st2, pack j2 s, s2), n)"
      by (rule close_each_pack [OF ce])
    show "fs_granted_min_bps ?f = cr_granted_min_bps cap" by (simp add: granted_flow_def)
    show "flow_fits s (fs_intent ?f) ?f" by (rule fits)
    show "\<not> has_key (ss_flows s) (fs_intent ?f)" "fs_intent ?f < js_next_intent_id (pack j s)"
      using k by (simp_all add: granted_flow_def)
    show "has_room (js_contract (pack j s)) s ?f" by (rule room)
    show "has_key (js_groups (pack j s)) (fs_group ?f)" if d using d [OF that] by (simp add: granted_flow_def)
  qed
  then show "move d 0 (pack j s) (pack j' s')" by (simp add: pk eqs)
qed

lemma decide_traffic_moves:
  assumes ok: "job_ok (pack j s)" and phase: "map_of (ss_phases s) (pr_id phase) = Some phase" "phase_active phase"
    and valid: "intent_validate i = Inr ()"
    and dec: "decide_traffic (st, j, s) i phase k = Inr ((st', j', s'), dn)"
    and k: "k < js_next_intent_id j" "\<not> has_key (ss_flows s) k"
    and d: "d \<Longrightarrow> has_key (js_groups j) (ti_group i)"
  shows "move d 0 (pack j s) (pack j' s')" and "fb_jobs st' = fb_jobs st"
proof -
  have "move d 0 (pack j s) (pack j' s') \<and> fb_jobs st' = fb_jobs st"
  proof (cases "screen_request st j s i phase")
    case (Fail e)
    then show ?thesis using dec by (simp add: decide_traffic_def)
  next
    case (Answer a)
    obtain dn0 st1 where "answer_decision st j i phase a = (dn0, st1)" by fastforce
    with Answer dec answer_decision_jobs [OF this] show ?thesis
      by (auto simp: decide_traffic_def intro: move_quiet)
  next
    case (Proceed plan)
    obtain cap st1 where arb: "arbitrate_capacity st j s (ti_group i) (arbitration_priority phase plan)
        (tp_min_grant plan) (tp_effective_max plan) = (cap, st1)" by fastforce
    show ?thesis
    proof (cases "cr_reason cap = EC_Ok")
      case True
      then have "admit_flow (st1, j, s) i phase plan cap k = ((st', j', s'), dn)"
        using dec Proceed arb by (simp add: decide_traffic_def)
      from admit_flow_moves [OF ok phase valid Proceed arb True this k d] show ?thesis by simp
    next
      case False
      obtain dn0 st2 where ad: "answer_decision st1 j i phase
          (capacity_refusal st1 j i plan (cr_reason cap)) = (dn0, st2)" by fastforce
      then have "st' = st2" "j' = j" "s' = s" using dec Proceed arb False by (auto simp: decide_traffic_def)
      with answer_decision_jobs [OF ad] arbitrate_capacity_state(1) [OF arb] show ?thesis
        by (auto intro: move_quiet)
    qed
  qed
  then show "move d 0 (pack j s) (pack j' s')" "fb_jobs st' = fb_jobs st" by simp_all
qed

lemma step_core_count:
  "step_core (update_phase_accounting p (count_phase_outcome x)
     (s\<lparr>ss_accounting := count_outcome y (ss_accounting s)\<rparr>)) = step_core s"
proof -
  have "ph_bytes_committed (count_phase_outcome x a) = ph_bytes_committed a"
    "ph_bytes_completed (count_phase_outcome x a) = ph_bytes_completed a" for a
    by (simp_all add: count_phase_outcome_def split: decision_outcome.split)
  moreover have "sa_active_flows (count_outcome y a) = sa_active_flows a"
    "sa_active_min_bps (count_outcome y a) = sa_active_min_bps a"
    "sa_bytes_committed (count_outcome y a) = sa_bytes_committed a"
    "sa_bytes_completed (count_outcome y a) = sa_bytes_completed a"
    "sa_bytes_cancelled (count_outcome y a) = sa_bytes_cancelled a" for a
    by (simp_all add: count_outcome_def split: decision_outcome.split)
  ultimately show ?thesis
    by (simp add: step_core_def update_phase_accounting_def phase_accounting_of_def fun_eq_iff)
qed

lemma step_core_seen:
  "step_core (update_phase_accounting p (\<lambda>a. a) (s\<lparr>ss_intents_seen := n\<rparr>)) = step_core s"
  by (auto simp: step_core_def update_phase_accounting_def phase_accounting_of_def fun_eq_iff)

lemma finish_request_sim:
  assumes j: "map_of (fb_jobs st) kj = Some j" and mv: "moves d m j (pack j1 s1)" "m \<le> 1"
    and jobs: "fb_jobs st1 = fb_jobs st"
  shows "sim d st (snd (finish_request kj k p (st1, j1, s1) dn))"
proof -
  let ?dn = "dn\<lparr>td_intent := k\<rparr>"
  obtain st2 j2 where r: "record_decision st1 j1 ?dn = (st2, j2)" by fastforce
  note R = record_decision_props [OF r]
  let ?s = "update_phase_accounting p (count_phase_outcome (td_outcome dn))
      (s1\<lparr>ss_accounting := count_outcome (td_outcome dn) (ss_accounting s1)\<rparr>)"
  have "job_core (pack (j2\<lparr>js_last_activity := a\<rparr>) ?s) = job_core (pack j1 s1)" for a
    using R(1) by (intro job_core_pack step_core_count) simp
  then have "moves d m j (pack (j2\<lparr>js_last_activity := a\<rparr>) ?s)" for a
    by (rule moves_quiet [OF mv(1)])
  then have "sim d st (store_step kj (st2, j2\<lparr>js_last_activity := a\<rparr>, ?s))" for a
    using mv(2) R(3) jobs by (intro sim_put [OF j, where m = m]) simp_all
  then show ?thesis by (simp add: finish_request_def Let_def r)
qed

lemma request_traffic_sim:
  assumes rd: "ready st"
    and d: "\<And>j. d \<Longrightarrow> map_of (fb_jobs st) (at_job (ti_authority i)) = Some j \<Longrightarrow> has_key (js_groups j) (ti_group i)"
  shows "sim d st (snd (request_traffic st i))"
  unfolding request_traffic_def
proof (rule ttf_try_sim)
  assume valid: "intent_validate i = Inr ()"
  show "sim d st (snd (case resolve_phase st (ti_authority i) of
       Inl r \<Rightarrow> refuse_traffic st i r
     | Inr (job, step, phase) \<Rightarrow>
         let k = at_job (ti_authority i);
             intent_id = js_next_intent_id job;
             job1 = job\<lparr>js_next_intent_id := js_next_intent_id job + 1\<rparr>;
             step1 = update_phase_accounting (pr_id phase) (\<lambda>p. p)
                       (step\<lparr>ss_intents_seen := ss_intents_seen step + 1\<rparr>)
         in (case decide_traffic (st, job1, step1) i phase intent_id of
               Inl e \<Rightarrow> (Inl e, store_step k (st, job1, step1))
             | Inr (w, d) \<Rightarrow> finish_request k intent_id (pr_id phase) w d)))"
  proof (cases "resolve_phase st (ti_authority i)")
    case (Inl r)
    then show ?thesis using refuse_traffic_sim [OF rd resolve_phase_Inl [OF Inl]] by simp
  next
    case (Inr w)
    obtain j s phase where w: "w = (j, s, phase)" by (metis prod_cases3)
    note P = resolve_phase_Inr [OF Inr [unfolded w]] and S = resolve_step_Inr [OF P(1)]
    note j = S(1) and s = S(3)
    note J = job_okD [OF readyD(1) [OF rd j] s]
    let ?k = "js_next_intent_id j"
    let ?j = "j\<lparr>js_next_intent_id := ?k + 1\<rparr>"
    let ?s = "update_phase_accounting (pr_id phase) (\<lambda>p. p) (s\<lparr>ss_intents_seen := ss_intents_seen s + 1\<rparr>)"
    have "job_core (pack ?j ?s) = job_core ?j"
      using job_core_pack [OF refl [of "job_core ?j"] step_core_seen [of "pr_id phase" "ss_intents_seen s + 1" s]]
        pack_same [of ?j s] s by simp
    then have mv: "moves d 1 j (pack ?j ?s)"
      using readyD(3) [OF rd j] by (intro moves_quiet [OF moves_one [OF move_mint]]) simp_all
    have "?k < ?k + 1" using readyD(3) [OF rd j] by (simp add: word_less_nat_alt unat_Suc64)
    moreover have "\<not> has_key (ss_flows ?s) ?k"
      using flow_in_okD(3) [OF J(2)] unfolding has_key_def update_phase_accounting_def
      by (cases "map_of (ss_flows s) ?k") auto
    moreover have "map_of (ss_phases ?s) (pr_id phase) = Some phase"
      using P(2) pr_id_of_phase [OF J(2) P(2)] by (simp add: update_phase_accounting_def)
    ultimately have dm: "move d 0 (pack ?j ?s) (pack j' s')" "fb_jobs st' = fb_jobs st"
      if "decide_traffic (st, ?j, ?s) i phase ?k = Inr ((st', j', s'), dn)" for st' j' s' dn
      using decide_traffic_moves [OF moves_job_ok [OF mv readyD(1) [OF rd j]] _ P(3) valid that, of d] d [OF _ j]
      by simp_all
    show ?thesis
    proof (cases "decide_traffic (st, ?j, ?s) i phase ?k")
      case (Inl e)
      then show ?thesis
        using sim_put [OF j mv] by (simp add: \<open>resolve_phase st (ti_authority i) = Inr w\<close> w Let_def)
    next
      case dec: (Inr v)
      obtain st' j' s' dn where v: "v = ((st', j', s'), dn)" by (metis prod_cases4 surj_pair)
      note D = dm [OF dec [unfolded v]]
      have "sim d st (snd (finish_request (at_job (ti_authority i)) ?k (pr_id phase) (st', j', s') dn))"
        by (rule finish_request_sim [OF j moves_then [OF mv D(1)] _ D(2)]) simp
      then show ?thesis by (simp add: Inr w Let_def dec v)
    qed
  qed
qed

lemma complete_flow_sim:
  assumes rd: "ready st"
  shows "sim d st (snd (complete_flow st c))"
proof (cases "resolve_step st (fc_authority c)")
  case (Inl r)
  note ok = resolve_step_Inl [OF Inl]
  show ?thesis
  proof (cases "rf_job r")
    case None
    then show ?thesis using Inl by (simp add: complete_flow_def Let_def sim_same)
  next
    case (Some j)
    then have "sim d st (store_fence (at_job (fc_authority c)) st j (rf_step r) ev)" for ev
      using ok by (auto simp: refusal_ok_def intro!: store_fence_sim)
    then show ?thesis
      using Inl Some authority_status_sim [OF ok, of d] by (auto simp: complete_flow_def Let_def)
  qed
next
  case (Inr w)
  obtain j s where w: "w = (j, s)" by fastforce
  note S = resolve_step_Inr [OF Inr [unfolded w]]
  show ?thesis
  proof (cases "map_of (ss_flows s) (fc_intent c)")
    case None
    have "sim d st (store_fence (at_job (fc_authority c)) st j (Some s) ev)" for ev
      by (rule store_fence_sim [OF S(1)]) (use S(3) in simp)
    then show ?thesis using Inr w None by (simp add: complete_flow_def Let_def)
  next
    case (Some f)
    obtain st1 j1 s1 where cf: "close_flow st j s f (\<not> fc_cancelled c) (fc_bytes_transferred c) EC_Cancelled
        = (st1, j1, s1)" by (metis prod_cases3)
    have jobs: "fb_jobs st1 = fb_jobs st" using cf by (auto simp: close_flow_def Let_def count_closure_def)
    have "sim d st (store_step (at_job (fc_authority c)) (st1, j2, s1))"
      if b: "fc_bytes_transferred c \<le> wc_max_bytes_per_intent (js_contract j)"
        and core: "job_core j2 = job_core j1" for j2
    proof (rule sim_put [OF S(1)])
      have "closing j (pack j s)" using pack_same [OF S(3)] closing_refl by simp
      from close_flow_closing [OF this Some b cf core] show "moves d 0 j (pack j2 s1)"
        by (intro moves_one move_closing)
    qed (simp_all add: jobs)
    then show ?thesis
      using Inr w Some by (auto simp: complete_flow_def Let_def cf not_less intro!: require_sim split: option.split)
  qed
qed

lemma revalidate_flow_sim: "sim d st (snd (revalidate_flow st t i))"
  unfolding revalidate_flow_def
proof (rule gated_step_sim)
  fix j s
  assume j: "map_of (fb_jobs st) (at_job t) = Some j"
  have "sim d st (store_job (at_job t) (j\<lparr>js_decisions := x\<rparr>) st)" for x
    by (rule sim_put [OF j moves_quiet [OF moves_refl]]) simp_all
  then show "sim d st (snd (case map_of (js_decisions j) i of
             None \<Rightarrow> (Inr \<lparr>rv_intent = i, rv_still_valid = False, rv_reason = EC_NotRegistered,
                     rv_decision = default_decision\<rparr>, st)
           | Some previous \<Rightarrow> revalidate_decision st t i j s previous))"
    by (auto simp: revalidate_decision_def Let_def sim_same split: option.split)
qed

lemma throttle_flow_moves:
  assumes f: "map_of (ss_flows s) i = Some f" and r: "r < fs_granted_min_bps f" and i: "fs_intent f = i"
    and th: "throttle_flow (st, j, s) b f r = (st', j', s')"
  shows "move d 0 (pack j s) (pack (throttle_in_job f r (pack j s)) (throttle_in_step f r s))"
    and "job_core (pack j' s') = job_core (pack (throttle_in_job f r (pack j s)) (throttle_in_step f r s))"
    and "fb_jobs st' = fb_jobs st" and "fb_policy st' = fb_policy st" and "fb_now st' = fb_now st"
proof -
  show "move d 0 (pack j s) (pack (throttle_in_job f r (pack j s)) (throttle_in_step f r s))"
    by (rule move_throttle [OF pack_simps(1) f r])
  have s': "s' = throttle_in_step f r s"
    using th by (auto simp: throttle_flow_def Let_def throttle_in_step_def lowered_def)
  obtain dn where j': "j' = (throttle_in_job f r j)\<lparr>js_decisions := dn\<rparr>"
    using th by (auto simp: throttle_flow_def Let_def throttle_in_job_def)
  have core: "job_core j' = job_core (throttle_in_job f r j)" unfolding j' by simp
  have "throttle_in_job f r (pack j s) = pack (throttle_in_job f r j) s"
    by (simp add: throttle_in_job_def pack_def)
  then show "job_core (pack j' s') = job_core (pack (throttle_in_job f r (pack j s)) (throttle_in_step f r s))"
    unfolding s' by (simp only: pack_simps) (rule job_core_pack [OF core refl])
  show "fb_jobs st' = fb_jobs st" "fb_policy st' = fb_policy st" "fb_now st' = fb_now st"
    using th by (auto simp: throttle_flow_def Let_def)
qed

lemma displace_flow_moves:
  assumes f: "map_of (ss_flows s) i = Some f" and th: "displace_flow (st, j, s) f = (st', j', s')"
  shows "move d 0 (pack j s) (pack j' s')"
    and "fb_jobs st' = fb_jobs st" and "fb_policy st' = fb_policy st" and "fb_now st' = fb_now st"
proof -
  obtain st1 j1 s1 where cf: "close_flow st j s f False 0 EC_IsolationActive = (st1, j1, s1)" by (metis prod_cases3)
  have eqs: "st' = st1" "s' = s1" "job_core j' = job_core j1"
    using th cf by (auto simp: displace_flow_def Let_def)
  show "move d 0 (pack j s) (pack j' s')"
    using close_flow_closing [OF closing_refl f _ cf eqs(3)] eqs(2) by (intro move_closing) simp
  show "fb_jobs st' = fb_jobs st" "fb_policy st' = fb_policy st" "fb_now st' = fb_now st"
    using cf eqs(1) by (auto simp: close_flow_def Let_def count_closure_def)
qed

lemma isolate_flows_moves:
  assumes "job_ok (pack j s)" and "isolate_flows b is (st, j, s) = ((st', j', s'), x)"
  shows "moves d 0 (pack j s) (pack j' s') \<and> fb_jobs st' = fb_jobs st \<and> fb_policy st' = fb_policy st \<and>
    fb_now st' = fb_now st"
  using assms
proof (induction "is" arbitrary: st j s x)
  case Nil
  then show ?case by (auto simp: moves_refl)
next
  case (Cons i "is")
  note fo = job_okD(2) [OF Cons.prems(1) pack_simps(1)]
  have skip: ?case if "isolate_flows b (i # is) (st, j, s) = isolate_flows b is (st, j, s)"
    using Cons.IH [OF Cons.prems(1)] Cons.prems(2) unfolding that .
  have step: ?case
    if mv: "moves d 0 (pack j s) (pack j1 s1)" and st1: "fb_jobs st1 = fb_jobs st"
      "fb_policy st1 = fb_policy st" "fb_now st1 = fb_now st"
      and rest: "isolate_flows b is (st1, j1, s1) = ((st', j', s'), y)" for st1 j1 s1 y
    using Cons.IH [OF moves_job_ok [OF mv Cons.prems(1)] rest] moves_trans [OF _ mv] st1 by fastforce
  show ?case
  proof (cases "map_of (ss_flows s) i")
    case None
    then show ?thesis by (intro skip) simp
  next
    case f: (Some f)
    have i: "fs_intent f = i" using flow_in_okD(1) [OF fo f] .
    show ?thesis
    proof (cases "policy_find (fb_policy st) (fs_service_class f)")
      case None
      then show ?thesis using f by (intro skip) simp
    next
      case (Some spec)
      consider "fs_service_class f = SC_Checkpoint \<or> scs_barrier_critical spec"
        | "\<not> (fs_service_class f = SC_Checkpoint \<or> scs_barrier_critical spec)" "scs_isolation_ceiling_bps spec = 0"
        | "\<not> (fs_service_class f = SC_Checkpoint \<or> scs_barrier_critical spec)" "scs_isolation_ceiling_bps spec \<noteq> 0"
          "fs_granted_min_bps f > scs_isolation_ceiling_bps spec"
        | "\<not> (fs_service_class f = SC_Checkpoint \<or> scs_barrier_critical spec)" "scs_isolation_ceiling_bps spec \<noteq> 0"
          "\<not> fs_granted_min_bps f > scs_isolation_ceiling_bps spec" by blast
      then show ?thesis
      proof cases
        case 1
        then show ?thesis using f Some by (intro skip) simp
      next
        case 2
        obtain st1 j1 s1 where th: "displace_flow (st, j, s) f = (st1, j1, s1)" by (metis prod_cases3)
        obtain w y where rest: "isolate_flows b is (st1, j1, s1) = (w, y)" by (metis surj_pair)
        with Cons.prems(2) f Some 2 th have "w = (st', j', s')" by (auto split: prod.splits)
        note T = displace_flow_moves [OF f th]
        show ?thesis
          by (rule step [OF moves_one [OF T(1)] T(2-4) rest [unfolded \<open>w = (st', j', s')\<close>]])
      next
        case 3
        obtain st1 j1 s1 where th: "throttle_flow (st, j, s) b f (scs_isolation_ceiling_bps spec) = (st1, j1, s1)"
          by (metis prod_cases3)
        obtain w y where rest: "isolate_flows b is (st1, j1, s1) = (w, y)" by (metis surj_pair)
        with Cons.prems(2) f Some 3 th have "w = (st', j', s')" by (auto split: prod.splits)
        note T = throttle_flow_moves [OF f 3(3) i th]
        show ?thesis
          by (rule step [OF moves_quiet [OF moves_one [OF T(1)] T(2)] T(3-5)
                rest [unfolded \<open>w = (st', j', s')\<close>]])
      next
        case 4
        then show ?thesis using f Some by (intro skip) simp
      qed
    qed
  qed
qed

lemma begin_checkpoint_burst_sim:
  assumes rd: "ready st"
  shows "sim d st (snd (begin_checkpoint_burst st req))"
  unfolding begin_checkpoint_burst_def
proof (intro ttf_try_sim gated_step_sim require_sim)
  fix j s
  assume j: "map_of (fb_jobs st) (at_job (cb_authority req)) = Some j" and s: "js_step j = Some s"
  let ?i = "js_next_burst_id j" and ?j = "j\<lparr>js_next_burst_id := js_next_burst_id j + 1\<rparr>"
  let ?order = "std_sort (<) (keys (filter (\<lambda>e. fs_group (snd e) = cb_group req) (ss_flows s)))"
  obtain st2 j2 s2 x y where iso: "isolate_flows ?i ?order (st, ?j, s) = ((st2, j2, s2), x, y)"
    by (metis prod_cases4 surj_pair)
  have core: "job_core (pack ?j s) = job_core j"
    using job_core_pack [of ?j j s s] pack_same [OF s] by simp
  have mv: "moves d 0 j (pack ?j s)" using core by (rule moves_quiet [OF moves_refl])
  note I = isolate_flows_moves [OF moves_job_ok [OF mv readyD(1) [OF rd j]] iso, of d]
  have "moves d 0 j (pack j2 s2)" using moves_trans [OF _ mv] I by fastforce
  moreover have "job_core (pack (j2\<lparr>js_last_activity := a\<rparr>) (s2\<lparr>ss_burst := b\<rparr>)) = job_core (pack j2 s2)" for a b
    by (rule job_core_pack) (simp_all add: step_core_def phase_accounting_of_def)
  ultimately have "moves d 0 j (pack (j2\<lparr>js_last_activity := a\<rparr>) (s2\<lparr>ss_burst := b\<rparr>))" for a b
    by (rule moves_quiet)
  then have "sim d st (store_step (at_job (cb_authority req)) (st2, j2\<lparr>js_last_activity := a\<rparr>, s2\<lparr>ss_burst := b\<rparr>))"
    for a b by (rule sim_put [OF j]) (use I in simp_all)
  then show "sim d st (snd (
         let i = js_next_burst_id j;
             job1 = j\<lparr>js_next_burst_id := js_next_burst_id j + 1\<rparr>;
             order = std_sort (<) (keys (filter (\<lambda>e. fs_group (snd e) = cb_group req) (ss_flows s)));
             ((st2, job2, step2), displaced, throttled) = isolate_flows i order (st, job1, s);
             burst = \<lparr>bs_id = i, bs_group = cb_group req, bs_expected_bytes = cb_expected_bytes req,
                      bs_opened_at = fb_now st, bs_deadline_at = cb_deadline_at req,
                      bs_reason = cb_reason req, bs_displaced_flows = displaced,
                      bs_throttled_flows = throttled, bs_active = True\<rparr>
         in (Inr i,
             store_step (at_job (cb_authority req))
               (st2, job2\<lparr>js_last_activity := fb_now st2\<rparr>, step2\<lparr>ss_burst := Some burst\<rparr>))))"
    unfolding Let_def iso prod.case by simp
qed

lemma end_checkpoint_burst_sim: "sim d st (snd (end_checkpoint_burst st t i))"
  unfolding end_checkpoint_burst_def
proof (rule gated_step_sim)
  fix j s
  assume j: "map_of (fb_jobs st) (at_job t) = Some j" and s: "js_step j = Some s"
  have "job_core (pack (j\<lparr>js_last_activity := a\<rparr>) (s\<lparr>ss_burst := b\<rparr>)) = job_core (pack j s)" for a b
    by (rule job_core_pack) (simp_all add: step_core_def phase_accounting_of_def)
  then have "moves d 0 j (pack (j\<lparr>js_last_activity := a\<rparr>) (s\<lparr>ss_burst := b\<rparr>))" for a b
    using pack_same [OF s] by (intro moves_quiet [OF moves_refl]) simp
  then have "sim d st (store_step (at_job t) (st, j\<lparr>js_last_activity := a\<rparr>, s\<lparr>ss_burst := b\<rparr>))" for a b
    by (rule sim_put [OF j]) simp_all
  then show "sim d st (snd (case ss_burst s of
             None \<Rightarrow> (Inl EC_BurstNotActive, st)
           | Some b \<Rightarrow>
               require (bs_active b) EC_BurstNotActive st (
               require (bs_id b = i) EC_NotFound st
               (Inr (),
                store_step (at_job t)
                  (st, j\<lparr>js_last_activity := fb_now st\<rparr>,
                   s\<lparr>ss_burst := Some (b\<lparr>bs_active := False\<rparr>)\<rparr>)))))"
    by (auto simp: sim_same intro!: require_sim split: option.split)
qed

lemma evaluate_pacing_sim: "sim d st (snd (evaluate_pacing st i))"
  unfolding evaluate_pacing_def
proof (intro require_sim gated_step_sim)
  fix j s
  assume j: "map_of (fb_jobs st) (at_job (pi_authority i)) = Some j"
  have "sim d st (store_job (at_job (pi_authority i))
      (j\<lparr>js_pacing_records := x, js_last_activity := y\<rparr>) st)" for x y
    by (rule sim_put [OF j moves_quiet [OF moves_refl]]) (simp_all add: job_core_def)
  then show "sim d st (snd (Inr (pacing_answer st s i),
          store_job (at_job (pi_authority i))
            (j\<lparr>js_pacing_records := js_pacing_records j + 1, js_last_activity := fb_now st\<rparr>) st))"
    by simp
qed

end
