(* ===== verification/Frame.thy ===== *)
theory Frame
  imports Simulation
begin

text \<open>
  What a handler leaves alone beside the jobs: the configuration never changes, the clock
  moves only in \<^verbatim>\<open>tick\<close>, and the policy only in \<^verbatim>\<open>apply_policy\<close>. One lemma per handler, built
  from the frames of the helpers.
\<close>

named_theorems frames

definition frame :: "fabric_state \<Rightarrow> fabric_state \<Rightarrow> bool" where
  "frame st st' \<longleftrightarrow> fb_policy st' = fb_policy st \<and> fb_config st' = fb_config st \<and> fb_now st' = fb_now st"

lemma frameD:
  assumes "frame st st'"
  shows "fb_policy st' = fb_policy st" and "fb_config st' = fb_config st" and "fb_now st' = fb_now st"
  using assms by (simp_all add: frame_def)

lemma frame_refl [simp, intro]: "frame st st"
  by (simp add: frame_def)

lemma frame_trans [trans]: "frame st st' \<Longrightarrow> frame st' st'' \<Longrightarrow> frame st st''"
  by (simp add: frame_def)

lemma frame_updates [simp]:
  "frame st (st'\<lparr>fb_jobs := x\<rparr>) = frame st st'" "frame st (st'\<lparr>fb_stats := y\<rparr>) = frame st st'"
  "frame st (st'\<lparr>fb_next_job_id := z\<rparr>) = frame st st'" "frame st (store_job k j st') = frame st st'"
  "frame (st\<lparr>fb_stats := y\<rparr>) st' = frame st st'"
  by (simp_all add: frame_def)

lemma frame_store_step [simp]: "frame st (store_step k (st', j, s)) = frame st st'"
  by (simp add: store_step_def)

lemma require_frame [frames]: "(b \<Longrightarrow> frame st (snd k)) \<Longrightarrow> frame st (snd (require b e st k))"
  by (simp add: require_def)

lemma ttf_try_frame [frames]: "(s = Inr () \<Longrightarrow> frame st (snd k)) \<Longrightarrow> frame st (snd (ttf_try s st k))"
  by (cases s) (auto simp: ttf_try_def)

section \<open>Helpers\<close>

lemma record_fence_frame: "frame st (fst (record_fence st j ev))"
  by (simp add: record_fence_def)

lemma store_fence_frame [frames]: "frame st (store_fence k st j s ev)"
  using record_fence_frame [of st j ev] by (cases "record_fence st j ev") (simp add: store_fence_def)

lemma authority_status_frame [frames]: "frame st (snd (authority_status st t r))"
  by (simp add: authority_status_def store_fence_frame split: option.split)

lemma gated_job_frame [frames]:
  "(\<And>j. frame st (snd (f j))) \<Longrightarrow>
     frame st (snd (case resolve_job st t of Inl r \<Rightarrow> authority_status st t r | Inr j \<Rightarrow> f j))"
  by (simp add: authority_status_frame split: sum.split)

lemma gated_step_frame [frames]:
  "(\<And>j s. frame st (snd (f j s))) \<Longrightarrow>
     frame st (snd (case resolve_step st t of Inl r \<Rightarrow> authority_status st t r | Inr (j, s) \<Rightarrow> f j s))"
  by (simp add: authority_status_frame split: sum.split)

lemma close_flow_frame: "close_flow st j s f c b r = (st', j', s') \<Longrightarrow> frame st st'"
  by (auto simp: close_flow_def Let_def count_closure_def)

lemma close_each_frame: "close_each r mark is (st, j, s) = ((st', j', s'), n) \<Longrightarrow> frame st st'"
  using close_each_state [of r mark "is" st j s st' j' s' n] by (simp add: frame_def)

lemma cancel_all_flows_frame: "cancel_all_flows st j s r = (st', j', s') \<Longrightarrow> frame st st'"
  unfolding cancel_all_flows_def by (metis close_each_frame fst_conv surj_pair)

lemma cancel_flows_in_phase_frame: "cancel_flows_in_phase st j s i r = (st', j', s') \<Longrightarrow> frame st st'"
  unfolding cancel_flows_in_phase_def by (metis close_each_frame fst_conv surj_pair)

lemma seal_step_frame: "seal_step st j s c = (st', j', report) \<Longrightarrow> frame st st'"
  by (auto simp: seal_step_def Let_def)

lemma fence_open_step_frame:
  assumes "fence_open_step st j s r = (st', j', report)"
  shows "frame st st'"
proof -
  let ?ev = "(make_fence st (ss_step s) 0 0)
            \<lparr>fe_reason := r, fe_observed_incarnation := ss_incarnation s,
             fe_current_incarnation := js_incarnation j, fe_observed_epoch := js_epoch j,
             fe_current_epoch := js_epoch j\<rparr>"
  obtain st1 j1 where rf: "record_fence st j ?ev = (st1, j1)" by fastforce
  obtain st2 j2 s2 where ca: "cancel_all_flows st1 j1 (record_step_fence st s ?ev) r = (st2, j2, s2)"
    by (metis prod_cases3)
  have "frame st st1" using record_fence_frame [of st j ?ev] rf by simp
  also have "frame st1 st2" by (rule cancel_all_flows_frame [OF ca])
  also have "frame st2 st'"
    by (rule seal_step_frame) (use assms rf ca in \<open>simp add: fence_open_step_def Let_def\<close>)
  finally show ?thesis .
qed

lemma fence_if_open_frame:
  assumes "(case x of None \<Rightarrow> (st, j)
      | Some s \<Rightarrow> (let (st1, j1, _) = fence_open_step st j s r in (st1, j1))) = (st', j')"
  shows "frame st st'"
  using assms by (auto dest: fence_open_step_frame split: option.splits prod.splits)

lemma invalidate_frame:
  assumes "invalidate_for_generation_change st j res cause = (st', j', res')"
  shows "frame st st'"
  using assms
  by (auto simp: invalidate_for_generation_change_def Let_def dest: close_each_frame split: option.splits prod.splits)

section \<open>Handlers\<close>

lemma register_job_frame [frames]: "frame st (snd (register_job st reg))"
  by (auto simp: register_job_def Let_def require_def ttf_try_def split: sum.split)

lemma register_group_frame [frames]: "frame st (snd (register_group st reg))"
  unfolding register_group_def Let_def by (intro frames) simp

lemma publish_topology_frame [frames]: "frame st (snd (publish_topology st t e))"
  unfolding publish_topology_def Let_def
  by (intro frames) (auto dest: invalidate_frame split: prod.splits)

lemma retire_job_frame [frames]: "frame st (snd (retire_job st t))"
  unfolding retire_job_def Let_def
  by (intro frames) (auto dest: fence_open_step_frame split: option.splits prod.splits)

lemma retire_incarnation_frame [frames]: "frame st (snd (retire_incarnation st t))"
  unfolding retire_incarnation_def Let_def
  by (intro frames) (auto dest: fence_open_step_frame split: option.splits prod.splits)

lemma admit_replacement_frame [frames]: "frame st (snd (admit_replacement st req))"
  unfolding admit_replacement_def Let_def
  by (auto dest: fence_open_step_frame intro!: ttf_try_frame split: option.splits prod.splits)

lemma begin_step_frame [frames]: "frame st (snd (begin_step st req))"
  unfolding begin_step_def Let_def by (intro frames) (simp add: store_fence_frame)

lemma begin_phase_frame [frames]: "frame st (snd (begin_phase st req))"
  unfolding begin_phase_def Let_def by (intro frames) simp

lemma end_phase_frame [frames]: "frame st (snd (end_phase st t i x))"
  unfolding end_phase_def Let_def
  by (intro frames)
    (auto simp: require_def dest: cancel_flows_in_phase_frame split: option.splits prod.splits)

lemma end_step_frame [frames]: "frame st (snd (end_step st t x))"
  unfolding end_step_def Let_def
  by (intro frames)
    (auto dest!: cancel_all_flows_frame seal_step_frame intro: frame_trans split: prod.splits if_splits)

lemma complete_flow_frame [frames]: "frame st (snd (complete_flow st c))"
  unfolding complete_flow_def Let_def
  by (auto simp: require_def store_fence_frame authority_status_frame dest: close_flow_frame
      split: sum.splits option.splits prod.splits)

lemma revalidate_flow_frame [frames]: "frame st (snd (revalidate_flow st t i))"
  unfolding revalidate_flow_def
  by (intro frames) (auto simp: revalidate_decision_def Let_def split: option.splits)

lemma throttle_flow_frame: "frame (fst w) (fst (throttle_flow w b f r))"
  by (cases w) (simp add: throttle_flow_def Let_def)

lemma displace_flow_frame: "frame (fst w) (fst (displace_flow w f))"
  by (cases w) (auto simp: displace_flow_def Let_def dest: close_flow_frame split: prod.split)

lemma isolate_flows_frame: "frame (fst w) (fst (fst (isolate_flows b is w)))"
proof (induction "is" arbitrary: w)
  case Nil
  then show ?case by simp
next
  case (Cons i "is")
  obtain st j s where w: "w = (st, j, s)" by (cases w)
  have "frame (fst w) (fst (fst (isolate_flows b is (throttle_flow w b f r))))"
    "frame (fst w) (fst (fst (isolate_flows b is (displace_flow w f))))" for f r
    using frame_trans [OF throttle_flow_frame Cons.IH] frame_trans [OF displace_flow_frame Cons.IH] by blast+
  then have thr: "isolate_flows b is (throttle_flow w b f r) = ((st', j', s'), x) \<Longrightarrow> frame st st'"
    and dis: "isolate_flows b is (displace_flow w f) = ((st', j', s'), x) \<Longrightarrow> frame st st'"
    for f r st' j' s' x by (metis fst_conv w)+
  from Cons.IH [of w] show ?case
    by (auto simp: w dest: thr [unfolded w] dis [unfolded w] split: option.split prod.split)
qed

lemma isolate_flows_frame_result: "isolate_flows b is (st, j, s) = ((st', j', s'), x) \<Longrightarrow> frame st st'"
  by (metis isolate_flows_frame fst_conv)

lemma begin_checkpoint_burst_frame [frames]: "frame st (snd (begin_checkpoint_burst st req))"
  unfolding begin_checkpoint_burst_def Let_def
  by (intro frames) (auto dest!: isolate_flows_frame_result split: prod.splits)

lemma end_checkpoint_burst_frame [frames]: "frame st (snd (end_checkpoint_burst st t i))"
  unfolding end_checkpoint_burst_def
  by (intro frames) (auto simp: require_def split: option.splits)

lemma evaluate_pacing_frame [frames]: "frame st (snd (evaluate_pacing st i))"
  unfolding evaluate_pacing_def by (intro frames) simp

lemma record_decision_frame: "record_decision st j d = (st', j') \<Longrightarrow> frame st st'"
  by (auto simp: record_decision_def Let_def split: prod.splits)

lemma finish_request_frame: "frame st st1 \<Longrightarrow> frame st (snd (finish_request k i p (st1, j, s) d))"
  by (auto simp: finish_request_def Let_def dest!: record_decision_frame intro: frame_trans split: prod.split)

lemma refuse_traffic_frame: "frame st (snd (refuse_traffic st i r))"
proof (cases "rf_job r")
  case None
  then show ?thesis by (simp add: refuse_traffic_def)
next
  case (Some j)
  then show ?thesis using record_fence_frame [of st j "rf_fence r"]
    by (auto simp: refuse_traffic_def Let_def reject_decision_def
        dest!: record_decision_frame intro: frame_trans split: prod.splits)
qed

lemma decide_traffic_frame:
  assumes "decide_traffic (st, j, s) i phase k = Inr ((st', j', s'), dn)"
  shows "frame st st'"
proof -
  have ans: "frame st st1" if "answer_decision st j i phase a = (d, st1)" for st j a d st1
    using that by (cases a) (auto simp: answer_decision_def make_deferral_def reject_decision_def Let_def)
  have arb: "frame st st1" if "arbitrate_capacity st j s g prio lo hi = (cap, st1)" for st j s g prio lo hi cap st1
    using that by (auto simp: arbitrate_capacity_def Let_def split: option.splits if_splits prod.splits)
  have adm: "frame st1 st2" if "admit_flow (st1, j, s) i phase plan cap k = ((st2, j2, s2), d)"
    for st1 j s plan cap st2 j2 s2 d
    using that
    by (auto simp: admit_flow_def preempt_flows_def Let_def dest: close_each_frame split: prod.splits)
  from assms show ?thesis
    by (auto simp: decide_traffic_def Let_def dest!: arb ans adm intro: frame_trans
        split: screening.splits prod.splits if_splits)
qed

lemma request_traffic_frame [frames]: "frame st (snd (request_traffic st i))"
  unfolding request_traffic_def Let_def
  by (intro ttf_try_frame)
    (auto simp: refuse_traffic_frame dest!: decide_traffic_frame intro!: finish_request_frame
      split: sum.split prod.split)

lemma apply_policy_frame:
  "fb_policy (snd (apply_policy st p)) = fb_policy st \<or> fb_policy (snd (apply_policy st p)) = p \<and> policy_validate p = Inr ()"
  "fb_config (snd (apply_policy st p)) = fb_config st" "fb_now (snd (apply_policy st p)) = fb_now st"
proof -
  have inv: "frame st st1" if "invalidate_jobs cause es st res = (es', st1, res')" for cause es st res es' st1 res'
    using that
    by (induction es arbitrary: st res es' res')
      (auto dest!: invalidate_frame intro: frame_trans split: prod.splits)
  show "fb_policy (snd (apply_policy st p)) = fb_policy st \<or>
      fb_policy (snd (apply_policy st p)) = p \<and> policy_validate p = Inr ()"
    "fb_config (snd (apply_policy st p)) = fb_config st" "fb_now (snd (apply_policy st p)) = fb_now st"
    by (auto simp: apply_policy_def ttf_try_def require_def Let_def dest!: inv dest: frameD split: sum.splits prod.splits)
qed

section \<open>One call\<close>

lemma RebaseEpoch_frame: "frame (if valid e then tick st else st) (snd (RebaseEpoch st e))"
  by (auto simp: RebaseEpoch_def require_def Let_def split: option.split prod.split)

definition ticks :: "operation \<Rightarrow> bool" where
  "ticks x = (case x of Op_RebaseEpoch e \<Rightarrow> valid e | _ \<Rightarrow> True)"

lemma apply_operation_frame:
  assumes "\<And>p. x \<noteq> Op_ApplyPolicy p"
  shows "frame (if ticks x then tick st else st) (apply_operation st x)"
  using assms RebaseEpoch_frame [of _ st]
  by (cases x; (simp; fail)?) (simp_all add: ticks_def apply_operation_def frames RegisterJob_def RegisterGroup_def
      PublishTopologyEvidence_def RetireJob_def RequestTraffic_def
      BeginStep_def BeginPhase_def EndPhase_def EndStep_def CompleteFlow_def RevalidateFlow_def
      BeginCheckpointBurst_def EndCheckpointBurst_def EvaluatePacing_def AdmitReplacement_def
      RetireIncarnation_def)

end
