(* ===== verification/Runs.thy ===== *)
theory Runs
  imports Frame
begin

text \<open>
  Runs of the fabric: any sequence of calls from the constructor. An invariant of jobs that
  the moves keep holds in every state of a run; the locale states the contract once, and
  it is interpreted for the well-formedness of jobs and for the utilisation of groups.
\<close>

section \<open>One call\<close>

lemma tick_simps [simp]:
  "fb_jobs (tick st) = fb_jobs st" "fb_policy (tick st) = fb_policy st"
  "fb_config (tick st) = fb_config st" "fb_now (tick st) = fb_now st + 1"
  by (simp_all add: tick_def)

lemma rebase_jobs_props:
  assumes "rebase_jobs e es = (es', n)"
  shows "map fst es' = map fst es"
    and "map_of es k = Some j \<Longrightarrow> \<exists>j'. map_of es' k = Some j' \<and> moves d 0 j j'"
proof -
  have "map fst es' = map fst es \<and>
      (\<forall>j. map_of es k = Some j \<longrightarrow> (\<exists>j'. map_of es' k = Some j' \<and> moves d 0 j j'))"
    using assms
  proof (induction es arbitrary: es' n)
    case Nil
    then show ?case by simp
  next
    case (Cons x es)
    show ?case
    proof (cases "js_epoch (snd x) \<ge> e")
      case True
      with Cons.prems show ?thesis by (auto intro: moves_refl)
    next
      case False
      obtain rest m where r: "rebase_jobs e es = (rest, m)" by fastforce
      have "moves d 0 (snd x) ((snd x)\<lparr>js_epoch := e\<rparr>)"
        using False by (intro moves_one move_epoch) simp
      with Cons.IH [OF r] Cons.prems False r show ?thesis by auto
    qed
  qed
  then show "map fst es' = map fst es"
    "map_of es k = Some j \<Longrightarrow> \<exists>j'. map_of es' k = Some j' \<and> moves d 0 j j'" by blast+
qed

lemma sim_keys:
  assumes "map fst (fb_jobs st') = map fst (fb_jobs st)"
    and "\<And>k j. map_of (fb_jobs st) k = Some j \<Longrightarrow> \<exists>j'. map_of (fb_jobs st') k = Some j' \<and> moves d 0 j j'"
  shows "sim d st st'"
  unfolding sim_def
proof (intro conjI impI allI)
  show "wf_table (fb_jobs st')" if "wf_table (fb_jobs st)"
    using that assms(1) by (simp add: wf_table_def keys_def)
  fix k
  have "map_of (fb_jobs st') k = None" if "map_of (fb_jobs st) k = None"
    using that assms(1) unfolding map_of_eq_None_iff by (metis list.set_map)
  then show "case map_of (fb_jobs st) k of
      Some j \<Rightarrow> \<exists>m j'. m \<le> 1 \<and> map_of (fb_jobs st') k = Some j' \<and> moves d m j j'
    | None \<Rightarrow> map_of (fb_jobs st') k = None \<or>
        (\<exists>j'. map_of (fb_jobs st') k = Some j' \<and> fresh_job k j')"
    using assms(2) [of k] by (fastforce split: option.split)
qed

lemma RebaseEpoch_sim: "sim d st (snd (RebaseEpoch st e))"
proof (cases "valid e")
  case True
  obtain es n where r: "rebase_jobs e (fb_jobs st) = (es, n)" by fastforce
  note R = rebase_jobs_props [OF r]
  have "sim d st ((tick st)\<lparr>fb_jobs := es\<rparr>)"
    by (rule sim_keys) (use R in simp_all)
  with True r show ?thesis by (auto simp: RebaseEpoch_def require_def Let_def split: option.split)
qed (simp add: RebaseEpoch_def require_def sim_same)

text \<open>
  The discipline under which the utilisation of a group stays within its link: traffic is
  requested for registered groups, and policies invalidate strictly.
\<close>

definition disciplined :: "fabric_state \<Rightarrow> operation \<Rightarrow> bool" where
  "disciplined st x =
     (case x of
        Op_RequestTraffic i \<Rightarrow>
          (case map_of (fb_jobs st) (at_job (ti_authority i)) of
             None \<Rightarrow> True | Some job \<Rightarrow> has_key (js_groups job) (ti_group i))
      | Op_ApplyPolicy p \<Rightarrow> pd_strict_generation_invalidation p
      | _ \<Rightarrow> True)"

text \<open>The array of a policy has its length by construction.\<close>

definition well_typed :: "operation \<Rightarrow> bool" where
  "well_typed x = (case x of Op_ApplyPolicy p \<Rightarrow> policy_shape p | _ \<Rightarrow> True)"

lemma ready_tick: "ready st \<Longrightarrow> ready (tick st)"
  by (simp add: ready_def)

lemma sim_tick: "sim d (tick st) st' \<Longrightarrow> sim d st st'"
  by (simp add: sim_def)

theorem apply_operation_sim:
  assumes rd: "ready st"
    and d: "d \<Longrightarrow> disciplined st x \<and> pd_strict_generation_invalidation (fb_policy st)"
  shows "sim d st (apply_operation st x)"
proof -
  note rt = ready_tick [OF rd]
  show ?thesis
  proof (cases x)
    case (Op_RequestTraffic i)
    have "sim d (tick st) (snd (request_traffic (tick st) i))"
      using d Op_RequestTraffic by (intro request_traffic_sim [OF rt]) (auto simp: disciplined_def)
    then show ?thesis
      using Op_RequestTraffic by (simp add: apply_operation_def RequestTraffic_def sim_tick)
  next
    case (Op_RebaseEpoch e)
    then show ?thesis by (simp add: apply_operation_def RebaseEpoch_sim)
  next
    case (Op_PublishTopologyEvidence t e)
    have "sim d (tick st) (snd (publish_topology (tick st) t e))"
      using d by (intro publish_topology_sim [OF rt]) simp
    then show ?thesis
      using Op_PublishTopologyEvidence by (simp add: apply_operation_def PublishTopologyEvidence_def sim_tick)
  qed (simp_all add: apply_operation_def RegisterJob_def RegisterGroup_def ApplyPolicy_def RetireJob_def
      BeginStep_def BeginPhase_def EndPhase_def EndStep_def CompleteFlow_def RevalidateFlow_def
      BeginCheckpointBurst_def EndCheckpointBurst_def EvaluatePacing_def AdmitReplacement_def
      RetireIncarnation_def sim_tick register_job_sim register_group_sim apply_policy_sim
      retire_job_sim [OF rt] begin_step_sim [OF rt] begin_phase_sim [OF rt] end_phase_sim [OF rt]
      end_step_sim [OF rt] complete_flow_sim [OF rt] revalidate_flow_sim
      begin_checkpoint_burst_sim [OF rt] end_checkpoint_burst_sim evaluate_pacing_sim
      admit_replacement_sim [OF rt] retire_incarnation_sim [OF rt])
qed

section \<open>Sequences of calls\<close>

inductive calls :: "bool \<Rightarrow> fabric_state \<Rightarrow> nat \<Rightarrow> fabric_state \<Rightarrow> bool" for d st0 where
  calls_none: "calls d st0 0 st0"
| calls_one_more: "calls d st0 n st \<Longrightarrow> well_typed x \<Longrightarrow> (d \<Longrightarrow> disciplined st x) \<Longrightarrow>
    calls d st0 (Suc n) (apply_operation st x)"

inductive_cases calls_SucE: "calls d st0 (Suc n) st"

inductive_simps calls_0 [simp]: "calls d st0 0 st"

text \<open>A run starts with the constructor.\<close>

definition run :: "bool \<Rightarrow> fabric_config \<Rightarrow> nat \<Rightarrow> fabric_state \<Rightarrow> bool" where
  "run d c n st \<longleftrightarrow> calls d (make_fabric c) n st"

text \<open>The executable form: a list of operations, and whether each is allowed when it comes.\<close>

definition execute :: "fabric_state \<Rightarrow> operation list \<Rightarrow> fabric_state" where
  "execute = foldl apply_operation"

primrec admissible :: "bool \<Rightarrow> fabric_state \<Rightarrow> operation list \<Rightarrow> bool" where
  "admissible d st [] = True"
| "admissible d st (x # xs) =
     (well_typed x \<and> (d \<longrightarrow> disciplined st x) \<and> admissible d (apply_operation st x) xs)"

lemma execute_simps [simp]:
  "execute st [] = st" "execute st (x # xs) = execute (apply_operation st x) xs"
  by (simp_all add: execute_def)

lemma calls_execute_from:
  assumes "calls d st0 n st" and "admissible d st xs"
  shows "calls d st0 (n + length xs) (execute st xs)"
  using assms
proof (induction xs arbitrary: n st)
  case (Cons x xs)
  then have "calls d st0 (Suc n) (apply_operation st x)" by (intro calls_one_more) simp_all
  with Cons show ?case by fastforce
qed simp

lemma calls_execute: "admissible d st xs \<Longrightarrow> calls d st (length xs) (execute st xs)"
  using calls_execute_from [OF calls_none] by fastforce

lemma run_execute: "admissible d (make_fabric c) xs \<Longrightarrow> run d c (length xs) (execute (make_fabric c) xs)"
  by (simp add: run_def calls_execute)

lemma calls_trans: "calls d st1 m st2 \<Longrightarrow> calls d st0 n st1 \<Longrightarrow> calls d st0 (n + m) st2"
  by (induction rule: calls.induct) (auto intro: calls_one_more)

section \<open>What holds in every run\<close>

lemma ApplyPolicy_frame:
  "fb_policy (apply_operation st (Op_ApplyPolicy p)) = fb_policy st \<or>
     fb_policy (apply_operation st (Op_ApplyPolicy p)) = p \<and> policy_validate p = Inr ()"
  using apply_policy_frame(1) [of "tick st" p] by (simp add: apply_operation_def ApplyPolicy_def)

lemma apply_operation_policy:
  assumes "policy_ok (fb_policy st)" and "well_typed x"
  shows "policy_ok (fb_policy (apply_operation st x))"
proof (cases "\<exists>p. x = Op_ApplyPolicy p")
  case True
  then obtain p where x: "x = Op_ApplyPolicy p" by blast
  from assms show ?thesis
    using ApplyPolicy_frame [of st p] by (auto simp: x well_typed_def policy_ok_def)
next
  case False
  then show ?thesis using frameD(1) [OF apply_operation_frame [of x st]] assms(1) by (simp split: if_splits)
qed

lemma apply_operation_strict:
  assumes "pd_strict_generation_invalidation (fb_policy st)" and "disciplined st x"
  shows "pd_strict_generation_invalidation (fb_policy (apply_operation st x))"
proof (cases "\<exists>p. x = Op_ApplyPolicy p")
  case True
  then obtain p where x: "x = Op_ApplyPolicy p" by blast
  from assms show ?thesis using ApplyPolicy_frame [of st p] by (auto simp: x disciplined_def)
next
  case False
  then show ?thesis using frameD(1) [OF apply_operation_frame [of x st]] assms(1) by (simp split: if_splits)
qed

text \<open>The invariant of a run of \<open>n\<close> calls; \<open>n\<close> bounds the ids it has minted.\<close>

definition run_state :: "bool \<Rightarrow> nat \<Rightarrow> fabric_state \<Rightarrow> bool" where
  "run_state d n st \<longleftrightarrow>
     wf_table (fb_jobs st) \<and> policy_ok (fb_policy st) \<and>
     (d \<longrightarrow> pd_strict_generation_invalidation (fb_policy st)) \<and>
     (\<forall>k j. map_of (fb_jobs st) k = Some j \<longrightarrow> job_ok j \<and> js_id j = k \<and> minted j \<le> n + 2)"

lemma run_state_ready: "run_state d n st \<Longrightarrow> n < 2 ^ 63 \<Longrightarrow> ready st"
  by (fastforce simp: run_state_def ready_def)

lemma run_state_start: "run_state d 0 (make_fabric c)"
  by (simp add: run_state_def make_fabric_def default_policy_ok) (simp add: make_default_policy_def)

lemma sim_Some:
  assumes "sim d st st'" and "map_of (fb_jobs st') k = Some j'"
  obtains (old) j m where "map_of (fb_jobs st) k = Some j" and "moves d m j j'" and "m \<le> 1"
  | (fresh) "map_of (fb_jobs st) k = None" and "fresh_job k j'"
proof (cases "map_of (fb_jobs st) k")
  case None
  with assms fresh show thesis by (auto simp: sim_def dest!: spec [of _ k])
next
  case (Some j)
  with assms old show thesis by (auto simp: sim_def dest!: spec [of _ k])
qed

lemma fresh_job_props:
  assumes "fresh_job k j"
  shows "job_ok j" and "js_id j = k" and "minted j = 2" and "job_tight j"
    and "contract_validate (js_contract j) = Inr ()" and "js_next_incarnation j = js_incarnation j + 1"
  using assms by (auto simp: fresh_job_def new_job_ok new_job_tight)
    (simp_all add: new_job_def Let_def minted_def)

lemma run_state_call:
  assumes rs: "run_state d n st" and n: "n < 2 ^ 63" and wt: "well_typed x" and dx: "d \<Longrightarrow> disciplined st x"
  shows "run_state d (Suc n) (apply_operation st x)" and "sim d st (apply_operation st x)"
proof -
  have st: "wf_table (fb_jobs st)" "policy_ok (fb_policy st)" "d \<Longrightarrow> pd_strict_generation_invalidation (fb_policy st)"
    "\<And>k j. map_of (fb_jobs st) k = Some j \<Longrightarrow> job_ok j \<and> js_id j = k \<and> minted j \<le> n + 2"
    using rs by (simp_all add: run_state_def)
  show S: "sim d st (apply_operation st x)"
    using apply_operation_sim [OF run_state_ready [OF rs n]] dx st(3) by blast
  have "job_ok j \<and> js_id j = k \<and> minted j \<le> Suc n + 2"
    if "map_of (fb_jobs (apply_operation st x)) k = Some j" for k j
    using S that
  proof (cases rule: sim_Some)
    case (old i m)
    then show ?thesis
      using st(4) [OF old(1)] moves_job_ok [OF old(2)] moves_minted [OF old(2)] moves_advance [OF old(2)]
      by (auto simp: job_advances_def)
  next
    case fresh
    then show ?thesis using fresh_job_props by simp
  qed
  then show "run_state d (Suc n) (apply_operation st x)"
    using st(1) S apply_operation_policy [OF st(2) wt] apply_operation_strict [OF st(3) dx]
    by (simp add: run_state_def sim_def)
qed

lemma calls_state: "calls d st0 n st \<Longrightarrow> run_state d m st0 \<Longrightarrow> m + n < 2 ^ 63 \<Longrightarrow> run_state d (m + n) st"
  by (induction rule: calls.induct) (auto dest: run_state_call(1))

lemma run_run_state: "run d c n st \<Longrightarrow> n < 2 ^ 63 \<Longrightarrow> run_state d n st"
  using calls_state [OF _ run_state_start] by (fastforce simp: run_def)

section \<open>Invariants of jobs\<close>

locale job_invariant =
  fixes d :: bool and P :: "job_state \<Rightarrow> bool"
  assumes fresh: "fresh_job k j \<Longrightarrow> P j"
    and kept: "moves d m j j' \<Longrightarrow> job_ok j \<Longrightarrow> P j \<Longrightarrow> P j'"
begin

lemma after_calls:
  assumes "calls d st0 n st" and "run_state d m st0" and "m + n < 2 ^ 63"
    and "\<And>k j. map_of (fb_jobs st0) k = Some j \<Longrightarrow> P j"
  shows "map_of (fb_jobs st) k = Some j \<Longrightarrow> P j"
  using assms
proof (induction arbitrary: k j rule: calls.induct)
  case calls_none
  then show ?case by blast
next
  case (calls_one_more n st x)
  have rs: "run_state d (m + n) st" using calls_state [OF calls_one_more.hyps(1)] calls_one_more.prems by simp
  from run_state_call(2) [OF rs _ calls_one_more.hyps(2,3)] calls_one_more.prems
  have "sim d st (apply_operation st x)" by simp
  from this calls_one_more.prems(1) show ?case
  proof (cases rule: sim_Some)
    case (old i l)
    then show ?thesis using calls_one_more rs kept [OF old(2)] by (simp add: run_state_def)
  next
    case new: fresh
    show ?thesis by (rule fresh [OF new(2)])
  qed
qed

lemma in_run: "run d c n st \<Longrightarrow> n < 2 ^ 63 \<Longrightarrow> map_of (fb_jobs st) k = Some j \<Longrightarrow> P j"
  using after_calls [OF _ run_state_start, of c n st k j] by (simp add: run_def make_fabric_def)

end

interpretation well_formed: job_invariant d job_ok
  by unfold_locales (auto simp: fresh_job_props moves_job_ok)

interpretation tight: job_invariant True job_tight
  by unfold_locales (auto simp: fresh_job_props moves_job_tight)

interpretation registered: job_invariant d "\<lambda>j. contract_validate (js_contract j) = Inr ()"
  by unfold_locales (auto simp: fresh_job_props job_advances_def dest!: moves_advance)

lemma move_numbering:
  assumes "move d m j j'" and "js_next_incarnation j = js_incarnation j + 1"
  shows "js_next_incarnation j' = js_incarnation j' + 1"
  using assms
proof (cases rule: move.cases)
  case move_quiet
  then show ?thesis using job_core_eqs [OF move_quiet(2)] assms(2) by simp
next
  case move_closing
  then show ?thesis using closing_frame assms(2) by (simp add: job_frame_def)
next
  case (move_admit s st f prio lo hi cap st1 r mark st2 st3 j1 s1 n)
  have "closing j (pack j1 s1)"
    using close_each_closing [OF _ move_admit(6), of j] closing_refl [of j] pack_same [OF move_admit(3)] by simp
  from closing_frame [OF this] show ?thesis using move_admit assms(2) by (simp add: job_frame_def)
next
  case move_seal
  then show ?thesis using seal_step_props assms(2) by simp
qed (use assms(2) in auto)

lemma moves_numbering:
  "moves d m j j' \<Longrightarrow> js_next_incarnation j = js_incarnation j + 1 \<Longrightarrow> js_next_incarnation j' = js_incarnation j' + 1"
  by (induction rule: moves.induct) (auto dest: move_numbering)

interpretation numbering: job_invariant d "\<lambda>j. js_next_incarnation j = js_incarnation j + 1"
  by unfold_locales (auto simp: fresh_job_props moves_numbering)

section \<open>Orders on jobs\<close>

text \<open>A relation the moves only go up in relates a job to what any later call makes of it.\<close>

locale job_order =
  fixes d :: bool and R :: "job_state \<Rightarrow> job_state \<Rightarrow> bool"
  assumes refl: "R j j" and trans: "R i j \<Longrightarrow> R j k \<Longrightarrow> R i k"
    and up: "moves d m j j' \<Longrightarrow> job_ok j \<Longrightarrow> R j j'"
begin

lemma later:
  assumes "calls d st0 n st" and "run_state d m st0" and "m + n < 2 ^ 63" and "map_of (fb_jobs st0) k = Some j"
  shows "\<exists>j'. map_of (fb_jobs st) k = Some j' \<and> R j j'"
  using assms
proof (induction rule: calls.induct)
  case calls_none
  then show ?case using refl by blast
next
  case (calls_one_more n st x)
  then obtain j1 where j1: "map_of (fb_jobs st) k = Some j1" "R j j1" by auto
  have rs: "run_state d (m + n) st" using calls_state [OF calls_one_more.hyps(1)] calls_one_more.prems by simp
  from run_state_call(2) [OF rs _ calls_one_more.hyps(2,3)] calls_one_more.prems
  have S: "sim d st (apply_operation st x)" by simp
  then obtain l j2 where "map_of (fb_jobs (apply_operation st x)) k = Some j2" "moves d l j1 j2"
    using j1(1) by (auto simp: sim_def dest!: spec [of _ k])
  with j1 rs up trans show ?case by (auto simp: run_state_def)
qed

end

interpretation advancing: job_order d job_advances
  by unfold_locales
    (auto simp: job_advances_def intro: job_advances_trans [unfolded job_advances_def] dest!: moves_advance)

end
