(* ===== verification/Scenario.thy ===== *)
theory Scenario
  imports Runs
begin

text \<open>
  A concrete run the witnesses evaluate: one job with one group on a link of 1000 bps, a
  step with a data-ingest phase, a gradient phase and a phase of unknown class, and the
  traffic in them.
\<close>

definition sample_token :: "topology_generation \<Rightarrow> training_step_id \<Rightarrow> phase_id \<Rightarrow> authority_token" where
  "sample_token topo step phase = \<lparr>at_job = 1, at_job_generation = 1, at_incarnation = 1,
     at_boot = BootId 1 1, at_session = 1, at_epoch = 0, at_contract_generation = 1,
     at_topology_generation = topo, at_policy_generation = 1, at_step = step, at_phase = phase,
     at_sequence = 0, at_nonce = 0\<rparr>"

definition sample_contract :: workload_contract where
  "sample_contract = default_contract\<lparr>wc_job := 1, wc_generation := 1, wc_allow_unknown_phase := True\<rparr>"

definition sample_registration :: job_registration where
  "sample_registration = \<lparr>jr_job = 1, jr_name = [], jr_boot = BootId 1 1, jr_contract = sample_contract,
     jr_incarnation = 1, jr_epoch = 0\<rparr>"

definition sample_group :: group_registration where
  "sample_group = \<lparr>gr_authority = sample_token 0 0 0,
     gr_group = \<lparr>pg_id = 7, pg_job = 1, pg_kind = PK_Data, pg_member_count = 4, pg_name = []\<rparr>\<rparr>"

definition sample_topology :: topology_evidence where
  "sample_topology = \<lparr>te_generation = 0, te_job = 1, te_label = EvReal, te_links =
     [\<lparr>lc_group = 7, lc_capacity_bps = 1200, lc_reserved_bps = 200, lc_label = EvReal, lc_source = []\<rparr>]\<rparr>"

definition sample_step :: step_open_request where
  "sample_step = \<lparr>so_authority = sample_token 1 0 0, so_step = 5, so_deadline_at = 50, so_slack_ticks = 3\<rparr>"

definition sample_phase :: "phase_class \<Rightarrow> phase_open_request" where
  "sample_phase cls = \<lparr>po_authority = sample_token 1 5 0, po_spec = \<lparr>ps_cls = cls, ps_group = 7,
     ps_criticality = SyncSoft, ps_deadline = \<lparr>sd_deadline_at = 0, sd_slack_ticks = 0\<rparr>, ps_hint = []\<rparr>\<rparr>"

definition sample_intent :: "phase_id \<Rightarrow> u64 \<Rightarrow> u64 \<Rightarrow> u64 \<Rightarrow> traffic_intent" where
  "sample_intent phase lo hi n = \<lparr>ti_authority = sample_token 1 5 phase, ti_group = 7,
     ti_declared_phase_class = PC_Unknown, ti_purpose = [], ti_min_bps = lo, ti_max_bps = hi,
     ti_bytes_estimate = n, ti_participants = 4, ti_barrier_participant = False,
     ti_preemptible = True, ti_allow_defer = True\<rparr>"

text \<open>Up to the open step with its three phases.\<close>

definition start_ops :: "operation list" where
  "start_ops = [Op_RegisterJob sample_registration, Op_RegisterGroup sample_group,
     Op_PublishTopologyEvidence (sample_token 0 0 0) sample_topology, Op_BeginStep sample_step,
     Op_BeginPhase (sample_phase PC_DataIngest), Op_BeginPhase (sample_phase PC_GradientSync),
     Op_BeginPhase (sample_phase PC_Unknown)]"

section \<open>The states it passes\<close>

definition sample_phase_record :: "phase_id \<Rightarrow> phase_class \<Rightarrow> logical_time \<Rightarrow> phase_record" where
  "sample_phase_record i cls now = \<lparr>pr_id = i, pr_step = 5, pr_spec = po_spec (sample_phase cls),
     pr_opened_at = now, pr_closed_at = 0, pr_disposition = PhaseOpen\<rparr>"

definition opened_step :: step_state where
  "opened_step = (new_step 5 1 1 4 50 3)\<lparr>
     ss_phases := [(1, sample_phase_record 1 PC_DataIngest 5), (2, sample_phase_record 2 PC_GradientSync 6),
       (3, sample_phase_record 3 PC_Unknown 7)],
     ss_phase_order := [1, 2, 3],
     ss_phase_accounting := [(1, empty_phase_accounting), (2, empty_phase_accounting),
       (3, empty_phase_accounting)],
     ss_phase_active_flows := [(1, 0), (2, 0), (3, 0)]\<rparr>"

definition opened_job :: job_state where
  "opened_job = (new_job sample_registration 1 sample_contract 1)\<lparr>
     js_groups := [(7, gr_group sample_group)], js_group_order := [7],
     js_group_utilized_bps := [(7, 0)], js_group_active_flows := [(7, 0)],
     js_topology := sample_topology\<lparr>te_generation := 1\<rparr>, js_highest_step := 5,
     js_step := Some opened_step, js_next_phase_id := 4, js_next_topology_generation := 2,
     js_last_activity := 7\<rparr>"

definition opened :: fabric_state where
  "opened = (make_fabric default_config)\<lparr>fb_now := 7, fb_jobs := [(1, opened_job)],
     fb_stats := empty_stats\<lparr>st_operations := 7, st_topology_generation := 1\<rparr>, fb_next_job_id := 2\<rparr>"

text \<open>One flow of the data-ingest phase, admitted with 600 of the 1000 bps.\<close>

definition busy_flow :: flow_state where
  "busy_flow = \<lparr>fs_intent = 1, fs_group = 7, fs_phase = 1, fs_step = 5, fs_incarnation = 1,
     fs_service_class = SC_DataIngest, fs_effective_priority = 8, fs_granted_min_bps = 600,
     fs_granted_max_bps = 700, fs_bytes_estimate = 5000, fs_granted_at = 8, fs_isolated = False,
     fs_throttled = False\<rparr>"

definition busy_decision :: traffic_decision where
  "busy_decision = default_decision\<lparr>td_intent := 1, td_authority := sample_token 1 5 1, td_group := 7,
     td_phase := 1, td_phase_class := PC_DataIngest, td_contract_generation := 1,
     td_topology_generation := 1, td_policy_generation := 1, td_outcome := Admit, td_reason := EC_Ok,
     td_service_class := SC_DataIngest, td_effective_priority := 8, td_granted_min_bps := 600,
     td_granted_max_bps := 700, td_bytes_estimate := 5000, td_issued_at := 8, td_evidence := EvReal,
     td_explanation := [Clause EX_JobGenerationBound (tx_job_generation 1),
       Clause EX_StepBound (tx_step_phase 5 (phase_class_name PC_DataIngest)),
       Clause EX_GroupBound (tx_group 7), Clause EX_CapacityAvailable (tx_granted 600 700),
       Clause EX_PhaseClassKnown (ascii (phase_class_name PC_DataIngest)),
       Clause EX_AccountingOpened (tx_accounting_opened 5 1)]\<rparr>"

definition busy_step :: step_state where
  "busy_step = opened_step\<lparr>ss_flows := [(1, busy_flow)],
     ss_phase_accounting := [(1, empty_phase_accounting\<lparr>ph_admitted := 1, ph_bytes_committed := 5000\<rparr>),
       (2, empty_phase_accounting), (3, empty_phase_accounting)],
     ss_phase_active_flows := [(1, 1), (2, 0), (3, 0)],
     ss_accounting := (empty_accounting 5)\<lparr>sa_admitted := 1, sa_active_flows := 1,
       sa_bytes_committed := 5000, sa_granted_min_bps := 600, sa_active_min_bps := 600\<rparr>,
     ss_intents_seen := 1\<rparr>"

definition busy_job :: job_state where
  "busy_job = opened_job\<lparr>js_group_utilized_bps := [(7, 600)], js_group_active_flows := [(7, 1)],
     js_step := Some busy_step, js_decisions := [(1, busy_decision)], js_decision_order := [1],
     js_next_intent_id := 2, js_last_activity := 8\<rparr>"

definition busy :: fabric_state where
  "busy = opened\<lparr>fb_now := 8, fb_jobs := [(1, busy_job)],
     fb_stats := empty_stats\<lparr>st_operations := 8, st_decisions_admitted := 1,
       st_decisions_retained := 1, st_topology_generation := 1\<rparr>\<rparr>"

section \<open>They are reached\<close>

definition busy_op :: operation where
  "busy_op = Op_RequestTraffic (sample_intent 1 600 700 5000)"

lemma opened_reached: "execute (make_fabric default_config) start_ops = opened"
  by code_simp

lemma start_admissible: "admissible True (make_fabric default_config) start_ops"
  by code_simp

lemma busy_reached: "apply_operation opened busy_op = busy"
  by code_simp

lemma busy_admissible: "well_typed busy_op" "disciplined opened busy_op"
  by code_simp+

lemma admissible_weaken: "admissible True st xs \<Longrightarrow> admissible d st xs"
  by (induction xs arbitrary: st) auto

lemma run_opened: "run d default_config 7 opened"
proof -
  have "length start_ops = 7" by (simp add: start_ops_def)
  then show ?thesis
    using run_execute [OF admissible_weaken [OF start_admissible], of d] by (simp add: opened_reached)
qed

lemma run_next: "run d c n st \<Longrightarrow> well_typed x \<Longrightarrow> disciplined st x \<Longrightarrow> run d c (Suc n) (apply_operation st x)"
  by (simp add: run_def calls_one_more)

lemma run_busy: "run d default_config 8 busy"
  using run_next [OF run_opened busy_admissible, of d] by (simp add: busy_reached)

lemma opened_simps:
  "map_of (fb_jobs opened) 1 = Some opened_job" "js_step opened_job = Some opened_step"
  "js_contract opened_job = sample_contract"
  by (simp_all add: opened_def opened_job_def new_job_def Let_def)

lemma busy_simps:
  "map_of (fb_jobs busy) 1 = Some busy_job" "js_step busy_job = Some busy_step"
  "js_contract busy_job = sample_contract"
  by (simp_all add: busy_def busy_job_def opened_job_def new_job_def Let_def)

lemma sample_contract_fits: "contract_fits sample_contract"
  using default_contract_fits by (simp add: contract_fits_def sample_contract_def)

section \<open>Before the first step\<close>

definition idle :: fabric_state where
  "idle = execute (make_fabric default_config) (take 3 start_ops)"

definition sample_recovery :: recovery_request where
  "sample_recovery = \<lparr>rr_job = 1, rr_job_generation = 1, rr_new_boot = BootId 2 2,
     rr_expected_retired_incarnation = 1, rr_epoch = 0, rr_resume_step = 0, rr_cause = EC_ConnectionClosed\<rparr>"

definition replaced :: fabric_state where
  "replaced = apply_operation idle (Op_AdmitReplacement sample_recovery)"

lemma idle_admissible: "admissible True (make_fabric default_config) (take 3 start_ops)"
  by code_simp

lemma run_idle: "run d default_config 3 idle"
proof -
  have "length (take 3 start_ops) = 3" by (simp add: start_ops_def)
  then show ?thesis
    using run_execute [OF admissible_weaken [OF idle_admissible], of d] by (simp add: idle_def)
qed

lemma run_replaced: "run d default_config 4 replaced"
  using run_next [OF run_idle, of "Op_AdmitReplacement sample_recovery" d]
  by (simp add: replaced_def well_typed_def disciplined_def)

lemma replaced_job: "(case map_of (fb_jobs replaced) 1 of None \<Rightarrow> False | Some j \<Rightarrow> 1 \<in> js_retired_set j)"
  by code_simp

end
