(* ===== verification/Arbitration.thy ===== *)
theory Arbitration
  imports Scenario
begin

text \<open>
  What \<^verbatim>\<open>arbitrate_capacity\<close> promises: whom it may displace, that it displaces no more than
  it needs, and that the order in which the hash map of flows is walked does not show in
  the result.
\<close>

section \<open>Who is displaced\<close>

lemma take_victims_set:
  assumes "take_victims need a vs = (a', ws)"
  shows "set ws \<subseteq> set vs"
  using take_victims_prefix [OF assms] by auto

lemma arbitrate_capacity_victims:
  assumes "arbitrate_capacity st j s g prio lo hi = (cap, st')"
  obtains ws where "cr_preempted cap = map fs_intent ws"
    and "set ws \<subseteq> set (preemption_order (fb_policy st) s g prio)"
proof (cases "cr_reason cap = EC_Ok")
  case True
  from arbitrate_capacity_Ok [OF assms this] take_victims_set that show thesis
    by (metis empty_set empty_subsetI)
next
  case False
  then have "cr_preempted cap = []"
    using assms by (auto simp: arbitrate_capacity_def Let_def split: option.splits if_splits prod.splits)
  with that show thesis by fastforce
qed

lemma arbitrate_capacity_priority_255:
  assumes "arbitrate_capacity st j s g 255 lo hi = (cap, st')"
  shows "cr_preempted cap = []"
proof -
  have "(255 :: u8) = - 1" by simp
  then have "fs_effective_priority f \<le> 255" for f :: flow_state by (metis word_n1_ge)
  then have "preemption_order (fb_policy st) s g 255 = []"
    by (simp add: preemption_order_def preemptible_by_def)
  with arbitrate_capacity_victims [OF assms] show ?thesis by fastforce
qed

text \<open>
  C10: arbitration displaces only flows that are open in the step and on the requested group,
  whose priority is strictly less urgent than the priority it arbitrates with, and whose
  service class the policy in force declares preemptible and not barrier critical.
\<close>

theorem victims_less_urgent:
  assumes "arbitrate_capacity st j s g prio lo hi = (cap, st')" and "i \<in> set (cr_preempted cap)"
  shows "\<exists>f \<in> set (map snd (ss_flows s)). fs_intent f = i \<and> fs_group f = g \<and>
    prio < fs_effective_priority f \<and>
    (\<exists>spec. policy_find (fb_policy st) (fs_service_class f) = Some spec \<and>
       scs_preemptible spec \<and> \<not> scs_barrier_critical spec)"
proof -
  obtain ws where ws: "cr_preempted cap = map fs_intent ws"
    "set ws \<subseteq> set (preemption_order (fb_policy st) s g prio)"
    by (rule arbitrate_capacity_victims [OF assms(1)])
  with assms(2) obtain f where "f \<in> set ws" "fs_intent f = i" by auto
  with ws(2) have "fs_intent f = i" "f \<in> set (preemption_order (fb_policy st) s g prio)" by blast+
  then have f: "f \<in> set (map snd (ss_flows s))" "fs_intent f = i" "preemptible_by (fb_policy st) g prio f"
    by (simp_all add: preemption_order_def)
  from f(3) obtain spec where "policy_find (fb_policy st) (fs_service_class f) = Some spec"
    "scs_preemptible spec \<and> \<not> scs_barrier_critical spec" "fs_group f = g" "prio < fs_effective_priority f"
    by (cases "policy_find (fb_policy st) (fs_service_class f)") (simp_all add: preemptible_by_def not_le)
  with f(1,2) show ?thesis by blast
qed

section \<open>How many are displaced\<close>

lemma take_victims_enough:
  assumes "take_victims need a vs = (a', ws)" and "unat a + sum_list (map rate_of vs) < 2 ^ 64"
    and "ws = us @ [u]"
  shows "unat a + sum_list (map rate_of us) < unat need"
  using assms
proof (induction vs arbitrary: a a' ws us)
  case Nil
  then show ?case by simp
next
  case (Cons v vs)
  have low: "unat a < unat need" using Cons.prems by (auto simp: word_le_nat_alt not_le split: if_splits)
  obtain a1 ws1 where t: "take_victims need (a + fs_granted_min_bps v) vs = (a1, ws1)" by fastforce
  have ws: "ws = v # ws1" using Cons.prems(1) t low by (auto simp: word_le_nat_alt split: if_splits)
  have sum: "unat (a + fs_granted_min_bps v) = unat a + rate_of v"
    using Cons.prems(2) by (intro unat_plus64) simp
  show ?case
  proof (cases us)
    case Nil
    with low show ?thesis by simp
  next
    case (Cons v' us')
    with Cons.prems(3) ws have "ws1 = us' @ [u]" "v' = v" by simp_all
    with Cons.IH [OF t] Cons.prems(2) sum \<open>us = v' # us'\<close> show ?thesis by simp
  qed
qed

lemma preemption_room:
  assumes T: "job_tight j" and ok: "job_ok j" and fits: "contract_fits (js_contract j)"
    and s: "js_step j = Some s" and link: "topology_find (js_topology j) g = Some link"
  shows "unat (sat_sub (available_bps link) (utilized_bps j g)) +
      sum_list (map rate_of (preemption_order policy s g prio)) < 2 ^ 64"
proof -
  let ?vs = "preemption_order policy s g prio" and ?in = "\<lambda>f. fs_group f = g"
  have fo: "flows_ok j s" using job_okD(2) [OF ok s] .
  have order: "map_of (ss_flows s) (fs_intent f) = Some f \<and> ?in f" if "f \<in> set ?vs" for f
    using preemption_order_props(2) [OF fo that] by (simp add: preemptible_by_def)
  have "tally ?in rate_of (fold del (map fs_intent ?vs) (ss_flows s)) + sum_list (map rate_of ?vs)
      = tally ?in rate_of (ss_flows s)"
    using fo preemption_order_props(1) [OF fo] order by (intro tally_fold_del) (simp_all add: flows_ok_def)
  moreover have "tally ?in rate_of (ss_flows s) = unat (utilized_bps j g)"
    using tightD(3) [OF T fits] s by (simp add: open_flows_def)
  moreover have "unat (utilized_bps j g) \<le> unat (available_bps link)"
    using tightD(2) [OF T fits, of g] link by (simp add: link_limit_def)
  ultimately show ?thesis using unat_max64 [of "available_bps link"] by simp
qed

lemma run_tight:
  assumes "run True c n st" and "n < 2 ^ 63" and "map_of (fb_jobs st) k = Some j"
  shows "job_tight j" and "job_ok j"
  using tight.in_run [OF assms] well_formed.in_run [OF assms] by simp_all


section \<open>Independence of the container\<close>

lemma victim_before_total:
  assumes "inj_on fs_intent A"
  shows "strict_total_on A victim_before"
  using assms
  by (auto simp: strict_total_on_def victim_before_def inj_on_def not_less le_less split: if_splits)

lemma preemption_order_perm:
  assumes fo: "flows_ok j s" and perm: "mset fl = mset (ss_flows s)"
  shows "preemption_order policy (s\<lparr>ss_flows := fl\<rparr>) g prio = preemption_order policy s g prio"
proof -
  let ?sel = "\<lambda>t. filter (preemptible_by policy g prio) (map snd t)"
  note P = preemption_order_props(1) [OF fo, of policy g prio]
  have d: "distinct (?sel (ss_flows s))" "inj_on fs_intent (set (?sel (ss_flows s)))"
    using P by (auto simp: preemption_order_def distinct_map)
  have "mset (?sel (ss_flows s)) = mset (?sel fl)" using perm by simp
  from std_sort_perm [OF victim_before_total [OF d(2)] d(1) this] show ?thesis
    by (simp add: preemption_order_def)
qed

text \<open>
  C12: the result of arbitration does not depend on the order in which the container holds
  the open flows: in every state of a run, permuting the table of flows leaves the grant,
  the victims, their order and the counters as they are.
\<close>

theorem arbitration_order_independent:
  assumes "run d c n st" and "n < 2 ^ 63" and "map_of (fb_jobs st) k = Some j"
    and "js_step j = Some s" and "mset fl = mset (ss_flows s)"
  shows "arbitrate_capacity st j (s\<lparr>ss_flows := fl\<rparr>) g prio lo hi = arbitrate_capacity st j s g prio lo hi"
proof -
  have "flows_ok j s" using job_okD(2) [OF well_formed.in_run [OF assms(1-3)] assms(4)] .
  note order = preemption_order_perm [OF this assms(5)]
  have "length fl = length (ss_flows s)" using assms(5) by (metis size_mset)
  then have len: "length (ss_flows (s\<lparr>ss_flows := fl\<rparr>)) = length (ss_flows s)" by simp
  show ?thesis unfolding arbitrate_capacity_def order len ..
qed

section \<open>At the sample run\<close>

text \<open>A gradient flow of 800 bps displaces the data-ingest flow of 600 on the link of 1000.\<close>

definition sample_arbitration :: "capacity_result \<times> fabric_state" where
  "sample_arbitration = arbitrate_capacity busy busy_job busy_step 7 3 800 900"

lemma sample_arbitration_victim: "cr_preempted (fst sample_arbitration) = [1]"
  by code_simp

lemma sample_arbitration_pair:
  "arbitrate_capacity busy busy_job busy_step 7 3 800 900 = (fst sample_arbitration, snd sample_arbitration)"
  by (simp add: sample_arbitration_def)

theorem victims_less_urgent_witness:
  "\<exists>f \<in> set (map snd (ss_flows busy_step)). fs_intent f = 1 \<and> fs_group f = 7 \<and>
    3 < fs_effective_priority f \<and>
    (\<exists>spec. policy_find (fb_policy busy) (fs_service_class f) = Some spec \<and>
       scs_preemptible spec \<and> \<not> scs_barrier_critical spec)"
  by (rule victims_less_urgent [OF sample_arbitration_pair]) (simp add: sample_arbitration_victim)


theorem arbitration_order_independent_witness:
  "arbitrate_capacity busy busy_job (busy_step\<lparr>ss_flows := rev (ss_flows busy_step)\<rparr>) 7 3 800 900
     = arbitrate_capacity busy busy_job busy_step 7 3 800 900"
  by (rule arbitration_order_independent [OF run_busy _ busy_simps(1,2)]) simp_all

end
