(* ===== verification/Authority.thy ===== *)
theory Authority
  imports Scenario
begin

text \<open>
  Authority over time: what a token must name for a call to act, that a token that does not
  resolve changes nothing but the evidence of its refusal, and that an incarnation, a step id
  or an epoch that has been superseded stays superseded in every later state.
\<close>

section \<open>The token of an operation\<close>

text \<open>
  The operations that act on the authority of a token. \<^verbatim>\<open>RequestTraffic\<close> answers a refusal
  with a decision and is treated apart; registration, policies, epochs and replacements
  carry no token.
\<close>

definition authority_of :: "operation \<Rightarrow> authority_token option" where
  "authority_of x =
     (case x of
        Op_RegisterGroup r \<Rightarrow> Some (gr_authority r)
      | Op_PublishTopologyEvidence a e \<Rightarrow> Some a
      | Op_RetireJob a \<Rightarrow> Some a
      | Op_BeginStep r \<Rightarrow> Some (so_authority r)
      | Op_BeginPhase r \<Rightarrow> Some (po_authority r)
      | Op_EndPhase a p d \<Rightarrow> Some a
      | Op_EndStep a d \<Rightarrow> Some a
      | Op_CompleteFlow c \<Rightarrow> Some (fc_authority c)
      | Op_RevalidateFlow a i \<Rightarrow> Some a
      | Op_BeginCheckpointBurst r \<Rightarrow> Some (cb_authority r)
      | Op_EndCheckpointBurst a b \<Rightarrow> Some a
      | Op_EvaluatePacing i \<Rightarrow> Some (pi_authority i)
      | Op_RetireIncarnation a \<Rightarrow> Some a
      | _ \<Rightarrow> None)"

lemmas api_defs = apply_operation_def RegisterJob_def RegisterGroup_def PublishTopologyEvidence_def
  ApplyPolicy_def RetireJob_def BeginStep_def BeginPhase_def EndPhase_def EndStep_def
  RequestTraffic_def CompleteFlow_def RevalidateFlow_def BeginCheckpointBurst_def
  EndCheckpointBurst_def EvaluatePacing_def AdmitReplacement_def RetireIncarnation_def

lemmas gate_refusals =
  register_group_gate.refused_only_fences publish_topology_gate.refused_only_fences
  retire_job_gate.refused_only_fences begin_step_gate.refused_only_fences
  begin_phase_gate.refused_only_fences end_phase_gate.refused_only_fences
  end_step_gate.refused_only_fences revalidate_flow_gate.refused_only_fences
  begin_burst_gate.refused_only_fences end_burst_gate.refused_only_fences
  evaluate_pacing_gate.refused_only_fences retire_incarnation_gate.refused_only_fences


section \<open>Refused traffic\<close>

text \<open>What of a job a request for traffic could have moved.\<close>

definition traffic_view where
  "traffic_view j = (js_group_utilized_bps j, js_group_active_flows j,
     map_option (\<lambda>s. (ss_flows s, ss_accounting s, ss_phase_accounting s, ss_phases s)) (js_step j))"

lemma traffic_view_simps [simp]:
  "traffic_view (j\<lparr>js_recent_fences := a\<rparr>) = traffic_view j"
  "traffic_view (j\<lparr>js_next_intent_id := b\<rparr>) = traffic_view j"
  "traffic_view (j\<lparr>js_decisions := c, js_decision_order := e\<rparr>) = traffic_view j"
  by (simp_all add: traffic_view_def)

lemma record_decision_view:
  "record_decision st j d = (st', j') \<Longrightarrow> traffic_view j' = traffic_view j \<and> fb_jobs st' = fb_jobs st"
  by (auto simp: record_decision_def Let_def split: prod.splits)

lemma fenced_clause_fields [simp]:
  "td_outcome (fenced_clause st e d) = td_outcome d" "td_reason (fenced_clause st e d) = td_reason d"
  by (simp_all add: fenced_clause_def add_code_def)

lemma reject_decision_fields:
  "td_outcome (fst (reject_decision st j i p r b)) = Reject"
  "td_reason (fst (reject_decision st j i p r b)) = r"
  "fb_jobs (snd (reject_decision st j i p r b)) = fb_jobs st"
  by (simp_all add: reject_decision_def add_clause_def)

lemma refuse_traffic_result:
  assumes ok: "refusal_ok st (ti_authority i) f"
  shows "\<exists>d. fst (refuse_traffic st i f) = Inr d \<and> td_outcome d = Reject \<and> td_reason d = rf_failure f"
    and "map_option traffic_view (map_of (fb_jobs (snd (refuse_traffic st i f))) k) =
         map_option traffic_view (map_of (fb_jobs st) k)"
proof -
  have "(\<exists>d. fst (refuse_traffic st i f) = Inr d \<and> td_outcome d = Reject \<and> td_reason d = rf_failure f) \<and>
    map_option traffic_view (map_of (fb_jobs (snd (refuse_traffic st i f))) k) =
      map_option traffic_view (map_of (fb_jobs st) k)"
  proof (cases "rf_job f")
    case None
    then show ?thesis by (simp add: refuse_traffic_def add_clause_def)
  next
    case (Some j)
    with ok have j: "map_of (fb_jobs st) (at_job (ti_authority i)) = Some j"
      and step: "\<And>s. rf_step f = Some s \<Longrightarrow> js_step j = Some s" by (auto simp: refusal_ok_def)
    obtain st1 j1 where rf: "record_fence st j (rf_fence f) = (st1, j1)" by fastforce
    then have 1: "traffic_view j1 = traffic_view j" "js_step j1 = js_step j" "fb_jobs st1 = fb_jobs st"
      by (auto simp: record_fence_def)
    define j2 where "j2 = (case rf_step f of None \<Rightarrow> j1
        | Some s \<Rightarrow> j1\<lparr>js_step := Some (record_step_fence st s (rf_fence f))\<rparr>)"
    have 2: "traffic_view j2 = traffic_view j"
      using 1 step by (auto simp: j2_def traffic_view_def record_step_fence_def split: option.split)
    let ?st2 = "bump st_fenced_operations_update st1"
    obtain d0 st3 where rj: "reject_decision ?st2 j2 i None (rf_failure f) (rf_detail f) = (d0, st3)" by fastforce
    have 3: "td_outcome d0 = Reject" "td_reason d0 = rf_failure f" "fb_jobs st3 = fb_jobs st"
      using reject_decision_fields [of ?st2 j2 i None "rf_failure f" "rf_detail f"] rj 1(3) by simp_all
    let ?d = "(fenced_clause st3 (rf_failure f) d0)\<lparr>td_intent := js_next_intent_id j2\<rparr>"
    obtain st4 j4 where rd: "record_decision st3 (j2\<lparr>js_next_intent_id := js_next_intent_id j2 + 1\<rparr>) ?d = (st4, j4)"
      by fastforce
    have 4: "traffic_view j4 = traffic_view j" "fb_jobs st4 = fb_jobs st"
      using record_decision_view [OF rd] 2 3(3) by simp_all
    have "refuse_traffic st i f = (Inr ?d, store_job (at_job (ti_authority i)) j4 st4)"
      using Some by (simp add: refuse_traffic_def Let_def rf rj rd j2_def [symmetric])
    then show ?thesis using 3 4 j by simp
  qed
  then show "\<exists>d. fst (refuse_traffic st i f) = Inr d \<and> td_outcome d = Reject \<and> td_reason d = rf_failure f"
    "map_option traffic_view (map_of (fb_jobs (snd (refuse_traffic st i f))) k) =
      map_option traffic_view (map_of (fb_jobs st) k)" by blast+
qed

text \<open>
  A well-formed traffic intent whose token does not resolve to an open phase is answered
  with a rejection that names the failure; no flow is opened, displaced or changed, and no
  accounting and no utilisation of any job moves.
\<close>

lemma refused_traffic_inert:
  assumes "intent_validate i = Inr ()" and "resolve_phase (tick st) (ti_authority i) = Inl f"
  shows "\<exists>d. fst (RequestTraffic st i) = Inr d \<and> td_outcome d = Reject \<and> td_reason d = rf_failure f \<and>
    (\<forall>k. map_option traffic_view (map_of (fb_jobs (snd (RequestTraffic st i))) k) =
         map_option traffic_view (map_of (fb_jobs st) k))"
proof -
  have "RequestTraffic st i = refuse_traffic (tick st) i f"
    using assms by (simp add: RequestTraffic_def request_traffic_def ttf_try_def)
  then show ?thesis using refuse_traffic_result [OF resolve_phase_Inl [OF assms(2)]] by simp
qed

section \<open>Admission\<close>

lemma finish_request_decision: "fst (finish_request k i p w d) = Inr (d\<lparr>td_intent := i\<rparr>)"
  by (cases w) (simp add: finish_request_def Let_def split: prod.split)

lemma finish_request_admitted:
  "fst (finish_request k i p w d) = Inr d' \<Longrightarrow> td_outcome d' = td_outcome d"
  by (auto simp: finish_request_decision)

text \<open>
  C1: traffic is admitted only on live authority. A decision that admits was asked for with
  a token that names an existing, unretired job, its generation, boot identity, contract
  generation and live incarnation, the current epoch and topology generation where the job
  has them, the open step, and a phase of it that is still open.
\<close>

theorem admission_needs_live_authority:
  assumes "fst (RequestTraffic st i) = Inr d" and "admitted d"
  shows "\<exists>j s p. let t = ti_authority i in
    map_of (fb_jobs st) (at_job t) = Some j \<and> \<not> js_retired j \<and>
    at_job_generation t = js_generation j \<and> at_boot t = js_boot j \<and>
    at_contract_generation t = wc_generation (js_contract j) \<and>
    at_incarnation t = js_incarnation j \<and> at_incarnation t \<notin> js_retired_set j \<and>
    (js_epoch j \<noteq> 0 \<longrightarrow> at_epoch t = js_epoch j) \<and>
    (te_generation (js_topology j) \<noteq> 0 \<longrightarrow> at_topology_generation t = te_generation (js_topology j)) \<and>
    js_step j = Some s \<and> at_step t = ss_step s \<and>
    map_of (ss_phases s) (at_phase t) = Some p \<and> phase_active p"
proof -
  have v: "intent_validate i = Inr ()"
    using assms(1) by (auto simp: RequestTraffic_def request_traffic_def ttf_try_def split: sum.splits)
  obtain j s p where r: "resolve_phase (tick st) (ti_authority i) = Inr (j, s, p)"
  proof (cases "resolve_phase (tick st) (ti_authority i)")
    case (Inl f)
    have "RequestTraffic st i = refuse_traffic (tick st) i f"
      using v Inl by (simp add: RequestTraffic_def request_traffic_def ttf_try_def)
    with refuse_traffic_result(1) [OF resolve_phase_Inl [OF Inl]] assms show ?thesis
      by (auto simp: admitted_def)
  qed (metis that prod_cases3)
  note P = resolve_phase_Inr [OF r] and S = resolve_step_Inr [OF resolve_phase_Inr(1) [OF r]]
  note J = job_failure_None [OF S(2)] and F = step_failure_None [OF S(4)]
  show ?thesis
    using P(2,3) S(1,3) J F(2) by (intro exI [of _ j] exI [of _ s] exI [of _ p]) (simp add: Let_def valid_def)
qed

section \<open>Superseded for good\<close>

lemma resolve_job_blocked:
  assumes "map_of (fb_jobs st) (at_job t) = Some j" and "job_failure (fb_policy st) j t \<noteq> None"
  shows "\<exists>f. resolve_job st t = Inl f"
  using assms by (auto simp: resolve_job_def)

lemma later_job:
  assumes "run d c n st" and "calls d st m st'" and "n + m < 2 ^ 63" and "map_of (fb_jobs st) k = Some j"
  obtains j' where "map_of (fb_jobs st') k = Some j'" and "job_advances j j'"
  using advancing.later [OF assms(2) run_run_state [OF assms(1)] _ assms(4)] assms(3) by auto

text \<open>
  C7: an incarnation that has been retired never acts again. In every state that follows,
  whatever calls were made in between, a token that names it is refused by the job.
\<close>

theorem retired_incarnation_stays_fenced:
  assumes "run d c n st" and "calls d st m st'" and "n + m < 2 ^ 63"
    and "map_of (fb_jobs st) k = Some j" and "i \<in> js_retired_set j"
    and "at_job t = k" and "at_incarnation t = i"
  shows "\<exists>f. resolve_job st' t = Inl f"
proof -
  obtain j' where j': "map_of (fb_jobs st') k = Some j'" "job_advances j j'"
    by (rule later_job [OF assms(1-4)])
  have "at_incarnation t \<in> js_retired_set j'" using j'(2) assms(5,7) by (auto simp: job_advances_def)
  then have "job_failure (fb_policy st') j' t \<noteq> None" using job_failure_None(5) by blast
  with j'(1) assms(6) show ?thesis by (intro resolve_job_blocked) simp_all
qed

lemma begin_step_success:
  assumes "begin_step st req = (Inr r, st')"
  obtains j where "map_of (fb_jobs st) (at_job (so_authority req)) = Some j" and "js_highest_step j < so_step req"
    and "\<exists>j'. map_of (fb_jobs st') (at_job (so_authority req)) = Some j' \<and> js_highest_step j' = so_step req"
proof -
  obtain j where j: "resolve_job st (so_authority req) = Inr j"
    using begin_step_gate.success_was_authorised [OF assms] by blast
  note J = resolve_job_Inr(1) [OF j]
  have "js_highest_step j < so_step req"
    "\<exists>j'. map_of (fb_jobs st') (at_job (so_authority req)) = Some j' \<and> js_highest_step j' = so_step req"
    using assms j by (auto simp: begin_step_def require_def Let_def not_le split: if_splits)
  with J that show thesis by blast
qed

lemma begin_step_stale:
  assumes "map_of (fb_jobs st) (at_job (so_authority req)) = Some j" and "so_step req \<le> js_highest_step j"
  shows "\<exists>e. fst (begin_step st req) = Inl e"
proof (rule ccontr)
  assume "\<not> ?thesis"
  then obtain r where "fst (begin_step st req) = Inr r" by (cases "fst (begin_step st req)") auto
  then have "begin_step st req = (Inr r, snd (begin_step st req))" by (metis prod.collapse)
  then obtain j' where "map_of (fb_jobs st) (at_job (so_authority req)) = Some j'" "js_highest_step j' < so_step req"
    by (rule begin_step_success)
  with assms show False by simp
qed

text \<open>
  C9: step ids only grow. Once a step has been opened, no later call opens a step of the job
  with the same or a smaller id, whether the step is open, closed or fenced by then.
\<close>

theorem step_never_reopened:
  assumes "run d c n st" and "BeginStep st req = (Inr r, st1)" and "calls d st1 m st2" and "n + m < 2 ^ 62"
    and "at_job (so_authority req') = at_job (so_authority req)" and "so_step req' \<le> so_step req"
  shows "\<exists>e. fst (BeginStep st2 req') = Inl e"
proof -
  have st1: "st1 = apply_operation st (Op_BeginStep req)"
    using assms(2) by (simp add: apply_operation_def)
  have run1: "run d c (Suc n) st1"
    using assms(1) unfolding run_def st1
    by (rule calls_one_more) (simp_all add: well_typed_def disciplined_def)
  obtain j1 where j1: "map_of (fb_jobs st1) (at_job (so_authority req)) = Some j1"
    "js_highest_step j1 = so_step req"
    using begin_step_success [OF assms(2) [unfolded BeginStep_def]] by blast
  obtain j2 where j2: "map_of (fb_jobs st2) (at_job (so_authority req)) = Some j2" "job_advances j1 j2"
    using later_job [OF run1 assms(3) _ j1(1)] assms(4) by auto
  have "so_step req' \<le> js_highest_step j2"
    using j1(2) j2(2) assms(6) by (auto simp: job_advances_def)
  then show ?thesis
    using begin_step_stale [of "tick st2" req' j2] j2(1) assms(5) by (simp add: BeginStep_def)
qed

section \<open>Replacement\<close>

lemma close_each_job_frame:
  assumes "close_each r mark is (st, j, s) = ((st', j', s'), n)"
  shows "job_frame j' = job_frame j"
proof -
  have "closing (pack j s) (pack j' s')" by (rule close_each_closing [OF closing_refl assms])
  from closing_frame [OF this] show ?thesis by (simp add: job_frame_def)
qed

lemma fence_open_step_job_frame:
  assumes "fence_open_step st j s r = (st', j', report)"
  shows "js_incarnation j' = js_incarnation j" and "js_next_incarnation j' = js_next_incarnation j"
    and "js_boot j' = js_boot j" and "js_highest_step j' = js_highest_step j"
proof -
  let ?ev = "(make_fence st (ss_step s) 0 0)
            \<lparr>fe_reason := r, fe_observed_incarnation := ss_incarnation s,
             fe_current_incarnation := js_incarnation j, fe_observed_epoch := js_epoch j,
             fe_current_epoch := js_epoch j\<rparr>"
  obtain st1 j1 where rf: "record_fence st j ?ev = (st1, j1)" by fastforce
  obtain st2 j2 s2 where ca: "cancel_all_flows st1 j1 (record_step_fence st s ?ev) r = (st2, j2, s2)"
    by (metis prod_cases3)
  obtain w n where ce: "close_each r (\<lambda>d. d\<lparr>td_outcome := Reject, td_reason := r, td_invalidated := True\<rparr>)
      (std_sort (<) (keys (ss_flows (record_step_fence st s ?ev)))) (st1, j1, record_step_fence st s ?ev) = (w, n)"
    by fastforce
  with ca have "w = (st2, j2, s2)" by (simp add: cancel_all_flows_def)
  from close_each_job_frame [OF ce [unfolded this]] have "job_frame j2 = job_frame j"
    using job_core_eqs [OF record_fence_core(1) [OF rf]] by (simp add: job_frame_def)
  moreover have seal: "seal_step st2 j2 (close_phases PhaseFenced (fb_now st2) s2)
      (sa_cancelled (ss_accounting (close_phases PhaseFenced (fb_now st2) s2)) > 0) = (st', j', report)"
    using assms rf ca by (simp add: fence_open_step_def Let_def)
  ultimately show "js_incarnation j' = js_incarnation j" "js_next_incarnation j' = js_next_incarnation j"
    "js_boot j' = js_boot j" "js_highest_step j' = js_highest_step j"
    using seal_step_props(3,19,20,21) [OF seal] by (simp_all add: job_frame_def)
qed

lemma admit_replacement_success:
  assumes "admit_replacement st req = (Inr g, st')" and ready: "ready st"
  obtains j j' where "map_of (fb_jobs st) (rr_job req) = Some j" and "map_of (fb_jobs st') (rr_job req) = Some j'"
    and "js_incarnation j \<in> js_retired_set j'" and "js_incarnation j' = js_next_incarnation j"
    and "js_boot j' = rr_new_boot req" and "rr_new_boot req \<noteq> js_boot j" and "js_step j' = None"
    and "rg_new_incarnation g = js_incarnation j'" and "rg_retired_incarnation g = js_incarnation j"
    and "rg_resume_step_floor g = js_highest_step j'" and "rr_expected_retired_incarnation req = js_incarnation j"
proof -
  obtain j where j: "map_of (fb_jobs st) (rr_job req) = Some j"
    using assms(1) by (auto simp: admit_replacement_def split: option.splits)
  have checks: "replacement_checks j req = Inr ()"
    using assms(1) j by (auto simp: admit_replacement_def ttf_try_def split: sum.splits)
  define w where "w = (case js_step j of None \<Rightarrow> (st, j, 0, 0)
      | Some step \<Rightarrow> (let (st1, job1, report) = fence_open_step st j step EC_IncarnationRetired
          in (st1, job1, sa_cancelled (rp_accounting report), ucast (rp_fences_observed report) :: u32)))"
  obtain st1 j1 x y where "w = (st1, j1, x, y)" by (cases w)
  note f = this [unfolded w_def]
  have j1: "js_step j1 = None \<and> js_incarnation j1 = js_incarnation j \<and> js_next_incarnation j1 = js_next_incarnation j
      \<and> fb_jobs st1 = fb_jobs st"
  proof (cases "js_step j")
    case None
    with f show ?thesis by simp
  next
    case (Some s)
    obtain a b r where fo: "fence_open_step st j s EC_IncarnationRetired = (a, b, r)" by (metis prod_cases3)
    with f Some have ab: "a = st1" "b = j1" by simp_all
    show ?thesis
      using fence_open_step_props(2,3) [OF readyD(1) [OF ready j] Some fo] fence_open_step_job_frame(1,2) [OF fo]
      unfolding ab by simp
  qed
  have boot: "rr_new_boot req \<noteq> js_boot j" "rr_expected_retired_incarnation req = js_incarnation j"
    using checks by (simp_all add: replacement_checks_def)
  have eqs: "rg_retired_incarnation g = js_incarnation j" "rg_new_incarnation g = js_next_incarnation j1"
    "rg_resume_step_floor g = js_highest_step j1"
    "\<exists>a. fb_jobs st' = put (rr_job req) ((retire_current st1 j1 (rr_cause req))
      \<lparr>js_incarnation := js_next_incarnation j1, js_next_incarnation := js_next_incarnation j1 + 1,
       js_boot := rr_new_boot req, js_last_activity := a\<rparr>) (fb_jobs st1)"
    using assms(1) [unfolded admit_replacement_def j option.case Let_def f [unfolded Let_def] prod.case
        checks ttf_try_def sum.case]
    by (auto simp: retire_current_def)
  then obtain a where st': "fb_jobs st' = put (rr_job req) ((retire_current st1 j1 (rr_cause req))
      \<lparr>js_incarnation := js_next_incarnation j1, js_next_incarnation := js_next_incarnation j1 + 1,
       js_boot := rr_new_boot req, js_last_activity := a\<rparr>) (fb_jobs st1)" by blast
  show thesis
    by (rule that [OF j, of "(retire_current st1 j1 (rr_cause req))
      \<lparr>js_incarnation := js_next_incarnation j1, js_next_incarnation := js_next_incarnation j1 + 1,
       js_boot := rr_new_boot req, js_last_activity := a\<rparr>"])
      (use j1 boot eqs(1-3) in \<open>simp_all add: st' retire_current_def\<close>)
qed


section \<open>Epochs\<close>

lemma rebase_jobs_all:
  "rebase_jobs e es = (es', Some n) \<Longrightarrow>
     es' = map_vals (\<lambda>j. j\<lparr>js_epoch := e\<rparr>) es \<and> (\<forall>x \<in> set es. js_epoch (snd x) < e)"
  by (induction es arbitrary: es' n) (auto simp: map_vals_def split: if_splits prod.splits)

text \<open>
  A rebase that succeeds moves every job to the new epoch, which is above the one it
  had, and from then on a token of another epoch is refused by every job.
\<close>

lemma rebase_fences_old_epochs:
  assumes "RebaseEpoch st e = (Inr n, st')" and "map_of (fb_jobs st') k = Some j"
  shows "js_epoch j = e \<and> (\<exists>j0. map_of (fb_jobs st) k = Some j0 \<and> js_epoch j0 < e) \<and>
    (\<forall>t. at_job t = k \<and> at_epoch t \<noteq> e \<longrightarrow> (\<exists>f. resolve_job st' t = Inl f))"
proof (intro conjI allI impI)
  obtain es m where r: "rebase_jobs e (fb_jobs (tick st)) = (es, m)" by fastforce
  with assms(1) have m: "m = Some n" and st': "fb_jobs st' = es" and e: "valid e"
    by (auto simp: RebaseEpoch_def require_def Let_def split: if_splits option.splits)
  note R = rebase_jobs_all [OF r [unfolded m]]
  from R assms(2) st' obtain j0 where j0: "map_of (fb_jobs st) k = Some j0" "j = j0\<lparr>js_epoch := e\<rparr>" by auto
  then show je: "js_epoch j = e" by simp
  show "\<exists>j0. map_of (fb_jobs st) k = Some j0 \<and> js_epoch j0 < e"
    using j0(1) map_of_SomeD [OF j0(1)] R by auto
  show "\<exists>f. resolve_job st' t = Inl f" if "at_job t = k \<and> at_epoch t \<noteq> e" for t
  proof (rule resolve_job_blocked)
    show "map_of (fb_jobs st') (at_job t) = Some j" using assms(2) that by simp
    show "job_failure (fb_policy st') j t \<noteq> None"
      using job_failure_None(3) [of "fb_policy st'" j t] that je e by blast
  qed
qed

section \<open>At the sample run\<close>

lemma sample_stale: "isl (resolve_job (tick opened) (sample_token 2 5 0))"
  by code_simp


lemma sample_unopened_phase: "isl (resolve_phase (tick opened) (ti_authority (sample_intent 9 600 700 5000)))"
  and sample_intent_valid: "intent_validate (sample_intent 9 600 700 5000) = Inr ()"
  by code_simp+

theorem refused_traffic_inert_witness:
  "\<exists>d. fst (RequestTraffic opened (sample_intent 9 600 700 5000)) = Inr d \<and> td_outcome d = Reject \<and>
    (\<forall>k. map_option traffic_view (map_of (fb_jobs (snd (RequestTraffic opened (sample_intent 9 600 700 5000)))) k) =
         map_option traffic_view (map_of (fb_jobs opened) k))"
  using refused_traffic_inert [OF sample_intent_valid,
      of opened "projl (resolve_phase (tick opened) (ti_authority (sample_intent 9 600 700 5000)))"]
    sample_unopened_phase by auto

lemma busy_answer: "fst (RequestTraffic opened (sample_intent 1 600 700 5000)) = Inr busy_decision"
  by code_simp

theorem admission_needs_live_authority_witness:
  "\<exists>j s p. map_of (fb_jobs opened) 1 = Some j \<and> \<not> js_retired j \<and> js_incarnation j = 1 \<and>
    1 \<notin> js_retired_set j \<and> js_step j = Some s \<and> ss_step s = 5 \<and>
    map_of (ss_phases s) 1 = Some p \<and> phase_active p"
proof -
  have "admitted busy_decision" by (simp add: admitted_def busy_decision_def)
  from admission_needs_live_authority [OF busy_answer this] show ?thesis
    by (auto simp: Let_def sample_intent_def sample_token_def)
qed

theorem retired_incarnation_stays_fenced_witness:
  "\<exists>f. resolve_job (apply_operation replaced (Op_RebaseEpoch 5)) (sample_token 1 0 0) = Inl f"
proof -
  obtain j where j: "map_of (fb_jobs replaced) 1 = Some j" "1 \<in> js_retired_set j"
    using replaced_job by (auto split: option.splits)
  have "calls False replaced (Suc 0) (apply_operation replaced (Op_RebaseEpoch 5))"
    by (rule calls_one_more [OF calls_none]) (simp_all add: well_typed_def)
  from retired_incarnation_stays_fenced [OF run_replaced this _ j, of "sample_token 1 0 0"] show ?thesis
    by (simp add: sample_token_def)
qed

lemma idle_begins: "\<not> isl (fst (BeginStep idle sample_step))"
  by code_simp

theorem step_never_reopened_witness:
  "\<exists>e. fst (BeginStep (snd (BeginStep idle sample_step)) sample_step) = Inl e"
proof -
  have "BeginStep idle sample_step = (Inr (projr (fst (BeginStep idle sample_step))), snd (BeginStep idle sample_step))"
    using idle_begins by (metis prod.collapse sum.collapse(2))
  from step_never_reopened [OF run_idle this calls_none, where req' = sample_step] show ?thesis by simp
qed

lemma idle_replaces: "\<not> isl (fst (AdmitReplacement idle sample_recovery))"
  by code_simp


lemma idle_rebases: "fst (RebaseEpoch idle 5) = Inr 1"
  and idle_rebased: "map_of (fb_jobs (snd (RebaseEpoch idle 5))) 1 \<noteq> None"
  by code_simp+

theorem rebase_fences_old_epochs_witness:
  "\<exists>f. resolve_job (snd (RebaseEpoch idle 5)) (sample_token 1 0 0) = Inl f"
proof -
  have "RebaseEpoch idle 5 = (Inr 1, snd (RebaseEpoch idle 5))" using idle_rebases by (metis prod.collapse)
  moreover obtain j where "map_of (fb_jobs (snd (RebaseEpoch idle 5))) 1 = Some j" using idle_rebased by blast
  ultimately show ?thesis
    using rebase_fences_old_epochs [of idle 5 1 "snd (RebaseEpoch idle 5)" 1 j] by (simp add: sample_token_def)
qed

end
