(* ===== verification/Settlement.thy ===== *)
theory Settlement
  imports Arbitration Authority
begin

text \<open>
  The books: that the counters of an open step are the sums over the flows it holds, that
  what a closed step reports is balanced, that a link is never granted beyond its capacity,
  and what completing a flow, ending a phase, ending a step and a new generation settle.
\<close>

section \<open>An open step\<close>

lemma tally_all: "tally (\<lambda>_. True) w t = (\<Sum>e\<leftarrow>t. w (snd e))"
  by (simp add: tally_def comp_def)

lemma run_step:
  assumes "run d c n st" and "n < 2 ^ 63" and "map_of (fb_jobs st) k = Some j" and "js_step j = Some s"
  shows "job_ok j" and "flows_ok j s" and "contract_fits (js_contract j) \<Longrightarrow> ledger (js_contract j) s"
    and "contract_fits (js_contract j) \<Longrightarrow> phase_ledger s"
  using well_formed.in_run [OF assms(1-3)] assms(4) by (auto simp: job_ok_def step_ok_def)


text \<open>
  The same holds phase by phase: what a phase has committed is what it has completed
  plus the estimates of its own flows, and its active count is the number of them.
\<close>

lemma open_phase_counters_exact:
  assumes "run d c n st" and "n < 2 ^ 63" and "map_of (fb_jobs st) k = Some j" and "js_step j = Some s"
    and "contract_fits (js_contract j)"
  shows "let a = phase_accounting_of s i; mine = filter (\<lambda>e. fs_phase (snd e) = i) (ss_flows s) in
    unat (ph_bytes_committed a) =
      unat (ph_bytes_completed a) + (\<Sum>e\<leftarrow>mine. unat (fs_bytes_estimate (snd e))) \<and>
    unat (get0 (ss_phase_active_flows s) i) = length mine"
  using phase_ledgerD(1,3) [OF run_step(4) [OF assms], of i]
  by (simp add: Let_def exact_def tally_def comp_def sum_list_triv)

section \<open>The history\<close>

text \<open>
  Every report a job keeps is settled: it is marked closed, has no active flow and no
  granted rate left, and the bytes committed are the bytes completed.
\<close>

lemma reports_settled:
  assumes "run d c n st" and "n < 2 ^ 63" and "map_of (fb_jobs st) k = Some j"
    and "contract_fits (js_contract j)" and "r \<in> set (js_history j)"
  shows "sa_closed (rp_accounting r) \<and> report_balanced r"
  using well_formed.in_run [OF assms(1-3)] assms(4,5) by (simp add: job_ok_def history_ok_def)

text \<open>
  The history of a job is in strictly ascending order of step ids, has no report of a
  step above the highest opened or of the one still open, and is as long as the contract
  allows, at least one.
\<close>

lemma history_ordered:
  assumes "run d c n st" and "n < 2 ^ 63" and "map_of (fb_jobs st) k = Some j"
  shows "sorted_wrt (<) (map rp_step (js_history j)) \<and>
    length (js_history j) \<le> max 1 (unat (wc_history_steps (js_contract j))) \<and>
    (\<forall>r \<in> set (js_history j). rp_step r \<le> js_highest_step j \<and>
       (\<forall>s. js_step j = Some s \<longrightarrow> rp_step r < ss_step s))"
  using well_formed.in_run [OF assms] by (simp add: job_ok_def history_ok_def)

section \<open>The links\<close>

text \<open>
  C2: a link is never over-committed. In a disciplined run (intents name registered groups,
  policies invalidate strictly) the guaranteed rates of the open flows of a group add up to
  the utilisation the job keeps for it, and that is within the available capacity of its
  link; a group without a link has no flow with a rate.
\<close>

theorem link_never_overcommitted:
  assumes "run True c n st" and "n < 2 ^ 63" and "map_of (fb_jobs st) k = Some j" and "js_step j = Some s"
    and "contract_fits (js_contract j)"
  shows "(\<Sum>e\<leftarrow>filter (\<lambda>e. fs_group (snd e) = g) (ss_flows s). unat (fs_granted_min_bps (snd e)))
      = unat (utilized_bps j g) \<and>
    unat (utilized_bps j g) \<le>
      (case topology_find (js_topology j) g of None \<Rightarrow> 0 | Some l \<Rightarrow> unat (available_bps l))"
  using tightD(2,3) [OF run_tight(1) [OF assms(1-3)] assms(5), of g] assms(4)
  by (simp add: open_flows_def link_limit_def tally_def comp_def)

section \<open>Ending a step\<close>

lemma step_success:
  assumes "run d c n st" and "n < 2 ^ 63" and "resolve_step (tick st) t = Inr (j, s)"
  shows "map_of (fb_jobs st) (at_job t) = Some j" and "js_step j = Some s" and "job_ok j" and "at_step t = ss_step s"
  using resolve_step_Inr [OF assms(3)] well_formed.in_run [OF assms(1,2)] step_failure_None(2) by auto

lemma end_step_success:
  assumes "end_step st t x = (Inr report, st')" and ready: "ready st"
  obtains j s st1 j1 s1 st3 j3 a where "resolve_step st t = Inr (j, s)" and "closing j (pack j1 s1)"
    and "ss_flows s1 = []" and "fb_jobs st' = put (at_job t) (j3\<lparr>js_last_activity := a\<rparr>) (fb_jobs st)"
    and "seal_step st1 j1 (close_phases (if x = StepCancelled then PhaseCancelled else PhaseCompleted) (fb_now st1) s1)
        (x \<noteq> StepCompleted \<or> ss_flows s \<noteq> []) = (st3, j3, report)"
proof -
  have "\<not> isl (resolve_step st t)"
    using assms(1) by (auto simp: end_step_def authority_status_def split: sum.splits)
  then obtain j s where r: "resolve_step st t = Inr (j, s)" by (metis sum.collapse(2) surj_pair)
  note S = resolve_step_Inr [OF r] and ok = readyD(1) [OF ready resolve_step_Inr(1) [OF r]]
  obtain st1 j1 s1 where ca: "(if ss_flows s \<noteq> [] then cancel_all_flows st j s EC_Cancelled else (st, j, s))
      = (st1, j1, s1)" by (metis prod_cases3)
  have C: "closing j (pack j1 s1) \<and> ss_flows s1 = [] \<and> fb_jobs st1 = fb_jobs st"
    using cancel_all_flows_props [OF job_okD(2) [OF ok S(3)], of st EC_Cancelled st1 j1 s1 j] ca
      closing_refl [of j] pack_same [OF S(3)]
    by (auto split: if_splits)
  let ?s = "close_phases (if x = StepCancelled then PhaseCancelled else PhaseCompleted) (fb_now st1) s1"
  let ?c = "x \<noteq> StepCompleted \<or> ss_flows s \<noteq> []"
  obtain st3 j3 r' where seal: "seal_step st1 j1 ?s ?c = (st3, j3, r')" by (metis prod_cases3)
  have "r' = report" "st' = store_job (at_job t) (j3\<lparr>js_last_activity := fb_now st3\<rparr>) st3"
    using assms(1) unfolding end_step_def r sum.case prod.case Let_def ca seal by simp_all
  with that [OF r _ _ _ seal [unfolded \<open>r' = report\<close>]] C seal_step_state(1) [OF seal] show thesis by simp
qed

lemma last_trim_front: "0 < n \<Longrightarrow> last (trim_front n (xs @ [x])) = x"
  by (auto simp: trim_front_def)


section \<open>Completing a flow\<close>

lemma complete_flow_success:
  assumes "complete_flow st c = (Inr r, st')"
  obtains j s f st1 j1 s1 a where "resolve_step st (fc_authority c) = Inr (j, s)"
    and "map_of (ss_flows s) (fc_intent c) = Some f"
    and "fc_bytes_transferred c \<le> wc_max_bytes_per_intent (js_contract j)"
    and "close_flow st j s f (\<not> fc_cancelled c) (fc_bytes_transferred c) EC_Cancelled = (st1, j1, s1)"
    and "map_of (js_receipts j1) (fc_intent c) = Some r"
    and "fb_jobs st' = put (at_job (fc_authority c)) (pack (j1\<lparr>js_last_activity := a\<rparr>) s1) (fb_jobs st1)"
proof -
  have "\<not> isl (resolve_step st (fc_authority c))"
    using assms by (auto simp: complete_flow_def Let_def authority_status_def split: sum.splits option.splits if_splits)
  then obtain j s where r: "resolve_step st (fc_authority c) = Inr (j, s)" by (metis sum.collapse(2) surj_pair)
  obtain f where f: "map_of (ss_flows s) (fc_intent c) = Some f"
    using assms r by (auto simp: complete_flow_def Let_def split: option.splits)
  obtain st1 j1 s1 where cf: "close_flow st j s f (\<not> fc_cancelled c) (fc_bytes_transferred c) EC_Cancelled
      = (st1, j1, s1)" by (metis prod_cases3)
  show thesis
    using assms that [OF r f _ cf, of "fb_now st1"]
    by (auto simp: complete_flow_def r f cf Let_def require_def not_less split: if_splits option.splits)
qed

lemma record_receipt_utilized: "utilized_bps (record_receipt st j r) g = utilized_bps j g"
  by (simp add: record_receipt_def Let_def utilized_bps_def split: prod.split)

lemma newest_receipt:
  assumes "map_of (js_receipts (record_receipt st j r)) (fr_intent r) = Some r'"
  shows "r' = r"
proof -
  have keep: "evict cap xs t n = (ys, t', m) \<Longrightarrow> map_of t' i = Some v \<Longrightarrow> map_of t i = Some v"
    for cap and xs :: "traffic_intent_id list" and t :: "(traffic_intent_id, flow_receipt) table" and n ys t' m i v
    by (induction xs arbitrary: t n) (fastforce split: if_splits)+
  obtain ys t' m where e: "evict (unat (cf_max_flow_receipts_per_job (fb_config st)))
      (js_receipt_order j @ [fr_intent r]) (put (fr_intent r) r (js_receipts j)) 0 = (ys, t', m)"
    by (metis prod_cases3)
  with keep [OF e, of "fr_intent r" r'] assms show ?thesis by (simp add: record_receipt_def Let_def)
qed


text \<open>
  A flow that is not open cannot be completed. The call fails, and beside the evidence
  of the fence nothing changes; so a second completion credits nothing.
\<close>

lemma closed_flow_not_completed:
  assumes "map_of (fb_jobs st) (at_job (fc_authority x)) = Some j"
    and "map_of (open_flows j) (fc_intent x) = None"
  shows "(\<exists>e. fst (CompleteFlow st x) = Inl e) \<and> only_fences (tick st) (snd (CompleteFlow st x))"
proof (cases "resolve_step (tick st) (fc_authority x)")
  case (Inl f)
  then show ?thesis using complete_flow_refused [OF Inl] by (simp add: CompleteFlow_def)
next
  case (Inr w)
  obtain j0 s where w: "w = (j0, s)" by fastforce
  note S = resolve_step_Inr [OF Inr [unfolded w]]
  have "map_of (ss_flows s) (fc_intent x) = None" using S(1,3) assms by (simp add: open_flows_def)
  moreover have "only_fences (tick st) (store_fence (at_job (fc_authority x)) (tick st) j0 (Some s) ev)" for ev
    by (rule store_fence_only_fences [OF S(1)]) (use S(3) in simp)
  ultimately show ?thesis by (simp add: CompleteFlow_def complete_flow_def Inr w Let_def)
qed

section \<open>Ending a phase\<close>

text \<open>
  Ending a phase leaves none of its flows. After a successful end the phase is closed as
  asked, no open flow of the step is in it, and every other phase is as it was.
\<close>

lemma end_phase_drains:
  assumes "run d c n st" and "n < 2 ^ 63" and "EndPhase st t i x = (Inr p, st')"
    and "map_of (fb_jobs st) (at_job t) = Some j" and "js_step j = Some s"
  shows "\<exists>j' s'. map_of (fb_jobs st') (at_job t) = Some j' \<and> js_step j' = Some s' \<and>
    map_of (ss_phases s') i = Some p \<and> pr_disposition p = x \<and> \<not> phase_active p \<and>
    (\<forall>k f. map_of (ss_flows s') k = Some f \<longrightarrow> fs_phase f \<noteq> i) \<and>
    (\<forall>k. k \<noteq> i \<longrightarrow> map_of (ss_phases s') k = map_of (ss_phases s) k)"
proof -
  have x: "x \<noteq> PhaseOpen" using assms(3) by (auto simp: EndPhase_def end_phase_def require_def)
  have "\<not> isl (resolve_step (tick st) t)"
    using assms(3) x by (auto simp: EndPhase_def end_phase_def require_def authority_status_def split: sum.splits)
  then obtain j0 s0 where r: "resolve_step (tick st) t = Inr (j0, s0)" by (metis sum.collapse(2) surj_pair)
  note S = step_success [OF assms(1,2) r]
  have js: "j0 = j" "s0 = s" using S(1,2) assms(4,5) by simp_all
  obtain p0 where p0: "map_of (ss_phases s) i = Some p0"
    using assms(3) x r js by (auto simp: EndPhase_def end_phase_def require_def split: option.splits)
  obtain st1 j1 s1 where ca: "cancel_flows_in_phase (tick st) j s i EC_Cancelled = (st1, j1, s1)" by (metis prod_cases3)
  note C = cancel_phase_props [OF S(3,2) ca [folded js]]
  let ?p = "p0\<lparr>pr_disposition := x, pr_closed_at := fb_now st1\<rparr>"
  have "p = ?p" and st': "fb_jobs st' = put (at_job t)
      (pack (j1\<lparr>js_last_activity := fb_now st1\<rparr>) (s1\<lparr>ss_phases := put i ?p (ss_phases s1)\<rparr>)) (fb_jobs st1)"
    using assms(3) x r js p0 ca by (auto simp: EndPhase_def end_phase_def require_def Let_def split: if_splits)
  then show ?thesis
    using C(2,4) js x
    by (intro exI [of _ "pack (j1\<lparr>js_last_activity := fb_now st1\<rparr>) (s1\<lparr>ss_phases := put i ?p (ss_phases s1)\<rparr>)"]
        exI [of _ "s1\<lparr>ss_phases := put i ?p (ss_phases s1)\<rparr>"]) (auto simp: phase_active_def)
qed

section \<open>A new generation\<close>

lemma invalidate_jobs_empties:
  assumes "invalidate_jobs cause es st res = (es', st', res')"
    and "pd_strict_generation_invalidation (fb_policy st)" and "\<And>k j. map_of es k = Some j \<Longrightarrow> job_ok j"
    and "wf_table es" and "map_of es' k = Some j'"
  shows "open_flows j' = []"
  using assms
proof (induction es arbitrary: st res es' st' res')
  case Nil
  then show ?case by simp
next
  case (Cons e es)
  obtain st1 j1 res1 where inv: "invalidate_for_generation_change st (snd e) res cause = (st1, j1, res1)"
    by (metis prod_cases3)
  obtain rest st2 res2 where rest: "invalidate_jobs cause es st1 res1 = (rest, st2, res2)" by (metis prod_cases3)
  have es': "es' = (fst e, j1) # rest" using Cons.prems(1) inv rest by simp
  have strict1: "pd_strict_generation_invalidation (fb_policy st1)"
    using invalidate_moves(3) [OF inv] Cons.prems(2) by simp
  have ok: "job_ok (snd e)" using Cons.prems(3) [of "fst e" "snd e"] by simp
  have fresh: "map_of es (fst e) = None" and wf: "wf_table es"
    using Cons.prems(4) by (auto simp: wf_table_def keys_def map_of_eq_None_iff)
  have oks: "job_ok j" if "map_of es i = Some j" for i j
    using Cons.prems(3) [of i j] that fresh by (cases "i = fst e") auto
  show ?case
  proof (cases "k = fst e")
    case True
    with Cons.prems(5) es' have "j' = j1" by simp
    then show ?thesis using invalidate_strict_empties [OF inv Cons.prems(2) ok] by simp
  next
    case False
    with Cons.prems(5) es' have "map_of rest k = Some j'" by simp
    from Cons.IH [OF rest strict1 oks wf this] show ?thesis .
  qed
qed

text \<open>
  A policy that invalidates strictly leaves no traffic behind. When it is applied it
  becomes the policy in force and is valid, and no job has an open flow left.
\<close>

lemma strict_policy_empties:
  assumes "run d c n st" and "n < 2 ^ 63" and "ApplyPolicy st p = (Inr r, st')"
    and "pd_strict_generation_invalidation p" and "map_of (fb_jobs st') k = Some j"
  shows "fb_policy st' = p \<and> policy_validate p = Inr () \<and> pd_generation (fb_policy st) < pd_generation p \<and>
    open_flows j = []"
proof -
  have rs: "run_state d n st" by (rule run_run_state [OF assms(1,2)])
  let ?st = "(tick st)\<lparr>fb_policy := p, fb_stats := (fb_stats (tick st))\<lparr>st_policy_generation := pd_generation p\<rparr>\<rparr>"
  obtain jobs st2 res where inv: "invalidate_jobs EC_PolicyInvalidated (fb_jobs ?st) ?st
      (no_result\<lparr>pa_generation := pd_generation p\<rparr>) = (jobs, st2, res)" by (metis prod_cases3)
  have V: "policy_validate p = Inr ()" "pd_generation (fb_policy st) < pd_generation p"
    using assms(3) by (auto simp: ApplyPolicy_def apply_policy_def ttf_try_def require_def not_le
        split: sum.splits if_splits)
  have st': "st' = st2\<lparr>fb_jobs := jobs\<rparr>"
    using assms(3) V inv by (auto simp: ApplyPolicy_def apply_policy_def ttf_try_def require_def Let_def not_le)
  have "open_flows j = []"
    by (rule invalidate_jobs_empties [OF inv]) (use assms(4,5) rs st' in \<open>auto simp: run_state_def\<close>)
  then show ?thesis using V invalidate_jobs_props(3) [OF inv] st' by simp
qed

lemma publish_topology_success:
  assumes "publish_topology st t e = (Inr g, st')"
  obtains j j2 st2 x a where "resolve_job st t = Inr j"
    and "invalidate_for_generation_change st (j\<lparr>js_next_topology_generation := js_next_topology_generation j + 1\<rparr>)
      no_result EC_StaleTopologyGeneration = (st2, j2, x)"
    and "g = js_next_topology_generation j"
    and "fb_jobs st' = put (at_job t) (j2\<lparr>js_topology := e\<lparr>te_job := js_id j, te_generation := g\<rparr>,
      js_last_activity := a\<rparr>) (fb_jobs st)"
proof -
  obtain j where r: "resolve_job st t = Inr j"
    using assms by (cases "resolve_job st t") (auto simp: publish_topology_def authority_status_def)
  obtain st2 j2 x where inv: "invalidate_for_generation_change st
      (j\<lparr>js_next_topology_generation := js_next_topology_generation j + 1\<rparr>) no_result EC_StaleTopologyGeneration
      = (st2, j2, x)" by (metis prod_cases3)
  show thesis
    using assms that [OF r inv] invalidate_moves(2) [OF inv]
    by (auto simp: publish_topology_def r inv Let_def ttf_try_def split: sum.splits)
qed

text \<open>
  C18: new topology evidence under a strictly invalidating policy supersedes the old. The job
  has no open flow left, its evidence carries the generation that was returned, and a token
  that names another generation is refused from then on.
\<close>

theorem strict_topology_supersedes:
  assumes "run d c n st" and "n < 2 ^ 63" and "PublishTopologyEvidence st t e = (Inr g, st')"
    and "pd_strict_generation_invalidation (fb_policy st)"
  shows "\<exists>j. map_of (fb_jobs st') (at_job t) = Some j \<and> open_flows j = [] \<and> te_generation (js_topology j) = g \<and>
    (\<forall>u. g \<noteq> 0 \<and> at_job u = at_job t \<and> at_topology_generation u \<noteq> g \<longrightarrow> (\<exists>f. resolve_job st' u = Inl f))"
proof -
  obtain j j2 st2 x a where P: "resolve_job (tick st) t = Inr j"
    "invalidate_for_generation_change (tick st) (j\<lparr>js_next_topology_generation := js_next_topology_generation j + 1\<rparr>)
      no_result EC_StaleTopologyGeneration = (st2, j2, x)" "g = js_next_topology_generation j"
    "fb_jobs st' = put (at_job t) (j2\<lparr>js_topology := e\<lparr>te_job := js_id j, te_generation := g\<rparr>,
      js_last_activity := a\<rparr>) (fb_jobs (tick st))"
    by (rule publish_topology_success [OF assms(3) [unfolded PublishTopologyEvidence_def]])
  have "job_ok j" using well_formed.in_run [OF assms(1,2)] resolve_job_Inr(1) [OF P(1)] by simp
  then have "job_ok (j\<lparr>js_next_topology_generation := js_next_topology_generation j + 1\<rparr>)"
    by (rule job_ok_core [rotated]) (simp add: job_core_def)
  from invalidate_strict_empties [OF P(2) _ this] assms(4) have "open_flows j2 = []" by simp
  moreover have "\<exists>f. resolve_job st' u = Inl f"
    if "g \<noteq> 0" "at_job u = at_job t" "at_topology_generation u \<noteq> g" for u
  proof (rule resolve_job_blocked)
    let ?j = "j2\<lparr>js_topology := e\<lparr>te_job := js_id j, te_generation := g\<rparr>, js_last_activity := a\<rparr>"
    show "map_of (fb_jobs st') (at_job u) = Some ?j" using P(4) that(2) by simp
    show "job_failure (fb_policy st') ?j u \<noteq> None"
    proof
      assume "job_failure (fb_policy st') ?j u = None"
      from job_failure_None(8) [OF this] that show False by (simp add: valid_def)
    qed
  qed
  ultimately show ?thesis
    using P(4) by (intro exI [of _ "j2\<lparr>js_topology := e\<lparr>te_job := js_id j, te_generation := g\<rparr>, js_last_activity := a\<rparr>"])
      (auto simp: open_flows_def)
qed

section \<open>At the sample run\<close>


theorem open_phase_counters_exact_witness:
  "unat (get0 (ss_phase_active_flows busy_step) 1) = 1"
  using open_phase_counters_exact [OF run_busy _ busy_simps(1,2), of 1]
  by (simp add: busy_simps sample_contract_fits Let_def) (simp add: busy_step_def busy_flow_def)

lemma busy_limit: "link_limit busy_job 7 = 1000"
  by code_simp

theorem link_never_overcommitted_witness:
  "unat (utilized_bps busy_job 7) \<le> 1000"
  using link_never_overcommitted [OF run_busy _ busy_simps(1,2), of 7, folded link_limit_def]
  by (simp add: busy_simps sample_contract_fits busy_limit)

lemma success_pair: "\<not> isl (fst w) \<Longrightarrow> w = (Inr (projr (fst w)), snd w)"
  by (metis prod.collapse sum.collapse(2))

definition settled :: "step_report outcome" where
  "settled = EndStep busy (sample_token 1 5 0) StepCompleted"

lemma settled_ok: "\<not> isl (fst settled)"
  and settled_history: "(case map_of (fb_jobs (snd settled)) 1 of None \<Rightarrow> False | Some j \<Rightarrow>
      map rp_step (js_history j) = [5] \<and> js_contract j = sample_contract)"
  by code_simp+

lemma run_settled: "run d default_config 9 (snd settled)"
  using run_next [OF run_busy, of "Op_EndStep (sample_token 1 5 0) StepCompleted" d]
  by (simp add: settled_def apply_operation_def well_typed_def disciplined_def)

theorem reports_settled_witness:
  "\<exists>r. r \<in> set (js_history (the (map_of (fb_jobs (snd settled)) 1))) \<and> rp_step r = 5 \<and> report_balanced r"
proof -
  obtain j where j: "map_of (fb_jobs (snd settled)) 1 = Some j" "map rp_step (js_history j) = [5]"
    "js_contract j = sample_contract" using settled_history by (auto split: option.splits)
  from j(2) obtain r where r: "r \<in> set (js_history j)" "rp_step r = 5" by auto
  from reports_settled [OF run_settled _ j(1) _ r(1)] j(1,3) r show ?thesis
    by (auto simp: sample_contract_fits)
qed

theorem history_ordered_witness:
  "sorted_wrt (<) (map rp_step (js_history busy_job))"
  using history_ordered [OF run_busy _ busy_simps(1)] by simp


definition sample_completion :: flow_completion where
  "sample_completion = \<lparr>fc_authority = sample_token 1 5 1, fc_intent = 1, fc_bytes_transferred = 4000,
     fc_cancelled = False\<rparr>"

lemma sample_completion_fields:
  "at_job (fc_authority sample_completion) = 1" "fc_intent sample_completion = 1"
  "fc_bytes_transferred sample_completion = 4000" "\<not> fc_cancelled sample_completion"
  by (simp_all add: sample_completion_def sample_token_def)

lemma sample_completes: "\<not> isl (fst (CompleteFlow busy sample_completion))"
  by code_simp


theorem closed_flow_not_completed_witness:
  "\<exists>e. fst (CompleteFlow opened sample_completion) = Inl e"
  using closed_flow_not_completed [of opened sample_completion opened_job]
  by (simp add: sample_completion_fields opened_simps open_flows_def)
    (simp add: opened_step_def new_step_def)

lemma sample_ends: "\<not> isl (fst (EndPhase busy (sample_token 1 5 1) 1 PhaseCompleted))"
  by code_simp

theorem end_phase_drains_witness:
  "pr_disposition (projr (fst (EndPhase busy (sample_token 1 5 1) 1 PhaseCompleted))) = PhaseCompleted"
  using end_phase_drains [OF run_busy _ success_pair [OF sample_ends] _ busy_simps(2)]
  by (auto simp: sample_token_def busy_simps)

definition sample_policy :: policy_document where
  "sample_policy = make_default_policy 2"

lemma sample_policy_applies: "\<not> isl (fst (ApplyPolicy busy sample_policy))"
  and sample_policy_jobs: "map_of (fb_jobs (snd (ApplyPolicy busy sample_policy))) 1 \<noteq> None"
  and sample_policy_strict: "pd_strict_generation_invalidation sample_policy"
  by code_simp+

theorem strict_policy_empties_witness:
  "\<exists>j. map_of (fb_jobs (snd (ApplyPolicy busy sample_policy))) 1 = Some j \<and> open_flows j = []"
  using strict_policy_empties [OF run_busy _ success_pair [OF sample_policy_applies] sample_policy_strict]
    sample_policy_jobs by auto

lemma sample_evidence_accepted: "\<not> isl (fst (PublishTopologyEvidence busy (sample_token 1 5 0) sample_topology))"
  and busy_strict: "pd_strict_generation_invalidation (fb_policy busy)"
  by code_simp+

theorem strict_topology_supersedes_witness:
  "\<exists>j. map_of (fb_jobs (snd (PublishTopologyEvidence busy (sample_token 1 5 0) sample_topology))) 1 = Some j \<and>
    open_flows j = []"
  using strict_topology_supersedes [OF run_busy _ success_pair [OF sample_evidence_accepted] busy_strict]
  by (auto simp: sample_token_def)

end
