(* ===== verification/Admission.thy ===== *)
theory Admission
  imports Settlement
begin

text \<open>
  Admission, isolation and pacing: that every valid request is answered, what an admission
  grants and to whom, that unknown phases are served conservatively, what a checkpoint burst
  does to the flows of its group, and how long pacing may hold.
\<close>

section \<open>The course of a request\<close>

lemma add_clause_fields [simp]:
  "td_outcome (add_clause st c x d) = td_outcome d" "td_reason (add_clause st c x d) = td_reason d"
  "td_service_class (add_clause st c x d) = td_service_class d"
  "td_granted_min_bps (add_clause st c x d) = td_granted_min_bps d"
  "td_granted_max_bps (add_clause st c x d) = td_granted_max_bps d"
  "td_phase_class (add_clause st c x d) = td_phase_class d"
  "td_group (add_clause st c x d) = td_group d" "td_phase (add_clause st c x d) = td_phase d"
  by (simp_all add: add_clause_def)

lemma fold_clause_fields [simp]:
  "td_outcome (fold (\<lambda>(c, x). add_clause st c x) xs d) = td_outcome d"
  "td_service_class (fold (\<lambda>(c, x). add_clause st c x) xs d) = td_service_class d"
  "td_granted_min_bps (fold (\<lambda>(c, x). add_clause st c x) xs d) = td_granted_min_bps d"
  "td_granted_max_bps (fold (\<lambda>(c, x). add_clause st c x) xs d) = td_granted_max_bps d"
  "td_phase_class (fold (\<lambda>(c, x). add_clause st c x) xs d) = td_phase_class d"
  "td_group (fold (\<lambda>(c, x). add_clause st c x) xs d) = td_group d"
  by (induction xs arbitrary: d) (simp_all split: prod.split)

lemma answer_decision_not_admitted:
  assumes "answer_decision st j i p a = (d, st')"
  shows "\<not> admitted d"
proof (cases a)
  case (Turn_down r x c)
  obtain d0 st1 where "reject_decision st j i (Some p) r x = (d0, st1)" by fastforce
  with assms reject_decision_fields(1) [of st j i "Some p" r x] Turn_down show ?thesis
    by (auto simp: answer_decision_def admitted_def add_code_def split: option.splits)
qed (use assms in \<open>auto simp: answer_decision_def make_deferral_def admitted_def\<close>)

text \<open>The job and the step as the arbitration sees them.\<close>

definition counted_job :: "job_state \<Rightarrow> job_state" where
  "counted_job j = j\<lparr>js_next_intent_id := js_next_intent_id j + 1\<rparr>"

definition counted_step :: "phase_record \<Rightarrow> step_state \<Rightarrow> step_state" where
  "counted_step p s = update_phase_accounting (pr_id p) (\<lambda>a. a) (s\<lparr>ss_intents_seen := ss_intents_seen s + 1\<rparr>)"

lemma counted_simps [simp]:
  "js_contract (counted_job j) = js_contract j" "js_step (counted_job j) = js_step j"
  "ss_flows (counted_step p s) = ss_flows s" "ss_accounting (counted_step p s) = ss_accounting s"
  "ss_burst (counted_step p s) = ss_burst s" "ss_step (counted_step p s) = ss_step s"
  "js_topology (counted_job j) = js_topology j"
  by (simp_all add: counted_job_def counted_step_def update_phase_accounting_def)

lemma request_resolved:
  assumes "intent_validate i = Inr ()" and "resolve_phase st (ti_authority i) = Inr (j, s, p)"
  shows "request_traffic st i =
    (case decide_traffic (st, counted_job j, counted_step p s) i p (js_next_intent_id j) of
       Inl e \<Rightarrow> (Inl e, store_step (at_job (ti_authority i)) (st, counted_job j, counted_step p s))
     | Inr (w, d) \<Rightarrow> finish_request (at_job (ti_authority i)) (js_next_intent_id j) (pr_id p) w d)"
  unfolding request_traffic_def counted_job_def counted_step_def Let_def ttf_try_def assms sum.case prod.case ..

lemma request_admitted:
  assumes "fst (request_traffic st i) = Inr d" and "admitted d"
  obtains j s p plan cap st1 w dn where "resolve_phase st (ti_authority i) = Inr (j, s, p)"
    and "screen_request st (counted_job j) (counted_step p s) i p = Proceed plan"
    and "arbitrate_capacity st (counted_job j) (counted_step p s) (ti_group i) (arbitration_priority p plan)
      (tp_min_grant plan) (tp_effective_max plan) = (cap, st1)"
    and "cr_reason cap = EC_Ok"
    and "admit_flow (st1, counted_job j, counted_step p s) i p plan cap (js_next_intent_id j) = (w, dn)"
    and "d = dn\<lparr>td_intent := js_next_intent_id j\<rparr>"
    and "request_traffic st i = finish_request (at_job (ti_authority i)) (js_next_intent_id j) (pr_id p) w dn"
proof -
  have v: "intent_validate i = Inr ()"
    using assms(1) by (auto simp: request_traffic_def ttf_try_def split: sum.splits)
  have "\<not> isl (resolve_phase st (ti_authority i))"
  proof
    assume "isl (resolve_phase st (ti_authority i))"
    then obtain f where f: "resolve_phase st (ti_authority i) = Inl f" by (auto simp: isl_def)
    then have "request_traffic st i = refuse_traffic st i f" using v by (simp add: request_traffic_def ttf_try_def)
    with refuse_traffic_result(1) [OF resolve_phase_Inl [OF f]] assms show False by (auto simp: admitted_def)
  qed
  then obtain j s p where r: "resolve_phase st (ti_authority i) = Inr (j, s, p)"
    by (metis sum.collapse(2) prod_cases3)
  let ?w = "(st, counted_job j, counted_step p s)"
  note R = request_resolved [OF v r]
  obtain w dn where dec: "decide_traffic ?w i p (js_next_intent_id j) = Inr (w, dn)"
    using R assms(1) by (cases "decide_traffic ?w i p (js_next_intent_id j)") auto
  have d: "d = dn\<lparr>td_intent := js_next_intent_id j\<rparr>" using R dec assms(1) by (simp add: finish_request_decision)
  then have adm: "admitted dn" using assms(2) by (simp add: admitted_def)
  obtain plan where plan: "screen_request st (counted_job j) (counted_step p s) i p = Proceed plan"
  proof (cases "screen_request st (counted_job j) (counted_step p s) i p")
    case (Answer a)
    obtain d0 st1 where "answer_decision st (counted_job j) i p a = (d0, st1)" by fastforce
    with answer_decision_not_admitted [OF this] Answer dec adm show ?thesis by (simp add: decide_traffic_def)
  qed (use dec that in \<open>auto simp: decide_traffic_def\<close>)
  obtain cap st1 where arb: "arbitrate_capacity st (counted_job j) (counted_step p s) (ti_group i)
      (arbitration_priority p plan) (tp_min_grant plan) (tp_effective_max plan) = (cap, st1)" by fastforce
  have ok: "cr_reason cap = EC_Ok"
  proof (rule ccontr)
    assume no: "cr_reason cap \<noteq> EC_Ok"
    obtain d0 st2 where "answer_decision st1 (counted_job j) i p
        (capacity_refusal st1 (counted_job j) i plan (cr_reason cap)) = (d0, st2)" by fastforce
    with answer_decision_not_admitted [OF this] plan arb no dec adm show False by (simp add: decide_traffic_def)
  qed
  have "admit_flow (st1, counted_job j, counted_step p s) i p plan cap (js_next_intent_id j) = (w, dn)"
    using dec plan arb ok by (simp add: decide_traffic_def)
  with that [OF r plan arb ok _ d] R dec show thesis by simp
qed

text \<open>
  C13: every request is answered. A valid intent gets a decision in every state of a run: the
  class its phase maps to always has a definition in the policy in force, so the internal
  error of the code is unreachable. An intent that is not valid gets its validation error
  and leaves nothing but the tick of the clock.
\<close>

theorem request_always_answered:
  assumes "run d c n st" and "n < 2 ^ 63"
  shows "case intent_validate i of
      Inl e \<Rightarrow> RequestTraffic st i = (Inl e, tick st)
    | Inr _ \<Rightarrow> \<exists>decision. fst (RequestTraffic st i) = Inr decision"
proof (cases "intent_validate i")
  case (Inl e)
  then show ?thesis by (simp add: RequestTraffic_def request_traffic_def ttf_try_def)
next
  case (Inr u)
  have pol: "policy_ok (fb_policy st)" using run_run_state [OF assms] by (simp add: run_state_def)
  have "\<exists>decision. fst (request_traffic (tick st) i) = Inr decision"
  proof (cases "resolve_phase (tick st) (ti_authority i)")
    case (Inl f)
    then show ?thesis
      using refuse_traffic_result(1) [OF resolve_phase_Inl [OF Inl]] Inr
      by (auto simp: request_traffic_def ttf_try_def)
  next
    case (Inr w)
    obtain j s p where w: "w = (j, s, p)" by (metis prod_cases3)
    have "screen_request (tick st) (counted_job j) (counted_step p s) i p \<noteq> Fail e" for e
      using class_for_phase_defined [OF pol, of "ps_cls (pr_spec p)"]
      by (auto simp: screen_request_def screen_rates_def Let_def split: option.split)
    then have "decide_traffic (tick st, counted_job j, counted_step p s) i p (js_next_intent_id j) \<noteq> Inl e" for e
      by (auto simp: decide_traffic_def Let_def split: screening.split prod.split)
    then obtain v where "decide_traffic (tick st, counted_job j, counted_step p s) i p (js_next_intent_id j) = Inr v"
      by (cases "decide_traffic (tick st, counted_job j, counted_step p s) i p (js_next_intent_id j)") auto
    moreover obtain w' dn where "v = (w', dn)" by fastforce
    ultimately show ?thesis
      using request_resolved [of i "tick st" j s p] Inr w \<open>intent_validate i = Inr u\<close>
      by (simp add: finish_request_decision)
  qed
  with Inr show ?thesis by (simp add: RequestTraffic_def)
qed

section \<open>What is granted\<close>

lemma arbitrate_capacity_grants:
  assumes "arbitrate_capacity st j s g prio lo hi = (cap, st')" and "cr_reason cap = EC_Ok" and "lo \<le> hi"
  shows "cr_granted_min_bps cap = lo" and "lo \<le> cr_granted_max_bps cap" and "cr_granted_max_bps cap \<le> hi"
  using assms
  by (auto simp: arbitrate_capacity_def Let_def split: option.splits if_splits prod.splits)

lemma admit_flow_decision:
  assumes "admit_flow (st, j, s) i p plan cap k = (w, dn)"
  shows "td_granted_min_bps dn = cr_granted_min_bps cap" and "td_granted_max_bps dn = cr_granted_max_bps cap"
    and "td_service_class dn = tp_cls plan" and "td_phase_class dn = ps_cls (pr_spec p)" and "td_group dn = ti_group i"
    and "td_outcome dn = Admit"
proof -
  obtain st1 j1 s1 n where "preempt_flows (cr_preempted cap) (st, j, s) = ((st1, j1, s1), n)" by (metis prod.collapse)
  with assms show "td_granted_min_bps dn = cr_granted_min_bps cap" "td_granted_max_bps dn = cr_granted_max_bps cap"
    "td_service_class dn = tp_cls plan" "td_phase_class dn = ps_cls (pr_spec p)" "td_group dn = ti_group i"
    "td_outcome dn = Admit"
    by (auto simp: admit_flow_def Let_def admission_decision_def granted_flow_def base_decision_def
        split: prod.splits)
qed

lemma RequestTraffic_admitted:
  assumes "fst (RequestTraffic st i) = Inr d" and "admitted d"
  obtains j s p plan cap spec where "resolve_phase (tick st) (ti_authority i) = Inr (j, s, p)"
    and "policy_find (fb_policy st) (class_for_phase (fb_policy st) (ps_cls (pr_spec p))) = Some spec"
    and "screen_rates (tick st) (counted_job j) (counted_step p s) i (ps_cls (pr_spec p) = PC_Unknown)
        (class_for_phase (fb_policy st) (ps_cls (pr_spec p))) spec (step_has_isolation s (ti_group i))
        (effective_priority_for (fb_policy st) (class_for_phase (fb_policy st) (ps_cls (pr_spec p)))
          (step_has_isolation s (ti_group i))) = Proceed plan"
    and "step_has_isolation s (ti_group i) \<Longrightarrow>
        class_for_phase (fb_policy st) (ps_cls (pr_spec p)) = SC_Checkpoint \<or> scs_barrier_critical spec"
    and "ps_cls (pr_spec p) = PC_Unknown \<Longrightarrow> wc_allow_unknown_phase (js_contract j)"
    and "td_granted_min_bps d = tp_min_grant plan" and "tp_min_grant plan \<le> td_granted_max_bps d"
    and "td_granted_max_bps d \<le> tp_effective_max plan" and "td_service_class d = tp_cls plan"
    and "td_phase_class d = ps_cls (pr_spec p)"
proof -
  obtain j s p plan cap st1 w dn where R: "resolve_phase (tick st) (ti_authority i) = Inr (j, s, p)"
    "screen_request (tick st) (counted_job j) (counted_step p s) i p = Proceed plan"
    "arbitrate_capacity (tick st) (counted_job j) (counted_step p s) (ti_group i) (arbitration_priority p plan)
      (tp_min_grant plan) (tp_effective_max plan) = (cap, st1)" "cr_reason cap = EC_Ok"
    "admit_flow (st1, counted_job j, counted_step p s) i p plan cap (js_next_intent_id j) = (w, dn)"
    "d = dn\<lparr>td_intent := js_next_intent_id j\<rparr>"
    by (rule request_admitted [OF assms(1) [unfolded RequestTraffic_def] assms(2)])
  have iso: "step_has_isolation (counted_step p s) g = step_has_isolation s g" for g
    by (simp add: step_has_isolation_def)
  note Q = screen_request_Proceed [OF R(2), unfolded tick_simps iso counted_simps]
  show thesis
  proof (rule Q)
    fix spec
    assume spec: "policy_find (fb_policy st) (class_for_phase (fb_policy st) (ps_cls (pr_spec p))) = Some spec"
      "screen_rates (tick st) (counted_job j) (counted_step p s) i (ps_cls (pr_spec p) = PC_Unknown)
        (class_for_phase (fb_policy st) (ps_cls (pr_spec p))) spec (step_has_isolation s (ti_group i))
        (effective_priority_for (fb_policy st) (class_for_phase (fb_policy st) (ps_cls (pr_spec p)))
          (step_has_isolation s (ti_group i))) = Proceed plan"
      and rest: "step_has_isolation s (ti_group i) \<Longrightarrow>
        class_for_phase (fb_policy st) (ps_cls (pr_spec p)) = SC_Checkpoint \<or> scs_barrier_critical spec"
      "ps_cls (pr_spec p) = PC_Unknown \<Longrightarrow> wc_allow_unknown_phase (js_contract j)"
    note G = arbitrate_capacity_grants [OF R(3,4) screen_rates_Proceed(2) [OF spec(2)]]
    note D = admit_flow_decision [OF R(5)]
    show thesis
      by (rule that [OF R(1) spec rest]) (use G D R(6) in simp_all)
  qed
qed

text \<open>The other way round: what a request needs to be admitted, without the text of the answer.\<close>

definition admits :: "fabric_state \<Rightarrow> traffic_intent \<Rightarrow> bool" where
  "admits st i \<longleftrightarrow>
     intent_validate i = Inr () \<and>
     (case resolve_phase st (ti_authority i) of
        Inl _ \<Rightarrow> False
      | Inr (j, s, p) \<Rightarrow>
          (case screen_request st (counted_job j) (counted_step p s) i p of
             Proceed plan \<Rightarrow>
               cr_reason (fst (arbitrate_capacity st (counted_job j) (counted_step p s) (ti_group i)
                 (arbitration_priority p plan) (tp_min_grant plan) (tp_effective_max plan))) = EC_Ok
           | _ \<Rightarrow> False))"

lemma admits_admitted:
  assumes "admits st i" and "resolve_phase st (ti_authority i) = Inr (j, s, p)"
  shows "\<exists>x. fst (request_traffic st i) = Inr x \<and> admitted x \<and> td_phase_class x = ps_cls (pr_spec p)"
proof -
  from assms obtain plan where v: "intent_validate i = Inr ()"
    and plan: "screen_request st (counted_job j) (counted_step p s) i p = Proceed plan"
    and ok: "cr_reason (fst (arbitrate_capacity st (counted_job j) (counted_step p s) (ti_group i)
      (arbitration_priority p plan) (tp_min_grant plan) (tp_effective_max plan))) = EC_Ok"
    by (auto simp: admits_def split: screening.splits)
  obtain cap st1 where arb: "arbitrate_capacity st (counted_job j) (counted_step p s) (ti_group i)
      (arbitration_priority p plan) (tp_min_grant plan) (tp_effective_max plan) = (cap, st1)" by fastforce
  obtain w dn where adm: "admit_flow (st1, counted_job j, counted_step p s) i p plan cap (js_next_intent_id j) = (w, dn)"
    by fastforce
  have "fst (request_traffic st i) = Inr (dn\<lparr>td_intent := js_next_intent_id j\<rparr>)"
    using request_resolved [OF v assms(2)] plan arb ok adm
    by (simp add: decide_traffic_def finish_request_decision)
  then show ?thesis using admit_flow_decision(4,6) [OF adm] by (simp add: admitted_def)
qed


text \<open>
  A ceiling of zero reads as no ceiling. Where the policy sets the ceiling of unknown phases
  to zero, the minimum of the two is zero and the ceiling of the class is lifted as well.
\<close>

lemma zero_unknown_ceiling_uncaps:
  "pd_unknown_phase_ceiling_bps policy = 0 \<Longrightarrow> rate_ceiling policy spec True = 0"
  by (simp add: rate_ceiling_def)

lemma admit_flow_unpreempted:
  assumes "admit_flow (st, j, s) i p plan cap k = ((st', j', s'), dn)" and "cr_preempted cap = []"
  shows "\<exists>f. ss_flows s' = put k f (ss_flows s) \<and> fs_intent f = k" and "fb_jobs st' = fb_jobs st"
  using assms
  by (auto simp: admit_flow_def preempt_flows_def open_flow_def granted_flow_def update_phase_accounting_def Let_def)

lemma finish_request_job:
  assumes "w = (st, j, s)"
  shows "\<exists>j' s'. map_of (fb_jobs (snd (finish_request k i p w d))) k = Some j' \<and> js_step j' = Some s' \<and>
    ss_flows s' = ss_flows s"
proof -
  let ?d = "d\<lparr>td_intent := i\<rparr>"
  obtain st1 j1 where "record_decision st j ?d = (st1, j1)" by fastforce
  then show ?thesis
    using assms by (simp add: finish_request_def Let_def update_phase_accounting_def)
qed


text \<open>
  While a checkpoint burst holds a group, traffic is admitted to that group only in the
  checkpoint class or in a class the policy declares barrier critical.
\<close>

lemma burst_excludes_other_traffic:
  assumes "fst (RequestTraffic st i) = Inr x" and "admitted x"
    and "map_of (fb_jobs st) (at_job (ti_authority i)) = Some j" and "js_step j = Some s"
    and "step_has_isolation s (ti_group i)"
  shows "td_service_class x = SC_Checkpoint \<or>
    (\<exists>spec. policy_find (fb_policy st) (td_service_class x) = Some spec \<and> scs_barrier_critical spec)"
proof (rule RequestTraffic_admitted [OF assms(1,2)])
  fix j0 s0 p plan cap spec
  assume A: "resolve_phase (tick st) (ti_authority i) = Inr (j0, s0, p)"
    "policy_find (fb_policy st) (class_for_phase (fb_policy st) (ps_cls (pr_spec p))) = Some spec"
    "screen_rates (tick st) (counted_job j0) (counted_step p s0) i (ps_cls (pr_spec p) = PC_Unknown)
        (class_for_phase (fb_policy st) (ps_cls (pr_spec p))) spec (step_has_isolation s0 (ti_group i))
        (effective_priority_for (fb_policy st) (class_for_phase (fb_policy st) (ps_cls (pr_spec p)))
          (step_has_isolation s0 (ti_group i))) = Proceed plan"
    "step_has_isolation s0 (ti_group i) \<Longrightarrow>
        class_for_phase (fb_policy st) (ps_cls (pr_spec p)) = SC_Checkpoint \<or> scs_barrier_critical spec"
    "td_service_class x = tp_cls plan"
  have "s0 = s" using resolve_step_Inr(1,3) [OF resolve_phase_Inr(1) [OF A(1)]] assms(3,4) by simp
  with A(2,4,5) assms(5) screen_rates_Proceed(5) [OF A(3)] show ?thesis by auto
qed

text \<open>
  C15: an admission stays within the contract: the estimate is within what one intent may
  carry, the committed bytes of the step with it are within what a step may, and the step
  had room for one more flow.
\<close>

theorem admission_within_contract:
  assumes "fst (RequestTraffic st i) = Inr x" and "admitted x"
    and "map_of (fb_jobs st) (at_job (ti_authority i)) = Some j" and "js_step j = Some s"
  shows "unat (ti_bytes_estimate i) \<le> unat (wc_max_bytes_per_intent (js_contract j)) \<and>
    unat (sa_bytes_committed (ss_accounting s)) + unat (ti_bytes_estimate i)
      \<le> unat (wc_max_bytes_per_step (js_contract j)) \<and>
    length (ss_flows s) < unat (wc_max_active_flows_per_step (js_contract j))"
proof (rule RequestTraffic_admitted [OF assms(1,2)])
  fix j0 s0 p plan cap spec
  assume A: "resolve_phase (tick st) (ti_authority i) = Inr (j0, s0, p)"
    "screen_rates (tick st) (counted_job j0) (counted_step p s0) i (ps_cls (pr_spec p) = PC_Unknown)
        (class_for_phase (fb_policy st) (ps_cls (pr_spec p))) spec (step_has_isolation s0 (ti_group i))
        (effective_priority_for (fb_policy st) (class_for_phase (fb_policy st) (ps_cls (pr_spec p)))
          (step_has_isolation s0 (ti_group i))) = Proceed plan"
  have "j0 = j" "s0 = s" using resolve_step_Inr(1,3) [OF resolve_phase_Inr(1) [OF A(1)]] assms(3,4) by simp_all
  with screen_rates_Proceed(9-11) [OF A(2)] show ?thesis by (simp add: word_le_nat_alt)
qed

section \<open>At the sample run\<close>

theorem request_always_answered_witness:
  "\<exists>decision. fst (RequestTraffic opened (sample_intent 9 600 700 5000)) = Inr decision"
  using request_always_answered [OF run_opened, of "sample_intent 9 600 700 5000"]
  by (simp add: sample_intent_valid)

lemma busy_admitted: "admitted busy_decision"
  by (simp add: admitted_def busy_decision_def)


lemma sample_unknown_admits: "admits (tick busy) (sample_intent 3 100 200 1000)"
  and sample_unknown_phase: "(case resolve_phase (tick busy) (ti_authority (sample_intent 3 100 200 1000)) of
      Inl _ \<Rightarrow> False | Inr (j, s, p) \<Rightarrow> ps_cls (pr_spec p) = PC_Unknown)"
  by code_simp+


text \<open>A step whose second phase is a checkpoint, with a burst on the group.\<close>

definition held_step :: step_state where
  "held_step = opened_step\<lparr>
     ss_phases := [(1, sample_phase_record 1 PC_DataIngest 5), (2, sample_phase_record 2 PC_Checkpoint 6)],
     ss_burst := Some \<lparr>bs_id = 1, bs_group = 7, bs_expected_bytes = 100, bs_opened_at = 7, bs_deadline_at = 0,
       bs_reason = [], bs_displaced_flows = 0, bs_throttled_flows = 0, bs_active = True\<rparr>\<rparr>"

definition held :: fabric_state where
  "held = opened\<lparr>fb_jobs := [(1, opened_job\<lparr>js_step := Some held_step\<rparr>)]\<rparr>"

lemma held_admits: "admits (tick held) (sample_intent 2 100 200 1000)"
  by code_simp

theorem burst_excludes_other_traffic_witness:
  "\<exists>x. fst (RequestTraffic held (sample_intent 2 100 200 1000)) = Inr x \<and>
    (td_service_class x = SC_Checkpoint \<or>
     (\<exists>spec. policy_find (fb_policy held) (td_service_class x) = Some spec \<and> scs_barrier_critical spec))"
proof -
  obtain x where x: "fst (RequestTraffic held (sample_intent 2 100 200 1000)) = Inr x" "admitted x"
    using admits_admitted [OF held_admits] held_admits
    by (auto simp: RequestTraffic_def admits_def split: sum.splits)
  have "map_of (fb_jobs held) (at_job (ti_authority (sample_intent 2 100 200 1000)))
      = Some (opened_job\<lparr>js_step := Some held_step\<rparr>)"
    by (simp add: held_def sample_intent_def sample_token_def)
  from burst_excludes_other_traffic [OF x this, of held_step] x(1) show ?thesis
    by (simp add: held_step_def step_has_isolation_def sample_intent_def)
qed

theorem admission_within_contract_witness:
  "unat (sa_bytes_committed (ss_accounting opened_step)) + 5000 \<le> unat (wc_max_bytes_per_step sample_contract)"
  using admission_within_contract [OF busy_answer busy_admitted, of opened_job opened_step]
  by (simp add: opened_simps sample_intent_def sample_token_def)

end
