(* ===== verification/Isolation.thy ===== *)
theory Isolation
  imports Admission
begin

text \<open>
  What a checkpoint burst does to the flows of its group, and what pacing answers. The loop
  of the burst over the flows is shown to be one function applied to each of them.
\<close>

section \<open>The effect of a burst on one flow\<close>

definition exempt :: "policy_document \<Rightarrow> flow_state \<Rightarrow> bool" where
  "exempt policy f \<longleftrightarrow>
     (case policy_find policy (fs_service_class f) of
        None \<Rightarrow> True
      | Some spec \<Rightarrow> fs_service_class f = SC_Checkpoint \<or> scs_barrier_critical spec)"

definition isolation_ceiling :: "policy_document \<Rightarrow> flow_state \<Rightarrow> u64" where
  "isolation_ceiling policy f =
     (case policy_find policy (fs_service_class f) of None \<Rightarrow> 0 | Some spec \<Rightarrow> scs_isolation_ceiling_bps spec)"

definition isolated_flow :: "policy_document \<Rightarrow> flow_state \<Rightarrow> flow_state option" where
  "isolated_flow policy f =
     (if exempt policy f then Some f
      else if isolation_ceiling policy f = 0 then None
      else if fs_granted_min_bps f > isolation_ceiling policy f
      then Some (lowered f (isolation_ceiling policy f))
      else Some f)"

lemma displace_flow_effect:
  assumes "displace_flow (st, j, s) f = (st', j', s')"
  shows "ss_flows s' = del (fs_intent f) (ss_flows s)" and "fb_policy st' = fb_policy st"
  using assms by (auto simp: displace_flow_def close_flow_def count_closure_def Let_def)

lemma throttle_flow_effect:
  assumes "throttle_flow (st, j, s) b f r = (st', j', s')"
  shows "ss_flows s' = put (fs_intent f) (lowered f r) (ss_flows s)" and "fb_policy st' = fb_policy st"
  using assms by (auto simp: throttle_flow_def lowered_def Let_def)

lemma isolate_flows_pointwise:
  assumes "isolate_flows b is (st, j, s) = ((st', j', s'), x)" and "distinct is"
    and "\<And>k f. map_of (ss_flows s) k = Some f \<Longrightarrow> fs_intent f = k"
  shows "map_of (ss_flows s') k =
    (if k \<in> set is then Option.bind (map_of (ss_flows s) k) (isolated_flow (fb_policy st)) else map_of (ss_flows s) k)"
  using assms
proof (induction "is" arbitrary: st j s x)
  case Nil
  then show ?case by simp
next
  case (Cons i "is")
  let ?pol = "fb_policy st"
  have i: "i \<notin> set is" "distinct is" using Cons.prems(2) by simp_all
  have go: ?case
    if rest: "isolate_flows b is (st1, j1, s1) = ((st', j', s'), y)" and "fb_policy st1 = ?pol"
      and "map_of (ss_flows s1) i = Option.bind (map_of (ss_flows s) i) (isolated_flow ?pol)"
      and "\<And>m. m \<noteq> i \<Longrightarrow> map_of (ss_flows s1) m = map_of (ss_flows s) m"
      and "\<And>f. map_of (ss_flows s1) i = Some f \<Longrightarrow> fs_intent f = i" for st1 j1 s1 y
  proof -
    have own: "fs_intent f = m" if "map_of (ss_flows s1) m = Some f" for m f
      using that \<open>\<And>m. m \<noteq> i \<Longrightarrow> map_of (ss_flows s1) m = map_of (ss_flows s) m\<close>
        \<open>\<And>f. map_of (ss_flows s1) i = Some f \<Longrightarrow> fs_intent f = i\<close> Cons.prems(3)
      by (cases "m = i") auto
    show ?thesis
      using Cons.IH [OF rest i(2) own] that(2-4) i(1) by (cases "k = i") auto
  qed
  show ?case
  proof (cases "map_of (ss_flows s) i")
    case None
    with Cons.prems(1) show ?thesis by (intro go [of st j s x]) auto
  next
    case f: (Some f)
    have fi: "fs_intent f = i" using Cons.prems(3) f by simp
    have skip: ?thesis if "isolated_flow ?pol f = Some f" "isolate_flows b (i # is) (st, j, s) = isolate_flows b is (st, j, s)"
      using that Cons.prems(1) f fi by (intro go [of st j s x]) simp_all
    show ?thesis
    proof (cases "policy_find ?pol (fs_service_class f)")
      case None
      then show ?thesis using f by (intro skip) (simp_all add: isolated_flow_def exempt_def)
    next
      case (Some spec)
      have E: "exempt ?pol f \<longleftrightarrow> fs_service_class f = SC_Checkpoint \<or> scs_barrier_critical spec"
        "isolation_ceiling ?pol f = scs_isolation_ceiling_bps spec"
        using Some by (simp_all add: exempt_def isolation_ceiling_def)
      consider (exempt) "exempt ?pol f" | (displaced) "\<not> exempt ?pol f" "scs_isolation_ceiling_bps spec = 0"
        | (throttled) "\<not> exempt ?pol f" "scs_isolation_ceiling_bps spec \<noteq> 0"
          "fs_granted_min_bps f > scs_isolation_ceiling_bps spec"
        | (small) "\<not> exempt ?pol f" "scs_isolation_ceiling_bps spec \<noteq> 0"
          "\<not> fs_granted_min_bps f > scs_isolation_ceiling_bps spec" by blast
      then show ?thesis
      proof cases
        case exempt
        then show ?thesis using f Some E by (intro skip) (auto simp: isolated_flow_def)
      next
        case displaced
        obtain st1 j1 s1 where t: "displace_flow (st, j, s) f = (st1, j1, s1)" by (metis prod_cases3)
        obtain w y where rest: "isolate_flows b is (st1, j1, s1) = (w, y)" by (metis surj_pair)
        with Cons.prems(1) f Some E displaced t have "w = (st', j', s')" by (auto split: prod.splits)
        from go [OF rest [unfolded this]] displace_flow_effect [OF t] f fi E displaced show ?thesis
          by (simp add: isolated_flow_def)
      next
        case throttled
        obtain st1 j1 s1 where t: "throttle_flow (st, j, s) b f (scs_isolation_ceiling_bps spec) = (st1, j1, s1)"
          by (metis prod_cases3)
        obtain w y where rest: "isolate_flows b is (st1, j1, s1) = (w, y)" by (metis surj_pair)
        with Cons.prems(1) f Some E throttled t have "w = (st', j', s')" by (auto split: prod.splits)
        from go [OF rest [unfolded this]] throttle_flow_effect [OF t] f fi E throttled show ?thesis
          by (simp add: isolated_flow_def)
      next
        case small
        then show ?thesis using f Some E by (intro skip) (auto simp: isolated_flow_def)
      qed
    qed
  qed
qed

section \<open>Opening a burst\<close>

text \<open>
  C17: a checkpoint burst isolates its group. When it has begun, every open flow of the group
  is either of the checkpoint class, or barrier critical, and then untouched, or it is held
  to the isolation ceiling of its class, which is not zero; flows of a class with no ceiling
  are gone; the flows of every other group are as they were.
\<close>

theorem burst_isolates_group:
  assumes "run d c n st" and "n < 2 ^ 63" and "BeginCheckpointBurst st req = (Inr b, st')"
    and "map_of (fb_jobs st) (at_job (cb_authority req)) = Some j" and "js_step j = Some s"
  shows "\<exists>j' s'. map_of (fb_jobs st') (at_job (cb_authority req)) = Some j' \<and> js_step j' = Some s' \<and>
    step_has_isolation s' (cb_group req) \<and>
    (\<forall>k. map_of (ss_flows s') k =
       (case map_of (ss_flows s) k of
          None \<Rightarrow> None
        | Some f \<Rightarrow> if fs_group f = cb_group req then isolated_flow (fb_policy st) f else Some f)) \<and>
    (\<forall>k f. map_of (ss_flows s') k = Some f \<and> fs_group f = cb_group req \<and> \<not> exempt (fb_policy st) f \<longrightarrow>
       isolation_ceiling (fb_policy st) f \<noteq> 0 \<and> fs_granted_min_bps f \<le> isolation_ceiling (fb_policy st) f)"
proof -
  have v: "validate_text (cb_reason req) kMaxStringBytes = Inr ()"
    using assms(3) by (auto simp: BeginCheckpointBurst_def begin_checkpoint_burst_def ttf_try_def split: sum.splits)
  have "\<not> isl (resolve_step (tick st) (cb_authority req))"
    using assms(3) v by (auto simp: BeginCheckpointBurst_def begin_checkpoint_burst_def ttf_try_def
        authority_status_def split: sum.splits)
  then obtain j0 s0 where r: "resolve_step (tick st) (cb_authority req) = Inr (j0, s0)"
    by (metis sum.collapse(2) surj_pair)
  note S = step_success [OF assms(1,2) r]
  have js: "j0 = j" "s0 = s" using S(1,2) assms(4,5) by simp_all
  note fo = job_okD(2) [OF S(3,2), unfolded js]
  let ?j = "j\<lparr>js_next_burst_id := js_next_burst_id j + 1\<rparr>"
  let ?order = "std_sort (<) (keys (filter (\<lambda>e. fs_group (snd e) = cb_group req) (ss_flows s)))"
  obtain w x y where iso0: "isolate_flows (js_next_burst_id j) ?order (tick st, ?j, s) = (w, x, y)"
    by (metis prod_cases3)
  obtain st2 j2 s2 where "w = (st2, j2, s2)" by (cases w)
  note iso = iso0 [unfolded this]
  have groups: "has_key (js_groups j) (cb_group req)" "\<not> (case ss_burst s of None \<Rightarrow> False | Some b \<Rightarrow> bs_active b)"
    using assms(3) v r js
    by (auto simp: BeginCheckpointBurst_def begin_checkpoint_burst_def ttf_try_def require_def split: if_splits)
  let ?b = "\<lparr>bs_id = js_next_burst_id j, bs_group = cb_group req, bs_expected_bytes = cb_expected_bytes req,
      bs_opened_at = fb_now (tick st), bs_deadline_at = cb_deadline_at req, bs_reason = cb_reason req,
      bs_displaced_flows = x, bs_throttled_flows = y, bs_active = True\<rparr>"
  have st': "st' = store_step (at_job (cb_authority req))
      (st2, j2\<lparr>js_last_activity := fb_now st2\<rparr>, s2\<lparr>ss_burst := Some ?b\<rparr>)"
    using assms(3) unfolding BeginCheckpointBurst_def begin_checkpoint_burst_def v ttf_try_def sum.case r js
      prod.case Let_def iso require_def
    using groups by (auto split: if_splits)
  have wf: "wf_table (ss_flows s)" using fo by (simp add: flows_ok_def)
  then have "distinct ?order"
    by (simp add: wf_table_def keys_def distinct_map_filter)
  note P = isolate_flows_pointwise [OF iso this flow_in_okD(1) [OF fo]]
  have mem: "k \<in> set ?order \<longleftrightarrow> (\<exists>f. map_of (ss_flows s) k = Some f \<and> fs_group f = cb_group req)" for k
    using set_table [OF wf] by (force simp: keys_def)
  have flows: "map_of (ss_flows s2) k =
       (case map_of (ss_flows s) k of
          None \<Rightarrow> None
        | Some f \<Rightarrow> if fs_group f = cb_group req then isolated_flow (fb_policy st) f else Some f)" for k
    using P [of k] unfolding mem by (auto split: option.split)
  have bound: "isolation_ceiling (fb_policy st) f \<noteq> 0 \<and> fs_granted_min_bps f \<le> isolation_ceiling (fb_policy st) f"
    if "map_of (ss_flows s2) k = Some f" "fs_group f = cb_group req" "\<not> exempt (fb_policy st) f" for k f
    using flows [of k] that
    by (auto simp: isolated_flow_def exempt_def isolation_ceiling_def split: option.splits if_splits)
  have "\<forall>k f. map_of (ss_flows s2) k = Some f \<and> fs_group f = cb_group req \<and> \<not> exempt (fb_policy st) f \<longrightarrow>
       isolation_ceiling (fb_policy st) f \<noteq> 0 \<and> fs_granted_min_bps f \<le> isolation_ceiling (fb_policy st) f"
    using bound by blast
  then show ?thesis
    unfolding st' using flows
    by (intro exI [of _ "pack (j2\<lparr>js_last_activity := fb_now st2\<rparr>) (s2\<lparr>ss_burst := Some ?b\<rparr>)"]
        exI [of _ "s2\<lparr>ss_burst := Some ?b\<rparr>"]) (simp add: step_has_isolation_def)
qed

section \<open>Pacing\<close>

lemma evaluate_pacing_success:
  assumes "evaluate_pacing st i = (Inr d, st')"
  obtains j s where "resolve_step st (pi_authority i) = Inr (j, s)" and "d = pacing_answer st s i"
    and "pi_arrived_participants i \<le> pi_expected_participants i" and "pi_expected_participants i \<noteq> 0"
proof -
  have c: "pi_expected_participants i \<noteq> 0" "\<not> pi_arrived_participants i > pi_expected_participants i"
    using assms by (auto simp: evaluate_pacing_def require_def split: if_splits)
  have "\<not> isl (resolve_step st (pi_authority i))"
    using assms c by (auto simp: evaluate_pacing_def require_def authority_status_def split: sum.splits)
  then obtain j s where r: "resolve_step st (pi_authority i) = Inr (j, s)" by (metis sum.collapse(2) surj_pair)
  show thesis
    using assms c that [OF r] r by (auto simp: evaluate_pacing_def require_def not_less split: if_splits)
qed

text \<open>
  Pacing holds a barrier only as long as it was told to. It releases exactly when all
  participants have arrived or no grace is given; otherwise it holds, from now on, for at
  most the smaller of the grace and the maximal hold, and not past the deadline of the step
  where that lies ahead; it gives up holding only at a deadline with no slack left that the
  caller asked to be released at.
\<close>

lemma pacing_bounded:
  assumes "EvaluatePacing st i = (Inr d, st')" and "map_of (fb_jobs st) (at_job (pi_authority i)) = Some j"
    and "js_step j = Some s"
    and "unat (fb_now st + 1) + unat (min (pi_grace_ticks i) (pi_max_hold_ticks i)) < 2 ^ 64"
  shows "unat (pn_stragglers d) = unat (pi_expected_participants i) - unat (pi_arrived_participants i) \<and>
    (pn_outcome d = Admit \<longleftrightarrow>
       pi_arrived_participants i = pi_expected_participants i \<or> pi_grace_ticks i = 0 \<or> pi_max_hold_ticks i = 0) \<and>
    (pn_outcome d = Defer \<longrightarrow>
       unat (fb_now st + 1) \<le> unat (pn_hold_until d) \<and>
       unat (pn_hold_until d)
         \<le> unat (fb_now st + 1) + unat (min (pi_grace_ticks i) (pi_max_hold_ticks i)) \<and>
       (ss_deadline_at s \<noteq> 0 \<longrightarrow> pn_hold_until d \<le> max (ss_deadline_at s) (fb_now st + 1))) \<and>
    (pn_outcome d = Throttle \<longrightarrow>
       ss_deadline_at s \<noteq> 0 \<and> ss_slack_ticks s = 0 \<and> pi_release_on_deadline i) \<and>
    pn_outcome d \<in> {Admit, Defer, Throttle}"
proof -
  obtain j0 s0 where P: "resolve_step (tick st) (pi_authority i) = Inr (j0, s0)" "d = pacing_answer (tick st) s0 i"
    "pi_arrived_participants i \<le> pi_expected_participants i" "pi_expected_participants i \<noteq> 0"
    by (rule evaluate_pacing_success [OF assms(1) [unfolded EvaluatePacing_def]])
  have s: "s0 = s" using resolve_step_Inr(1,3) [OF P(1)] assms(2,3) by simp
  let ?now = "fb_now st + 1" and ?hold = "min (pi_grace_ticks i) (pi_max_hold_ticks i)"
  have plus: "unat (?now + h) = unat ?now + unat h" if "h \<le> ?hold" for h
    using assms(4) that by (intro unat_plus64) (simp add: word_le_nat_alt)
  have sub: "unat (ss_deadline_at s - ?now) = unat (ss_deadline_at s) - unat ?now" if "?now < ss_deadline_at s"
    using that by (simp add: unat_sub order_less_imp_le)
  show ?thesis
    unfolding P(2) s
    using P(3) plus sub
    by (auto simp: pacing_answer_def pacing_hold_def Let_def unat_sub word_le_nat_alt word_less_nat_alt not_less)
qed

section \<open>At the sample run\<close>

definition sample_burst :: checkpoint_burst_request where
  "sample_burst = \<lparr>cb_authority = sample_token 1 5 0, cb_group = 7, cb_expected_bytes = 100,
     cb_deadline_at = 0, cb_reason = []\<rparr>"

lemma sample_burst_begins: "\<not> isl (fst (BeginCheckpointBurst busy sample_burst))"
  by code_simp

theorem burst_isolates_group_witness:
  "\<exists>j' s'. map_of (fb_jobs (snd (BeginCheckpointBurst busy sample_burst))) 1 = Some j' \<and>
    js_step j' = Some s' \<and> step_has_isolation s' 7"
  using burst_isolates_group [OF run_busy _ success_pair [OF sample_burst_begins] _ busy_simps(2)]
  by (auto simp: sample_burst_def sample_token_def busy_simps)

definition sample_pacing :: pacing_intent where
  "sample_pacing = \<lparr>pi_authority = sample_token 1 5 0, pi_group = 7, pi_expected_participants = 4,
     pi_arrived_participants = 3, pi_grace_ticks = 10, pi_max_hold_ticks = 6, pi_release_on_deadline = True\<rparr>"

lemma sample_pacing_answered: "\<not> isl (fst (EvaluatePacing busy sample_pacing))"
  by code_simp

theorem pacing_bounded_witness:
  "unat (pn_stragglers (projr (fst (EvaluatePacing busy sample_pacing)))) = 1 \<and>
    pn_outcome (projr (fst (EvaluatePacing busy sample_pacing))) \<noteq> Admit"
  using pacing_bounded [OF success_pair [OF sample_pacing_answered], of busy_job busy_step]
  by (simp add: sample_pacing_def sample_token_def busy_simps busy_def min_def)

end
