(* ===== verification/Codec.thy ===== *)
theory Codec
  imports Util
begin

text \<open>
  \<^verbatim>\<open>src/codec.cpp\<close> and \<^verbatim>\<open>include/ttf/codec.hpp\<close>: the canonical binary writer with its
  bound and its sticky error, and the bounds-checked reader. A reader is what remains of the
  span from its offset on; an accessor is a function from the remaining bytes to an error or
  to a value and the bytes that remain after it. The locale \<open>codec\<close> is the contract of a
  pair of a writing and a reading function; every record of a file or a message is an
  interpretation of it.
\<close>

section \<open>The writer\<close>

record writer =
  bw_limit :: nat
  bw_buffer :: bytes
  bw_error :: error_code

definition make_writer :: "nat \<Rightarrow> writer" where
  "make_writer limit = \<lparr>bw_limit = limit, bw_buffer = [], bw_error = EC_Ok\<rparr>"

definition writer_ok :: "writer \<Rightarrow> bool" where
  "writer_ok w \<longleftrightarrow> bw_error w = EC_Ok"

definition fail_writer :: "error_code \<Rightarrow> writer \<Rightarrow> writer" where
  "fail_writer code w = (if writer_ok w then w\<lparr>bw_error := code\<rparr> else w)"

definition reserve :: "nat \<Rightarrow> writer \<Rightarrow> bool \<times> writer" where
  "reserve n w =
     (if \<not> writer_ok w then (False, w)
      else if n > bw_limit w \<or> length (bw_buffer w) > bw_limit w - n
      then (False, fail_writer EC_TooLarge w)
      else (True, w))"

text \<open>\<^verbatim>\<open>if (!reserve(n)) return; buffer_ += bs\<close>\<close>

definition put_reserved :: "nat \<Rightarrow> bytes \<Rightarrow> writer \<Rightarrow> writer" where
  "put_reserved n bs w =
     (let (room, w1) = reserve n w in if room then w1\<lparr>bw_buffer := bw_buffer w1 @ bs\<rparr> else w1)"

text \<open>Byte \<open>i\<close> of a word is the one at shift \<open>8 * i\<close>: the least significant byte comes first.\<close>

definition le_bytes :: "nat \<Rightarrow> 'a::len word \<Rightarrow> bytes" where
  "le_bytes n v = map (\<lambda>i. ucast (drop_bit (8 * i) v AND 0xFF)) [0..<n]"

definition put_u8 :: "u8 \<Rightarrow> writer \<Rightarrow> writer" where
  "put_u8 v = put_reserved 1 [v]"

definition put_u16 :: "u16 \<Rightarrow> writer \<Rightarrow> writer" where
  "put_u16 v = put_reserved 2 (le_bytes 2 v)"

definition put_u32 :: "u32 \<Rightarrow> writer \<Rightarrow> writer" where
  "put_u32 v = put_reserved 4 (le_bytes 4 v)"

definition put_u64 :: "u64 \<Rightarrow> writer \<Rightarrow> writer" where
  "put_u64 v = put_reserved 8 (le_bytes 8 v)"

definition put_bool :: "bool \<Rightarrow> writer \<Rightarrow> writer" where
  "put_bool b = put_u8 (if b then 1 else 0)"

definition put_bytes :: "bytes \<Rightarrow> writer \<Rightarrow> writer" where
  "put_bytes bs = put_reserved (length bs) bs"

definition put_blob :: "bytes \<Rightarrow> u32 \<Rightarrow> writer \<Rightarrow> writer" where
  "put_blob bs max_bytes w =
     (if length bs > unat max_bytes then fail_writer EC_TooLarge w
      else put_bytes bs (put_u32 (of_nat (length bs)) w))"

definition put_string :: "bytes \<Rightarrow> writer \<Rightarrow> writer" where
  "put_string txt w =
     (if length txt > kMaxStringBytes then fail_writer EC_TooLarge w
      else put_bytes txt (put_u32 (of_nat (length txt)) w))"

text \<open>A run of statements on the same writer.\<close>

primrec writes :: "(writer \<Rightarrow> writer) list \<Rightarrow> writer \<Rightarrow> writer" where
  "writes [] w = w"
| "writes (f # fs) w = writes fs (f w)"

section \<open>The reader\<close>

type_synonym 'a reader = "bytes \<Rightarrow> ('a \<times> bytes) result"

text \<open>\<^verbatim>\<open>TTF_TRY_ASSIGN(x, r); rest\<close>, \<^verbatim>\<open>return x\<close> and \<^verbatim>\<open>if (!b) return Error(e); rest\<close> in a reader.\<close>

definition read_then :: "'a reader \<Rightarrow> ('a \<Rightarrow> 'b reader) \<Rightarrow> 'b reader" where
  "read_then r k bs = (case r bs of Inl e \<Rightarrow> Inl e | Inr (x, rest) \<Rightarrow> k x rest)"

definition give :: "'a \<Rightarrow> 'a reader" where
  "give x bs = Inr (x, bs)"

definition demand :: "bool \<Rightarrow> error_code \<Rightarrow> 'a reader \<Rightarrow> 'a reader" where
  "demand b e k bs = (if b then k bs else Inl e)"

definition ensure :: "status \<Rightarrow> 'a reader \<Rightarrow> 'a reader" where
  "ensure s k bs = (case s of Inl e \<Rightarrow> Inl e | Inr _ \<Rightarrow> k bs)"

primrec of_le :: "bytes \<Rightarrow> 'a::len word" where
  "of_le [] = 0"
| "of_le (b # bs) = ucast b OR push_bit 8 (of_le bs)"

definition read_le :: "nat \<Rightarrow> 'a::len word reader" where
  "read_le n bs = (if length bs < n then Inl EC_Truncated else Inr (of_le (take n bs), drop n bs))"

definition read_u8 :: "u8 reader" where "read_u8 = read_le 1"
definition read_u16 :: "u16 reader" where "read_u16 = read_le 2"
definition read_u32 :: "u32 reader" where "read_u32 = read_le 4"
definition read_u64 :: "u64 reader" where "read_u64 = read_le 8"

definition read_bool :: "bool reader" where
  "read_bool = read_then read_u8 (\<lambda>raw. demand (\<not> raw > 1) EC_BadEncoding (give (raw = 1)))"

definition read_bytes :: "nat \<Rightarrow> bytes reader" where
  "read_bytes n bs = (if length bs < n then Inl EC_Truncated else Inr (take n bs, drop n bs))"

definition read_string :: "nat \<Rightarrow> bytes reader" where
  "read_string max_bytes =
     read_then read_u32 (\<lambda>len.
     demand (\<not> unat len > max_bytes) EC_TooLarge (
     read_then (read_bytes (unat len)) (\<lambda>txt.
     demand (is_valid_utf8 txt) EC_InvalidUtf8 (
     demand (0 \<notin> set txt) EC_InvalidArgument (give txt)))))"

definition read_count :: "nat \<Rightarrow> u32 reader" where
  "read_count max_items =
     read_then read_u32 (\<lambda>v. demand (\<not> unat v > max_items) EC_TooLarge (give v))"

definition expect_end :: "bytes \<Rightarrow> status" where
  "expect_end bs = check (length bs = 0) EC_TrailingGarbage"

section \<open>Words and bytes\<close>

lemma le_bytes_Suc: "le_bytes (Suc n) v = ucast v # le_bytes n (drop_bit 8 v)"
proof -
  have "ucast (drop_bit (8 * Suc i) v AND 0xFF) = (ucast (drop_bit (8 * i) (drop_bit 8 v) AND 0xFF) :: u8)" for i
    by (simp add: drop_bit_drop_bit ac_simps)
  moreover have "ucast (v AND 0xFF) = (ucast v :: u8)"
  proof -
    have ff: "(0xFF :: 'a word) = mask 8" by (simp add: mask_eq_exp_minus_1)
    show ?thesis
      unfolding ff by (rule bit_eqI) (auto simp: bit_simps possible_bit_word dest: bit_imp_le_length)
  qed
  ultimately show ?thesis
    by (simp add: le_bytes_def upt_conv_Cons map_Suc_upt [symmetric] comp_def del: upt_Suc)
qed

lemma length_le_bytes [simp]: "length (le_bytes n v) = n"
  by (simp add: le_bytes_def)

lemma of_le_le_bytes: "of_le (le_bytes n v) = take_bit (8 * n) v"
proof (induction n arbitrary: v)
  case 0
  then show ?case by (simp add: le_bytes_def)
next
  case (Suc n)
  show ?case
    unfolding le_bytes_Suc of_le.simps Suc.IH
    by (rule bit_eqI) (auto simp: bit_simps not_le)
qed

lemma le_bytes_inject: "LENGTH('a) \<le> 8 * n \<Longrightarrow> le_bytes n a = le_bytes n (b :: 'a::len word) \<longleftrightarrow> a = b"
  by (metis of_le_le_bytes take_bit_word_eq_self)

lemma read_le_le_bytes:
  assumes "LENGTH('a) \<le> 8 * n"
  shows "read_le n (le_bytes n (v :: 'a::len word) @ rest) = Inr (v, rest)"
proof -
  have "take_bit (8 * n) v = v" using assms by (rule take_bit_word_eq_self)
  then show ?thesis by (simp add: read_le_def of_le_le_bytes)
qed

lemma bit_of_le: "bit (of_le bs :: 'a::len word) i \<Longrightarrow> i < 8 * length bs"
proof (induction bs arbitrary: i)
  case (Cons b bs)
  then show ?case
    by (auto simp: bit_simps dest: bit_imp_le_length) (metis Cons.IH add_less_cancel_left le_add_diff_inverse)
qed simp

lemma le_bytes_of_le: "8 * length bs \<le> LENGTH('a::len) \<Longrightarrow> le_bytes (length bs) (of_le bs :: 'a word) = bs"
proof (induction bs)
  case (Cons b bs)
  have "ucast (ucast b OR push_bit 8 (of_le bs) :: 'a word) = b"
    using Cons.prems by (intro bit_eqI) (auto simp: bit_simps)
  moreover have "drop_bit 8 (ucast b OR push_bit 8 (of_le bs) :: 'a word) = of_le bs"
  proof (rule bit_eqI)
    fix i
    show "bit (drop_bit 8 (ucast b OR push_bit 8 (of_le bs) :: 'a word)) i = bit (of_le bs :: 'a word) i"
      using Cons.prems bit_of_le [of bs i, where 'a = 'a] by (auto simp: bit_simps dest: bit_imp_le_length)
  qed
  ultimately show ?case using Cons by (simp add: le_bytes_Suc)
qed (simp add: le_bytes_def)

lemma read_le_iff:
  assumes "8 * n = LENGTH('a::len)"
  shows "read_le n bs = Inr (v :: 'a word, rest) \<longleftrightarrow> bs = le_bytes n v @ rest"
proof
  assume "read_le n bs = Inr (v, rest)"
  then have "n \<le> length bs" "v = of_le (take n bs)" "rest = drop n bs"
    by (auto simp: read_le_def split: if_splits)
  then show "bs = le_bytes n v @ rest"
    using le_bytes_of_le [of "take n bs", where 'a = 'a] assms by (simp add: min_absorb2)
next
  assume "bs = le_bytes n v @ rest"
  then show "read_le n bs = Inr (v, rest)" using read_le_le_bytes [of n v rest] assms by simp
qed

text \<open>No reader returns more than it was given, and one that reads a word consumes it.\<close>

lemma read_le_rest: "read_le n bs = Inr (v, rest) \<Longrightarrow> length bs = n + length rest"
  by (auto simp: read_le_def split: if_splits)

lemma read_then_rest:
  assumes "\<And>cs x rest. r cs = Inr (x, rest) \<Longrightarrow> length rest \<le> length cs"
    and "\<And>x cs y rest. k x cs = Inr (y, rest) \<Longrightarrow> length rest \<le> length cs"
  shows "read_then r k bs = Inr (y, rest) \<Longrightarrow> length rest \<le> length bs"
  using assms by (fastforce simp: read_then_def split: sum.splits prod.splits intro: order_trans)

text \<open>The checksum notices one changed byte.\<close>

lemma crc32c_update:
  assumes "i < length xs" and "b \<noteq> xs ! i"
  shows "crc32c (xs[i := b]) \<noteq> crc32c xs"
  using assms crc32c_one_byte [of "take i xs" b "drop (Suc i) xs" "xs ! i"]
  by (simp add: upd_conv_take_nth_drop id_take_nth_drop [symmetric])

section \<open>What a run of writes puts out\<close>

named_theorems emitting \<open>the bytes a writing function appends where it succeeds\<close>
named_theorems reading \<open>what a reader makes of the bytes written for a value\<close>

text \<open>
  The error is sticky: a run that ends without one had none, appended its bytes and stayed
  within the limit.
\<close>

definition emits :: "(writer \<Rightarrow> writer) \<Rightarrow> bytes \<Rightarrow> bool" where
  "emits f bs \<longleftrightarrow> (\<forall>w. writer_ok (f w) \<longrightarrow>
     writer_ok w \<and> bw_buffer (f w) = bw_buffer w @ bs \<and> bw_limit (f w) = bw_limit w \<and>
     (bs = [] \<or> length (bw_buffer (f w)) \<le> bw_limit w))"

lemma emits_reserved: "length bs = n \<Longrightarrow> emits (put_reserved n bs) bs"
  by (auto simp: emits_def put_reserved_def reserve_def fail_writer_def writer_ok_def Let_def split: if_splits)

lemma emits_fail: "emits (fail_writer EC_TooLarge) bs"
  by (auto simp: emits_def fail_writer_def writer_ok_def)

lemma emits_nil [emitting]: "emits (writes []) []"
  by (simp add: emits_def)

lemma emitsD:
  "emits f bs \<Longrightarrow> writer_ok (f w) \<Longrightarrow> writer_ok w"
  "emits f bs \<Longrightarrow> writer_ok (f w) \<Longrightarrow> bw_buffer (f w) = bw_buffer w @ bs"
  "emits f bs \<Longrightarrow> writer_ok (f w) \<Longrightarrow> bw_limit (f w) = bw_limit w"
  "emits f bs \<Longrightarrow> writer_ok (f w) \<Longrightarrow> bs \<noteq> [] \<Longrightarrow> length (bw_buffer w @ bs) \<le> bw_limit w"
proof -
  assume "emits f bs" and "writer_ok (f w)"
  then have *: "writer_ok w \<and> bw_buffer (f w) = bw_buffer w @ bs \<and> bw_limit (f w) = bw_limit w \<and>
      (bs = [] \<or> length (bw_buffer (f w)) \<le> bw_limit w)"
    unfolding emits_def by blast
  then show "writer_ok w" "bw_buffer (f w) = bw_buffer w @ bs" "bw_limit (f w) = bw_limit w"
    by simp_all
  show "length (bw_buffer w @ bs) \<le> bw_limit w" if "bs \<noteq> []"
    using * that by metis
qed

lemma emits_two:
  assumes f: "emits f a" and g: "emits g b"
  shows "emits (\<lambda>w. g (f w)) (a @ b)"
  unfolding emits_def
proof (intro allI impI conjI)
  fix w
  assume ok: "writer_ok (g (f w))"
  note ok' = emitsD(1) [OF g ok]
  show "writer_ok w" by (rule emitsD(1) [OF f ok'])
  show buffer: "bw_buffer (g (f w)) = bw_buffer w @ (a @ b)"
    unfolding emitsD(2) [OF g ok] emitsD(2) [OF f ok'] by simp
  show "bw_limit (g (f w)) = bw_limit w"
    unfolding emitsD(3) [OF g ok] by (rule emitsD(3) [OF f ok'])
  show "a @ b = [] \<or> length (bw_buffer (g (f w))) \<le> bw_limit w"
    using emitsD(4) [OF g ok] emitsD(2,3,4) [OF f ok'] buffer by (cases "b = []") auto
qed

lemma emits_cons [emitting]: "emits f a \<Longrightarrow> emits (writes fs) b \<Longrightarrow> emits (writes (f # fs)) (a @ b)"
  using emits_two [of f a "writes fs" b] by (simp add: writes_def)

definition one_byte :: "u8 \<Rightarrow> bytes" where
  "one_byte v = [v]"

lemma read_le_one_byte: "read_le 1 (one_byte v @ rest) = Inr (v, rest)"
  by (simp add: read_le_def one_byte_def)

lemma emits_words [emitting]:
  "emits (put_u8 a) (one_byte a)" "emits (put_u16 b) (le_bytes 2 b)"
  "emits (put_u32 c) (le_bytes 4 c)" "emits (put_u64 d) (le_bytes 8 d)"
  "emits (put_bool x) (one_byte (if x then 1 else 0))"
  by (simp_all add: put_u8_def put_u16_def put_u32_def put_u64_def put_bool_def emits_reserved one_byte_def)

lemma emits_bytes: "emits (put_bytes bs) bs"
  by (simp add: put_bytes_def emits_reserved)

text \<open>A writer that is too full fails; with room left nothing stops it.\<close>

lemma put_reserved_room:
  "writer_ok w \<Longrightarrow> length (bw_buffer w) + n \<le> bw_limit w \<Longrightarrow>
     put_reserved n bs w = w\<lparr>bw_buffer := bw_buffer w @ bs\<rparr>"
  by (auto simp: put_reserved_def reserve_def Let_def)

section \<open>What a reader makes of it\<close>

lemma read_then_app [reading]: "r (a @ rest) = Inr (x, rest) \<Longrightarrow> read_then r k (a @ rest) = k x rest"
  by (simp add: read_then_def)

lemma read_then_eq: "r bs = Inr (x, rest) \<Longrightarrow> read_then r k bs = k x rest"
  by (simp add: read_then_def)

lemma read_words [reading]:
  "read_u8 (one_byte a @ rest) = Inr (a, rest)" "read_u16 (le_bytes 2 b @ rest) = Inr (b, rest)"
  "read_u32 (le_bytes 4 c @ rest) = Inr (c, rest)" "read_u64 (le_bytes 8 d @ rest) = Inr (d, rest)"
  by (simp_all add: read_u8_def read_u16_def read_u32_def read_u64_def read_le_le_bytes read_le_one_byte [simplified])

text \<open>Read backwards: the only bytes a word is read from are the ones written for it.\<close>

lemma read_words_iff:
  "read_u16 bs = Inr (b, rest) \<longleftrightarrow> bs = le_bytes 2 b @ rest"
  "read_u32 bs = Inr (c, rest) \<longleftrightarrow> bs = le_bytes 4 c @ rest"
  "read_u64 bs = Inr (d, rest) \<longleftrightarrow> bs = le_bytes 8 d @ rest"
  by (simp_all add: read_u16_def read_u32_def read_u64_def read_le_iff)

lemma read_bytes_iff: "read_bytes n bs = Inr (a, rest) \<longleftrightarrow> bs = a @ rest \<and> length a = n"
  by (auto simp: read_bytes_def)

lemma reader_steps_iff:
  "read_then r k bs = Inr z \<longleftrightarrow> (\<exists>x rest. r bs = Inr (x, rest) \<and> k x rest = Inr z)"
  "demand b e q bs = Inr z \<longleftrightarrow> b \<and> q bs = Inr z"
  "ensure c q bs = Inr z \<longleftrightarrow> c = Inr () \<and> q bs = Inr z"
  "give y bs = Inr z \<longleftrightarrow> z = (y, bs)"
  by (auto simp: read_then_def demand_def give_def ensure_def split: sum.splits)

lemma read_bool_app [reading]: "read_bool (one_byte (if x then 1 else 0) @ rest) = Inr (x, rest)"
  by (cases x) (simp_all add: read_bool_def read_then_def read_words demand_def give_def)

lemma read_bool_bytes [reading]:
  "read_bool (one_byte 1 @ rest) = Inr (True, rest)" "read_bool (one_byte 0 @ rest) = Inr (False, rest)"
  "read_then read_bool k (one_byte 1 @ rest) = k True rest" "read_then read_bool k (one_byte 0 @ rest) = k False rest"
  using read_bool_app [of True] read_bool_app [of False] by (simp_all add: read_then_def)

lemma reader_steps [reading]: "give x bs = Inr (x, bs)" "b \<Longrightarrow> demand b e k bs = k bs"
  "s = Inr () \<Longrightarrow> ensure s k bs = k bs"
  by (simp_all add: give_def demand_def ensure_def)

lemma read_count_app [reading]:
  "unat n \<le> limit \<Longrightarrow> read_count limit (le_bytes 4 n @ rest) = Inr (n, rest)"
  by (simp add: read_count_def reading)

lemma append_assoc_reading [reading]: "(a @ b) @ c = a @ (b @ c)" "[] @ (a :: 'a list) = a"
  by simp_all

text \<open>Readers nest: what follows a composed reader follows its last step.\<close>

lemma read_then_nested [reading]:
  "read_then (read_then r f) k = read_then r (\<lambda>x. read_then (f x) k)"
  "read_then (demand b e q) k = demand b e (read_then q k)"
  "read_then (ensure s q) k = ensure s (read_then q k)"
  "read_then (give x) k = k x"
  by (auto simp: read_then_def demand_def ensure_def give_def fun_eq_iff split: sum.splits)

lemma emits_eq: "emits f a \<Longrightarrow> a = b \<Longrightarrow> emits f b"
  by simp

lemma emits_map [emitting]:
  assumes "\<And>x. emits (f x) (img x)"
  shows "emits (writes (map f xs)) (concat (map img xs))"
proof (induction xs)
  case Nil
  show ?case by (simp add: emits_nil del: writes.simps)
next
  case (Cons x xs)
  show ?case using emits_cons [OF assms Cons.IH] by (simp del: writes.simps)
qed

section \<open>The contract of a codec\<close>

text \<open>
  What is written for a value can be read back whatever follows it: a good value gives its
  normal form and exactly the bytes that follow.
\<close>

locale codec =
  fixes put_it :: "'a \<Rightarrow> writer \<Rightarrow> writer" and get_it :: "'b reader"
    and good :: "'a \<Rightarrow> bool" and norm :: "'a \<Rightarrow> 'b"
  assumes readable: "\<exists>bs. emits (put_it x) bs \<and> (good x \<longrightarrow> (\<forall>rest. get_it (bs @ rest) = Inr (norm x, rest)))"
begin

definition image :: "'a \<Rightarrow> bytes" where
  "image x = (SOME bs. emits (put_it x) bs \<and> (good x \<longrightarrow> (\<forall>rest. get_it (bs @ rest) = Inr (norm x, rest))))"

lemma image_props:
  "emits (put_it x) (image x) \<and> (good x \<longrightarrow> (\<forall>rest. get_it (image x @ rest) = Inr (norm x, rest)))"
  unfolding image_def by (rule someI_ex [OF readable])

lemma emits_image: "emits (put_it x) (image x)"
  using image_props by blast

lemma read_image: "good x \<Longrightarrow> get_it (image x @ rest) = Inr (norm x, rest)"
  using image_props by blast

lemma emits_all: "emits (writes (map put_it xs)) (concat (map image xs))"
  by (rule emits_map [OF emits_image])

text \<open>An encoder that starts an empty buffer, and a decoder that wants nothing to follow.\<close>

lemma encoded_decoded:
  assumes "writer_ok (put_it x (make_writer n))" and "good x"
  shows "get_it (bw_buffer (put_it x (make_writer n))) = Inr (norm x, [])"
proof -
  have "bw_buffer (put_it x (make_writer n)) = image x"
    using emits_image [of x] assms(1) by (simp add: emits_def make_writer_def)
  then show ?thesis using read_image [OF assms(2), of "[]"] by simp
qed

end

lemma codecI:
  assumes "\<And>x. emits (put_it x) (img x)"
    and "\<And>x rest. good x \<Longrightarrow> get_it (img x @ rest) = Inr (norm x, rest)"
  shows "codec put_it get_it good norm"
  using assms by unfold_locales blast

text \<open>A list of records, each read the same way.\<close>

primrec read_many :: "nat \<Rightarrow> 'a reader \<Rightarrow> 'a list reader" where
  "read_many 0 r = give []"
| "read_many (Suc n) r = read_then r (\<lambda>x. read_then (read_many n r) (\<lambda>xs. give (x # xs)))"

context codec
begin

lemma read_many_image:
  "\<forall>x \<in> set xs. good x \<Longrightarrow>
     read_many (length xs) get_it (concat (map image xs) @ rest) = Inr (map norm xs, rest)"
  by (induction xs) (simp_all add: reading read_image)

end

text \<open>
  A loop that reads items and folds them into a state, with checks of an item against the
  state: \<open>runs ok step s xs\<close> says that every check passes on the way.
\<close>

primrec read_fold :: "nat \<Rightarrow> ('s \<Rightarrow> 's reader) \<Rightarrow> 's \<Rightarrow> 's reader" where
  "read_fold 0 body s = give s"
| "read_fold (Suc n) body s = read_then (body s) (read_fold n body)"

primrec runs :: "('s \<Rightarrow> 'a \<Rightarrow> bool) \<Rightarrow> ('s \<Rightarrow> 'a \<Rightarrow> 's) \<Rightarrow> 's \<Rightarrow> 'a list \<Rightarrow> bool" where
  "runs ok step s [] \<longleftrightarrow> True"
| "runs ok step s (x # xs) \<longleftrightarrow> ok s x \<and> runs ok step (step s x) xs"

lemma read_fold_image:
  assumes "\<And>s x rest. x \<in> set xs \<Longrightarrow> ok s x \<Longrightarrow> body s (img x @ rest) = Inr (step s x, rest)"
    and "runs ok step s xs"
  shows "read_fold (length xs) body s (concat (map img xs) @ rest) = Inr (foldl step s xs, rest)"
  using assms by (induction xs arbitrary: s) (simp_all add: reading)

text \<open>Whatever the bytes, a loop keeps what every turn of it keeps.\<close>

lemma read_fold_keeps:
  assumes "\<And>s bs s' rest. P s \<Longrightarrow> body s bs = Inr (s', rest) \<Longrightarrow> P s'" and "P s"
    and "read_fold n body s bs = Inr (s', rest)"
  shows "P s'"
  using assms(2,3)
  by (induction n arbitrary: s bs) (auto simp: reader_steps_iff dest: assms(1))

text \<open>Text: what the reader accepts is what the writer may be given.\<close>

definition text_ok :: "bytes \<Rightarrow> bool" where
  "text_ok txt \<longleftrightarrow> validate_text txt kMaxStringBytes = Inr ()"

lemma text_ok_Nil [simp]: "text_ok []"
  by (simp add: text_ok_def)

lemma text_codec: "codec put_string (read_string kMaxStringBytes) text_ok (\<lambda>x. x)"
proof
  fix cs :: bytes
  let ?n = "of_nat (length cs) :: u32"
  have put: "put_string cs = (if length cs > kMaxStringBytes then fail_writer EC_TooLarge
      else (\<lambda>w. put_bytes cs (put_u32 ?n w)))"
    by (auto simp: put_string_def fun_eq_iff)
  have "emits (put_string cs) (le_bytes 4 ?n @ cs)"
    unfolding put using emits_fail emits_two [OF emits_words(3) emits_bytes] by simp
  moreover have "read_string kMaxStringBytes ((le_bytes 4 ?n @ cs) @ rest) = Inr (cs, rest)" if "text_ok cs" for rest
  proof -
    have t: "length cs \<le> kMaxStringBytes" "is_valid_utf8 cs" "0 \<notin> set cs"
      using that by (simp_all add: text_ok_def)
    then have n: "unat ?n = length cs" by (simp add: unat_of_nat bound_defs)
    have "read_bytes (length cs) (cs @ rest) = Inr (cs, rest)" by (simp add: read_bytes_def)
    then have "read_then (read_bytes (length cs)) k (cs @ rest) = k cs rest" for k :: "bytes \<Rightarrow> bytes reader"
      by (simp add: read_then_def)
    with t n show ?thesis by (simp add: read_string_def reading)
  qed
  ultimately show "\<exists>bs. emits (put_string cs) bs \<and>
      (text_ok cs \<longrightarrow> (\<forall>rest. read_string kMaxStringBytes (bs @ rest) = Inr (cs, rest)))" by blast
qed

interpretation texts: codec put_string "read_string kMaxStringBytes" text_ok "\<lambda>x. x"
  by (rule text_codec)

declare texts.emits_image [emitting] texts.read_image [reading]

end
