(* ===== verification/Wire.thy ===== *)
theory Wire
  imports Codec
begin

text \<open>
  \<^verbatim>\<open>src/wire.cpp\<close> and \<^verbatim>\<open>include/ttf/wire.hpp\<close> up to the block codecs: frames with their two
  checksums, messages of uniquely tagged fields in ascending order, and the replay window of a
  session. Operation codes and tags are the words that go over the wire.
\<close>

section \<open>Message types and fields\<close>

text \<open>Like an error code, a message type holds any word a frame may declare.\<close>

datatype message_type = MessageType (message_type_raw: u16)

abbreviation MT_Invalid :: message_type where "MT_Invalid \<equiv> MessageType 0"
abbreviation MT_Hello :: message_type where "MT_Hello \<equiv> MessageType 1"
abbreviation MT_HelloAck :: message_type where "MT_HelloAck \<equiv> MessageType 2"
abbreviation MT_Goodbye :: message_type where "MT_Goodbye \<equiv> MessageType 3"
abbreviation MT_Request :: message_type where "MT_Request \<equiv> MessageType 10"
abbreviation MT_Response :: message_type where "MT_Response \<equiv> MessageType 11"
abbreviation MT_Event :: message_type where "MT_Event \<equiv> MessageType 12"
abbreviation MT_Error :: message_type where "MT_Error \<equiv> MessageType 13"
abbreviation MT_Ping :: message_type where "MT_Ping \<equiv> MessageType 14"
abbreviation MT_Pong :: message_type where "MT_Pong \<equiv> MessageType 15"

text \<open>\<^verbatim>\<open>to_string(MessageType)\<close>.\<close>

definition message_type_names :: "(u16 \<times> string) list" where
  "message_type_names = [(0, ''INVALID''), (1, ''HELLO''), (2, ''HELLO_ACK''), (3, ''GOODBYE''), (10, ''REQUEST''),
     (11, ''RESPONSE''), (12, ''EVENT''), (13, ''ERROR''), (14, ''PING''), (15, ''PONG'')]"

definition message_type_name :: "message_type \<Rightarrow> string" where
  "message_type_name type =
     (case map_of message_type_names (message_type_raw type) of Some name \<Rightarrow> name | None \<Rightarrow> ''INVALID'')"

definition is_known_operation :: "u16 \<Rightarrow> bool" where
  "is_known_operation raw \<longleftrightarrow> 1 \<le> raw \<and> raw \<le> 27"

datatype field_type = FT_U8 | FT_U16 | FT_U32 | FT_U64 | FT_Bool | FT_Text | FT_Bytes | FT_Block

definition field_types :: "field_type list" where
  "field_types = [FT_U8, FT_U16, FT_U32, FT_U64, FT_Bool, FT_Text, FT_Bytes, FT_Block]"

primrec field_type_raw :: "field_type \<Rightarrow> u8" where
  "field_type_raw FT_U8 = 1"
| "field_type_raw FT_U16 = 2"
| "field_type_raw FT_U32 = 3"
| "field_type_raw FT_U64 = 4"
| "field_type_raw FT_Bool = 5"
| "field_type_raw FT_Text = 6"
| "field_type_raw FT_Bytes = 7"
| "field_type_raw FT_Block = 8"

primrec fixed_width :: "field_type \<Rightarrow> nat" where
  "fixed_width FT_U8 = 1"
| "fixed_width FT_Bool = 1"
| "fixed_width FT_U16 = 2"
| "fixed_width FT_U32 = 4"
| "fixed_width FT_U64 = 8"
| "fixed_width FT_Text = 0"
| "fixed_width FT_Bytes = 0"
| "fixed_width FT_Block = 0"

section \<open>Frames\<close>

definition kFrameMagic :: u32 where "kFrameMagic = 0x31465454"
definition kProtocolVersion :: u16 where "kProtocolVersion = 1"
definition kFrameHeaderBytes :: nat where "kFrameHeaderBytes = 44"

record frame_header =
  fh_magic :: u32
  fh_version :: u16
  fh_type :: u16
  fh_flags :: u32
  fh_session :: u64
  fh_sequence :: u64
  fh_nonce :: u64
  fh_payload_length :: u32
  fh_header_crc :: u32

record frame =
  fm_header :: frame_header
  fm_payload :: bytes

definition encoded_frame_size :: "nat \<Rightarrow> nat" where
  "encoded_frame_size payload_length = kFrameHeaderBytes + payload_length + 4"

definition encode_frame :: "u16 \<Rightarrow> u32 \<Rightarrow> u64 \<Rightarrow> u64 \<Rightarrow> u64 \<Rightarrow> bytes \<Rightarrow> bytes result" where
  "encode_frame type flags session sequence nonce payload =
     (if length payload > kMaxPayloadBytes then Inl EC_TooLarge
      else
        let w1 = writes [put_u32 kFrameMagic, put_u16 kProtocolVersion, put_u16 type, put_u32 flags,
                   put_u64 session, put_u64 sequence, put_u64 nonce, put_u32 (of_nat (length payload))]
                   (make_writer (encoded_frame_size (length payload)));
            header_crc = crc32c (bw_buffer w1);
            w2 = writes [put_u32 header_crc, put_bytes payload, put_u32 (crc32c payload)] w1
        in if \<not> writer_ok w2 then Inl (bw_error w2) else Inr (bw_buffer w2))"

text \<open>\<^verbatim>\<open>read_u32_at(bytes, offset)\<close>, where the caller has checked the length.\<close>

definition read_at :: "nat \<Rightarrow> bytes \<Rightarrow> nat \<Rightarrow> 'a::len word" where
  "read_at n bs offset = of_le (take n (drop offset bs))"

definition frame_payload_length :: "bytes \<Rightarrow> u32 result" where
  "frame_payload_length header =
     rbind (check (\<not> length header < kFrameHeaderBytes) EC_Truncated) (\<lambda>_.
     rbind (checks
       [(read_at 4 header 0 = kFrameMagic, EC_BadMagic),
        (read_at 2 header 4 = kProtocolVersion, EC_UnsupportedProtocolVersion),
        (read_at 4 header (kFrameHeaderBytes - 4) = crc32c (take (kFrameHeaderBytes - 4) header), EC_BadChecksum),
        (\<not> unat (read_at 4 header 36 :: u32) > kMaxPayloadBytes, EC_TooLarge)]) (\<lambda>_.
     Inr (read_at 4 header 36)))"

definition decode_frame :: "bytes \<Rightarrow> frame result" where
  "decode_frame bs =
     rbind (check (\<not> length bs < kFrameHeaderBytes) EC_Truncated) (\<lambda>_.
     rbind (frame_payload_length (take kFrameHeaderBytes bs)) (\<lambda>payload_length.
     rbind (checks [(\<not> length bs < encoded_frame_size (unat payload_length), EC_Truncated),
                    (\<not> length bs > encoded_frame_size (unat payload_length), EC_TrailingGarbage)]) (\<lambda>_.
     (let payload = take (unat payload_length) (drop kFrameHeaderBytes bs)
      in rbind (check (crc32c payload = read_at 4 bs (kFrameHeaderBytes + unat payload_length)) EC_BadChecksum) (\<lambda>_.
         Inr \<lparr>fm_header = \<lparr>fh_magic = read_at 4 bs 0, fh_version = read_at 2 bs 4, fh_type = read_at 2 bs 6,
             fh_flags = read_at 4 bs 8, fh_session = read_at 8 bs 12, fh_sequence = read_at 8 bs 20,
             fh_nonce = read_at 8 bs 28, fh_payload_length = payload_length,
             fh_header_crc = read_at 4 bs (kFrameHeaderBytes - 4)\<rparr>,
           fm_payload = payload\<rparr>)))))"

section \<open>Messages\<close>

definition kMaxKnownTag :: u16 where "kMaxKnownTag = 120"

record field =
  fd_tag :: u16
  fd_type :: field_type
  fd_value :: bytes

record message =
  ms_type :: message_type
  ms_fields :: "field list"

definition new_message :: "message_type \<Rightarrow> message" where
  "new_message type = \<lparr>ms_type = type, ms_fields = []\<rparr>"

definition set_field :: "field_type \<Rightarrow> u16 \<Rightarrow> bytes \<Rightarrow> message \<Rightarrow> message" where
  "set_field type tag value m =
     m\<lparr>ms_fields := ms_fields m @ [\<lparr>fd_tag = tag, fd_type = type, fd_value = value\<rparr>]\<rparr>"

definition set_u8 :: "u16 \<Rightarrow> u8 \<Rightarrow> message \<Rightarrow> message" where "set_u8 tag v = set_field FT_U8 tag [v]"
definition set_u16 :: "u16 \<Rightarrow> u16 \<Rightarrow> message \<Rightarrow> message" where "set_u16 tag v = set_field FT_U16 tag (le_bytes 2 v)"
definition set_u32 :: "u16 \<Rightarrow> u32 \<Rightarrow> message \<Rightarrow> message" where "set_u32 tag v = set_field FT_U32 tag (le_bytes 4 v)"
definition set_u64 :: "u16 \<Rightarrow> u64 \<Rightarrow> message \<Rightarrow> message" where "set_u64 tag v = set_field FT_U64 tag (le_bytes 8 v)"
definition set_bool :: "u16 \<Rightarrow> bool \<Rightarrow> message \<Rightarrow> message" where
  "set_bool tag v = set_field FT_Bool tag [if v then 1 else 0]"
definition set_text :: "u16 \<Rightarrow> bytes \<Rightarrow> message \<Rightarrow> message" where "set_text tag v = set_field FT_Text tag v"
definition set_bytes :: "u16 \<Rightarrow> bytes \<Rightarrow> message \<Rightarrow> message" where "set_bytes tag v = set_field FT_Bytes tag v"
definition set_block :: "u16 \<Rightarrow> bytes \<Rightarrow> message \<Rightarrow> message" where "set_block tag v = set_field FT_Block tag v"

definition find_field :: "message \<Rightarrow> u16 \<Rightarrow> field option" where
  "find_field m tag = find (\<lambda>f. fd_tag f = tag) (ms_fields m)"

definition has_field :: "message \<Rightarrow> u16 \<Rightarrow> bool" where
  "has_field m tag \<longleftrightarrow> find_field m tag \<noteq> None"

text \<open>The getters: the field has to be there, of the type, and of its width.\<close>

definition get_field :: "(field \<Rightarrow> bool) \<Rightarrow> message \<Rightarrow> u16 \<Rightarrow> bytes result" where
  "get_field fits m tag = (case find_field m tag of
     None \<Rightarrow> Inl EC_MissingField
   | Some f \<Rightarrow> if fits f then Inr (fd_value f) else Inl EC_BadEncoding)"

definition typed :: "field_type \<Rightarrow> field \<Rightarrow> bool" where
  "typed t f \<longleftrightarrow> fd_type f = t \<and> length (fd_value f) = fixed_width t"

definition get_u8 :: "message \<Rightarrow> u16 \<Rightarrow> u8 result" where
  "get_u8 m tag = rbind (get_field (typed FT_U8) m tag) (\<lambda>bs. Inr (hd bs))"
definition get_u16 :: "message \<Rightarrow> u16 \<Rightarrow> u16 result" where
  "get_u16 m tag = rbind (get_field (typed FT_U16) m tag) (\<lambda>bs. Inr (read_at 2 bs 0))"
definition get_u32 :: "message \<Rightarrow> u16 \<Rightarrow> u32 result" where
  "get_u32 m tag = rbind (get_field (typed FT_U32) m tag) (\<lambda>bs. Inr (read_at 4 bs 0))"
definition get_u64 :: "message \<Rightarrow> u16 \<Rightarrow> u64 result" where
  "get_u64 m tag = rbind (get_field (typed FT_U64) m tag) (\<lambda>bs. Inr (read_at 8 bs 0))"
definition get_bool :: "message \<Rightarrow> u16 \<Rightarrow> bool result" where
  "get_bool m tag = rbind (get_field (typed FT_Bool) m tag) (\<lambda>bs.
     rbind (check (\<not> hd bs > 1) EC_BadEncoding) (\<lambda>_. Inr (hd bs = 1)))"
definition get_text :: "message \<Rightarrow> u16 \<Rightarrow> bytes result" where
  "get_text m tag = rbind (get_field (\<lambda>f. fd_type f = FT_Text) m tag) (\<lambda>bs.
     rbind (check (is_valid_utf8 bs) EC_InvalidUtf8) (\<lambda>_. Inr bs))"
definition get_block :: "message \<Rightarrow> u16 \<Rightarrow> bytes result" where
  "get_block = get_field (\<lambda>f. fd_type f = FT_Block \<or> fd_type f = FT_Bytes)"
definition get_u64_or :: "message \<Rightarrow> u16 \<Rightarrow> u64 \<Rightarrow> u64" where
  "get_u64_or m tag fallback = (case get_u64 m tag of Inl _ \<Rightarrow> fallback | Inr v \<Rightarrow> v)"
definition get_text_or :: "message \<Rightarrow> u16 \<Rightarrow> bytes \<Rightarrow> bytes" where
  "get_text_or m tag fallback = (case get_text m tag of Inl _ \<Rightarrow> fallback | Inr v \<Rightarrow> v)"

text \<open>The loop of \<^verbatim>\<open>encode\<close>: the checks of a field return early, its writes go to the writer.\<close>

definition field_checks :: "field \<Rightarrow> status" where
  "field_checks f =
     rbind (checks
       [(\<not> (fd_tag f = 0 \<or> fd_tag f > kMaxKnownTag), EC_UnknownField),
        (\<not> (fixed_width (fd_type f) \<noteq> 0 \<and> length (fd_value f) \<noteq> fixed_width (fd_type f)), EC_BadEncoding),
        (\<not> length (fd_value f) > kMaxPayloadBytes, EC_TooLarge)]) (\<lambda>_.
     if fd_type f = FT_Text then validate_text (fd_value f) kMaxStringBytes else Inr ())"

definition write_field :: "field \<Rightarrow> writer \<Rightarrow> writer" where
  "write_field f = writes [put_u16 (fd_tag f), put_u8 (field_type_raw (fd_type f)),
     put_u16 (of_nat (length (fd_value f))), put_bytes (fd_value f)]"

primrec encode_fields :: "field list \<Rightarrow> writer \<Rightarrow> writer result" where
  "encode_fields [] w = Inr w"
| "encode_fields (f # fs) w = rbind (field_checks f) (\<lambda>_. encode_fields fs (write_field f w))"

definition encode_message :: "message \<Rightarrow> bytes result" where
  "encode_message m =
     (let ordered = sort_key fd_tag (ms_fields m)
      in rbind (checks
           [(ms_type m \<noteq> MT_Invalid, EC_BadEncoding),
            (distinct_adj (map fd_tag ordered), EC_DuplicateField),
            (\<not> length ordered > kMaxFieldsPerMessage, EC_TooManyFields)]) (\<lambda>_.
         rbind (encode_fields ordered (put_u16 (of_nat (length ordered)) (make_writer kMaxPayloadBytes))) (\<lambda>w.
         if \<not> writer_ok w then Inl (bw_error w) else Inr (bw_buffer w))))"

text \<open>One turn of the loop of \<^verbatim>\<open>decode\<close>: the message so far and the tag of the last field.\<close>

definition decode_field :: "message \<times> u16 \<Rightarrow> (message \<times> u16) reader" where
  "decode_field s = (case s of (m, previous) \<Rightarrow>
     read_then read_u16 (\<lambda>tag.
     demand (\<not> (tag = 0 \<or> tag > kMaxKnownTag)) EC_UnknownField (
     demand (\<not> tag \<le> previous) EC_FieldOrderViolation (
     read_then read_u8 (\<lambda>raw.
     demand (\<not> (raw < field_type_raw FT_U8 \<or> raw > field_type_raw FT_Block)) EC_BadEncoding (
     (let type = field_types ! (unat raw - 1)
      in read_then read_u16 (\<lambda>len.
         demand (\<not> (fixed_width type \<noteq> 0 \<and> unat len \<noteq> fixed_width type)) EC_BadEncoding (
         demand (\<not> (type = FT_Text \<and> unat len > kMaxStringBytes)) EC_TooLarge (
         read_then (read_bytes (unat len)) (\<lambda>value.
         ensure (if type = FT_Text then validate_text value kMaxStringBytes else Inr ()) (
         demand (\<not> (type = FT_Bool \<and> length value = 1 \<and> hd value > 1)) EC_BadEncoding (
         give (set_field type tag value m, tag))))))))))))))"

definition decode_message :: "message_type \<Rightarrow> bytes \<Rightarrow> message result" where
  "decode_message type payload =
     rbind (check (type \<noteq> MT_Invalid) EC_BadEncoding) (\<lambda>_.
     rbind (read_u16 payload) (\<lambda>(n, rest).
     rbind (check (\<not> unat n > kMaxFieldsPerMessage) EC_TooManyFields) (\<lambda>_.
     rbind (read_fold (unat n) decode_field (new_message type, 0) rest) (\<lambda>((m, previous), rest).
     rbind (expect_end rest) (\<lambda>_. Inr m)))))"

section \<open>Errors in messages\<close>

definition set_error :: "error_code \<Rightarrow> bytes \<Rightarrow> message \<Rightarrow> message" where
  "set_error code detail m =
     (let m1 = set_u16 1 (error_raw code) m in if detail \<noteq> [] then set_text 2 detail m1 else m1)"

definition get_error :: "message \<Rightarrow> error_code" where
  "get_error m = (case get_u16 m 1 of Inl _ \<Rightarrow> EC_MissingField | Inr code \<Rightarrow> ErrorCode code)"

section \<open>The replay window\<close>

record replay_window =
  rw_last_sequence :: u64
  rw_seen_any :: bool
  rw_nonces :: "u64 list"
  rw_window :: u32
  rw_accepted :: u64
  rw_rejected :: u64

definition make_window :: "u32 \<Rightarrow> replay_window" where
  "make_window window = \<lparr>rw_last_sequence = 0, rw_seen_any = False, rw_nonces = [],
     rw_window = (if window = 0 then 1 else window), rw_accepted = 0, rw_rejected = 0\<rparr>"

definition accept :: "replay_window \<Rightarrow> u64 \<Rightarrow> u64 \<Rightarrow> status \<times> replay_window" where
  "accept w sequence nonce =
     (let refused = w\<lparr>rw_rejected := rw_rejected w + 1\<rparr>
      in if nonce = 0 then (Inl EC_ProtocolViolation, refused)
         else if rw_seen_any w \<and> sequence \<le> rw_last_sequence w
         then (Inl (if sequence = rw_last_sequence w then EC_ReplayDetected else EC_SequenceViolation), refused)
         else if nonce \<in> set (rw_nonces w) then (Inl EC_ReplayDetected, refused)
         else (let nonces = rw_nonces w @ [nonce]
               in (Inr (), w\<lparr>rw_nonces := drop (length nonces - unat (rw_window w)) nonces, rw_seen_any := True,
                     rw_last_sequence := sequence, rw_accepted := rw_accepted w + 1\<rparr>)))"

section \<open>Sealed bytes\<close>

text \<open>Bytes followed by their checksum; no single byte of the whole can change unnoticed.\<close>

definition sealed :: "bytes \<Rightarrow> bytes" where
  "sealed xs = xs @ le_bytes 4 (crc32c xs)"

lemma length_sealed [simp]: "length (sealed xs) = length xs + 4"
  by (simp add: sealed_def)

lemma sealed_inject: "sealed xs = sealed ys \<longleftrightarrow> xs = ys"
  by (metis append_eq_append_conv length_le_bytes sealed_def)

lemma sealed_one_byte:
  assumes "i < length (sealed xs)" and "b \<noteq> sealed xs ! i"
  shows "(sealed xs)[i := b] \<noteq> sealed ys"
proof
  assume eq: "(sealed xs)[i := b] = sealed ys"
  then have "length (sealed ys) = length (sealed xs)" by (metis length_list_update)
  then have len: "length ys = length xs" by simp
  have ys: "ys = take (length xs) ((sealed xs)[i := b])" and
    crc: "le_bytes 4 (crc32c ys) = drop (length xs) ((sealed xs)[i := b])"
    by (simp_all add: eq len [symmetric]) (simp_all add: sealed_def)
  show False
  proof (cases "i < length xs")
    case True
    then have "ys = xs[i := b]" "crc32c ys = crc32c xs"
      using ys crc by (simp_all add: sealed_def list_update_append le_bytes_inject)
    moreover have "b \<noteq> xs ! i" using True assms(2) by (simp add: sealed_def nth_append)
    ultimately show False using crc32c_update [OF True] by simp
  next
    case False
    then have "ys = xs" using ys by (simp add: sealed_def list_update_append)
    then have "(sealed xs)[i := b] ! i = sealed xs ! i" using eq by simp
    then show False using assms by simp
  qed
qed

section \<open>The bytes of a frame\<close>

definition header_image :: "u16 \<Rightarrow> u32 \<Rightarrow> u64 \<Rightarrow> u64 \<Rightarrow> u64 \<Rightarrow> u32 \<Rightarrow> bytes" where
  "header_image type flags session sequence nonce n =
     le_bytes 4 kFrameMagic @ le_bytes 2 kProtocolVersion @ le_bytes 2 type @ le_bytes 4 flags @
     le_bytes 8 session @ le_bytes 8 sequence @ le_bytes 8 nonce @ le_bytes 4 n"

lemma length_header_image [simp]: "length (header_image type flags session sequence nonce n) = 40"
  by (simp add: header_image_def)

definition frame_image :: "u16 \<Rightarrow> u32 \<Rightarrow> u64 \<Rightarrow> u64 \<Rightarrow> u64 \<Rightarrow> bytes \<Rightarrow> bytes" where
  "frame_image type flags session sequence nonce payload =
     sealed (header_image type flags session sequence nonce (of_nat (length payload))) @ sealed payload"

lemma encode_frame_Inr:
  "encode_frame type flags session sequence nonce payload = Inr out \<longleftrightarrow>
     length payload \<le> kMaxPayloadBytes \<and> out = frame_image type flags session sequence nonce payload"
proof (cases "length payload \<le> kMaxPayloadBytes")
  case True
  then have "encode_frame type flags session sequence nonce payload =
      Inr (frame_image type flags session sequence nonce payload)"
    by (simp add: encode_frame_def Let_def put_u16_def put_u32_def put_u64_def put_bytes_def put_reserved_room
      make_writer_def writer_ok_def kFrameHeaderBytes_def encoded_frame_size_def frame_image_def header_image_def sealed_def)
  with True show ?thesis by auto
qed (simp add: encode_frame_def)

text \<open>What stands at an offset, and that slices make up the bytes they are taken from.\<close>

lemma read_at_app:
  "LENGTH('a::len) \<le> 8 * n \<Longrightarrow> length a = k \<Longrightarrow> read_at n (a @ le_bytes n (v :: 'a word) @ rest) k = v"
  by (simp add: read_at_def of_le_le_bytes take_bit_word_eq_self)

lemma le_bytes_read_at:
  "8 * n = LENGTH('a::len) \<Longrightarrow> k + n \<le> length bs \<Longrightarrow> le_bytes n (read_at n bs k :: 'a word) = take n (drop k bs)"
  using le_bytes_of_le [of "take n (drop k bs)", where 'a = 'a] by (simp add: read_at_def min_absorb2)

definition frame_of :: "u16 \<Rightarrow> u32 \<Rightarrow> u64 \<Rightarrow> u64 \<Rightarrow> u64 \<Rightarrow> bytes \<Rightarrow> frame" where
  "frame_of type flags session sequence nonce payload =
     \<lparr>fm_header = \<lparr>fh_magic = kFrameMagic, fh_version = kProtocolVersion, fh_type = type, fh_flags = flags,
        fh_session = session, fh_sequence = sequence, fh_nonce = nonce,
        fh_payload_length = of_nat (length payload),
        fh_header_crc = crc32c (header_image type flags session sequence nonce (of_nat (length payload)))\<rparr>,
      fm_payload = payload\<rparr>"

lemma header_slices:
  fixes bs :: bytes
  assumes "40 \<le> length bs"
  shows "take 40 bs = header_image (read_at 2 bs 6) (read_at 4 bs 8) (read_at 8 bs 12) (read_at 8 bs 20)
      (read_at 8 bs 28) (read_at 4 bs 36)
    \<longleftrightarrow> read_at 4 bs 0 = kFrameMagic \<and> read_at 2 bs 4 = kProtocolVersion"
proof -
  have split: "take 40 bs = take 4 (drop 0 bs) @ take 2 (drop 4 bs) @ take 2 (drop 6 bs) @ take 4 (drop 8 bs) @
      take 8 (drop 12 bs) @ take 8 (drop 20 bs) @ take 8 (drop 28 bs) @ take 4 (drop 36 bs)"
    using take_add [of 4 36 bs] take_add [of 2 34 "drop 4 bs"] take_add [of 2 32 "drop 6 bs"]
      take_add [of 4 28 "drop 8 bs"] take_add [of 8 20 "drop 12 bs"] take_add [of 8 12 "drop 20 bs"]
      take_add [of 8 4 "drop 28 bs"] by simp
  have image: "header_image (read_at 2 bs 6) (read_at 4 bs 8) (read_at 8 bs 12) (read_at 8 bs 20)
      (read_at 8 bs 28) (read_at 4 bs 36) =
    le_bytes 4 kFrameMagic @ le_bytes 2 kProtocolVersion @ take 2 (drop 6 bs) @ take 4 (drop 8 bs) @
      take 8 (drop 12 bs) @ take 8 (drop 20 bs) @ take 8 (drop 28 bs) @ take 4 (drop 36 bs)"
    using assms by (simp add: header_image_def le_bytes_read_at)
  have "take 4 (drop 0 bs) = le_bytes 4 (read_at 4 bs 0 :: u32)" "take 2 (drop 4 bs) = le_bytes 2 (read_at 2 bs 4 :: u16)"
    using assms le_bytes_read_at [of 4 0 bs, where 'a = 32] le_bytes_read_at [of 2 4 bs, where 'a = 16] by simp_all
  then show ?thesis unfolding split image by (simp add: le_bytes_inject)
qed

text \<open>Only the image of a frame decodes, and to that frame.\<close>

lemma frame_image_parts:
  "frame_image type flags session sequence nonce payload =
     le_bytes 4 kFrameMagic @ le_bytes 2 kProtocolVersion @ le_bytes 2 type @ le_bytes 4 flags @
     le_bytes 8 session @ le_bytes 8 sequence @ le_bytes 8 nonce @ le_bytes 4 (of_nat (length payload) :: u32) @
     le_bytes 4 (crc32c (header_image type flags session sequence nonce (of_nat (length payload)))) @
     payload @ le_bytes 4 (crc32c payload)"
  by (simp add: frame_image_def sealed_def header_image_def)

lemma take_frame_image:
  "take 40 (frame_image type flags session sequence nonce payload) =
     header_image type flags session sequence nonce (of_nat (length payload))"
  by (simp add: frame_image_def sealed_def)

lemma length_frame_image: "length (frame_image type flags session sequence nonce payload) = 48 + length payload"
  by (simp add: frame_image_def)

lemma read_at_frame_image:
  fixes type flags session sequence nonce payload
  defines "bs \<equiv> frame_image type flags session sequence nonce payload"
  shows "read_at 4 bs 0 = kFrameMagic" "read_at 2 bs 4 = kProtocolVersion" "read_at 2 bs 6 = type"
    "read_at 4 bs 8 = flags" "read_at 8 bs 12 = session" "read_at 8 bs 20 = sequence" "read_at 8 bs 28 = nonce"
    "read_at 4 bs 36 = (of_nat (length payload) :: u32)"
    "read_at 4 bs 40 = crc32c (header_image type flags session sequence nonce (of_nat (length payload)))"
    "take (length payload) (drop 44 bs) = payload"
    "read_at 4 bs (44 + length payload) = crc32c payload"
  unfolding bs_def frame_image_parts
  by (simp_all add: read_at_def of_le_le_bytes take_bit_word_eq_self)

lemma read_at_take: "k + n \<le> m \<Longrightarrow> read_at n (take m bs) k = read_at n bs k"
  by (simp add: read_at_def drop_take min_absorb1)

lemma frame_payload_length_Inr:
  assumes "44 \<le> length bs"
  shows "frame_payload_length (take 44 bs) = Inr n \<longleftrightarrow>
    read_at 4 bs 0 = kFrameMagic \<and> read_at 2 bs 4 = kProtocolVersion \<and>
    read_at 4 bs 40 = crc32c (take 40 bs) \<and> n = read_at 4 bs 36 \<and> unat n \<le> kMaxPayloadBytes"
  using assms by (auto simp: frame_payload_length_def kFrameHeaderBytes_def read_at_take not_less min_absorb2 min_absorb1)

lemma decode_frame_image:
  assumes "length payload \<le> kMaxPayloadBytes"
  shows "decode_frame (frame_image type flags session sequence nonce payload) =
    Inr (frame_of type flags session sequence nonce payload)"
proof -
  let ?bs = "frame_image type flags session sequence nonce payload"
  have n: "unat (of_nat (length payload) :: u32) = length payload"
    using assms by (simp add: unat_of_nat bound_defs)
  have "frame_payload_length (take 44 ?bs) = Inr (of_nat (length payload))"
    using assms by (simp add: frame_payload_length_Inr length_frame_image read_at_frame_image take_frame_image n)
  then show ?thesis
    by (simp add: decode_frame_def kFrameHeaderBytes_def length_frame_image encoded_frame_size_def n
      read_at_frame_image frame_of_def)
qed

lemma frame_slices:
  assumes len: "length bs = 48 + unat (read_at 4 bs 36 :: u32)"
    and "read_at 4 bs 0 = kFrameMagic" "read_at 2 bs 4 = kProtocolVersion"
    and "read_at 4 bs 40 = crc32c (take 40 bs)"
    and "read_at 4 bs (44 + length payload) = crc32c payload"
    and payload: "payload = take (unat (read_at 4 bs 36 :: u32)) (drop 44 bs)"
  shows "bs = frame_image (read_at 2 bs 6) (read_at 4 bs 8) (read_at 8 bs 12) (read_at 8 bs 20) (read_at 8 bs 28) payload"
proof -
  have n: "length payload = unat (read_at 4 bs 36 :: u32)" using len payload by simp
  then have "of_nat (length payload) = (read_at 4 bs 36 :: u32)" by simp
  then have head: "take 40 bs = header_image (read_at 2 bs 6) (read_at 4 bs 8) (read_at 8 bs 12) (read_at 8 bs 20)
      (read_at 8 bs 28) (of_nat (length payload))"
    using header_slices [of bs] assms by simp
  have "take 4 (drop 40 bs) = le_bytes 4 (crc32c (take 40 bs))"
    using le_bytes_read_at [of 4 40 bs, where 'a = 32] assms by simp
  moreover have "drop (44 + length payload) bs = le_bytes 4 (crc32c payload)"
    using le_bytes_read_at [of 4 "44 + length payload" bs, where 'a = 32] assms n by simp
  moreover have "bs = take 40 bs @ take 4 (drop 40 bs) @ take (length payload) (drop 44 bs) @ drop (44 + length payload) bs"
    using append_take_drop_id [of 40 bs] append_take_drop_id [of 4 "drop 40 bs"]
      append_take_drop_id [of "length payload" "drop 44 bs"] by (simp add: add.commute)
  ultimately have "bs = sealed (take 40 bs) @ sealed payload"
    unfolding sealed_def using payload n by simp
  then show ?thesis unfolding frame_image_def head [symmetric] .
qed

lemma decode_frame_Inr:
  "decode_frame bs = Inr f \<longleftrightarrow>
     (\<exists>type flags session sequence nonce payload. length payload \<le> kMaxPayloadBytes \<and>
        bs = frame_image type flags session sequence nonce payload \<and>
        f = frame_of type flags session sequence nonce payload)" (is "?L \<longleftrightarrow> ?R")
proof
  assume L: ?L
  then have long: "44 \<le> length bs" by (auto simp: decode_frame_def kFrameHeaderBytes_def)
  with L obtain n where h: "frame_payload_length (take 44 bs) = Inr n"
    by (auto simp: decode_frame_def kFrameHeaderBytes_def)
  note parts = h [unfolded frame_payload_length_Inr [OF long]]
  let ?payload = "take (unat n) (drop 44 bs)"
  have "length bs = 48 + unat n" "crc32c ?payload = read_at 4 bs (44 + unat n)"
    using L h by (auto simp: decode_frame_def kFrameHeaderBytes_def encoded_frame_size_def Let_def)
  then have "bs = frame_image (read_at 2 bs 6) (read_at 4 bs 8) (read_at 8 bs 12) (read_at 8 bs 20) (read_at 8 bs 28) ?payload"
    using parts by (intro frame_slices) (simp_all add: min_absorb2)
  moreover have "length ?payload \<le> kMaxPayloadBytes" using parts by (auto simp: min_le_iff_disj)
  ultimately show ?R using L decode_frame_image by (metis Inr_inject)
qed (auto simp: decode_frame_image)

lemma frame_image_one_byte:
  assumes "i < length (frame_image t f s q n p)" and "b \<noteq> frame_image t f s q n p ! i"
  shows "(frame_image t f s q n p)[i := b] \<noteq> frame_image t' f' s' q' n' p'"
proof
  let ?h = "header_image t f s q n (of_nat (length p))" and ?h' = "header_image t' f' s' q' n' (of_nat (length p'))"
  assume "(frame_image t f s q n p)[i := b] = frame_image t' f' s' q' n' p'"
  then have eq: "(sealed ?h @ sealed p)[i := b] = sealed ?h' @ sealed p'" by (simp add: frame_image_def)
  show False
  proof (cases "i < 44")
    case True
    then have "(sealed ?h)[i := b] = sealed ?h'" using eq by (simp add: list_update_append)
    moreover have "b \<noteq> sealed ?h ! i" using True assms(2) by (simp add: frame_image_def nth_append)
    ultimately show False using sealed_one_byte [of i ?h b ?h'] True by simp
  next
    case False
    then have "(sealed p)[i - 44 := b] = sealed p'" using eq by (simp add: list_update_append)
    moreover have "b \<noteq> sealed p ! (i - 44)" using False assms(2) by (simp add: frame_image_def nth_append)
    moreover have "i - 44 < length (sealed p)" using False assms(1) by (simp add: length_frame_image)
    ultimately show False using sealed_one_byte [of "i - 44" p b p'] by blast
  qed
qed

section \<open>The bytes of a message\<close>

definition field_image :: "field \<Rightarrow> bytes" where
  "field_image f = le_bytes 2 (fd_tag f) @ one_byte (field_type_raw (fd_type f)) @
     le_bytes 2 (of_nat (length (fd_value f)) :: u16) @ fd_value f"

definition message_image :: "field list \<Rightarrow> bytes" where
  "message_image fs = le_bytes 2 (of_nat (length fs) :: u16) @ concat (map field_image fs)"

text \<open>A field that is written and read back as it is.\<close>

definition bool_normal :: "field \<Rightarrow> bool" where
  "bool_normal f \<longleftrightarrow> fd_type f = FT_Bool \<longrightarrow> hd (fd_value f) \<le> 1"

definition field_good :: "field \<Rightarrow> bool" where
  "field_good f \<longleftrightarrow> field_checks f = Inr () \<and> length (fd_value f) < 2 ^ 16 \<and>
     bool_normal f"

lemma field_type_code:
  "field_types ! (unat (field_type_raw t) - 1) = t" "field_type_raw t \<noteq> 0" "1 \<le> field_type_raw t" "field_type_raw t \<le> 8"
  by (cases t; simp add: field_types_def)+

lemma field_type_decoded:
  assumes "1 \<le> raw" and "raw \<le> (8 :: u8)"
  shows "field_type_raw (field_types ! (unat raw - 1)) = raw"
proof -
  have "1 \<le> unat raw" "unat raw \<le> 8"
    using assms by (simp_all add: word_le_nat_alt)
  then have "unat raw \<in> {1, 2, 3, 4, 5, 6, 7, 8}" by auto
  then have "raw \<in> {1, 2, 3, 4, 5, 6, 7, 8}" by (auto simp: word_unat_eq_iff)
  then show ?thesis by (auto simp: field_types_def)
qed

lemma write_field_room:
  assumes "writer_ok w" and "length (bw_buffer w) + length (field_image f) \<le> bw_limit w"
  shows "write_field f w = w\<lparr>bw_buffer := bw_buffer w @ field_image f\<rparr>"
  using assms by (simp add: write_field_def field_image_def put_u16_def put_u8_def put_bytes_def put_reserved_room
      writer_ok_def one_byte_def)

lemma emits_write_field: "emits (write_field f) (field_image f)"
  using emits_cons [OF emits_words(2) emits_cons [OF emits_words(1) emits_cons [OF emits_words(2) emits_cons [OF emits_bytes emits_nil]]]]
  by (simp add: write_field_def field_image_def del: writes.simps)

lemma encode_fields_Inr:
  "encode_fields fs w = Inr w' \<longleftrightarrow>
     (\<forall>f \<in> set fs. field_checks f = Inr ()) \<and> w' = writes (map write_field fs) w"
  by (induction fs arbitrary: w) (auto split: sum.splits)

lemma writes_room:
  assumes "writer_ok w" and "length (bw_buffer w) + length (concat (map field_image fs)) \<le> bw_limit w"
  shows "writes (map write_field fs) w = w\<lparr>bw_buffer := bw_buffer w @ concat (map field_image fs)\<rparr>"
  using assms by (induction fs arbitrary: w) (simp_all add: write_field_room writer_ok_def)

lemma written_fields:
  "writer_ok (writes (map write_field fs) (put_u16 n (make_writer limit))) \<longleftrightarrow>
     2 + length (concat (map field_image fs)) \<le> limit"
proof
  have "emits (writes (put_u16 n # map write_field fs)) (le_bytes 2 n @ concat (map field_image fs))"
    by (rule emits_cons [OF emits_words(2) emits_map [OF emits_write_field]])
  moreover assume "writer_ok (writes (map write_field fs) (put_u16 n (make_writer limit)))"
  ultimately show "2 + length (concat (map field_image fs)) \<le> limit"
    by (auto dest!: emitsD(4) simp: make_writer_def le_bytes_def)
next
  assume room: "2 + length (concat (map field_image fs)) \<le> limit"
  then have "put_u16 n (make_writer limit) = \<lparr>bw_limit = limit, bw_buffer = le_bytes 2 n, bw_error = EC_Ok\<rparr>"
    by (simp add: put_u16_def put_reserved_room make_writer_def writer_ok_def)
  then show "writer_ok (writes (map write_field fs) (put_u16 n (make_writer limit)))"
    using room by (simp add: writes_room writer_ok_def)
qed

lemma read_u8_iff: "read_u8 bs = Inr (a, rest) \<longleftrightarrow> bs = one_byte a @ rest"
proof
  assume "read_u8 bs = Inr (a, rest)"
  then show "bs = one_byte a @ rest"
    by (cases bs) (auto simp: read_u8_def read_le_def one_byte_def split: if_splits)
qed (simp add: read_words)

lemma field_checks_Inr:
  "field_checks f = Inr () \<longleftrightarrow> fd_tag f \<noteq> 0 \<and> fd_tag f \<le> kMaxKnownTag \<and>
     (fixed_width (fd_type f) \<noteq> 0 \<longrightarrow> length (fd_value f) = fixed_width (fd_type f)) \<and>
     length (fd_value f) \<le> kMaxPayloadBytes \<and>
     (fd_type f = FT_Text \<longrightarrow> validate_text (fd_value f) kMaxStringBytes = Inr ())"
  by (auto simp: field_checks_def not_less)

lemma decode_field_image:
  assumes good: "field_good f" and "previous < fd_tag f"
  shows "decode_field (m, previous) (field_image f @ rest) = Inr ((m\<lparr>ms_fields := ms_fields m @ [f]\<rparr>, fd_tag f), rest)"
proof -
  let ?n = "of_nat (length (fd_value f)) :: u16"
  have n: "unat ?n = length (fd_value f)"
    using good by (simp add: field_good_def unat_of_nat)
  have value_read: "length (fd_value f) = n \<Longrightarrow> read_then (read_bytes n) k (fd_value f @ rest) = k (fd_value f) rest"
    for n and k :: "bytes \<Rightarrow> (message \<times> u16) reader"
    by (rule read_then_eq) (simp add: read_bytes_iff)
  have set: "set_field (fd_type f) (fd_tag f) (fd_value f) m = m\<lparr>ms_fields := ms_fields m @ [f]\<rparr>"
    by (simp add: set_field_def)
  have checks: "fd_tag f \<noteq> 0" "fd_tag f \<le> kMaxKnownTag" "fd_type f = FT_Text \<longrightarrow> validate_text (fd_value f) kMaxStringBytes = Inr ()"
    "fixed_width (fd_type f) = 0 \<or> length (fd_value f) = fixed_width (fd_type f)"
    using good by (auto simp: field_good_def field_checks_Inr)
  show ?thesis
    using checks assms field_type_code [of "fd_type f"]
    by (simp add: decode_field_def field_image_def reading n value_read set Let_def not_less not_le field_good_def bool_normal_def del: validate_text_Inr)
      (auto simp: reading value_read set)
qed

lemma decode_field_Inr:
  assumes "decode_field (m, previous) bs = Inr (s, rest)"
  shows "\<exists>f. field_good f \<and> previous < fd_tag f \<and> bs = field_image f @ rest \<and>
    s = (m\<lparr>ms_fields := ms_fields m @ [f]\<rparr>, fd_tag f)"
proof -
  obtain tag and raw :: u8 and len :: u16 and val where
    bs: "bs = le_bytes 2 tag @ one_byte raw @ le_bytes 2 len @ val @ rest" "length val = unat len"
    and tag: "\<not> (tag = 0 \<or> tag > kMaxKnownTag)" "\<not> tag \<le> previous"
    and raw: "\<not> (raw < field_type_raw FT_U8 \<or> raw > field_type_raw FT_Block)"
    and width: "\<not> (fixed_width (field_types ! (unat raw - 1)) \<noteq> 0 \<and> unat len \<noteq> fixed_width (field_types ! (unat raw - 1)))"
    and utf: "(if field_types ! (unat raw - 1) = FT_Text then validate_text val kMaxStringBytes else Inr ()) = Inr ()"
    and bool: "\<not> (field_types ! (unat raw - 1) = FT_Bool \<and> length val = 1 \<and> hd val > 1)"
    and s: "s = (set_field (field_types ! (unat raw - 1)) tag val m, tag)"
    using assms unfolding decode_field_def Let_def prod.case reader_steps_iff read_words_iff read_u8_iff read_bytes_iff
    apply (elim exE conjE)
    subgoal for tag r1 raw r2 len r3 val
      by (rule that [of tag raw len val]) simp_all
    done
  let ?f = "\<lparr>fd_tag = tag, fd_type = field_types ! (unat raw - 1), fd_value = val\<rparr>"
  have ge: "1 \<le> raw" "raw \<le> 8" using raw unfolding field_type_raw.simps by (meson not_less)+
  have "of_nat (length val) = len" by (simp add: bs(2))
  then have "bs = field_image ?f @ rest"
    using ge by (simp add: bs(1) field_image_def field_type_decoded [simplified])
  moreover have "length val < 2 ^ 16" using bs(2) unsigned_less [of len] by simp
  then have "field_good ?f"
    using tag width utf bool bs(2)
    by (auto simp: field_good_def bool_normal_def field_checks_Inr bound_defs not_less simp del: validate_text_Inr)
  ultimately show ?thesis using s tag(2) by (intro exI [of _ ?f]) (simp add: set_field_def not_le)
qed

lemma decode_fields_image:
  assumes "\<forall>f \<in> set fs. field_good f" and "sorted_wrt (<) (previous # map fd_tag fs)"
  shows "read_fold (length fs) decode_field (m, previous) (concat (map field_image fs) @ rest) =
    Inr ((m\<lparr>ms_fields := ms_fields m @ fs\<rparr>, last (previous # map fd_tag fs)), rest)"
  using assms
proof (induction fs arbitrary: m previous)
  case (Cons f fs)
  then show ?case
    by (auto simp: read_then_def decode_field_image)
qed (simp add: reading)

lemma decode_fields_Inr:
  assumes "read_fold n decode_field (m, previous) bs = Inr ((m', previous'), rest)"
  shows "\<exists>fs. length fs = n \<and> (\<forall>f \<in> set fs. field_good f) \<and> sorted_wrt (<) (previous # map fd_tag fs) \<and>
    bs = concat (map field_image fs) @ rest \<and> m' = m\<lparr>ms_fields := ms_fields m @ fs\<rparr>"
  using assms
proof (induction n arbitrary: m previous bs)
  case (Suc n)
  then obtain s rest' where f: "decode_field (m, previous) bs = Inr (s, rest')"
    and fs: "read_fold n decode_field s rest' = Inr ((m', previous'), rest)"
    by (auto simp: reader_steps_iff)
  from decode_field_Inr [OF f] obtain f where f: "field_good f" "previous < fd_tag f" "bs = field_image f @ rest'"
    "s = (m\<lparr>ms_fields := ms_fields m @ [f]\<rparr>, fd_tag f)" by blast
  from Suc.IH [OF fs [unfolded f(4)]] obtain fs where "length fs = n" "\<forall>f \<in> set fs. field_good f"
    "sorted_wrt (<) (fd_tag f # map fd_tag fs)" "rest' = concat (map field_image fs) @ rest"
    "m' = m\<lparr>ms_fields := ms_fields m @ f # fs\<rparr>" by auto
  with f show ?case by (intro exI [of _ "f # fs"]) auto
qed (auto simp: reading)

text \<open>What decodes is what fields in strict tag order are written as.\<close>

lemma decode_message_Inr:
  "decode_message type bs = Inr m \<longleftrightarrow> type \<noteq> MT_Invalid \<and>
     (\<exists>fs. length fs \<le> kMaxFieldsPerMessage \<and> (\<forall>f \<in> set fs. field_good f) \<and> sorted_wrt (<) (map fd_tag fs) \<and>
        bs = message_image fs \<and> m = \<lparr>ms_type = type, ms_fields = fs\<rparr>)" (is "?L \<longleftrightarrow> ?R")
proof
  assume ?L
  then obtain n rest m' previous where type: "type \<noteq> MT_Invalid" and bs: "bs = le_bytes 2 (n :: u16) @ rest"
    and n: "unat n \<le> kMaxFieldsPerMessage"
    and fields: "read_fold (unat n) decode_field (new_message type, 0) rest = Inr ((m, previous), [])"
    by (auto simp: decode_message_def read_words_iff expect_end_def not_less)
  from decode_fields_Inr [OF fields] obtain fs where fs: "length fs = unat n" "\<forall>f \<in> set fs. field_good f"
    "sorted_wrt (<) (map fd_tag fs)" "rest = concat (map field_image fs)" "m = \<lparr>ms_type = type, ms_fields = fs\<rparr>"
    by (auto simp: new_message_def)
  then have "bs = message_image fs" by (simp add: bs message_image_def fs(1))
  with type n fs show ?R by auto
next
  assume ?R
  then obtain fs where fs: "type \<noteq> MT_Invalid" "length fs \<le> kMaxFieldsPerMessage" "\<forall>f \<in> set fs. field_good f"
    "sorted_wrt (<) (map fd_tag fs)" "bs = message_image fs" "m = \<lparr>ms_type = type, ms_fields = fs\<rparr>" by blast
  have n: "unat (of_nat (length fs) :: u16) = length fs" using fs(2) by (simp add: unat_of_nat bound_defs)
  have "\<forall>f \<in> set fs. 0 < fd_tag f" using fs(3) by (auto simp: field_good_def field_checks_Inr word_gt_0)
  then have "sorted_wrt (<) (0 # map fd_tag fs)" using fs(4) by simp
  from decode_fields_image [OF fs(3) this, of "new_message type" "[]"] show ?L
    using fs by (simp add: decode_message_def message_image_def reading n new_message_def expect_end_def)
qed

lemma sorted_distinct_adj: "sorted (xs :: 'a::linorder list) \<Longrightarrow> distinct_adj xs \<longleftrightarrow> sorted_wrt (<) xs"
  by (induction xs rule: induct_list012) (auto simp: order_le_less dest: less_trans)

lemma encode_message_Inr:
  "encode_message m = Inr out \<longleftrightarrow> ms_type m \<noteq> MT_Invalid \<and> length out \<le> kMaxPayloadBytes \<and>
     (let fs = sort_key fd_tag (ms_fields m)
      in length fs \<le> kMaxFieldsPerMessage \<and> (\<forall>f \<in> set fs. field_checks f = Inr ()) \<and>
         sorted_wrt (<) (map fd_tag fs) \<and> out = message_image fs)"
proof -
  define fs where "fs = sort_key fd_tag (ms_fields m)"
  define w where "w = put_u16 (of_nat (length fs)) (make_writer kMaxPayloadBytes)"
  have tags: "distinct_adj (map fd_tag fs) \<longleftrightarrow> sorted_wrt (<) (map fd_tag fs)"
    by (rule sorted_distinct_adj) (simp add: fs_def)
  have ok: "writer_ok (writes (map write_field fs) w) \<longleftrightarrow> length (message_image fs) \<le> kMaxPayloadBytes"
    by (simp add: w_def written_fields message_image_def)
  have "emits (writes (put_u16 (of_nat (length fs)) # map write_field fs)) (message_image fs)"
    unfolding message_image_def by (rule emits_cons [OF emits_words(2) emits_map [OF emits_write_field]])
  then have buffer: "writer_ok (writes (map write_field fs) w) \<Longrightarrow> bw_buffer (writes (map write_field fs) w) = message_image fs"
    by (auto simp: w_def make_writer_def dest: emitsD(2))
  show ?thesis
    unfolding encode_message_def Let_def fs_def [symmetric] w_def [symmetric] tags
    by (auto simp: encode_fields_Inr ok buffer not_less)
qed

lemma message_image_bound: "f \<in> set fs \<Longrightarrow> length (fd_value f) + 7 \<le> length (message_image fs)"
  by (induction fs) (auto simp: message_image_def field_image_def one_byte_def)

section \<open>Sequences of frames\<close>

text \<open>Frames offered to a window one after the other, and those it accepts, in order.\<close>

primrec offer :: "replay_window \<Rightarrow> (u64 \<times> u64) list \<Rightarrow> (u64 \<times> u64) list \<times> replay_window" where
  "offer w [] = ([], w)"
| "offer w (f # fs) =
     (let (r, w1) = accept w (fst f) (snd f); (taken, w2) = offer w1 fs
      in (if r = Inr () then f # taken else taken, w2))"

text \<open>No element stands again within the \<open>k\<close> after it.\<close>

primrec spaced :: "nat \<Rightarrow> 'a list \<Rightarrow> bool" where
  "spaced k [] \<longleftrightarrow> True"
| "spaced k (x # xs) \<longleftrightarrow> x \<notin> set (take k xs) \<and> spaced k xs"

lemma spaced_nth:
  "spaced k xs \<Longrightarrow> i < j \<Longrightarrow> j < length xs \<Longrightarrow> j \<le> i + k \<Longrightarrow> xs ! i \<noteq> xs ! j"
proof (induction xs arbitrary: i j)
  case (Cons x xs)
  obtain l where j: "j = Suc l" using Cons.prems(2) by (cases j) auto
  show ?case
  proof (cases i)
    case 0
    then have "xs ! l \<in> set (take k xs)"
      using Cons.prems j by (auto simp: in_set_conv_nth intro!: exI [of _ l])
    then show ?thesis using Cons.prems(1) j 0 by auto
  next
    case (Suc n)
    then show ?thesis using Cons j by auto
  qed
qed simp

lemma spaced_distinct: "distinct xs \<Longrightarrow> spaced k xs"
  by (induction xs) (auto dest: in_set_takeD)

definition window_ok :: "replay_window \<Rightarrow> bool" where
  "window_ok w \<longleftrightarrow> distinct (rw_nonces w) \<and> length (rw_nonces w) \<le> unat (rw_window w) \<and> rw_window w \<noteq> 0"

lemma accept_cases:
  assumes "accept w s n = (r, w')"
  obtains (refused) e where "r = Inl e" "w' = w\<lparr>rw_rejected := rw_rejected w + 1\<rparr>"
  | (taken) nonces where "r = Inr ()" "nonces = rw_nonces w @ [n]" "n \<noteq> 0" "n \<notin> set (rw_nonces w)"
      "rw_seen_any w \<Longrightarrow> rw_last_sequence w < s"
      "w' = w\<lparr>rw_nonces := drop (length nonces - unat (rw_window w)) nonces, rw_seen_any := True,
         rw_last_sequence := s, rw_accepted := rw_accepted w + 1\<rparr>"
  using assms by (auto simp: accept_def Let_def not_le split: if_splits)

lemma accept_window_ok: "accept w s n = (r, w') \<Longrightarrow> window_ok w \<Longrightarrow> window_ok w'"
  by (erule accept_cases) (auto simp: window_ok_def unat_eq_0 simp del: drop_append intro!: distinct_drop)

lemma offer_ascending:
  assumes "offer w fs = (taken, w')"
  shows "sorted_wrt (<) (map fst taken) \<and> (rw_seen_any w \<longrightarrow> (\<forall>f \<in> set taken. rw_last_sequence w < fst f))"
  using assms
proof (induction fs arbitrary: w taken w')
  case (Cons f fs)
  obtain r w1 where a: "accept w (fst f) (snd f) = (r, w1)" by fastforce
  obtain rest w2 where o: "offer w1 fs = (rest, w2)" by fastforce
  note IH = Cons.IH [OF o]
  have taken: "taken = (if r = Inr () then f # rest else rest)" using Cons.prems a o by simp
  from a show ?case
  proof (cases rule: accept_cases)
    case (refused e)
    then show ?thesis using IH taken by simp
  next
    case (taken nonces)
    then show ?thesis using IH \<open>taken = _\<close> by (auto intro: less_trans)
  qed
qed simp

text \<open>What the window forgets is at least its length of accepted frames old.\<close>

lemma offer_spaced:
  assumes "offer w fs = (taken, w')" and "window_ok w"
  shows "spaced (unat (rw_window w)) (rw_nonces w @ map snd taken)"
  using assms
proof (induction fs arbitrary: w taken w')
  case Nil
  then show ?case by (simp add: window_ok_def spaced_distinct)
next
  case (Cons f fs)
  obtain r w1 where a: "accept w (fst f) (snd f) = (r, w1)" by fastforce
  obtain rest w2 where o: "offer w1 fs = (rest, w2)" by fastforce
  note IH = Cons.IH [OF o accept_window_ok [OF a Cons.prems(2)]]
  from a show ?case
  proof (cases rule: accept_cases)
    case (refused e)
    then show ?thesis using IH Cons.prems(1) a o by simp
  next
    case (taken nonces)
    then have new: "map snd (fst (offer w (f # fs))) = snd f # map snd rest" using a o by simp
    show ?thesis
    proof (cases "length (rw_nonces w) < unat (rw_window w)")
      case True
      then show ?thesis using IH taken new Cons.prems(1) by simp
    next
      case False
      then obtain old kept where n: "rw_nonces w = old # kept" "Suc (length kept) = unat (rw_window w)"
        using Cons.prems(2) by (cases "rw_nonces w") (auto simp: window_ok_def unat_eq_0)
      then have "old \<notin> set (take (unat (rw_window w)) (kept @ snd f # map snd rest))"
        using Cons.prems(2) taken by (auto simp: window_ok_def n(2) [symmetric])
      then show ?thesis using IH taken new Cons.prems(1) n by simp
    qed
  qed
qed

section \<open>Properties\<close>

text \<open>
  C21: a damaged frame is refused: an encoded frame in which any one byte of the header, of the
  payload or of either checksum has another value does not decode.
\<close>

theorem damaged_frame_refused:
  assumes "encode_frame type flags session sequence nonce payload = Inr out" and "i < length out" and "b \<noteq> out ! i"
  shows "isl (decode_frame (out[i := b]))"
proof (rule ccontr)
  assume "\<not> isl (decode_frame (out[i := b]))"
  then obtain f where "decode_frame (out[i := b]) = Inr f" by (cases "decode_frame (out[i := b])") simp_all
  with assms frame_image_one_byte show False by (auto simp: decode_frame_Inr encode_frame_Inr)
qed

lemma damaged_frame_refused_witness:
  "isl (decode_frame ((frame_image 10 0 7 1 5 [1, 2, 3])[0 := 0]))"
proof (rule damaged_frame_refused)
  show "encode_frame 10 0 7 1 5 [1, 2, 3] = Inr (frame_image 10 0 7 1 5 [1, 2, 3])"
    by (simp add: encode_frame_Inr bound_defs)
  have "frame_image 10 0 7 1 5 [1, 2, 3] ! 0 = le_bytes 4 kFrameMagic ! 0"
    by (simp add: frame_image_parts nth_append)
  also have "\<dots> \<noteq> 0" by (simp add: kFrameMagic_def le_bytes_def)
  finally show "0 \<noteq> frame_image 10 0 7 1 5 [1, 2, 3] ! 0" by simp
qed (simp add: length_frame_image)

text \<open>
  Frames carry what they are given and have one encoding: bytes decode to a frame exactly if
  they are what the encoder writes for the type, flags, session, sequence, nonce and payload of
  that frame.
\<close>

lemma frame_canonical:
  "decode_frame bs = Inr f \<longleftrightarrow>
     encode_frame (fh_type (fm_header f)) (fh_flags (fm_header f)) (fh_session (fm_header f))
       (fh_sequence (fm_header f)) (fh_nonce (fm_header f)) (fm_payload f) = Inr bs \<and>
     f = frame_of (fh_type (fm_header f)) (fh_flags (fm_header f)) (fh_session (fm_header f))
       (fh_sequence (fm_header f)) (fh_nonce (fm_header f)) (fm_payload f)"
proof
  assume "decode_frame bs = Inr f"
  then obtain t fl s q n p where "length p \<le> kMaxPayloadBytes" "bs = frame_image t fl s q n p" "f = frame_of t fl s q n p"
    unfolding decode_frame_Inr by blast
  then show "encode_frame (fh_type (fm_header f)) (fh_flags (fm_header f)) (fh_session (fm_header f))
       (fh_sequence (fm_header f)) (fh_nonce (fm_header f)) (fm_payload f) = Inr bs \<and>
     f = frame_of (fh_type (fm_header f)) (fh_flags (fm_header f)) (fh_session (fm_header f))
       (fh_sequence (fm_header f)) (fh_nonce (fm_header f)) (fm_payload f)"
    by (simp add: encode_frame_Inr frame_of_def)
qed (unfold encode_frame_Inr decode_frame_Inr, blast)

text \<open>
  C23: messages have one encoding: bytes within the payload limit decode to a message exactly if
  the encoder writes them for it, its fields are in strict tag order and its booleans are 0 or 1.
\<close>

theorem message_canonical:
  "decode_message type bs = Inr m \<and> length bs \<le> kMaxPayloadBytes \<longleftrightarrow>
     ms_type m = type \<and> encode_message m = Inr bs \<and> sorted_wrt (<) (map fd_tag (ms_fields m)) \<and>
     list_all bool_normal (ms_fields m)"
proof
  assume "decode_message type bs = Inr m \<and> length bs \<le> kMaxPayloadBytes"
  then obtain fs where fs: "type \<noteq> MT_Invalid" "length fs \<le> kMaxFieldsPerMessage" "\<forall>f \<in> set fs. field_good f"
    "sorted_wrt (<) (map fd_tag fs)" "bs = message_image fs" "m = \<lparr>ms_type = type, ms_fields = fs\<rparr>"
    and len: "length bs \<le> kMaxPayloadBytes" unfolding decode_message_Inr by blast
  have "sort_key fd_tag fs = fs"
    using fs(4) by (intro sort_key_id_if_sorted) (simp add: strict_sorted_iff)
  with fs len show "ms_type m = type \<and> encode_message m = Inr bs \<and> sorted_wrt (<) (map fd_tag (ms_fields m)) \<and>
     list_all bool_normal (ms_fields m)"
    by (auto simp: encode_message_Inr Let_def field_good_def list_all_iff)
next
  assume e: "ms_type m = type \<and> encode_message m = Inr bs \<and> sorted_wrt (<) (map fd_tag (ms_fields m)) \<and>
     list_all bool_normal (ms_fields m)"
  have "sort_key fd_tag (ms_fields m) = ms_fields m"
    using e by (intro sort_key_id_if_sorted) (simp add: strict_sorted_iff)
  with e have fs: "type \<noteq> MT_Invalid" "length bs \<le> kMaxPayloadBytes" "length (ms_fields m) \<le> kMaxFieldsPerMessage"
    "\<forall>f \<in> set (ms_fields m). field_checks f = Inr ()" "bs = message_image (ms_fields m)"
    by (auto simp: encode_message_Inr Let_def)
  have "field_good f" if "f \<in> set (ms_fields m)" for f
    using fs that e message_image_bound [of f "ms_fields m"] by (auto simp: field_good_def list_all_iff bound_defs)
  with e fs show "decode_message type bs = Inr m \<and> length bs \<le> kMaxPayloadBytes"
    unfolding decode_message_Inr by (auto intro!: exI [of _ "ms_fields m"])
qed

text \<open>
  C22: no frame is accepted twice: whatever frames are offered to a fresh window, in any order
  and any number of times, the sequences it accepts strictly increase, and no nonce it accepts
  comes again within the length of the window.
\<close>

theorem replay_accepted_once:
  assumes "offer (make_window n) fs = (taken, w)"
  shows "sorted_wrt (<) (map fst taken) \<and> distinct taken \<and>
    (\<forall>i j. i < j \<longrightarrow> j < length taken \<longrightarrow> j \<le> i + unat n \<longrightarrow> snd (taken ! i) \<noteq> snd (taken ! j))"
proof (intro conjI allI impI)
  show asc: "sorted_wrt (<) (map fst taken)" using offer_ascending [OF assms] by simp
  then show "distinct taken" by (metis distinct_map strict_sorted_iff)
  fix i j
  assume ij: "i < j" "j < length taken" "j \<le> i + unat n"
  have ok: "window_ok (make_window n)" by (simp add: window_ok_def make_window_def)
  have "spaced (unat (rw_window (make_window n))) (map snd taken)"
    using offer_spaced [OF assms ok] by (simp add: make_window_def)
  moreover have "unat n \<le> unat (rw_window (make_window n))" by (simp add: make_window_def)
  ultimately show "snd (taken ! i) \<noteq> snd (taken ! j)"
    using spaced_nth [of _ "map snd taken" i j] ij by auto
qed

lemma replay_accepted_once_witness:
  "fst (offer (make_window 2) [(1, 5), (1, 6), (2, 5), (3, 7)]) = [(1, 5), (3, 7)] \<and>
   distinct [(1, 5), (3, 7 :: u64) :: u64 \<times> u64]"
proof -
  obtain w where r: "offer (make_window 2) [(1, 5), (1, 6), (2, 5), (3, 7)] = ([(1, 5), (3, 7)], w)"
    by (simp add: accept_def make_window_def Let_def)
  from replay_accepted_once [OF r] show ?thesis unfolding r by simp
qed

end
