(* ===== verification/Snapshot.thy ===== *)
theory Snapshot
  imports Codec State
begin

text \<open>
  \<^verbatim>\<open>src/fabric_state.cpp\<close>: the snapshot of the durable part of the fabric. Every record has
  a writing function and a reader; the reader of a record that the code reads in the context
  of another one takes that context as an argument, and the loops that fill a table thread
  the record they fill.
\<close>

definition kStateMagic :: u32 where "kStateMagic = 0x53465454"
definition kStateTrailer :: u32 where "kStateTrailer = 0x45504F44"
definition kStateFormatVersion :: u16 where "kStateFormatVersion = 1"

section \<open>Enumerations\<close>

definition read_phase_class :: "phase_class reader" where
  "read_phase_class = read_then read_u8 (\<lambda>raw.
     demand (\<not> unat raw \<ge> kPhaseClassCount) EC_BadEncoding (give (phase_classes ! unat raw)))"

definition read_service_class :: "service_class reader" where
  "read_service_class = read_then read_u8 (\<lambda>raw.
     demand (\<not> unat raw \<ge> kServiceClassCount) EC_BadEncoding (give (service_classes ! unat raw)))"

definition read_criticality :: "sync_criticality reader" where
  "read_criticality = read_then read_u8 (\<lambda>raw.
     demand (\<not> unat raw > sync_criticality_raw SyncHard) EC_BadEncoding
       (give ([SyncUnknown, SyncBestEffort, SyncSoft, SyncHard] ! unat raw)))"

definition read_disposition :: "phase_disposition reader" where
  "read_disposition = read_then read_u8 (\<lambda>raw.
     demand (\<not> unat raw > phase_disposition_raw PhaseFenced) EC_BadEncoding
       (give ([PhaseOpen, PhaseCompleted, PhaseCancelled, PhaseFenced] ! unat raw)))"

definition read_label :: "evidence_label reader" where
  "read_label = read_then read_u8 (\<lambda>raw.
     demand (\<not> unat raw > evidence_label_raw EvReal) EC_BadEncoding
       (give ([EvUnsupported, EvSynthetic, EvReal] ! unat raw)))"

section \<open>Contracts, accounting and fences\<close>

definition write_contract :: "workload_contract \<Rightarrow> writer \<Rightarrow> writer" where
  "write_contract c = writes
     [put_u64 (wc_generation c), put_string (wc_name c), put_u32 (wc_max_parallelism_groups c),
      put_u32 (wc_max_phases_per_step c), put_u32 (wc_max_intents_per_step c),
      put_u32 (wc_max_active_flows_per_step c), put_u64 (wc_max_bytes_per_step c),
      put_u64 (wc_max_bytes_per_intent c), put_u32 (wc_history_steps c),
      put_bool (wc_allow_unknown_phase c)]"

definition read_contract :: "training_job_id \<Rightarrow> workload_contract reader" where
  "read_contract job =
     read_then read_u64 (\<lambda>generation. read_then (read_string kMaxStringBytes) (\<lambda>name.
     read_then read_u32 (\<lambda>groups. read_then read_u32 (\<lambda>phases. read_then read_u32 (\<lambda>intents.
     read_then read_u32 (\<lambda>flows. read_then read_u64 (\<lambda>step_bytes. read_then read_u64 (\<lambda>intent_bytes.
     read_then read_u32 (\<lambda>history. read_then read_bool (\<lambda>unknown.
     (let c = \<lparr>wc_job = job, wc_generation = generation, wc_name = name,
          wc_max_parallelism_groups = groups, wc_max_phases_per_step = phases,
          wc_max_intents_per_step = intents, wc_max_active_flows_per_step = flows,
          wc_max_bytes_per_step = step_bytes, wc_max_bytes_per_intent = intent_bytes,
          wc_history_steps = history, wc_allow_unknown_phase = unknown\<rparr>
      in ensure (contract_validate c) (give c))))))))))))"

definition write_accounting :: "bool \<Rightarrow> step_accounting \<Rightarrow> writer \<Rightarrow> writer" where
  "write_accounting is_open a = writes
     [put_u32 (sa_admitted a), put_u32 (sa_deferred a), put_u32 (sa_rejected a),
      put_u32 (sa_throttled a), put_u32 (sa_completed a), put_u32 (sa_cancelled a),
      put_u32 (sa_fenced a), put_u32 (if is_open then 0 else sa_active_flows a),
      put_u64 (sa_bytes_requested a), put_u64 (sa_bytes_committed a), put_u64 (sa_bytes_completed a),
      put_u64 (sa_bytes_cancelled a), put_u64 (sa_granted_min_bps a),
      put_u64 (if is_open then 0 else sa_active_min_bps a), put_bool (sa_closed a)]"

primrec checked_total :: "u64 \<Rightarrow> u32 list \<Rightarrow> u64 option" where
  "checked_total acc [] = Some acc"
| "checked_total acc (v # vs) =
     (case checked_add acc (ucast v) of None \<Rightarrow> None | Some t \<Rightarrow> checked_total t vs)"

definition read_accounting :: "training_step_id \<Rightarrow> step_accounting reader" where
  "read_accounting step =
     read_then read_u32 (\<lambda>admitted. read_then read_u32 (\<lambda>deferred. read_then read_u32 (\<lambda>rejected.
     read_then read_u32 (\<lambda>throttled. read_then read_u32 (\<lambda>completed. read_then read_u32 (\<lambda>cancelled.
     read_then read_u32 (\<lambda>fenced. read_then read_u32 (\<lambda>active_flows. read_then read_u64 (\<lambda>requested.
     read_then read_u64 (\<lambda>committed. read_then read_u64 (\<lambda>bytes_completed.
     read_then read_u64 (\<lambda>bytes_cancelled. read_then read_u64 (\<lambda>granted_min. read_then read_u64 (\<lambda>active_min.
     read_then read_bool (\<lambda>closed.
     demand (\<not> bytes_completed + bytes_cancelled > committed) EC_CorruptState (
     demand (checked_total 0 [admitted, deferred, rejected, throttled, completed, cancelled, fenced] \<noteq> None)
       EC_CorruptState (
     give \<lparr>sa_step = step, sa_admitted = admitted, sa_deferred = deferred, sa_rejected = rejected,
       sa_throttled = throttled, sa_completed = completed, sa_cancelled = cancelled,
       sa_fenced = fenced, sa_active_flows = active_flows, sa_bytes_requested = requested,
       sa_bytes_committed = committed, sa_bytes_completed = bytes_completed,
       sa_bytes_cancelled = bytes_cancelled, sa_granted_min_bps = granted_min,
       sa_active_min_bps = active_min, sa_closed = closed\<rparr>)))))))))))))))))"

definition write_fence :: "fence_event \<Rightarrow> writer \<Rightarrow> writer" where
  "write_fence f = writes
     [put_u16 (error_raw (fe_reason f)), put_u64 (fe_at f), put_u64 (fe_step f), put_u64 (fe_phase f),
      put_u64 (fe_intent f), put_u64 (fe_observed_incarnation f), put_u64 (fe_current_incarnation f),
      put_u64 (fe_observed_epoch f), put_u64 (fe_current_epoch f), put_u64 (fe_sequence f)]"

definition write_fences :: "fence_event list \<Rightarrow> u64 \<Rightarrow> writer \<Rightarrow> writer" where
  "write_fences fences observed = writes
     [put_u64 observed, put_u32 (of_nat (length fences)), writes (map write_fence fences)]"

definition read_fence :: "fence_event reader" where
  "read_fence =
     read_then read_u16 (\<lambda>reason. read_then read_u64 (\<lambda>at. read_then read_u64 (\<lambda>step.
     read_then read_u64 (\<lambda>phase. read_then read_u64 (\<lambda>intent.
     read_then read_u64 (\<lambda>observed_incarnation. read_then read_u64 (\<lambda>current_incarnation.
     read_then read_u64 (\<lambda>observed_epoch. read_then read_u64 (\<lambda>current_epoch.
     read_then read_u64 (\<lambda>sequence.
     give \<lparr>fe_reason = ErrorCode reason, fe_at = at, fe_step = step, fe_phase = phase,
       fe_intent = intent, fe_observed_incarnation = observed_incarnation,
       fe_current_incarnation = current_incarnation, fe_observed_epoch = observed_epoch,
       fe_current_epoch = current_epoch, fe_sequence = sequence\<rparr>))))))))))"

definition read_fences :: "(u64 \<times> fence_event list) reader" where
  "read_fences =
     read_then read_u64 (\<lambda>observed.
     read_then (read_count (unat kMaxRetainedFenceEvents)) (\<lambda>n.
     read_then (read_many (unat n) read_fence) (\<lambda>fences. give (observed, fences))))"

section \<open>The open step\<close>

definition write_phase :: "phase_record \<Rightarrow> writer \<Rightarrow> writer" where
  "write_phase p = writes
     [put_u64 (pr_id p), put_u8 (of_nat (phase_class_raw (ps_cls (pr_spec p)))),
      put_u64 (ps_group (pr_spec p)), put_u8 (of_nat (sync_criticality_raw (ps_criticality (pr_spec p)))),
      put_u64 (sd_deadline_at (ps_deadline (pr_spec p))), put_u64 (sd_slack_ticks (ps_deadline (pr_spec p))),
      put_string (ps_hint (pr_spec p)), put_u8 (of_nat (phase_disposition_raw (pr_disposition p))),
      put_u64 (pr_opened_at p), put_u64 (pr_closed_at p)]"

definition read_phase :: "training_step_id \<Rightarrow> phase_record reader" where
  "read_phase step =
     read_then read_u64 (\<lambda>ident. demand (valid ident) EC_CorruptState (
     read_then read_phase_class (\<lambda>cls. read_then read_u64 (\<lambda>g. read_then read_criticality (\<lambda>criticality.
     read_then read_u64 (\<lambda>deadline. read_then read_u64 (\<lambda>slack.
     read_then (read_string kMaxStringBytes) (\<lambda>hint. read_then read_disposition (\<lambda>disposition.
     read_then read_u64 (\<lambda>opened. read_then read_u64 (\<lambda>closed.
     give \<lparr>pr_id = ident, pr_step = step,
       pr_spec = \<lparr>ps_cls = cls, ps_group = g, ps_criticality = criticality,
         ps_deadline = \<lparr>sd_deadline_at = deadline, sd_slack_ticks = slack\<rparr>, ps_hint = hint\<rparr>,
       pr_opened_at = opened, pr_closed_at = closed, pr_disposition = disposition\<rparr>)))))))))))"

definition write_phase_accounting :: "phase_accounting \<Rightarrow> writer \<Rightarrow> writer" where
  "write_phase_accounting a = writes
     [put_u32 (ph_admitted a), put_u32 (ph_deferred a), put_u32 (ph_rejected a), put_u32 (ph_throttled a),
      put_u32 (ph_completed a), put_u32 (ph_cancelled a), put_u64 (ph_bytes_committed a),
      put_u64 (ph_bytes_completed a)]"

definition read_phase_accounting :: "phase_accounting reader" where
  "read_phase_accounting =
     read_then read_u32 (\<lambda>admitted. read_then read_u32 (\<lambda>deferred. read_then read_u32 (\<lambda>rejected.
     read_then read_u32 (\<lambda>throttled. read_then read_u32 (\<lambda>completed. read_then read_u32 (\<lambda>cancelled.
     read_then read_u64 (\<lambda>committed. read_then read_u64 (\<lambda>bytes_completed.
     demand (\<not> bytes_completed > committed) EC_CorruptState (
     give \<lparr>ph_admitted = admitted, ph_deferred = deferred, ph_rejected = rejected,
       ph_throttled = throttled, ph_completed = completed, ph_cancelled = cancelled,
       ph_bytes_committed = committed, ph_bytes_completed = bytes_completed\<rparr>)))))))))"

definition write_burst :: "checkpoint_burst_state \<Rightarrow> writer \<Rightarrow> writer" where
  "write_burst b = writes
     [put_u64 (bs_id b), put_u64 (bs_group b), put_u64 (bs_expected_bytes b), put_u64 (bs_opened_at b),
      put_u64 (bs_deadline_at b), put_string (bs_reason b), put_u32 (bs_displaced_flows b),
      put_u32 (bs_throttled_flows b), put_bool (bs_active b)]"

definition read_burst :: "checkpoint_burst_state reader" where
  "read_burst =
     read_then read_u64 (\<lambda>ident. read_then read_u64 (\<lambda>g. read_then read_u64 (\<lambda>expected.
     read_then read_u64 (\<lambda>opened. read_then read_u64 (\<lambda>deadline.
     read_then (read_string kMaxStringBytes) (\<lambda>reason. read_then read_u32 (\<lambda>displaced.
     read_then read_u32 (\<lambda>throttled. read_then read_bool (\<lambda>active.
     give \<lparr>bs_id = ident, bs_group = g, bs_expected_bytes = expected, bs_opened_at = opened,
       bs_deadline_at = deadline, bs_reason = reason, bs_displaced_flows = displaced,
       bs_throttled_flows = throttled, bs_active = active\<rparr>)))))))))"

text \<open>The phases that are written: the listed ones that have a record, by ascending id.\<close>

definition written_phases :: "step_state \<Rightarrow> (phase_record \<times> phase_accounting) list" where
  "written_phases step = concat (map (\<lambda>ident. case map_of (ss_phases step) ident of
       None \<Rightarrow> []
     | Some p \<Rightarrow> [(p, case map_of (ss_phase_accounting step) (pr_id p) of
                       None \<Rightarrow> empty_phase_accounting | Some a \<Rightarrow> a)])
     (sort (ss_phase_order step)))"

definition write_phase_entry :: "phase_record \<times> phase_accounting \<Rightarrow> writer \<Rightarrow> writer" where
  "write_phase_entry e = writes [write_phase (fst e), write_phase_accounting (snd e)]"

definition normalized_accounting :: "step_accounting \<Rightarrow> step_accounting" where
  "normalized_accounting a = a\<lparr>sa_active_flows := 0, sa_active_min_bps := 0,
     sa_bytes_committed := sa_bytes_completed a + sa_bytes_cancelled a\<rparr>"

definition write_open_step :: "step_state \<Rightarrow> writer \<Rightarrow> writer" where
  "write_open_step step = writes
     [put_u8 1, put_u64 (ss_step step), put_u64 (ss_job_generation step), put_u64 (ss_incarnation step),
      put_u64 (ss_opened_at step), put_u64 (ss_deadline_at step), put_u64 (ss_slack_ticks step),
      put_u32 (of_nat (length (written_phases step))),
      writes (map write_phase_entry (written_phases step)),
      write_accounting True (normalized_accounting (ss_accounting step)),
      write_fences (ss_fences step) (ss_fences_observed step),
      put_u64 (ss_intents_seen step),
      (case ss_burst step of None \<Rightarrow> put_u8 0 | Some b \<Rightarrow> writes [put_u8 1, write_burst b])]"

text \<open>One turn of the loop over the phases of an open step.\<close>

definition read_phase_entry :: "job_state \<Rightarrow> step_state \<Rightarrow> step_state reader" where
  "read_phase_entry job step =
     read_then (read_phase (ss_step step)) (\<lambda>p.
     demand (has_key (js_groups job) (ps_group (pr_spec p))) EC_CorruptState (
     demand (\<not> (ss_phase_order step \<noteq> [] \<and> last (ss_phase_order step) \<ge> pr_id p)) EC_CorruptState (
     read_then read_phase_accounting (\<lambda>a.
     give (step\<lparr>ss_phase_order := ss_phase_order step @ [pr_id p],
       ss_phase_accounting := emplace (pr_id p) (a\<lparr>ph_bytes_committed := ph_bytes_completed a\<rparr>)
         (ss_phase_accounting step),
       ss_phases := emplace (pr_id p) p (ss_phases step),
       ss_phase_active_flows := put (pr_id p) 0 (ss_phase_active_flows step)\<rparr>)))))"

definition read_optional_burst :: "checkpoint_burst_state option reader" where
  "read_optional_burst =
     read_then read_bool (\<lambda>has_burst.
       if has_burst then read_then read_burst (\<lambda>b. give (Some b)) else give None)"

text \<open>
  Bytes that are committed and neither completed nor cancelled are booked as cancelled, and a
  fence records it; the flag says that the caller has something to reconcile.
\<close>

definition reconcile_step :: "epoch_id \<Rightarrow> step_state \<Rightarrow> step_state \<times> bool" where
  "reconcile_step epoch step =
     (let a = ss_accounting step;
          closed_bytes = sa_bytes_completed a + sa_bytes_cancelled a
      in if \<not> sa_bytes_committed a > closed_bytes then (step, False)
         else
           let unaccounted = sa_bytes_committed a - closed_bytes;
               fence = \<lparr>fe_reason = EC_StaleEpoch, fe_at = ss_opened_at step, fe_step = ss_step step,
                 fe_phase = 0, fe_intent = 0, fe_observed_incarnation = 0, fe_current_incarnation = 0,
                 fe_observed_epoch = epoch, fe_current_epoch = epoch, fe_sequence = 0\<rparr>
           in (step\<lparr>ss_accounting := a\<lparr>sa_bytes_cancelled := sa_bytes_cancelled a + unaccounted\<rparr>,
                 ss_fences_observed := ss_fences_observed step + 1,
                 ss_fences := (if length (ss_fences step) < unat kMaxRetainedFenceEvents
                               then ss_fences step @ [fence] else ss_fences step)\<rparr>, True))"

definition read_open_step :: "job_state \<Rightarrow> (step_state \<times> bool) reader" where
  "read_open_step job =
     read_then read_u64 (\<lambda>ident. demand (valid ident) EC_CorruptState (
     read_then read_u64 (\<lambda>generation. read_then read_u64 (\<lambda>incarnation.
     read_then read_u64 (\<lambda>opened. read_then read_u64 (\<lambda>deadline. read_then read_u64 (\<lambda>slack.
     read_then (read_count 4096) (\<lambda>n.
     read_then (read_fold (unat n) (read_phase_entry job)
       (new_step ident generation incarnation opened deadline slack)) (\<lambda>step.
     read_then (read_accounting ident) (\<lambda>a.
     read_then read_fences (\<lambda>(observed, fences).
     read_then read_u64 (\<lambda>seen.
     read_then read_optional_burst (\<lambda>burst.
     give (reconcile_step (js_epoch job)
       (step\<lparr>ss_accounting := a\<lparr>sa_active_flows := 0, sa_active_min_bps := 0\<rparr>, ss_fences := fences,
         ss_fences_observed := observed, ss_intents_seen := seen, ss_burst := burst\<rparr>)))))))))))))))"

section \<open>Step reports and the policy\<close>

definition write_summary :: "phase_summary \<Rightarrow> writer \<Rightarrow> writer" where
  "write_summary p = writes
     [put_u64 (su_id p), put_u8 (of_nat (phase_class_raw (su_cls p))), put_u64 (su_group p),
      put_u8 (of_nat (sync_criticality_raw (su_criticality p))),
      put_u8 (of_nat (phase_disposition_raw (su_disposition p))), put_u64 (su_opened_at p),
      put_u64 (su_closed_at p), put_u32 (su_admitted p), put_u32 (su_deferred p), put_u32 (su_rejected p),
      put_u32 (su_completed p), put_u32 (su_cancelled p), put_u64 (su_bytes_committed p),
      put_u64 (su_bytes_completed p)]"

definition read_summary :: "phase_summary reader" where
  "read_summary =
     read_then read_u64 (\<lambda>ident. read_then read_phase_class (\<lambda>cls. read_then read_u64 (\<lambda>g.
     read_then read_criticality (\<lambda>criticality. read_then read_disposition (\<lambda>disposition.
     read_then read_u64 (\<lambda>opened. read_then read_u64 (\<lambda>closed. read_then read_u32 (\<lambda>admitted.
     read_then read_u32 (\<lambda>deferred. read_then read_u32 (\<lambda>rejected. read_then read_u32 (\<lambda>completed.
     read_then read_u32 (\<lambda>cancelled. read_then read_u64 (\<lambda>committed. read_then read_u64 (\<lambda>bytes_completed.
     demand (\<not> bytes_completed > committed) EC_CorruptState (
     give \<lparr>su_id = ident, su_cls = cls, su_group = g, su_criticality = criticality,
       su_disposition = disposition, su_opened_at = opened, su_closed_at = closed,
       su_admitted = admitted, su_deferred = deferred, su_rejected = rejected,
       su_completed = completed, su_cancelled = cancelled, su_bytes_committed = committed,
       su_bytes_completed = bytes_completed\<rparr>)))))))))))))))"

definition write_report :: "step_report \<Rightarrow> writer \<Rightarrow> writer" where
  "write_report r = writes
     [put_u64 (rp_step r), put_u64 (rp_job_generation r), put_u64 (rp_opened_at r), put_u64 (rp_closed_at r),
      put_u32 (of_nat (length (rp_phases r))), writes (map write_summary (rp_phases r)),
      write_accounting False (rp_accounting r), write_fences (rp_fences r) (rp_fences_observed r),
      put_bool (rp_closed_with_cancellation r)]"

definition read_report :: "training_job_id \<Rightarrow> step_report reader" where
  "read_report job =
     read_then read_u64 (\<lambda>step. read_then read_u64 (\<lambda>generation. read_then read_u64 (\<lambda>opened.
     read_then read_u64 (\<lambda>closed. read_then (read_count 4096) (\<lambda>n.
     read_then (read_many (unat n) read_summary) (\<lambda>phases.
     read_then (read_accounting step) (\<lambda>a. read_then read_fences (\<lambda>(observed, fences).
     read_then read_bool (\<lambda>cancelled.
     demand (balanced a) EC_CorruptState (
     give \<lparr>rp_job = job, rp_job_generation = generation, rp_step = step, rp_opened_at = opened,
       rp_closed_at = closed, rp_accounting = a, rp_phases = phases, rp_fences = fences,
       rp_fences_observed = observed, rp_closed_with_cancellation = cancelled\<rparr>))))))))))"

definition write_spec :: "service_class_spec \<Rightarrow> writer \<Rightarrow> writer" where
  "write_spec s = writes
     [put_u8 (of_nat (service_class_raw (scs_cls s))), put_u8 (scs_priority s), put_u32 (scs_weight s),
      put_u64 (scs_floor_bps s), put_u64 (scs_ceiling_bps s), put_u64 (scs_isolation_ceiling_bps s),
      put_bool (scs_preemptible s), put_bool (scs_barrier_critical s), put_bool (scs_deferrable s)]"

definition read_spec :: "service_class_spec reader" where
  "read_spec =
     read_then read_service_class (\<lambda>cls. read_then read_u8 (\<lambda>priority. read_then read_u32 (\<lambda>weight.
     read_then read_u64 (\<lambda>flr. read_then read_u64 (\<lambda>ceil. read_then read_u64 (\<lambda>isolation.
     read_then read_bool (\<lambda>preemptible. read_then read_bool (\<lambda>barrier. read_then read_bool (\<lambda>deferrable.
     give \<lparr>scs_cls = cls, scs_priority = priority, scs_weight = weight, scs_floor_bps = flr,
       scs_ceiling_bps = ceil, scs_isolation_ceiling_bps = isolation, scs_preemptible = preemptible,
       scs_barrier_critical = barrier, scs_deferrable = deferrable\<rparr>)))))))))"

definition write_class :: "service_class \<Rightarrow> writer \<Rightarrow> writer" where
  "write_class c = writes [put_u8 (of_nat (service_class_raw c))]"

definition write_policy :: "policy_document \<Rightarrow> writer \<Rightarrow> writer" where
  "write_policy p = writes
     [put_u64 (pd_generation p), writes (map write_class (pd_phase_class_map p)),
      put_u32 (of_nat (length (pd_classes p))), writes (map write_spec (pd_classes p)),
      put_u64 (pd_unknown_phase_ceiling_bps p), put_u8 (pd_checkpoint_isolation_priority p),
      put_bool (pd_strict_generation_invalidation p), put_bool (pd_allow_preemption p),
      put_u32 (pd_max_active_flows_per_step p), put_u32 (pd_max_history_steps p),
      put_u32 (pd_max_explanation_clauses p), put_u64 (pd_defer_backoff_ticks p)]"

text \<open>The phase class map is an array with one entry for each phase class.\<close>

definition read_policy :: "policy_document reader" where
  "read_policy =
     read_then read_u64 (\<lambda>generation.
     read_then (read_many kPhaseClassCount read_service_class) (\<lambda>class_map.
     read_then (read_count kServiceClassCount) (\<lambda>n.
     read_then (read_many (unat n) read_spec) (\<lambda>specs.
     read_then read_u64 (\<lambda>ceil. read_then read_u8 (\<lambda>isolation. read_then read_bool (\<lambda>strict.
     read_then read_bool (\<lambda>preemption. read_then read_u32 (\<lambda>flows. read_then read_u32 (\<lambda>history.
     read_then read_u32 (\<lambda>clauses. read_then read_u64 (\<lambda>backoff.
     (let p = \<lparr>pd_generation = generation, pd_phase_class_map = class_map, pd_classes = specs,
          pd_unknown_phase_ceiling_bps = ceil, pd_checkpoint_isolation_priority = isolation,
          pd_strict_generation_invalidation = strict, pd_allow_preemption = preemption,
          pd_max_active_flows_per_step = flows, pd_max_history_steps = history,
          pd_max_explanation_clauses = clauses, pd_defer_backoff_ticks = backoff\<rparr>
      in ensure (policy_validate p) (give p))))))))))))))"

section \<open>Jobs\<close>

definition write_group :: "parallelism_group \<Rightarrow> writer \<Rightarrow> writer" where
  "write_group g = writes
     [put_u64 (pg_id g), put_u8 (of_nat (parallelism_kind_raw (pg_kind g))), put_u32 (pg_member_count g),
      put_string (pg_name g)]"

definition write_link :: "link_capacity \<Rightarrow> writer \<Rightarrow> writer" where
  "write_link l = writes
     [put_u64 (lc_group l), put_u64 (lc_capacity_bps l), put_u64 (lc_reserved_bps l),
      put_u8 (of_nat (evidence_label_raw (lc_label l))), put_string (lc_source l)]"

definition write_retired :: "retired_incarnation \<Rightarrow> writer \<Rightarrow> writer" where
  "write_retired r = writes
     [put_u64 (ri_incarnation r), put_u64 (boot_hi (ri_boot r)), put_u64 (boot_lo (ri_boot r)),
      put_u64 (ri_retired_at r), put_u16 (error_raw (ri_cause r))]"

definition written_groups :: "job_state \<Rightarrow> parallelism_group list" where
  "written_groups job = concat (map (\<lambda>ident. case map_of (js_groups job) ident of
     None \<Rightarrow> [] | Some g \<Rightarrow> [g]) (sort (js_group_order job)))"

definition write_job :: "job_state \<Rightarrow> writer \<Rightarrow> writer" where
  "write_job job = writes
     [put_u64 (js_id job), put_string (js_name job), put_u64 (js_generation job),
      put_u64 (js_incarnation job), put_u64 (boot_hi (js_boot job)), put_u64 (boot_lo (js_boot job)),
      put_u64 (js_epoch job), put_bool (js_retired job), write_contract (js_contract job),
      put_u32 (of_nat (length (written_groups job))), writes (map write_group (written_groups job)),
      put_u64 (te_generation (js_topology job)),
      put_u8 (of_nat (evidence_label_raw (te_label (js_topology job)))),
      put_u32 (of_nat (length (te_links (js_topology job)))),
      writes (map write_link (te_links (js_topology job))),
      put_u32 (of_nat (length (js_retired_incarnations job))),
      writes (map write_retired (js_retired_incarnations job)),
      put_u64 (js_highest_step job), put_u64 (js_last_closed_step job),
      (case js_step job of None \<Rightarrow> put_u8 0 | Some step \<Rightarrow> write_open_step step),
      put_u32 (of_nat (length (js_history job))), writes (map write_report (js_history job)),
      put_u64 (js_next_intent_id job), put_u64 (js_next_phase_id job), put_u64 (js_next_burst_id job),
      put_u64 (js_next_incarnation job), put_u64 (js_next_topology_generation job)]"

definition read_kind :: "parallelism_kind reader" where
  "read_kind = read_then read_u8 (\<lambda>raw.
     demand (\<not> unat raw > parallelism_kind_raw PK_OptimizerShard) EC_BadEncoding
       (give (parallelism_kinds ! unat raw)))"

definition read_group :: "job_state \<Rightarrow> job_state reader" where
  "read_group job =
     read_then read_u64 (\<lambda>ident. read_then read_kind (\<lambda>kind. read_then read_u32 (\<lambda>members.
     read_then (read_string kMaxStringBytes) (\<lambda>name.
     (let g = \<lparr>pg_id = ident, pg_job = js_id job, pg_kind = kind, pg_member_count = members, pg_name = name\<rparr>
      in ensure (group_validate g) (
         demand (\<not> (js_group_order job \<noteq> [] \<and> last (js_group_order job) \<ge> pg_id g)) EC_CorruptState (
         give (job\<lparr>js_group_order := js_group_order job @ [pg_id g],
           js_groups := emplace (pg_id g) g (js_groups job),
           js_group_utilized_bps := put (pg_id g) 0 (js_group_utilized_bps job),
           js_group_active_flows := put (pg_id g) 0 (js_group_active_flows job)\<rparr>))))))))"

definition read_link :: "job_state \<Rightarrow> job_state reader" where
  "read_link job =
     read_then read_u64 (\<lambda>g. read_then read_u64 (\<lambda>capacity. read_then read_u64 (\<lambda>reserved.
     read_then read_label (\<lambda>label. read_then (read_string kMaxStringBytes) (\<lambda>source.
     (let links = te_links (js_topology job)
      in demand (has_key (js_groups job) g) EC_CorruptState (
         demand (\<not> (links \<noteq> [] \<and> lc_group (last links) \<ge> g)) EC_CorruptState (
         give (job\<lparr>js_topology := (js_topology job)\<lparr>te_links := links @
           [\<lparr>lc_group = g, lc_capacity_bps = capacity, lc_reserved_bps = reserved, lc_label = label,
             lc_source = source\<rparr>]\<rparr>\<rparr>)))))))))"

definition read_retired :: "job_state \<Rightarrow> job_state reader" where
  "read_retired job =
     read_then read_u64 (\<lambda>incarnation. read_then read_u64 (\<lambda>hi. read_then read_u64 (\<lambda>lo.
     read_then read_u64 (\<lambda>at. read_then read_u16 (\<lambda>cause.
     give (job\<lparr>js_retired_set := insert incarnation (js_retired_set job),
       js_retired_incarnations := js_retired_incarnations job @
         [\<lparr>ri_incarnation = incarnation, ri_boot = BootId hi lo, ri_retired_at = at,
           ri_cause = ErrorCode cause\<rparr>]\<rparr>))))))"

definition read_job_retired :: "job_state \<Rightarrow> job_state reader" where
  "read_job_retired job = read_then (read_count 4096) (\<lambda>n. read_fold (unat n) read_retired job)"

definition read_history :: "job_state \<Rightarrow> job_state reader" where
  "read_history job =
     read_then (read_report (js_id job)) (\<lambda>r.
     demand (\<not> (js_history job \<noteq> [] \<and> rp_step (last (js_history job)) \<ge> rp_step r)) EC_CorruptState (
     give (job\<lparr>js_history := js_history job @ [r]\<rparr>)))"

text \<open>The parts of a job in the order they are read.\<close>

definition blank_job ::
  "training_job_id \<Rightarrow> bytes \<Rightarrow> training_generation \<Rightarrow> incarnation_id \<Rightarrow> boot_id \<Rightarrow> epoch_id \<Rightarrow> bool \<Rightarrow>
   workload_contract \<Rightarrow> job_state" where
  "blank_job ident name generation incarnation boot epoch retired contract =
     \<lparr>js_id = ident, js_name = name, js_generation = generation, js_contract = contract,
      js_incarnation = incarnation, js_boot = boot, js_epoch = epoch, js_retired = retired,
      js_groups = [], js_group_order = [], js_group_utilized_bps = [], js_group_active_flows = [],
      js_topology = no_topology, js_retired_incarnations = [], js_retired_set = {},
      js_highest_step = 0, js_last_closed_step = 0, js_step = None, js_history = [],
      js_decisions = [], js_decision_order = [], js_receipts = [], js_receipt_order = [],
      js_recent_fences = [], js_next_intent_id = 1, js_next_phase_id = 1, js_next_burst_id = 1,
      js_next_incarnation = 1, js_next_topology_generation = 1, js_pacing_records = 0,
      js_last_activity = 0\<rparr>"

definition read_job_identity :: "job_state reader" where
  "read_job_identity =
     read_then read_u64 (\<lambda>ident. demand (valid ident) EC_CorruptState (
     read_then (read_string kMaxStringBytes) (\<lambda>name.
     read_then read_u64 (\<lambda>generation. demand (valid generation) EC_CorruptState (
     read_then read_u64 (\<lambda>incarnation. demand (valid incarnation) EC_CorruptState (
     read_then read_u64 (\<lambda>hi. read_then read_u64 (\<lambda>lo. demand (boot_valid (BootId hi lo)) EC_CorruptState (
     read_then read_u64 (\<lambda>epoch. read_then read_bool (\<lambda>retired.
     read_then (read_contract ident) (\<lambda>contract.
     give (blank_job ident name generation incarnation (BootId hi lo) epoch retired contract))))))))))))))"

definition read_job_groups :: "job_state \<Rightarrow> job_state reader" where
  "read_job_groups job =
     read_then (read_count 65536) (\<lambda>n.
     demand (\<not> n > wc_max_parallelism_groups (js_contract job)) EC_CorruptState (
     read_fold (unat n) read_group job))"

definition read_job_topology :: "job_state \<Rightarrow> job_state reader" where
  "read_job_topology job =
     read_then read_u64 (\<lambda>generation. read_then read_label (\<lambda>label.
     read_then (read_count kMaxCollectionItems) (\<lambda>n.
     read_then (read_fold (unat n) read_link
       (job\<lparr>js_topology := (js_topology job)\<lparr>te_generation := generation, te_job := js_id job,
          te_label := label\<rparr>\<rparr>)) (\<lambda>job.
     ensure (if valid (te_generation (js_topology job)) \<or> te_links (js_topology job) \<noteq> []
             then topology_validate (js_topology job) else Inr ()) (give job)))))"

text \<open>The open step, if there is one, and whether it had something to reconcile.\<close>

definition read_optional_step :: "job_state \<Rightarrow> (step_state option \<times> bool) reader" where
  "read_optional_step job =
     read_then read_bool (\<lambda>has_open_step.
       if has_open_step then read_then (read_open_step job) (\<lambda>(step, reconciled). give (Some step, reconciled))
       else give (None, False))"

definition read_job_step :: "job_state \<Rightarrow> (job_state \<times> bool) reader" where
  "read_job_step job =
     read_then read_u64 (\<lambda>highest. read_then read_u64 (\<lambda>last_closed.
     demand (\<not> last_closed > highest) EC_CorruptState (
     read_then (read_optional_step job) (\<lambda>(step, reconciled).
     demand (\<not> (case step of None \<Rightarrow> False | Some s \<Rightarrow> ss_step s > highest)) EC_CorruptState (
     give (job\<lparr>js_highest_step := highest, js_last_closed_step := last_closed, js_step := step\<rparr>, reconciled))))))"

definition read_job_history :: "job_state \<Rightarrow> job_state reader" where
  "read_job_history job =
     read_then (read_count 1024) (\<lambda>n.
     read_then (read_fold (unat n) read_history job) (\<lambda>job.
     demand (\<not> length (js_history job) > unat (wc_history_steps (js_contract job))) EC_CorruptState (
     give job)))"

definition read_job_allocators :: "job_state \<Rightarrow> job_state reader" where
  "read_job_allocators job =
     read_then read_u64 (\<lambda>intent. read_then read_u64 (\<lambda>phase. read_then read_u64 (\<lambda>burst.
     read_then read_u64 (\<lambda>incarnation. read_then read_u64 (\<lambda>topology.
     demand (\<not> (intent = 0 \<or> phase = 0 \<or> burst = 0 \<or> incarnation \<le> js_incarnation job \<or> topology = 0))
       EC_CorruptState (
     demand (\<not> topology \<le> te_generation (js_topology job)) EC_CorruptState (
     give (job\<lparr>js_next_intent_id := intent, js_next_phase_id := phase, js_next_burst_id := burst,
       js_next_incarnation := incarnation, js_next_topology_generation := topology\<rparr>))))))))"

definition read_job :: "(job_state \<times> bool) reader" where
  "read_job =
     read_then read_job_identity (\<lambda>job. read_then (read_job_groups job) (\<lambda>job.
     read_then (read_job_topology job) (\<lambda>job.
     read_then (read_job_retired job) (\<lambda>job.
     read_then (read_job_step job) (\<lambda>(job, reconciled). read_then (read_job_history job) (\<lambda>job.
     read_then (read_job_allocators job) (\<lambda>job. give (job, reconciled))))))))"

section \<open>The snapshot\<close>

text \<open>The jobs by ascending id.\<close>

definition written_jobs :: "fabric_state \<Rightarrow> job_state list" where
  "written_jobs st = concat (map (\<lambda>ident. case map_of (fb_jobs st) ident of
     None \<Rightarrow> [] | Some job \<Rightarrow> [job]) (sort (keys (fb_jobs st))))"

definition write_state :: "fabric_state \<Rightarrow> writer \<Rightarrow> writer" where
  "write_state st = writes
     [put_u32 kStateMagic, put_u16 kStateFormatVersion, put_u16 0, put_u64 (fb_now st),
      write_policy (fb_policy st), put_u64 (fb_next_job_id st),
      put_u32 (of_nat (length (fb_jobs st))), writes (map write_job (written_jobs st)),
      put_u32 kStateTrailer]"

definition serialize_state :: "fabric_state \<Rightarrow> bytes result" where
  "serialize_state st =
     (let w = write_state st (make_writer kMaxSnapshotBytes)
      in if \<not> writer_ok w then Inl (bw_error w) else Inr (bw_buffer w))"

text \<open>One turn of the loop over the jobs: the state and the id of the job read before.\<close>

definition read_job_entry :: "fabric_state \<times> training_job_id \<Rightarrow> (fabric_state \<times> training_job_id) reader" where
  "read_job_entry s = (case s of (st, previous) \<Rightarrow>
     read_then read_job (\<lambda>(job, reconciled).
     demand (\<not> (valid previous \<and> previous \<ge> js_id job)) EC_CorruptState (
     give (st\<lparr>fb_next_job_id := max (fb_next_job_id st) (js_id job + 1),
              fb_jobs := emplace (js_id job) job (fb_jobs st)\<rparr>, js_id job))))"

definition read_state :: "fabric_config \<Rightarrow> fabric_state reader" where
  "read_state config =
     read_then read_u32 (\<lambda>magic. demand (magic = kStateMagic) EC_CorruptState (
     read_then read_u16 (\<lambda>format. demand (format = kStateFormatVersion) EC_IncompatibleState (
     read_then read_u16 (\<lambda>reserved. demand (reserved = 0) EC_CorruptState (
     read_then read_u64 (\<lambda>now. read_then read_policy (\<lambda>policy.
     read_then read_u64 (\<lambda>next_job_id. demand (next_job_id \<noteq> 0) EC_CorruptState (
     read_then (read_count (unat (cf_max_jobs config))) (\<lambda>n.
     read_then (read_fold (unat n) read_job_entry
       (\<lparr>fb_config = config, fb_now = now, fb_policy = policy, fb_jobs = [], fb_stats = empty_stats,
         fb_next_job_id = next_job_id\<rparr>, 0)) (\<lambda>(st, previous).
     read_then read_u32 (\<lambda>trailer. demand (trailer = kStateTrailer) EC_CorruptState (
     give st))))))))))))))"

definition deserialize_state :: "bytes \<Rightarrow> fabric_config \<Rightarrow> fabric_state result" where
  "deserialize_state bs config =
     rbind (checks [(bs \<noteq> [], EC_PartialState),
                    (\<not> length bs > kMaxSnapshotBytes, EC_StateTooLarge)]) (\<lambda>_.
     rbind (read_state config bs) (\<lambda>(st, rest). rbind (expect_end rest) (\<lambda>_. Inr st)))"

definition state_digest :: "fabric_state \<Rightarrow> u64" where
  "state_digest st = (case serialize_state st of Inl e \<Rightarrow> 0 | Inr bs \<Rightarrow> ucast (crc32c bs))"

end
