(* ===== verification/Restore.thy ===== *)
theory Restore
  imports Snapshot
begin

text \<open>
  What comes back from a snapshot: every record of \<^verbatim>\<open>src/fabric_state.cpp\<close> is a codec, the
  records that are read in a context are one for every context, and the state that is read
  from the snapshot of a state is that state without what lives only in a session.
\<close>

section \<open>Enumerations\<close>

lemma read_enumerators [reading]:
  "read_phase_class (one_byte (of_nat (phase_class_raw a)) @ rest) = Inr (a, rest)"
  "read_service_class (one_byte (of_nat (service_class_raw b)) @ rest) = Inr (b, rest)"
  "read_criticality (one_byte (of_nat (sync_criticality_raw c)) @ rest) = Inr (c, rest)"
  "read_disposition (one_byte (of_nat (phase_disposition_raw d)) @ rest) = Inr (d, rest)"
  "read_label (one_byte (of_nat (evidence_label_raw e)) @ rest) = Inr (e, rest)"
  "read_kind (one_byte (of_nat (parallelism_kind_raw k)) @ rest) = Inr (k, rest)"
  by ((cases a, simp_all add: read_phase_class_def kPhaseClassCount_def phase_classes_def reading)[],
    (cases b, simp_all add: read_service_class_def kServiceClassCount_def service_classes_def reading)[],
    (cases c, simp_all add: read_criticality_def reading)[], (cases d, simp_all add: read_disposition_def reading)[],
    (cases e, simp_all add: read_label_def reading)[],
    (cases k, simp_all add: read_kind_def parallelism_kinds_def reading)[])

section \<open>Lists\<close>

text \<open>A list is written with its length before it.\<close>

lemma read_length [reading]:
  "length xs \<le> limit \<Longrightarrow> limit < 2 ^ 32 \<Longrightarrow>
     read_count limit (le_bytes 4 (of_nat (length xs) :: u32) @ rest) = Inr (of_nat (length xs), rest)"
  "length xs < 2 ^ 32 \<Longrightarrow> unat (of_nat (length xs) :: u32) = length xs"
  by (simp_all add: read_count_def read_words read_then_app reader_steps unat_of_nat)

section \<open>Records without a context\<close>

lemma contract_text: "contract_validate c = Inr () \<Longrightarrow> text_ok (wc_name c)"
  by (simp add: contract_validate_def contract_validate_limits_def text_ok_def)

text \<open>A record that is checked as a whole is put together from its own fields.\<close>

lemma contract_fields:
  "\<lparr>wc_job = wc_job c, wc_generation = wc_generation c, wc_name = wc_name c,
    wc_max_parallelism_groups = wc_max_parallelism_groups c, wc_max_phases_per_step = wc_max_phases_per_step c,
    wc_max_intents_per_step = wc_max_intents_per_step c,
    wc_max_active_flows_per_step = wc_max_active_flows_per_step c,
    wc_max_bytes_per_step = wc_max_bytes_per_step c, wc_max_bytes_per_intent = wc_max_bytes_per_intent c,
    wc_history_steps = wc_history_steps c, wc_allow_unknown_phase = wc_allow_unknown_phase c\<rparr> = c"
  by simp

lemma contract_codec:
  "codec write_contract (read_contract job) (\<lambda>c. wc_job c = job \<and> contract_validate c = Inr ()) (\<lambda>c. c)"
  by (rule codecI, unfold write_contract_def, (rule emitting)+)
    (frule conjunct2 [THEN contract_text], auto simp: read_contract_def reading Let_def contract_fields)

interpretation contracts: codec write_contract "read_contract job"
    "\<lambda>c. wc_job c = job \<and> contract_validate c = Inr ()" "\<lambda>c. c" for job
  by (rule contract_codec)

text \<open>The sum of the counters never overflows: each of them is below \<open>2 ^ 32\<close>.\<close>

lemma checked_total_fits:
  "unat acc + length vs * 2 ^ 32 < 2 ^ 64 \<Longrightarrow> checked_total acc vs \<noteq> None"
proof (induction vs arbitrary: acc)
  case (Cons v vs)
  have v: "unat v < 2 ^ 32" using unsigned_less [of v] by simp
  moreover have u: "unat (ucast v :: u64) = unat v" using v by (simp add: unsigned_ucast_eq take_bit_nat_eq_self)
  ultimately have "unat acc + unat (ucast v :: u64) < 2 ^ 64" using Cons.prems by simp
  then have "checked_add acc (ucast v) = Some (acc + ucast v)" "unat (acc + ucast v) = unat acc + unat v"
    using u by (simp_all add: checked_add_Some unat_plus_simple [symmetric] unat_word_ariths)
  then show ?case using Cons.prems v Cons.IH [of "acc + ucast v"] by simp
qed simp

definition accounting_good :: "training_step_id \<Rightarrow> step_accounting \<Rightarrow> bool" where
  "accounting_good step a \<longleftrightarrow> sa_step a = step \<and> sa_bytes_completed a + sa_bytes_cancelled a \<le> sa_bytes_committed a"

definition shown :: "bool \<Rightarrow> step_accounting \<Rightarrow> step_accounting" where
  "shown is_open a = (if is_open then a\<lparr>sa_active_flows := 0, sa_active_min_bps := 0\<rparr> else a)"

lemma accounting_codec:
  "codec (write_accounting is_open) (read_accounting step) (accounting_good step) (shown is_open)"
  by (rule codecI, unfold write_accounting_def, (rule emitting)+)
    (auto simp: read_accounting_def reading accounting_good_def shown_def checked_total_fits not_less
      simp del: checked_total.simps)

interpretation accounts: codec "write_accounting is_open" "read_accounting step" "accounting_good step" "shown is_open"
  for is_open step
  by (rule accounting_codec)

lemma accounting_written [emitting]: "emits (write_accounting is_open a) (accounts.image is_open (sa_step a) a)"
  by (rule accounts.emits_image)

lemma accounting_read [reading]:
  "accounting_good step a \<Longrightarrow> read_accounting step (accounts.image is_open (sa_step a) a @ rest) = Inr (shown is_open a, rest)"
  using accounts.read_image [of step a is_open rest] by (simp add: accounting_good_def)

lemma fence_codec: "codec write_fence read_fence (\<lambda>f. True) (\<lambda>f. f)"
  by (rule codecI, unfold write_fence_def, (rule emitting)+) (auto simp: read_fence_def reading)

interpretation fences: codec write_fence read_fence "\<lambda>f. True" "\<lambda>f. f"
  by (rule fence_codec)

lemma fences_codec:
  "codec (\<lambda>x. write_fences (snd x) (fst x)) read_fences (\<lambda>x. length (snd x) \<le> unat kMaxRetainedFenceEvents) (\<lambda>x. x)"
  by (rule codecI, unfold write_fences_def, (rule emitting fences.emits_all)+)
    (auto simp: read_fences_def reading kMaxRetainedFenceEvents_def fences.read_many_image [simplified])

interpretation fence_lists: codec "\<lambda>x. write_fences (snd x) (fst x)" read_fences
    "\<lambda>x. length (snd x) \<le> unat kMaxRetainedFenceEvents" "\<lambda>x. x"
  by (rule fences_codec)

lemma fences_written [emitting]: "emits (write_fences fs n) (fence_lists.image (n, fs))"
  using fence_lists.emits_image [of "(n, fs)"] by simp

lemma fences_read [reading]:
  "length fs \<le> unat kMaxRetainedFenceEvents \<Longrightarrow> read_fences (fence_lists.image (n, fs) @ rest) = Inr ((n, fs), rest)"
  by (rule fence_lists.read_image) simp

section \<open>The open step\<close>

lemma phase_codec:
  "codec write_phase (read_phase step) (\<lambda>p. pr_step p = step \<and> valid (pr_id p) \<and> text_ok (ps_hint (pr_spec p))) (\<lambda>p. p)"
  by (rule codecI, unfold write_phase_def, (rule emitting)+) (auto simp: read_phase_def reading)

interpretation phases: codec write_phase "read_phase step"
    "\<lambda>p. pr_step p = step \<and> valid (pr_id p) \<and> text_ok (ps_hint (pr_spec p))" "\<lambda>p. p" for step
  by (rule phase_codec)

lemma phase_accounting_codec:
  "codec write_phase_accounting read_phase_accounting (\<lambda>a. ph_bytes_completed a \<le> ph_bytes_committed a) (\<lambda>a. a)"
  by (rule codecI, unfold write_phase_accounting_def, (rule emitting)+)
    (auto simp: read_phase_accounting_def reading not_less)

interpretation phase_accounts: codec write_phase_accounting read_phase_accounting
    "\<lambda>a. ph_bytes_completed a \<le> ph_bytes_committed a" "\<lambda>a. a"
  by (rule phase_accounting_codec)

lemma burst_codec: "codec write_burst read_burst (\<lambda>b. text_ok (bs_reason b)) (\<lambda>b. b)"
  by (rule codecI, unfold write_burst_def, (rule emitting)+) (auto simp: read_burst_def reading)

interpretation bursts: codec write_burst read_burst "\<lambda>b. text_ok (bs_reason b)" "\<lambda>b. b"
  by (rule burst_codec)

section \<open>Reports, the policy, groups and links\<close>

lemma summary_codec:
  "codec write_summary read_summary (\<lambda>p. su_bytes_completed p \<le> su_bytes_committed p) (\<lambda>p. p)"
  by (rule codecI, unfold write_summary_def, (rule emitting)+) (auto simp: read_summary_def reading not_less)

interpretation summaries: codec write_summary read_summary "\<lambda>p. su_bytes_completed p \<le> su_bytes_committed p" "\<lambda>p. p"
  by (rule summary_codec)

lemma spec_codec: "codec write_spec read_spec (\<lambda>s. True) (\<lambda>s. s)"
  by (rule codecI, unfold write_spec_def, (rule emitting)+) (auto simp: read_spec_def reading)

interpretation specs: codec write_spec read_spec "\<lambda>s. True" "\<lambda>s. s"
  by (rule spec_codec)

lemma class_codec: "codec write_class read_service_class (\<lambda>c. True) (\<lambda>c. c)"
  by (rule codecI, unfold write_class_def, (rule emitting)+) (auto simp: reading)

interpretation classes: codec write_class read_service_class "\<lambda>c. True" "\<lambda>c. c"
  by (rule class_codec)

definition report_good :: "training_job_id \<Rightarrow> step_report \<Rightarrow> bool" where
  "report_good job r \<longleftrightarrow> rp_job r = job \<and> accounting_good (rp_step r) (rp_accounting r) \<and>
     balanced (rp_accounting r) \<and> length (rp_phases r) \<le> 4096 \<and>
     (\<forall>p \<in> set (rp_phases r). su_bytes_completed p \<le> su_bytes_committed p) \<and>
     length (rp_fences r) \<le> unat kMaxRetainedFenceEvents"

lemma report_codec: "codec write_report (read_report job) (report_good job) (\<lambda>r. r)"
  by (rule codecI, unfold write_report_def, (rule emitting summaries.emits_all)+)
    (auto simp: read_report_def reading report_good_def summaries.read_many_image [simplified] shown_def)

interpretation reports: codec write_report "read_report job" "report_good job" "\<lambda>r. r" for job
  by (rule report_codec)

definition policy_good :: "policy_document \<Rightarrow> bool" where
  "policy_good p \<longleftrightarrow> policy_validate p = Inr () \<and> length (pd_phase_class_map p) = kPhaseClassCount \<and>
     length (pd_classes p) \<le> kServiceClassCount"

lemma policy_fields:
  "\<lparr>pd_generation = pd_generation p, pd_phase_class_map = pd_phase_class_map p, pd_classes = pd_classes p,
    pd_unknown_phase_ceiling_bps = pd_unknown_phase_ceiling_bps p,
    pd_checkpoint_isolation_priority = pd_checkpoint_isolation_priority p,
    pd_strict_generation_invalidation = pd_strict_generation_invalidation p,
    pd_allow_preemption = pd_allow_preemption p,
    pd_max_active_flows_per_step = pd_max_active_flows_per_step p,
    pd_max_history_steps = pd_max_history_steps p, pd_max_explanation_clauses = pd_max_explanation_clauses p,
    pd_defer_backoff_ticks = pd_defer_backoff_ticks p\<rparr> = p"
  by simp

lemma class_map_read:
  "length cs = kPhaseClassCount \<Longrightarrow>
     read_many kPhaseClassCount read_service_class (concat (map classes.image cs) @ rest) = Inr (cs, rest)"
  using classes.read_many_image [of cs rest] by simp

lemma policy_codec: "codec write_policy read_policy policy_good (\<lambda>p. p)"
  by (rule codecI, unfold write_policy_def, (rule emitting specs.emits_image classes.emits_image)+)
    (auto simp: read_policy_def reading policy_good_def class_map_read specs.read_many_image [simplified]
      kServiceClassCount_def Let_def policy_fields)

interpretation policies: codec write_policy read_policy policy_good "\<lambda>p. p"
  by (rule policy_codec)

section \<open>The phases of an open step\<close>

definition entry_image :: "phase_record \<times> phase_accounting \<Rightarrow> bytes" where
  "entry_image e = phases.image (pr_step (fst e)) (fst e) @ phase_accounts.image (snd e)"

lemma entry_written [emitting]: "emits (write_phase_entry e) (entry_image e)"
  unfolding write_phase_entry_def
  by (rule emits_eq, (rule emitting phases.emits_image [where step = "pr_step (fst e)"] phase_accounts.emits_image)+)
    (simp add: entry_image_def)

text \<open>What a turn of the loop asks of an entry, and what it makes of the step.\<close>

definition entry_ok :: "job_state \<Rightarrow> step_state \<Rightarrow> phase_record \<times> phase_accounting \<Rightarrow> bool" where
  "entry_ok job step e \<longleftrightarrow> pr_step (fst e) = ss_step step \<and> valid (pr_id (fst e)) \<and>
     text_ok (ps_hint (pr_spec (fst e))) \<and> ph_bytes_completed (snd e) \<le> ph_bytes_committed (snd e) \<and>
     has_key (js_groups job) (ps_group (pr_spec (fst e))) \<and>
     \<not> (ss_phase_order step \<noteq> [] \<and> last (ss_phase_order step) \<ge> pr_id (fst e))"

definition settled_phase :: "phase_accounting \<Rightarrow> phase_accounting" where
  "settled_phase a = a\<lparr>ph_bytes_committed := ph_bytes_completed a\<rparr>"

definition add_entry :: "step_state \<Rightarrow> phase_record \<times> phase_accounting \<Rightarrow> step_state" where
  "add_entry step e = step\<lparr>ss_phase_order := ss_phase_order step @ [pr_id (fst e)],
     ss_phase_accounting := emplace (pr_id (fst e)) (settled_phase (snd e)) (ss_phase_accounting step),
     ss_phases := emplace (pr_id (fst e)) (fst e) (ss_phases step),
     ss_phase_active_flows := put (pr_id (fst e)) 0 (ss_phase_active_flows step)\<rparr>"

lemma entry_read:
  "entry_ok job step e \<Longrightarrow> read_phase_entry job step (entry_image e @ rest) = Inr (add_entry step e, rest)"
  using phases.read_image [of "fst e" "ss_step step"] phase_accounts.read_image [of "snd e"]
  by (simp add: read_phase_entry_def entry_image_def entry_ok_def reading add_entry_def settled_phase_def)

text \<open>The entries come in strictly ascending order, so every table grows at its end.\<close>

definition ascending :: "u64 list \<Rightarrow> bool" where
  "ascending xs \<longleftrightarrow> sorted_wrt (<) xs"

lemma ascending_simps [simp]: "ascending []" "ascending [x]"
  by (simp_all add: ascending_def)

lemma ascending_next:
  assumes "ascending (xs @ y # ys)"
  shows "\<not> (xs \<noteq> [] \<and> last xs \<ge> y)" and "y \<notin> set xs" and "ascending ((xs @ [y]) @ ys)"
  using assms by (auto simp: ascending_def sorted_wrt_append not_le dest: last_in_set)

lemma emplace_fresh: "k \<notin> set (keys t) \<Longrightarrow> emplace k v t = t @ [(k, v)]"
  by (simp add: emplace_def put_fresh set_keys)

lemma put_new: "k \<notin> set (keys t) \<Longrightarrow> put k v t = t @ [(k, v)]"
  by (simp add: put_fresh set_keys)

lemma keys_append [simp]: "keys (t @ u) = keys t @ keys u" "keys [(k, v)] = [k]" "keys [] = []"
  by (simp_all add: keys_def)

abbreviation entry_id :: "phase_record \<times> phase_accounting \<Rightarrow> phase_id" where
  "entry_id e \<equiv> pr_id (fst e)"

definition fill_step :: "step_state \<Rightarrow> (phase_record \<times> phase_accounting) list \<Rightarrow> step_state" where
  "fill_step step es = step\<lparr>ss_phase_order := ss_phase_order step @ map entry_id es,
     ss_phase_accounting := ss_phase_accounting step @ map (\<lambda>e. (entry_id e, settled_phase (snd e))) es,
     ss_phases := ss_phases step @ map (\<lambda>e. (entry_id e, fst e)) es,
     ss_phase_active_flows := ss_phase_active_flows step @ map (\<lambda>e. (entry_id e, 0)) es\<rparr>"

definition entry_good :: "job_state \<Rightarrow> training_step_id \<Rightarrow> phase_record \<times> phase_accounting \<Rightarrow> bool" where
  "entry_good job ident e \<longleftrightarrow> pr_step (fst e) = ident \<and> valid (entry_id e) \<and>
     text_ok (ps_hint (pr_spec (fst e))) \<and> ph_bytes_completed (snd e) \<le> ph_bytes_committed (snd e) \<and>
     has_key (js_groups job) (ps_group (pr_spec (fst e)))"

lemma entries_run:
  assumes "\<forall>e \<in> set es. entry_good job (ss_step step) e" and "ascending (ss_phase_order step @ map entry_id es)"
    and "keys (ss_phases step) = ss_phase_order step" and "keys (ss_phase_accounting step) = ss_phase_order step"
    and "keys (ss_phase_active_flows step) = ss_phase_order step"
  shows "runs (entry_ok job) add_entry step es \<and> foldl add_entry step es = fill_step step es"
  using assms
proof (induction es arbitrary: step)
  case Nil
  then show ?case by (simp add: fill_step_def)
next
  case (Cons e es)
  note nxt = ascending_next [OF Cons.prems(2) [simplified]]
  have add: "add_entry step e = fill_step step [e]"
    using nxt Cons.prems(3-5) by (simp add: add_entry_def fill_step_def emplace_fresh put_new)
  have "runs (entry_ok job) add_entry (add_entry step e) es \<and>
      foldl add_entry (add_entry step e) es = fill_step (add_entry step e) es"
    using Cons.prems nxt unfolding add by (intro Cons.IH) (auto simp: fill_step_def)
  moreover have "entry_ok job step e"
    using Cons.prems(1) nxt by (auto simp: entry_ok_def entry_good_def)
  ultimately show ?case by (simp add: add) (simp add: fill_step_def)
qed

section \<open>The open step\<close>

definition open_step_image :: "step_state \<Rightarrow> bytes" where
  "open_step_image s = le_bytes 8 (ss_step s) @ le_bytes 8 (ss_job_generation s) @ le_bytes 8 (ss_incarnation s) @
     le_bytes 8 (ss_opened_at s) @ le_bytes 8 (ss_deadline_at s) @ le_bytes 8 (ss_slack_ticks s) @
     le_bytes 4 (of_nat (length (written_phases s)) :: u32) @ concat (map entry_image (written_phases s)) @
     accounts.image True (ss_step s) (normalized_accounting (ss_accounting s)) @
     fence_lists.image (ss_fences_observed s, ss_fences s) @ le_bytes 8 (ss_intents_seen s) @
     (case ss_burst s of None \<Rightarrow> one_byte 0 | Some b \<Rightarrow> one_byte 1 @ bursts.image b)"

lemma open_step_written [emitting]:
  "emits (write_open_step s) (one_byte 1 @ open_step_image s)"
proof -
  have burst: "emits (case b of None \<Rightarrow> put_u8 0 | Some b \<Rightarrow> writes [put_u8 1, write_burst b])
      (case b of None \<Rightarrow> one_byte 0 | Some b \<Rightarrow> one_byte 1 @ bursts.image b)" for b
    using emits_cons [OF emits_words(1) emits_cons [OF bursts.emits_image emits_nil], of 1]
    by (cases b) (simp_all add: emits_words)
  show ?thesis
    unfolding write_open_step_def
    by (rule emits_eq, (rule emitting accounts.emits_image [where step = "ss_step s"] burst)+)
      (simp add: open_step_image_def)
qed

definition step_good :: "job_state \<Rightarrow> step_state \<Rightarrow> bool" where
  "step_good job s \<longleftrightarrow> valid (ss_step s) \<and> sa_step (ss_accounting s) = ss_step s \<and>
     length (written_phases s) \<le> 4096 \<and> ascending (map entry_id (written_phases s)) \<and>
     (\<forall>e \<in> set (written_phases s). entry_good job (ss_step s) e) \<and>
     length (ss_fences s) \<le> unat kMaxRetainedFenceEvents \<and>
     (case ss_burst s of None \<Rightarrow> True | Some b \<Rightarrow> text_ok (bs_reason b))"

text \<open>The step that comes back: no flows, nothing committed that is not settled.\<close>

definition restored_step :: "step_state \<Rightarrow> step_state" where
  "restored_step s =
     (fill_step (new_step (ss_step s) (ss_job_generation s) (ss_incarnation s) (ss_opened_at s)
        (ss_deadline_at s) (ss_slack_ticks s)) (written_phases s))
     \<lparr>ss_accounting := normalized_accounting (ss_accounting s), ss_fences := ss_fences s,
      ss_fences_observed := ss_fences_observed s, ss_intents_seen := ss_intents_seen s, ss_burst := ss_burst s\<rparr>"

lemma open_step_read:
  assumes "step_good job s"
  shows "read_open_step job (open_step_image s @ rest) = Inr ((restored_step s, False), rest)"
proof -
  let ?new = "new_step (ss_step s) (ss_job_generation s) (ss_incarnation s) (ss_opened_at s)
      (ss_deadline_at s) (ss_slack_ticks s)"
  let ?a = "normalized_accounting (ss_accounting s)"
  have run: "runs (entry_ok job) add_entry ?new (written_phases s)"
    "foldl add_entry ?new (written_phases s) = fill_step ?new (written_phases s)"
    using entries_run [of "written_phases s" job ?new] assms by (simp_all add: step_good_def new_step_def)
  have phases: "read_fold (length (written_phases s)) (read_phase_entry job) ?new
      (concat (map entry_image (written_phases s)) @ rest) = Inr (fill_step ?new (written_phases s), rest)" for rest
    using read_fold_image [OF entry_read run(1)] by (simp add: run(2))
  have account: "read_accounting (ss_step s) (accounts.image True (ss_step s) ?a @ rest) = Inr (?a, rest)" for rest
    using accounts.read_image [of "ss_step s" ?a True rest] assms
    by (simp add: accounting_good_def normalized_accounting_def step_good_def shown_def)
  have burst: "read_optional_burst ((case ss_burst s of None \<Rightarrow> one_byte 0 | Some b \<Rightarrow> one_byte 1 @ bursts.image b) @ rest) =
      Inr (ss_burst s, rest)" for rest
    using assms
    by (auto simp: read_optional_burst_def step_good_def reading bursts.read_image split: option.splits)
  show ?thesis
    using assms
    by (simp add: read_open_step_def open_step_image_def step_good_def reading phases account burst
        reconcile_step_def restored_step_def)
      (simp add: normalized_accounting_def)
qed

section \<open>Jobs\<close>

definition group_image :: "parallelism_group \<Rightarrow> bytes" where
  "group_image g = le_bytes 8 (pg_id g) @ one_byte (of_nat (parallelism_kind_raw (pg_kind g))) @
     le_bytes 4 (pg_member_count g) @ texts.image (pg_name g)"

definition link_image :: "link_capacity \<Rightarrow> bytes" where
  "link_image l = le_bytes 8 (lc_group l) @ le_bytes 8 (lc_capacity_bps l) @ le_bytes 8 (lc_reserved_bps l) @
     one_byte (of_nat (evidence_label_raw (lc_label l))) @ texts.image (lc_source l)"

definition retired_image :: "retired_incarnation \<Rightarrow> bytes" where
  "retired_image r = le_bytes 8 (ri_incarnation r) @ le_bytes 8 (boot_hi (ri_boot r)) @
     le_bytes 8 (boot_lo (ri_boot r)) @ le_bytes 8 (ri_retired_at r) @ le_bytes 2 (error_raw (ri_cause r))"

lemma parts_written [emitting]:
  "emits (write_group g) (group_image g)" "emits (write_link l) (link_image l)"
  "emits (write_retired r) (retired_image r)"
  unfolding write_group_def write_link_def write_retired_def
  by (rule emits_eq, (rule emitting)+, simp add: group_image_def link_image_def retired_image_def)+

text \<open>What a turn of each loop asks, and what it makes of the job.\<close>

definition add_group :: "job_state \<Rightarrow> parallelism_group \<Rightarrow> job_state" where
  "add_group job g = job\<lparr>js_group_order := js_group_order job @ [pg_id g],
     js_groups := emplace (pg_id g) g (js_groups job),
     js_group_utilized_bps := put (pg_id g) 0 (js_group_utilized_bps job),
     js_group_active_flows := put (pg_id g) 0 (js_group_active_flows job)\<rparr>"

definition group_ok :: "job_state \<Rightarrow> parallelism_group \<Rightarrow> bool" where
  "group_ok job g \<longleftrightarrow> pg_job g = js_id job \<and> group_validate g = Inr () \<and>
     \<not> (js_group_order job \<noteq> [] \<and> last (js_group_order job) \<ge> pg_id g)"

lemma group_fields:
  "\<lparr>pg_id = pg_id g, pg_job = pg_job g, pg_kind = pg_kind g, pg_member_count = pg_member_count g,
    pg_name = pg_name g\<rparr> = g"
  by simp

lemma group_read:
  assumes "group_ok job g"
  shows "read_group job (group_image g @ rest) = Inr (add_group job g, rest)"
proof -
  have job: "js_id job = pg_job g" and name: "text_ok (pg_name g)"
    and ok: "group_validate g = Inr ()" "js_group_order job = [] \<or> \<not> pg_id g \<le> last (js_group_order job)"
    using assms by (auto simp: group_ok_def group_validate_def group_validate_limits_def text_ok_def)
  show ?thesis
    unfolding read_group_def group_image_def job
    using ok name by (simp add: reading Let_def group_fields add_group_def)
qed

definition add_link :: "job_state \<Rightarrow> link_capacity \<Rightarrow> job_state" where
  "add_link job l = job\<lparr>js_topology := (js_topology job)\<lparr>te_links := te_links (js_topology job) @ [l]\<rparr>\<rparr>"

definition link_ok :: "job_state \<Rightarrow> link_capacity \<Rightarrow> bool" where
  "link_ok job l \<longleftrightarrow> has_key (js_groups job) (lc_group l) \<and> text_ok (lc_source l) \<and>
     \<not> (te_links (js_topology job) \<noteq> [] \<and> lc_group (last (te_links (js_topology job))) \<ge> lc_group l)"

lemma link_read: "link_ok job l \<Longrightarrow> read_link job (link_image l @ rest) = Inr (add_link job l, rest)"
  by (simp add: read_link_def link_image_def link_ok_def add_link_def reading Let_def)

definition add_retired :: "job_state \<Rightarrow> retired_incarnation \<Rightarrow> job_state" where
  "add_retired job r = job\<lparr>js_retired_set := insert (ri_incarnation r) (js_retired_set job),
     js_retired_incarnations := js_retired_incarnations job @ [r]\<rparr>"

lemma retired_read: "read_retired job (retired_image r @ rest) = Inr (add_retired job r, rest)"
  by (simp add: read_retired_def retired_image_def add_retired_def reading)

definition add_report :: "job_state \<Rightarrow> step_report \<Rightarrow> job_state" where
  "add_report job r = job\<lparr>js_history := js_history job @ [r]\<rparr>"

definition report_ok :: "job_state \<Rightarrow> step_report \<Rightarrow> bool" where
  "report_ok job r \<longleftrightarrow> report_good (js_id job) r \<and>
     \<not> (js_history job \<noteq> [] \<and> rp_step (last (js_history job)) \<ge> rp_step r)"

lemma history_read:
  "report_ok job r \<Longrightarrow> read_history job (reports.image (rp_job r) r @ rest) = Inr (add_report job r, rest)"
  using reports.read_image [of "js_id job" r]
  by (auto simp: read_history_def report_ok_def add_report_def reading report_good_def)

section \<open>The loops over the parts of a job\<close>

definition fill_groups :: "job_state \<Rightarrow> parallelism_group list \<Rightarrow> job_state" where
  "fill_groups job gs = job\<lparr>js_group_order := js_group_order job @ map pg_id gs,
     js_groups := js_groups job @ map (\<lambda>g. (pg_id g, g)) gs,
     js_group_utilized_bps := js_group_utilized_bps job @ map (\<lambda>g. (pg_id g, 0)) gs,
     js_group_active_flows := js_group_active_flows job @ map (\<lambda>g. (pg_id g, 0)) gs\<rparr>"

lemma groups_run:
  assumes "\<forall>g \<in> set gs. pg_job g = js_id job \<and> group_validate g = Inr ()"
    and "ascending (js_group_order job @ map pg_id gs)"
    and "keys (js_groups job) = js_group_order job" and "keys (js_group_utilized_bps job) = js_group_order job"
    and "keys (js_group_active_flows job) = js_group_order job"
  shows "runs group_ok add_group job gs \<and> foldl add_group job gs = fill_groups job gs"
  using assms
proof (induction gs arbitrary: job)
  case Nil
  then show ?case by (simp add: fill_groups_def)
next
  case (Cons g gs)
  note nxt = ascending_next [OF Cons.prems(2) [simplified]]
  have add: "add_group job g = fill_groups job [g]"
    using nxt Cons.prems(3-5) by (simp add: add_group_def fill_groups_def emplace_fresh put_new)
  have "runs group_ok add_group (add_group job g) gs \<and>
      foldl add_group (add_group job g) gs = fill_groups (add_group job g) gs"
    using Cons.prems nxt unfolding add by (intro Cons.IH) (auto simp: fill_groups_def)
  moreover have "group_ok job g"
    using Cons.prems(1) nxt by (auto simp: group_ok_def)
  ultimately show ?case by (simp add: add) (simp add: fill_groups_def)
qed

lemma links_run:
  assumes "\<forall>l \<in> set ls. has_key (js_groups job) (lc_group l) \<and> text_ok (lc_source l)"
    and "ascending (map lc_group (te_links (js_topology job)) @ map lc_group ls)"
  shows "runs link_ok add_link job ls \<and>
    foldl add_link job ls = job\<lparr>js_topology := (js_topology job)\<lparr>te_links := te_links (js_topology job) @ ls\<rparr>\<rparr>"
  using assms
proof (induction ls arbitrary: job)
  case (Cons l ls)
  note nxt = ascending_next [OF Cons.prems(2) [simplified]]
  have "runs link_ok add_link (add_link job l) ls \<and> foldl add_link (add_link job l) ls =
      (add_link job l)\<lparr>js_topology := (js_topology (add_link job l))\<lparr>te_links := te_links (js_topology (add_link job l)) @ ls\<rparr>\<rparr>"
    using Cons.prems nxt by (intro Cons.IH) (auto simp: add_link_def)
  moreover have "link_ok job l"
    using Cons.prems(1) nxt(1) by (auto simp: link_ok_def last_map)
  ultimately show ?case by simp (simp add: add_link_def)
qed simp

lemma retired_run:
  "runs (\<lambda>job r. True) add_retired job rs \<and> foldl add_retired job rs =
     job\<lparr>js_retired_set := js_retired_set job \<union> ri_incarnation ` set rs,
       js_retired_incarnations := js_retired_incarnations job @ rs\<rparr>"
  by (induction rs arbitrary: job) (simp_all add: add_retired_def)

lemma history_run:
  assumes "\<forall>r \<in> set rs. report_good (js_id job) r"
    and "ascending (map rp_step (js_history job) @ map rp_step rs)"
  shows "runs report_ok add_report job rs \<and> foldl add_report job rs = job\<lparr>js_history := js_history job @ rs\<rparr>"
  using assms
proof (induction rs arbitrary: job)
  case (Cons r rs)
  note nxt = ascending_next [OF Cons.prems(2) [simplified]]
  have "runs report_ok add_report (add_report job r) rs \<and> foldl add_report (add_report job r) rs =
      (add_report job r)\<lparr>js_history := js_history (add_report job r) @ rs\<rparr>"
    using Cons.prems nxt by (intro Cons.IH) (auto simp: add_report_def)
  moreover have "report_ok job r"
    using Cons.prems(1) nxt(1) by (auto simp: report_ok_def last_map)
  ultimately show ?case by simp (simp add: add_report_def)
qed simp

section \<open>A job and its image\<close>

definition job_image :: "job_state \<Rightarrow> bytes" where
  "job_image job = le_bytes 8 (js_id job) @ texts.image (js_name job) @ le_bytes 8 (js_generation job) @
     le_bytes 8 (js_incarnation job) @ le_bytes 8 (boot_hi (js_boot job)) @ le_bytes 8 (boot_lo (js_boot job)) @
     le_bytes 8 (js_epoch job) @ one_byte (if js_retired job then 1 else 0) @
     contracts.image (wc_job (js_contract job)) (js_contract job) @
     le_bytes 4 (of_nat (length (written_groups job)) :: u32) @ concat (map group_image (written_groups job)) @
     le_bytes 8 (te_generation (js_topology job)) @ one_byte (of_nat (evidence_label_raw (te_label (js_topology job)))) @
     le_bytes 4 (of_nat (length (te_links (js_topology job))) :: u32) @
     concat (map link_image (te_links (js_topology job))) @
     le_bytes 4 (of_nat (length (js_retired_incarnations job)) :: u32) @
     concat (map retired_image (js_retired_incarnations job)) @
     le_bytes 8 (js_highest_step job) @ le_bytes 8 (js_last_closed_step job) @
     (case js_step job of None \<Rightarrow> one_byte 0 | Some s \<Rightarrow> one_byte 1 @ open_step_image s) @
     le_bytes 4 (of_nat (length (js_history job)) :: u32) @
     concat (map (\<lambda>r. reports.image (rp_job r) r) (js_history job)) @
     le_bytes 8 (js_next_intent_id job) @ le_bytes 8 (js_next_phase_id job) @ le_bytes 8 (js_next_burst_id job) @
     le_bytes 8 (js_next_incarnation job) @ le_bytes 8 (js_next_topology_generation job)"

lemma job_written [emitting]: "emits (write_job job) (job_image job)"
proof -
  have step: "emits (case s of None \<Rightarrow> put_u8 0 | Some s \<Rightarrow> write_open_step s)
      (case s of None \<Rightarrow> one_byte 0 | Some s \<Rightarrow> one_byte 1 @ open_step_image s)" for s
    by (cases s) (simp_all add: emits_words open_step_written)
  have report: "emits (write_report r) (reports.image (rp_job r) r)" for r
    by (rule reports.emits_image)
  have contract: "emits (write_contract c) (contracts.image (wc_job c) c)" for c
    by (rule contracts.emits_image)
  show ?thesis
    unfolding write_job_def
    by (rule emits_eq, (rule emitting step report contract)+) (simp add: job_image_def)
qed

text \<open>
  What a job has to satisfy for its snapshot to be readable. The reader refuses everything
  else; the conditions on the open step refer to the groups that are written.
\<close>

definition topology_good :: "job_state \<Rightarrow> bool" where
  "topology_good job \<longleftrightarrow>
     te_job (js_topology job) = js_id job \<and> length (te_links (js_topology job)) \<le> kMaxCollectionItems \<and>
     ascending (map lc_group (te_links (js_topology job))) \<and>
     (\<forall>l \<in> set (te_links (js_topology job)).
        lc_group l \<in> pg_id ` set (written_groups job) \<and> text_ok (lc_source l)) \<and>
     (valid (te_generation (js_topology job)) \<or> te_links (js_topology job) \<noteq> [] \<longrightarrow>
        topology_validate (js_topology job) = Inr ())"

definition groups_good :: "job_state \<Rightarrow> bool" where
  "groups_good job \<longleftrightarrow>
     length (written_groups job) \<le> 65536 \<and>
     length (written_groups job) \<le> unat (wc_max_parallelism_groups (js_contract job)) \<and>
     ascending (map pg_id (written_groups job)) \<and>
     (\<forall>g \<in> set (written_groups job). pg_job g = js_id job \<and> group_validate g = Inr ())"

definition history_good :: "job_state \<Rightarrow> bool" where
  "history_good job \<longleftrightarrow>
     length (js_history job) \<le> 1024 \<and> length (js_history job) \<le> unat (wc_history_steps (js_contract job)) \<and>
     ascending (map rp_step (js_history job)) \<and> (\<forall>r \<in> set (js_history job). report_good (js_id job) r)"

definition allocators_good :: "job_state \<Rightarrow> bool" where
  "allocators_good job \<longleftrightarrow>
     js_next_intent_id job \<noteq> 0 \<and> js_next_phase_id job \<noteq> 0 \<and> js_next_burst_id job \<noteq> 0 \<and>
     js_next_topology_generation job \<noteq> 0 \<and> js_incarnation job < js_next_incarnation job \<and>
     te_generation (js_topology job) < js_next_topology_generation job"

definition job_good :: "job_state \<Rightarrow> bool" where
  "job_good job \<longleftrightarrow>
     valid (js_id job) \<and> text_ok (js_name job) \<and> valid (js_generation job) \<and> valid (js_incarnation job) \<and>
     boot_valid (js_boot job) \<and> wc_job (js_contract job) = js_id job \<and> contract_validate (js_contract job) = Inr () \<and>
     groups_good job \<and> topology_good job \<and> length (js_retired_incarnations job) \<le> 4096 \<and>
     js_last_closed_step job \<le> js_highest_step job \<and>
     (case js_step job of None \<Rightarrow> True
      | Some s \<Rightarrow> step_good (fill_groups (blank_job (js_id job) (js_name job) (js_generation job) (js_incarnation job)
            (js_boot job) (js_epoch job) (js_retired job) (js_contract job)) (written_groups job)) s \<and>
          ss_step s \<le> js_highest_step job) \<and>
     history_good job \<and> allocators_good job"

text \<open>The job that comes back.\<close>

definition restored_job :: "job_state \<Rightarrow> job_state" where
  "restored_job job =
     (fill_groups (blank_job (js_id job) (js_name job) (js_generation job) (js_incarnation job) (js_boot job)
        (js_epoch job) (js_retired job) (js_contract job)) (written_groups job))
     \<lparr>js_topology := js_topology job, js_retired_incarnations := js_retired_incarnations job,
      js_retired_set := ri_incarnation ` set (js_retired_incarnations job),
      js_highest_step := js_highest_step job, js_last_closed_step := js_last_closed_step job,
      js_step := map_option restored_step (js_step job), js_history := js_history job,
      js_next_intent_id := js_next_intent_id job, js_next_phase_id := js_next_phase_id job,
      js_next_burst_id := js_next_burst_id job, js_next_incarnation := js_next_incarnation job,
      js_next_topology_generation := js_next_topology_generation job\<rparr>"

text \<open>The parts in their order, each from the job read so far.\<close>

lemma identity_read:
  assumes "job_good job"
  shows "read_job_identity (le_bytes 8 (js_id job) @ texts.image (js_name job) @ le_bytes 8 (js_generation job) @
     le_bytes 8 (js_incarnation job) @ le_bytes 8 (boot_hi (js_boot job)) @ le_bytes 8 (boot_lo (js_boot job)) @
     le_bytes 8 (js_epoch job) @ one_byte (if js_retired job then 1 else 0) @
     contracts.image (wc_job (js_contract job)) (js_contract job) @ rest) =
   Inr (blank_job (js_id job) (js_name job) (js_generation job) (js_incarnation job) (js_boot job)
     (js_epoch job) (js_retired job) (js_contract job), rest)"
proof -
  have "read_contract (js_id job) (contracts.image (js_id job) (js_contract job) @ rest) = Inr (js_contract job, rest)"
    by (rule contracts.read_image) (use assms in \<open>simp add: job_good_def\<close>)
  then show ?thesis
    using assms by (cases "js_boot job") (auto simp: read_job_identity_def job_good_def reading)
qed

lemma groups_read:
  assumes "groups_good job" and "js_id j = js_id job" and "js_contract j = js_contract job"
    and "js_group_order j = []" "js_groups j = []" "js_group_utilized_bps j = []" "js_group_active_flows j = []"
  shows "read_job_groups j (le_bytes 4 (of_nat (length (written_groups job)) :: u32) @
     concat (map group_image (written_groups job)) @ rest) = Inr (fill_groups j (written_groups job), rest)"
proof -
  have run: "runs group_ok add_group j (written_groups job)"
    "foldl add_group j (written_groups job) = fill_groups j (written_groups job)"
    using groups_run [of "written_groups job" j] assms by (simp_all add: groups_good_def)
  have "read_fold (length (written_groups job)) read_group j (concat (map group_image (written_groups job)) @ rest) =
      Inr (fill_groups j (written_groups job), rest)"
    using read_fold_image [OF group_read run(1)] by (simp add: run(2))
  moreover have "\<not> (of_nat (length (written_groups job)) :: u32) > wc_max_parallelism_groups (js_contract job)"
    using assms(1) by (simp add: groups_good_def word_less_nat_alt unat_of_nat)
  ultimately show ?thesis
    using assms(1,3) by (simp add: read_job_groups_def groups_good_def reading)
qed

lemma topology_read:
  assumes "topology_good job" and "js_id j = js_id job" and "te_links (js_topology j) = []"
    and "pg_id ` set (written_groups job) \<subseteq> set (keys (js_groups j))"
  shows "read_job_topology j (le_bytes 8 (te_generation (js_topology job)) @
     one_byte (of_nat (evidence_label_raw (te_label (js_topology job)))) @
     le_bytes 4 (of_nat (length (te_links (js_topology job))) :: u32) @
     concat (map link_image (te_links (js_topology job))) @ rest) = Inr (j\<lparr>js_topology := js_topology job\<rparr>, rest)"
proof -
  let ?t = "js_topology job"
  let ?j = "j\<lparr>js_topology := (js_topology j)\<lparr>te_generation := te_generation ?t, te_job := js_id j,
    te_label := te_label ?t\<rparr>\<rparr>"
  have filled: "?j\<lparr>js_topology := (js_topology ?j)\<lparr>te_links := te_links (js_topology ?j) @ te_links ?t\<rparr>\<rparr> =
      j\<lparr>js_topology := ?t\<rparr>"
    using assms(1-3) by (simp add: topology_good_def)
  have known: "\<forall>l \<in> set (te_links ?t). has_key (js_groups ?j) (lc_group l) \<and> text_ok (lc_source l)"
    using assms(1,4) by (auto simp: topology_good_def set_keys [symmetric])
  have run: "runs link_ok add_link ?j (te_links ?t)" "foldl add_link ?j (te_links ?t) = j\<lparr>js_topology := ?t\<rparr>"
    using links_run [of "te_links ?t" ?j, unfolded filled] known assms(1,3)
    by (simp_all add: topology_good_def)
  have "read_fold (length (te_links ?t)) read_link ?j (concat (map link_image (te_links ?t)) @ rest) =
      Inr (j\<lparr>js_topology := ?t\<rparr>, rest)"
    using read_fold_image [OF link_read run(1)] by (simp add: run(2))
  then show ?thesis
    using assms(1) by (simp add: read_job_topology_def topology_good_def reading kMaxCollectionItems_def)
qed

lemma step_good_groups: "js_groups a = js_groups b \<Longrightarrow> step_good a s = step_good b s"
  by (simp add: step_good_def entry_good_def)

lemma step_read:
  assumes "js_last_closed_step job \<le> js_highest_step job"
    and "case js_step job of None \<Rightarrow> True | Some s \<Rightarrow> step_good j s \<and> ss_step s \<le> js_highest_step job"
  shows "read_job_step j (le_bytes 8 (js_highest_step job) @ le_bytes 8 (js_last_closed_step job) @
     (case js_step job of None \<Rightarrow> one_byte 0 | Some s \<Rightarrow> one_byte 1 @ open_step_image s) @ rest) =
   Inr ((j\<lparr>js_highest_step := js_highest_step job, js_last_closed_step := js_last_closed_step job,
     js_step := map_option restored_step (js_step job)\<rparr>, False), rest)"
proof (cases "js_step job")
  case None
  then show ?thesis
    using assms(1) by (simp add: read_job_step_def read_optional_step_def reading not_less)
next
  case (Some s)
  then have "ss_step (restored_step s) = ss_step s" "ss_step s \<le> js_highest_step job"
    using assms(2) by (simp_all add: restored_step_def fill_step_def new_step_def)
  with Some show ?thesis
    using assms open_step_read [of j s]
    by (simp add: read_job_step_def read_optional_step_def reading not_less)
qed

lemma job_history_read:
  assumes "history_good job" and "js_id j = js_id job" and "js_contract j = js_contract job" and "js_history j = []"
  shows "read_job_history j (le_bytes 4 (of_nat (length (js_history job)) :: u32) @
     concat (map (\<lambda>r. reports.image (rp_job r) r) (js_history job)) @ rest) =
   Inr (j\<lparr>js_history := js_history job\<rparr>, rest)"
proof -
  have run: "runs report_ok add_report j (js_history job)"
    "foldl add_report j (js_history job) = j\<lparr>js_history := js_history job\<rparr>"
    using history_run [of "js_history job" j] assms by (simp_all add: history_good_def)
  have "read_fold (length (js_history job)) read_history j
      (concat (map (\<lambda>r. reports.image (rp_job r) r) (js_history job)) @ rest) =
      Inr (j\<lparr>js_history := js_history job\<rparr>, rest)"
    using read_fold_image [OF history_read run(1)] by (simp add: run(2))
  then show ?thesis
    using assms by (simp add: read_job_history_def history_good_def reading)
qed

lemma retired_list_read:
  assumes "length rs \<le> 4096"
  shows "read_job_retired j
      (le_bytes 4 (of_nat (length rs) :: u32) @ concat (map retired_image rs) @ rest) =
    Inr (j\<lparr>js_retired_set := js_retired_set j \<union> ri_incarnation ` set rs,
       js_retired_incarnations := js_retired_incarnations j @ rs\<rparr>, rest)"
proof -
  have run: "runs (\<lambda>job r. True) add_retired j rs"
    "foldl add_retired j rs = j\<lparr>js_retired_set := js_retired_set j \<union> ri_incarnation ` set rs,
       js_retired_incarnations := js_retired_incarnations j @ rs\<rparr>"
    using retired_run [of j rs] by simp_all
  have "read_fold (length rs) read_retired j (concat (map retired_image rs) @ rest) = Inr (foldl add_retired j rs, rest)"
    using read_fold_image [OF retired_read run(1)] by simp
  then show ?thesis
    using assms by (simp add: read_job_retired_def reading run(2))
qed

lemma allocators_read:
  assumes "allocators_good job" and "js_incarnation j = js_incarnation job" and "js_topology j = js_topology job"
  shows "read_job_allocators j (le_bytes 8 (js_next_intent_id job) @ le_bytes 8 (js_next_phase_id job) @
     le_bytes 8 (js_next_burst_id job) @ le_bytes 8 (js_next_incarnation job) @
     le_bytes 8 (js_next_topology_generation job) @ rest) =
   Inr (j\<lparr>js_next_intent_id := js_next_intent_id job, js_next_phase_id := js_next_phase_id job,
     js_next_burst_id := js_next_burst_id job, js_next_incarnation := js_next_incarnation job,
     js_next_topology_generation := js_next_topology_generation job\<rparr>, rest)"
  using assms by (simp add: read_job_allocators_def allocators_good_def reading not_le)

text \<open>The fields of a job as the readers find them.\<close>

lemma blank_job_fields [simp]:
  "js_id (blank_job i n g inc b e r c) = i" "js_incarnation (blank_job i n g inc b e r c) = inc"
  "js_contract (blank_job i n g inc b e r c) = c" "js_groups (blank_job i n g inc b e r c) = []"
  "js_group_order (blank_job i n g inc b e r c) = []" "js_group_utilized_bps (blank_job i n g inc b e r c) = []"
  "js_group_active_flows (blank_job i n g inc b e r c) = []" "js_topology (blank_job i n g inc b e r c) = no_topology"
  "js_history (blank_job i n g inc b e r c) = []" "js_retired_set (blank_job i n g inc b e r c) = {}"
  "js_retired_incarnations (blank_job i n g inc b e r c) = []"
  by (simp_all add: blank_job_def)

lemma fill_groups_fields [simp]:
  "js_id (fill_groups j gs) = js_id j" "js_incarnation (fill_groups j gs) = js_incarnation j"
  "js_contract (fill_groups j gs) = js_contract j" "js_topology (fill_groups j gs) = js_topology j"
  "js_history (fill_groups j gs) = js_history j" "js_retired_set (fill_groups j gs) = js_retired_set j"
  "js_retired_incarnations (fill_groups j gs) = js_retired_incarnations j"
  "keys (js_groups (fill_groups j gs)) = keys (js_groups j) @ map pg_id gs"
  by (simp_all add: fill_groups_def keys_def)

lemma read_job_image:
  assumes "job_good job"
  shows "read_job (job_image job @ rest) = Inr ((restored_job job, False), rest)"
proof -
  let ?j = "fill_groups (blank_job (js_id job) (js_name job) (js_generation job) (js_incarnation job)
      (js_boot job) (js_epoch job) (js_retired job) (js_contract job)) (written_groups job)"
  have good: "groups_good job" "topology_good job" "length (js_retired_incarnations job) \<le> 4096"
    "js_last_closed_step job \<le> js_highest_step job" "history_good job" "allocators_good job"
    using assms by (simp_all add: job_good_def)
  have step: "case js_step job of None \<Rightarrow> True | Some s \<Rightarrow> step_good j s \<and> ss_step s \<le> js_highest_step job"
    if "js_groups j = js_groups ?j" for j
    using assms step_good_groups [OF that] by (auto simp: job_good_def split: option.splits)
  show ?thesis
    unfolding read_job_def job_image_def append_assoc
    by (simp add: read_then_def identity_read [OF assms] groups_read [OF good(1)] topology_read [OF good(2)]
        retired_list_read [OF good(3)] step_read [OF good(4) step] job_history_read [OF good(5)]
        allocators_read [OF good(6)] no_topology_def give_def del: append_assoc)
      (simp add: restored_job_def)
qed

section \<open>The snapshot of a state\<close>

definition add_job :: "fabric_state \<times> training_job_id \<Rightarrow> job_state \<Rightarrow> fabric_state \<times> training_job_id" where
  "add_job s job = (case s of (st, previous) \<Rightarrow>
     (st\<lparr>fb_next_job_id := max (fb_next_job_id st) (js_id job + 1),
        fb_jobs := emplace (js_id job) (restored_job job) (fb_jobs st)\<rparr>, js_id job))"

definition job_entry_ok :: "fabric_state \<times> training_job_id \<Rightarrow> job_state \<Rightarrow> bool" where
  "job_entry_ok s job \<longleftrightarrow> job_good job \<and> \<not> (valid (snd s) \<and> snd s \<ge> js_id job)"

lemma restored_job_id [simp]: "js_id (restored_job job) = js_id job"
  by (simp add: restored_job_def)

lemma job_entry_read:
  "job_entry_ok s job \<Longrightarrow> read_job_entry s (job_image job @ rest) = Inr (add_job s job, rest)"
  by (cases s) (simp add: read_job_entry_def job_entry_ok_def add_job_def reading read_job_image)

definition fill_jobs :: "fabric_state \<Rightarrow> job_state list \<Rightarrow> fabric_state" where
  "fill_jobs st jobs = st\<lparr>fb_next_job_id := foldl (\<lambda>n job. max n (js_id job + 1)) (fb_next_job_id st) jobs,
     fb_jobs := fb_jobs st @ map (\<lambda>job. (js_id job, restored_job job)) jobs\<rparr>"

lemma jobs_run:
  assumes "\<forall>job \<in> set jobs. job_good job" and "ascending (keys (fb_jobs st) @ map js_id jobs)"
    and "previous = (if fb_jobs st = [] then 0 else last (keys (fb_jobs st)))"
  shows "runs job_entry_ok add_job (st, previous) jobs \<and> fst (foldl add_job (st, previous) jobs) = fill_jobs st jobs"
  using assms
proof (induction jobs arbitrary: st previous)
  case Nil
  then show ?case by (simp add: fill_jobs_def)
next
  case (Cons job jobs)
  note nxt = ascending_next [OF Cons.prems(2) [simplified]]
  have add: "add_job (st, previous) job = (fill_jobs st [job], js_id job)"
    using nxt by (simp add: add_job_def fill_jobs_def emplace_fresh)
  have "runs job_entry_ok add_job (fill_jobs st [job], js_id job) jobs \<and>
      fst (foldl add_job (fill_jobs st [job], js_id job) jobs) = fill_jobs (fill_jobs st [job]) jobs"
    using Cons.prems nxt by (intro Cons.IH) (auto simp: fill_jobs_def keys_def)
  moreover have "job_entry_ok (st, previous) job"
    using Cons.prems nxt(1) by (auto simp: job_entry_ok_def keys_def)
  ultimately show ?case by (simp add: add) (simp add: fill_jobs_def)
qed

text \<open>What the fabric has to satisfy for its snapshot to be readable under a configuration.\<close>

definition restorable :: "fabric_config \<Rightarrow> fabric_state \<Rightarrow> bool" where
  "restorable config st \<longleftrightarrow> policy_good (fb_policy st) \<and> fb_next_job_id st \<noteq> 0 \<and>
     length (fb_jobs st) \<le> unat (cf_max_jobs config) \<and> wf_table (fb_jobs st) \<and>
     (\<forall>(k, job) \<in> set (fb_jobs st). js_id job = k \<and> job_good job)"

definition restored :: "fabric_config \<Rightarrow> fabric_state \<Rightarrow> fabric_state" where
  "restored config st =
     fill_jobs \<lparr>fb_config = config, fb_now = fb_now st, fb_policy = fb_policy st, fb_jobs = [],
       fb_stats = empty_stats, fb_next_job_id = fb_next_job_id st\<rparr> (written_jobs st)"

lemma written_jobs_sorted:
  assumes "wf_table (fb_jobs st)" and "\<forall>(k, job) \<in> set (fb_jobs st). js_id job = k"
  shows "map js_id (written_jobs st) = sort (keys (fb_jobs st))"
    and "set (written_jobs st) = snd ` set (fb_jobs st)"
proof -
  have lookup: "\<exists>job. map_of (fb_jobs st) k = Some job \<and> js_id job = k" if "k \<in> set (keys (fb_jobs st))" for k
  proof -
    from that obtain job where "map_of (fb_jobs st) k = Some job" by (auto simp: set_keys has_key_def)
    with assms(2) show ?thesis by (auto dest: map_of_SomeD)
  qed
  have "map js_id (concat (map (\<lambda>k. case map_of (fb_jobs st) k of None \<Rightarrow> [] | Some job \<Rightarrow> [job]) ks)) = ks"
    if "set ks \<subseteq> set (keys (fb_jobs st))" for ks
    using that by (induction ks) (auto dest!: lookup)
  then show "map js_id (written_jobs st) = sort (keys (fb_jobs st))"
    by (simp add: written_jobs_def)
  show "set (written_jobs st) = snd ` set (fb_jobs st)"
    using assms(1) by (force simp: written_jobs_def set_table keys_def split: option.splits)
qed

definition state_image :: "fabric_state \<Rightarrow> bytes" where
  "state_image st = le_bytes 4 kStateMagic @ le_bytes 2 kStateFormatVersion @ le_bytes 2 (0 :: u16) @
     le_bytes 8 (fb_now st) @ policies.image (fb_policy st) @ le_bytes 8 (fb_next_job_id st) @
     le_bytes 4 (of_nat (length (fb_jobs st)) :: u32) @ concat (map job_image (written_jobs st)) @
     le_bytes 4 kStateTrailer"

lemma state_written: "emits (write_state st) (state_image st)"
  unfolding write_state_def
  by (rule emits_eq, (rule emitting policies.emits_image)+) (simp add: state_image_def)

lemma serialized_image:
  assumes "serialize_state st = Inr out"
  shows "out = state_image st" and "out \<noteq> []" and "length out \<le> kMaxSnapshotBytes"
proof -
  let ?w = "make_writer kMaxSnapshotBytes"
  have ok: "writer_ok (write_state st ?w)" and out: "out = bw_buffer (write_state st ?w)"
    using assms by (auto simp: serialize_state_def Let_def split: if_splits)
  then show image: "out = state_image st"
    using emitsD(2) [OF state_written ok] by (simp add: make_writer_def)
  have some: "state_image st \<noteq> []"
    by (simp add: state_image_def le_bytes_def)
  then show "out \<noteq> []" by (simp add: image)
  show "length out \<le> kMaxSnapshotBytes"
    using emitsD(4) [OF state_written ok some] by (simp add: image make_writer_def)
qed

lemma deserialize_image:
  assumes "restorable config st" and "length (state_image st) \<le> kMaxSnapshotBytes"
  shows "deserialize_state (state_image st) config = Inr (restored config st)"
proof -
  let ?new = "\<lparr>fb_config = config, fb_now = fb_now st, fb_policy = fb_policy st, fb_jobs = [],
       fb_stats = empty_stats, fb_next_job_id = fb_next_job_id st\<rparr>"
  have table: "wf_table (fb_jobs st)" "\<forall>(k, job) \<in> set (fb_jobs st). js_id job = k"
    "\<forall>job \<in> set (written_jobs st). job_good job"
    using assms(1) written_jobs_sorted(2) [of st] by (fastforce simp: restorable_def)+
  note order = written_jobs_sorted [OF table(1,2)]
  have count: "length (written_jobs st) = length (fb_jobs st)"
    using arg_cong [OF order(1), of length] by (simp add: keys_def)
  have asc: "ascending (map js_id (written_jobs st))"
    using table(1) by (simp add: order(1) ascending_def strict_sorted_iff wf_table_def)
  have run: "runs job_entry_ok add_job (?new, 0) (written_jobs st)"
    "fst (foldl add_job (?new, 0) (written_jobs st)) = restored config st"
    using jobs_run [of "written_jobs st" ?new 0] table(3) asc by (simp_all add: restored_def)
  obtain previous where jobs: "read_fold (length (written_jobs st)) read_job_entry (?new, 0)
      (concat (map job_image (written_jobs st)) @ rest) = Inr ((restored config st, previous), rest)" for rest
    using read_fold_image [OF job_entry_read run(1)] run(2)
    by (metis prod.collapse)
  have limit: "length (fb_jobs st) \<le> unat (cf_max_jobs config)" "unat (cf_max_jobs config) < 2 ^ 32"
    using assms(1) unsigned_less [of "cf_max_jobs config"] by (simp_all add: restorable_def)
  have "read_state config (state_image st) = Inr (restored config st, [])"
    using assms(1) limit jobs [of "le_bytes 4 kStateTrailer", unfolded count]
    by (simp add: read_state_def state_image_def restorable_def reading policies.read_image
        read_then_app [of _ _ "[]", simplified] read_words(3) [of _ "[]", simplified])
  moreover have "state_image st \<noteq> []"
    by (simp add: state_image_def le_bytes_def)
  ultimately show ?thesis
    using assms(2) by (simp add: deserialize_state_def expect_end_def)
qed

end
