(* ===== verification/Sizes.thy ===== *)
theory Sizes
  imports Restore
begin

text \<open>
  When a snapshot can be written: the number of bytes of every record of
  \<^verbatim>\<open>src/fabric_state.cpp\<close>, and that a state whose records add up to no more than the limit of
  a snapshot is written without an error.
\<close>

section \<open>Room for a run of writes\<close>

named_theorems rooming \<open>the room a writing function needs\<close>

definition room :: "(writer \<Rightarrow> writer) \<Rightarrow> nat \<Rightarrow> bool" where
  "room f n \<longleftrightarrow> (\<forall>w. writer_ok w \<and> length (bw_buffer w) + n \<le> bw_limit w \<longrightarrow>
     writer_ok (f w) \<and> length (bw_buffer (f w)) = length (bw_buffer w) + n \<and> bw_limit (f w) = bw_limit w)"

lemma room_eq: "room f m \<Longrightarrow> m = n \<Longrightarrow> room f n"
  by simp

lemma room_reserved: "length bs = n \<Longrightarrow> room (put_reserved n bs) n"
  by (simp add: room_def put_reserved_room writer_ok_def)

lemma room_two: "room f m \<Longrightarrow> room g n \<Longrightarrow> room (\<lambda>w. g (f w)) (m + n)"
  by (simp add: room_def)

lemma room_nil [rooming]: "room (writes []) 0"
  by (simp add: room_def)

lemma room_cons [rooming]: "room f m \<Longrightarrow> room (writes fs) n \<Longrightarrow> room (writes (f # fs)) (m + n)"
  using room_two [of f m "writes fs" n] by (simp add: writes_def)

lemma room_words [rooming]:
  "room (put_u8 a) 1" "room (put_u16 b) 2" "room (put_u32 c) 4" "room (put_u64 d) 8" "room (put_bool x) 1"
  by (simp_all add: put_u8_def put_u16_def put_u32_def put_u64_def put_bool_def room_reserved)

lemma room_byte: "room (put_u8 b) (Suc 0)"
  using room_words(1) by simp

lemma room_string:
  assumes "text_ok t"
  shows "room (put_string t) (4 + length t)"
proof -
  have "put_string t = (\<lambda>w. put_bytes t (put_u32 (of_nat (length t)) w))"
    using assms by (auto simp: put_string_def text_ok_def validate_text_def fun_eq_iff split: if_splits)
  then show ?thesis
    using room_two [OF room_words(3) room_reserved [of t "length t"]] by (simp add: put_bytes_def)
qed

lemma room_map: "\<forall>x \<in> set xs. room (f x) (n x) \<Longrightarrow> room (writes (map f xs)) (\<Sum>x\<leftarrow>xs. n x)"
  by (induction xs) (auto intro: room_nil room_cons simp del: writes.simps)

lemma room_map_const: "\<forall>x \<in> set xs. room (f x) n \<Longrightarrow> room (writes (map f xs)) (n * length xs)"
  using room_map [of xs f "\<lambda>_. n"] by (simp add: sum_list_triv mult.commute)

lemma room_fits: "room f n \<Longrightarrow> n \<le> limit \<Longrightarrow> writer_ok (f (make_writer limit))"
  by (auto simp: room_def make_writer_def writer_ok_def)

section \<open>The size of every record\<close>

lemma room_contract:
  "text_ok (wc_name c) \<Longrightarrow> room (write_contract c) (49 + length (wc_name c))"
  unfolding write_contract_def by (rule room_eq, (rule rooming room_string | assumption)+) simp

lemma room_accounting: "room (write_accounting is_open a) 81"
  unfolding write_accounting_def by (rule room_eq, (rule rooming)+) simp

lemma room_fence: "room (write_fence f) 74"
  unfolding write_fence_def by (rule room_eq, (rule rooming)+) simp

lemma room_fences: "room (write_fences fs n) (12 + 74 * length fs)"
  unfolding write_fences_def by (rule room_eq, (rule rooming room_map_const ballI room_fence)+) simp

lemma room_phase: "text_ok (ps_hint (pr_spec p)) \<Longrightarrow> room (write_phase p) (55 + length (ps_hint (pr_spec p)))"
  unfolding write_phase_def by (rule room_eq, (rule rooming room_string | assumption)+) simp

lemma room_phase_accounting: "room (write_phase_accounting a) 40"
  unfolding write_phase_accounting_def by (rule room_eq, (rule rooming)+) simp

definition entry_size :: "phase_record \<times> phase_accounting \<Rightarrow> nat" where
  "entry_size e = 95 + length (ps_hint (pr_spec (fst e)))"

lemma room_entry: "text_ok (ps_hint (pr_spec (fst e))) \<Longrightarrow> room (write_phase_entry e) (entry_size e)"
  unfolding write_phase_entry_def entry_size_def
  by (rule room_eq, (rule rooming room_phase room_phase_accounting | assumption)+) simp

lemma room_burst: "text_ok (bs_reason b) \<Longrightarrow> room (write_burst b) (53 + length (bs_reason b))"
  unfolding write_burst_def by (rule room_eq, (rule rooming room_string | assumption)+) simp

definition step_size :: "step_state \<Rightarrow> nat" where
  "step_size s = 154 + (\<Sum>e\<leftarrow>written_phases s. entry_size e) + 74 * length (ss_fences s) +
     (case ss_burst s of None \<Rightarrow> 1 | Some b \<Rightarrow> 54 + length (bs_reason b))"

lemma room_open_step:
  assumes "step_good job s"
  shows "room (write_open_step s) (step_size s)"
proof -
  have phases: "room (writes (map write_phase_entry (written_phases s))) (\<Sum>e\<leftarrow>written_phases s. entry_size e)"
    using assms by (intro room_map ballI room_entry) (auto simp: step_good_def entry_good_def)
  have burst: "room (case ss_burst s of None \<Rightarrow> put_u8 0 | Some b \<Rightarrow> writes [put_u8 1, write_burst b])
      (case ss_burst s of None \<Rightarrow> 1 | Some b \<Rightarrow> 54 + length (bs_reason b))"
    using assms room_cons [OF room_words(1) room_cons [OF room_burst room_nil], of _ 1]
    by (auto simp: step_good_def room_byte split: option.splits)
  show ?thesis
    unfolding write_open_step_def
    by (rule room_eq, (rule rooming phases burst room_accounting room_fences)+) (simp add: step_size_def)
qed

lemma room_summary: "room (write_summary p) 71"
  unfolding write_summary_def by (rule room_eq, (rule rooming)+) simp

definition report_size :: "step_report \<Rightarrow> nat" where
  "report_size r = 130 + 71 * length (rp_phases r) + 74 * length (rp_fences r)"

lemma room_report: "room (write_report r) (report_size r)"
  unfolding write_report_def report_size_def
  by (rule room_eq, (rule rooming room_map_const ballI room_summary room_accounting room_fences)+) simp

lemma room_spec: "room (write_spec s) 33"
  unfolding write_spec_def by (rule room_eq, (rule rooming)+) simp

lemma room_class: "room (write_class c) 1"
  unfolding write_class_def by (rule room_eq, (rule rooming)+) simp

definition policy_size :: "policy_document \<Rightarrow> nat" where
  "policy_size p = 43 + length (pd_phase_class_map p) + 33 * length (pd_classes p)"

lemma room_policy: "room (write_policy p) (policy_size p)"
  unfolding write_policy_def policy_size_def
  by (rule room_eq, (rule rooming room_map_const ballI room_spec room_class)+) simp

lemma room_parts:
  "text_ok (pg_name g) \<Longrightarrow> room (write_group g) (17 + length (pg_name g))"
  "text_ok (lc_source l) \<Longrightarrow> room (write_link l) (29 + length (lc_source l))"
  "room (write_retired r) 34"
  unfolding write_group_def write_link_def write_retired_def
  by (rule room_eq, (rule rooming room_string | assumption)+, simp)+

definition job_size :: "job_state \<Rightarrow> nat" where
  "job_size j = 183 + length (js_name j) + length (wc_name (js_contract j)) +
     (\<Sum>g\<leftarrow>written_groups j. 17 + length (pg_name g)) +
     (\<Sum>l\<leftarrow>te_links (js_topology j). 29 + length (lc_source l)) + 34 * length (js_retired_incarnations j) +
     (case js_step j of None \<Rightarrow> 1 | Some s \<Rightarrow> step_size s) + (\<Sum>r\<leftarrow>js_history j. report_size r)"

lemma room_job:
  assumes "job_good j"
  shows "room (write_job j) (job_size j)"
proof -
  have texts: "text_ok (js_name j)" "text_ok (wc_name (js_contract j))"
    using assms by (auto simp: job_good_def contract_text)
  have groups: "room (writes (map write_group (written_groups j))) (\<Sum>g\<leftarrow>written_groups j. 17 + length (pg_name g))"
    using assms by (intro room_map ballI room_parts)
      (auto simp: job_good_def groups_good_def group_validate_def group_validate_limits_def text_ok_def)
  have links: "room (writes (map write_link (te_links (js_topology j)))) (\<Sum>l\<leftarrow>te_links (js_topology j). 29 + length (lc_source l))"
    using assms by (intro room_map ballI room_parts) (auto simp: job_good_def topology_good_def)
  have reports: "room (writes (map write_report (js_history j))) (\<Sum>r\<leftarrow>js_history j. report_size r)"
    by (intro room_map ballI room_report)
  have step: "room (case js_step j of None \<Rightarrow> put_u8 0 | Some s \<Rightarrow> write_open_step s)
      (case js_step j of None \<Rightarrow> 1 | Some s \<Rightarrow> step_size s)"
    using assms room_open_step by (auto simp: job_good_def room_byte split: option.splits)
  show ?thesis
    unfolding write_job_def
    by (rule room_eq, (rule rooming room_string texts room_contract groups links reports step room_map_const ballI
          room_parts(3))+)
      (simp add: job_size_def)
qed

definition state_size :: "fabric_state \<Rightarrow> nat" where
  "state_size st = 32 + policy_size (fb_policy st) + (\<Sum>j\<leftarrow>written_jobs st. job_size j)"

lemma serialized:
  assumes "restorable config st" and "state_size st \<le> kMaxSnapshotBytes"
  shows "serialize_state st = Inr (state_image st)"
proof -
  have "\<forall>j \<in> set (written_jobs st). job_good j"
    using assms(1) written_jobs_sorted(2) [of st] by (fastforce simp: restorable_def)
  then have jobs: "room (writes (map write_job (written_jobs st))) (\<Sum>j\<leftarrow>written_jobs st. job_size j)"
    by (intro room_map ballI room_job) blast
  have "room (write_state st) (state_size st)"
    unfolding write_state_def
    by (rule room_eq, (rule rooming room_policy jobs)+) (simp add: state_size_def)
  from room_fits [OF this assms(2)] have "\<exists>out. serialize_state st = Inr out"
    by (simp add: serialize_state_def Let_def)
  then show ?thesis using serialized_image(1) by fastforce
qed

text \<open>
  C26: a snapshot is read back as the durable part of the state it was taken of. A state that
  is restorable and whose records add up to no more than the limit is written without an
  error; what was written, read under the configuration, has the same clock, policy, jobs,
  groups, topology, contracts, generations, fences, reports and allocators and of an open
  step its phases with what they completed, and none of the flows, decisions, receipts and
  utilisation of the session.
\<close>

theorem snapshot_roundtrip:
  assumes "restorable config st" and "state_size st \<le> kMaxSnapshotBytes"
  shows "\<exists>out. serialize_state st = Inr out \<and> deserialize_state out config = Inr (restored config st)"
  using serialized [OF assms] deserialize_image [OF assms(1)] serialized_image by blast

end
