(* ===== verification/Blocks.thy ===== *)
theory Blocks
  imports Wire Sizes
begin

text \<open>
  The block codecs of \<^verbatim>\<open>src/wire.cpp\<close>: the records that requests and responses carry inside a
  field. Every encoder runs on a writer of its own with a fixed limit; every decoder asks for the
  end of the block and validates what it read. Records written by the same statements as in a
  snapshot (fences, phase summaries, policies) share the writing function of \<open>Snapshot\<close>.
\<close>

section \<open>Encoders and decoders of a block\<close>

text \<open>\<^verbatim>\<open>ByteWriter writer(limit); ...; if (!writer.ok()) return writer.status(); out = writer.buffer();\<close>\<close>

definition encode_block :: "nat \<Rightarrow> (writer \<Rightarrow> writer) \<Rightarrow> bytes result" where
  "encode_block limit f =
     (let w = f (make_writer limit) in if \<not> writer_ok w then Inl (bw_error w) else Inr (bw_buffer w))"

text \<open>The reader, the end of the block, and the checks of the whole record.\<close>

definition decode_block :: "'a reader \<Rightarrow> ('a \<Rightarrow> status) \<Rightarrow> bytes \<Rightarrow> 'a result" where
  "decode_block r validate bs =
     rbind (r bs) (\<lambda>(x, rest). rbind (expect_end rest) (\<lambda>_. rbind (validate x) (\<lambda>_. Inr x)))"

definition no_check :: "'a \<Rightarrow> status" where
  "no_check x = Inr ()"

definition read_u8_enum :: "nat \<Rightarrow> nat reader" where
  "read_u8_enum max_value =
     read_then read_u8 (\<lambda>raw. demand (\<not> unat raw > max_value) EC_BadEncoding (give (unat raw)))"

text \<open>The casts from the value read; the bound that was checked is the last enumerator.\<close>

definition criticalities :: "sync_criticality list" where
  "criticalities = [SyncUnknown, SyncBestEffort, SyncSoft, SyncHard]"

definition dispositions :: "phase_disposition list" where
  "dispositions = [PhaseOpen, PhaseCompleted, PhaseCancelled, PhaseFenced]"

definition labels :: "evidence_label list" where
  "labels = [EvUnsupported, EvSynthetic, EvReal]"

definition outcomes :: "decision_outcome list" where
  "outcomes = [Admit, Defer, Reject, Revalidate, Throttle]"

primrec decision_outcome_raw :: "decision_outcome \<Rightarrow> nat" where
  "decision_outcome_raw Admit = 0"
| "decision_outcome_raw Defer = 1"
| "decision_outcome_raw Reject = 2"
| "decision_outcome_raw Revalidate = 3"
| "decision_outcome_raw Throttle = 4"

section \<open>Parts that several blocks share\<close>

definition write_clause :: "explanation_clause \<Rightarrow> writer \<Rightarrow> writer" where
  "write_clause c = writes [put_u16 (explanation_raw (clause_code c)), put_string (clause_detail c)]"

definition write_explanation :: "explanation \<Rightarrow> writer \<Rightarrow> writer" where
  "write_explanation e = writes [put_u32 (of_nat (length e)), writes (map write_clause e)]"

definition read_clause :: "explanation_clause reader" where
  "read_clause = read_then read_u16 (\<lambda>code. read_then (read_string kMaxStringBytes) (\<lambda>detail.
     give (Clause (ExplanationCode code) detail)))"

definition read_explanation :: "explanation reader" where
  "read_explanation = read_then (read_count 64) (\<lambda>n. read_many (unat n) read_clause)"

definition wire_write_fence :: "fence_event \<Rightarrow> writer \<Rightarrow> writer" where
  "wire_write_fence = write_fence"

definition wire_read_fence :: "fence_event reader" where
  "wire_read_fence = read_fence"

definition write_phase_summary :: "phase_summary \<Rightarrow> writer \<Rightarrow> writer" where
  "write_phase_summary = write_summary"

definition read_phase_summary :: "phase_summary reader" where
  "read_phase_summary =
     read_then read_u64 (\<lambda>ident. read_then (read_u8_enum (kPhaseClassCount - 1)) (\<lambda>cls. read_then read_u64 (\<lambda>g.
     read_then (read_u8_enum (sync_criticality_raw SyncHard)) (\<lambda>criticality.
     read_then (read_u8_enum (phase_disposition_raw PhaseFenced)) (\<lambda>disposition.
     read_then read_u64 (\<lambda>opened. read_then read_u64 (\<lambda>closed. read_then read_u32 (\<lambda>admitted.
     read_then read_u32 (\<lambda>deferred. read_then read_u32 (\<lambda>rejected. read_then read_u32 (\<lambda>completed.
     read_then read_u32 (\<lambda>cancelled. read_then read_u64 (\<lambda>committed. read_then read_u64 (\<lambda>bytes_completed.
     demand (\<not> bytes_completed > committed) EC_BadEncoding (
     give \<lparr>su_id = ident, su_cls = phase_classes ! cls, su_group = g, su_criticality = criticalities ! criticality,
       su_disposition = dispositions ! disposition, su_opened_at = opened, su_closed_at = closed,
       su_admitted = admitted, su_deferred = deferred, su_rejected = rejected,
       su_completed = completed, su_cancelled = cancelled, su_bytes_committed = committed,
       su_bytes_completed = bytes_completed\<rparr>)))))))))))))))"

text \<open>The step an accounting belongs to is not written: it is read back as unset.\<close>

definition wire_write_accounting :: "step_accounting \<Rightarrow> writer \<Rightarrow> writer" where
  "wire_write_accounting a = writes
     [put_u32 (sa_admitted a), put_u32 (sa_deferred a), put_u32 (sa_rejected a), put_u32 (sa_throttled a),
      put_u32 (sa_completed a), put_u32 (sa_cancelled a), put_u32 (sa_fenced a), put_u32 (sa_active_flows a),
      put_u64 (sa_bytes_requested a), put_u64 (sa_bytes_committed a), put_u64 (sa_bytes_completed a),
      put_u64 (sa_bytes_cancelled a), put_u64 (sa_granted_min_bps a), put_u64 (sa_active_min_bps a),
      put_bool (sa_closed a)]"

definition wire_read_accounting :: "step_accounting reader" where
  "wire_read_accounting =
     read_then read_u32 (\<lambda>admitted. read_then read_u32 (\<lambda>deferred. read_then read_u32 (\<lambda>rejected.
     read_then read_u32 (\<lambda>throttled. read_then read_u32 (\<lambda>completed. read_then read_u32 (\<lambda>cancelled.
     read_then read_u32 (\<lambda>fenced. read_then read_u32 (\<lambda>active_flows. read_then read_u64 (\<lambda>requested.
     read_then read_u64 (\<lambda>committed. read_then read_u64 (\<lambda>bytes_completed.
     read_then read_u64 (\<lambda>bytes_cancelled. read_then read_u64 (\<lambda>granted_min. read_then read_u64 (\<lambda>active_min.
     read_then read_bool (\<lambda>closed.
     demand (\<not> bytes_completed + bytes_cancelled > committed) EC_BadEncoding (
     give \<lparr>sa_step = 0, sa_admitted = admitted, sa_deferred = deferred, sa_rejected = rejected,
       sa_throttled = throttled, sa_completed = completed, sa_cancelled = cancelled,
       sa_fenced = fenced, sa_active_flows = active_flows, sa_bytes_requested = requested,
       sa_bytes_committed = committed, sa_bytes_completed = bytes_completed,
       sa_bytes_cancelled = bytes_cancelled, sa_granted_min_bps = granted_min,
       sa_active_min_bps = active_min, sa_closed = closed\<rparr>))))))))))))))))"

definition put_token :: "authority_token \<Rightarrow> writer \<Rightarrow> writer" where
  "put_token t = writes
     [put_u64 (at_job t), put_u64 (at_job_generation t), put_u64 (at_incarnation t), put_u64 (boot_hi (at_boot t)),
      put_u64 (boot_lo (at_boot t)), put_u64 (at_session t), put_u64 (at_epoch t),
      put_u64 (at_contract_generation t), put_u64 (at_topology_generation t), put_u64 (at_policy_generation t),
      put_u64 (at_step t), put_u64 (at_phase t), put_u64 (at_sequence t), put_u64 (at_nonce t)]"

definition read_token :: "authority_token reader" where
  "read_token =
     read_then read_u64 (\<lambda>job. read_then read_u64 (\<lambda>generation. read_then read_u64 (\<lambda>incarnation.
     read_then read_u64 (\<lambda>hi. read_then read_u64 (\<lambda>lo. read_then read_u64 (\<lambda>session.
     read_then read_u64 (\<lambda>epoch. read_then read_u64 (\<lambda>contract. read_then read_u64 (\<lambda>topology.
     read_then read_u64 (\<lambda>policy. read_then read_u64 (\<lambda>step. read_then read_u64 (\<lambda>phase.
     read_then read_u64 (\<lambda>sequence. read_then read_u64 (\<lambda>nonce.
     give \<lparr>at_job = job, at_job_generation = generation, at_incarnation = incarnation, at_boot = BootId hi lo,
       at_session = session, at_epoch = epoch, at_contract_generation = contract,
       at_topology_generation = topology, at_policy_generation = policy, at_step = step, at_phase = phase,
       at_sequence = sequence, at_nonce = nonce\<rparr>))))))))))))))"

section \<open>Blocks of requests\<close>

definition encode_token_block :: "authority_token \<Rightarrow> bytes result" where
  "encode_token_block t = encode_block 160 (put_token t)"

definition decode_token_block :: "bytes \<Rightarrow> authority_token result" where
  "decode_token_block = decode_block read_token no_check"

definition put_contract :: "workload_contract \<Rightarrow> writer \<Rightarrow> writer" where
  "put_contract c = writes
     [put_u64 (wc_job c), put_u64 (wc_generation c), put_string (wc_name c), put_u32 (wc_max_parallelism_groups c),
      put_u32 (wc_max_phases_per_step c), put_u32 (wc_max_intents_per_step c),
      put_u32 (wc_max_active_flows_per_step c), put_u64 (wc_max_bytes_per_step c),
      put_u64 (wc_max_bytes_per_intent c), put_u32 (wc_history_steps c), put_bool (wc_allow_unknown_phase c)]"

definition encode_contract_block :: "workload_contract \<Rightarrow> bytes result" where
  "encode_contract_block c = encode_block 320 (put_contract c)"

definition read_contract_record :: "workload_contract reader" where
  "read_contract_record =
     read_then read_u64 (\<lambda>job. read_then read_u64 (\<lambda>generation. read_then (read_string kMaxStringBytes) (\<lambda>name.
     read_then read_u32 (\<lambda>groups. read_then read_u32 (\<lambda>phases. read_then read_u32 (\<lambda>intents.
     read_then read_u32 (\<lambda>flows. read_then read_u64 (\<lambda>step_bytes. read_then read_u64 (\<lambda>intent_bytes.
     read_then read_u32 (\<lambda>history. read_then read_bool (\<lambda>unknown.
     give \<lparr>wc_job = job, wc_generation = generation, wc_name = name,
          wc_max_parallelism_groups = groups, wc_max_phases_per_step = phases,
          wc_max_intents_per_step = intents, wc_max_active_flows_per_step = flows,
          wc_max_bytes_per_step = step_bytes, wc_max_bytes_per_intent = intent_bytes,
          wc_history_steps = history, wc_allow_unknown_phase = unknown\<rparr>)))))))))))"

definition decode_contract_block :: "bytes \<Rightarrow> workload_contract result" where
  "decode_contract_block = decode_block read_contract_record contract_validate_limits"

definition put_group :: "parallelism_group \<Rightarrow> writer \<Rightarrow> writer" where
  "put_group g = writes
     [put_u64 (pg_id g), put_u64 (pg_job g), put_u8 (of_nat (parallelism_kind_raw (pg_kind g))),
      put_u32 (pg_member_count g), put_string (pg_name g)]"

definition encode_group_block :: "parallelism_group \<Rightarrow> bytes result" where
  "encode_group_block g = encode_block 320 (put_group g)"

definition read_group_record :: "parallelism_group reader" where
  "read_group_record =
     read_then read_u64 (\<lambda>ident. read_then read_u64 (\<lambda>job.
     read_then (read_u8_enum (parallelism_kind_raw PK_OptimizerShard)) (\<lambda>kind. read_then read_u32 (\<lambda>members.
     read_then (read_string kMaxStringBytes) (\<lambda>name.
     give \<lparr>pg_id = ident, pg_job = job, pg_kind = parallelism_kinds ! kind, pg_member_count = members,
       pg_name = name\<rparr>)))))"

definition decode_group_block :: "bytes \<Rightarrow> parallelism_group result" where
  "decode_group_block = decode_block read_group_record group_validate_limits"

definition put_link :: "link_capacity \<Rightarrow> writer \<Rightarrow> writer" where
  "put_link l = writes
     [put_u64 (lc_group l), put_u64 (lc_capacity_bps l), put_u64 (lc_reserved_bps l),
      put_u8 (of_nat (evidence_label_raw (lc_label l))), put_string (lc_source l)]"

definition put_topology :: "topology_evidence \<Rightarrow> writer \<Rightarrow> writer" where
  "put_topology t = writes
     [put_u64 (te_generation t), put_u64 (te_job t), put_u8 (of_nat (evidence_label_raw (te_label t))),
      put_u32 (of_nat (length (te_links t))), writes (map put_link (te_links t))]"

definition encode_topology_block :: "topology_evidence \<Rightarrow> bytes result" where
  "encode_topology_block t = encode_block 1024 (put_topology t)"

definition read_next_link :: "link_capacity list \<Rightarrow> link_capacity list reader" where
  "read_next_link links =
     read_then read_u64 (\<lambda>g. read_then read_u64 (\<lambda>capacity. read_then read_u64 (\<lambda>reserved.
     read_then (read_u8_enum (evidence_label_raw EvReal)) (\<lambda>label.
     read_then (read_string kMaxStringBytes) (\<lambda>source.
     demand (\<not> (links \<noteq> [] \<and> lc_group (last links) \<ge> g)) EC_BadEncoding (
     give (links @ [\<lparr>lc_group = g, lc_capacity_bps = capacity, lc_reserved_bps = reserved,
       lc_label = labels ! label, lc_source = source\<rparr>])))))))"

definition read_topology_record :: "topology_evidence reader" where
  "read_topology_record =
     read_then read_u64 (\<lambda>generation. read_then read_u64 (\<lambda>job.
     read_then (read_u8_enum (evidence_label_raw EvReal)) (\<lambda>label.
     read_then (read_count kMaxCollectionItems) (\<lambda>n. read_then (read_fold (unat n) read_next_link []) (\<lambda>links.
     give \<lparr>te_generation = generation, te_job = job, te_label = labels ! label, te_links = links\<rparr>)))))"

definition decode_topology_block :: "bytes \<Rightarrow> topology_evidence result" where
  "decode_topology_block = decode_block read_topology_record validate_links"

definition encode_policy_block :: "policy_document \<Rightarrow> bytes result" where
  "encode_policy_block p = encode_block 2048 (write_policy p)"

definition read_class_spec :: "service_class_spec reader" where
  "read_class_spec =
     read_then (read_u8_enum (kServiceClassCount - 1)) (\<lambda>cls. read_then read_u8 (\<lambda>priority.
     read_then read_u32 (\<lambda>weight. read_then read_u64 (\<lambda>flr. read_then read_u64 (\<lambda>ceil.
     read_then read_u64 (\<lambda>isolation. read_then read_bool (\<lambda>preemptible. read_then read_bool (\<lambda>barrier.
     read_then read_bool (\<lambda>deferrable.
     give \<lparr>scs_cls = service_classes ! cls, scs_priority = priority, scs_weight = weight, scs_floor_bps = flr,
       scs_ceiling_bps = ceil, scs_isolation_ceiling_bps = isolation, scs_preemptible = preemptible,
       scs_barrier_critical = barrier, scs_deferrable = deferrable\<rparr>)))))))))"

definition read_policy_record :: "policy_document reader" where
  "read_policy_record =
     read_then read_u64 (\<lambda>generation.
     read_then (read_many kPhaseClassCount (read_u8_enum (kServiceClassCount - 1))) (\<lambda>class_map.
     read_then (read_count kServiceClassCount) (\<lambda>n.
     read_then (read_many (unat n) read_class_spec) (\<lambda>specs.
     read_then read_u64 (\<lambda>ceil. read_then read_u8 (\<lambda>isolation. read_then read_bool (\<lambda>strict.
     read_then read_bool (\<lambda>preemption. read_then read_u32 (\<lambda>flows. read_then read_u32 (\<lambda>history.
     read_then read_u32 (\<lambda>clauses. read_then read_u64 (\<lambda>backoff.
     give \<lparr>pd_generation = generation, pd_phase_class_map = map ((!) service_classes) class_map,
          pd_classes = specs,
          pd_unknown_phase_ceiling_bps = ceil, pd_checkpoint_isolation_priority = isolation,
          pd_strict_generation_invalidation = strict, pd_allow_preemption = preemption,
          pd_max_active_flows_per_step = flows, pd_max_history_steps = history,
          pd_max_explanation_clauses = clauses, pd_defer_backoff_ticks = backoff\<rparr>))))))))))))"

definition decode_policy_block :: "bytes \<Rightarrow> policy_document result" where
  "decode_policy_block = decode_block read_policy_record policy_validate"

definition put_phase_spec :: "phase_spec \<Rightarrow> writer \<Rightarrow> writer" where
  "put_phase_spec s = writes
     [put_u8 (of_nat (phase_class_raw (ps_cls s))), put_u64 (ps_group s),
      put_u8 (of_nat (sync_criticality_raw (ps_criticality s))), put_u64 (sd_deadline_at (ps_deadline s)),
      put_u64 (sd_slack_ticks (ps_deadline s)), put_string (ps_hint s)]"

definition encode_phase_spec_block :: "phase_spec \<Rightarrow> bytes result" where
  "encode_phase_spec_block s = encode_block 384 (put_phase_spec s)"

definition read_phase_spec :: "phase_spec reader" where
  "read_phase_spec =
     read_then (read_u8_enum (kPhaseClassCount - 1)) (\<lambda>cls. read_then read_u64 (\<lambda>g.
     read_then (read_u8_enum (sync_criticality_raw SyncHard)) (\<lambda>criticality.
     read_then read_u64 (\<lambda>deadline. read_then read_u64 (\<lambda>slack. read_then (read_string kMaxStringBytes) (\<lambda>hint.
     give \<lparr>ps_cls = phase_classes ! cls, ps_group = g, ps_criticality = criticalities ! criticality,
       ps_deadline = \<lparr>sd_deadline_at = deadline, sd_slack_ticks = slack\<rparr>, ps_hint = hint\<rparr>))))))"

definition decode_phase_spec_block :: "bytes \<Rightarrow> phase_spec result" where
  "decode_phase_spec_block = decode_block read_phase_spec phase_spec_validate"

definition put_intent :: "traffic_intent \<Rightarrow> writer \<Rightarrow> writer" where
  "put_intent i = writes
     [put_token (ti_authority i), put_u64 (ti_group i), put_u8 (of_nat (phase_class_raw (ti_declared_phase_class i))),
      put_string (ti_purpose i), put_u64 (ti_min_bps i), put_u64 (ti_max_bps i), put_u64 (ti_bytes_estimate i),
      put_u32 (ti_participants i), put_bool (ti_barrier_participant i), put_bool (ti_preemptible i),
      put_bool (ti_allow_defer i)]"

definition encode_intent_block :: "traffic_intent \<Rightarrow> bytes result" where
  "encode_intent_block i = encode_block 512 (put_intent i)"

definition read_intent :: "traffic_intent reader" where
  "read_intent =
     read_then read_token (\<lambda>token. read_then read_u64 (\<lambda>g. read_then (read_u8_enum (kPhaseClassCount - 1)) (\<lambda>cls.
     read_then (read_string kMaxStringBytes) (\<lambda>purpose. read_then read_u64 (\<lambda>min_bps.
     read_then read_u64 (\<lambda>max_bps. read_then read_u64 (\<lambda>estimate. read_then read_u32 (\<lambda>participants.
     read_then read_bool (\<lambda>barrier. read_then read_bool (\<lambda>preemptible. read_then read_bool (\<lambda>may_defer.
     give \<lparr>ti_authority = token, ti_group = g, ti_declared_phase_class = phase_classes ! cls, ti_purpose = purpose,
       ti_min_bps = min_bps, ti_max_bps = max_bps, ti_bytes_estimate = estimate, ti_participants = participants,
       ti_barrier_participant = barrier, ti_preemptible = preemptible, ti_allow_defer = may_defer\<rparr>)))))))))))"

definition decode_intent_block :: "bytes \<Rightarrow> traffic_intent result" where
  "decode_intent_block = decode_block read_intent intent_validate"

section \<open>Blocks of responses\<close>

definition put_decision :: "traffic_decision \<Rightarrow> writer \<Rightarrow> writer" where
  "put_decision d = writes
     [put_token (td_authority d), put_u64 (td_intent d), put_u64 (td_group d), put_u64 (td_phase d),
      put_u8 (of_nat (phase_class_raw (td_phase_class d))), put_u64 (td_contract_generation d),
      put_u64 (td_topology_generation d), put_u64 (td_policy_generation d),
      put_u8 (of_nat (decision_outcome_raw (td_outcome d))), put_u16 (error_raw (td_reason d)),
      put_u8 (of_nat (service_class_raw (td_service_class d))), put_u8 (td_effective_priority d),
      put_u64 (td_granted_min_bps d), put_u64 (td_granted_max_bps d), put_u64 (td_bytes_estimate d),
      put_u64 (td_issued_at d), put_u64 (td_defer_until d), put_bool (td_isolated d),
      put_bool (td_invalidated d), put_u64 (td_burst d), put_u8 (of_nat (evidence_label_raw (td_evidence d))),
      write_explanation (td_explanation d)]"

definition encode_decision_block :: "traffic_decision \<Rightarrow> bytes result" where
  "encode_decision_block d = encode_block 1024 (put_decision d)"

definition read_decision :: "traffic_decision reader" where
  "read_decision =
     read_then read_token (\<lambda>token. read_then read_u64 (\<lambda>intent. read_then read_u64 (\<lambda>g. read_then read_u64 (\<lambda>phase.
     read_then (read_u8_enum (kPhaseClassCount - 1)) (\<lambda>cls. read_then read_u64 (\<lambda>contract.
     read_then read_u64 (\<lambda>topology. read_then read_u64 (\<lambda>policy.
     read_then (read_u8_enum (decision_outcome_raw Throttle)) (\<lambda>outcome. read_then read_u16 (\<lambda>reason.
     read_then (read_u8_enum (kServiceClassCount - 1)) (\<lambda>service. read_then read_u8 (\<lambda>priority.
     read_then read_u64 (\<lambda>granted_min. read_then read_u64 (\<lambda>granted_max. read_then read_u64 (\<lambda>estimate.
     read_then read_u64 (\<lambda>issued. read_then read_u64 (\<lambda>defer_until. read_then read_bool (\<lambda>isolated.
     read_then read_bool (\<lambda>invalidated. read_then read_u64 (\<lambda>burst.
     read_then (read_u8_enum (evidence_label_raw EvReal)) (\<lambda>evidence. read_then read_explanation (\<lambda>explanation.
     give \<lparr>td_intent = intent, td_authority = token, td_group = g, td_phase = phase,
       td_phase_class = phase_classes ! cls, td_contract_generation = contract, td_topology_generation = topology,
       td_policy_generation = policy, td_outcome = outcomes ! outcome, td_reason = ErrorCode reason,
       td_service_class = service_classes ! service, td_effective_priority = priority,
       td_granted_min_bps = granted_min, td_granted_max_bps = granted_max, td_bytes_estimate = estimate,
       td_issued_at = issued, td_defer_until = defer_until, td_isolated = isolated, td_invalidated = invalidated,
       td_burst = burst, td_evidence = labels ! evidence, td_explanation = explanation\<rparr>))))))))))))))))))))))"

definition decode_decision_block :: "bytes \<Rightarrow> traffic_decision result" where
  "decode_decision_block = decode_block read_decision
     (\<lambda>d. check (\<not> td_granted_max_bps d < td_granted_min_bps d) EC_BadEncoding)"

definition put_receipt :: "flow_receipt \<Rightarrow> writer \<Rightarrow> writer" where
  "put_receipt r = writes
     [put_u64 (fr_intent r), put_bool (fr_accepted r), put_u16 (error_raw (fr_reason r)), put_u64 (fr_at r),
      put_u64 (fr_bytes_credited r), put_u64 (fr_released_min_bps r)]"

definition encode_receipt_block :: "flow_receipt \<Rightarrow> bytes result" where
  "encode_receipt_block r = encode_block 96 (put_receipt r)"

definition read_receipt :: "flow_receipt reader" where
  "read_receipt =
     read_then read_u64 (\<lambda>intent. read_then read_bool (\<lambda>accepted. read_then read_u16 (\<lambda>reason.
     read_then read_u64 (\<lambda>at. read_then read_u64 (\<lambda>credited. read_then read_u64 (\<lambda>released.
     give \<lparr>fr_intent = intent, fr_accepted = accepted, fr_reason = ErrorCode reason, fr_at = at,
       fr_bytes_credited = credited, fr_released_min_bps = released\<rparr>))))))"

definition decode_receipt_block :: "bytes \<Rightarrow> flow_receipt result" where
  "decode_receipt_block = decode_block read_receipt no_check"

definition put_handle :: "job_handle \<Rightarrow> writer \<Rightarrow> writer" where
  "put_handle h = writes
     [put_u64 (jh_job h), put_u64 (jh_generation h), put_u64 (jh_contract_generation h), put_u64 (jh_incarnation h),
      put_u64 (jh_epoch h), put_u64 (jh_topology_generation h), put_u64 (jh_policy_generation h),
      put_u64 (boot_hi (jh_boot h)), put_u64 (boot_lo (jh_boot h)), put_u64 (jh_issued_at h)]"

definition encode_handle_block :: "job_handle \<Rightarrow> bytes result" where
  "encode_handle_block h = encode_block 144 (put_handle h)"

definition read_handle :: "job_handle reader" where
  "read_handle =
     read_then read_u64 (\<lambda>job. read_then read_u64 (\<lambda>generation. read_then read_u64 (\<lambda>contract.
     read_then read_u64 (\<lambda>incarnation. read_then read_u64 (\<lambda>epoch. read_then read_u64 (\<lambda>topology.
     read_then read_u64 (\<lambda>policy. read_then read_u64 (\<lambda>hi. read_then read_u64 (\<lambda>lo. read_then read_u64 (\<lambda>issued.
     give \<lparr>jh_job = job, jh_generation = generation, jh_contract_generation = contract, jh_incarnation = incarnation,
       jh_epoch = epoch, jh_topology_generation = topology, jh_policy_generation = policy, jh_boot = BootId hi lo,
       jh_issued_at = issued\<rparr>))))))))))"

definition decode_handle_block :: "bytes \<Rightarrow> job_handle result" where
  "decode_handle_block = decode_block read_handle no_check"

definition put_job_view :: "job_view \<Rightarrow> writer \<Rightarrow> writer" where
  "put_job_view v = writes
     [put_u64 (jv_job v), put_string (jv_name v), put_u64 (jv_generation v), put_u64 (jv_contract_generation v),
      put_u64 (jv_incarnation v), put_u64 (boot_hi (jv_boot v)), put_u64 (boot_lo (jv_boot v)), put_u64 (jv_epoch v),
      put_u64 (jv_topology_generation v), put_u8 (of_nat (evidence_label_raw (jv_topology_label v))),
      put_u64 (jv_policy_generation v), put_u64 (jv_last_closed_step v), put_u64 (jv_current_step v),
      put_bool (jv_step_active v), put_u32 (jv_group_count v), put_u32 (jv_active_flows v),
      put_u64 (jv_active_min_bps v), put_u32 (jv_retained_steps v), put_u32 (jv_retired_incarnations v),
      put_u32 (jv_group_utilized_bps_reported v), wire_write_accounting (jv_accounting v),
      put_u32 (of_nat (length (jv_open_phases v))), writes (map write_phase_summary (jv_open_phases v)),
      put_u32 (of_nat (length (jv_recent_fences v))), writes (map wire_write_fence (jv_recent_fences v))]"

definition encode_job_view_block :: "job_view \<Rightarrow> bytes result" where
  "encode_job_view_block v = encode_block 4096 (put_job_view v)"

definition read_job_view :: "job_view reader" where
  "read_job_view =
     read_then read_u64 (\<lambda>job. read_then (read_string kMaxStringBytes) (\<lambda>name. read_then read_u64 (\<lambda>generation.
     read_then read_u64 (\<lambda>contract. read_then read_u64 (\<lambda>incarnation. read_then read_u64 (\<lambda>hi.
     read_then read_u64 (\<lambda>lo. read_then read_u64 (\<lambda>epoch. read_then read_u64 (\<lambda>topology.
     read_then (read_u8_enum (evidence_label_raw EvReal)) (\<lambda>label. read_then read_u64 (\<lambda>policy.
     read_then read_u64 (\<lambda>last_closed. read_then read_u64 (\<lambda>current. read_then read_bool (\<lambda>active.
     read_then read_u32 (\<lambda>groups. read_then read_u32 (\<lambda>flows. read_then read_u64 (\<lambda>min_bps.
     read_then read_u32 (\<lambda>retained. read_then read_u32 (\<lambda>retired. read_then read_u32 (\<lambda>reported.
     read_then wire_read_accounting (\<lambda>accounting. read_then (read_count 4096) (\<lambda>n.
     read_then (read_many (unat n) read_phase_summary) (\<lambda>phases.
     read_then (read_count (unat kMaxRetainedFenceEvents)) (\<lambda>m.
     read_then (read_many (unat m) wire_read_fence) (\<lambda>fences.
     give \<lparr>jv_job = job, jv_name = name, jv_generation = generation, jv_contract_generation = contract,
       jv_incarnation = incarnation, jv_boot = BootId hi lo, jv_epoch = epoch, jv_topology_generation = topology,
       jv_topology_label = labels ! label, jv_policy_generation = policy, jv_last_closed_step = last_closed,
       jv_current_step = current, jv_step_active = active, jv_group_count = groups, jv_active_flows = flows,
       jv_active_min_bps = min_bps, jv_retained_steps = retained, jv_retired_incarnations = retired,
       jv_accounting = accounting, jv_open_phases = phases, jv_recent_fences = fences,
       jv_group_utilized_bps_reported = reported\<rparr>)))))))))))))))))))))))))"

definition decode_job_view_block :: "bytes \<Rightarrow> job_view result" where
  "decode_job_view_block = decode_block read_job_view no_check"

definition put_report :: "step_report \<Rightarrow> writer \<Rightarrow> writer" where
  "put_report r = writes
     [put_u64 (rp_job r), put_u64 (rp_job_generation r), put_u64 (rp_step r), put_u64 (rp_opened_at r),
      put_u64 (rp_closed_at r), wire_write_accounting (rp_accounting r),
      put_u32 (of_nat (length (rp_phases r))), writes (map write_phase_summary (rp_phases r)),
      put_u64 (rp_fences_observed r), put_u32 (of_nat (length (rp_fences r))),
      writes (map wire_write_fence (rp_fences r)), put_bool (rp_closed_with_cancellation r)]"

definition encode_report_block :: "step_report \<Rightarrow> bytes result" where
  "encode_report_block r = encode_block 4096 (put_report r)"

definition read_report_record :: "step_report reader" where
  "read_report_record =
     read_then read_u64 (\<lambda>job. read_then read_u64 (\<lambda>generation. read_then read_u64 (\<lambda>step.
     read_then read_u64 (\<lambda>opened. read_then read_u64 (\<lambda>closed. read_then wire_read_accounting (\<lambda>accounting.
     read_then (read_count 4096) (\<lambda>n. read_then (read_many (unat n) read_phase_summary) (\<lambda>phases.
     read_then read_u64 (\<lambda>observed. read_then (read_count (unat kMaxRetainedFenceEvents)) (\<lambda>m.
     read_then (read_many (unat m) wire_read_fence) (\<lambda>fences. read_then read_bool (\<lambda>cancelled.
     give \<lparr>rp_job = job, rp_job_generation = generation, rp_step = step, rp_opened_at = opened,
       rp_closed_at = closed, rp_accounting = accounting, rp_phases = phases, rp_fences = fences,
       rp_fences_observed = observed, rp_closed_with_cancellation = cancelled\<rparr>))))))))))))"

definition decode_report_block :: "bytes \<Rightarrow> step_report result" where
  "decode_report_block = decode_block read_report_record no_check"

definition encode_accounting_block :: "step_accounting \<Rightarrow> bytes result" where
  "encode_accounting_block a = encode_block 128 (wire_write_accounting a)"

definition decode_accounting_block :: "bytes \<Rightarrow> step_accounting result" where
  "decode_accounting_block = decode_block wire_read_accounting no_check"

definition put_utilization :: "group_utilization_entry \<Rightarrow> writer \<Rightarrow> writer" where
  "put_utilization e = writes
     [put_u64 (gu_group e), put_u64 (gu_capacity_bps e), put_u64 (gu_reserved_bps e), put_u64 (gu_utilized_bps e),
      put_u32 (gu_active_flows e), put_u8 (of_nat (evidence_label_raw (gu_label e)))]"

definition put_utilization_list :: "group_utilization_entry list \<Rightarrow> writer \<Rightarrow> writer" where
  "put_utilization_list es = writes [put_u32 (of_nat (length es)), writes (map put_utilization es)]"

definition encode_utilization_list_block :: "group_utilization_entry list \<Rightarrow> bytes result" where
  "encode_utilization_list_block es = encode_block 4096 (put_utilization_list es)"

definition read_utilization :: "group_utilization_entry reader" where
  "read_utilization =
     read_then read_u64 (\<lambda>g. read_then read_u64 (\<lambda>capacity. read_then read_u64 (\<lambda>reserved.
     read_then read_u64 (\<lambda>utilized. read_then read_u32 (\<lambda>flows.
     read_then (read_u8_enum (evidence_label_raw EvReal)) (\<lambda>label.
     demand (\<not> reserved > capacity) EC_BadEncoding (
     give \<lparr>gu_group = g, gu_capacity_bps = capacity, gu_reserved_bps = reserved, gu_utilized_bps = utilized,
       gu_active_flows = flows, gu_label = labels ! label\<rparr>)))))))"

definition read_utilization_list :: "group_utilization_entry list reader" where
  "read_utilization_list =
     read_then (read_count kMaxCollectionItems) (\<lambda>n. read_many (unat n) read_utilization)"

definition decode_utilization_list_block :: "bytes \<Rightarrow> group_utilization_entry list result" where
  "decode_utilization_list_block = decode_block read_utilization_list no_check"

definition put_pacing_decision :: "pacing_decision \<Rightarrow> writer \<Rightarrow> writer" where
  "put_pacing_decision d = writes
     [put_u8 (of_nat (decision_outcome_raw (pn_outcome d))), put_u16 (error_raw (pn_reason d)),
      put_u8 (of_nat (service_class_raw (pn_service_class d))), put_u8 (pn_effective_priority d),
      put_u32 (pn_stragglers d), put_u64 (pn_hold_until d), put_u64 (pn_evaluated_at d),
      write_explanation (pn_explanation d)]"

definition encode_pacing_decision_block :: "pacing_decision \<Rightarrow> bytes result" where
  "encode_pacing_decision_block d = encode_block 512 (put_pacing_decision d)"

definition read_pacing_decision :: "pacing_decision reader" where
  "read_pacing_decision =
     read_then (read_u8_enum (decision_outcome_raw Throttle)) (\<lambda>outcome. read_then read_u16 (\<lambda>reason.
     read_then (read_u8_enum (kServiceClassCount - 1)) (\<lambda>service. read_then read_u8 (\<lambda>priority.
     read_then read_u32 (\<lambda>stragglers. read_then read_u64 (\<lambda>hold. read_then read_u64 (\<lambda>evaluated.
     read_then read_explanation (\<lambda>explanation.
     give \<lparr>pn_outcome = outcomes ! outcome, pn_reason = ErrorCode reason,
       pn_service_class = service_classes ! service, pn_effective_priority = priority, pn_stragglers = stragglers,
       pn_hold_until = hold, pn_evaluated_at = evaluated, pn_explanation = explanation\<rparr>))))))))"

definition decode_pacing_decision_block :: "bytes \<Rightarrow> pacing_decision result" where
  "decode_pacing_decision_block = decode_block read_pacing_decision no_check"

definition put_recovery_grant :: "recovery_grant \<Rightarrow> writer \<Rightarrow> writer" where
  "put_recovery_grant g = writes
     [put_u64 (rg_job g), put_u64 (rg_job_generation g), put_u64 (rg_new_incarnation g),
      put_u64 (rg_retired_incarnation g), put_u64 (rg_resume_step_floor g), put_u64 (rg_epoch g),
      put_u64 (rg_issued_at g), put_u32 (rg_cancelled_flows g), put_u32 (rg_fenced_operations g),
      write_explanation (rg_explanation g)]"

definition encode_recovery_grant_block :: "recovery_grant \<Rightarrow> bytes result" where
  "encode_recovery_grant_block g = encode_block 512 (put_recovery_grant g)"

definition read_recovery_grant :: "recovery_grant reader" where
  "read_recovery_grant =
     read_then read_u64 (\<lambda>job. read_then read_u64 (\<lambda>generation. read_then read_u64 (\<lambda>incarnation.
     read_then read_u64 (\<lambda>retired. read_then read_u64 (\<lambda>floor_step. read_then read_u64 (\<lambda>epoch.
     read_then read_u64 (\<lambda>issued. read_then read_u32 (\<lambda>cancelled. read_then read_u32 (\<lambda>fenced.
     read_then read_explanation (\<lambda>explanation.
     give \<lparr>rg_job = job, rg_job_generation = generation, rg_new_incarnation = incarnation,
       rg_retired_incarnation = retired, rg_resume_step_floor = floor_step, rg_epoch = epoch, rg_issued_at = issued,
       rg_cancelled_flows = cancelled, rg_fenced_operations = fenced, rg_explanation = explanation\<rparr>))))))))))"

definition decode_recovery_grant_block :: "bytes \<Rightarrow> recovery_grant result" where
  "decode_recovery_grant_block = decode_block read_recovery_grant
     (\<lambda>g. check (\<not> rg_new_incarnation g = rg_retired_incarnation g) EC_BadEncoding)"

text \<open>A block that ends in the block of a decision.\<close>

definition put_revalidation :: "revalidation_result \<Rightarrow> bytes \<Rightarrow> writer \<Rightarrow> writer" where
  "put_revalidation r decision = writes
     [put_u64 (rv_intent r), put_bool (rv_still_valid r), put_u16 (error_raw (rv_reason r)), put_bytes decision]"

definition encode_revalidation_block :: "revalidation_result \<Rightarrow> bytes result" where
  "encode_revalidation_block r =
     rbind (encode_decision_block (rv_decision r)) (\<lambda>decision. encode_block 2048 (put_revalidation r decision))"

definition decode_revalidation_block :: "bytes \<Rightarrow> revalidation_result result" where
  "decode_revalidation_block bs =
     rbind ((read_then read_u64 (\<lambda>intent. read_then read_bool (\<lambda>still_valid. read_then read_u16 (\<lambda>reason.
       give (intent, still_valid, reason))))) bs) (\<lambda>((intent, still_valid, reason), rest).
     rbind (read_bytes (length rest) rest) (\<lambda>(decision_bytes, _).
     rbind (decode_decision_block decision_bytes) (\<lambda>decision.
     Inr \<lparr>rv_intent = intent, rv_still_valid = still_valid, rv_reason = ErrorCode reason,
       rv_decision = decision\<rparr>)))"

definition put_policy_apply :: "policy_apply_result \<Rightarrow> writer \<Rightarrow> writer" where
  "put_policy_apply r = writes
     [put_u64 (pa_generation r), put_u32 (pa_decisions_invalidated r), put_u32 (pa_flows_cancelled r),
      put_u32 (pa_jobs_affected r)]"

definition encode_policy_apply_block :: "policy_apply_result \<Rightarrow> bytes result" where
  "encode_policy_apply_block r = encode_block 64 (put_policy_apply r)"

definition read_policy_apply :: "policy_apply_result reader" where
  "read_policy_apply =
     read_then read_u64 (\<lambda>generation. read_then read_u32 (\<lambda>invalidated. read_then read_u32 (\<lambda>cancelled.
     read_then read_u32 (\<lambda>affected.
     give \<lparr>pa_generation = generation, pa_decisions_invalidated = invalidated, pa_flows_cancelled = cancelled,
       pa_jobs_affected = affected\<rparr>))))"

definition decode_policy_apply_block :: "bytes \<Rightarrow> policy_apply_result result" where
  "decode_policy_apply_block = decode_block read_policy_apply no_check"

section \<open>Every block is a codec\<close>

context codec
begin

lemma block_roundtrip:
  assumes "encode_block n (put_it x) = Inr bs" and "good x" and "validate (norm x) = Inr ()"
  shows "decode_block get_it validate bs = Inr (norm x)"
proof -
  have "writer_ok (put_it x (make_writer n))" and bs: "bs = bw_buffer (put_it x (make_writer n))"
    using assms(1) by (auto simp: encode_block_def Let_def split: if_splits)
  from encoded_decoded [OF this(1) assms(2)] show ?thesis
    using assms(3) by (simp add: bs decode_block_def expect_end_def)
qed

end

lemma read_enums [reading]:
  "read_u8_enum (kPhaseClassCount - Suc 0) (one_byte (of_nat (phase_class_raw a)) @ rest) = Inr (phase_class_raw a, rest)"
  "read_u8_enum (kServiceClassCount - Suc 0) (one_byte (of_nat (service_class_raw b)) @ rest) = Inr (service_class_raw b, rest)"
  "read_u8_enum (sync_criticality_raw SyncHard) (one_byte (of_nat (sync_criticality_raw c)) @ rest) = Inr (sync_criticality_raw c, rest)"
  "read_u8_enum (phase_disposition_raw PhaseFenced) (one_byte (of_nat (phase_disposition_raw d)) @ rest) = Inr (phase_disposition_raw d, rest)"
  "read_u8_enum (evidence_label_raw EvReal) (one_byte (of_nat (evidence_label_raw e)) @ rest) = Inr (evidence_label_raw e, rest)"
  "read_u8_enum (parallelism_kind_raw PK_OptimizerShard) (one_byte (of_nat (parallelism_kind_raw k)) @ rest) = Inr (parallelism_kind_raw k, rest)"
  "read_u8_enum (decision_outcome_raw Throttle) (one_byte (of_nat (decision_outcome_raw t)) @ rest) = Inr (decision_outcome_raw t, rest)"
  by ((cases a, simp_all add: read_u8_enum_def kPhaseClassCount_def phase_classes_def reading)[],
    (cases b, simp_all add: read_u8_enum_def kServiceClassCount_def service_classes_def reading)[],
    (cases c, simp_all add: read_u8_enum_def reading)[], (cases d, simp_all add: read_u8_enum_def reading)[],
    (cases e, simp_all add: read_u8_enum_def reading)[], (cases k, simp_all add: read_u8_enum_def reading)[],
    (cases t, simp_all add: read_u8_enum_def reading)[])

lemma casts [reading]:
  "phase_classes ! phase_class_raw a = a" "service_classes ! service_class_raw b = b"
  "criticalities ! sync_criticality_raw c = c" "dispositions ! phase_disposition_raw d = d"
  "labels ! evidence_label_raw e = e" "parallelism_kinds ! parallelism_kind_raw k = k"
  "outcomes ! decision_outcome_raw t = t"
  by ((cases a, simp_all add: phase_classes_def)[], (cases b, simp_all add: service_classes_def)[],
    (cases c, simp_all add: criticalities_def)[], (cases d, simp_all add: dispositions_def)[],
    (cases e, simp_all add: labels_def)[], (cases k, simp_all add: parallelism_kinds_def)[],
    (cases t, simp_all add: outcomes_def)[])

lemmas enum_folds = sync_criticality_raw.simps phase_disposition_raw.simps evidence_label_raw.simps
  parallelism_kind_raw.simps decision_outcome_raw.simps

lemma clause_codec: "codec write_clause read_clause (\<lambda>c. text_ok (clause_detail c)) (\<lambda>c. c)"
  by (rule codecI, unfold write_clause_def, (rule emitting)+) (auto simp: read_clause_def reading)

interpretation clauses: codec write_clause read_clause "\<lambda>c. text_ok (clause_detail c)" "\<lambda>c. c"
  by (rule clause_codec)

definition explanation_good :: "explanation \<Rightarrow> bool" where
  "explanation_good e \<longleftrightarrow> length e \<le> 64 \<and> (\<forall>c \<in> set e. text_ok (clause_detail c))"

lemma explanation_codec: "codec write_explanation read_explanation explanation_good (\<lambda>e. e)"
  by (rule codecI, unfold write_explanation_def, (rule emitting clauses.emits_image)+)
    (auto simp: read_explanation_def reading explanation_good_def clauses.read_many_image [simplified])

interpretation explanations: codec write_explanation read_explanation explanation_good "\<lambda>e. e"
  by (rule explanation_codec)

declare explanations.emits_image [emitting] explanations.read_image [reading]

lemma wire_fence_codec: "codec wire_write_fence wire_read_fence (\<lambda>f. True) (\<lambda>f. f)"
  unfolding wire_write_fence_def wire_read_fence_def by (rule fence_codec)

interpretation wire_fences: codec wire_write_fence wire_read_fence "\<lambda>f. True" "\<lambda>f. f"
  by (rule wire_fence_codec)

lemma phase_summary_codec:
  "codec write_phase_summary read_phase_summary (\<lambda>p. su_bytes_completed p \<le> su_bytes_committed p) (\<lambda>p. p)"
  by (rule codecI, unfold write_phase_summary_def write_summary_def, (rule emitting)+)
    (auto simp: read_phase_summary_def reading not_less simp del: enum_folds)

interpretation phase_summaries: codec write_phase_summary read_phase_summary
    "\<lambda>p. su_bytes_completed p \<le> su_bytes_committed p" "\<lambda>p. p"
  by (rule phase_summary_codec)

definition accounting_plausible :: "step_accounting \<Rightarrow> bool" where
  "accounting_plausible a \<longleftrightarrow> sa_bytes_completed a + sa_bytes_cancelled a \<le> sa_bytes_committed a"

definition without_step :: "step_accounting \<Rightarrow> step_accounting" where
  "without_step a = a\<lparr>sa_step := 0\<rparr>"

lemma wire_accounting_codec: "codec wire_write_accounting wire_read_accounting accounting_plausible without_step"
  by (rule codecI, unfold wire_write_accounting_def, (rule emitting)+)
    (auto simp: wire_read_accounting_def reading accounting_plausible_def without_step_def not_less)

interpretation wire_accounts: codec wire_write_accounting wire_read_accounting accounting_plausible without_step
  by (rule wire_accounting_codec)

declare wire_accounts.emits_image [emitting] wire_accounts.read_image [reading]

lemma token_codec: "codec put_token read_token (\<lambda>t. True) (\<lambda>t. t)"
  by (rule codecI, unfold put_token_def, (rule emitting)+) (auto simp: read_token_def reading)

interpretation tokens: codec put_token read_token "\<lambda>t. True" "\<lambda>t. t"
  by (rule token_codec)

declare tokens.emits_image [emitting]

lemma token_read [reading]: "read_token (tokens.image t @ rest) = Inr (t, rest)"
  by (rule tokens.read_image) simp

lemma contract_record_codec: "codec put_contract read_contract_record (\<lambda>c. text_ok (wc_name c)) (\<lambda>c. c)"
  by (rule codecI, unfold put_contract_def, (rule emitting)+) (auto simp: read_contract_record_def reading)

interpretation contract_records: codec put_contract read_contract_record "\<lambda>c. text_ok (wc_name c)" "\<lambda>c. c"
  by (rule contract_record_codec)

lemma group_record_codec: "codec put_group read_group_record (\<lambda>g. text_ok (pg_name g)) (\<lambda>g. g)"
  by (rule codecI, unfold put_group_def, (rule emitting)+)
    (auto simp: read_group_record_def reading simp del: enum_folds)

interpretation group_records: codec put_group read_group_record "\<lambda>g. text_ok (pg_name g)" "\<lambda>g. g"
  by (rule group_record_codec)

text \<open>The links come in ascending order, as the evidence has to have them.\<close>

definition next_link_ok :: "link_capacity list \<Rightarrow> link_capacity \<Rightarrow> bool" where
  "next_link_ok links l \<longleftrightarrow> \<not> (links \<noteq> [] \<and> lc_group (last links) \<ge> lc_group l) \<and> text_ok (lc_source l)"

definition wire_link_image :: "link_capacity \<Rightarrow> bytes" where
  "wire_link_image l = le_bytes 8 (lc_group l) @ le_bytes 8 (lc_capacity_bps l) @ le_bytes 8 (lc_reserved_bps l) @
     one_byte (of_nat (evidence_label_raw (lc_label l))) @ texts.image (lc_source l)"

lemma link_written: "emits (put_link l) (wire_link_image l)"
  unfolding put_link_def by (rule emits_eq, (rule emitting)+) (simp add: wire_link_image_def)

lemma next_link_read:
  "next_link_ok links l \<Longrightarrow> read_next_link links (wire_link_image l @ rest) = Inr (links @ [l], rest)"
  by (simp add: read_next_link_def wire_link_image_def next_link_ok_def reading del: enum_folds)

lemma wire_links_run:
  assumes "sorted_wrt (\<lambda>a b. lc_group a < lc_group b) (before @ ls)" and "\<forall>l \<in> set ls. text_ok (lc_source l)"
  shows "runs next_link_ok (\<lambda>links l. links @ [l]) before ls \<and> foldl (\<lambda>links l. links @ [l]) before ls = before @ ls"
  using assms
proof (induction ls arbitrary: before)
  case (Cons l ls)
  then have "before \<noteq> [] \<Longrightarrow> lc_group (last before) < lc_group l"
    using last_in_set [of before] by (auto simp: sorted_wrt_append)
  then have "next_link_ok before l"
    using Cons.prems(2) by (auto simp: next_link_ok_def not_le)
  with Cons show ?case by simp
qed simp

definition topology_record_good :: "topology_evidence \<Rightarrow> bool" where
  "topology_record_good t \<longleftrightarrow> length (te_links t) \<le> kMaxCollectionItems \<and> links_ascending (te_links t) \<and>
     (\<forall>l \<in> set (te_links t). text_ok (lc_source l))"

lemma topology_record_codec: "codec put_topology read_topology_record topology_record_good (\<lambda>t. t)"
proof (rule codecI)
  fix t
  show "emits (put_topology t) (le_bytes 8 (te_generation t) @ le_bytes 8 (te_job t) @
      one_byte (of_nat (evidence_label_raw (te_label t))) @ le_bytes 4 (of_nat (length (te_links t)) :: u32) @
      concat (map wire_link_image (te_links t)) @ [])"
    unfolding put_topology_def by (rule emitting link_written)+
next
  fix t rest
  assume good: "topology_record_good t"
  then have "runs next_link_ok (\<lambda>links l. links @ [l]) [] (te_links t) \<and>
      foldl (\<lambda>links l. links @ [l]) [] (te_links t) = te_links t"
    using wire_links_run [of "[]" "te_links t"] by (simp add: topology_record_good_def links_ascending_def)
  then have "read_fold (length (te_links t)) read_next_link [] (concat (map wire_link_image (te_links t)) @ rest) =
      Inr (te_links t, rest)"
    using read_fold_image [OF next_link_read, where xs = "te_links t" and s = "[]"] by simp
  then show "read_topology_record ((le_bytes 8 (te_generation t) @ le_bytes 8 (te_job t) @
      one_byte (of_nat (evidence_label_raw (te_label t))) @ le_bytes 4 (of_nat (length (te_links t)) :: u32) @
      concat (map wire_link_image (te_links t)) @ []) @ rest) = Inr (t, rest)"
    using good
    by (simp add: read_topology_record_def topology_record_good_def reading kMaxCollectionItems_def del: enum_folds)
qed

interpretation topology_records: codec put_topology read_topology_record topology_record_good "\<lambda>t. t"
  by (rule topology_record_codec)

lemma class_spec_codec: "codec write_spec read_class_spec (\<lambda>s. True) (\<lambda>s. s)"
  by (rule codecI, unfold write_spec_def, (rule emitting)+) (auto simp: read_class_spec_def reading)

interpretation class_specs: codec write_spec read_class_spec "\<lambda>s. True" "\<lambda>s. s"
  by (rule class_spec_codec)

lemma class_value_codec: "codec write_class (read_u8_enum (kServiceClassCount - Suc 0)) (\<lambda>c. True) service_class_raw"
  by (rule codecI, unfold write_class_def, (rule emitting)+) (auto simp: reading)

interpretation class_values: codec write_class "read_u8_enum (kServiceClassCount - Suc 0)" "\<lambda>c. True" service_class_raw
  by (rule class_value_codec)

lemma class_values_read:
  "length cs = kPhaseClassCount \<Longrightarrow>
     read_many kPhaseClassCount (read_u8_enum (kServiceClassCount - Suc 0)) (concat (map class_values.image cs) @ rest) =
       Inr (map service_class_raw cs, rest)"
  using class_values.read_many_image [of cs rest] by simp

lemma class_count_read:
  "length xs \<le> kServiceClassCount \<Longrightarrow>
     read_count kServiceClassCount (le_bytes 4 (of_nat (length xs) :: u32) @ rest) = Inr (of_nat (length xs), rest)"
  "length xs \<le> kServiceClassCount \<Longrightarrow> unat (of_nat (length xs) :: u32) = length xs"
  using read_length(1) [of xs kServiceClassCount rest] read_length(2) [of xs] by (simp_all add: kServiceClassCount_def)

lemma policy_record_codec:
  "codec write_policy read_policy_record (\<lambda>p. length (pd_phase_class_map p) = kPhaseClassCount \<and>
     length (pd_classes p) \<le> kServiceClassCount) (\<lambda>p. p)"
  by (rule codecI, unfold write_policy_def, (rule emitting class_specs.emits_image class_values.emits_image)+)
    (auto simp: read_policy_record_def reading class_values_read class_specs.read_many_image [simplified]
      class_count_read comp_def)

interpretation policy_records: codec write_policy read_policy_record
    "\<lambda>p. length (pd_phase_class_map p) = kPhaseClassCount \<and> length (pd_classes p) \<le> kServiceClassCount" "\<lambda>p. p"
  by (rule policy_record_codec)

lemma phase_spec_codec: "codec put_phase_spec read_phase_spec (\<lambda>s. text_ok (ps_hint s)) (\<lambda>s. s)"
  by (rule codecI, unfold put_phase_spec_def, (rule emitting)+)
    (auto simp: read_phase_spec_def reading simp del: enum_folds)

interpretation phase_specs: codec put_phase_spec read_phase_spec "\<lambda>s. text_ok (ps_hint s)" "\<lambda>s. s"
  by (rule phase_spec_codec)

lemma intent_codec: "codec put_intent read_intent (\<lambda>i. text_ok (ti_purpose i)) (\<lambda>i. i)"
  by (rule codecI, unfold put_intent_def, (rule emitting)+) (auto simp: read_intent_def reading)

interpretation intents: codec put_intent read_intent "\<lambda>i. text_ok (ti_purpose i)" "\<lambda>i. i"
  by (rule intent_codec)

lemma decision_codec: "codec put_decision read_decision (\<lambda>d. explanation_good (td_explanation d)) (\<lambda>d. d)"
  by (rule codecI, unfold put_decision_def, (rule emitting)+)
    (auto simp: read_decision_def reading simp del: enum_folds)

interpretation decisions: codec put_decision read_decision "\<lambda>d. explanation_good (td_explanation d)" "\<lambda>d. d"
  by (rule decision_codec)

lemma receipt_codec: "codec put_receipt read_receipt (\<lambda>r. True) (\<lambda>r. r)"
  by (rule codecI, unfold put_receipt_def, (rule emitting)+) (auto simp: read_receipt_def reading)

interpretation receipts: codec put_receipt read_receipt "\<lambda>r. True" "\<lambda>r. r"
  by (rule receipt_codec)

lemma handle_codec: "codec put_handle read_handle (\<lambda>h. True) (\<lambda>h. h)"
  by (rule codecI, unfold put_handle_def, (rule emitting)+) (auto simp: read_handle_def reading)

interpretation handles: codec put_handle read_handle "\<lambda>h. True" "\<lambda>h. h"
  by (rule handle_codec)

definition summaries_good :: "phase_summary list \<Rightarrow> fence_event list \<Rightarrow> bool" where
  "summaries_good ps fs \<longleftrightarrow> length ps \<le> 4096 \<and> (\<forall>p \<in> set ps. su_bytes_completed p \<le> su_bytes_committed p) \<and>
     length fs \<le> unat kMaxRetainedFenceEvents"

definition view_without_step :: "job_view \<Rightarrow> job_view" where
  "view_without_step v = v\<lparr>jv_accounting := without_step (jv_accounting v)\<rparr>"

lemma job_view_codec:
  "codec put_job_view read_job_view (\<lambda>v. text_ok (jv_name v) \<and> accounting_plausible (jv_accounting v) \<and>
     summaries_good (jv_open_phases v) (jv_recent_fences v)) view_without_step"
  by (rule codecI, unfold put_job_view_def, (rule emitting phase_summaries.emits_image wire_fences.emits_image)+)
    (auto simp: read_job_view_def reading summaries_good_def view_without_step_def kMaxRetainedFenceEvents_def
      phase_summaries.read_many_image [simplified] wire_fences.read_many_image [simplified] simp del: enum_folds)

interpretation job_views: codec put_job_view read_job_view
    "\<lambda>v. text_ok (jv_name v) \<and> accounting_plausible (jv_accounting v) \<and>
     summaries_good (jv_open_phases v) (jv_recent_fences v)" view_without_step
  by (rule job_view_codec)

definition report_without_step :: "step_report \<Rightarrow> step_report" where
  "report_without_step r = r\<lparr>rp_accounting := without_step (rp_accounting r)\<rparr>"

lemma report_record_codec:
  "codec put_report read_report_record (\<lambda>r. accounting_plausible (rp_accounting r) \<and>
     summaries_good (rp_phases r) (rp_fences r)) report_without_step"
  by (rule codecI, unfold put_report_def, (rule emitting phase_summaries.emits_image wire_fences.emits_image)+)
    (auto simp: read_report_record_def reading summaries_good_def report_without_step_def kMaxRetainedFenceEvents_def
      phase_summaries.read_many_image [simplified] wire_fences.read_many_image [simplified])

interpretation report_records: codec put_report read_report_record
    "\<lambda>r. accounting_plausible (rp_accounting r) \<and> summaries_good (rp_phases r) (rp_fences r)" report_without_step
  by (rule report_record_codec)

lemma utilization_codec:
  "codec put_utilization read_utilization (\<lambda>e. gu_reserved_bps e \<le> gu_capacity_bps e) (\<lambda>e. e)"
  by (rule codecI, unfold put_utilization_def, (rule emitting)+)
    (auto simp: read_utilization_def reading not_less simp del: enum_folds)

interpretation utilizations: codec put_utilization read_utilization "\<lambda>e. gu_reserved_bps e \<le> gu_capacity_bps e" "\<lambda>e. e"
  by (rule utilization_codec)

lemma utilization_list_codec:
  "codec put_utilization_list read_utilization_list
     (\<lambda>es. length es \<le> kMaxCollectionItems \<and> (\<forall>e \<in> set es. gu_reserved_bps e \<le> gu_capacity_bps e)) (\<lambda>es. es)"
  by (rule codecI, unfold put_utilization_list_def, (rule emitting utilizations.emits_image)+)
    (auto simp: read_utilization_list_def reading kMaxCollectionItems_def utilizations.read_many_image [simplified])

interpretation utilization_lists: codec put_utilization_list read_utilization_list
    "\<lambda>es. length es \<le> kMaxCollectionItems \<and> (\<forall>e \<in> set es. gu_reserved_bps e \<le> gu_capacity_bps e)" "\<lambda>es. es"
  by (rule utilization_list_codec)

lemma pacing_decision_codec:
  "codec put_pacing_decision read_pacing_decision (\<lambda>d. explanation_good (pn_explanation d)) (\<lambda>d. d)"
  by (rule codecI, unfold put_pacing_decision_def, (rule emitting)+)
    (auto simp: read_pacing_decision_def reading simp del: enum_folds)

interpretation pacing_decisions: codec put_pacing_decision read_pacing_decision
    "\<lambda>d. explanation_good (pn_explanation d)" "\<lambda>d. d"
  by (rule pacing_decision_codec)

lemma recovery_grant_codec:
  "codec put_recovery_grant read_recovery_grant (\<lambda>g. explanation_good (rg_explanation g)) (\<lambda>g. g)"
  by (rule codecI, unfold put_recovery_grant_def, (rule emitting)+)
    (auto simp: read_recovery_grant_def reading)

interpretation recovery_grants: codec put_recovery_grant read_recovery_grant
    "\<lambda>g. explanation_good (rg_explanation g)" "\<lambda>g. g"
  by (rule recovery_grant_codec)

lemma policy_apply_codec: "codec put_policy_apply read_policy_apply (\<lambda>r. True) (\<lambda>r. r)"
  by (rule codecI, unfold put_policy_apply_def, (rule emitting)+) (auto simp: read_policy_apply_def reading)

interpretation policy_applies: codec put_policy_apply read_policy_apply "\<lambda>r. True" "\<lambda>r. r"
  by (rule policy_apply_codec)

section \<open>What fits into a block\<close>

lemma fits_iff:
  assumes "emits f bs" and "room f n" and "0 < n"
  shows "writer_ok (f (make_writer limit)) \<longleftrightarrow> n \<le> limit"
proof
  have "writer_ok (f (make_writer n))" "length (bw_buffer (f (make_writer n))) = n"
    using assms(2) by (auto simp: room_def make_writer_def writer_ok_def)
  then have "length bs = n" using emitsD(2) [OF assms(1)] by (auto simp: make_writer_def)
  moreover assume "writer_ok (f (make_writer limit))"
  ultimately show "n \<le> limit" using emitsD(4) [OF assms(1), of "make_writer limit"] assms(3)
    by (auto simp: make_writer_def)
qed (rule room_fits [OF assms(2)])

context codec
begin

lemma block_fits:
  assumes "room (put_it x) n" and "n \<le> limit" and "good x" and "validate (norm x) = Inr ()"
  shows "\<exists>bs. encode_block limit (put_it x) = Inr bs \<and> decode_block get_it validate bs = Inr (norm x)"
proof -
  have e: "encode_block limit (put_it x) = Inr (bw_buffer (put_it x (make_writer limit)))"
    using room_fits [OF assms(1,2)] by (simp add: encode_block_def)
  show ?thesis using block_roundtrip [of limit x _ validate, OF e assms(3,4)] e by blast
qed

end

lemma encode_block_fits:
  "emits f bs \<Longrightarrow> room f n \<Longrightarrow> 0 < n \<Longrightarrow> \<not> isl (encode_block limit f) \<longleftrightarrow> n \<le> limit"
  by (auto simp: encode_block_def Let_def fits_iff)

definition explanation_size :: "explanation \<Rightarrow> nat" where
  "explanation_size e = 4 + (\<Sum>c\<leftarrow>e. 6 + length (clause_detail c))"

lemma room_explanation:
  assumes "explanation_good e"
  shows "room (write_explanation e) (explanation_size e)"
proof -
  have "room (write_clause c) (6 + length (clause_detail c))" if "c \<in> set e" for c
    unfolding write_clause_def using that assms
    by (intro room_eq [OF room_cons [OF room_words(2) room_cons [OF room_string room_nil]]]) (auto simp: explanation_good_def)
  then have clauses: "room (writes (map write_clause e)) (\<Sum>c\<leftarrow>e. 6 + length (clause_detail c))"
    by (intro room_map) auto
  show ?thesis
    unfolding write_explanation_def by (rule room_eq, (rule rooming clauses)+) (simp add: explanation_size_def)
qed

lemma room_token [rooming]: "room (put_token t) 112"
  unfolding put_token_def by (rule room_eq, (rule rooming)+) simp

lemma room_wire_accounting [rooming]: "room (wire_write_accounting a) 81"
  unfolding wire_write_accounting_def by (rule room_eq, (rule rooming)+) simp

lemma room_requests:
  "text_ok (wc_name c) \<Longrightarrow> room (put_contract c) (57 + length (wc_name c))"
  "text_ok (pg_name g) \<Longrightarrow> room (put_group g) (25 + length (pg_name g))"
  "text_ok (lc_source l) \<Longrightarrow> room (put_link l) (29 + length (lc_source l))"
  "text_ok (ps_hint s) \<Longrightarrow> room (put_phase_spec s) (30 + length (ps_hint s))"
  "text_ok (ti_purpose i) \<Longrightarrow> room (put_intent i) (156 + length (ti_purpose i))"
  unfolding put_contract_def put_group_def put_link_def put_phase_spec_def put_intent_def
  by (rule room_eq, (rule rooming room_string | assumption)+, simp)+

definition topology_size :: "topology_evidence \<Rightarrow> nat" where
  "topology_size t = 21 + (\<Sum>l\<leftarrow>te_links t. 29 + length (lc_source l))"

lemma room_topology:
  assumes "topology_record_good t"
  shows "room (put_topology t) (topology_size t)"
proof -
  have links: "room (writes (map put_link (te_links t))) (\<Sum>l\<leftarrow>te_links t. 29 + length (lc_source l))"
    using assms by (intro room_map ballI room_requests) (simp add: topology_record_good_def)
  show ?thesis unfolding put_topology_def by (rule room_eq, (rule rooming links)+) (simp add: topology_size_def)
qed

lemma room_responses:
  "room (put_receipt r) 35" "room (put_handle h) 80" "room (put_policy_apply p) 20" "room (put_utilization u) 37"
  unfolding put_receipt_def put_handle_def put_policy_apply_def put_utilization_def
  by (rule room_eq, (rule rooming)+, simp)+

lemma room_utilization_list: "room (put_utilization_list es) (4 + 37 * length es)"
  unfolding put_utilization_list_def by (rule room_eq, (rule rooming room_map_const ballI room_responses)+) simp

lemma room_explained:
  "explanation_good (td_explanation d) \<Longrightarrow> room (put_decision d) (217 + explanation_size (td_explanation d))"
  "explanation_good (pn_explanation n) \<Longrightarrow> room (put_pacing_decision n) (25 + explanation_size (pn_explanation n))"
  "explanation_good (rg_explanation g) \<Longrightarrow> room (put_recovery_grant g) (64 + explanation_size (rg_explanation g))"
  unfolding put_decision_def put_pacing_decision_def put_recovery_grant_def
  by (rule room_eq, (rule rooming room_explanation | assumption)+, simp)+

lemma room_wire_fence: "room (wire_write_fence f) 74"
  unfolding wire_write_fence_def by (rule room_fence)

lemma room_phase_summary: "room (write_phase_summary p) 71"
  unfolding write_phase_summary_def by (rule room_summary)

definition report_block_size :: "step_report \<Rightarrow> nat" where
  "report_block_size r = 138 + 71 * length (rp_phases r) + 74 * length (rp_fences r)"

lemma room_report_record: "room (put_report r) (report_block_size r)"
  unfolding put_report_def report_block_size_def
  by (rule room_eq, (rule rooming room_map_const ballI room_phase_summary room_wire_fence)+) simp

definition view_block_size :: "job_view \<Rightarrow> nat" where
  "view_block_size v = 211 + length (jv_name v) + 71 * length (jv_open_phases v) + 74 * length (jv_recent_fences v)"

lemma room_job_view: "text_ok (jv_name v) \<Longrightarrow> room (put_job_view v) (view_block_size v)"
  unfolding put_job_view_def view_block_size_def
  by (rule room_eq, (rule rooming room_string room_map_const ballI room_phase_summary room_wire_fence | assumption)+) simp

section \<open>Properties\<close>

definition carried :: "('a \<Rightarrow> bytes result) \<Rightarrow> (bytes \<Rightarrow> 'a result) \<Rightarrow> 'a \<Rightarrow> bool" where
  "carried encode decode x \<longleftrightarrow> (\<exists>bs. encode x = Inr bs \<and> decode bs = Inr x)"


definition wire_group :: parallelism_group where
  "wire_group = \<lparr>pg_id = 1, pg_job = 0, pg_kind = PK_Data, pg_member_count = 8, pg_name = [100, 112]\<rparr>"

definition wire_spec :: phase_spec where
  "wire_spec = \<lparr>ps_cls = PC_GradientSync, ps_group = 1, ps_criticality = SyncHard,
     ps_deadline = \<lparr>sd_deadline_at = 90, sd_slack_ticks = 5\<rparr>, ps_hint = []\<rparr>"

definition wire_intent :: traffic_intent where
  "wire_intent = \<lparr>ti_authority = empty_token\<lparr>at_job := 1, at_step := 1, at_phase := 1, at_incarnation := 1\<rparr>,
     ti_group = 1, ti_declared_phase_class = PC_GradientSync, ti_purpose = [97], ti_min_bps = 10, ti_max_bps = 20,
     ti_bytes_estimate = 1000, ti_participants = 4, ti_barrier_participant = False, ti_preemptible = True,
     ti_allow_defer = False\<rparr>"

definition wire_evidence :: topology_evidence where
  "wire_evidence = \<lparr>te_generation = 0, te_job = 0, te_label = EvReal,
     te_links = [\<lparr>lc_group = 1, lc_capacity_bps = 1000, lc_reserved_bps = 100, lc_label = EvReal, lc_source = [110]\<rparr>]\<rparr>"


text \<open>
  What the coordinator answers in a block is what the client reads: every receipt, handle and
  policy result, and every decision, pacing decision, recovery grant and list of utilisations
  that is consistent and short enough for its block, is decoded to itself.
\<close>

lemma response_blocks_roundtrip:
  assumes "explanation_good (td_explanation d)" and "explanation_size (td_explanation d) \<le> 807"
    and "td_granted_min_bps d \<le> td_granted_max_bps d"
    and "explanation_good (pn_explanation n)" and "explanation_size (pn_explanation n) \<le> 487"
    and "explanation_good (rg_explanation g)" and "explanation_size (rg_explanation g) \<le> 448"
    and "rg_new_incarnation g \<noteq> rg_retired_incarnation g"
    and "list_all (\<lambda>e. gu_reserved_bps e \<le> gu_capacity_bps e) us" and "length us \<le> 110"
  shows "carried encode_receipt_block decode_receipt_block r \<and> carried encode_handle_block decode_handle_block h \<and>
    carried encode_policy_apply_block decode_policy_apply_block a \<and>
    carried encode_decision_block decode_decision_block d \<and>
    carried encode_pacing_decision_block decode_pacing_decision_block n \<and>
    carried encode_recovery_grant_block decode_recovery_grant_block g \<and>
    carried encode_utilization_list_block decode_utilization_list_block us"
proof -
  note blocks = receipts.block_fits [OF room_responses(1), of 96 no_check r]
    handles.block_fits [OF room_responses(2), of 144 no_check h]
    policy_applies.block_fits [OF room_responses(3), of 64 no_check a]
    decisions.block_fits [OF room_explained(1) [OF assms(1)], of 1024]
    pacing_decisions.block_fits [OF room_explained(2) [OF assms(4)], of 512]
    recovery_grants.block_fits [OF room_explained(3) [OF assms(6)], of 512]
    utilization_lists.block_fits [OF room_utilization_list, of us 4096 no_check]
  show ?thesis
    unfolding carried_def encode_receipt_block_def decode_receipt_block_def encode_handle_block_def
      decode_handle_block_def encode_policy_apply_block_def decode_policy_apply_block_def encode_decision_block_def
      decode_decision_block_def encode_pacing_decision_block_def decode_pacing_decision_block_def
      encode_recovery_grant_block_def decode_recovery_grant_block_def encode_utilization_list_block_def
      decode_utilization_list_block_def
    using assms
    by (intro conjI blocks) (simp_all add: no_check_def list_all_iff kMaxCollectionItems_def not_less)
qed

definition wire_decision :: traffic_decision where
  "wire_decision = default_decision\<lparr>td_granted_min_bps := 5, td_granted_max_bps := 9,
     td_explanation := [Clause (ExplanationCode 1) [111, 107]]\<rparr>"

lemma response_blocks_roundtrip_witness:
  "carried encode_decision_block decode_decision_block wire_decision"
proof -
  let ?n = "\<lparr>pn_outcome = Admit, pn_reason = EC_Ok, pn_service_class = SC_Unknown, pn_effective_priority = 0,
    pn_stragglers = 0, pn_hold_until = 0, pn_evaluated_at = 1, pn_explanation = []\<rparr>"
  let ?g = "\<lparr>rg_job = 1, rg_job_generation = 1, rg_new_incarnation = 2, rg_retired_incarnation = 1,
    rg_resume_step_floor = 0, rg_epoch = 1, rg_issued_at = 3, rg_cancelled_flows = 0, rg_fenced_operations = 0,
    rg_explanation = []\<rparr>"
  have d: "explanation_good (td_explanation wire_decision)" "explanation_size (td_explanation wire_decision) \<le> 807"
    "td_granted_min_bps wire_decision \<le> td_granted_max_bps wire_decision"
    by (simp_all add: wire_decision_def default_decision_def explanation_good_def explanation_size_def text_ok_def bound_defs)
  have n: "explanation_good (pn_explanation ?n)" "explanation_size (pn_explanation ?n) \<le> 487"
    and g: "explanation_good (rg_explanation ?g)" "explanation_size (rg_explanation ?g) \<le> 448"
      "rg_new_incarnation ?g \<noteq> rg_retired_incarnation ?g"
    by (simp_all add: explanation_good_def explanation_size_def)
  have u: "list_all (\<lambda>e. gu_reserved_bps e \<le> gu_capacity_bps e) []" "length ([] :: group_utilization_entry list) \<le> 110" by simp_all
  from response_blocks_roundtrip [OF d n g u] show ?thesis by blast
qed

text \<open>
  C25: a step report is carried exactly when it is small enough: its block is encoded if and only
  if 138 bytes, 71 for every phase and 74 for every fence add up to at most 4096, and it is then
  decoded to the report, except that its accounting no longer names the step.
\<close>

theorem report_block_bounded:
  assumes "accounting_plausible (rp_accounting r)" and "summaries_good (rp_phases r) (rp_fences r)"
  shows "(case encode_report_block r of
      Inl _ \<Rightarrow> 4096 < 138 + 71 * length (rp_phases r) + 74 * length (rp_fences r)
    | Inr bs \<Rightarrow> 138 + 71 * length (rp_phases r) + 74 * length (rp_fences r) \<le> 4096 \<and>
        decode_report_block bs = Inr (r\<lparr>rp_accounting := (rp_accounting r)\<lparr>sa_step := 0\<rparr>\<rparr>))"
proof -
  have "\<not> isl (encode_report_block r) \<longleftrightarrow> report_block_size r \<le> 4096"
    unfolding encode_report_block_def
    by (rule encode_block_fits [OF report_records.emits_image room_report_record]) (simp add: report_block_size_def)
  moreover have "decode_report_block bs = Inr (report_without_step r)" if "encode_report_block r = Inr bs" for bs
    using report_records.block_roundtrip [OF that [unfolded encode_report_block_def], of no_check] assms
    by (simp add: decode_report_block_def no_check_def)
  ultimately show ?thesis
    by (auto simp: report_block_size_def report_without_step_def without_step_def split: sum.split)
qed

definition wire_report :: step_report where
  "wire_report = \<lparr>rp_job = 1, rp_job_generation = 1, rp_step = 1, rp_opened_at = 2, rp_closed_at = 9,
     rp_accounting = empty_accounting 1, rp_phases = [],
     rp_fences = replicate 64 \<lparr>fe_reason = EC_StaleEpoch, fe_at = 3, fe_step = 1, fe_phase = 0, fe_intent = 0,
       fe_observed_incarnation = 1, fe_current_incarnation = 2, fe_observed_epoch = 1, fe_current_epoch = 2,
       fe_sequence = 0\<rparr>,
     rp_fences_observed = 64, rp_closed_with_cancellation = False\<rparr>"

text \<open>A report with all the fences a step may retain is not carried.\<close>

lemma report_block_bounded_witness: "isl (encode_report_block wire_report)"
proof -
  have "accounting_plausible (rp_accounting wire_report)" "summaries_good (rp_phases wire_report) (rp_fences wire_report)"
    by (simp_all add: wire_report_def accounting_plausible_def empty_accounting_def summaries_good_def kMaxRetainedFenceEvents_def)
  from report_block_bounded [OF this] show ?thesis
    by (cases "encode_report_block wire_report") (simp_all add: wire_report_def)
qed

end
