(* ===== verification/Store.thy ===== *)
theory Store
  imports Codec
begin

text \<open>
  \<^verbatim>\<open>src/persistence.cpp\<close>: the durable state file and the store that replaces it atomically.
  The file system is what the store sees of it: the content of the live file and of the
  temporary file beside it, with the outcome of every system call as an argument; a commit
  is the list of the states of the disk it passes through, since it may be cut short after
  any of them.
\<close>

section \<open>The file\<close>

definition kStateFileMagic :: u32 where "kStateFileMagic = 0x50465454"
definition kStateFileEnd :: u32 where "kStateFileEnd = 0x45465454"
definition kStateFileFormat :: u16 where "kStateFileFormat = 1"
definition kStateFileHeaderBytes :: nat where "kStateFileHeaderBytes = 36"

record stored_state =
  sf_present :: bool
  sf_epoch :: u64
  sf_sequence :: u64
  sf_payload :: bytes

definition absent_state :: stored_state where
  "absent_state = \<lparr>sf_present = False, sf_epoch = 0, sf_sequence = 0, sf_payload = []\<rparr>"

definition encode_file :: "bytes \<Rightarrow> u64 \<Rightarrow> u64 \<Rightarrow> bytes result" where
  "encode_file payload epoch sequence =
     (if length payload > kMaxSnapshotBytes then Inl EC_StateTooLarge
      else
        let w1 = writes [put_u32 kStateFileMagic, put_u16 kStateFileFormat, put_u16 0, put_u64 epoch,
                   put_u64 sequence, put_u32 (of_nat (length payload)), put_u32 (crc32c payload)]
                   (make_writer (length payload + kStateFileHeaderBytes + 8));
            header_crc = crc32c (bw_buffer w1);
            w2 = writes [put_u32 header_crc, put_bytes payload, put_u32 kStateFileEnd] w1
        in if \<not> writer_ok w2 then Inl (bw_error w2) else Inr (bw_buffer w2))"

definition decode_file :: "bytes \<Rightarrow> u32 \<Rightarrow> stored_state result" where
  "decode_file bs max_payload =
     rbind (checks [(\<not> length bs < kStateFileHeaderBytes + 4, EC_PartialState),
                    (\<not> length bs > unat max_payload + kStateFileHeaderBytes + 8, EC_StateTooLarge)]) (\<lambda>_.
     rbind
       ((read_then read_u32 (\<lambda>magic.
         demand (magic = kStateFileMagic) EC_CorruptState (
         read_then read_u16 (\<lambda>format.
         demand (format = kStateFileFormat) EC_IncompatibleState (
         read_then read_u16 (\<lambda>flags.
         demand (flags = 0) EC_CorruptState (
         read_then read_u64 (\<lambda>epoch.
         read_then read_u64 (\<lambda>sequence.
         read_then read_u32 (\<lambda>payload_length.
         read_then read_u32 (\<lambda>payload_crc.
         read_then read_u32 (\<lambda>header_crc.
         demand (crc32c (take (kStateFileHeaderBytes - 4) bs) = header_crc) EC_BadChecksum (
         demand (\<not> payload_length > max_payload) EC_StateTooLarge (
         demand (\<not> length bs < kStateFileHeaderBytes + unat payload_length + 4) EC_PartialState (
         demand (\<not> length bs > kStateFileHeaderBytes + unat payload_length + 4) EC_TrailingGarbage (
         read_then (read_bytes (unat payload_length)) (\<lambda>payload.
         demand (crc32c payload = payload_crc) EC_BadChecksum (
         read_then read_u32 (\<lambda>end_marker.
         demand (end_marker = kStateFileEnd) EC_CorruptState (
         give \<lparr>sf_present = True, sf_epoch = epoch, sf_sequence = sequence, sf_payload = payload\<rparr>
         )))))))))))))))))))) bs)
       (\<lambda>(state, rest). rbind (expect_end rest) (\<lambda>_. Inr state)))"

section \<open>The store\<close>

text \<open>The configuration and the last sequence committed through this store.\<close>

record state_store =
  so_max_payload_bytes :: u32
  so_last_sequence :: u64

definition open_store :: "u32 \<Rightarrow> state_store" where
  "open_store max_payload = \<lparr>so_max_payload_bytes = max_payload, so_last_sequence = 0\<rparr>"

text \<open>
  \<^verbatim>\<open>Open\<close>: a directory is required, and \<^verbatim>\<open>create_directories\<close> and \<^verbatim>\<open>is_directory\<close> must answer
  without an error.
\<close>

definition Open_store :: "bytes \<Rightarrow> u32 \<Rightarrow> bool \<Rightarrow> bool \<Rightarrow> state_store result" where
  "Open_store directory max_payload created is_directory =
     rbind (checks [(directory \<noteq> [], EC_InvalidArgument), (created, EC_IoError), (is_directory, EC_IoError)])
       (\<lambda>_. Inr (open_store max_payload))"

record disk =
  dk_live :: "bytes option"
  dk_temporary :: "bytes option"

text \<open>
  What the calls of a commit answer: \<^verbatim>\<open>fopen\<close>, the bytes \<^verbatim>\<open>fwrite\<close> takes, \<^verbatim>\<open>fclose\<close>, the
  flush of the file, \<^verbatim>\<open>rename\<close> and the flush of the directory.
\<close>

record commit_answers =
  io_open :: bool
  io_written :: nat
  io_close :: bool
  io_flush :: bool
  io_rename :: bool
  io_flush_directory :: bool

definition temporary_states :: "disk \<Rightarrow> bytes \<Rightarrow> nat \<Rightarrow> disk list" where
  "temporary_states d encoded n = map (\<lambda>k. d\<lparr>dk_temporary := Some (take k encoded)\<rparr>) [0..<Suc n]"

text \<open>
  \<^verbatim>\<open>Commit\<close>: opening the temporary file empties it, writing extends it, a rename makes it the
  live file in one step. The last state of the list is the one the call leaves behind.
\<close>

definition commit ::
  "state_store \<Rightarrow> disk \<Rightarrow> commit_answers \<Rightarrow> bytes \<Rightarrow> u64 \<Rightarrow> u64 \<Rightarrow> status \<times> state_store \<times> disk list" where
  "commit store d io payload epoch sequence =
     (if sequence \<le> so_last_sequence store \<and> so_last_sequence store \<noteq> 0
      then (Inl EC_Conflict, store, [d])
      else case encode_file payload epoch sequence of
        Inl e \<Rightarrow> (Inl e, store, [d])
      | Inr encoded \<Rightarrow>
          if \<not> io_open io then (Inl EC_IoError, store, [d])
          else
            let n = min (io_written io) (length encoded);
                d0 = d # temporary_states d encoded n;
                d1 = d\<lparr>dk_temporary := Some (take n encoded)\<rparr>
            in if n \<noteq> length encoded \<or> \<not> io_close io
               then (Inl EC_IoError, store, d0 @ [d\<lparr>dk_temporary := None\<rparr>])
               else if \<not> io_flush io then (Inl EC_IoError, store, d0)
               else if \<not> io_rename io then (Inl EC_IoError, store, d0)
               else let d2 = \<lparr>dk_live = dk_temporary d1, dk_temporary = None\<rparr>
                    in if \<not> io_flush_directory io then (Inl EC_IoError, store, d0 @ [d2])
                       else (Inr (), store\<lparr>so_last_sequence := sequence\<rparr>, d0 @ [d2]))"

text \<open>
  \<^verbatim>\<open>Load\<close>, with the answers of \<^verbatim>\<open>exists\<close> (whether it came without an error code; one with an
  error is read as an absent file), \<^verbatim>\<open>file_size\<close>, \<^verbatim>\<open>fopen\<close> and the bytes \<^verbatim>\<open>fread\<close> returns.
\<close>

record load_answers =
  io_probe :: bool
  io_stat :: bool
  io_open_read :: bool
  io_read :: nat

definition load :: "state_store \<Rightarrow> disk \<Rightarrow> load_answers \<Rightarrow> stored_state result" where
  "load store d io =
     (case (if io_probe io then dk_live d else None) of
        None \<Rightarrow> Inr absent_state
      | Some content \<Rightarrow>
          rbind (checks [(io_stat io, EC_IoError),
              (\<not> length content > unat (so_max_payload_bytes store) + kStateFileHeaderBytes + 8, EC_StateTooLarge),
              (io_open_read io, EC_IoError),
              (\<not> io_read io < length content, EC_PartialState)])
            (\<lambda>_. decode_file content (so_max_payload_bytes store)))"

section \<open>The bytes of a file\<close>

definition file_header :: "bytes \<Rightarrow> u64 \<Rightarrow> u64 \<Rightarrow> bytes" where
  "file_header payload epoch sequence =
     le_bytes 4 kStateFileMagic @ le_bytes 2 kStateFileFormat @ le_bytes 2 (0 :: u16) @ le_bytes 8 epoch @
     le_bytes 8 sequence @ le_bytes 4 (of_nat (length payload) :: u32) @ le_bytes 4 (crc32c payload)"

definition file_image :: "bytes \<Rightarrow> u64 \<Rightarrow> u64 \<Rightarrow> bytes" where
  "file_image payload epoch sequence =
     (let h = file_header payload epoch sequence
      in h @ le_bytes 4 (crc32c h) @ payload @ le_bytes 4 kStateFileEnd)"

lemma length_file_header: "length (file_header payload epoch sequence) = 32"
  by (simp add: file_header_def)

lemma encode_file_image:
  assumes "length payload \<le> kMaxSnapshotBytes"
  shows "encode_file payload epoch sequence = Inr (file_image payload epoch sequence)"
  using assms
  by (simp add: encode_file_def Let_def put_u16_def put_u32_def put_u64_def put_bytes_def put_reserved_room
      make_writer_def writer_ok_def kStateFileHeaderBytes_def file_image_def file_header_def)

lemma encode_file_Inr:
  "encode_file payload epoch sequence = Inr out \<longleftrightarrow>
     length payload \<le> kMaxSnapshotBytes \<and> out = file_image payload epoch sequence"
proof (cases "length payload \<le> kMaxSnapshotBytes")
  case True
  then show ?thesis using encode_file_image [OF True] by auto
next
  case False
  then show ?thesis by (simp add: encode_file_def)
qed

text \<open>Only the image of a payload decodes, and to that payload.\<close>

lemma file_image_parts:
  "file_image payload epoch sequence =
     le_bytes 4 kStateFileMagic @ le_bytes 2 kStateFileFormat @ le_bytes 2 (0 :: u16) @ le_bytes 8 epoch @
     le_bytes 8 sequence @ le_bytes 4 (of_nat (length payload) :: u32) @ le_bytes 4 (crc32c payload) @
     le_bytes 4 (crc32c (file_header payload epoch sequence)) @ payload @ le_bytes 4 kStateFileEnd"
  by (simp add: file_image_def file_header_def Let_def)

lemma take_file_image: "take 32 (file_image payload epoch sequence) = file_header payload epoch sequence"
  by (simp add: file_image_def Let_def length_file_header)

lemma length_file_image: "length (file_image payload epoch sequence) = length payload + 40"
  by (simp add: file_image_parts)

lemma decode_file_image:
  assumes "length payload \<le> unat max_payload"
  shows "decode_file (file_image payload epoch sequence) max_payload =
    Inr \<lparr>sf_present = True, sf_epoch = epoch, sf_sequence = sequence, sf_payload = payload\<rparr>"
proof -
  have len: "unat (of_nat (length payload) :: u32) = length payload"
    using assms order_le_less_trans [OF assms unsigned_less] by (simp add: unat_of_nat)
  have le: "\<not> of_nat (length payload) > max_payload"
    using assms len by (simp add: word_less_nat_alt)
  have bytes: "read_then (read_bytes (length payload)) k (payload @ rest) = k payload rest" for k :: "bytes \<Rightarrow> 'a reader" and rest
    by (simp add: read_then_def read_bytes_def)
  show ?thesis
    using assms len le
    by (simp add: decode_file_def length_file_image kStateFileHeaderBytes_def take_file_image)
      (simp add: file_image_parts reading bytes expect_end_def
        read_then_app [of _ _ "[]", simplified] read_words(3) [of _ "[]", simplified])
qed

lemma decode_file_Inr:
  "decode_file bs max_payload = Inr st \<longleftrightarrow>
     (\<exists>payload epoch sequence. length payload \<le> unat max_payload \<and> bs = file_image payload epoch sequence \<and>
        st = \<lparr>sf_present = True, sf_epoch = epoch, sf_sequence = sequence, sf_payload = payload\<rparr>)"
  (is "?L \<longleftrightarrow> ?R")
proof
  assume ?L
  then obtain epoch sequence payload len header
    where len: "\<not> max_payload < len" "length payload = unat len"
      and header: "header = le_bytes 4 kStateFileMagic @ le_bytes 2 kStateFileFormat @ le_bytes 2 (0 :: u16) @
        le_bytes 8 epoch @ le_bytes 8 sequence @ le_bytes 4 len @ le_bytes 4 (crc32c payload)"
      and bs: "bs = header @ le_bytes 4 (crc32c header) @ payload @ le_bytes 4 kStateFileEnd"
      and st: "st = \<lparr>sf_present = True, sf_epoch = epoch, sf_sequence = sequence, sf_payload = payload\<rparr>"
    by (auto simp: decode_file_def reader_steps_iff read_words_iff read_bytes_iff expect_end_def kStateFileHeaderBytes_def)
  have "len = of_nat (length payload)" by (simp add: len(2))
  then have "bs = file_image payload epoch sequence"
    unfolding bs header by (simp add: file_image_def file_header_def Let_def)
  moreover have "length payload \<le> unat max_payload"
    using len by (simp add: word_le_nat_alt not_less)
  ultimately show ?R using st by blast
qed (auto simp: decode_file_image)

section \<open>The file is all or nothing\<close>

lemma file_image_fields:
  "take 4 (drop 32 (file_image p e s)) = le_bytes 4 (crc32c (file_header p e s))"
  "take (length p) (drop 36 (file_image p e s)) = p"
  by (simp_all add: file_image_def Let_def length_file_header)

lemma file_header_inject:
  "file_header p e s = file_header p' e' s' \<longleftrightarrow>
     e = e' \<and> s = s' \<and> (of_nat (length p) :: u32) = of_nat (length p') \<and> crc32c p = crc32c p'"
  by (auto simp: file_header_def le_bytes_inject)

text \<open>
  An image with one byte changed is no image: a change in the header leaves its checksum
  wrong, one in the payload the checksum in the header, and one outside of both changes
  bytes that follow from them.
\<close>

lemma file_image_one_byte:
  assumes i: "i < length (file_image p e s)" and new: "b \<noteq> file_image p e s ! i"
  shows "(file_image p e s)[i := b] \<noteq> file_image p' e' s'"
proof
  let ?m = "file_image p e s"
  assume eq: "?m[i := b] = file_image p' e' s'"
  have len: "length p' = length p"
    using arg_cong [OF eq, of length] by (simp add: length_file_image)
  have h: "file_header p' e' s' = (file_header p e s)[i := b]"
    using arg_cong [OF eq, of "take 32"] by (simp add: take_file_image take_update_swap)
  show False
  proof (cases "i < 32")
    case True
    then have "take 4 (drop 32 (?m[i := b])) = take 4 (drop 32 ?m)" by simp
    then have "crc32c (file_header p' e' s') = crc32c (file_header p e s)"
      by (simp add: eq file_image_fields le_bytes_inject)
    moreover have "crc32c ((file_header p e s)[i := b]) \<noteq> crc32c (file_header p e s)"
      using True new i by (intro crc32c_update)
        (simp_all add: length_file_header take_file_image [symmetric])
    ultimately show False by (simp add: h)
  next
    case False
    then have "file_header p' e' s' = file_header p e s"
      by (simp add: h length_file_header list_update_beyond not_less)
    then have same: "e' = e" "s' = s" "crc32c p' = crc32c p" by (simp_all add: file_header_inject)
    have p': "p' = take (length p) (drop 36 (?m[i := b]))"
      using arg_cong [OF eq, of "\<lambda>m. take (length p) (drop 36 m)"] by (simp add: len [symmetric] file_image_fields)
    show False
    proof (cases "36 \<le> i \<and> i - 36 < length p")
      case True
      then have "p' = p[i - 36 := b]"
        unfolding p' by (simp add: drop_update_swap take_update_swap file_image_fields)
      moreover have "take (length p) (drop 36 ?m) ! (i - 36) = ?m ! i" using True i by simp
      then have "crc32c (p[i - 36 := b]) \<noteq> crc32c p"
        using True new by (intro crc32c_update) (simp_all add: file_image_fields)
      ultimately show False using same by simp
    next
      case False
      then have "p' = p"
        unfolding p' by (cases "36 \<le> i") (simp_all add: drop_update_swap file_image_fields)
      then have "?m[i := b] ! i = ?m ! i" using eq same by simp
      then show False using i new by simp
    qed
  qed
qed

lemma file_image_cut:
  assumes "file_image p e s @ x = file_image p' e' s'"
    and "length p \<le> unat (m :: u32)" and "length p' \<le> unat (m :: u32)"
  shows "x = []"
proof -
  have "file_header p e s = file_header p' e' s'"
    using arg_cong [OF assms(1), of "take 32"]
    by (simp add: take_file_image length_file_image)
  then have "unat (of_nat (length p) :: u32) = unat (of_nat (length p') :: u32)" by (simp add: file_header_inject)
  moreover have "length p < 2 ^ 32" "length p' < 2 ^ 32"
    using order_le_less_trans [OF assms(2) unsigned_less] order_le_less_trans [OF assms(3) unsigned_less] by simp_all
  ultimately have "length p = length p'"
    by (simp add: unat_of_nat)
  then show "x = []" using arg_cong [OF assms(1), of length] by (simp add: length_file_image)
qed

section \<open>A commit and what it leaves\<close>

lemma last_temporary:
  "dk_live d' = dk_live d" if "d' \<in> set (temporary_states d encoded n)"
  using that by (auto simp: temporary_states_def)

lemma last_temporary_states:
  "last (d0 # temporary_states d encoded n) = d\<lparr>dk_temporary := Some (take n encoded)\<rparr>"
  by (simp add: temporary_states_def)

lemma commit_states:
  assumes "commit store d io payload epoch sequence = (r, store', ds)"
  shows "ds \<noteq> []"
    and "d' \<in> set ds \<Longrightarrow> dk_live d' = dk_live d \<or> dk_live d' = Some (file_image payload epoch sequence)"
    and "r = Inr () \<Longrightarrow> dk_live (last ds) = Some (file_image payload epoch sequence) \<and> dk_temporary (last ds) = None"
    and "store' = (if r = Inr () then store\<lparr>so_last_sequence := sequence\<rparr> else store)"
  using assms
  by (auto simp: commit_def Let_def encode_file_Inr last_temporary split: if_splits sum.splits)

text \<open>
  Commits that run to their end, and commits cut short by a crash, after which the store is
  opened again: the attempts made, latest first, with the store and the disk they lead to.
\<close>

inductive store_run :: "u32 \<Rightarrow> disk \<Rightarrow> (bytes \<times> u64 \<times> u64) list \<Rightarrow> state_store \<Rightarrow> disk \<Rightarrow> bool"
  for max_payload :: u32 and d0 :: disk
where
  opened: "store_run max_payload d0 [] (open_store max_payload) d0"
| committed: "store_run max_payload d0 h store d \<Longrightarrow>
    commit store d io payload epoch sequence = (r, store', ds) \<Longrightarrow>
    store_run max_payload d0 ((payload, epoch, sequence) # h) store' (last ds)"
| crashed: "store_run max_payload d0 h store d \<Longrightarrow>
    commit store d io payload epoch sequence = (r, store', ds) \<Longrightarrow> d' \<in> set ds \<Longrightarrow>
    store_run max_payload d0 ((payload, epoch, sequence) # h) (open_store max_payload) d'"

lemma store_run_live:
  "store_run max_payload d0 h store d \<Longrightarrow>
     dk_live d = dk_live d0 \<or> (\<exists>(payload, epoch, sequence) \<in> set h. dk_live d = Some (file_image payload epoch sequence))"
proof (induction rule: store_run.induct)
  case (committed h store d io payload epoch sequence r store' ds)
  then show ?case
    using commit_states(2) [OF committed.hyps(2), of "last ds"] commit_states(1) [OF committed.hyps(2)] by force
next
  case (crashed h store d io payload epoch sequence r store' ds d')
  then show ?case using commit_states(2) [OF crashed.hyps(2,3)] by force
qed simp

text \<open>What a load finds is decided by the live file.\<close>

definition record_of :: "bytes \<times> u64 \<times> u64 \<Rightarrow> stored_state" where
  "record_of r = (case r of (payload, epoch, sequence) \<Rightarrow>
     \<lparr>sf_present = True, sf_epoch = epoch, sf_sequence = sequence, sf_payload = payload\<rparr>)"

lemma load_decodes:
  assumes "load store d io = Inr st" and "sf_present st"
  shows "\<exists>content. dk_live d = Some content \<and> decode_file content (so_max_payload_bytes store) = Inr st"
  using assms by (auto simp: load_def absent_state_def split: option.splits if_splits)

lemma image_decodes:
  assumes "decode_file (file_image p e s) m = Inr st" and "length p \<le> unat m"
  shows "st = record_of (p, e, s)"
  using assms by (simp add: decode_file_image record_of_def)

definition all_well :: commit_answers where
  "all_well = \<lparr>io_open = True, io_written = 1000, io_close = True, io_flush = True, io_rename = True,
     io_flush_directory = True\<rparr>"

section \<open>One encoding\<close>

text \<open>A state file is read back as it was written, and no two files stand for one state.\<close>

lemma file_roundtrip:
  assumes "encode_file payload epoch sequence = Inr out" and "length payload \<le> unat max_payload"
  shows "decode_file out max_payload = Inr (record_of (payload, epoch, sequence))"
  using assms by (simp add: encode_file_Inr decode_file_image record_of_def)

lemma file_canonical:
  assumes "decode_file bs max_payload = Inr st" and "unat max_payload \<le> kMaxSnapshotBytes"
  shows "sf_present st \<and> encode_file (sf_payload st) (sf_epoch st) (sf_sequence st) = Inr bs"
  using assms by (auto simp: decode_file_Inr encode_file_Inr)

section \<open>Properties\<close>

text \<open>
  A damaged state file is refused: an encoded file in which any one byte has another
  value does not decode, whichever byte it is and whatever its new value.
\<close>

lemma damaged_file_refused:
  assumes "encode_file payload epoch sequence = Inr out" and "i < length out" and "b \<noteq> out ! i"
  shows "isl (decode_file (out[i := b]) max_payload)"
proof (rule ccontr)
  assume "\<not> isl (decode_file (out[i := b]) max_payload)"
  then obtain st where "decode_file (out[i := b]) max_payload = Inr st"
    by (cases "decode_file (out[i := b]) max_payload") simp_all
  with assms file_image_one_byte show False by (auto simp: decode_file_Inr encode_file_Inr)
qed

lemma damaged_file_refused_witness:
  "isl (decode_file ((file_image [1, 2, 3] 7 1)[40 := 0]) 16)"
proof (rule damaged_file_refused [OF encode_file_image])
  show "40 < length (file_image [1, 2, 3] 7 1)" by (simp add: length_file_image)
  have "file_image [1, 2, 3] 7 1 ! 40 = le_bytes 4 kStateFileEnd ! 1"
    by (simp add: file_image_parts nth_append nth_Cons')
  also have "\<dots> \<noteq> 0" by (simp add: kStateFileEnd_def le_bytes_def) 
  finally show "0 \<noteq> file_image [1, 2, 3] 7 1 ! 40" by simp
qed (simp add: bound_defs)

text \<open>
  A torn state file is refused: no proper prefix of an encoded file decodes, and neither
  does the file with anything written after it.
\<close>

lemma torn_file_refused:
  assumes "encode_file payload epoch sequence = Inr out" and "length payload \<le> unat max_payload"
    and "torn @ rest = out \<and> rest \<noteq> [] \<or> (\<exists>rest. torn = out @ rest \<and> rest \<noteq> [])"
  shows "isl (decode_file torn max_payload)"
proof (rule ccontr)
  assume "\<not> isl (decode_file torn max_payload)"
  then obtain st where "decode_file torn max_payload = Inr st"
    by (cases "decode_file torn max_payload") simp_all
  with assms show False by (auto simp: decode_file_Inr encode_file_Inr dest: file_image_cut file_image_cut [OF sym])
qed

lemma torn_file_refused_witness:
  "isl (decode_file (take 42 (file_image [1, 2, 3] 7 1)) 16)"
  by (rule torn_file_refused [OF encode_file_image [of "[1, 2, 3]" 7 1], where rest = "drop 42 (file_image [1, 2, 3] 7 1)"])
    (simp_all add: bound_defs length_file_image)

text \<open>
  C19: a commit is all or nothing: whichever of its system calls fails, and wherever a crash
  cuts it short, the live file is the one before the commit or the complete new one, never a
  mixture; a commit that reports success leaves the new one, and only such a commit moves the
  sequence the store has seen.
\<close>

theorem commit_atomic:
  assumes "commit store d io payload epoch sequence = (r, store', ds)"
  shows "(\<forall>d' \<in> set ds. dk_live d' = dk_live d \<or> encode_file payload epoch sequence = Inr (the (dk_live d'))) \<and>
    (r = Inr () \<longrightarrow> encode_file payload epoch sequence = Inr (the (dk_live (last ds))) \<and>
       (so_last_sequence store = 0 \<or> so_last_sequence store < sequence)) \<and>
    store' = (if r = Inr () then store\<lparr>so_last_sequence := sequence\<rparr> else store)"
  using assms commit_states(4) [OF assms]
  by (auto simp: commit_def Let_def last_temporary split: if_splits sum.splits)

lemma commit_atomic_witness:
  "let (r, store', ds) = commit (open_store 16) \<lparr>dk_live = None, dk_temporary = None\<rparr> all_well [1, 2, 3] 7 1
   in r = Inr () \<and> so_last_sequence store' = 1 \<and> dk_live (last ds) = Some (file_image [1, 2, 3] 7 1)"
proof -
  obtain r store' ds where c: "commit (open_store 16) \<lparr>dk_live = None, dk_temporary = None\<rparr> all_well [1, 2, 3] 7 1 =
      (r, store', ds)" by (metis prod_cases3)
  moreover have r: "r = Inr ()"
    using c by (simp add: commit_def open_store_def encode_file_image all_well_def length_file_image bound_defs Let_def)
  ultimately show ?thesis
    using commit_atomic [OF c] commit_states(3) [OF c] by simp
qed

text \<open>
  C20: a restart finds a state that was committed: from a directory without a state file, after
  any number of commits, each run to its end or cut short by a crash, with any outcome of the
  system calls, what a load returns is an absent state or the very payload, epoch and sequence
  one of those commits was given.
\<close>

theorem restart_finds_commit:
  assumes "store_run max_payload d0 h store d" and "dk_live d0 = None"
    and "load store d io = Inr st" and "sf_present st"
  shows "st \<in> record_of ` set h"
proof -
  obtain content where c: "dk_live d = Some content" "decode_file content (so_max_payload_bytes store) = Inr st"
    using load_decodes [OF assms(3,4)] by blast
  with store_run_live [OF assms(1)] assms(2) obtain p e s
    where h: "(p, e, s) \<in> set h" and "content = file_image p e s" by auto
  with c have "length p \<le> unat (so_max_payload_bytes store)"
    by (auto simp: decode_file_Inr) (metis add_right_cancel length_file_image)
  then have "st = record_of (p, e, s)" using c \<open>content = _\<close> by (simp add: decode_file_image record_of_def)
  with h show ?thesis by blast
qed

lemma restart_finds_commit_witness:
  "\<exists>store d. store_run 16 \<lparr>dk_live = None, dk_temporary = None\<rparr> [([1, 2, 3], 7, 1)] store d \<and>
     record_of ([1, 2, 3], 7, 1) \<in> record_of ` set [([1, 2, 3], 7, 1)]"
proof -
  let ?d0 = "\<lparr>dk_live = None, dk_temporary = None\<rparr>"
  obtain r store' ds where c: "commit (open_store 16) ?d0 all_well [1, 2, 3] 7 1 = (r, store', ds)"
    by (metis prod_cases3)
  have r: "r = Inr ()"
    using c by (simp add: commit_def open_store_def encode_file_image all_well_def length_file_image bound_defs Let_def)
  have run: "store_run 16 ?d0 [([1, 2, 3], 7, 1)] (open_store 16) (last ds)"
    using crashed [OF opened c] commit_states(1) [OF c] by simp
  have "load (open_store 16) (last ds) \<lparr>io_probe = True, io_stat = True, io_open_read = True, io_read = 43\<rparr> =
      Inr (record_of ([1, 2, 3], 7, 1))"
    using commit_states(3) [OF c r]
    by (simp add: load_def length_file_image decode_file_image record_of_def open_store_def kStateFileHeaderBytes_def)
  from restart_finds_commit [OF run _ this] run show ?thesis by (auto simp: record_of_def)
qed

end
