(* ===== verification/Coordinator.thy ===== *)
theory Coordinator
  imports Blocks Store Api
begin

text \<open>
  \<^verbatim>\<open>src/coordinator.cpp\<close>: sessions in front of one fabric. A handler is a function from the
  coordinator and the session that serves the request to a response or an error and the new
  pair; \<^verbatim>\<open>then_do\<close> is the early return of the code. What the sockets, the file system and the
  clock answer are arguments. The texts that go with an error code are left out, as everywhere.
\<close>

section \<open>Tags and operation codes\<close>

definition kErrorCode :: u16 where "kErrorCode = 1"
definition kDetail :: u16 where "kDetail = 2"
definition kOperation :: u16 where "kOperation = 3"
definition kJob :: u16 where "kJob = 4"
definition kJobGeneration :: u16 where "kJobGeneration = 5"
definition kStep :: u16 where "kStep = 6"
definition kPhase :: u16 where "kPhase = 7"
definition kGroup :: u16 where "kGroup = 8"
definition kIntent :: u16 where "kIntent = 9"
definition kTopologyGeneration :: u16 where "kTopologyGeneration = 11"
definition kEpoch :: u16 where "kEpoch = 14"
definition kSession :: u16 where "kSession = 15"
definition kBootHi :: u16 where "kBootHi = 18"
definition kBootLo :: u16 where "kBootLo = 19"
definition kProtocolVersionField :: u16 where "kProtocolVersionField = 20"
definition kCoordinatorBootHi :: u16 where "kCoordinatorBootHi = 21"
definition kCoordinatorBootLo :: u16 where "kCoordinatorBootLo = 22"
definition kClientName :: u16 where "kClientName = 23"
definition kMaxSessions :: u16 where "kMaxSessions = 25"
definition kMaxPayloadField :: u16 where "kMaxPayloadField = 26"
definition kToken :: u16 where "kToken = 30"
definition kContract :: u16 where "kContract = 31"
definition kGroupRecord :: u16 where "kGroupRecord = 32"
definition kTopology :: u16 where "kTopology = 33"
definition kPolicy :: u16 where "kPolicy = 34"
definition kPhaseSpec :: u16 where "kPhaseSpec = 35"
definition kDeadlineAt :: u16 where "kDeadlineAt = 36"
definition kSlackTicks :: u16 where "kSlackTicks = 37"
definition kIntentRecord :: u16 where "kIntentRecord = 40"
definition kBytesTransferred :: u16 where "kBytesTransferred = 42"
definition kCancelled :: u16 where "kCancelled = 43"
definition kBurstId :: u16 where "kBurstId = 45"
definition kExpectedBytes :: u16 where "kExpectedBytes = 46"
definition kReasonText :: u16 where "kReasonText = 47"
definition kNewBootHi :: u16 where "kNewBootHi = 50"
definition kNewBootLo :: u16 where "kNewBootLo = 51"
definition kExpectedIncarnation :: u16 where "kExpectedIncarnation = 52"
definition kResumeStep :: u16 where "kResumeStep = 53"
definition kCauseCode :: u16 where "kCauseCode = 54"
definition kDecision :: u16 where "kDecision = 60"
definition kReceipt :: u16 where "kReceipt = 61"
definition kReport :: u16 where "kReport = 62"
definition kHandle :: u16 where "kHandle = 63"
definition kJobView :: u16 where "kJobView = 64"
definition kUtilizationList :: u16 where "kUtilizationList = 65"
definition kPolicyApplyResult :: u16 where "kPolicyApplyResult = 66"
definition kRecoveryGrant :: u16 where "kRecoveryGrant = 67"
definition kRevalidation :: u16 where "kRevalidation = 68"
definition kPacingDecision :: u16 where "kPacingDecision = 69"
definition kJobCount :: u16 where "kJobCount = 71"
definition kTruncated :: u16 where "kTruncated = 72"
definition kSessionCount :: u16 where "kSessionCount = 74"
definition kSessionsRefused :: u16 where "kSessionsRefused = 75"
definition kFramesIn :: u16 where "kFramesIn = 76"
definition kFramesOut :: u16 where "kFramesOut = 77"
definition kFramesRejected :: u16 where "kFramesRejected = 78"
definition kReplayRejections :: u16 where "kReplayRejections = 79"
definition kStateSequence :: u16 where "kStateSequence = 85"
definition kStateCommits :: u16 where "kStateCommits = 86"
definition kStatePath :: u16 where "kStatePath = 87"
definition kOperationalState :: u16 where "kOperationalState = 88"
definition kRebasedJobs :: u16 where "kRebasedJobs = 89"
definition kDisposition :: u16 where "kDisposition = 100"
definition kExpectedParticipants :: u16 where "kExpectedParticipants = 101"
definition kArrivedParticipants :: u16 where "kArrivedParticipants = 102"
definition kGraceTicks :: u16 where "kGraceTicks = 103"
definition kMaxHoldTicks :: u16 where "kMaxHoldTicks = 104"
definition kReleaseOnDeadline :: u16 where "kReleaseOnDeadline = 105"
definition kFrameFlagsResponse :: u32 where "kFrameFlagsResponse = 1"

datatype operation_code = OC_Invalid | OC_RegisterJob | OC_RegisterGroup | OC_PublishTopology | OC_ApplyPolicy
  | OC_RetireJob | OC_RebaseEpoch | OC_BeginStep | OC_BeginPhase | OC_EndPhase | OC_EndStep | OC_RequestTraffic
  | OC_CompleteFlow | OC_RevalidateFlow | OC_BeginCheckpointBurst | OC_EndCheckpointBurst | OC_EvaluatePacing
  | OC_AdmitReplacement | OC_RetireIncarnation | OC_LookupJob | OC_LookupHandle | OC_LookupDecision
  | OC_LookupStepReport | OC_LookupFlowReceipt | OC_GroupUtilization | OC_CurrentPolicy | OC_Status | OC_Shutdown

definition operation_codes :: "operation_code list" where
  "operation_codes = [OC_Invalid, OC_RegisterJob, OC_RegisterGroup, OC_PublishTopology, OC_ApplyPolicy,
     OC_RetireJob, OC_RebaseEpoch, OC_BeginStep, OC_BeginPhase, OC_EndPhase, OC_EndStep, OC_RequestTraffic,
     OC_CompleteFlow, OC_RevalidateFlow, OC_BeginCheckpointBurst, OC_EndCheckpointBurst, OC_EvaluatePacing,
     OC_AdmitReplacement, OC_RetireIncarnation, OC_LookupJob, OC_LookupHandle, OC_LookupDecision,
     OC_LookupStepReport, OC_LookupFlowReceipt, OC_GroupUtilization, OC_CurrentPolicy, OC_Status, OC_Shutdown]"

text \<open>\<^verbatim>\<open>to_string(OperationCode)\<close>: a name for every code, no two alike.\<close>

primrec operation_name :: "operation_code \<Rightarrow> string" where
  "operation_name OC_Invalid = ''INVALID''"
| "operation_name OC_RegisterJob = ''REGISTER_JOB''"
| "operation_name OC_RegisterGroup = ''REGISTER_GROUP''"
| "operation_name OC_PublishTopology = ''PUBLISH_TOPOLOGY''"
| "operation_name OC_ApplyPolicy = ''APPLY_POLICY''"
| "operation_name OC_RetireJob = ''RETIRE_JOB''"
| "operation_name OC_RebaseEpoch = ''REBASE_EPOCH''"
| "operation_name OC_BeginStep = ''BEGIN_STEP''"
| "operation_name OC_BeginPhase = ''BEGIN_PHASE''"
| "operation_name OC_EndPhase = ''END_PHASE''"
| "operation_name OC_EndStep = ''END_STEP''"
| "operation_name OC_RequestTraffic = ''REQUEST_TRAFFIC''"
| "operation_name OC_CompleteFlow = ''COMPLETE_FLOW''"
| "operation_name OC_RevalidateFlow = ''REVALIDATE_FLOW''"
| "operation_name OC_BeginCheckpointBurst = ''BEGIN_CHECKPOINT_BURST''"
| "operation_name OC_EndCheckpointBurst = ''END_CHECKPOINT_BURST''"
| "operation_name OC_EvaluatePacing = ''EVALUATE_PACING''"
| "operation_name OC_AdmitReplacement = ''ADMIT_REPLACEMENT''"
| "operation_name OC_RetireIncarnation = ''RETIRE_INCARNATION''"
| "operation_name OC_LookupJob = ''LOOKUP_JOB''"
| "operation_name OC_LookupHandle = ''LOOKUP_HANDLE''"
| "operation_name OC_LookupDecision = ''LOOKUP_DECISION''"
| "operation_name OC_LookupStepReport = ''LOOKUP_STEP_REPORT''"
| "operation_name OC_LookupFlowReceipt = ''LOOKUP_FLOW_RECEIPT''"
| "operation_name OC_GroupUtilization = ''GROUP_UTILIZATION''"
| "operation_name OC_CurrentPolicy = ''CURRENT_POLICY''"
| "operation_name OC_Status = ''STATUS''"
| "operation_name OC_Shutdown = ''SHUTDOWN''"

lemma operation_names_distinct: "distinct (map operation_name operation_codes)"
  by (simp add: operation_codes_def)

primrec position :: "'a \<Rightarrow> 'a list \<Rightarrow> nat" where
  "position x [] = 0"
| "position x (y # ys) = (if x = y then 0 else Suc (position x ys))"

definition operation_raw :: "operation_code \<Rightarrow> u16" where
  "operation_raw op = of_nat (position op operation_codes)"

section \<open>State\<close>

text \<open>One client connection: its proven identity and its replay state. The socket and the thread are not kept.\<close>

record session =
  sn_id :: session_id
  sn_boot :: boot_id
  sn_window :: replay_window
  sn_finished :: bool
  sn_shutdown_requested :: bool
  sn_out_sequence :: u64
  sn_requests :: u64
  sn_job :: training_job_id
  sn_job_generation :: training_generation
  sn_incarnation :: incarnation_id
  sn_epoch :: epoch_id
  sn_bound :: bool

definition new_session :: "session_id \<Rightarrow> session" where
  "new_session ident = \<lparr>sn_id = ident, sn_boot = BootId 0 0, sn_window = make_window 256, sn_finished = False,
     sn_shutdown_requested = False, sn_out_sequence = 0, sn_requests = 0, sn_job = 0, sn_job_generation = 0,
     sn_incarnation = 0, sn_epoch = 0, sn_bound = False\<rparr>"

record coordinator_config =
  cc_max_sessions :: u32
  cc_max_requests_per_session :: u64
  cc_enable_state_store :: bool
  cc_state_directory :: bytes
  cc_allow_shutdown_operation :: bool
  cc_allow_rebase_operation :: bool
  cc_fabric :: fabric_config

record coordinator_stats =
  ks_sessions_accepted :: u64
  ks_sessions_refused :: u64
  ks_frames_in :: u64
  ks_frames_out :: u64
  ks_frames_rejected :: u64
  ks_replay_rejections :: u64
  ks_bytes_in :: u64
  ks_bytes_out :: u64
  ks_requests_handled :: u64
  ks_state_commits :: u64
  ks_state_sequence :: u64
  ks_epoch :: u64

definition no_coordinator_stats :: coordinator_stats where
  "no_coordinator_stats = \<lparr>ks_sessions_accepted = 0, ks_sessions_refused = 0, ks_frames_in = 0, ks_frames_out = 0,
     ks_frames_rejected = 0, ks_replay_rejections = 0, ks_bytes_in = 0, ks_bytes_out = 0, ks_requests_handled = 0,
     ks_state_commits = 0, ks_state_sequence = 0, ks_epoch = 0\<rparr>"

text \<open>The disk the store writes to is part of the state; the path is what \<^verbatim>\<open>store->path()\<close> answers.\<close>

record coordinator =
  co_config :: coordinator_config
  co_fabric :: fabric_state
  co_store :: "state_store option"
  co_disk :: disk
  co_state_path :: bytes
  co_stopping :: bool
  co_stopped :: bool
  co_degraded :: bool
  co_next_ordinal :: u32
  co_epoch :: epoch_id
  co_boot :: boot_id
  co_commit_sequence :: u64
  co_sessions :: "(session_id, session) table"
  co_stats :: coordinator_stats

definition coordinator_impl :: "coordinator_config \<Rightarrow> disk \<Rightarrow> bytes \<Rightarrow> u64 \<Rightarrow> coordinator" where
  "coordinator_impl config d path clock_seed = \<lparr>co_config = config, co_fabric = make_fabric (cc_fabric config),
     co_store = None, co_disk = d, co_state_path = path, co_stopping = False, co_stopped = False,
     co_degraded = False, co_next_ordinal = 1, co_epoch = 0, co_boot = mint_boot clock_seed,
     co_commit_sequence = 0, co_sessions = [], co_stats = no_coordinator_stats\<rparr>"

definition make_nonce :: "u64 \<Rightarrow> u64 \<Rightarrow> u64" where
  "make_nonce a b = (let mixed = mix_seed a b in if mixed = 0 then 1 else mixed)"

definition on_stats :: "(coordinator_stats \<Rightarrow> coordinator_stats) \<Rightarrow> coordinator \<Rightarrow> coordinator" where
  "on_stats f co = co\<lparr>co_stats := f (co_stats co)\<rparr>"

definition reject_frame :: "coordinator \<Rightarrow> coordinator" where
  "reject_frame = on_stats (\<lambda>s. s\<lparr>ks_frames_rejected := ks_frames_rejected s + 1\<rparr>)"

section \<open>Durable commit\<close>

text \<open>The snapshot and the sequence are taken first, then the file is written, then the sequence is published.\<close>

definition take_commit :: "coordinator \<Rightarrow> (bytes \<times> u64) result" where
  "take_commit co =
     (if co_degraded co then Inl EC_NotReady
      else rbind (serialize_state (co_fabric co)) (\<lambda>payload. Inr (payload, co_commit_sequence co + 1)))"

definition write_commit :: "commit_answers \<Rightarrow> bytes \<Rightarrow> u64 \<Rightarrow> coordinator \<Rightarrow> status \<times> coordinator" where
  "write_commit io payload sequence co =
     (case co_store co of
        None \<Rightarrow> (Inr (), co)
      | Some store \<Rightarrow>
          (case commit store (co_disk co) io payload (co_epoch co) sequence of
             (r, store', ds) \<Rightarrow>
               let co1 = co\<lparr>co_store := Some store', co_disk := last ds\<rparr>
               in if r \<noteq> Inr () then (r, co1\<lparr>co_degraded := True\<rparr>)
                  else (Inr (), on_stats (\<lambda>s. s\<lparr>ks_state_commits := ks_state_commits s + 1, ks_state_sequence := sequence\<rparr>)
                         (co1\<lparr>co_commit_sequence := sequence\<rparr>))))"

definition commit_state :: "commit_answers \<Rightarrow> coordinator \<Rightarrow> status \<times> coordinator" where
  "commit_state io co =
     (if co_store co = None then (Inr (), co)
      else case take_commit co of
        Inl e \<Rightarrow> (Inl e, co)
      | Inr (payload, sequence) \<Rightarrow> write_commit io payload sequence co)"

section \<open>Messages out\<close>

text \<open>
  The answer of \<^verbatim>\<open>SendAll\<close> is an argument. The frame is what goes out; the sequence advances
  before anything that may fail after the message is encoded.
\<close>

definition send_message ::
  "status \<Rightarrow> message \<Rightarrow> coordinator \<times> session \<Rightarrow> bytes result \<times> (coordinator \<times> session)" where
  "send_message sent m st = (case st of (co, s) \<Rightarrow>
     (case encode_message m of
        Inl e \<Rightarrow> (Inl e, co, s)
      | Inr payload \<Rightarrow>
          let sequence = sn_out_sequence s + 1; s1 = s\<lparr>sn_out_sequence := sequence\<rparr>
          in (case encode_frame (message_type_raw (ms_type m)) kFrameFlagsResponse (sn_id s) sequence
                 (make_nonce (sn_id s) sequence) payload of
                Inl e \<Rightarrow> (Inl e, co, s1)
              | Inr fr \<Rightarrow>
                  (case sent of
                     Inl e \<Rightarrow> (Inl e, co, s1)
                   | Inr _ \<Rightarrow> (Inr fr, on_stats (\<lambda>k. k\<lparr>ks_frames_out := ks_frames_out k + 1,
                         ks_bytes_out := ks_bytes_out k + of_nat (length fr)\<rparr>) co, s1)))))"

definition protocol_error :: "error_code \<Rightarrow> message" where
  "protocol_error code = set_text kDetail [] (set_u16 kErrorCode (error_raw code) (new_message MT_Error))"

definition make_response :: "operation_code \<Rightarrow> message" where
  "make_response op = set_u16 kOperation (operation_raw op) (new_message MT_Response)"

definition error_response :: "operation_code \<Rightarrow> error_code \<Rightarrow> message" where
  "error_response op code = set_error code [] (make_response op)"

definition ok_response :: "operation_code \<Rightarrow> message" where
  "ok_response op = set_error EC_Ok [] (make_response op)"

section \<open>Frames in\<close>

datatype frame_read = FrameOk frame | FrameClosed | FrameError error_code

text \<open>
  The header and the tail are what \<^verbatim>\<open>ReceiveExact\<close> returns for them: an error, or the bytes it got,
  fewer than asked for where the peer closed the connection.
\<close>

definition read_frame :: "bytes result \<Rightarrow> (nat \<Rightarrow> bytes result) \<Rightarrow> coordinator \<Rightarrow> frame_read \<times> coordinator" where
  "read_frame header tail co =
     (if co_stopping co then (FrameClosed, co)
      else case header of
        Inl e \<Rightarrow> (FrameError e, co)
      | Inr h \<Rightarrow>
          if length h = 0 then (FrameClosed, co)
          else if length h \<noteq> kFrameHeaderBytes then (FrameError EC_Truncated, co)
          else (case frame_payload_length h of
             Inl e \<Rightarrow> (FrameError e, co)
           | Inr n \<Rightarrow>
               (case tail (unat n + 4) of
                  Inl e \<Rightarrow> (FrameError e, co)
                | Inr t \<Rightarrow>
                    if length t \<noteq> unat n + 4 then (FrameError EC_Truncated, co)
                    else (case decode_frame (h @ t) of
                       Inl e \<Rightarrow> (FrameError e, co)
                     | Inr f \<Rightarrow> (FrameOk f, on_stats (\<lambda>k. k\<lparr>ks_frames_in := ks_frames_in k + 1,
                           ks_bytes_in := ks_bytes_in k + of_nat (length (h @ t))\<rparr>) co)))))"

section \<open>Handlers\<close>

type_synonym 'a handler = "coordinator \<times> session \<Rightarrow> 'a result \<times> (coordinator \<times> session)"

definition then_do :: "'a handler \<Rightarrow> ('a \<Rightarrow> 'b handler) \<Rightarrow> 'b handler" where
  "then_do m k st = (case m st of (Inl e, st') \<Rightarrow> (Inl e, st') | (Inr x, st') \<Rightarrow> k x st')"

definition given :: "'a result \<Rightarrow> 'a handler" where
  "given r st = (r, st)"

definition look :: "(coordinator \<Rightarrow> session \<Rightarrow> 'a result) \<Rightarrow> 'a handler" where
  "look f st = (f (fst st) (snd st), st)"

text \<open>A call of the fabric, and the commit that has to succeed before a mutation is answered.\<close>

definition call_fabric :: "(fabric_state \<Rightarrow> 'a outcome) \<Rightarrow> 'a handler" where
  "call_fabric f st = (case f (co_fabric (fst st)) of (r, fb) \<Rightarrow> (r, (fst st)\<lparr>co_fabric := fb\<rparr>, snd st))"

definition persist :: "commit_answers \<Rightarrow> unit handler" where
  "persist io st = (case commit_state io (fst st) of (r, co) \<Rightarrow> (r, co, snd st))"

definition on_session :: "(coordinator \<Rightarrow> session \<Rightarrow> session) \<Rightarrow> unit handler" where
  "on_session f st = (Inr (), fst st, f (fst st) (snd st))"

definition on_coordinator :: "(coordinator \<Rightarrow> coordinator) \<Rightarrow> unit handler" where
  "on_coordinator f st = (Inr (), f (fst st), snd st)"

definition ensure_bound :: "session \<Rightarrow> status" where
  "ensure_bound s = check (sn_bound s) EC_NotReady"

definition session_envelope :: "coordinator \<Rightarrow> session \<Rightarrow> authority_token" where
  "session_envelope co s = empty_token\<lparr>at_job := sn_job s, at_job_generation := sn_job_generation s,
     at_incarnation := sn_incarnation s, at_boot := sn_boot s, at_session := sn_id s, at_epoch := co_epoch co\<rparr>"

definition require_block :: "message \<Rightarrow> u16 \<Rightarrow> bytes result" where
  "require_block m tag = (case get_block m tag of Inl _ \<Rightarrow> Inl EC_MissingField | Inr b \<Rightarrow> Inr b)"

definition token_from :: "message \<Rightarrow> coordinator \<Rightarrow> session \<Rightarrow> authority_token result" where
  "token_from request co s =
     rbind (ensure_bound s) (\<lambda>_.
     rbind (require_block request kToken) (\<lambda>block.
     rbind (decode_token_block block) (\<lambda>token.
     (case rebind_from token (session_envelope co s) of (rebind, rebound) \<Rightarrow>
       if rebind_any rebind then Inl EC_AuthorityMismatch else Inr rebound))))"

definition bind_session :: "job_handle \<Rightarrow> coordinator \<Rightarrow> session \<Rightarrow> session" where
  "bind_session handle co s = s\<lparr>sn_job := jh_job handle, sn_job_generation := jh_generation handle,
     sn_incarnation := jh_incarnation handle, sn_epoch := co_epoch co, sn_bound := True\<rparr>"

text \<open>A block that cannot be encoded is an internal error.\<close>

definition encoded :: "bytes result \<Rightarrow> bytes result" where
  "encoded r = (case r of Inl _ \<Rightarrow> Inl EC_Internal | Inr b \<Rightarrow> Inr b)"

definition answer :: "message \<Rightarrow> message handler" where
  "answer m = given (Inr m)"

definition answer_block :: "message \<Rightarrow> u16 \<Rightarrow> bytes result \<Rightarrow> message handler" where
  "answer_block response tag block = then_do (given (encoded block)) (\<lambda>b. answer (set_block tag b response))"

section \<open>Operations that change the durable state\<close>

definition serve_register_job :: "commit_answers \<Rightarrow> message \<Rightarrow> message handler" where
  "serve_register_job io request =
     then_do (look (\<lambda>co s. check (\<not> sn_bound s) EC_Conflict)) (\<lambda>_.
     then_do (given (require_block request kContract)) (\<lambda>block.
     then_do (given (decode_contract_block block)) (\<lambda>contract.
     then_do (look (\<lambda>co s. Inr \<lparr>jr_job = 0, jr_name = get_text_or request kClientName (ascii ''training-job''),
       jr_boot = sn_boot s, jr_contract = contract, jr_incarnation = 0, jr_epoch = co_epoch co\<rparr>)) (\<lambda>registration.
     then_do (call_fabric (\<lambda>st. RegisterJob st registration)) (\<lambda>handle.
     then_do (persist io) (\<lambda>_.
     then_do (on_session (bind_session handle)) (\<lambda>_.
     answer_block (ok_response OC_RegisterJob) kHandle (encode_handle_block handle))))))))"

definition serve_register_group :: "commit_answers \<Rightarrow> message \<Rightarrow> message handler" where
  "serve_register_group io request =
     then_do (look (token_from request)) (\<lambda>token.
     then_do (given (require_block request kGroupRecord)) (\<lambda>block.
     then_do (given (decode_group_block block)) (\<lambda>grp.
     then_do (call_fabric (\<lambda>st. RegisterGroup st \<lparr>gr_authority = token, gr_group = grp\<rparr>)) (\<lambda>_.
     then_do (persist io) (\<lambda>_.
     answer (ok_response OC_RegisterGroup))))))"

definition serve_publish_topology :: "commit_answers \<Rightarrow> message \<Rightarrow> message handler" where
  "serve_publish_topology io request =
     then_do (look (token_from request)) (\<lambda>token.
     then_do (given (require_block request kTopology)) (\<lambda>block.
     then_do (given (decode_topology_block block)) (\<lambda>evidence.
     then_do (call_fabric (\<lambda>st. PublishTopologyEvidence st token evidence)) (\<lambda>generation.
     then_do (persist io) (\<lambda>_.
     answer (set_u64 kTopologyGeneration generation (ok_response OC_PublishTopology)))))))"

definition serve_apply_policy :: "commit_answers \<Rightarrow> message \<Rightarrow> message handler" where
  "serve_apply_policy io request =
     then_do (given (require_block request kPolicy)) (\<lambda>block.
     then_do (given (decode_policy_block block)) (\<lambda>policy.
     then_do (call_fabric (\<lambda>st. ApplyPolicy st policy)) (\<lambda>applied.
     then_do (persist io) (\<lambda>_.
     answer_block (ok_response OC_ApplyPolicy) kPolicyApplyResult (encode_policy_apply_block applied)))))"

definition serve_retire_job :: "commit_answers \<Rightarrow> message \<Rightarrow> message handler" where
  "serve_retire_job io request =
     then_do (look (token_from request)) (\<lambda>token.
     then_do (call_fabric (\<lambda>st. RetireJob st token)) (\<lambda>_.
     then_do (persist io) (\<lambda>_.
     answer (ok_response OC_RetireJob))))"

definition serve_rebase_epoch :: "commit_answers \<Rightarrow> message \<Rightarrow> message handler" where
  "serve_rebase_epoch io request =
     then_do (look (\<lambda>co s. check (cc_allow_rebase_operation (co_config co)) EC_NotSupported)) (\<lambda>_.
     (let requested = get_u64_or request kEpoch 0
      in then_do (call_fabric (\<lambda>st. RebaseEpoch st requested)) (\<lambda>rebased.
         then_do (on_coordinator (\<lambda>co. on_stats (\<lambda>k. k\<lparr>ks_epoch := requested\<rparr>) (co\<lparr>co_epoch := requested\<rparr>))) (\<lambda>_.
         then_do (persist io) (\<lambda>_.
         answer (set_u32 kRebasedJobs rebased (ok_response OC_RebaseEpoch)))))))"

definition serve_begin_step :: "commit_answers \<Rightarrow> message \<Rightarrow> message handler" where
  "serve_begin_step io request =
     then_do (look (token_from request)) (\<lambda>token.
     then_do (call_fabric (\<lambda>st. BeginStep st \<lparr>so_authority = token, so_step = get_u64_or request kStep 0,
       so_deadline_at = get_u64_or request kDeadlineAt 0, so_slack_ticks = get_u64_or request kSlackTicks 0\<rparr>)) (\<lambda>report.
     then_do (persist io) (\<lambda>_.
     answer_block (ok_response OC_BeginStep) kReport (encode_report_block report))))"

definition serve_begin_phase :: "commit_answers \<Rightarrow> message \<Rightarrow> message handler" where
  "serve_begin_phase io request =
     then_do (look (token_from request)) (\<lambda>token.
     then_do (given (require_block request kPhaseSpec)) (\<lambda>block.
     then_do (given (decode_phase_spec_block block)) (\<lambda>spec.
     then_do (call_fabric (\<lambda>st. BeginPhase st \<lparr>po_authority = token, po_spec = spec\<rparr>)) (\<lambda>rec.
     then_do (persist io) (\<lambda>_.
     answer (set_u64 kPhase (pr_id rec) (ok_response OC_BeginPhase)))))))"

definition serve_end_phase :: "commit_answers \<Rightarrow> message \<Rightarrow> message handler" where
  "serve_end_phase io request =
     then_do (look (token_from request)) (\<lambda>token.
     (let phase = get_u64_or request kPhase 0; disposition = get_u64_or request kDisposition 0
      in then_do (given (check (\<not> unat disposition > phase_disposition_raw PhaseFenced) EC_OutOfRange)) (\<lambda>_.
         then_do (call_fabric (\<lambda>st. EndPhase st token phase (dispositions ! unat disposition))) (\<lambda>_.
         then_do (persist io) (\<lambda>_.
         answer (ok_response OC_EndPhase))))))"

definition step_dispositions :: "step_disposition list" where
  "step_dispositions = [StepCompleted, StepCancelled, StepFenced]"

definition serve_end_step :: "commit_answers \<Rightarrow> message \<Rightarrow> message handler" where
  "serve_end_step io request =
     then_do (look (token_from request)) (\<lambda>token.
     (let disposition = get_u64_or request kDisposition 0
      in then_do (given (check (\<not> unat disposition > 2) EC_OutOfRange)) (\<lambda>_.
         then_do (call_fabric (\<lambda>st. EndStep st token (step_dispositions ! unat disposition))) (\<lambda>report.
         then_do (persist io) (\<lambda>_.
         answer_block (ok_response OC_EndStep) kReport (encode_report_block report))))))"

definition serve_admit_replacement :: "commit_answers \<Rightarrow> message \<Rightarrow> message handler" where
  "serve_admit_replacement io request =
     then_do (look (\<lambda>co s. Inr \<lparr>rr_job = get_u64_or request kJob 0,
       rr_job_generation = get_u64_or request kJobGeneration 0,
       rr_new_boot = BootId (get_u64_or request kNewBootHi 0) (get_u64_or request kNewBootLo 0),
       rr_expected_retired_incarnation = get_u64_or request kExpectedIncarnation 0, rr_epoch = co_epoch co,
       rr_resume_step = get_u64_or request kResumeStep 0,
       rr_cause = ErrorCode (ucast (get_u64_or request kCauseCode 0))\<rparr>)) (\<lambda>recovery.
     then_do (look (\<lambda>co s. check (\<not> rr_new_boot recovery \<noteq> sn_boot s) EC_AuthorityMismatch)) (\<lambda>_.
     then_do (call_fabric (\<lambda>st. AdmitReplacement st recovery)) (\<lambda>grant.
     then_do (persist io) (\<lambda>_.
     then_do (on_session (\<lambda>co s. s\<lparr>sn_job := rg_job grant, sn_job_generation := rg_job_generation grant,
       sn_incarnation := rg_new_incarnation grant, sn_bound := True\<rparr>)) (\<lambda>_.
     answer_block (ok_response OC_AdmitReplacement) kRecoveryGrant (encode_recovery_grant_block grant))))))"

definition serve_retire_incarnation :: "commit_answers \<Rightarrow> message \<Rightarrow> message handler" where
  "serve_retire_incarnation io request =
     then_do (look (token_from request)) (\<lambda>token.
     then_do (call_fabric (\<lambda>st. RetireIncarnation st token)) (\<lambda>_.
     then_do (persist io) (\<lambda>_.
     answer (ok_response OC_RetireIncarnation))))"

section \<open>Operations of the running session\<close>

definition serve_request_traffic :: "message \<Rightarrow> message handler" where
  "serve_request_traffic request =
     then_do (look (token_from request)) (\<lambda>token.
     then_do (given (require_block request kIntentRecord)) (\<lambda>block.
     then_do (given (decode_intent_block block)) (\<lambda>intent.
     then_do (call_fabric (\<lambda>st. RequestTraffic st (intent\<lparr>ti_authority := token\<rparr>))) (\<lambda>decision.
     answer_block (set_error (td_reason decision) [] (make_response OC_RequestTraffic)) kDecision
       (encode_decision_block decision)))))"

definition serve_complete_flow :: "message \<Rightarrow> message handler" where
  "serve_complete_flow request =
     then_do (look (token_from request)) (\<lambda>token.
     then_do (call_fabric (\<lambda>st. CompleteFlow st \<lparr>fc_authority = token, fc_intent = get_u64_or request kIntent 0,
       fc_bytes_transferred = get_u64_or request kBytesTransferred 0,
       fc_cancelled = (get_u64_or request kCancelled 0 \<noteq> 0)\<rparr>)) (\<lambda>receipt.
     answer_block (ok_response OC_CompleteFlow) kReceipt (encode_receipt_block receipt)))"

definition serve_revalidate_flow :: "message \<Rightarrow> message handler" where
  "serve_revalidate_flow request =
     then_do (look (token_from request)) (\<lambda>token.
     then_do (call_fabric (\<lambda>st. RevalidateFlow st token (get_u64_or request kIntent 0))) (\<lambda>r.
     answer_block (set_error (rv_reason r) [] (make_response OC_RevalidateFlow)) kRevalidation
       (encode_revalidation_block r)))"

definition serve_begin_burst :: "message \<Rightarrow> message handler" where
  "serve_begin_burst request =
     then_do (look (token_from request)) (\<lambda>token.
     then_do (call_fabric (\<lambda>st. BeginCheckpointBurst st \<lparr>cb_authority = token,
       cb_group = get_u64_or request kGroup 0, cb_expected_bytes = get_u64_or request kExpectedBytes 0,
       cb_deadline_at = get_u64_or request kDeadlineAt 0, cb_reason = get_text_or request kReasonText []\<rparr>)) (\<lambda>ident.
     answer (set_u64 kBurstId ident (ok_response OC_BeginCheckpointBurst))))"

definition serve_end_burst :: "message \<Rightarrow> message handler" where
  "serve_end_burst request =
     then_do (look (token_from request)) (\<lambda>token.
     then_do (call_fabric (\<lambda>st. EndCheckpointBurst st token (get_u64_or request kBurstId 0))) (\<lambda>_.
     answer (ok_response OC_EndCheckpointBurst)))"

definition serve_evaluate_pacing :: "message \<Rightarrow> message handler" where
  "serve_evaluate_pacing request =
     then_do (look (token_from request)) (\<lambda>token.
     then_do (call_fabric (\<lambda>st. EvaluatePacing st \<lparr>pi_authority = token, pi_group = get_u64_or request kGroup 0,
       pi_expected_participants = ucast (get_u64_or request kExpectedParticipants 0),
       pi_arrived_participants = ucast (get_u64_or request kArrivedParticipants 0),
       pi_grace_ticks = get_u64_or request kGraceTicks 0, pi_max_hold_ticks = get_u64_or request kMaxHoldTicks 0,
       pi_release_on_deadline = (get_u64_or request kReleaseOnDeadline 1 \<noteq> 0)\<rparr>)) (\<lambda>decision.
     answer_block (set_error (pn_reason decision) [] (make_response OC_EvaluatePacing)) kPacingDecision
       (encode_pacing_decision_block decision)))"

section \<open>Views\<close>

definition view_fabric :: "(fabric_state \<Rightarrow> 'a result) \<Rightarrow> 'a handler" where
  "view_fabric f = look (\<lambda>co s. f (co_fabric co))"

definition serve_lookup_job :: "message \<Rightarrow> message handler" where
  "serve_lookup_job request =
     then_do (view_fabric (\<lambda>st. lookup_job st (get_u64_or request kJob 0))) (\<lambda>view.
     answer_block (ok_response OC_LookupJob) kJobView (encode_job_view_block view))"

definition serve_lookup_handle :: "message \<Rightarrow> message handler" where
  "serve_lookup_handle request =
     then_do (view_fabric (\<lambda>st. lookup_handle st (get_u64_or request kJob 0))) (\<lambda>handle.
     then_do (given (encoded (encode_handle_block handle))) (\<lambda>block.
     then_do (on_session (bind_session handle)) (\<lambda>_.
     answer (set_block kHandle block (ok_response OC_LookupHandle)))))"

definition serve_lookup_decision :: "message \<Rightarrow> message handler" where
  "serve_lookup_decision request =
     then_do (view_fabric (\<lambda>st. lookup_decision st (get_u64_or request kJob 0) (get_u64_or request kIntent 0))) (\<lambda>decision.
     answer_block (ok_response OC_LookupDecision) kDecision (encode_decision_block decision))"

definition serve_lookup_step_report :: "message \<Rightarrow> message handler" where
  "serve_lookup_step_report request =
     then_do (view_fabric (\<lambda>st. lookup_step_report st (get_u64_or request kJob 0) (get_u64_or request kStep 0))) (\<lambda>report.
     answer_block (ok_response OC_LookupStepReport) kReport (encode_report_block report))"

definition serve_lookup_flow_receipt :: "message \<Rightarrow> message handler" where
  "serve_lookup_flow_receipt request =
     then_do (view_fabric (\<lambda>st. lookup_flow_receipt st (get_u64_or request kJob 0) (get_u64_or request kIntent 0))) (\<lambda>receipt.
     answer_block (ok_response OC_LookupFlowReceipt) kReceipt (encode_receipt_block receipt))"

definition serve_group_utilization :: "message \<Rightarrow> message handler" where
  "serve_group_utilization request =
     then_do (view_fabric (\<lambda>st. group_utilization st (get_u64_or request kJob 0))) (\<lambda>utilization.
     answer_block (ok_response OC_GroupUtilization) kUtilizationList (encode_utilization_list_block utilization))"

definition serve_current_policy :: "message \<Rightarrow> message handler" where
  "serve_current_policy request =
     then_do (view_fabric current_policy) (\<lambda>policy.
     answer_block (ok_response OC_CurrentPolicy) kPolicy (encode_policy_block policy))"

text \<open>At most 32 jobs are summarised in a status.\<close>

definition put_job_summary :: "fabric_state \<Rightarrow> training_job_id \<Rightarrow> writer \<Rightarrow> writer" where
  "put_job_summary st i = (case lookup_job st i of
     Inl _ \<Rightarrow> put_u64 0
   | Inr v \<Rightarrow> writes [put_u64 (jv_job v), put_u64 (jv_generation v), put_u64 (jv_incarnation v),
       put_u64 (jv_current_step v), put_u32 (jv_active_flows v), put_u64 (sa_bytes_committed (jv_accounting v)),
       put_bool (jv_step_active v)])"

definition status_jobs :: "fabric_state \<Rightarrow> message \<Rightarrow> message" where
  "status_jobs st m = (case list_jobs st of
     Inl _ \<Rightarrow> m
   | Inr jobs \<Rightarrow>
       let limit = min (length jobs) 32;
           w = writes [put_u32 (of_nat limit), writes (map (put_job_summary st) (take limit jobs))]
                 (make_writer (16 * 1024));
           m1 = set_u64 kJobCount (of_nat (length jobs)) m;
           m2 = (if writer_ok w then set_block kJobView (bw_buffer w) m1 else m1)
       in set_bool kTruncated (length jobs > limit) m2)"

definition serve_status :: "message \<Rightarrow> message handler" where
  "serve_status request =
     then_do (look (\<lambda>co s. Inr co)) (\<lambda>co.
     (let k = co_stats co;
          m1 = set_bool kOperationalState (co_degraded co) (set_u64 kStateSequence (ks_state_sequence k)
            (set_u64 kStateCommits (ks_state_commits k) (set_u64 kReplayRejections (ks_replay_rejections k)
            (set_u64 kFramesRejected (ks_frames_rejected k) (set_u64 kFramesOut (ks_frames_out k)
            (set_u64 kFramesIn (ks_frames_in k) (set_u64 kSessionsRefused (ks_sessions_refused k)
            (set_u64 kSessionCount (of_nat (length (co_sessions co))) (set_u64 kCoordinatorBootLo (boot_lo (co_boot co))
            (set_u64 kCoordinatorBootHi (boot_hi (co_boot co)) (set_u64 kEpoch (co_epoch co)
            (ok_response OC_Status))))))))))));
          m2 = (if co_store co \<noteq> None then set_text kStatePath (co_state_path co) m1 else m1)
      in answer (status_jobs (co_fabric co) m2)))"

definition serve_shutdown :: "message \<Rightarrow> message handler" where
  "serve_shutdown request =
     then_do (look (\<lambda>co s. check (cc_allow_shutdown_operation (co_config co)) EC_NotSupported)) (\<lambda>_.
     then_do (on_session (\<lambda>co s. s\<lparr>sn_shutdown_requested := True\<rparr>)) (\<lambda>_.
     answer (ok_response OC_Shutdown)))"

section \<open>Dispatch\<close>

definition serve :: "commit_answers \<Rightarrow> operation_code \<Rightarrow> message \<Rightarrow> message handler" where
  "serve io op request = (case op of
      OC_Invalid \<Rightarrow> given (Inl EC_UnsupportedMessage)
    | OC_RegisterJob \<Rightarrow> serve_register_job io request
    | OC_RegisterGroup \<Rightarrow> serve_register_group io request
    | OC_PublishTopology \<Rightarrow> serve_publish_topology io request
    | OC_ApplyPolicy \<Rightarrow> serve_apply_policy io request
    | OC_RetireJob \<Rightarrow> serve_retire_job io request
    | OC_RebaseEpoch \<Rightarrow> serve_rebase_epoch io request
    | OC_BeginStep \<Rightarrow> serve_begin_step io request
    | OC_BeginPhase \<Rightarrow> serve_begin_phase io request
    | OC_EndPhase \<Rightarrow> serve_end_phase io request
    | OC_EndStep \<Rightarrow> serve_end_step io request
    | OC_RequestTraffic \<Rightarrow> serve_request_traffic request
    | OC_CompleteFlow \<Rightarrow> serve_complete_flow request
    | OC_RevalidateFlow \<Rightarrow> serve_revalidate_flow request
    | OC_BeginCheckpointBurst \<Rightarrow> serve_begin_burst request
    | OC_EndCheckpointBurst \<Rightarrow> serve_end_burst request
    | OC_EvaluatePacing \<Rightarrow> serve_evaluate_pacing request
    | OC_AdmitReplacement \<Rightarrow> serve_admit_replacement io request
    | OC_RetireIncarnation \<Rightarrow> serve_retire_incarnation io request
    | OC_LookupJob \<Rightarrow> serve_lookup_job request
    | OC_LookupHandle \<Rightarrow> serve_lookup_handle request
    | OC_LookupDecision \<Rightarrow> serve_lookup_decision request
    | OC_LookupStepReport \<Rightarrow> serve_lookup_step_report request
    | OC_LookupFlowReceipt \<Rightarrow> serve_lookup_flow_receipt request
    | OC_GroupUtilization \<Rightarrow> serve_group_utilization request
    | OC_CurrentPolicy \<Rightarrow> serve_current_policy request
    | OC_Status \<Rightarrow> serve_status request
    | OC_Shutdown \<Rightarrow> serve_shutdown request)"

definition dispatch_request ::
  "commit_answers \<Rightarrow> message \<Rightarrow> coordinator \<times> session \<Rightarrow> message \<times> (coordinator \<times> session)" where
  "dispatch_request io request st =
     (case get_u16 request kOperation of
        Inl _ \<Rightarrow> (error_response OC_Invalid EC_MissingField, st)
      | Inr raw \<Rightarrow>
          if \<not> is_known_operation raw then (error_response OC_Invalid EC_UnsupportedMessage, st)
          else
            let op = operation_codes ! unat raw
            in (case serve io op request st of
                  (Inr response, st') \<Rightarrow> (response, st')
                | (Inl e, co', s') \<Rightarrow>
                    (error_response op e,
                     (if is_authority_code e \<or> is_protocol_code e then reject_frame co' else co'), s')))"

section \<open>A turn of a session\<close>

text \<open>
  What the outside answers in one turn of the loop: what is received, whether the reply could be
  sent, and the file system under a commit.
\<close>

record turn_answers =
  tn_header :: "bytes result"
  tn_tail :: "nat \<Rightarrow> bytes result"
  tn_sent :: status
  tn_commit :: commit_answers

text \<open>A reply whose failure is ignored: the frames that went out.\<close>

definition reply :: "status \<Rightarrow> message \<Rightarrow> coordinator \<times> session \<Rightarrow> bytes list \<times> (coordinator \<times> session)" where
  "reply sent m st = (case send_message sent m st of (r, st') \<Rightarrow> (case r of Inl _ \<Rightarrow> [] | Inr fr \<Rightarrow> [fr], st'))"

type_synonym turn = "bytes list \<times> bool \<times> (coordinator \<times> session)"

definition refuse_session :: "status \<Rightarrow> error_code \<Rightarrow> coordinator \<times> session \<Rightarrow> turn" where
  "refuse_session sent code st = (case reply sent (protocol_error code) st of (out, st') \<Rightarrow> (out, False, st'))"

definition quiet_code :: "error_code \<Rightarrow> bool" where
  "quiet_code e \<longleftrightarrow> e = EC_ConnectionClosed \<or> e = EC_IoError \<or> e = EC_Closed"

definition read_failed :: "status \<Rightarrow> frame_read \<Rightarrow> coordinator \<times> session \<Rightarrow> turn" where
  "read_failed sent r st =
     (case (case r of FrameError e \<Rightarrow> if quiet_code e then ([], st) else reply sent (protocol_error e) st
                    | _ \<Rightarrow> ([], st)) of
        (out, co, s) \<Rightarrow> (out, False, reject_frame co, s))"

definition serve_hello :: "status \<Rightarrow> message \<Rightarrow> coordinator \<times> session \<Rightarrow> turn" where
  "serve_hello sent m st = (case st of (co, s) \<Rightarrow>
     (let client_protocol = get_u64_or m kProtocolVersionField 0;
          client_boot = BootId (get_u64_or m kBootHi 0) (get_u64_or m kBootLo 0);
          ack = new_message MT_HelloAck
      in if client_protocol \<noteq> ucast kProtocolVersion
         then (case reply sent (set_u64 kProtocolVersionField (ucast kProtocolVersion)
                 (set_error EC_UnsupportedProtocolVersion [] ack)) (co, s) of (out, st') \<Rightarrow> (out, False, st'))
         else if \<not> boot_valid client_boot
         then (case reply sent (set_error EC_InvalidArgument [] ack) (co, s) of (out, st') \<Rightarrow> (out, False, st'))
         else
           let s1 = s\<lparr>sn_boot := client_boot\<rparr>;
               m1 = set_bool kTruncated (co_degraded co) (set_u32 kMaxPayloadField (of_nat kMaxPayloadBytes)
                 (set_u32 kMaxSessions (cc_max_sessions (co_config co)) (set_u64 kCoordinatorBootLo (boot_lo (co_boot co))
                 (set_u64 kCoordinatorBootHi (boot_hi (co_boot co))
                 (set_u64 kProtocolVersionField (ucast kProtocolVersion) (set_u64 kEpoch (co_epoch co)
                 (set_u64 kSession (sn_id s1) (set_error EC_Ok [] ack))))))))
           in (case reply sent m1 (co, s1) of (out, st') \<Rightarrow> (out, out \<noteq> [], st'))))"

definition serve_request :: "turn_answers \<Rightarrow> message \<Rightarrow> coordinator \<times> session \<Rightarrow> turn" where
  "serve_request tn m st =
     (case dispatch_request (tn_commit tn) m st of
        (response, st1) \<Rightarrow>
          (case reply (tn_sent tn) response st1 of
             (out, co2, s2) \<Rightarrow>
               let co3 = on_stats (\<lambda>k. k\<lparr>ks_requests_handled := ks_requests_handled k + 1\<rparr>) co2
               in if out = [] then (out, False, co3, s2)
                  else if sn_shutdown_requested s2 then (out, True, co3\<lparr>co_stopping := True\<rparr>, s2)
                  else (out, True, co3, s2)))"

definition serve_message :: "turn_answers \<Rightarrow> message \<Rightarrow> coordinator \<times> session \<Rightarrow> turn" where
  "serve_message tn m st =
     (if ms_type m = MT_Ping
      then (case reply (tn_sent tn) (new_message MT_Pong) st of (out, st') \<Rightarrow> (out, True, st'))
      else if ms_type m = MT_Goodbye
      then (case reply (tn_sent tn) (new_message MT_Goodbye) st of (out, st') \<Rightarrow> (out, False, st'))
      else if ms_type m = MT_Hello then serve_hello (tn_sent tn) m st
      else if ms_type m \<noteq> MT_Request then refuse_session (tn_sent tn) EC_UnexpectedMessage st
      else if \<not> boot_valid (sn_boot (snd st)) then refuse_session (tn_sent tn) EC_NotReady st
      else serve_request tn m st)"

text \<open>The frame of a turn: the replay window, the budget of the session, then the message.\<close>

definition serve_frame :: "turn_answers \<Rightarrow> frame \<Rightarrow> coordinator \<times> session \<Rightarrow> turn" where
  "serve_frame tn f st = (case st of (co, s) \<Rightarrow>
     (case accept (sn_window s) (fh_sequence (fm_header f)) (fh_nonce (fm_header f)) of
        (Inl e, window) \<Rightarrow>
          refuse_session (tn_sent tn) e (on_stats (\<lambda>k. k\<lparr>ks_frames_rejected := ks_frames_rejected k + 1,
            ks_replay_rejections := ks_replay_rejections k + 1\<rparr>) co, s\<lparr>sn_window := window\<rparr>)
      | (Inr _, window) \<Rightarrow>
          let s1 = s\<lparr>sn_window := window\<rparr>
          in if sn_requests s1 \<ge> cc_max_requests_per_session (co_config co)
             then refuse_session (tn_sent tn) EC_ResourceExhausted (reject_frame co, s1)
             else
               let s2 = s1\<lparr>sn_requests := sn_requests s1 + 1\<rparr>
               in (case decode_message (MessageType (fh_type (fm_header f))) (fm_payload f) of
                     Inl e \<Rightarrow> refuse_session (tn_sent tn) e (reject_frame co, s2)
                   | Inr m \<Rightarrow> serve_message tn m (co, s2))))"

definition session_turn :: "turn_answers \<Rightarrow> coordinator \<times> session \<Rightarrow> turn" where
  "session_turn tn st =
     (case read_frame (tn_header tn) (tn_tail tn) (fst st) of
        (FrameOk f, co) \<Rightarrow> serve_frame tn f (co, snd st)
      | (r, co) \<Rightarrow> read_failed (tn_sent tn) r (co, snd st))"

text \<open>
  The loop of a session, over what the outside answers in each turn and what the other threads
  do to the coordinator before the next one. The list is only as long as the session is watched.
\<close>

primrec run_session ::
  "(turn_answers \<times> (coordinator \<Rightarrow> coordinator)) list \<Rightarrow> coordinator \<times> session \<Rightarrow> bytes list \<times> (coordinator \<times> session)" where
  "run_session [] st = ([], st)"
| "run_session (e # es) st =
     (if co_stopping (fst st) then ([], fst st, (snd st)\<lparr>sn_finished := True\<rparr>)
      else case session_turn (fst e) st of
        (out, go_on, co, s) \<Rightarrow>
          if \<not> go_on then (out, co, s\<lparr>sn_finished := True\<rparr>)
          else (case run_session es (snd e co, s) of (out', st') \<Rightarrow> (out @ out', st')))"

section \<open>Accepting, starting and stopping\<close>

definition reap_finished :: "coordinator \<Rightarrow> coordinator" where
  "reap_finished co = co\<lparr>co_sessions := filter (\<lambda>e. \<not> sn_finished (snd e)) (co_sessions co)\<rparr>"

definition accept_connection :: "status \<Rightarrow> coordinator \<Rightarrow> bytes list \<times> coordinator" where
  "accept_connection sent co =
     (let co1 = reap_finished co
      in if length (co_sessions co1) \<ge> unat (cc_max_sessions (co_config co1))
         then (case reply sent (set_error EC_Busy [] (new_message MT_Error))
                 (on_stats (\<lambda>k. k\<lparr>ks_sessions_refused := ks_sessions_refused k + 1\<rparr>) co1, new_session 0) of
                 (out, co2, _) \<Rightarrow> (out, co2))
         else
           let ident = make_session_id (co_epoch co1) (co_next_ordinal co1)
           in ([], on_stats (\<lambda>k. k\<lparr>ks_sessions_accepted := ks_sessions_accepted k + 1\<rparr>)
                 (co1\<lparr>co_next_ordinal := co_next_ordinal co1 + 1,
                    co_sessions := emplace ident (new_session ident) (co_sessions co1)\<rparr>)))"

record start_answers =
  sw_created :: bool
  sw_is_directory :: bool
  sw_load :: load_answers
  sw_wake :: status
  sw_listen :: "u16 result"
  sw_commit :: commit_answers

text \<open>The state before the sockets are opened: the fabric that is served and its epoch.\<close>

definition recover :: "start_answers \<Rightarrow> coordinator \<Rightarrow> coordinator result" where
  "recover sw co =
     (if \<not> cc_enable_state_store (co_config co) then Inr (co\<lparr>co_epoch := 1\<rparr>)
      else
        rbind (Open_store (cc_state_directory (co_config co)) (of_nat kMaxSnapshotBytes) (sw_created sw)
                (sw_is_directory sw)) (\<lambda>store.
        rbind (load store (co_disk co) (sw_load sw)) (\<lambda>stored.
        if \<not> sf_present stored then Inr (co\<lparr>co_store := Some store, co_epoch := 1\<rparr>)
        else
          rbind (deserialize_state (sf_payload stored) (cc_fabric (co_config co))) (\<lambda>restored.
          let epoch = sf_epoch stored + 1
          in (case RebaseEpoch restored epoch of
                (Inl e, _) \<Rightarrow> Inl e
              | (Inr _, fb) \<Rightarrow> Inr (co\<lparr>co_store := Some store, co_fabric := fb,
                    co_commit_sequence := sf_sequence stored, co_epoch := epoch\<rparr>))))))"

definition start_coordinator ::
  "start_answers \<Rightarrow> coordinator_config \<Rightarrow> disk \<Rightarrow> bytes \<Rightarrow> u64 \<Rightarrow> coordinator result \<times> disk" where
  "start_coordinator sw config d path clock_seed =
     (case recover sw (coordinator_impl config d path clock_seed) of
        Inl e \<Rightarrow> (Inl e, d)
      | Inr co \<Rightarrow>
          let co1 = on_stats (\<lambda>k. k\<lparr>ks_epoch := co_epoch co\<rparr>) co
          in (case rbind (sw_wake sw) (\<lambda>_. sw_listen sw) of
                Inl e \<Rightarrow> (Inl e, d)
              | Inr port \<Rightarrow>
                  let co2 = co1\<lparr>co_boot := mint_boot (mix_seed (ucast port) (co_epoch co1))\<rparr>
                  in (case commit_state (sw_commit sw) co2 of
                        (Inl e, co3) \<Rightarrow> (Inl e, co_disk co3)
                      | (Inr _, co3) \<Rightarrow> (Inr co3, co_disk co3))))"

definition stop_coordinator :: "commit_answers \<Rightarrow> coordinator \<Rightarrow> coordinator" where
  "stop_coordinator io co =
     (if co_stopped co then co
      else let co1 = co\<lparr>co_stopped := True, co_stopping := True, co_sessions := []\<rparr>
           in if co_store co1 \<noteq> None \<and> \<not> co_degraded co1 then snd (commit_state io co1) else co1)"

text \<open>
  The threads, one step at a time: the acceptor takes a connection or reaps, a session that has
  not finished takes a turn, and the owner stops the coordinator.
\<close>

inductive co_step :: "coordinator \<Rightarrow> coordinator \<Rightarrow> bool" where
  accepting: "\<not> co_stopping co \<Longrightarrow> accept_connection sent co = (out, co') \<Longrightarrow> co_step co co'"
| turning: "\<not> co_stopping co \<Longrightarrow> map_of (co_sessions co) k = Some s \<Longrightarrow> \<not> sn_finished s \<Longrightarrow>
    session_turn tn (co, s) = (out, go_on, co', s') \<Longrightarrow>
    co_step co (co'\<lparr>co_sessions := put k (s'\<lparr>sn_finished := \<not> go_on\<rparr>) (co_sessions co')\<rparr>)"
| leaving: "co_stopping co \<Longrightarrow> map_of (co_sessions co) k = Some s \<Longrightarrow>
    co_step co (co\<lparr>co_sessions := put k (s\<lparr>sn_finished := True\<rparr>) (co_sessions co)\<rparr>)"
| reaping: "co_step co (reap_finished co)"
| stopping: "co_step co (stop_coordinator io co)"

end
