(* ===== verification/Serving.thy ===== *)
theory Serving
  imports Coordinator Runs
begin

text \<open>
  What the coordinator promises: a session acts on the fabric only through one authorised call
  per accepted frame, a mutation is durable before it is answered, a restart takes up what was
  answered in a new epoch, and the number of sessions is bounded.
\<close>

section \<open>What a handler leaves alone\<close>

named_theorems handling \<open>rules that take a handler apart\<close>

text \<open>\<open>keeps f m\<close>: what \<open>f\<close> reads of the state is the same after the handler.\<close>

definition keeps :: "(coordinator \<times> session \<Rightarrow> 'b) \<Rightarrow> 'a handler \<Rightarrow> bool" where
  "keeps f m \<longleftrightarrow> (\<forall>st. f (snd (m st)) = f st)"

abbreviation quiet :: "'a handler \<Rightarrow> bool" where
  "quiet \<equiv> keeps (\<lambda>st. co_fabric (fst st))"

lemma keepsD: "keeps f m \<Longrightarrow> m st = (r, st') \<Longrightarrow> f st' = f st"
  unfolding keeps_def by (metis snd_conv)

lemma keeps_then [handling]: "keeps f m \<Longrightarrow> (\<And>x. keeps f (k x)) \<Longrightarrow> keeps f (then_do m k)"
  unfolding keeps_def then_do_def by (auto split: prod.split sum.split) (metis snd_conv)+

lemma keeps_steps [handling]: "keeps f (given r)" "keeps f (look g)" "keeps f (answer m)" "keeps f (view_fabric v)"
  by (simp_all add: keeps_def given_def look_def answer_def view_fabric_def)

lemma keeps_answer_block [handling]: "keeps f (answer_block m tag b)"
  unfolding answer_block_def by (intro handling)

lemma keeps_on_session [handling]: "(\<And>co s. f (co, g co s) = f (co, s)) \<Longrightarrow> keeps f (on_session g)"
  by (simp add: keeps_def on_session_def)

lemma keeps_on_coordinator [handling]: "(\<And>co s. f (g co, s) = f (co, s)) \<Longrightarrow> keeps f (on_coordinator g)"
  by (simp add: keeps_def on_coordinator_def)

lemma keeps_call [handling]: "(\<And>co s fb. f (co\<lparr>co_fabric := fb\<rparr>, s) = f (co, s)) \<Longrightarrow> keeps f (call_fabric g)"
  by (simp add: keeps_def call_fabric_def split: prod.split)

text \<open>A commit touches the store, the disk, the sequence, the degraded flag and the counters.\<close>

lemma commit_state_frame:
  assumes "commit_state io co = (r, co')"
  shows "\<exists>store d degraded sequence k. co' = co\<lparr>co_store := store, co_disk := d, co_degraded := degraded,
    co_commit_sequence := sequence, co_stats := k\<rparr>"
proof -
  have same: "\<exists>store d degraded sequence k. co = co\<lparr>co_store := store, co_disk := d, co_degraded := degraded,
      co_commit_sequence := sequence, co_stats := k\<rparr>"
    by (intro exI [of _ "co_store co"] exI [of _ "co_disk co"] exI [of _ "co_degraded co"]
      exI [of _ "co_commit_sequence co"] exI [of _ "co_stats co"]) simp
  show ?thesis
    using assms same
    by (auto simp: commit_state_def write_commit_def on_stats_def Let_def
        split: if_splits sum.splits option.splits prod.splits)
      (rule exI, rule exI, rule exI, rule exI, rule exI, rule coordinator.equality; simp)+
qed

lemma keeps_persist [handling]:
  assumes "\<And>co s store d degraded sequence k. f (co\<lparr>co_store := store, co_disk := d, co_degraded := degraded,
    co_commit_sequence := sequence, co_stats := k\<rparr>, s) = f (co, s)"
  shows "keeps f (persist io)"
  using assms by (auto simp: keeps_def persist_def split: prod.split dest!: commit_state_frame)

section \<open>One authorised call\<close>

text \<open>\<open>acting P m\<close>: the handler leaves the fabric alone or takes one call that \<open>P\<close> allows in the state it starts in.\<close>

definition acting :: "(coordinator \<Rightarrow> session \<Rightarrow> operation \<Rightarrow> bool) \<Rightarrow> 'a handler \<Rightarrow> bool" where
  "acting P m \<longleftrightarrow> (\<forall>co s. co_fabric (fst (snd (m (co, s)))) = co_fabric co \<or>
     (\<exists>x. P co s x \<and> co_fabric (fst (snd (m (co, s)))) = apply_operation (co_fabric co) x))"

lemma acting_quiet: "quiet m \<Longrightarrow> acting P m"
  by (simp add: acting_def keeps_def)

lemma acting_look:
  "(\<And>x. acting (\<lambda>co s a. f co s = Inr x \<longrightarrow> P co s a) (k x)) \<Longrightarrow> acting P (then_do (look f) k)"
  unfolding acting_def then_do_def look_def by (auto split: sum.split)

lemma acting_given: "(\<And>x. r = Inr x \<Longrightarrow> acting P (k x)) \<Longrightarrow> acting P (then_do (given r) k)"
  unfolding acting_def then_do_def given_def by (auto split: sum.split)

lemma acting_call:
  assumes f: "\<And>st. snd (f st) = apply_operation st a" and P: "\<And>co s. P co s a" and k: "\<And>x. quiet (k x)"
  shows "acting P (then_do (call_fabric f) k)"
proof -
  have "co_fabric (fst (snd (then_do (call_fabric f) k (co, s)))) = apply_operation (co_fabric co) a" for co s
    using f [of "co_fabric co"] k
    by (auto simp: then_do_def call_fabric_def keeps_def split: prod.split sum.split)
  with P show ?thesis unfolding acting_def by blast
qed

lemma operation_calls:
  "\<And>st. snd (RegisterJob st r1) = apply_operation st (Op_RegisterJob r1)"
  "\<And>st. snd (RegisterGroup st r2) = apply_operation st (Op_RegisterGroup r2)"
  "\<And>st. snd (PublishTopologyEvidence st t e) = apply_operation st (Op_PublishTopologyEvidence t e)"
  "\<And>st. snd (ApplyPolicy st p) = apply_operation st (Op_ApplyPolicy p)"
  "\<And>st. snd (RetireJob st t) = apply_operation st (Op_RetireJob t)"
  "\<And>st. snd (RebaseEpoch st epoch) = apply_operation st (Op_RebaseEpoch epoch)"
  "\<And>st. snd (BeginStep st r3) = apply_operation st (Op_BeginStep r3)"
  "\<And>st. snd (BeginPhase st r4) = apply_operation st (Op_BeginPhase r4)"
  "\<And>st. snd (EndPhase st t ph d) = apply_operation st (Op_EndPhase t ph d)"
  "\<And>st. snd (EndStep st t d2) = apply_operation st (Op_EndStep t d2)"
  "\<And>st. snd (RequestTraffic st i) = apply_operation st (Op_RequestTraffic i)"
  "\<And>st. snd (CompleteFlow st c) = apply_operation st (Op_CompleteFlow c)"
  "\<And>st. snd (RevalidateFlow st t n) = apply_operation st (Op_RevalidateFlow t n)"
  "\<And>st. snd (BeginCheckpointBurst st r5) = apply_operation st (Op_BeginCheckpointBurst r5)"
  "\<And>st. snd (EndCheckpointBurst st t n) = apply_operation st (Op_EndCheckpointBurst t n)"
  "\<And>st. snd (EvaluatePacing st r6) = apply_operation st (Op_EvaluatePacing r6)"
  "\<And>st. snd (AdmitReplacement st r7) = apply_operation st (Op_AdmitReplacement r7)"
  "\<And>st. snd (RetireIncarnation st t) = apply_operation st (Op_RetireIncarnation t)"
  by (simp_all add: apply_operation_def)

lemmas acting_calls = operation_calls [THEN acting_call]

lemma acting_mono: "acting P m \<Longrightarrow> (\<And>co s a. P co s a \<Longrightarrow> Q co s a) \<Longrightarrow> acting Q m"
  unfolding acting_def by blast

text \<open>The token of a call, and what a session may ask for.\<close>

definition call_token :: "operation \<Rightarrow> authority_token option" where
  "call_token x = (case x of
      Op_RegisterGroup r \<Rightarrow> Some (gr_authority r)
    | Op_PublishTopologyEvidence a e \<Rightarrow> Some a
    | Op_RetireJob a \<Rightarrow> Some a
    | Op_BeginStep r \<Rightarrow> Some (so_authority r)
    | Op_BeginPhase r \<Rightarrow> Some (po_authority r)
    | Op_EndPhase a p d \<Rightarrow> Some a
    | Op_EndStep a d \<Rightarrow> Some a
    | Op_RequestTraffic i \<Rightarrow> Some (ti_authority i)
    | Op_CompleteFlow c \<Rightarrow> Some (fc_authority c)
    | Op_RevalidateFlow a i \<Rightarrow> Some a
    | Op_BeginCheckpointBurst r \<Rightarrow> Some (cb_authority r)
    | Op_EndCheckpointBurst a b \<Rightarrow> Some a
    | Op_EvaluatePacing i \<Rightarrow> Some (pi_authority i)
    | Op_RetireIncarnation a \<Rightarrow> Some a
    | _ \<Rightarrow> None)"

definition session_token :: "coordinator \<Rightarrow> session \<Rightarrow> authority_token \<Rightarrow> bool" where
  "session_token co s t \<longleftrightarrow> sn_bound s \<and> at_job t = sn_job s \<and> at_incarnation t = sn_incarnation s \<and>
     at_boot t = sn_boot s \<and> at_session t = sn_id s \<and> at_epoch t = co_epoch co"

definition entitled :: "coordinator \<Rightarrow> session \<Rightarrow> operation \<Rightarrow> bool" where
  "entitled co s x \<longleftrightarrow>
     (case call_token x of Some t \<Rightarrow> session_token co s t | None \<Rightarrow> True) \<and>
     (case x of
        Op_RegisterJob r \<Rightarrow> \<not> sn_bound s \<and> jr_boot r = sn_boot s \<and> jr_epoch r = co_epoch co
      | Op_AdmitReplacement r \<Rightarrow> rr_new_boot r = sn_boot s \<and> rr_epoch r = co_epoch co
      | Op_RebaseEpoch e \<Rightarrow> cc_allow_rebase_operation (co_config co)
      | Op_ApplyPolicy p \<Rightarrow> policy_ok p
      | _ \<Rightarrow> True)"

lemmas view_defs = serve_lookup_job_def serve_lookup_handle_def serve_lookup_decision_def
  serve_lookup_step_report_def serve_lookup_flow_receipt_def serve_group_utilization_def
  serve_current_policy_def serve_status_def serve_shutdown_def

lemma token_from_Inr:
  assumes "token_from request co s = Inr t"
  shows "session_token co s t"
  using assms
  by (auto simp: token_from_def session_token_def ensure_bound_def session_envelope_def rebind_from_def rebind_any_def
      split: sum.splits prod.splits if_splits)

lemmas serve_defs = serve_register_job_def serve_register_group_def serve_publish_topology_def
  serve_apply_policy_def serve_retire_job_def serve_rebase_epoch_def serve_begin_step_def serve_begin_phase_def
  serve_end_phase_def serve_end_step_def serve_admit_replacement_def serve_retire_incarnation_def
  serve_request_traffic_def serve_complete_flow_def serve_revalidate_flow_def serve_begin_burst_def
  serve_end_burst_def serve_evaluate_pacing_def

lemma read_many_length: "read_many n r bs = Inr (xs, rest) \<Longrightarrow> length xs = n"
  by (induction n arbitrary: bs xs rest) (auto simp: reader_steps_iff)

lemma decoded_policy_ok: "decode_policy_block b = Inr p \<Longrightarrow> policy_ok p"
  by (auto simp: decode_policy_block_def decode_block_def read_policy_record_def reader_steps_iff policy_ok_def
      policy_shape_def dest: read_many_length)

lemma check_Inr: "check b e = Inr x \<longleftrightarrow> b"
  by (simp add: check_def)

lemma serve_acting_durable:
  "acting entitled (serve_register_job io request)" "acting entitled (serve_register_group io request)"
  "acting entitled (serve_publish_topology io request)" "acting entitled (serve_apply_policy io request)"
  "acting entitled (serve_retire_job io request)" "acting entitled (serve_rebase_epoch io request)"
  "acting entitled (serve_begin_step io request)" "acting entitled (serve_begin_phase io request)"
  "acting entitled (serve_end_phase io request)" "acting entitled (serve_end_step io request)"
  "acting entitled (serve_admit_replacement io request)" "acting entitled (serve_retire_incarnation io request)"
  unfolding serve_defs Let_def
  by (intro acting_calls acting_look acting_given handling;
      auto simp: entitled_def call_token_def on_stats_def check_Inr dest: token_from_Inr decoded_policy_ok)+

lemma serve_acting_running:
  "acting entitled (serve_request_traffic request)" "acting entitled (serve_complete_flow request)"
  "acting entitled (serve_revalidate_flow request)" "acting entitled (serve_begin_burst request)"
  "acting entitled (serve_end_burst request)" "acting entitled (serve_evaluate_pacing request)"
  unfolding serve_defs Let_def
  by (intro acting_calls acting_look acting_given handling;
      auto simp: entitled_def call_token_def check_Inr dest: token_from_Inr)+

lemma quiet_serve_views:
  "quiet (serve_lookup_job request)" "quiet (serve_lookup_handle request)" "quiet (serve_lookup_decision request)"
  "quiet (serve_lookup_step_report request)" "quiet (serve_lookup_flow_receipt request)"
  "quiet (serve_group_utilization request)" "quiet (serve_current_policy request)" "quiet (serve_status request)"
  "quiet (serve_shutdown request)"
  unfolding view_defs Let_def by (intro handling; simp)+

lemma serve_acting: "acting entitled (serve io op request)"
  unfolding serve_def
  by (cases op; simp add: serve_acting_durable serve_acting_running acting_quiet quiet_serve_views keeps_steps)

text \<open>
  A lookup of a handle binds the session to the incarnation of any job, whoever asks: what keeps it
  from acting for the job is the boot identity, which the handle tells and a HELLO sets.
\<close>

lemma lookup_binds_session:
  assumes "serve_lookup_handle request (co, s) = (Inr m, co', s')"
  shows "\<exists>handle. lookup_handle (co_fabric co) (get_u64_or request kJob 0) = Inr handle \<and> sn_bound s' \<and>
    sn_job s' = jh_job handle \<and> sn_incarnation s' = jh_incarnation handle \<and> sn_boot s' = sn_boot s"
  using assms
  by (auto simp: serve_lookup_handle_def then_do_def view_fabric_def look_def given_def on_session_def answer_def
      bind_session_def split: sum.splits)

section \<open>What no handler touches\<close>

definition fixed_part :: "coordinator \<times> session \<Rightarrow> coordinator_config \<times> boot_id \<times> bool \<times> u32 \<times>
    (session_id, session) table \<times> session_id \<times> boot_id \<times> replay_window \<times> bool \<times> u64" where
  "fixed_part st = (case st of (co, s) \<Rightarrow> (co_config co, co_boot co, co_stopping co, co_next_ordinal co,
     co_sessions co, sn_id s, sn_boot s, sn_window s, sn_finished s, sn_requests s))"

lemma serve_fixed: "keeps fixed_part (serve io op request)"
  unfolding serve_def serve_defs view_defs Let_def
  by (cases op; simp only: operation_code.case; intro handling;
      simp add: fixed_part_def bind_session_def on_stats_def)

section \<open>One turn\<close>

lemma send_message_frame:
  "send_message sent m (co, s) = (r, co', s') \<Longrightarrow>
     \<exists>k n. co' = co\<lparr>co_stats := k\<rparr> \<and> s' = s\<lparr>sn_out_sequence := n\<rparr>"
  by (auto simp: send_message_def on_stats_def Let_def split: sum.splits)
    (metis coordinator.surjective coordinator.update_convs(14) session.surjective session.update_convs(6))+

lemma reply_frame:
  "reply sent m (co, s) = (out, co', s') \<Longrightarrow> \<exists>k n. co' = co\<lparr>co_stats := k\<rparr> \<and> s' = s\<lparr>sn_out_sequence := n\<rparr>"
  by (auto simp: reply_def dest: send_message_frame split: prod.splits)

lemma read_frame_frame: "read_frame h t co = (r, co') \<Longrightarrow> \<exists>k. co' = co\<lparr>co_stats := k\<rparr>"
  by (auto simp: read_frame_def on_stats_def split: sum.splits if_splits)
    (metis coordinator.surjective coordinator.update_convs(14))+

text \<open>
  A turn that serves no request leaves the coordinator alone but for its counters, and gives the
  session at most another valid boot identity.
\<close>

definition inert :: "coordinator \<times> session \<Rightarrow> coordinator \<times> session \<Rightarrow> bool" where
  "inert st st' \<longleftrightarrow> (\<exists>k n w r b. fst st' = (fst st)\<lparr>co_stats := k\<rparr> \<and>
     snd st' = (snd st)\<lparr>sn_out_sequence := n, sn_window := w, sn_requests := r, sn_boot := b\<rparr> \<and>
     (b = sn_boot (snd st) \<or> boot_valid b))"

lemma inertI: "co' = co\<lparr>co_stats := k\<rparr> \<Longrightarrow>
    s' = s\<lparr>sn_out_sequence := n, sn_window := w, sn_requests := r, sn_boot := b\<rparr> \<Longrightarrow> b = sn_boot s \<or> boot_valid b \<Longrightarrow>
    inert (co, s) (co', s')"
  by (auto simp: inert_def)

lemma inertE:
  assumes "inert st st'"
  obtains k n w r b where "fst st' = (fst st)\<lparr>co_stats := k\<rparr>"
    and "snd st' = (snd st)\<lparr>sn_out_sequence := n, sn_window := w, sn_requests := r, sn_boot := b\<rparr>"
    and "b = sn_boot (snd st) \<or> boot_valid b"
  using assms unfolding inert_def by blast

lemma inert_trans:
  assumes "inert a b" and "inert b c"
  shows "inert a c"
proof -
  from assms(1) obtain k n w r bo where b: "fst b = (fst a)\<lparr>co_stats := k\<rparr>"
    "snd b = (snd a)\<lparr>sn_out_sequence := n, sn_window := w, sn_requests := r, sn_boot := bo\<rparr>"
    "bo = sn_boot (snd a) \<or> boot_valid bo" by (rule inertE)
  from assms(2) obtain k' n' w' r' bo' where c: "fst c = (fst b)\<lparr>co_stats := k'\<rparr>"
    "snd c = (snd b)\<lparr>sn_out_sequence := n', sn_window := w', sn_requests := r', sn_boot := bo'\<rparr>"
    "bo' = sn_boot (snd b) \<or> boot_valid bo'" by (rule inertE)
  from b c show ?thesis unfolding inert_def
    by (intro exI [of _ k'] exI [of _ n'] exI [of _ w'] exI [of _ r'] exI [of _ bo']) auto
qed

lemma inert_on_stats: "inert (co, s) (on_stats f co, s)"
  by (rule inertI [where s = s and b = "sn_boot s", OF _ session.equality]) (simp_all add: on_stats_def)

lemma inert_session:
  "inert (co, s) (co, s\<lparr>sn_window := w\<rparr>)" "inert (co, s) (co, s\<lparr>sn_requests := r\<rparr>)"
  "boot_valid b \<Longrightarrow> inert (co, s) (co, s\<lparr>sn_boot := b\<rparr>)" "inert (co, s) (co, s\<lparr>sn_out_sequence := n\<rparr>)"
  by (rule inertI [where s = s and b = "sn_boot s", OF coordinator.equality session.equality]
      inertI [where s = s and b = b, OF coordinator.equality session.equality]; simp)+

lemma inert_refl: "inert st st"
  using inert_session(1) [of "fst st" "snd st" "sn_window (snd st)"] by simp

lemma inert_reply: "reply sent m st = (out, st') \<Longrightarrow> inert st st' \<and> sn_requests (snd st') = sn_requests (snd st) \<and>
    sn_boot (snd st') = sn_boot (snd st)"
  by (cases st; cases st') (auto dest!: reply_frame intro!: inertI [OF _ session.equality])

lemma inert_refuse: "refuse_session sent code st = (out, go_on, st') \<Longrightarrow> inert st st' \<and> \<not> go_on"
  by (auto simp: refuse_session_def split: prod.splits dest: inert_reply)

lemma inert_read_failed: "read_failed sent r st = (out, go_on, st') \<Longrightarrow> inert st st' \<and> \<not> go_on"
  unfolding read_failed_def reject_frame_def
  by (auto split: prod.splits frame_read.splits if_splits dest!: inert_reply intro: inert_trans inert_on_stats)

lemma inert_hello:
  assumes "serve_hello sent m st = (out, go_on, st')"
  shows "inert st st' \<and> sn_requests (snd st') = sn_requests (snd st)"
  using assms unfolding serve_hello_def Let_def
  by (auto split: prod.splits if_splits dest!: inert_reply intro: inert_trans [OF inert_session(3)])

text \<open>What a session has to show before a request of it is served.\<close>

definition admitted_request ::
  "turn_answers \<Rightarrow> coordinator \<times> session \<Rightarrow> message \<Rightarrow> coordinator \<times> session \<Rightarrow> bool" where
  "admitted_request tn st m st1 \<longleftrightarrow> (case st of (co, s) \<Rightarrow>
     (\<exists>f k w. read_frame (tn_header tn) (tn_tail tn) co = (FrameOk f, co\<lparr>co_stats := k\<rparr>) \<and>
        accept (sn_window s) (fh_sequence (fm_header f)) (fh_nonce (fm_header f)) = (Inr (), w) \<and>
        decode_message (MessageType (fh_type (fm_header f))) (fm_payload f) = Inr m \<and> ms_type m = MT_Request \<and>
        boot_valid (sn_boot s) \<and> sn_requests s < cc_max_requests_per_session (co_config co) \<and>
        st1 = (co\<lparr>co_stats := k\<rparr>, s\<lparr>sn_window := w, sn_requests := sn_requests s + 1\<rparr>)))"

definition replied :: "coordinator \<times> session \<Rightarrow> coordinator \<times> session \<Rightarrow> bool" where
  "replied st st' \<longleftrightarrow> (\<exists>k n. (fst st' = (fst st)\<lparr>co_stats := k\<rparr> \<or>
     fst st' = (fst st)\<lparr>co_stats := k, co_stopping := True\<rparr> \<and> sn_shutdown_requested (snd st)) \<and>
     snd st' = (snd st)\<lparr>sn_out_sequence := n\<rparr>)"

lemma serve_request_replied:
  assumes "serve_request tn m st = (out, go_on, st')"
  obtains response st1 where "dispatch_request (tn_commit tn) m st = (response, st1)" and "replied st1 st'"
proof -
  obtain response co1 s1 where d: "dispatch_request (tn_commit tn) m st = (response, co1, s1)"
    by (metis prod_cases3)
  obtain o2 co2 s2 where r: "reply (tn_sent tn) response (co1, s1) = (o2, co2, s2)" by (metis prod_cases3)
  from reply_frame [OF r] obtain k n where "co2 = co1\<lparr>co_stats := k\<rparr>" "s2 = s1\<lparr>sn_out_sequence := n\<rparr>" by blast
  with assms d r have "replied (co1, s1) st'"
    by (cases st') (auto simp: serve_request_def replied_def on_stats_def Let_def split: if_splits)
  with d that show thesis by simp
qed

lemma serve_message_cases:
  assumes "serve_message tn m st = (out, go_on, st')"
  obtains (quiet_message) "inert st st'" and "sn_requests (snd st') = sn_requests (snd st)"
  | (request_message) response st1 where "ms_type m = MT_Request" and "boot_valid (sn_boot (snd st))"
      and "dispatch_request (tn_commit tn) m st = (response, st1)" and "replied st1 st'"
proof -
  have "inert st st' \<and> sn_requests (snd st') = sn_requests (snd st) \<or>
     ms_type m = MT_Request \<and> boot_valid (sn_boot (snd st)) \<and> serve_request tn m st = (out, go_on, st')"
    using assms
    by (auto simp: serve_message_def refuse_session_def split: if_splits prod.splits dest: inert_reply inert_hello)
  then show thesis using quiet_message request_message by (metis serve_request_replied)
qed

text \<open>The two shapes of a turn.\<close>

definition served :: "turn_answers \<Rightarrow> coordinator \<times> session \<Rightarrow> coordinator \<times> session \<Rightarrow> bool" where
  "served tn st st' \<longleftrightarrow> (\<exists>m st0 response st1. admitted_request tn st m st0 \<and>
     dispatch_request (tn_commit tn) m st0 = (response, st1) \<and> replied st1 st')"

lemma serve_frame_cases:
  assumes "serve_frame tn f (co\<lparr>co_stats := k\<rparr>, s) = (out, go_on, st')"
    and "read_frame (tn_header tn) (tn_tail tn) co = (FrameOk f, co\<lparr>co_stats := k\<rparr>)"
  shows "inert (co, s) st' \<and> (go_on \<longrightarrow> sn_requests (snd st') = sn_requests s + 1 \<and>
      sn_requests s < cc_max_requests_per_session (co_config co)) \<or> served tn (co, s) st'"
proof -
  let ?co = "co\<lparr>co_stats := k\<rparr>"
  obtain a w where a: "accept (sn_window s) (fh_sequence (fm_header f)) (fh_nonce (fm_header f)) = (a, w)" by fastforce
  let ?s1 = "s\<lparr>sn_window := w\<rparr>" and ?s2 = "s\<lparr>sn_window := w, sn_requests := sn_requests s + 1\<rparr>"
  have s1: "inert (co, s) (?co, ?s1)" "inert (co, s) (on_stats g ?co, ?s1)" "inert (co, s) (?co, ?s2)"
    "inert (co, s) (on_stats g ?co, ?s2)" for g
    by (rule inertI [where s = s and b = "sn_boot s", OF coordinator.equality session.equality]; simp add: on_stats_def)+
  show ?thesis
  proof (cases "a = Inr () \<and> sn_requests s < cc_max_requests_per_session (co_config co)")
    case False
    then show ?thesis
      using assms(1) a s1 unfolding serve_frame_def reject_frame_def
      by (auto simp: not_less Let_def split: sum.splits if_splits dest!: inert_refuse intro: inert_trans)
  next
    case ok: True
    then have budget: "\<not> cc_max_requests_per_session (co_config co) \<le> sn_requests s" by auto
    show ?thesis
    proof (cases "decode_message (MessageType (fh_type (fm_header f))) (fm_payload f)")
      case (Inl e)
      with assms(1) a ok have "refuse_session (tn_sent tn) e (reject_frame (co\<lparr>co_stats := k\<rparr>), ?s2) = (out, go_on, st')"
        using budget by (simp add: serve_frame_def Let_def)
      from inert_refuse [OF this] s1(4) show ?thesis unfolding reject_frame_def by (auto intro: inert_trans)
    next
      case (Inr m)
      with assms(1) a ok have m: "serve_message tn m (?co, ?s2) = (out, go_on, st')"
        using budget by (simp add: serve_frame_def Let_def)
      then show ?thesis
      proof (cases rule: serve_message_cases)
        case quiet_message
        with s1(3) ok show ?thesis by (auto intro: inert_trans)
      next
        case (request_message response st1)
        then have "admitted_request tn (co, s) m (?co, ?s2)"
          using assms(2) a ok Inr by (auto simp: admitted_request_def)
        with request_message have "served tn (co, s) st'" unfolding served_def by blast
        then show ?thesis ..
      qed
    qed
  qed
qed

lemma session_turn_cases:
  assumes "session_turn tn (co, s) = (out, go_on, st')"
  shows "inert (co, s) st' \<and> (go_on \<longrightarrow> sn_requests (snd st') = sn_requests s + 1 \<and>
      sn_requests s < cc_max_requests_per_session (co_config co)) \<or> served tn (co, s) st'"
proof -
  obtain r co1 where r: "read_frame (tn_header tn) (tn_tail tn) co = (r, co1)" by fastforce
  from read_frame_frame [OF r] obtain k where k: "co1 = co\<lparr>co_stats := k\<rparr>" ..
  have "inert (co, s) (co1, s)" unfolding k by (rule inertI [where s = s and b = "sn_boot s", OF refl session.equality]) simp_all
  with assms r show ?thesis
    by (cases r) (auto simp: session_turn_def k dest!: inert_read_failed serve_frame_cases intro: inert_trans)
qed

section \<open>What a turn does\<close>

lemma dispatch_request_cases:
  assumes "dispatch_request io m st = (response, st')"
  obtains (unknown) "st' = st"
  | (known) op r st1 k where "serve io op m st = (r, st1)" and "fst st' = (fst st1)\<lparr>co_stats := k\<rparr>" and "snd st' = snd st1"
proof -
  have keep: "co = co\<lparr>co_stats := co_stats co\<rparr>" for co by simp
  from assms have "st' = st \<or> (\<exists>op r st1 k. serve io op m st = (r, st1) \<and>
      fst st' = (fst st1)\<lparr>co_stats := k\<rparr> \<and> snd st' = snd st1)"
    by (auto simp: dispatch_request_def reject_frame_def on_stats_def Let_def
        split: sum.splits if_splits prod.splits) (use keep in blast)+
  with that show thesis by blast
qed

lemma served_fixed:
  assumes "served tn (co, s) (co', s')"
  shows "co_config co' = co_config co" and "co_sessions co' = co_sessions co" and "co_boot co' = co_boot co"
    and "co_next_ordinal co' = co_next_ordinal co" and "sn_id s' = sn_id s" and "sn_boot s' = sn_boot s"
    and "sn_requests s' = sn_requests s + 1" and "sn_requests s < cc_max_requests_per_session (co_config co)"
    and "boot_valid (sn_boot s)"
proof -
  obtain m st0 response st1 where a: "admitted_request tn (co, s) m st0"
    and d: "dispatch_request (tn_commit tn) m st0 = (response, st1)" and r: "replied st1 (co', s')"
    using assms by (auto simp: served_def)
  have "fixed_part st1 = fixed_part st0"
    using d
  proof (cases rule: dispatch_request_cases)
    case (known op r st2 k)
    from keepsD [OF serve_fixed known(1)] known(2,3) show ?thesis
      by (cases st1; cases st2; simp add: fixed_part_def)
  qed simp
  with a r show "co_config co' = co_config co" "co_sessions co' = co_sessions co" "co_boot co' = co_boot co"
    "co_next_ordinal co' = co_next_ordinal co" "sn_id s' = sn_id s" "sn_boot s' = sn_boot s"
    "sn_requests s' = sn_requests s + 1" "sn_requests s < cc_max_requests_per_session (co_config co)"
    "boot_valid (sn_boot s)"
    by (cases st0; cases st1; auto simp: admitted_request_def replied_def fixed_part_def)+
qed

lemma turn_config:
  assumes "session_turn tn (co, s) = (out, go_on, co', s')"
  shows "co_config co' = co_config co" and "co_sessions co' = co_sessions co" and "sn_id s' = sn_id s"
    and "co_next_ordinal co' = co_next_ordinal co"
    and "go_on \<Longrightarrow> sn_requests s' = sn_requests s + 1 \<and> sn_requests s < cc_max_requests_per_session (co_config co)"
  using session_turn_cases [OF assms] served_fixed [of tn co s co' s'] by (auto simp: inert_def)

lemma served_acting:
  assumes "served tn (co, s) (co', s')"
  shows "co_fabric co' = co_fabric co \<or> (\<exists>m st0 x. admitted_request tn (co, s) m st0 \<and> entitled co s x \<and>
    co_fabric co' = apply_operation (co_fabric co) x)"
proof -
  obtain m co0 s0 response st1 where a: "admitted_request tn (co, s) m (co0, s0)"
    and d: "dispatch_request (tn_commit tn) m (co0, s0) = (response, st1)" and r: "replied st1 (co', s')"
    using assms by (auto simp: served_def)
  have same: "co_fabric co0 = co_fabric co" "entitled co0 s0 x \<longleftrightarrow> entitled co s x" for x
    using a by (auto simp: admitted_request_def entitled_def session_token_def split: option.split operation.split)
  have "co_fabric co' = co_fabric (fst st1)" using r by (auto simp: replied_def)
  moreover from d have "co_fabric (fst st1) = co_fabric co0 \<or>
      (\<exists>x. entitled co0 s0 x \<and> co_fabric (fst st1) = apply_operation (co_fabric co0) x)"
  proof (cases rule: dispatch_request_cases)
    case (known op r st2 k)
    with serve_acting [of "tn_commit tn" op m, unfolded acting_def, rule_format, of co0 s0] show ?thesis
      by auto
  qed simp
  ultimately show ?thesis using a same by auto
qed

lemma entitled_well_typed: "entitled co s x \<Longrightarrow> well_typed x"
  by (auto simp: entitled_def well_typed_def policy_ok_def split: operation.splits)

section \<open>Steps of the coordinator\<close>

lemma reap_finished_simps [simp]:
  "co_fabric (reap_finished co) = co_fabric co" "co_config (reap_finished co) = co_config co"
  by (simp_all add: reap_finished_def)

lemma accept_connection_kept:
  assumes "accept_connection sent co = (out, co')"
  shows "co_fabric co' = co_fabric co" and "co_config co' = co_config co"
  using assms by (auto simp: accept_connection_def Let_def on_stats_def split: if_splits prod.splits dest!: reply_frame)

lemma stop_coordinator_kept:
  "co_fabric (stop_coordinator io co) = co_fabric co" "co_config (stop_coordinator io co) = co_config co"
proof -
  obtain r co' where c: "commit_state io (co\<lparr>co_stopped := True, co_stopping := True, co_sessions := []\<rparr>) = (r, co')"
    by fastforce
  from commit_state_frame [OF c]
  show "co_fabric (stop_coordinator io co) = co_fabric co" "co_config (stop_coordinator io co) = co_config co"
    by (auto simp: stop_coordinator_def Let_def c)
qed

lemma co_step_config: "co_step co co' \<Longrightarrow> co_config co' = co_config co"
  by (induction rule: co_step.induct) (auto simp: accept_connection_kept stop_coordinator_kept dest: turn_config(1))

lemma co_step_fabric:
  assumes "co_step co co'"
  shows "co_fabric co' = co_fabric co \<or>
    (\<exists>s x. s \<in> snd ` set (co_sessions co) \<and> entitled co s x \<and> boot_valid (sn_boot s) \<and>
       co_fabric co' = apply_operation (co_fabric co) x)"
  using assms
proof (cases rule: co_step.cases)
  case (turning k s tn out go_on co1 s1)
  have s: "s \<in> snd ` set (co_sessions co)" using map_of_SomeD [OF turning(3)] by force
  from session_turn_cases [OF turning(5)] show ?thesis
  proof
    assume "served tn (co, s) (co1, s1)"
    from served_acting [OF this] served_fixed(9) [OF this] s show ?thesis
      unfolding turning(1) by auto
  qed (auto simp: turning(1) inert_def)
qed (auto simp: accept_connection_kept stop_coordinator_kept)

end
