(* ===== verification/Sessions.thy ===== *)
theory Sessions
  imports Serving
begin

text \<open>
  What the sessions of a coordinator may do: a session acts on the fabric only as itself and only
  by a request that was let through; a run of the coordinator refines a run of the fabric; the
  sessions are bounded in number and in length; a loop of a session ends.
\<close>

section \<open>The table of sessions\<close>

definition session_ok :: "session_id \<times> session \<Rightarrow> bool" where
  "session_ok e \<longleftrightarrow> sn_id (snd e) = fst e \<and> (sn_bound (snd e) \<longrightarrow> boot_valid (sn_boot (snd e)))"

definition sessions_ok :: "coordinator \<Rightarrow> bool" where
  "sessions_ok co \<longleftrightarrow> wf_table (co_sessions co) \<and>
     length (co_sessions co) \<le> unat (cc_max_sessions (co_config co)) \<and> (\<forall>e \<in> set (co_sessions co). session_ok e)"

lemma wf_filter: "wf_table t \<Longrightarrow> wf_table (filter P t)"
  by (simp add: wf_table_def keys_def distinct_map_filter)

lemma reap_finished_ok: "sessions_ok co \<Longrightarrow> sessions_ok (reap_finished co)"
  by (auto simp: sessions_ok_def reap_finished_def session_ok_def wf_filter intro: order_trans [OF length_filter_le])

lemma length_put_known: "has_key t k \<Longrightarrow> length (put k v t) = length t"
  by (induction t) (auto simp: put_def has_key_def split: if_splits)

lemma length_emplace: "length (emplace k v t) \<le> Suc (length t)"
  by (induction t) (auto simp: emplace_def put_def has_key_def split: if_splits)

lemma set_put: "e \<in> set (put k v t) \<Longrightarrow> wf_table t \<Longrightarrow> e = (k, v) \<or> e \<in> set t"
  by (cases e) (metis map_of_put set_table wf_put fun_upd_apply option.inject)

lemma accept_connection_ok:
  assumes "sessions_ok co" and "accept_connection sent co = (out, co')"
  shows "sessions_ok co'"
proof -
  let ?co = "reap_finished co"
  note ok = reap_finished_ok [OF assms(1)]
  show ?thesis
  proof (cases "length (co_sessions ?co) \<ge> unat (cc_max_sessions (co_config ?co))")
    case True
    with assms(2) ok show ?thesis
      by (auto simp: accept_connection_def on_stats_def Let_def sessions_ok_def session_ok_def split: prod.splits
          dest!: reply_frame)
  next
    case False
    let ?i = "make_session_id (co_epoch ?co) (co_next_ordinal ?co)"
    have new: "session_ok (?i, new_session ?i)" by (simp add: session_ok_def new_session_def)
    have "set (emplace ?i (new_session ?i) (co_sessions ?co)) \<subseteq> insert (?i, new_session ?i) (set (co_sessions ?co))"
      using ok by (auto simp: emplace_def sessions_ok_def dest: set_put)
    with False assms(2) ok new length_emplace [of ?i "new_session ?i" "co_sessions ?co"] show ?thesis
      by (auto simp: accept_connection_def Let_def on_stats_def sessions_ok_def session_ok_def)
  qed
qed

lemma turn_session_ok:
  assumes "session_turn tn (co, s) = (out, go_on, co', s')" and "session_ok (k, s)"
  shows "session_ok (k, s'\<lparr>sn_finished := f\<rparr>)"
  using session_turn_cases [OF assms(1)] served_fixed [of tn co s co' s'] assms(2)
  by (auto simp: session_ok_def elim!: inertE)

lemma stop_coordinator_ok: "sessions_ok co \<Longrightarrow> sessions_ok (stop_coordinator io co)"
proof -
  assume ok: "sessions_ok co"
  let ?co = "co\<lparr>co_stopped := True, co_stopping := True, co_sessions := []\<rparr>"
  obtain r co' where c: "commit_state io ?co = (r, co')" by fastforce
  from commit_state_frame [OF c] ok show ?thesis
    by (auto simp: stop_coordinator_def Let_def c sessions_ok_def)
qed

lemma sessions_ok_put:
  assumes "sessions_ok co" and "has_key (co_sessions co) k" and "session_ok (k, s)"
  shows "sessions_ok (co\<lparr>co_sessions := put k s (co_sessions co)\<rparr>)"
  using assms by (auto simp: sessions_ok_def length_put_known dest!: set_put)

lemma co_step_sessions_ok: "co_step co co' \<Longrightarrow> sessions_ok co \<Longrightarrow> sessions_ok co'"
proof (induction rule: co_step.induct)
  case (turning co k s tn out go_on co' s')
  note same = turn_config [OF turning(4)]
  have "sessions_ok co'" using turning(5) same by (simp add: sessions_ok_def)
  moreover have "(k, s) \<in> set (co_sessions co)" using turning(2) by (rule map_of_SomeD)
  then have "session_ok (k, s'\<lparr>sn_finished := \<not> go_on\<rparr>)"
    using turning(5) turn_session_ok [OF turning(4)] by (auto simp: sessions_ok_def)
  ultimately show ?case using turning(2) same by (intro sessions_ok_put) (auto simp: has_key_def)
next
  case (leaving co k s)
  have "(k, s) \<in> set (co_sessions co)" using leaving(2) by (rule map_of_SomeD)
  then have "session_ok (k, s\<lparr>sn_finished := True\<rparr>)" using leaving(3) by (auto simp: sessions_ok_def session_ok_def)
  with leaving show ?case by (intro sessions_ok_put) (auto simp: has_key_def)
qed (auto intro: accept_connection_ok reap_finished_ok stop_coordinator_ok)

lemma co_steps_sessions_ok: "co_step\<^sup>*\<^sup>* co co' \<Longrightarrow> sessions_ok co \<Longrightarrow> sessions_ok co'"
  by (induction rule: rtranclp_induct) (auto intro: co_step_sessions_ok)

section \<open>Runs of the coordinator\<close>

text \<open>What the fabric may be asked for: calls with the identity of a session, and a rebase only where it is allowed.\<close>

definition call_boot :: "operation \<Rightarrow> boot_id option" where
  "call_boot x = (case x of
      Op_RegisterJob r \<Rightarrow> Some (jr_boot r)
    | Op_AdmitReplacement r \<Rightarrow> Some (rr_new_boot r)
    | _ \<Rightarrow> map_option at_boot (call_token x))"

definition permitted :: "coordinator_config \<Rightarrow> operation \<Rightarrow> bool" where
  "permitted c x \<longleftrightarrow> well_typed x \<and> (case call_boot x of Some b \<Rightarrow> boot_valid b | None \<Rightarrow> True) \<and>
     (case x of Op_RebaseEpoch e \<Rightarrow> cc_allow_rebase_operation c | _ \<Rightarrow> True)"

lemma entitled_permitted: "entitled co s x \<Longrightarrow> boot_valid (sn_boot s) \<Longrightarrow> permitted (co_config co) x"
  unfolding permitted_def by (auto dest: entitled_well_typed)
    (auto simp: entitled_def call_boot_def call_token_def session_token_def split: operation.splits)

lemma execute_append: "execute st (xs @ ys) = execute (execute st xs) ys"
  by (simp add: execute_def)

lemma admissible_well_typed: "admissible False st xs \<longleftrightarrow> list_all well_typed xs"
  by (induction xs arbitrary: st) simp_all

lemma co_steps_execute:
  assumes "co_step\<^sup>*\<^sup>* co co'"
  shows "co_config co' = co_config co \<and>
    (\<exists>xs. list_all (permitted (co_config co)) xs \<and> co_fabric co' = execute (co_fabric co) xs)"
  using assms
proof (induction rule: rtranclp_induct)
  case base
  have "list_all (permitted (co_config co)) [] \<and> co_fabric co = execute (co_fabric co) []" by simp
  then show ?case by blast
next
  case (step co1 co2)
  then obtain xs where xs: "list_all (permitted (co_config co)) xs" "co_fabric co1 = execute (co_fabric co) xs"
    and c: "co_config co1 = co_config co" by blast
  from co_step_fabric [OF step(2)] show ?case
  proof (elim disjE exE conjE)
    fix s x
    assume x: "entitled co1 s x" "boot_valid (sn_boot s)" "co_fabric co2 = apply_operation (co_fabric co1) x"
    have "list_all (permitted (co_config co)) (xs @ [x])" using xs(1) entitled_permitted [OF x(1,2)] c by simp
    moreover have "co_fabric co2 = execute (co_fabric co) (xs @ [x])" using x(3) xs(2) by (simp add: execute_append)
    ultimately show ?thesis using co_step_config [OF step(2)] c by metis
  qed (use xs c co_step_config [OF step(2)] in auto)
qed

section \<open>The loop of a session\<close>

lemma run_session_ends:
  assumes "list_all (\<lambda>e. \<forall>co. co_config (snd e co) = co_config co) es"
    and "unat (cc_max_requests_per_session (co_config co)) - unat (sn_requests s) < length es"
  shows "sn_finished (snd (snd (run_session es (co, s))))"
  using assms
proof (induction es arbitrary: co s)
  case (Cons e es)
  obtain out go_on co1 s1 where t: "session_turn (fst e) (co, s) = (out, go_on, co1, s1)" by (metis prod_cases4)
  note same = turn_config [OF t]
  show ?case
  proof (cases "co_stopping co \<or> \<not> go_on")
    case False
    with same(5) have n: "sn_requests s1 = sn_requests s + 1"
      and less: "sn_requests s < cc_max_requests_per_session (co_config co)" by auto
    have budget: "unat (sn_requests s) < unat (cc_max_requests_per_session (co_config co))"
      using less by (simp add: word_less_nat_alt)
    moreover have "unat (sn_requests s1) = Suc (unat (sn_requests s))"
      using budget unat_max64 [of "cc_max_requests_per_session (co_config co)"] unfolding n
      by (subst unat_Suc64) auto
    moreover have "co_config (snd e co1) = co_config co" using Cons.prems(1) same(1) by simp
    ultimately have "sn_finished (snd (snd (run_session es (snd e co1, s1))))"
      using Cons.prems by (intro Cons.IH) auto
    with False t show ?thesis by (auto split: prod.split)
  qed (auto simp: t)
qed simp

section \<open>A request that arrives whole\<close>

definition arrives :: "bytes \<Rightarrow> turn_answers \<Rightarrow> bool" where
  "arrives fr tn \<longleftrightarrow> tn_header tn = Inr (take 44 fr) \<and> tn_tail tn = (\<lambda>n. Inr (take n (drop 44 fr)))"

lemma read_frame_image:
  assumes "length payload \<le> kMaxPayloadBytes" and "\<not> co_stopping co"
    and "arrives (frame_image type flags session sequence nonce payload) tn"
  shows "\<exists>k. read_frame (tn_header tn) (tn_tail tn) co =
    (FrameOk (frame_of type flags session sequence nonce payload), co\<lparr>co_stats := k\<rparr>)"
proof -
  let ?fr = "frame_image type flags session sequence nonce payload"
  have fr: "decode_frame ?fr = Inr (frame_of type flags session sequence nonce payload)"
    using assms(1) by (rule decode_frame_image)
  have len: "length ?fr = 48 + length payload" by (rule length_frame_image)
  have n: "unat (of_nat (length payload) :: u32) = length payload"
    using assms(1) by (simp add: unat_of_nat bound_defs)
  have "frame_payload_length (take 44 ?fr) = Inr (of_nat (length payload))"
    using assms(1) by (simp add: frame_payload_length_Inr len take_frame_image read_at_frame_image n)
  then show ?thesis
    using assms(2,3) fr len n
    by (auto simp: read_frame_def arrives_def kFrameHeaderBytes_def on_stats_def)
qed

text \<open>A message as the other side reads it: its fields in tag order.\<close>

definition ordered :: "message \<Rightarrow> message" where
  "ordered m = m\<lparr>ms_fields := sort_key fd_tag (ms_fields m)\<rparr>"

lemma encoded_decodes:
  assumes "encode_message m = Inr payload" and "list_all bool_normal (ms_fields m)"
  shows "decode_message (ms_type m) payload = Inr (ordered m)"
proof -
  let ?fs = "sort_key fd_tag (ms_fields m)"
  from assms(1) have m: "ms_type m \<noteq> MT_Invalid" "length payload \<le> kMaxPayloadBytes" "length ?fs \<le> kMaxFieldsPerMessage"
    "\<forall>f \<in> set ?fs. field_checks f = Inr ()" "sorted_wrt (<) (map fd_tag ?fs)" "payload = message_image ?fs"
    by (auto simp: encode_message_Inr Let_def)
  have "field_good f" if f: "f \<in> set ?fs" for f
  proof -
    have "length (fd_value f) + 7 \<le> length (message_image ?fs)" using f by (rule message_image_bound)
    then show ?thesis using f m(2,4,6) assms(2) by (simp add: field_good_def list_all_iff bound_defs)
  qed
  with m show ?thesis
    unfolding decode_message_Inr by (intro conjI exI [of _ ?fs]) (simp_all add: ordered_def)
qed

lemma turn_of_request:
  assumes "encode_message m = Inr payload" and "list_all bool_normal (ms_fields m)" and "ms_type m = MT_Request"
    and "arrives (frame_image 10 flags session sequence nonce payload) tn" and "\<not> co_stopping co"
    and "accept (sn_window s) sequence nonce = (Inr (), w)" and "boot_valid (sn_boot s)"
    and "sn_requests s < cc_max_requests_per_session (co_config co)"
  shows "\<exists>k. session_turn tn (co, s) =
    serve_request tn (ordered m) (co\<lparr>co_stats := k\<rparr>, s\<lparr>sn_window := w, sn_requests := sn_requests s + 1\<rparr>)"
proof -
  have "length payload \<le> kMaxPayloadBytes" using assms(1) by (auto simp: encode_message_Inr Let_def)
  from read_frame_image [OF this assms(5,4)] obtain k where
    r: "read_frame (tn_header tn) (tn_tail tn) co = (FrameOk (frame_of 10 flags session sequence nonce payload), co\<lparr>co_stats := k\<rparr>)"
    by blast
  have budget: "\<not> cc_max_requests_per_session (co_config co) \<le> sn_requests s" using assms(8) by auto
  have "decode_message MT_Request payload = Inr (ordered m)" using encoded_decodes [OF assms(1,2)] assms(3) by simp
  with r assms budget have "session_turn tn (co, s) =
    serve_request tn (ordered m) (co\<lparr>co_stats := k\<rparr>, s\<lparr>sn_window := w, sn_requests := sn_requests s + 1\<rparr>)"
    by (simp add: session_turn_def serve_frame_def frame_of_def Let_def serve_message_def ordered_def)
  then show ?thesis ..
qed

section \<open>A small coordinator\<close>

definition small_config :: coordinator_config where
  "small_config = \<lparr>cc_max_sessions = 4, cc_max_requests_per_session = 10, cc_enable_state_store = False,
     cc_state_directory = [], cc_allow_shutdown_operation = False, cc_allow_rebase_operation = True,
     cc_fabric = default_config\<rparr>"

definition small_session :: session where
  "small_session = (new_session 7)\<lparr>sn_boot := BootId 1 2\<rparr>"

definition small_coordinator :: coordinator where
  "small_coordinator = (coordinator_impl small_config \<lparr>dk_live = None, dk_temporary = None\<rparr> [] 1)
     \<lparr>co_epoch := 1, co_sessions := [(7, small_session)]\<rparr>"

definition rebase_request :: message where
  "rebase_request = set_u64 kEpoch 5 (set_u16 kOperation 6 (new_message MT_Request))"

definition rebase_turn :: turn_answers where
  "rebase_turn = (let fr = frame_image 10 0 7 1 9 (message_image (ms_fields rebase_request))
     in \<lparr>tn_header = Inr (take 44 fr), tn_tail = (\<lambda>n. Inr (take n (drop 44 fr))), tn_sent = Inr (), tn_commit = all_well\<rparr>)"

lemma rebase_fields: "ms_fields rebase_request =
    [\<lparr>fd_tag = 3, fd_type = FT_U16, fd_value = le_bytes 2 (6 :: u16)\<rparr>,
     \<lparr>fd_tag = 14, fd_type = FT_U64, fd_value = le_bytes 8 (5 :: u64)\<rparr>]" "ms_type rebase_request = MT_Request"
  by (simp_all add: rebase_request_def set_u64_def set_u16_def set_field_def new_message_def kEpoch_def kOperation_def)

lemma rebase_encoded: "encode_message rebase_request = Inr (message_image (ms_fields rebase_request))"
  by (simp add: encode_message_Inr rebase_fields Let_def bound_defs field_checks_Inr kMaxKnownTag_def
      message_image_def field_image_def one_byte_def)

lemma rebase_ordered:
  "get_u16 (ordered rebase_request) kOperation = Inr 6" "get_u64_or (ordered rebase_request) kEpoch 0 = 5"
  by (simp_all add: ordered_def rebase_fields get_u16_def get_u64_or_def get_u64_def get_field_def find_field_def
      typed_def kOperation_def kEpoch_def read_at_def of_le_le_bytes take_bit_word_eq_self)

lemma small_turn:
  obtains out go_on co' s' where "session_turn rebase_turn (small_coordinator, small_session) = (out, go_on, co', s')"
    and "co_fabric co' = apply_operation (co_fabric small_coordinator) (Op_RebaseEpoch 5)"
    and "fb_now (co_fabric co') = 1"
proof -
  let ?s = "\<lambda>w. small_session\<lparr>sn_window := w, sn_requests := sn_requests small_session + 1\<rparr>"
  have start: "list_all bool_normal (ms_fields rebase_request)"
    "arrives (frame_image 10 0 7 1 9 (message_image (ms_fields rebase_request))) rebase_turn"
    "\<not> co_stopping small_coordinator" "boot_valid (sn_boot small_session)"
    "sn_requests small_session < cc_max_requests_per_session (co_config small_coordinator)"
    by (simp_all add: rebase_fields bool_normal_def arrives_def rebase_turn_def small_coordinator_def
        coordinator_impl_def small_config_def small_session_def new_session_def boot_valid_def Let_def)
  obtain w where w: "accept (sn_window small_session) 1 9 = (Inr (), w)"
    by (simp add: accept_def small_session_def new_session_def make_window_def Let_def)
  from turn_of_request [OF rebase_encoded start(1) rebase_fields(2) start(2,3) w start(4,5)]
  obtain k where t: "session_turn rebase_turn (small_coordinator, small_session) =
      serve_request rebase_turn (ordered rebase_request) (small_coordinator\<lparr>co_stats := k\<rparr>, ?s w)" by blast
  obtain out go_on co' s' where turn: "session_turn rebase_turn (small_coordinator, small_session) = (out, go_on, co', s')"
    by (metis prod_cases4)
  from turn [unfolded t] obtain response st1
    where d: "dispatch_request (tn_commit rebase_turn) (ordered rebase_request) (small_coordinator\<lparr>co_stats := k\<rparr>, ?s w) = (response, st1)"
      and r: "replied st1 (co', s')" by (rule serve_request_replied)
  from d have "co_fabric (fst st1) = apply_operation (co_fabric small_coordinator) (Op_RebaseEpoch 5) \<and>
      fb_now (co_fabric (fst st1)) = 1"
    by (auto simp: dispatch_request_def rebase_ordered is_known_operation_def operation_codes_def serve_def
        serve_rebase_epoch_def then_do_def look_def check_def call_fabric_def on_coordinator_def persist_def
        commit_state_def on_stats_def answer_def given_def small_coordinator_def coordinator_impl_def small_config_def
        RebaseEpoch_def require_def make_fabric_def tick_def valid_def apply_operation_def default_config_def Let_def
        split: prod.splits)
  with r have "co_fabric co' = apply_operation (co_fabric small_coordinator) (Op_RebaseEpoch 5) \<and> fb_now (co_fabric co') = 1"
    by (auto simp: replied_def)
  with turn that show thesis by blast
qed

section \<open>Properties\<close>

text \<open>
  C29: a session acts on the fabric only as itself: a turn changes the fabric only by one call,
  made for a request whose frame is intact, was not seen before and is within the budget of a
  session that said who it is; the call carries the identity of the session, its boot and the
  epoch of the coordinator, a session registers a job only once, and the epoch is changed over
  the wire only where the configuration allows it.
\<close>

theorem session_acts_as_itself:
  assumes "session_turn tn (co, s) = (out, go_on, co', s')" and "co_fabric co' \<noteq> co_fabric co"
  shows "\<exists>m st0 x. admitted_request tn (co, s) m st0 \<and> entitled co s x \<and>
    co_fabric co' = apply_operation (co_fabric co) x"
  using session_turn_cases [OF assms(1)] served_acting [of tn co s co' s'] assms(2)
  by (auto simp: inert_def)

lemma session_acts_as_itself_witness:
  "\<exists>co' s' m st0 x. fst (snd (snd (session_turn rebase_turn (small_coordinator, small_session)))) = co' \<and>
     admitted_request rebase_turn (small_coordinator, small_session) m st0 \<and>
     entitled small_coordinator small_session x \<and> co_fabric co' = apply_operation (co_fabric small_coordinator) x"
proof -
  obtain out go_on co' s' where t: "session_turn rebase_turn (small_coordinator, small_session) = (out, go_on, co', s')"
    and "fb_now (co_fabric co') = 1" by (rule small_turn)
  moreover have "fb_now (co_fabric small_coordinator) = 0"
    by (simp add: small_coordinator_def coordinator_impl_def small_config_def make_fabric_def default_config_def)
  ultimately have "co_fabric co' \<noteq> co_fabric small_coordinator" by auto
  from session_acts_as_itself [OF t this] show ?thesis by (auto simp: t)
qed

text \<open>
  C30: a run of the coordinator refines a run of the fabric: whatever connections, frames,
  failures and interleavings of its threads, the fabric it ends with is the one that a sequence
  of calls leaves that are well typed, carry a valid boot identity and rebase the epoch only
  where the configuration allows it.
\<close>

theorem coordinator_refines_fabric:
  assumes "co_step\<^sup>*\<^sup>* co co'"
  shows "\<exists>xs. list_all (permitted (co_config co)) xs \<and> co_fabric co' = execute (co_fabric co) xs \<and>
    calls False (co_fabric co) (length xs) (co_fabric co')"
proof -
  from co_steps_execute [OF assms] obtain xs where xs: "list_all (permitted (co_config co)) xs"
    "co_fabric co' = execute (co_fabric co) xs" by blast
  then have "admissible False (co_fabric co) xs"
    unfolding admissible_well_typed by (auto simp: list_all_iff permitted_def)
  with xs calls_execute show ?thesis by metis
qed

lemma small_step:
  obtains co' where "co_step small_coordinator co'"
    and "co_fabric co' = apply_operation (co_fabric small_coordinator) (Op_RebaseEpoch 5)"
proof -
  obtain out go_on co' s' where t: "session_turn rebase_turn (small_coordinator, small_session) = (out, go_on, co', s')"
    and f: "co_fabric co' = apply_operation (co_fabric small_coordinator) (Op_RebaseEpoch 5)" by (rule small_turn)
  have "co_step small_coordinator (co'\<lparr>co_sessions := put 7 (s'\<lparr>sn_finished := \<not> go_on\<rparr>) (co_sessions co')\<rparr>)"
    by (rule turning [OF _ _ _ t])
      (simp_all add: small_coordinator_def coordinator_impl_def small_session_def new_session_def)
  with f that show thesis by simp
qed

lemma coordinator_refines_fabric_witness:
  "\<exists>(co' :: coordinator) xs. co_fabric co' = apply_operation (co_fabric small_coordinator) (Op_RebaseEpoch 5) \<and>
     list_all (permitted (co_config small_coordinator)) xs \<and> co_fabric co' = execute (co_fabric small_coordinator) xs"
proof -
  obtain co' where step: "co_step small_coordinator co'"
    and "co_fabric co' = apply_operation (co_fabric small_coordinator) (Op_RebaseEpoch 5)" by (rule small_step)
  then show ?thesis using coordinator_refines_fabric [OF r_into_rtranclp [where r = co_step, OF step]] by blast
qed

text \<open>
  C40: from a coordinator without sessions on, there are never more sessions than the
  configuration allows, no two under one identity, each keeps the identity it was accepted
  under, and a session that is bound to a job has said which valid boot it is.
\<close>

theorem sessions_bounded:
  assumes "co_step\<^sup>*\<^sup>* co co'" and "co_sessions co = []"
  shows "length (co_sessions co') \<le> unat (cc_max_sessions (co_config co)) \<and> wf_table (co_sessions co') \<and>
    (\<forall>e \<in> set (co_sessions co'). sn_id (snd e) = fst e \<and> (sn_bound (snd e) \<longrightarrow> boot_valid (sn_boot (snd e))))"
proof -
  have "sessions_ok co" using assms(2) by (simp add: sessions_ok_def)
  with co_steps_sessions_ok [OF assms(1)] co_steps_execute [OF assms(1)] show ?thesis
    by (simp add: sessions_ok_def session_ok_def)
qed

lemma sessions_bounded_witness:
  "\<exists>co' :: coordinator. co_sessions co' \<noteq> [] \<and> length (co_sessions co') \<le> unat (cc_max_sessions small_config)"
proof -
  let ?co = "small_coordinator\<lparr>co_sessions := []\<rparr>"
  obtain out co' where a: "accept_connection (Inr ()) ?co = (out, co')" by fastforce
  then have "co_step ?co co'" by (intro accepting) (simp_all add: small_coordinator_def coordinator_impl_def)
  moreover from a have "co_sessions co' \<noteq> []"
    by (auto simp: accept_connection_def reap_finished_def on_stats_def Let_def small_coordinator_def
        coordinator_impl_def small_config_def emplace_def put_def has_key_def split: prod.splits)
  moreover have "co_config ?co = small_config" by (simp add: small_coordinator_def coordinator_impl_def)
  ultimately show ?thesis using sessions_bounded [OF r_into_rtranclp, of ?co co']
    by (intro exI [of _ co']) simp
qed

text \<open>
  C36: the loop of a session ends: however the other threads interleave, as long as they leave
  the configuration alone, and whatever arrives, the session is finished after at most as many
  turns as its budget of requests has left, and one more.
\<close>

theorem session_loop_ends:
  assumes "list_all (\<lambda>e. \<forall>co. co_config (snd e co) = co_config co) es"
    and "unat (cc_max_requests_per_session (co_config co)) - unat (sn_requests s) < length es"
  shows "sn_finished (snd (snd (run_session es (co, s))))"
  using assms by (rule run_session_ends)

lemma session_loop_ends_witness:
  "sn_finished (snd (snd (run_session (replicate 11 (rebase_turn, \<lambda>co. co)) (small_coordinator, small_session))))"
  by (rule session_loop_ends) (simp_all add: list_all_iff small_coordinator_def coordinator_impl_def small_config_def
      small_session_def new_session_def)

end
