(* ===== verification/Restart.thy ===== *)
theory Restart
  imports Sizes Settlement
begin

text \<open>
  A coordinator that starts from a snapshot. Whatever bytes it is given, what it accepts
  holds no grant; and the state restored from the snapshot of a run satisfies the invariant
  of runs again, so that what is proved of runs goes on to hold after the restart.
\<close>

section \<open>Whatever is read holds no grant\<close>

definition step_quiet :: "step_state \<Rightarrow> bool" where
  "step_quiet s \<longleftrightarrow> ss_flows s = [] \<and> (\<forall>i. get0 (ss_phase_active_flows s) i = 0) \<and> balanced (ss_accounting s) \<and>
     (\<forall>i. ph_bytes_committed (phase_accounting_of s i) = ph_bytes_completed (phase_accounting_of s i))"

definition job_quiet :: "job_state \<Rightarrow> bool" where
  "job_quiet j \<longleftrightarrow> js_decisions j = [] \<and> js_receipts j = [] \<and> (\<forall>g. utilized_bps j g = 0) \<and>
     (\<forall>g. active_flow_count j g = 0) \<and> (\<forall>s. js_step j = Some s \<longrightarrow> step_quiet s) \<and>
     (\<forall>r \<in> set (js_history j). report_balanced r)"

text \<open>The parts of a job that the loops and the later readers leave as they find them.\<close>

lemma emplace_lookup: "map_of (emplace k v t) k' = (if k' = k \<and> \<not> has_key t k then Some v else map_of t k')"
  by (simp add: emplace_def)

definition filling :: "step_state \<Rightarrow> bool" where
  "filling s \<longleftrightarrow> ss_flows s = [] \<and> (\<forall>i. get0 (ss_phase_active_flows s) i = 0) \<and>
     (\<forall>i. ph_bytes_committed (phase_accounting_of s i) = ph_bytes_completed (phase_accounting_of s i))"

lemma phase_entry_filling:
  assumes "filling s" and "read_phase_entry job s bs = Inr (s', rest)"
  shows "filling s'"
  using assms
  by (auto simp: read_phase_entry_def reader_steps_iff filling_def get0_put phase_accounting_of_def
      emplace_lookup empty_phase_accounting_def split: option.splits)

lemma reconciled_quiet:
  assumes "filling s" and "\<not> sa_bytes_completed (ss_accounting s) + sa_bytes_cancelled (ss_accounting s) > sa_bytes_committed (ss_accounting s)"
    and "sa_active_flows (ss_accounting s) = 0" and "sa_active_min_bps (ss_accounting s) = 0"
  shows "step_quiet (fst (reconcile_step epoch s))"
  using assms
  by (auto simp: reconcile_step_def Let_def step_quiet_def filling_def balanced_def phase_accounting_of_def)

lemma accounting_possible:
  "read_accounting step bs = Inr (a, rest) \<Longrightarrow> \<not> sa_bytes_completed a + sa_bytes_cancelled a > sa_bytes_committed a"
  by (auto simp: read_accounting_def reader_steps_iff)

lemma open_step_quiet:
  assumes "read_open_step job bs = Inr ((s, reconciled), rest)"
  shows "step_quiet s"
proof -
  obtain s0 a n bs0 bs1 bs2 rest0 rest1 ident g i o' d sl where
    fold: "read_fold n (read_phase_entry job) (new_step ident g i o' d sl) bs0 = Inr (s0, rest0)"
    and acc: "read_accounting ident bs1 = Inr (a, rest1)"
    and s: "\<exists>fences observed seen burst. (s, reconciled) = reconcile_step (js_epoch job)
       (s0\<lparr>ss_accounting := a\<lparr>sa_active_flows := 0, sa_active_min_bps := 0\<rparr>, ss_fences := fences,
         ss_fences_observed := observed, ss_intents_seen := seen, ss_burst := burst\<rparr>)"
    using assms unfolding read_open_step_def reader_steps_iff
    by (auto simp: reader_steps_iff split: prod.splits) blast
  have start: "filling (new_step ident g i o' d sl)"
    by (simp add: filling_def new_step_def get0_def phase_accounting_of_def empty_phase_accounting_def)
  have "filling s0"
    by (rule read_fold_keeps [where P = filling, OF _ start fold]) (rule phase_entry_filling)
  moreover from s obtain fences observed seen burst where "s = fst (reconcile_step (js_epoch job)
       (s0\<lparr>ss_accounting := a\<lparr>sa_active_flows := 0, sa_active_min_bps := 0\<rparr>, ss_fences := fences,
         ss_fences_observed := observed, ss_intents_seen := seen, ss_burst := burst\<rparr>))"
    by (metis fst_conv)
  ultimately show ?thesis
    using accounting_possible [OF acc]
    by (auto simp: filling_def phase_accounting_of_def intro!: reconciled_quiet)
qed

lemma optional_step_quiet:
  "read_optional_step job bs = Inr ((step, reconciled), rest) \<Longrightarrow> step = Some s \<Longrightarrow> step_quiet s"
  by (auto simp: read_optional_step_def reader_steps_iff open_step_quiet split: if_splits prod.splits)

lemma report_read_balanced: "read_report job bs = Inr (r, rest) \<Longrightarrow> report_balanced r"
  by (auto simp: read_report_def reader_steps_iff report_balanced_def split: prod.splits)

text \<open>Every reader that is handed a quiet job hands on a quiet job.\<close>

lemma turns_quiet:
  "job_quiet j \<Longrightarrow> read_group j bs = Inr (j', rest) \<Longrightarrow> job_quiet j'"
  "job_quiet j \<Longrightarrow> read_link j bs = Inr (j', rest) \<Longrightarrow> job_quiet j'"
  "job_quiet j \<Longrightarrow> read_retired j bs = Inr (j', rest) \<Longrightarrow> job_quiet j'"
  "job_quiet j \<Longrightarrow> read_history j bs = Inr (j', rest) \<Longrightarrow> job_quiet j'"
  by (auto simp: read_group_def read_link_def read_retired_def read_history_def reader_steps_iff Let_def
      job_quiet_def utilized_bps_def active_flow_count_def get0_put report_read_balanced)

lemma folds_quiet:
  "job_quiet j \<Longrightarrow> read_fold n read_group j bs = Inr (j', rest) \<Longrightarrow> job_quiet j'"
  "job_quiet j \<Longrightarrow> read_fold n read_link j bs = Inr (j', rest) \<Longrightarrow> job_quiet j'"
  "job_quiet j \<Longrightarrow> read_fold n read_retired j bs = Inr (j', rest) \<Longrightarrow> job_quiet j'"
  "job_quiet j \<Longrightarrow> read_fold n read_history j bs = Inr (j', rest) \<Longrightarrow> job_quiet j'"
  by (erule (1) read_fold_keeps [where P = job_quiet, rotated], erule (1) turns_quiet)+

lemma stages_quiet:
  "read_job_identity bs = Inr (j', rest) \<Longrightarrow> job_quiet j'"
  "job_quiet j \<Longrightarrow> read_job_groups j bs = Inr (j', rest) \<Longrightarrow> job_quiet j'"
  "job_quiet j \<Longrightarrow> read_job_retired j bs = Inr (j', rest) \<Longrightarrow> job_quiet j'"
  "job_quiet j \<Longrightarrow> read_job_history j bs = Inr (j', rest) \<Longrightarrow> job_quiet j'"
  "job_quiet j \<Longrightarrow> read_job_step j bs = Inr ((j', reconciled), rest) \<Longrightarrow> job_quiet j'"
  "job_quiet j \<Longrightarrow> read_job_allocators j bs = Inr (j', rest) \<Longrightarrow> job_quiet j'"
proof -
  show "read_job_identity bs = Inr (j', rest) \<Longrightarrow> job_quiet j'"
    by (auto simp: read_job_identity_def reader_steps_iff job_quiet_def blank_job_def utilized_bps_def
        active_flow_count_def get0_def)
  assume j: "job_quiet j"
  show "read_job_groups j bs = Inr (j', rest) \<Longrightarrow> job_quiet j'"
    "read_job_retired j bs = Inr (j', rest) \<Longrightarrow> job_quiet j'"
    "read_job_history j bs = Inr (j', rest) \<Longrightarrow> job_quiet j'"
    using folds_quiet [OF j] by (auto simp: read_job_groups_def read_job_retired_def read_job_history_def reader_steps_iff)
  show "read_job_step j bs = Inr ((j', reconciled), rest) \<Longrightarrow> job_quiet j'"
    using j optional_step_quiet
    by (fastforce simp: read_job_step_def reader_steps_iff job_quiet_def utilized_bps_def active_flow_count_def
        split: prod.splits)
  show "read_job_allocators j bs = Inr (j', rest) \<Longrightarrow> job_quiet j'"
    using j by (auto simp: read_job_allocators_def reader_steps_iff job_quiet_def utilized_bps_def active_flow_count_def)
qed

lemma topology_quiet:
  assumes "job_quiet j" and "read_job_topology j bs = Inr (j', rest)"
  shows "job_quiet j'"
proof -
  have "job_quiet (j\<lparr>js_topology := t\<rparr>)" for t
    using assms(1) by (simp add: job_quiet_def utilized_bps_def active_flow_count_def)
  from folds_quiet(2) [OF this] assms(2) show ?thesis
    by (auto simp: read_job_topology_def reader_steps_iff)
qed

lemma job_read_quiet:
  assumes "read_job bs = Inr ((j, reconciled), rest)"
  shows "job_quiet j"
proof -
  obtain j1 j2 j3 j4 j5 r1 r2 r3 r4 r5 r6 where
    "read_job_identity bs = Inr (j1, r1)" "read_job_groups j1 r1 = Inr (j2, r2)"
    "read_job_topology j2 r2 = Inr (j3, r3)" "read_job_retired j3 r3 = Inr (j4, r4)"
    "\<exists>j7 j6 b. read_job_step j4 r4 = Inr ((j6, b), r5) \<and> read_job_history j6 r5 = Inr (j7, r6) \<and>
       read_job_allocators j7 r6 = Inr (j, rest)"
    using assms by (auto simp: read_job_def reader_steps_iff split: prod.splits) blast
  then show ?thesis
    by (metis stages_quiet topology_quiet)
qed

definition fabric_quiet :: "fabric_state \<Rightarrow> bool" where
  "fabric_quiet st \<longleftrightarrow> (\<forall>k j. map_of (fb_jobs st) k = Some j \<longrightarrow> job_quiet j \<and> js_id j = k) \<and> wf_table (fb_jobs st)"

lemma job_entry_quiet:
  assumes "fabric_quiet (fst s)" and "read_job_entry s bs = Inr (s', rest)"
  shows "fabric_quiet (fst s')"
proof -
  obtain st previous where s: "s = (st, previous)" by (cases s)
  obtain j reconciled r where j: "read_job bs = Inr ((j, reconciled), r)"
    and s': "fst s' = st\<lparr>fb_next_job_id := max (fb_next_job_id st) (js_id j + 1),
              fb_jobs := emplace (js_id j) j (fb_jobs st)\<rparr>"
    using assms(2) by (auto simp: s read_job_entry_def reader_steps_iff split: prod.splits)
  show ?thesis
    using assms(1) job_read_quiet [OF j] unfolding s'
    by (auto simp: s fabric_quiet_def emplace_lookup split: if_splits)
qed

lemma read_state_quiet:
  assumes "read_state config bs = Inr (st, rest)"
  shows "fabric_quiet st"
proof -
  obtain n new bs0 previous r where new: "fb_jobs new = []"
    and fold: "read_fold n read_job_entry (new, 0) bs0 = Inr ((st, previous), r)"
    using assms by (auto simp: read_state_def reader_steps_iff split: prod.splits)
      (metis fabric_state.select_convs(4))
  have start: "fabric_quiet (fst (new, 0 :: u64))" by (simp add: fabric_quiet_def new)
  have "fabric_quiet (fst (st, previous))"
    by (rule read_fold_keeps [where P = "\<lambda>s. fabric_quiet (fst s)", OF _ start fold]) (rule job_entry_quiet)
  then show ?thesis by simp
qed

section \<open>The restored state of a run\<close>

lemma written_phases_from:
  assumes "(p, a) \<in> set (written_phases s)"
  shows "\<exists>i. map_of (ss_phases s) i = Some p" and "a = phase_accounting_of s (pr_id p)"
  using assms by (auto simp: written_phases_def phase_accounting_of_def split: option.splits)

lemma restored_step_fields [simp]:
  "ss_step (restored_step s) = ss_step s" "ss_incarnation (restored_step s) = ss_incarnation s"
  "ss_job_generation (restored_step s) = ss_job_generation s" "ss_flows (restored_step s) = []"
  "ss_accounting (restored_step s) = normalized_accounting (ss_accounting s)"
  "ss_phases (restored_step s) = map (\<lambda>e. (entry_id e, fst e)) (written_phases s)"
  "ss_phase_accounting (restored_step s) = map (\<lambda>e. (entry_id e, settled_phase (snd e))) (written_phases s)"
  "ss_phase_active_flows (restored_step s) = map (\<lambda>e. (entry_id e, 0)) (written_phases s)"
  by (simp_all add: restored_step_def fill_step_def new_step_def)

lemma map_of_entries:
  "map_of (map (\<lambda>e. (f e, g e)) es) k = Some v \<Longrightarrow> \<exists>e \<in> set es. f e = k \<and> g e = v"
  by (induction es) (auto split: if_splits)

lemma get0_zeros: "get0 (map (\<lambda>e. (f e, 0)) es) k = 0"
  by (auto simp: get0_def dest!: map_of_entries split: option.split)

lemma ascending_distinct: "ascending xs \<Longrightarrow> distinct xs"
  by (simp add: ascending_def strict_sorted_iff)

lemma restored_flows_ok:
  assumes "flows_ok job s" and "ascending (map entry_id (written_phases s))"
  shows "flows_ok (restored_job job) (restored_step s)"
proof -
  have wf: "wf_table (ss_phases (restored_step s))"
    using ascending_distinct [OF assms(2)] by (simp add: wf_table_def keys_def comp_def)
  have phase: "pr_id p = i \<and> pr_step p = ss_step s \<and> i < js_next_phase_id job"
    if p: "map_of (ss_phases (restored_step s)) i = Some p" for i p
  proof -
    from map_of_entries [OF p [simplified]] obtain a where "(p, a) \<in> set (written_phases s)" and i: "pr_id p = i"
      by auto
    from written_phases_from(1) [OF this(1)] obtain k where "map_of (ss_phases s) k = Some p" ..
    with assms(1) have "pr_id p = k \<and> pr_step p = ss_step s \<and> k < js_next_phase_id job"
      unfolding flows_ok_def by blast
    with i show ?thesis by simp
  qed
  have keys: "has_key (ss_phase_active_flows (restored_step s)) i \<longleftrightarrow> has_key (ss_phases (restored_step s)) i" for i
    by (simp add: set_keys [symmetric] keys_def comp_def del: set_map)
  have next_phase: "js_next_phase_id (restored_job job) = js_next_phase_id job"
    by (simp add: restored_job_def)
  show ?thesis
    unfolding flows_ok_def restored_step_fields(1,4) next_phase
    using wf phase keys by (auto simp del: restored_step_fields)
qed

lemma restored_phase_accounting:
  "phase_accounting_of (restored_step s) i = empty_phase_accounting \<or>
   phase_accounting_of (restored_step s) i = settled_phase (phase_accounting_of s i)"
proof (cases "map_of (ss_phase_accounting (restored_step s)) i")
  case None
  then show ?thesis by (simp add: phase_accounting_of_def)
next
  case (Some a)
  then obtain e where "e \<in> set (written_phases s)" "entry_id e = i" "settled_phase (snd e) = a"
    using map_of_entries by fastforce
  then have "a = settled_phase (phase_accounting_of s i)"
    using written_phases_from(2) [of "fst e" "snd e" s] by auto
  with Some show ?thesis by (simp add: phase_accounting_of_def)
qed

lemma restored_ledgers:
  assumes "ledger c s" and "phase_ledger s"
  shows "ledger c (restored_step s)" and "phase_ledger (restored_step s)"
proof -
  note L = assms(1) [unfolded ledger_def Let_def]
  show "ledger c (restored_step s)"
    using L by (auto simp: ledger_def Let_def normalized_accounting_def exact_empty tally_def)
  have "unat (ph_bytes_committed (phase_accounting_of (restored_step s) i)) =
      unat (ph_bytes_completed (phase_accounting_of (restored_step s) i)) \<and>
      unat (ph_bytes_completed (phase_accounting_of (restored_step s) i)) \<le> unat (sa_bytes_completed (ss_accounting s))" for i
    using restored_phase_accounting [of s i] assms(2)
    by (elim disjE) (simp_all add: settled_phase_def empty_phase_accounting_def phase_ledger_def Let_def)
  then show "phase_ledger (restored_step s)"
    by (simp add: phase_ledger_def Let_def normalized_accounting_def exact_empty get0_zeros)
qed

lemma restored_job_fields:
  "js_highest_step (restored_job j) = js_highest_step j" "js_incarnation (restored_job j) = js_incarnation j"
  "js_generation (restored_job j) = js_generation j" "js_retired (restored_job j) = js_retired j"
  "js_contract (restored_job j) = js_contract j" "js_history (restored_job j) = js_history j"
  "js_step (restored_job j) = map_option restored_step (js_step j)"
  "js_next_intent_id (restored_job j) = js_next_intent_id j" "js_next_phase_id (restored_job j) = js_next_phase_id j"
  "js_topology (restored_job j) = js_topology j" "js_epoch (restored_job j) = js_epoch j"
  "js_boot (restored_job j) = js_boot j"
  by (simp_all add: restored_job_def fill_groups_def blank_job_def)

lemma restored_job_ok:
  assumes "job_ok j" and "job_good j"
  shows "job_ok (restored_job j)"
proof -
  have "history_ok (restored_job j)"
    using assms(1) by (auto simp: job_ok_def history_ok_def restored_job_fields)
  moreover have "step_ok (restored_job j) (restored_step s)" if "js_step j = Some s" for s
  proof -
    have ok: "step_ok j s" and asc: "ascending (map entry_id (written_phases s))"
      using assms that by (auto simp: job_ok_def job_good_def step_good_def)
    then show ?thesis
      using restored_flows_ok [OF _ asc] restored_ledgers
      by (auto simp: step_ok_def restored_job_fields simp del: restored_step_fields(4-))
  qed
  ultimately show ?thesis by (auto simp: job_ok_def restored_job_fields)
qed

lemma restored_job_quiet: "utilized_bps (restored_job j) g = 0" "active_flow_count (restored_job j) g = 0"
  by (simp_all add: utilized_bps_def active_flow_count_def restored_job_def fill_groups_def blank_job_def get0_zeros)

lemma restored_job_tight: "job_tight (restored_job j)"
  by (auto simp: job_tight_def open_flows_def restored_job_fields groups_exact_def exact_empty restored_job_quiet
      split: option.splits)

lemma restored_jobs:
  assumes "restorable config st"
  shows "map_of (fb_jobs (restored config st)) k = map_option restored_job (map_of (fb_jobs st) k)"
    and "wf_table (fb_jobs (restored config st))"
proof -
  have wf: "wf_table (fb_jobs st)" and ids: "\<forall>(k, job) \<in> set (fb_jobs st). js_id job = k"
    using assms by (fastforce simp: restorable_def)+
  note order = written_jobs_sorted [OF wf ids]
  have keys: "distinct (map js_id (written_jobs st))"
    using wf by (simp add: order(1) wf_table_def)
  have table: "fb_jobs (restored config st) = map (\<lambda>job. (js_id job, restored_job job)) (written_jobs st)"
    by (simp add: restored_def fill_jobs_def)
  show "wf_table (fb_jobs (restored config st))"
    using keys by (simp add: table wf_table_def keys_def comp_def)
  then have "map_of (fb_jobs (restored config st)) k = Some r \<longleftrightarrow> map_option restored_job (map_of (fb_jobs st) k) = Some r" for r
    using ids by (auto simp: set_table [symmetric] wf order(2) table split_beta) (force simp: set_table [symmetric] wf order(2))+
  then show "map_of (fb_jobs (restored config st)) k = map_option restored_job (map_of (fb_jobs st) k)"
    by (metis not_None_eq)
qed

lemma restored_run_state:
  assumes "run_state d n st" and "restorable config st"
  shows "run_state d n (restored config st)"
proof -
  have "job_good j" if "map_of (fb_jobs st) k = Some j" for k j
    using assms(2) map_of_SomeD [OF that] by (auto simp: restorable_def)
  then have "job_ok (restored_job j) \<and> js_id (restored_job j) = k \<and> minted (restored_job j) \<le> n + 2"
    if "map_of (fb_jobs st) k = Some j" for k j
    using assms(1) that restored_job_ok by (auto simp: run_state_def minted_def restored_job_fields)
  then show ?thesis
    using assms(1) restored_jobs [OF assms(2)]
    by (auto simp: run_state_def) (simp_all add: restored_def fill_jobs_def)
qed

section \<open>Properties\<close>

text \<open>
  C27: nothing that is read from a snapshot is a live grant, whatever the bytes: in a state that
  is accepted no job has a decision, a receipt, a group in use or an open flow, an open step
  has nothing committed that is not completed or cancelled, and every report is balanced.
\<close>

theorem restart_holds_no_grants:
  assumes "deserialize_state bs config = Inr st" and "map_of (fb_jobs st) k = Some j"
  shows "js_decisions j = [] \<and> js_receipts j = [] \<and> (\<forall>g. utilized_bps j g = 0 \<and> active_flow_count j g = 0) \<and>
    (\<forall>s. js_step j = Some s \<longrightarrow> ss_flows s = [] \<and> balanced (ss_accounting s)) \<and>
    (\<forall>r \<in> set (js_history j). balanced (rp_accounting r))"
proof -
  obtain rest where "read_state config bs = Inr (st, rest)"
    using assms(1) by (auto simp: deserialize_state_def split: prod.splits)
  from read_state_quiet [OF this] assms(2) have "job_quiet j" by (simp add: fabric_quiet_def)
  then show ?thesis by (simp add: job_quiet_def step_quiet_def report_balanced_def)
qed


lemma busy_written:
  "written_groups busy_job = [gr_group sample_group]"
  "written_phases busy_step = [(sample_phase_record 1 PC_DataIngest 5,
      empty_phase_accounting\<lparr>ph_admitted := 1, ph_bytes_committed := 5000\<rparr>),
    (sample_phase_record 2 PC_GradientSync 6, empty_phase_accounting),
    (sample_phase_record 3 PC_Unknown 7, empty_phase_accounting)]"
  by (simp_all add: written_groups_def written_phases_def busy_job_def opened_job_def busy_step_def
      opened_step_def sample_group_def sample_phase_record_def)

lemma busy_fields:
  "js_id busy_job = 1" "js_name busy_job = []" "js_generation busy_job = 1" "js_incarnation busy_job = 1"
  "js_boot busy_job = BootId 1 1" "js_retired_incarnations busy_job = []" "js_highest_step busy_job = 5"
  "js_last_closed_step busy_job = 0" "js_history busy_job = []" "js_next_intent_id busy_job = 2"
  "js_next_phase_id busy_job = 4" "js_next_burst_id busy_job = 1" "js_next_incarnation busy_job = 2"
  "js_next_topology_generation busy_job = 2" "js_topology busy_job = sample_topology\<lparr>te_generation := 1\<rparr>"
  by (simp_all add: busy_job_def opened_job_def new_job_def sample_registration_def Let_def)

lemma busy_job_good: "job_good busy_job"
proof -
  have "contract_validate sample_contract = Inr ()" by code_simp
  moreover have "groups_good busy_job"
    unfolding groups_good_def busy_written
    by (simp add: busy_simps sample_contract_def default_contract_def sample_group_def) code_simp
  moreover have "topology_good busy_job"
  proof -
    have "topology_validate (sample_topology\<lparr>te_generation := 1\<rparr>) = Inr ()" by code_simp
    then show ?thesis
      by (simp add: topology_good_def busy_fields busy_written sample_group_def)
        (simp add: sample_topology_def kMaxCollectionItems_def)
  qed
  moreover have "step_good j busy_step" if "has_key (js_groups j) 7" for j
    using that
    by (simp add: step_good_def busy_written entry_good_def sample_phase_record_def sample_phase_def
        empty_phase_accounting_def ascending_def)
      (simp add: busy_step_def opened_step_def new_step_def empty_accounting_def kMaxRetainedFenceEvents_def)
  moreover have "ss_step busy_step = 5"
    by (simp add: busy_step_def opened_step_def new_step_def)
  moreover have "has_key (js_groups (fill_groups (blank_job i n g inc b e r c) [gr_group sample_group])) 7" for i n g inc b e r c
    by (simp add: fill_groups_def sample_group_def has_key_def)
  ultimately show ?thesis
    by (simp add: job_good_def busy_simps busy_written busy_fields boot_valid_def history_good_def
        allocators_good_def)
      (simp add: sample_contract_def sample_topology_def)
qed

lemma busy_restorable: "restorable default_config busy"
  using busy_job_good default_policy_ok
  by (simp add: restorable_def busy_def opened_def make_fabric_def policy_good_def policy_ok_def policy_shape_def
      default_config_def busy_fields)
   (simp add: make_default_policy_def default_classes_def kServiceClassCount_def wf_table_def keys_def)

lemma busy_small: "state_size busy \<le> kMaxSnapshotBytes"
  by (simp add: state_size_def written_jobs_def busy_def opened_def make_fabric_def keys_def job_size_def
      busy_written busy_fields busy_simps step_size_def entry_size_def policy_size_def kMaxSnapshotBytes_def)
    (simp add: busy_step_def opened_step_def new_step_def sample_phase_record_def sample_phase_def
      sample_group_def sample_topology_def sample_contract_def default_contract_def make_default_policy_def
      default_classes_def)

lemma busy_restored:
  "\<exists>out. serialize_state busy = Inr out \<and> deserialize_state out default_config = Inr (restored default_config busy)"
  using serialized [OF busy_restorable busy_small] deserialize_image [OF busy_restorable] serialized_image by blast

lemma snapshot_roundtrip_witness:
  "\<exists>out. serialize_state busy = Inr out \<and> deserialize_state out default_config = Inr (restored default_config busy)"
  by (rule snapshot_roundtrip [OF busy_restorable busy_small])

lemma restored_busy_job: "map_of (fb_jobs (restored default_config busy)) 1 = Some (restored_job busy_job)"
  by (simp add: restored_jobs(1) [OF busy_restorable] busy_simps)

lemma restart_holds_no_grants_witness:
  "js_decisions busy_job \<noteq> [] \<and> js_decisions (restored_job busy_job) = [] \<and> utilized_bps (restored_job busy_job) 7 = 0"
proof -
  from busy_restored obtain out where "deserialize_state out default_config = Inr (restored default_config busy)" by blast
  from restart_holds_no_grants [OF this restored_busy_job] show ?thesis by (simp add: busy_job_def)
qed


end
