(* ===== verification/Durable.thy ===== *)
theory Durable
  imports Sessions Restart
begin

text \<open>
  What an answer promises: a mutation that is answered is on the disk, a coordinator that starts
  from that disk serves exactly that state in the next epoch, and a coordinator whose disk failed
  answers no mutation any more.
\<close>

section \<open>Mutations that are committed\<close>

definition is_durable :: "operation_code \<Rightarrow> bool" where
  "is_durable op \<longleftrightarrow> op \<in> {OC_RegisterJob, OC_RegisterGroup, OC_PublishTopology, OC_ApplyPolicy, OC_RetireJob,
     OC_RebaseEpoch, OC_BeginStep, OC_BeginPhase, OC_EndPhase, OC_EndStep, OC_AdmitReplacement, OC_RetireIncarnation}"

definition on_disk :: "coordinator \<Rightarrow> bytes \<Rightarrow> bool" where
  "on_disk co payload \<longleftrightarrow> serialize_state (co_fabric co) = Inr payload \<and>
     dk_live (co_disk co) = Some (file_image payload (co_epoch co) (co_commit_sequence co))"

lemma commit_state_on_disk:
  assumes "commit_state io co = (Inr (), co')" and "co_store co \<noteq> None"
  shows "\<exists>payload. on_disk co' payload" and "co_commit_sequence co' = co_commit_sequence co + 1"
    and "\<not> co_degraded co"
  using assms
  by (auto simp: commit_state_def take_commit_def write_commit_def on_disk_def on_stats_def Let_def
      dest!: commit_states(3) split: if_splits option.splits sum.splits prod.splits)

text \<open>What the disk holds depends on this much.\<close>

definition stored_part ::
  "coordinator \<times> session \<Rightarrow> fabric_state \<times> state_store option \<times> disk \<times> epoch_id \<times> u64 \<times> bool" where
  "stored_part st = (co_fabric (fst st), co_store (fst st), co_disk (fst st), co_epoch (fst st),
     co_commit_sequence (fst st), co_degraded (fst st))"

definition disk_part :: "coordinator \<times> session \<Rightarrow> state_store option \<times> disk \<times> u64 \<times> bool" where
  "disk_part st = (co_store (fst st), co_disk (fst st), co_commit_sequence (fst st), co_degraded (fst st))"

definition committing :: "'a handler \<Rightarrow> bool" where
  "committing m \<longleftrightarrow> (\<forall>st r st'. m st = (r, st') \<longrightarrow> co_store (fst st) \<noteq> None \<longrightarrow>
     (if co_degraded (fst st) then isl r \<and> disk_part st' = disk_part st
      else isl r \<or> (\<exists>payload. on_disk (fst st') payload) \<and>
             co_commit_sequence (fst st') = co_commit_sequence (fst st) + 1))"

lemma committing_then:
  assumes "keeps disk_part m" and "\<And>x. committing (k x)"
  shows "committing (then_do m k)"
  unfolding committing_def
proof (intro allI impI)
  fix st r st'
  assume run: "then_do m k st = (r, st')" and store: "co_store (fst st) \<noteq> None"
  obtain r1 st1 where m: "m st = (r1, st1)" by (cases "m st")
  have same: "disk_part st1 = disk_part st" using keepsD [OF assms(1) m] .
  show "if co_degraded (fst st) then isl r \<and> disk_part st' = disk_part st
      else isl r \<or> (\<exists>payload. on_disk (fst st') payload) \<and> co_commit_sequence (fst st') = co_commit_sequence (fst st) + 1"
  proof (cases r1)
    case (Inl e)
    with run m same show ?thesis by (auto simp: then_do_def)
  next
    case (Inr x)
    with run m have "k x st1 = (r, st')" by (simp add: then_do_def)
    with assms(2) [of x] same store show ?thesis
      unfolding committing_def disk_part_def by (metis prod.inject)
  qed
qed

lemma committing_persist:
  assumes "\<And>x. keeps stored_part (k x)"
  shows "committing (then_do (persist io) k)"
  unfolding committing_def
proof (intro allI impI)
  fix st r st'
  assume run: "then_do (persist io) k st = (r, st')" and store: "co_store (fst st) \<noteq> None"
  obtain r1 co1 where c: "commit_state io (fst st) = (r1, co1)" by fastforce
  have p: "persist io st = (r1, co1, snd st)" by (simp add: persist_def c)
  show "if co_degraded (fst st) then isl r \<and> disk_part st' = disk_part st
      else isl r \<or> (\<exists>payload. on_disk (fst st') payload) \<and> co_commit_sequence (fst st') = co_commit_sequence (fst st) + 1"
  proof (cases r1)
    case (Inl e)
    with run p c store show ?thesis
      by (auto simp: then_do_def commit_state_def take_commit_def)
  next
    case (Inr u)
    with c have ok: "commit_state io (fst st) = (Inr (), co1)" by simp
    from run p Inr have "k u (co1, snd st) = (r, st')" by (simp add: then_do_def)
    from keepsD [OF assms this] have "stored_part st' = stored_part (co1, snd st)" .
    with commit_state_on_disk [OF ok store] show ?thesis by (auto simp: stored_part_def on_disk_def)
  qed
qed

lemma handlers_committing:
  "committing (serve_register_job io request)" "committing (serve_register_group io request)"
  "committing (serve_publish_topology io request)" "committing (serve_apply_policy io request)"
  "committing (serve_retire_job io request)" "committing (serve_rebase_epoch io request)"
  "committing (serve_begin_step io request)" "committing (serve_begin_phase io request)"
  "committing (serve_end_phase io request)" "committing (serve_end_step io request)"
  "committing (serve_admit_replacement io request)" "committing (serve_retire_incarnation io request)"
  unfolding serve_defs Let_def
  by (rule committing_persist committing_then | intro handling; simp add: disk_part_def stored_part_def on_stats_def)+

lemma serve_committing: "is_durable op \<Longrightarrow> committing (serve io op request)"
  by (auto simp: is_durable_def serve_def handlers_committing)

lemma serve_commits:
  assumes "serve io op request (co, s) = (r, co', s')" and "is_durable op" and "co_store co \<noteq> None"
  shows "if co_degraded co then isl r \<and> disk_part (co', s') = disk_part (co, s)
    else isl r \<or> (\<exists>payload. on_disk co' payload) \<and> co_commit_sequence co' = co_commit_sequence co + 1"
  using serve_committing [OF assms(2), unfolded committing_def, rule_format, OF assms(1)] assms(3)
  by (simp split: if_splits)

section \<open>Starting from a disk\<close>

text \<open>The file system answers a start in full: the directory is there and the whole file is read.\<close>

definition reads_all :: "start_answers \<Rightarrow> bytes \<Rightarrow> bool" where
  "reads_all sw content \<longleftrightarrow> sw_created sw \<and> sw_is_directory sw \<and> io_probe (sw_load sw) \<and> io_stat (sw_load sw) \<and>
     io_open_read (sw_load sw) \<and> length content \<le> io_read (sw_load sw)"

lemma load_image:
  assumes "reads_all sw (file_image payload epoch sequence)" and "length payload \<le> kMaxSnapshotBytes"
    and "dk_live d = Some (file_image payload epoch sequence)"
  shows "load (open_store (of_nat kMaxSnapshotBytes)) d (sw_load sw) = Inr (record_of (payload, epoch, sequence))"
proof -
  have n: "unat (of_nat kMaxSnapshotBytes :: u32) = kMaxSnapshotBytes" by (simp add: kMaxSnapshotBytes_def)
  show ?thesis
    using assms n
    by (simp add: load_def reads_all_def open_store_def decode_file_image record_of_def length_file_image
        kStateFileHeaderBytes_def not_less)
qed

lemma rebase_jobs_below:
  "\<forall>e \<in> set es. js_epoch (snd e) < epoch \<Longrightarrow>
     \<exists>n. rebase_jobs epoch es = (map (\<lambda>e. (fst e, (snd e)\<lparr>js_epoch := epoch\<rparr>)) es, Some n)"
  by (induction es) (auto simp: not_le)

lemma map_of_map_snd: "map_of (map (\<lambda>e. (fst e, f (snd e))) es) k = map_option f (map_of es k)"
  by (induction es) auto

text \<open>What a restart makes of a job: its durable part, in the new epoch.\<close>

definition resumed_jobs :: "fabric_state \<Rightarrow> epoch_id \<Rightarrow> training_job_id \<Rightarrow> job_state option" where
  "resumed_jobs st epoch k = map_option (\<lambda>j. (restored_job j)\<lparr>js_epoch := epoch\<rparr>) (map_of (fb_jobs st) k)"

lemma restored_job_epoch [simp]: "js_epoch (restored_job j) = js_epoch j"
  by (simp add: restored_job_def fill_groups_def blank_job_def)

lemma rebase_restored:
  assumes "restorable config st" and "valid epoch" and "\<forall>k j. map_of (fb_jobs st) k = Some j \<longrightarrow> js_epoch j < epoch"
  shows "\<exists>n fb. RebaseEpoch (restored config st) epoch = (Inr n, fb) \<and> map_of (fb_jobs fb) = resumed_jobs st epoch"
proof -
  let ?es = "fb_jobs (restored config st)"
  have "js_epoch (snd e) < epoch" if "e \<in> set ?es" for e
  proof -
    have "map_of ?es (fst e) = Some (snd e)"
      using that restored_jobs(2) [OF assms(1)] by (simp add: set_table [symmetric])
    then obtain j where "map_of (fb_jobs st) (fst e) = Some j" "snd e = restored_job j"
      using restored_jobs(1) [OF assms(1)] by auto
    with assms(3) show ?thesis by simp
  qed
  then obtain n where "rebase_jobs epoch ?es = (map (\<lambda>e. (fst e, (snd e)\<lparr>js_epoch := epoch\<rparr>)) ?es, Some n)"
    using rebase_jobs_below by blast
  then show ?thesis
    using assms(2) restored_jobs(1) [OF assms(1)]
    by (auto simp: RebaseEpoch_def require_def Let_def map_of_map_snd fun_eq_iff resumed_jobs_def
        option.map_comp comp_def)
qed

lemma recover_on_disk:
  assumes disk: "on_disk co payload" and cfg: "cc_enable_state_store config" "cc_state_directory config \<noteq> []"
    and reads: "reads_all sw (file_image payload (co_epoch co) (co_commit_sequence co))"
    and st: "restorable (cc_fabric config) (co_fabric co)"
    and epochs: "\<forall>k j. map_of (fb_jobs (co_fabric co)) k = Some j \<longrightarrow> js_epoch j \<le> co_epoch co"
    and next_epoch: "co_epoch co < co_epoch co + 1"
  shows "\<exists>co2. recover sw (coordinator_impl config (co_disk co) path seed) = Inr co2 \<and>
    co_epoch co2 = co_epoch co + 1 \<and> co_commit_sequence co2 = co_commit_sequence co \<and>
    map_of (fb_jobs (co_fabric co2)) = resumed_jobs (co_fabric co) (co_epoch co + 1)"
proof -
  have ser: "serialize_state (co_fabric co) = Inr payload" using disk by (simp add: on_disk_def)
  note image = serialized_image [OF ser]
  have load: "load (open_store (of_nat kMaxSnapshotBytes)) (co_disk co) (sw_load sw) =
      Inr (record_of (payload, co_epoch co, co_commit_sequence co))"
    using load_image [OF reads image(3)] disk by (simp add: on_disk_def)
  have des: "deserialize_state payload (cc_fabric config) = Inr (restored (cc_fabric config) (co_fabric co))"
    using deserialize_image [OF st] image by simp
  have "valid (co_epoch co + 1)" using next_epoch by (auto simp: valid_def)
  moreover have "\<forall>k j. map_of (fb_jobs (co_fabric co)) k = Some j \<longrightarrow> js_epoch j < co_epoch co + 1"
    using epochs next_epoch by (auto intro: le_less_trans)
  ultimately obtain n fb where rb: "RebaseEpoch (restored (cc_fabric config) (co_fabric co)) (co_epoch co + 1) = (Inr n, fb)"
    and jobs: "map_of (fb_jobs fb) = resumed_jobs (co_fabric co) (co_epoch co + 1)"
    using rebase_restored [OF st] by blast
  have "recover sw (coordinator_impl config (co_disk co) path seed) =
     Inr ((coordinator_impl config (co_disk co) path seed)\<lparr>co_store := Some (open_store (of_nat kMaxSnapshotBytes)),
       co_fabric := fb, co_commit_sequence := co_commit_sequence co, co_epoch := co_epoch co + 1\<rparr>)"
    using cfg reads rb load des
    by (simp add: recover_def coordinator_impl_def Open_store_def reads_all_def record_of_def Let_def)
  with jobs show ?thesis by simp
qed

section \<open>A coordinator with a store\<close>

definition storing_coordinator :: coordinator where
  "storing_coordinator = small_coordinator\<lparr>co_config := small_config\<lparr>cc_enable_state_store := True,
     cc_state_directory := [46]\<rparr>, co_store := Some (open_store (of_nat kMaxSnapshotBytes))\<rparr>"

definition long_write :: commit_answers where
  "long_write = all_well\<lparr>io_written := 1000000000\<rparr>"

definition rebased_fabric :: fabric_state where
  "rebased_fabric = snd (RebaseEpoch (make_fabric default_config) 5)"

lemma rebased_fabric_simps: "RebaseEpoch (make_fabric default_config) 5 = (Inr 0, rebased_fabric)"
  "fb_jobs rebased_fabric = []" "fb_policy rebased_fabric = make_default_policy 1" "fb_next_job_id rebased_fabric = 1"
  "fb_now rebased_fabric = 1"
  by (simp_all add: rebased_fabric_def RebaseEpoch_def require_def make_fabric_def tick_def valid_def
      default_config_def Let_def)

lemma rebased_restorable: "restorable default_config rebased_fabric"
  using default_policy_ok
  by (simp add: restorable_def rebased_fabric_simps policy_good_def policy_ok_def policy_shape_def)
    (simp add: make_default_policy_def default_classes_def kServiceClassCount_def)

lemma rebased_serialized: "serialize_state rebased_fabric = Inr (state_image rebased_fabric)"
  by (rule serialized [OF rebased_restorable])
    (simp add: state_size_def written_jobs_def rebased_fabric_simps keys_def policy_size_def make_default_policy_def
      default_classes_def kMaxSnapshotBytes_def)

lemma storing_commit:
  assumes "co_fabric co = rebased_fabric" and "co_store co = Some (open_store (of_nat kMaxSnapshotBytes))"
    and "\<not> co_degraded co" and "co_commit_sequence co = 0"
  obtains co' where "commit_state long_write co = (Inr (), co')"
proof -
  note size = serialized_image(3) [OF rebased_serialized]
  obtain r store' ds where c: "commit (open_store (of_nat kMaxSnapshotBytes)) (co_disk co) long_write
      (state_image rebased_fabric) (co_epoch co) 1 = (r, store', ds)" by (metis prod_cases3)
  moreover have "r = Inr ()"
    using c size by (simp add: commit_def open_store_def encode_file_image long_write_def all_well_def
        length_file_image kMaxSnapshotBytes_def Let_def split: if_splits)
  ultimately have "fst (commit_state long_write co) = Inr ()"
    using assms by (simp add: commit_state_def take_commit_def rebased_serialized write_commit_def Let_def)
  then show thesis using that by (metis prod.collapse)
qed

lemma storing_rebase:
  obtains response co' s' where
    "serve long_write OC_RebaseEpoch (ordered rebase_request) (storing_coordinator, small_session) = (Inr response, co', s')"
    and "co_fabric co' = rebased_fabric" and "co_epoch co' = 5"
proof -
  let ?co = "on_stats (\<lambda>k. k\<lparr>ks_epoch := 5\<rparr>) (storing_coordinator\<lparr>co_fabric := rebased_fabric, co_epoch := 5\<rparr>)"
  obtain co' where c: "commit_state long_write ?co = (Inr (), co')"
    by (rule storing_commit [of ?co]) (simp_all add: on_stats_def storing_coordinator_def small_coordinator_def coordinator_impl_def)
  from commit_state_frame [OF c] have "co_fabric co' = rebased_fabric" "co_epoch co' = 5"
    by (auto simp: on_stats_def)
  moreover have "\<exists>response. serve long_write OC_RebaseEpoch (ordered rebase_request) (storing_coordinator, small_session) =
      (Inr response, co', small_session)"
    using c
    by (simp add: serve_def serve_rebase_epoch_def then_do_def look_def check_def call_fabric_def on_coordinator_def
        persist_def answer_def given_def rebase_ordered rebased_fabric_simps storing_coordinator_def small_config_def
        small_coordinator_def coordinator_impl_def)
  ultimately show thesis using that by blast
qed

section \<open>Properties\<close>







section \<open>Two commits at once\<close>

text \<open>
  The snapshot and the sequence are taken before the file is written: of two threads that both
  took theirs before either has written, the second fails and the coordinator is degraded.
\<close>

lemma concurrent_commits_conflict:
  assumes "take_commit co = Inr (p1, n)" and "take_commit co = Inr (p2, n)" and "n \<noteq> 0" and "co_store co \<noteq> None"
    and "write_commit io1 p1 n co = (Inr (), co1)" and "write_commit io2 p2 n co1 = (r, co2)"
  shows "r = Inl EC_Conflict \<and> co_degraded co2"
proof -
  obtain store where "co_store co = Some store" using assms(4) by blast
  with assms(5) obtain store1 where "co_store co1 = Some store1" "so_last_sequence store1 = n"
    by (auto simp: write_commit_def on_stats_def Let_def split: prod.splits if_splits dest!: commit_states(4))
  with assms(3,6) show ?thesis by (auto simp: write_commit_def commit_def Let_def)
qed

end
