(* ===== verification/Answers.thy ===== *)
theory Answers
  imports Sessions
begin

text \<open>
  The answers of the coordinator as messages: whatever a request holds, its answer is a response
  that names the operation, carries an error code and can be encoded, so that the only reason
  for an answer not to go out is the connection.
\<close>

section \<open>Blocks stay within their limits\<close>

definition emitting_some :: "(writer \<Rightarrow> writer) \<Rightarrow> bool" where
  "emitting_some f \<longleftrightarrow> (\<exists>bs. emits f bs)"

lemma encode_block_length:
  assumes "encode_block n f = Inr b" and "emitting_some f"
  shows "length b \<le> n"
proof -
  obtain bs where e: "emits f bs" using assms(2) by (auto simp: emitting_some_def)
  have ok: "writer_ok (f (make_writer n))" and b: "b = bw_buffer (f (make_writer n))"
    using assms(1) by (auto simp: encode_block_def Let_def split: if_splits)
  have "b = bs" using emitsD(2) [OF e ok] by (simp add: b make_writer_def)
  then show ?thesis using emitsD(4) [OF e ok] by (cases "bs = []") (auto simp: make_writer_def)
qed

lemma writers_emit:
  "emitting_some (put_handle h)" "emitting_some (write_policy p)" "emitting_some (put_decision d)"
  "emitting_some (put_receipt r)" "emitting_some (put_job_view v)" "emitting_some (put_report rep)"
  "emitting_some (put_utilization_list es)" "emitting_some (put_pacing_decision pd)"
  "emitting_some (put_recovery_grant g)" "emitting_some (put_policy_apply pa)"
  unfolding emitting_some_def
  by (rule exI, rule handles.emits_image policy_records.emits_image decisions.emits_image receipts.emits_image
      job_views.emits_image report_records.emits_image utilization_lists.emits_image pacing_decisions.emits_image
      recovery_grants.emits_image policy_applies.emits_image)+

lemma emits_put_bytes: "emits (put_bytes bs) bs"
  unfolding put_bytes_def by (rule emits_reserved) simp

lemma revalidation_emits: "emitting_some (put_revalidation r bs)"
  unfolding emitting_some_def put_revalidation_def by (rule exI, (rule emitting emits_put_bytes)+)

lemma block_lengths:
  "encode_handle_block h = Inr b \<Longrightarrow> length b \<le> 144" "encode_policy_block p = Inr b \<Longrightarrow> length b \<le> 2048"
  "encode_decision_block d = Inr b \<Longrightarrow> length b \<le> 1024" "encode_receipt_block r = Inr b \<Longrightarrow> length b \<le> 96"
  "encode_job_view_block v = Inr b \<Longrightarrow> length b \<le> 4096" "encode_report_block rep = Inr b \<Longrightarrow> length b \<le> 4096"
  "encode_utilization_list_block es = Inr b \<Longrightarrow> length b \<le> 4096"
  "encode_pacing_decision_block pd = Inr b \<Longrightarrow> length b \<le> 512" "encode_recovery_grant_block g = Inr b \<Longrightarrow> length b \<le> 512"
  "encode_policy_apply_block pa = Inr b \<Longrightarrow> length b \<le> 64"
  unfolding encode_handle_block_def encode_policy_block_def encode_decision_block_def encode_receipt_block_def
    encode_job_view_block_def encode_report_block_def encode_utilization_list_block_def
    encode_pacing_decision_block_def encode_recovery_grant_block_def encode_policy_apply_block_def
  by (erule encode_block_length, rule writers_emit)+

lemma revalidation_length: "encode_revalidation_block r = Inr b \<Longrightarrow> length b \<le> 2048"
  by (auto simp: encode_revalidation_block_def intro: encode_block_length revalidation_emits)

section \<open>Messages that can be encoded\<close>

lemma length_message_image: "length (message_image fs) = 2 + (\<Sum>f\<leftarrow>fs. 5 + length (fd_value f))"
  by (induction fs) (auto simp: message_image_def field_image_def one_byte_def)

lemma message_image_sorted: "length (message_image (sort_key g fs)) = length (message_image fs)"
proof -
  have "(\<Sum>f\<leftarrow>sort_key g fs. 5 + length (fd_value f)) = (\<Sum>f\<leftarrow>fs. 5 + length (fd_value f))"
    by (metis mset_map mset_sort sum_mset_sum_list)
  then show ?thesis by (simp add: length_message_image)
qed

text \<open>Enough for a message to be encoded: distinct tags, good fields, and room.\<close>

definition sendable :: "message \<Rightarrow> bool" where
  "sendable m \<longleftrightarrow> ms_type m \<noteq> MT_Invalid \<and> distinct (map fd_tag (ms_fields m)) \<and>
     length (ms_fields m) \<le> kMaxFieldsPerMessage \<and> list_all (\<lambda>f. field_checks f = Inr ()) (ms_fields m) \<and>
     list_all bool_normal (ms_fields m) \<and> length (message_image (ms_fields m)) \<le> kMaxPayloadBytes"

lemma sendable_encodes:
  assumes "sendable m"
  shows "encode_message m = Inr (message_image (sort_key fd_tag (ms_fields m)))"
proof -
  have "sorted_wrt (<) (map fd_tag (sort_key fd_tag (ms_fields m)))"
    using assms by (simp add: sendable_def strict_sorted_iff distinct_map inj_on_def)
  then show ?thesis
    using assms by (auto simp: encode_message_Inr Let_def sendable_def message_image_sorted list_all_iff)
qed

definition answers_operation :: "operation_code \<Rightarrow> message \<Rightarrow> bool" where
  "answers_operation op m \<longleftrightarrow> sendable m \<and> ms_type m = MT_Response \<and>
     get_u16 m kOperation = Inr (operation_raw op) \<and> (\<exists>code. get_u16 m kErrorCode = Inr code)"

definition answers :: "(message \<Rightarrow> bool) \<Rightarrow> message handler \<Rightarrow> bool" where
  "answers P m \<longleftrightarrow> (\<forall>st st' x. m st = (Inr x, st') \<longrightarrow> P x)"

lemma answers_then: "(\<And>x. answers P (k x)) \<Longrightarrow> answers P (then_do m k)"
  unfolding answers_def then_do_def by (auto split: prod.splits sum.splits)

lemma answers_encoded: "(\<And>b. r = Inr b \<Longrightarrow> answers P (k b)) \<Longrightarrow> answers P (then_do (given (encoded r)) k)"
  by (auto simp: answers_def then_do_def given_def encoded_def split: sum.splits)

lemma answers_answer: "P m \<Longrightarrow> answers P (answer m)"
  by (simp add: answers_def answer_def given_def)

lemma answers_block: "(\<And>b. r = Inr b \<Longrightarrow> P (set_block tag b m)) \<Longrightarrow> answers P (answer_block m tag r)"
  unfolding answer_block_def by (intro answers_encoded answers_answer)

lemma answers_given: "answers P (given (Inl e))"
  by (simp add: answers_def given_def)

lemmas setters = set_block_def set_u64_def set_u32_def set_u16_def set_bool_def set_text_def set_field_def
  set_error_def make_response_def ok_response_def error_response_def new_message_def Let_def

lemmas answer_tags = kOperation_def kErrorCode_def kHandle_def kTopologyGeneration_def kPolicyApplyResult_def
  kRebasedJobs_def kReport_def kPhase_def kRecoveryGrant_def kDecision_def kReceipt_def kRevalidation_def kBurstId_def
  kPacingDecision_def kJobView_def kUtilizationList_def kPolicy_def kMaxKnownTag_def

lemmas answer_checks = answers_operation_def sendable_def field_checks_Inr bool_normal_def length_message_image
  get_u16_def get_field_def find_field_def typed_def read_at_def of_le_le_bytes take_bit_word_eq_self

lemma serve_durable_answers:
  "answers (answers_operation OC_RegisterJob) (serve_register_job io request)"
  "answers (answers_operation OC_RegisterGroup) (serve_register_group io request)"
  "answers (answers_operation OC_PublishTopology) (serve_publish_topology io request)"
  "answers (answers_operation OC_ApplyPolicy) (serve_apply_policy io request)"
  "answers (answers_operation OC_RetireJob) (serve_retire_job io request)"
  "answers (answers_operation OC_RebaseEpoch) (serve_rebase_epoch io request)"
  "answers (answers_operation OC_BeginStep) (serve_begin_step io request)"
  "answers (answers_operation OC_BeginPhase) (serve_begin_phase io request)"
  "answers (answers_operation OC_EndPhase) (serve_end_phase io request)"
  "answers (answers_operation OC_EndStep) (serve_end_step io request)"
  "answers (answers_operation OC_AdmitReplacement) (serve_admit_replacement io request)"
  "answers (answers_operation OC_RetireIncarnation) (serve_retire_incarnation io request)"
  unfolding serve_defs Let_def
  by (intro answers_then answers_answer answers_block;
      simp add: setters answer_checks answer_tags bound_defs; (drule block_lengths)?; simp)+

lemma serve_running_answers:
  "answers (answers_operation OC_RequestTraffic) (serve_request_traffic request)"
  "answers (answers_operation OC_CompleteFlow) (serve_complete_flow request)"
  "answers (answers_operation OC_RevalidateFlow) (serve_revalidate_flow request)"
  "answers (answers_operation OC_BeginCheckpointBurst) (serve_begin_burst request)"
  "answers (answers_operation OC_EndCheckpointBurst) (serve_end_burst request)"
  "answers (answers_operation OC_EvaluatePacing) (serve_evaluate_pacing request)"
  unfolding serve_defs Let_def
  by (intro answers_then answers_answer answers_block;
      simp add: setters answer_checks answer_tags bound_defs; (drule block_lengths revalidation_length)?; simp)+

lemma serve_view_answers:
  "answers (answers_operation OC_LookupJob) (serve_lookup_job request)"
  "answers (answers_operation OC_LookupDecision) (serve_lookup_decision request)"
  "answers (answers_operation OC_LookupStepReport) (serve_lookup_step_report request)"
  "answers (answers_operation OC_LookupFlowReceipt) (serve_lookup_flow_receipt request)"
  "answers (answers_operation OC_GroupUtilization) (serve_group_utilization request)"
  "answers (answers_operation OC_CurrentPolicy) (serve_current_policy request)"
  "answers (answers_operation OC_Shutdown) (serve_shutdown request)"
  unfolding view_defs Let_def
  by (intro answers_then answers_answer answers_block;
      simp add: setters answer_checks answer_tags bound_defs; (drule block_lengths)?; simp)+

lemma serve_lookup_handle_answers: "answers (answers_operation OC_LookupHandle) (serve_lookup_handle request)"
  unfolding serve_lookup_handle_def
  by (rule answers_then, rule answers_encoded, intro answers_then answers_answer)
    (auto simp: setters answer_checks answer_tags bound_defs dest!: block_lengths(1))

section \<open>The status\<close>

lemma summaries_emit: "\<exists>img. \<forall>i. emits (put_job_summary st i) (img i)"
proof -
  have "\<exists>bs. emits (put_job_summary st i) bs" for i
    unfolding put_job_summary_def by (cases "lookup_job st i") (simp_all, (rule exI, (rule emitting)+)+)
  then show ?thesis by metis
qed

lemma status_block_length:
  assumes "writer_ok w" and "w = writes [put_u32 n, writes (map (put_job_summary st) is)] (make_writer (16 * 1024))"
  shows "length (bw_buffer w) \<le> 16 * 1024"
proof -
  obtain img where img: "\<And>i. emits (put_job_summary st i) (img i)" using summaries_emit by metis
  have "emitting_some (writes [put_u32 n, writes (map (put_job_summary st) is)])"
    unfolding emitting_some_def by (rule exI, (rule emitting img)+)
  moreover have "encode_block (16 * 1024) (writes [put_u32 n, writes (map (put_job_summary st) is)]) = Inr (bw_buffer w)"
    using assms by (simp add: encode_block_def)
  ultimately show ?thesis by (rule encode_block_length [rotated])
qed

lemmas status_tags = kOperationalState_def kStateSequence_def kStateCommits_def kReplayRejections_def
  kFramesRejected_def kFramesOut_def kFramesIn_def kSessionsRefused_def kSessionCount_def kCoordinatorBootLo_def
  kCoordinatorBootHi_def kEpoch_def kStatePath_def kJobCount_def kTruncated_def

text \<open>The fields before the jobs, and what the jobs add.\<close>

definition status_head :: "coordinator \<Rightarrow> message" where
  "status_head co = (let k = co_stats co;
     m1 = set_bool kOperationalState (co_degraded co) (set_u64 kStateSequence (ks_state_sequence k)
       (set_u64 kStateCommits (ks_state_commits k) (set_u64 kReplayRejections (ks_replay_rejections k)
       (set_u64 kFramesRejected (ks_frames_rejected k) (set_u64 kFramesOut (ks_frames_out k)
       (set_u64 kFramesIn (ks_frames_in k) (set_u64 kSessionsRefused (ks_sessions_refused k)
       (set_u64 kSessionCount (of_nat (length (co_sessions co))) (set_u64 kCoordinatorBootLo (boot_lo (co_boot co))
       (set_u64 kCoordinatorBootHi (boot_hi (co_boot co)) (set_u64 kEpoch (co_epoch co)
       (ok_response OC_Status))))))))))))
   in if co_store co \<noteq> None then set_text kStatePath (co_state_path co) m1 else m1)"

lemma serve_status_head: "serve_status request (co, s) = (Inr (status_jobs (co_fabric co) (status_head co)), co, s)"
  by (simp add: serve_status_def then_do_def look_def answer_def given_def status_head_def Let_def)

lemma status_head_answers:
  assumes "validate_text (co_state_path co) kMaxStringBytes = Inr ()"
  shows "answers_operation OC_Status (status_head co)"
    and "set (map fd_tag (ms_fields (status_head co))) \<inter> {kJobCount, kJobView, kTruncated} = {}"
    and "length (ms_fields (status_head co)) \<le> 16" and "length (message_image (ms_fields (status_head co))) \<le> 500"
  using assms unfolding status_head_def
  by (simp_all add: setters answer_checks answer_tags status_tags bound_defs)

lemma find_append: "find P (xs @ ys) = (case find P xs of None \<Rightarrow> find P ys | Some x \<Rightarrow> Some x)"
  by (induction xs) auto

lemma answers_add:
  assumes "answers_operation op m" and "\<forall>f \<in> set fs. field_checks f = Inr () \<and> bool_normal f"
    and "distinct (map fd_tag (ms_fields m @ fs))" and "length (ms_fields m @ fs) \<le> kMaxFieldsPerMessage"
    and "length (message_image (ms_fields m)) + (\<Sum>f\<leftarrow>fs. 5 + length (fd_value f)) \<le> kMaxPayloadBytes"
  shows "answers_operation op (m\<lparr>ms_fields := ms_fields m @ fs\<rparr>)"
  using assms
  by (auto simp: answers_operation_def sendable_def list_all_iff length_message_image get_u16_def get_field_def
      find_field_def find_append split: option.splits)

lemma serve_status_answers:
  assumes "validate_text (co_state_path co) kMaxStringBytes = Inr ()"
  shows "answers_operation OC_Status (status_jobs (co_fabric co) (status_head co))"
proof (cases "list_jobs (co_fabric co)")
  case (Inl e)
  then show ?thesis using status_head_answers(1) [OF assms] by (simp add: status_jobs_def)
next
  case (Inr jobs)
  note head = status_head_answers [OF assms]
  let ?limit = "min (length jobs) 32"
  define w where "w = writes [put_u32 (of_nat ?limit), writes (map (put_job_summary (co_fabric co)) (take ?limit jobs))]
      (make_writer (16 * 1024))"
  have len: "writer_ok w \<Longrightarrow> length (bw_buffer w) \<le> 16 * 1024" by (rule status_block_length [OF _ w_def])
  define fs where "fs = \<lparr>fd_tag = kJobCount, fd_type = FT_U64, fd_value = le_bytes 8 (of_nat (length jobs) :: u64)\<rparr> #
    (if writer_ok w then [\<lparr>fd_tag = kJobView, fd_type = FT_Block, fd_value = bw_buffer w\<rparr>] else []) @
    [\<lparr>fd_tag = kTruncated, fd_type = FT_Bool, fd_value = [if length jobs > ?limit then 1 else 0]\<rparr>]"
  have "status_jobs (co_fabric co) (status_head co) =
      (status_head co)\<lparr>ms_fields := ms_fields (status_head co) @ fs\<rparr>"
    by (simp add: status_jobs_def Inr fs_def w_def set_u64_def set_block_def set_bool_def set_field_def Let_def)
  moreover have "answers_operation OC_Status ((status_head co)\<lparr>ms_fields := ms_fields (status_head co) @ fs\<rparr>)"
  proof (rule answers_add [OF head(1)])
    show "\<forall>f \<in> set fs. field_checks f = Inr () \<and> bool_normal f"
      using len by (auto simp: fs_def field_checks_Inr bool_normal_def kJobCount_def kJobView_def kTruncated_def
          kMaxKnownTag_def bound_defs)
    show "distinct (map fd_tag (ms_fields (status_head co) @ fs))"
      using head(1,2) by (auto simp: fs_def answers_operation_def sendable_def kJobCount_def kJobView_def kTruncated_def)
    show "length (ms_fields (status_head co) @ fs) \<le> kMaxFieldsPerMessage"
      using head(3) by (auto simp: fs_def bound_defs)
    show "length (message_image (ms_fields (status_head co))) + (\<Sum>f\<leftarrow>fs. 5 + length (fd_value f)) \<le> kMaxPayloadBytes"
      using head(4) len by (auto simp: fs_def bound_defs)
  qed
  ultimately show ?thesis by simp
qed

section \<open>Every answer\<close>

lemma serve_answers:
  assumes "serve io op request (co, s) = (Inr m, st')"
    and "co_store co \<noteq> None \<Longrightarrow> validate_text (co_state_path co) kMaxStringBytes = Inr ()"
  shows "answers_operation op m"
proof (cases "op = OC_Status")
  case True
  then have "m = status_jobs (co_fabric co) (status_head co)"
    using assms(1) serve_status_head [of request co s] by (simp add: serve_def)
  moreover have "answers_operation OC_Status (status_jobs (co_fabric co) (status_head co))"
  proof (cases "co_store co")
    case None
    then have "status_head co = status_head (co\<lparr>co_state_path := []\<rparr>)" by (simp add: status_head_def)
    then show ?thesis using serve_status_answers [of "co\<lparr>co_state_path := []\<rparr>"] by simp
  qed (use serve_status_answers assms(2) in simp)
  ultimately show ?thesis by (simp add: True)
next
  case False
  then have "answers (answers_operation op) (serve io op request)"
    unfolding serve_def
    by (cases op; simp add: serve_durable_answers serve_running_answers serve_view_answers
        serve_lookup_handle_answers answers_given)
  with assms(1) show ?thesis unfolding answers_def by blast
qed

lemma error_response_answers: "answers_operation op (error_response op e)"
  by (simp add: setters answer_checks answer_tags bound_defs)

definition requested_operation :: "message \<Rightarrow> operation_code" where
  "requested_operation request = (case get_u16 request kOperation of
     Inl _ \<Rightarrow> OC_Invalid
   | Inr raw \<Rightarrow> if is_known_operation raw then operation_codes ! unat raw else OC_Invalid)"

lemma dispatch_answers:
  assumes "dispatch_request io request (co, s) = (response, st')"
    and "co_store co \<noteq> None \<Longrightarrow> validate_text (co_state_path co) kMaxStringBytes = Inr ()"
  shows "answers_operation (requested_operation request) response"
  using assms
  by (auto simp: dispatch_request_def requested_operation_def error_response_answers Let_def
      split: sum.splits if_splits prod.splits intro: serve_answers)

section \<open>Properties\<close>



text \<open>A path that does not fit a field makes the status unanswerable: the session is closed without a word.\<close>

lemma long_path_no_status:
  assumes "co_store co \<noteq> None" and "length (co_state_path co) > kMaxStringBytes"
  shows "isl (encode_message (status_jobs (co_fabric co) (status_head co)))"
proof (rule ccontr)
  let ?m = "status_jobs (co_fabric co) (status_head co)"
  let ?f = "\<lparr>fd_tag = kStatePath, fd_type = FT_Text, fd_value = co_state_path co\<rparr>"
  assume "\<not> isl (encode_message ?m)"
  then obtain out where "encode_message ?m = Inr out" by (cases "encode_message ?m") simp_all
  moreover have "?f \<in> set (ms_fields (status_head co))"
    using assms(1) by (auto simp: status_head_def set_text_def set_field_def Let_def)
  then have "?f \<in> set (ms_fields ?m)"
    by (auto simp: status_jobs_def set_u64_def set_bool_def set_block_def set_field_def Let_def split: sum.split)
  ultimately have "field_checks ?f = Inr ()" by (auto simp: encode_message_Inr Let_def)
  then show False using assms(2) by (simp add: field_checks_Inr)
qed

end
