(* ===== verification/Client.thy ===== *)
theory Client
  imports Coordinator
begin

text \<open>
  \<^verbatim>\<open>src/client.cpp\<close>: a client session. A call builds a request, sends it as a frame, takes the
  reply through the same checks the coordinator makes, and decodes the block it holds. What the
  socket answers in one exchange is an argument.
\<close>

section \<open>State\<close>

record step_position =
  sp_step :: training_step_id
  sp_phase :: phase_id

definition no_position :: step_position where
  "no_position = \<lparr>sp_step = 0, sp_phase = 0\<rparr>"

record client_session_info =
  cs_session :: session_id
  cs_epoch :: epoch_id
  cs_coordinator_boot :: boot_id
  cs_protocol_version :: u16
  cs_max_sessions :: u32
  cs_degraded :: bool

definition no_session_info :: client_session_info where
  "no_session_info = \<lparr>cs_session = 0, cs_epoch = 0, cs_coordinator_boot = BootId 0 0, cs_protocol_version = 0,
     cs_max_sessions = 0, cs_degraded = False\<rparr>"

record client =
  cl_boot :: boot_id
  cl_session :: client_session_info
  cl_handle :: job_handle
  cl_bound :: bool
  cl_current_step :: training_step_id
  cl_out_sequence :: u64
  cl_requests :: u64
  cl_in_sequence :: u64
  cl_inbound :: replay_window

definition no_handle :: job_handle where
  "no_handle = \<lparr>jh_job = 0, jh_generation = 0, jh_contract_generation = 0, jh_incarnation = 0, jh_epoch = 0,
     jh_topology_generation = 0, jh_policy_generation = 0, jh_boot = BootId 0 0, jh_issued_at = 0\<rparr>"

definition new_client :: client where
  "new_client = \<lparr>cl_boot = BootId 0 0, cl_session = no_session_info, cl_handle = no_handle, cl_bound = False,
     cl_current_step = 0, cl_out_sequence = 0, cl_requests = 0, cl_in_sequence = 0, cl_inbound = make_window 256\<rparr>"

text \<open>The move constructor: what the new client is, and what is left of the old one.\<close>

definition move_client :: "client \<Rightarrow> client \<times> client" where
  "move_client other = (new_client\<lparr>cl_boot := cl_boot other, cl_session := cl_session other,
     cl_handle := cl_handle other, cl_bound := cl_bound other, cl_out_sequence := cl_out_sequence other,
     cl_requests := cl_requests other, cl_in_sequence := cl_in_sequence other, cl_inbound := cl_inbound other\<rparr>,
     other\<lparr>cl_bound := False\<rparr>)"

text \<open>The move assignment keeps the current step of the target.\<close>

definition close_client :: "client \<Rightarrow> client" where
  "close_client c = c\<lparr>cl_bound := False\<rparr>"

definition assign_client :: "client \<Rightarrow> client \<Rightarrow> client \<times> client" where
  "assign_client target other = ((close_client target)\<lparr>cl_boot := cl_boot other, cl_session := cl_session other,
     cl_handle := cl_handle other, cl_bound := cl_bound other, cl_out_sequence := cl_out_sequence other,
     cl_requests := cl_requests other, cl_in_sequence := cl_in_sequence other, cl_inbound := cl_inbound other\<rparr>,
     other\<lparr>cl_bound := False\<rparr>)"

text \<open>The seed of a boot identity from the clock and the calls so far, and the count of calls.\<close>

definition derive_boot_seed :: "u64 \<Rightarrow> u64 \<Rightarrow> u64 \<times> u64" where
  "derive_boot_seed clock seen = (let counter = seen + 1 in (mix_seed clock (counter XOR 0x5DEECE66D), counter))"

text \<open>Two clients of one process never derive the same seed at the same time.\<close>

lemma derived_seeds_differ: "fst (derive_boot_seed clock n) = fst (derive_boot_seed clock n') \<longleftrightarrow> n = n'"
proof -
  have "mix_seed a b = mix_seed a b' \<longleftrightarrow> b = b'" for a b b'
    by (simp add: mix_seed_def Let_def) (metis add_right_cancel bit.xor_left_self)
  moreover have "x XOR k = y XOR k \<longleftrightarrow> x = y" for x y k :: u64 by (metis bit.xor_left_self xor.commute)
  ultimately show ?thesis by (simp add: derive_boot_seed_def Let_def)
qed

section \<open>Exchanges\<close>

text \<open>What \<^verbatim>\<open>SendAll\<close> and the two \<^verbatim>\<open>ReceiveExact\<close> of one exchange answer.\<close>

record exchange_answers =
  ex_sent :: status
  ex_header :: "bytes result"
  ex_tail :: "nat \<Rightarrow> bytes result"

definition exchange_raw :: "exchange_answers \<Rightarrow> bytes result" where
  "exchange_raw ex =
     rbind (ex_sent ex) (\<lambda>_.
     rbind (ex_header ex) (\<lambda>header.
     rbind (check (length header = kFrameHeaderBytes) EC_ConnectionClosed) (\<lambda>_.
     rbind (frame_payload_length header) (\<lambda>n.
     rbind (ex_tail ex (unat n + 4)) (\<lambda>tail.
     rbind (check (length tail = unat n + 4) EC_ConnectionClosed) (\<lambda>_.
     Inr (header @ tail)))))))"

definition next_nonce :: "client \<Rightarrow> u64 \<Rightarrow> u64" where
  "next_nonce c sequence =
     (let nonce = mix_seed (boot_lo (cl_boot c) XOR boot_hi (cl_boot c)) sequence in if nonce = 0 then 1 else nonce)"

definition next_sequence :: "client \<Rightarrow> u64 \<times> client" where
  "next_sequence c = (cl_out_sequence c + 1, c\<lparr>cl_out_sequence := cl_out_sequence c + 1\<rparr>)"

definition authority :: "client \<Rightarrow> step_position \<Rightarrow> authority_token" where
  "authority c pos = empty_token\<lparr>at_job := jh_job (cl_handle c), at_job_generation := jh_generation (cl_handle c),
     at_incarnation := jh_incarnation (cl_handle c), at_boot := cl_boot c, at_session := cs_session (cl_session c),
     at_epoch := cs_epoch (cl_session c), at_contract_generation := jh_contract_generation (cl_handle c),
     at_topology_generation := jh_topology_generation (cl_handle c),
     at_policy_generation := jh_policy_generation (cl_handle c),
     at_step := (if valid (sp_step pos) then sp_step pos else cl_current_step c),
     at_phase := sp_phase pos\<rparr>"

definition check_response :: "message \<Rightarrow> status" where
  "check_response response = check (get_error response = EC_Ok) (get_error response)"

text \<open>The frame that goes out, and the client that has counted it.\<close>

definition encode_request :: "operation_code \<Rightarrow> message \<Rightarrow> message" where
  "encode_request op m = set_u16 kOperation (operation_raw op) (m\<lparr>ms_type := MT_Request\<rparr>)"

definition EncodeRequest :: "operation_code \<Rightarrow> message \<Rightarrow> bytes result" where
  "EncodeRequest op m = encode_message (encode_request op m)"

definition send_request :: "operation_code \<Rightarrow> message \<Rightarrow> client \<Rightarrow> bytes result \<times> client" where
  "send_request op request c =
     (case encode_message (encode_request op request) of
        Inl e \<Rightarrow> (Inl e, c)
      | Inr payload \<Rightarrow>
          (case next_sequence c of
             (sequence, c1) \<Rightarrow>
               (encode_frame (message_type_raw MT_Request) 0 (cs_session (cl_session c1)) sequence
                  (next_nonce c1 sequence) payload, c1)))"

definition take_reply :: "bytes result \<Rightarrow> client \<Rightarrow> message result \<times> client" where
  "take_reply reply_bytes c =
     (case rbind reply_bytes decode_frame of
        Inl e \<Rightarrow> (Inl e, c)
      | Inr got \<Rightarrow>
          let type = MessageType (fh_type (fm_header got))
          in if type \<noteq> MT_Response \<and> type \<noteq> MT_Error then (Inl EC_UnexpectedMessage, c)
             else if fh_session (fm_header got) \<noteq> cs_session (cl_session c) then (Inl EC_AuthorityMismatch, c)
             else (case accept (cl_inbound c) (fh_sequence (fm_header got)) (fh_nonce (fm_header got)) of
                (Inl e, window) \<Rightarrow> (Inl e, c\<lparr>cl_inbound := window\<rparr>)
              | (Inr _, window) \<Rightarrow>
                  (decode_message type (fm_payload got),
                   c\<lparr>cl_inbound := window, cl_requests := cl_requests c + 1\<rparr>)))"

definition transact :: "exchange_answers \<Rightarrow> operation_code \<Rightarrow> message \<Rightarrow> client \<Rightarrow> message result \<times> client" where
  "transact ex op request c =
     (case send_request op request c of
        (Inl e, c1) \<Rightarrow> (Inl e, c1)
      | (Inr _, c1) \<Rightarrow> take_reply (exchange_raw ex) c1)"

text \<open>A diagnostic frame: it advances the sequence at least to its own.\<close>

definition RawRequest ::
  "exchange_answers \<Rightarrow> u16 \<Rightarrow> u64 \<Rightarrow> u64 \<Rightarrow> u64 \<Rightarrow> bytes \<Rightarrow> client \<Rightarrow> frame result \<times> client" where
  "RawRequest ex type session sequence nonce payload c =
     (case encode_frame type 0 session sequence nonce payload of
        Inl e \<Rightarrow> (Inl e, c)
      | Inr _ \<Rightarrow> (rbind (exchange_raw ex) decode_frame,
          c\<lparr>cl_out_sequence := max (cl_out_sequence c) sequence\<rparr>))"

section \<open>Connecting\<close>

definition hello_message :: "boot_id \<Rightarrow> bytes \<Rightarrow> message" where
  "hello_message boot name = set_text kClientName name (set_u64 kProtocolVersionField (ucast kProtocolVersion)
     (set_u64 kBootLo (boot_lo boot) (set_u64 kBootHi (boot_hi boot) (new_message MT_Hello))))"

definition session_info :: "message \<Rightarrow> client_session_info" where
  "session_info ack = \<lparr>cs_session = get_u64_or ack kSession 0, cs_epoch = get_u64_or ack kEpoch 0,
     cs_coordinator_boot = BootId (get_u64_or ack kCoordinatorBootHi 0) (get_u64_or ack kCoordinatorBootLo 0),
     cs_protocol_version = ucast (get_u64_or ack kProtocolVersionField 0),
     cs_max_sessions = (case get_u32 ack kMaxSessions of Inl _ \<Rightarrow> 0 | Inr n \<Rightarrow> n),
     cs_degraded = (case get_bool ack kTruncated of Inl _ \<Rightarrow> False | Inr b \<Rightarrow> b)\<rparr>"

definition Connect :: "status \<Rightarrow> exchange_answers \<Rightarrow> u64 \<Rightarrow> bytes \<Rightarrow> client result" where
  "Connect connected ex seed name =
     rbind connected (\<lambda>_.
     (let c = new_client\<lparr>cl_boot := mint_boot seed\<rparr>
      in rbind (encode_message (hello_message (cl_boot c) name)) (\<lambda>payload.
      (case next_sequence c of
         (sequence, c1) \<Rightarrow>
           rbind (encode_frame (message_type_raw MT_Hello) 0 0 sequence (next_nonce c1 sequence) payload) (\<lambda>_.
           rbind (exchange_raw ex) (\<lambda>bytes.
           rbind (decode_frame bytes) (\<lambda>got.
           if fh_type (fm_header got) = message_type_raw MT_Error
           then rbind (decode_message MT_Error (fm_payload got)) (\<lambda>refusal. Inl (get_error refusal))
           else if fh_type (fm_header got) \<noteq> message_type_raw MT_HelloAck then Inl EC_UnexpectedMessage
           else
             rbind (decode_message MT_HelloAck (fm_payload got)) (\<lambda>ack.
             rbind (check_response ack) (\<lambda>_.
             Inr (c1\<lparr>cl_session := session_info ack, cl_in_sequence := fh_sequence (fm_header got),
               cl_inbound := snd (accept (cl_inbound c1) (fh_sequence (fm_header got))
                 (fh_nonce (fm_header got)))\<rparr>)))))))))) "

section \<open>Requests\<close>

definition blank_request :: message where
  "blank_request = new_message MT_Invalid"

definition with_block :: "u16 \<Rightarrow> bytes result \<Rightarrow> message \<Rightarrow> message result" where
  "with_block tag block m = rbind block (\<lambda>b. Inr (set_block tag b m))"

definition with_token :: "client \<Rightarrow> step_position \<Rightarrow> message \<Rightarrow> message result" where
  "with_token c pos m = with_block kToken (encode_token_block (authority c pos)) m"

definition register_job_request :: "bytes \<Rightarrow> workload_contract \<Rightarrow> message result" where
  "register_job_request name contract =
     rbind (with_block kContract (encode_contract_block contract) blank_request) (\<lambda>m. Inr (set_text kClientName name m))"

definition job_request :: "training_job_id \<Rightarrow> message" where
  "job_request job = set_u64 kJob job blank_request"

definition register_group_request :: "client \<Rightarrow> parallelism_group \<Rightarrow> message result" where
  "register_group_request c grp =
     rbind (with_block kGroupRecord (encode_group_block grp) blank_request) (with_token c no_position)"

definition publish_topology_request :: "client \<Rightarrow> topology_evidence \<Rightarrow> message result" where
  "publish_topology_request c evidence =
     rbind (with_block kTopology (encode_topology_block evidence) blank_request) (with_token c no_position)"

definition apply_policy_request :: "policy_document \<Rightarrow> message result" where
  "apply_policy_request policy = with_block kPolicy (encode_policy_block policy) blank_request"

definition token_request :: "client \<Rightarrow> message result" where
  "token_request c = with_token c no_position blank_request"

definition begin_step_request :: "client \<Rightarrow> training_step_id \<Rightarrow> logical_time \<Rightarrow> u64 \<Rightarrow> message result" where
  "begin_step_request c step deadline_at slack_ticks =
     rbind (with_token c \<lparr>sp_step = step, sp_phase = 0\<rparr> blank_request) (\<lambda>m.
     Inr (set_u64 kSlackTicks slack_ticks (set_u64 kDeadlineAt deadline_at (set_u64 kStep step m))))"

definition begin_phase_request :: "client \<Rightarrow> phase_spec \<Rightarrow> message result" where
  "begin_phase_request c spec =
     rbind (with_token c no_position blank_request) (with_block kPhaseSpec (encode_phase_spec_block spec))"

definition end_phase_request :: "client \<Rightarrow> phase_id \<Rightarrow> phase_disposition \<Rightarrow> message result" where
  "end_phase_request c phase disposition =
     rbind (with_token c \<lparr>sp_step = 0, sp_phase = phase\<rparr> blank_request) (\<lambda>m.
     Inr (set_u64 kDisposition (of_nat (phase_disposition_raw disposition)) (set_u64 kPhase phase m)))"

definition step_disposition_raw :: "step_disposition \<Rightarrow> nat" where
  "step_disposition_raw d = position d step_dispositions"

definition end_step_request :: "client \<Rightarrow> step_disposition \<Rightarrow> message result" where
  "end_step_request c disposition =
     rbind (with_token c no_position blank_request) (\<lambda>m.
     Inr (set_u64 kDisposition (of_nat (step_disposition_raw disposition)) m))"

definition request_traffic_request :: "client \<Rightarrow> step_position \<Rightarrow> traffic_intent \<Rightarrow> message result" where
  "request_traffic_request c pos intent =
     rbind (with_block kIntentRecord (encode_intent_block (intent\<lparr>ti_authority := authority c pos\<rparr>)) blank_request)
       (with_token c pos)"

definition complete_flow_request ::
  "client \<Rightarrow> step_position \<Rightarrow> traffic_intent_id \<Rightarrow> u64 \<Rightarrow> bool \<Rightarrow> message result" where
  "complete_flow_request c pos intent bytes_transferred cancelled =
     rbind (with_token c pos blank_request) (\<lambda>m.
     Inr (set_u64 kCancelled (if cancelled then 1 else 0) (set_u64 kBytesTransferred bytes_transferred
       (set_u64 kIntent intent m))))"

definition revalidate_flow_request :: "client \<Rightarrow> step_position \<Rightarrow> traffic_intent_id \<Rightarrow> message result" where
  "revalidate_flow_request c pos intent =
     rbind (with_token c pos blank_request) (\<lambda>m. Inr (set_u64 kIntent intent m))"

definition begin_burst_request ::
  "client \<Rightarrow> step_position \<Rightarrow> parallelism_group_id \<Rightarrow> u64 \<Rightarrow> logical_time \<Rightarrow> bytes \<Rightarrow> message result" where
  "begin_burst_request c pos grp expected_bytes deadline_at reason =
     rbind (with_token c pos blank_request) (\<lambda>m.
     Inr (set_text kReasonText reason (set_u64 kDeadlineAt deadline_at (set_u64 kExpectedBytes expected_bytes
       (set_u64 kGroup grp m)))))"

definition end_burst_request :: "client \<Rightarrow> step_position \<Rightarrow> checkpoint_burst_id \<Rightarrow> message result" where
  "end_burst_request c pos burst = rbind (with_token c pos blank_request) (\<lambda>m. Inr (set_u64 kBurstId burst m))"

definition evaluate_pacing_request ::
  "client \<Rightarrow> step_position \<Rightarrow> parallelism_group_id \<Rightarrow> u32 \<Rightarrow> u32 \<Rightarrow> u64 \<Rightarrow> u64 \<Rightarrow> bool \<Rightarrow> message result" where
  "evaluate_pacing_request c pos grp expected arrived grace_ticks max_hold_ticks release_on_deadline =
     rbind (with_token c pos blank_request) (\<lambda>m.
     Inr (set_u64 kReleaseOnDeadline (if release_on_deadline then 1 else 0) (set_u64 kMaxHoldTicks max_hold_ticks
       (set_u64 kGraceTicks grace_ticks (set_u64 kArrivedParticipants (ucast arrived)
       (set_u64 kExpectedParticipants (ucast expected) (set_u64 kGroup grp m)))))))"

definition admit_replacement_request ::
  "client \<Rightarrow> training_job_id \<Rightarrow> training_generation \<Rightarrow> incarnation_id \<Rightarrow> training_step_id \<Rightarrow> error_code \<Rightarrow> message" where
  "admit_replacement_request c job generation expected resume cause =
     set_u64 kCauseCode (ucast (error_raw cause)) (set_u64 kResumeStep resume (set_u64 kExpectedIncarnation expected
       (set_u64 kNewBootLo (boot_lo (cl_boot c)) (set_u64 kNewBootHi (boot_hi (cl_boot c))
       (set_u64 kJobGeneration generation (set_u64 kJob job blank_request))))))"

definition intent_lookup_request :: "training_job_id \<Rightarrow> traffic_intent_id \<Rightarrow> message" where
  "intent_lookup_request job intent = set_u64 kIntent intent (job_request job)"

definition step_lookup_request :: "training_job_id \<Rightarrow> training_step_id \<Rightarrow> message" where
  "step_lookup_request job step = set_u64 kStep step (job_request job)"

section \<open>Calls\<close>

type_synonym 'a call = "client \<Rightarrow> 'a result \<times> client"

definition and_then :: "'a call \<Rightarrow> ('a \<Rightarrow> 'b call) \<Rightarrow> 'b call" where
  "and_then m k c = (case m c of (Inl e, c') \<Rightarrow> (Inl e, c') | (Inr x, c') \<Rightarrow> k x c')"

definition hand :: "'a result \<Rightarrow> 'a call" where
  "hand r c = (r, c)"

text \<open>A request that may fail to be built, and the exchange; with \<open>ask\<close> the code of the reply has to be Ok.\<close>

definition exchange :: "exchange_answers \<Rightarrow> operation_code \<Rightarrow> (client \<Rightarrow> message result) \<Rightarrow> message call" where
  "exchange ex op build c = (case build c of Inl e \<Rightarrow> (Inl e, c) | Inr m \<Rightarrow> transact ex op m c)"

definition ask :: "exchange_answers \<Rightarrow> operation_code \<Rightarrow> (client \<Rightarrow> message result) \<Rightarrow> message call" where
  "ask ex op build = and_then (exchange ex op build) (\<lambda>response.
     and_then (hand (check_response response)) (\<lambda>_. hand (Inr response)))"

definition reply_block :: "u16 \<Rightarrow> (bytes \<Rightarrow> 'a result) \<Rightarrow> message \<Rightarrow> 'a result" where
  "reply_block tag decode response = (case get_block response tag of
     Inl _ \<Rightarrow> Inl EC_MissingField
   | Inr b \<Rightarrow> decode b)"

definition adopt :: "(client \<Rightarrow> client) \<Rightarrow> 'a \<Rightarrow> 'a call" where
  "adopt f x c = (Inr x, f c)"

section \<open>Operations\<close>

definition client_RegisterJob :: "exchange_answers \<Rightarrow> bytes \<Rightarrow> workload_contract \<Rightarrow> job_handle call" where
  "client_RegisterJob ex name contract =
     and_then (ask ex OC_RegisterJob (\<lambda>c. register_job_request name contract)) (\<lambda>response.
     and_then (hand (reply_block kHandle decode_handle_block response)) (\<lambda>handle.
     adopt (\<lambda>c. c\<lparr>cl_handle := handle, cl_bound := True\<rparr>) handle))"

definition client_LookupHandle :: "exchange_answers \<Rightarrow> training_job_id \<Rightarrow> job_handle call" where
  "client_LookupHandle ex job =
     and_then (ask ex OC_LookupHandle (\<lambda>c. Inr (job_request job))) (\<lambda>response.
     and_then (hand (reply_block kHandle decode_handle_block response)) (\<lambda>handle.
     adopt (\<lambda>c. c\<lparr>cl_handle := handle, cl_bound := True\<rparr>) handle))"

definition client_RegisterGroup :: "exchange_answers \<Rightarrow> parallelism_group \<Rightarrow> unit call" where
  "client_RegisterGroup ex grp =
     and_then (ask ex OC_RegisterGroup (\<lambda>c. register_group_request c grp)) (\<lambda>_. hand (Inr ()))"

definition client_PublishTopology :: "exchange_answers \<Rightarrow> topology_evidence \<Rightarrow> topology_generation call" where
  "client_PublishTopology ex evidence =
     and_then (ask ex OC_PublishTopology (\<lambda>c. publish_topology_request c evidence)) (\<lambda>response.
     (let generation = get_u64_or response kTopologyGeneration 0
      in adopt (\<lambda>c. c\<lparr>cl_handle := (cl_handle c)\<lparr>jh_topology_generation := generation\<rparr>\<rparr>) generation))"

definition client_ApplyPolicy :: "exchange_answers \<Rightarrow> policy_document \<Rightarrow> policy_apply_result call" where
  "client_ApplyPolicy ex policy =
     and_then (ask ex OC_ApplyPolicy (\<lambda>c. apply_policy_request policy)) (\<lambda>response.
     and_then (hand (case get_block response kPolicyApplyResult of
         Inl _ \<Rightarrow> Inr \<lparr>pa_generation = pd_generation policy, pa_decisions_invalidated = 0, pa_flows_cancelled = 0,
           pa_jobs_affected = 0\<rparr>
       | Inr b \<Rightarrow> decode_policy_apply_block b)) (\<lambda>r.
     adopt (\<lambda>c. c\<lparr>cl_handle := (cl_handle c)\<lparr>jh_policy_generation := pa_generation r\<rparr>\<rparr>) r))"

definition client_RetireJob :: "exchange_answers \<Rightarrow> unit call" where
  "client_RetireJob ex = and_then (ask ex OC_RetireJob token_request) (\<lambda>_. hand (Inr ()))"

definition client_BeginStep ::
  "exchange_answers \<Rightarrow> training_step_id \<Rightarrow> logical_time \<Rightarrow> u64 \<Rightarrow> step_report call" where
  "client_BeginStep ex step deadline_at slack_ticks =
     and_then (ask ex OC_BeginStep (\<lambda>c. begin_step_request c step deadline_at slack_ticks)) (\<lambda>response.
     and_then (adopt (\<lambda>c. c\<lparr>cl_current_step := step\<rparr>) ()) (\<lambda>_.
     hand (reply_block kReport decode_report_block response)))"

definition client_BeginPhase :: "exchange_answers \<Rightarrow> phase_spec \<Rightarrow> phase_id call" where
  "client_BeginPhase ex spec =
     and_then (ask ex OC_BeginPhase (\<lambda>c. begin_phase_request c spec)) (\<lambda>response.
     hand (Inr (get_u64_or response kPhase 0)))"

definition client_EndPhase :: "exchange_answers \<Rightarrow> phase_id \<Rightarrow> phase_disposition \<Rightarrow> unit call" where
  "client_EndPhase ex phase disposition =
     and_then (ask ex OC_EndPhase (\<lambda>c. end_phase_request c phase disposition)) (\<lambda>_. hand (Inr ()))"

definition client_EndStep :: "exchange_answers \<Rightarrow> step_disposition \<Rightarrow> step_report call" where
  "client_EndStep ex disposition =
     and_then (ask ex OC_EndStep (\<lambda>c. end_step_request c disposition)) (\<lambda>response.
     and_then (adopt (\<lambda>c. c\<lparr>cl_current_step := 0\<rparr>) ()) (\<lambda>_.
     hand (reply_block kReport decode_report_block response)))"

text \<open>The replies that hold a record whatever their code is.\<close>

definition outcome_block :: "u16 \<Rightarrow> (bytes \<Rightarrow> 'a result) \<Rightarrow> error_code \<Rightarrow> message \<Rightarrow> 'a result" where
  "outcome_block tag decode missing response = (case get_block response tag of
     Inl _ \<Rightarrow> Inl (if check_response response = Inr () then missing else get_error response)
   | Inr b \<Rightarrow> decode b)"

definition client_RequestTraffic ::
  "exchange_answers \<Rightarrow> step_position \<Rightarrow> traffic_intent \<Rightarrow> traffic_decision call" where
  "client_RequestTraffic ex pos intent =
     and_then (exchange ex OC_RequestTraffic (\<lambda>c. request_traffic_request c pos intent)) (\<lambda>response.
     hand (outcome_block kDecision decode_decision_block EC_MissingField response))"

definition client_CompleteFlow ::
  "exchange_answers \<Rightarrow> step_position \<Rightarrow> traffic_intent_id \<Rightarrow> u64 \<Rightarrow> bool \<Rightarrow> flow_receipt call" where
  "client_CompleteFlow ex pos intent bytes_transferred cancelled =
     and_then (ask ex OC_CompleteFlow (\<lambda>c. complete_flow_request c pos intent bytes_transferred cancelled)) (\<lambda>response.
     hand (reply_block kReceipt decode_receipt_block response))"

text \<open>A missing block without an error is passed on as the error it has, which is Ok.\<close>

definition client_RevalidateFlow :: "exchange_answers \<Rightarrow> step_position \<Rightarrow> traffic_intent_id \<Rightarrow> revalidation_result call" where
  "client_RevalidateFlow ex pos intent =
     and_then (exchange ex OC_RevalidateFlow (\<lambda>c. revalidate_flow_request c pos intent)) (\<lambda>response.
     hand (outcome_block kRevalidation decode_revalidation_block EC_Ok response))"

definition client_BeginCheckpointBurst ::
  "exchange_answers \<Rightarrow> step_position \<Rightarrow> parallelism_group_id \<Rightarrow> u64 \<Rightarrow> logical_time \<Rightarrow> bytes \<Rightarrow> checkpoint_burst_id call" where
  "client_BeginCheckpointBurst ex pos grp expected_bytes deadline_at reason =
     and_then (ask ex OC_BeginCheckpointBurst (\<lambda>c. begin_burst_request c pos grp expected_bytes deadline_at reason))
       (\<lambda>response. hand (Inr (get_u64_or response kBurstId 0)))"

definition client_EndCheckpointBurst :: "exchange_answers \<Rightarrow> step_position \<Rightarrow> checkpoint_burst_id \<Rightarrow> unit call" where
  "client_EndCheckpointBurst ex pos burst =
     and_then (ask ex OC_EndCheckpointBurst (\<lambda>c. end_burst_request c pos burst)) (\<lambda>_. hand (Inr ()))"

definition client_EvaluatePacing ::
  "exchange_answers \<Rightarrow> step_position \<Rightarrow> parallelism_group_id \<Rightarrow> u32 \<Rightarrow> u32 \<Rightarrow> u64 \<Rightarrow> u64 \<Rightarrow> bool \<Rightarrow> pacing_decision call" where
  "client_EvaluatePacing ex pos grp expected arrived grace_ticks max_hold_ticks release_on_deadline =
     and_then (exchange ex OC_EvaluatePacing
       (\<lambda>c. evaluate_pacing_request c pos grp expected arrived grace_ticks max_hold_ticks release_on_deadline)) (\<lambda>response.
     hand (outcome_block kPacingDecision decode_pacing_decision_block EC_Ok response))"

definition client_AdmitReplacement ::
  "exchange_answers \<Rightarrow> training_job_id \<Rightarrow> training_generation \<Rightarrow> incarnation_id \<Rightarrow> training_step_id \<Rightarrow> error_code \<Rightarrow>
     recovery_grant call" where
  "client_AdmitReplacement ex job generation expected resume cause =
     and_then (ask ex OC_AdmitReplacement (\<lambda>c. Inr (admit_replacement_request c job generation expected resume cause)))
       (\<lambda>response.
     and_then (hand (reply_block kRecoveryGrant decode_recovery_grant_block response)) (\<lambda>grant.
     adopt (\<lambda>c. c\<lparr>cl_handle := (cl_handle c)\<lparr>jh_job := rg_job grant, jh_generation := rg_job_generation grant,
       jh_incarnation := rg_new_incarnation grant, jh_epoch := rg_epoch grant\<rparr>, cl_bound := True\<rparr>) grant))"

definition client_RetireIncarnation :: "exchange_answers \<Rightarrow> unit call" where
  "client_RetireIncarnation ex = and_then (ask ex OC_RetireIncarnation token_request) (\<lambda>_. hand (Inr ()))"

section \<open>Views\<close>

definition client_LookupJob :: "exchange_answers \<Rightarrow> training_job_id \<Rightarrow> job_view call" where
  "client_LookupJob ex job = and_then (ask ex OC_LookupJob (\<lambda>c. Inr (job_request job))) (\<lambda>response.
     hand (reply_block kJobView decode_job_view_block response))"

definition client_LookupDecision :: "exchange_answers \<Rightarrow> training_job_id \<Rightarrow> traffic_intent_id \<Rightarrow> traffic_decision call" where
  "client_LookupDecision ex job intent =
     and_then (ask ex OC_LookupDecision (\<lambda>c. Inr (intent_lookup_request job intent))) (\<lambda>response.
     hand (reply_block kDecision decode_decision_block response))"

definition client_LookupStepReport :: "exchange_answers \<Rightarrow> training_job_id \<Rightarrow> training_step_id \<Rightarrow> step_report call" where
  "client_LookupStepReport ex job step =
     and_then (ask ex OC_LookupStepReport (\<lambda>c. Inr (step_lookup_request job step))) (\<lambda>response.
     hand (reply_block kReport decode_report_block response))"

definition client_LookupFlowReceipt :: "exchange_answers \<Rightarrow> training_job_id \<Rightarrow> traffic_intent_id \<Rightarrow> flow_receipt call" where
  "client_LookupFlowReceipt ex job intent =
     and_then (ask ex OC_LookupFlowReceipt (\<lambda>c. Inr (intent_lookup_request job intent))) (\<lambda>response.
     hand (reply_block kReceipt decode_receipt_block response))"

definition client_GroupUtilization :: "exchange_answers \<Rightarrow> training_job_id \<Rightarrow> group_utilization_entry list call" where
  "client_GroupUtilization ex job =
     and_then (ask ex OC_GroupUtilization (\<lambda>c. Inr (job_request job))) (\<lambda>response.
     hand (reply_block kUtilizationList decode_utilization_list_block response))"

definition client_CurrentPolicy :: "exchange_answers \<Rightarrow> policy_document call" where
  "client_CurrentPolicy ex = and_then (ask ex OC_CurrentPolicy (\<lambda>c. Inr blank_request)) (\<lambda>response.
     hand (reply_block kPolicy decode_policy_block response))"

record job_summary =
  js_sum_job :: training_job_id
  js_sum_generation :: training_generation
  js_sum_incarnation :: incarnation_id
  js_sum_current_step :: training_step_id
  js_sum_active_flows :: u32
  js_sum_bytes_committed :: u64
  js_sum_step_active :: bool

record client_status =
  ct_epoch :: epoch_id
  ct_coordinator_boot :: boot_id
  ct_sessions_active :: u64
  ct_sessions_refused :: u64
  ct_frames_in :: u64
  ct_frames_out :: u64
  ct_frames_rejected :: u64
  ct_replay_rejections :: u64
  ct_state_commits :: u64
  ct_state_sequence :: u64
  ct_jobs :: u64
  ct_degraded :: bool
  ct_jobs_truncated :: bool
  ct_state_path :: bytes
  ct_job_summaries :: "job_summary list"

text \<open>One turn of the loop: an entry that starts with zero is no more than that.\<close>

definition read_job_summary :: "job_summary list \<Rightarrow> job_summary list reader" where
  "read_job_summary summaries =
     read_then read_u64 (\<lambda>job.
     if job = 0 then give summaries
     else
       read_then read_u64 (\<lambda>generation. read_then read_u64 (\<lambda>incarnation. read_then read_u64 (\<lambda>step.
       read_then read_u32 (\<lambda>flows. read_then read_u64 (\<lambda>bytes. read_then read_bool (\<lambda>active.
       give (summaries @ [\<lparr>js_sum_job = job, js_sum_generation = generation, js_sum_incarnation = incarnation,
         js_sum_current_step = step, js_sum_active_flows = flows, js_sum_bytes_committed = bytes,
         js_sum_step_active = active\<rparr>])))))))) "

definition read_summaries :: "message \<Rightarrow> job_summary list result" where
  "read_summaries response = (case get_block response kJobView of
     Inl _ \<Rightarrow> Inr []
   | Inr b \<Rightarrow> rbind (read_then (read_count 64) (\<lambda>n. read_fold (unat n) read_job_summary []) b) (\<lambda>(summaries, rest).
       Inr summaries))"

definition get_bool_or :: "message \<Rightarrow> u16 \<Rightarrow> bool \<Rightarrow> bool" where
  "get_bool_or m tag fallback = (case get_bool m tag of Inl _ \<Rightarrow> fallback | Inr b \<Rightarrow> b)"

definition client_FetchStatus :: "exchange_answers \<Rightarrow> client_status call" where
  "client_FetchStatus ex = and_then (ask ex OC_Status (\<lambda>c. Inr blank_request)) (\<lambda>response.
     and_then (hand (read_summaries response)) (\<lambda>summaries.
     hand (Inr \<lparr>ct_epoch = get_u64_or response kEpoch 0,
       ct_coordinator_boot = BootId (get_u64_or response kCoordinatorBootHi 0) (get_u64_or response kCoordinatorBootLo 0),
       ct_sessions_active = get_u64_or response kSessionCount 0,
       ct_sessions_refused = get_u64_or response kSessionsRefused 0, ct_frames_in = get_u64_or response kFramesIn 0,
       ct_frames_out = get_u64_or response kFramesOut 0, ct_frames_rejected = get_u64_or response kFramesRejected 0,
       ct_replay_rejections = get_u64_or response kReplayRejections 0,
       ct_state_commits = get_u64_or response kStateCommits 0, ct_state_sequence = get_u64_or response kStateSequence 0,
       ct_jobs = get_u64_or response kJobCount 0, ct_degraded = get_bool_or response kOperationalState False,
       ct_jobs_truncated = get_bool_or response kTruncated False, ct_state_path = get_text_or response kStatePath [],
       ct_job_summaries = summaries\<rparr>)))"

definition client_Shutdown :: "exchange_answers \<Rightarrow> unit call" where
  "client_Shutdown ex = and_then (ask ex OC_Shutdown (\<lambda>c. Inr blank_request)) (\<lambda>_. hand (Inr ()))"

end
