(* ===== verification/EndToEnd.thy ===== *)
theory EndToEnd
  imports Client Sessions Scenario
begin

text \<open>
  A call from end to end: the request a client builds, sent as a frame, makes the coordinator do
  the one call of the fabric that was meant, with the token of the client.
\<close>

section \<open>Fields in any order\<close>

lemma find_insort: "f \<notin> set fs \<Longrightarrow> \<not> P f \<or> (\<forall>g \<in> set fs. \<not> P g) \<Longrightarrow>
    find P (insort_key k f fs) = (if P f then Some f else find P fs)"
  by (induction fs) auto

lemma find_sorted:
  "distinct (map fd_tag fs) \<Longrightarrow> find (\<lambda>f. fd_tag f = t) (sort_key fd_tag fs) = find (\<lambda>f. fd_tag f = t) fs"
proof (induction fs)
  case (Cons f fs)
  have "f \<notin> set fs" using Cons.prems by (auto simp: image_iff)
  moreover have "fd_tag f \<noteq> t \<or> (\<forall>g \<in> set fs. fd_tag g \<noteq> t)" using Cons.prems by (auto simp: image_iff)
  ultimately show ?case using Cons find_insort [of f "sort_key fd_tag fs" "\<lambda>f. fd_tag f = t" fd_tag] by simp
qed simp

lemma ordered_field: "distinct (map fd_tag (ms_fields m)) \<Longrightarrow> find_field (ordered m) t = find_field m t"
  by (simp add: find_field_def ordered_def find_sorted)

lemma ordered_getters:
  assumes "distinct (map fd_tag (ms_fields m))"
  shows "get_u64_or (ordered m) t v = get_u64_or m t v" "get_block (ordered m) t = get_block m t"
    "get_u16 (ordered m) t = get_u16 m t" "get_text_or (ordered m) t w = get_text_or m t w"
  using ordered_field [OF assms]
  by (simp_all add: get_u64_or_def get_u64_def get_block_def get_u16_def get_text_or_def get_text_def get_field_def)

text \<open>A handler reads a request through its getters only.\<close>

lemma dispatch_ordered:
  assumes "distinct (map fd_tag (ms_fields m))"
  shows "dispatch_request io (ordered m) = dispatch_request io m"
proof -
  note get = ordered_getters [OF assms]
  have token: "token_from (ordered m) = token_from m" "require_block (ordered m) t = require_block m t" for t
    by (intro ext; simp add: token_from_def require_block_def get) (simp add: require_block_def get)
  have serve: "serve io op (ordered m) = serve io op m" for op
    unfolding serve_def serve_defs view_defs by (cases op; simp only: operation_code.case get token)
  show ?thesis unfolding dispatch_request_def get Let_def serve ..
qed

section \<open>One call\<close>

definition performs :: "message handler \<Rightarrow> coordinator \<times> session \<Rightarrow> operation \<Rightarrow> bool" where
  "performs m st x \<longleftrightarrow> co_fabric (fst (snd (m st))) = apply_operation (co_fabric (fst st)) x"

lemma performs_given: "r = Inr v \<Longrightarrow> performs (k v) st x \<Longrightarrow> performs (then_do (given r) k) st x"
  by (simp add: performs_def then_do_def given_def)

lemma performs_call:
  assumes "\<And>st. snd (f st) = apply_operation st x" and "\<And>v. quiet (k v)"
  shows "performs (then_do (call_fabric f) k) (co, s) x"
  using assms(1) [of "co_fabric co"] assms(2)
  by (auto simp: performs_def then_do_def call_fabric_def keeps_def split: prod.split sum.split)

lemmas performs_calls = operation_calls [THEN performs_call]

text \<open>The session of a client that is bound to its job.\<close>

definition paired :: "client \<Rightarrow> coordinator \<times> session \<Rightarrow> bool" where
  "paired c st \<longleftrightarrow> (case st of (co, s) \<Rightarrow> sn_bound s \<and> sn_job s = jh_job (cl_handle c) \<and>
     sn_incarnation s = jh_incarnation (cl_handle c) \<and> sn_boot s = cl_boot c \<and>
     sn_id s = cs_session (cl_session c) \<and> co_epoch co = cs_epoch (cl_session c))"

lemma token_agreed:
  assumes "paired c (co, s)" and "encode_token_block (authority c pos) = Inr b" and "get_block r kToken = Inr b"
  shows "token_from r co s = Inr (authority c pos)"
proof -
  have "decode_token_block b = Inr (authority c pos)"
    using tokens.block_roundtrip [of 160 "authority c pos" b no_check] assms(2)
    by (simp add: encode_token_block_def decode_token_block_def no_check_def)
  then show ?thesis
    using assms(1,3)
    by (simp add: token_from_def ensure_bound_def check_def paired_def require_block_def rebind_from_def
        session_envelope_def authority_def rebind_any_def)
qed

lemma performs_token:
  assumes "paired c (co, s)" and "encode_token_block (authority c pos) = Inr b" and "get_block r kToken = Inr b"
    and "performs (k (authority c pos)) (co, s) x"
  shows "performs (then_do (look (token_from r)) k) (co, s) x"
  using token_agreed [OF assms(1-3)] assms(4) by (simp add: performs_def then_do_def look_def)

text \<open>A request as it arrives, with the getters of its fields evaluated.\<close>

lemmas request_builders = with_token_def with_block_def register_job_request_def job_request_def
  register_group_request_def publish_topology_request_def apply_policy_request_def token_request_def
  begin_step_request_def begin_phase_request_def end_phase_request_def end_step_request_def
  request_traffic_request_def complete_flow_request_def revalidate_flow_request_def begin_burst_request_def
  end_burst_request_def evaluate_pacing_request_def admit_replacement_request_def blank_request_def

lemmas request_tags = kOperation_def kToken_def kContract_def kClientName_def kJob_def kGroupRecord_def kTopology_def
  kPolicy_def kStep_def kDeadlineAt_def kSlackTicks_def kPhaseSpec_def kPhase_def kDisposition_def kIntentRecord_def
  kIntent_def kBytesTransferred_def kCancelled_def kGroup_def kExpectedBytes_def kReasonText_def kBurstId_def
  kExpectedParticipants_def kArrivedParticipants_def kGraceTicks_def kMaxHoldTicks_def kReleaseOnDeadline_def
  kJobGeneration_def kNewBootHi_def kNewBootLo_def kExpectedIncarnation_def kResumeStep_def kCauseCode_def

lemmas message_fields = encode_request_def set_block_def set_u64_def set_u16_def set_text_def set_field_def
  new_message_def get_u64_or_def get_u64_def get_block_def get_u16_def get_field_def find_field_def typed_def
  read_at_def of_le_le_bytes take_bit_word_eq_self

lemma widened: "ucast (ucast (x :: u32) :: u64) = x" "ucast (ucast (y :: u16) :: u64) = y"
  by (rule bit_word_eqI, simp add: bit_simps)+

lemma performs_check: "p \<Longrightarrow> performs (k ()) st x \<Longrightarrow> performs (then_do (given (check p e)) k) st x"
  by (simp add: performs_given check_def)

lemma retire_job_performed:
  assumes "paired c (co, s)" and "token_request c = Inr m"
  shows "performs (serve_retire_job io (encode_request OC_RetireJob m)) (co, s)
    (Op_RetireJob (authority c no_position))"
  using assms(2) unfolding serve_retire_job_def Let_def
  by (auto simp: request_builders split del: if_split)
    (rule performs_token [OF assms(1)], assumption, simp_all add: message_fields request_tags, intro performs_calls handling; simp)

lemma retire_incarnation_performed:
  assumes "paired c (co, s)" and "token_request c = Inr m"
  shows "performs (serve_retire_incarnation io (encode_request OC_RetireIncarnation m)) (co, s)
    (Op_RetireIncarnation (authority c no_position))"
  using assms(2) unfolding serve_retire_incarnation_def Let_def
  by (auto simp: request_builders split del: if_split)
    (rule performs_token [OF assms(1)], assumption, simp_all add: message_fields request_tags, intro performs_calls handling; simp)

lemma begin_step_performed:
  assumes "paired c (co, s)" and "begin_step_request c step deadline slack = Inr m"
  shows "performs (serve_begin_step io (encode_request OC_BeginStep m)) (co, s)
    (Op_BeginStep \<lparr>so_authority = authority c \<lparr>sp_step = step, sp_phase = 0\<rparr>, so_step = step,
      so_deadline_at = deadline, so_slack_ticks = slack\<rparr>)"
  using assms(2) unfolding serve_begin_step_def Let_def
  by (auto simp: request_builders split del: if_split)
    (rule performs_token [OF assms(1)], assumption, simp_all add: message_fields request_tags, intro performs_calls handling; simp)

lemma complete_flow_performed:
  assumes "paired c (co, s)" and "complete_flow_request c pos intent transferred cancelled = Inr m"
  shows "performs (serve_complete_flow (encode_request OC_CompleteFlow m)) (co, s)
    (Op_CompleteFlow \<lparr>fc_authority = authority c pos, fc_intent = intent,
      fc_bytes_transferred = transferred, fc_cancelled = cancelled\<rparr>)"
  using assms(2) unfolding serve_complete_flow_def Let_def
  by (auto simp: request_builders split del: if_split)
    (rule performs_token [OF assms(1)], assumption, simp_all add: message_fields request_tags, intro conjI impI performs_calls handling; simp)

lemma revalidate_flow_performed:
  assumes "paired c (co, s)" and "revalidate_flow_request c pos intent = Inr m"
  shows "performs (serve_revalidate_flow (encode_request OC_RevalidateFlow m)) (co, s)
    (Op_RevalidateFlow (authority c pos) intent)"
  using assms(2) unfolding serve_revalidate_flow_def Let_def
  by (auto simp: request_builders split del: if_split)
    (rule performs_token [OF assms(1)], assumption, simp_all add: message_fields request_tags, intro performs_calls handling; simp)

lemma end_burst_performed:
  assumes "paired c (co, s)" and "end_burst_request c pos burst = Inr m"
  shows "performs (serve_end_burst (encode_request OC_EndCheckpointBurst m)) (co, s)
    (Op_EndCheckpointBurst (authority c pos) burst)"
  using assms(2) unfolding serve_end_burst_def Let_def
  by (auto simp: request_builders split del: if_split)
    (rule performs_token [OF assms(1)], assumption, simp_all add: message_fields request_tags, intro performs_calls handling; simp)

lemma evaluate_pacing_performed:
  assumes "paired c (co, s)" and "evaluate_pacing_request c pos grp expected arrived grace hold release = Inr m"
  shows "performs (serve_evaluate_pacing (encode_request OC_EvaluatePacing m)) (co, s)
    (Op_EvaluatePacing \<lparr>pi_authority = authority c pos, pi_group = grp, pi_expected_participants = expected,
      pi_arrived_participants = arrived, pi_grace_ticks = grace, pi_max_hold_ticks = hold,
      pi_release_on_deadline = release\<rparr>)"
  using assms(2) unfolding serve_evaluate_pacing_def Let_def
  by (auto simp: request_builders split del: if_split)
    (rule performs_token [OF assms(1)], assumption, simp_all add: message_fields request_tags widened, intro conjI impI performs_calls handling; simp)

text \<open>The records that a block carries: what was encoded and is valid is decoded.\<close>

lemma decoded_blocks:
  "encode_contract_block x1 = Inr b \<Longrightarrow> contract_validate_limits x1 = Inr () \<Longrightarrow> decode_contract_block b = Inr x1"
  "encode_group_block x2 = Inr b \<Longrightarrow> group_validate_limits x2 = Inr () \<Longrightarrow> decode_group_block b = Inr x2"
  "encode_phase_spec_block x3 = Inr b \<Longrightarrow> phase_spec_validate x3 = Inr () \<Longrightarrow> decode_phase_spec_block b = Inr x3"
  "encode_intent_block x4 = Inr b \<Longrightarrow> intent_validate x4 = Inr () \<Longrightarrow> decode_intent_block b = Inr x4"
  "encode_policy_block x5 = Inr b \<Longrightarrow> policy_good x5 \<Longrightarrow> decode_policy_block b = Inr x5"
  using contract_records.block_roundtrip [of 320 x1 b contract_validate_limits]
    group_records.block_roundtrip [of 320 x2 b group_validate_limits]
    phase_specs.block_roundtrip [of 384 x3 b phase_spec_validate]
    intents.block_roundtrip [of 512 x4 b intent_validate]
    policy_records.block_roundtrip [of 2048 x5 b policy_validate]
  by (auto simp: encode_contract_block_def decode_contract_block_def encode_group_block_def decode_group_block_def
      encode_phase_spec_block_def decode_phase_spec_block_def encode_intent_block_def decode_intent_block_def
      encode_policy_block_def decode_policy_block_def contract_validate_limits_def group_validate_limits_def
      phase_spec_validate_def intent_validate_def policy_good_def text_ok_def)

lemma decoded_topology:
  assumes "encode_topology_block e = Inr b" and "validate_links e = Inr ()"
  shows "decode_topology_block b = Inr e"
proof -
  have "topology_record_good e"
    using assms(2) validate_links_Inr [OF assms(2)]
    by (auto simp: topology_record_good_def validate_links_def link_validate_def text_ok_def not_less)
  with topology_records.block_roundtrip [of 1024 e b validate_links] assms show ?thesis
    by (simp add: encode_topology_block_def decode_topology_block_def)
qed

lemma performs_block:
  assumes "get_block r tag = Inr b" and "decode b = Inr v" and "performs (k v) st x"
  shows "performs (then_do (given (require_block r tag)) (\<lambda>b. then_do (given (decode b)) k)) st x"
  using assms by (simp add: performs_def then_do_def given_def require_block_def)

lemma register_group_performed:
  assumes "paired c (co, s)" and "register_group_request c grp = Inr m" and "group_validate_limits grp = Inr ()"
  shows "performs (serve_register_group io (encode_request OC_RegisterGroup m)) (co, s)
    (Op_RegisterGroup \<lparr>gr_authority = authority c no_position, gr_group = grp\<rparr>)"
  using assms(2) unfolding serve_register_group_def
  by (auto simp: request_builders)
    (rule performs_token [OF assms(1)], assumption, simp add: message_fields request_tags,
     rule performs_block [OF _ decoded_blocks(2) [OF _ assms(3)]], simp add: message_fields request_tags, assumption,
     intro performs_calls handling; simp)

lemma publish_topology_performed:
  assumes "paired c (co, s)" and "publish_topology_request c e = Inr m" and "validate_links e = Inr ()"
  shows "performs (serve_publish_topology io (encode_request OC_PublishTopology m)) (co, s)
    (Op_PublishTopologyEvidence (authority c no_position) e)"
  using assms(2) unfolding serve_publish_topology_def
  by (auto simp: request_builders)
    (rule performs_token [OF assms(1)], assumption, simp add: message_fields request_tags,
     rule performs_block [OF _ decoded_topology [OF _ assms(3)]], simp add: message_fields request_tags, assumption,
     intro performs_calls handling; simp)

lemma begin_phase_performed:
  assumes "paired c (co, s)" and "begin_phase_request c spec = Inr m" and "phase_spec_validate spec = Inr ()"
  shows "performs (serve_begin_phase io (encode_request OC_BeginPhase m)) (co, s)
    (Op_BeginPhase \<lparr>po_authority = authority c no_position, po_spec = spec\<rparr>)"
  using assms(2) unfolding serve_begin_phase_def
  by (auto simp: request_builders)
    (rule performs_token [OF assms(1)], assumption, simp add: message_fields request_tags,
     rule performs_block [OF _ decoded_blocks(3) [OF _ assms(3)]], simp add: message_fields request_tags, assumption,
     intro performs_calls handling; simp)

lemma request_traffic_performed:
  assumes "paired c (co, s)" and "request_traffic_request c pos intent = Inr m"
    and "intent_validate (intent\<lparr>ti_authority := authority c pos\<rparr>) = Inr ()"
  shows "performs (serve_request_traffic (encode_request OC_RequestTraffic m)) (co, s)
    (Op_RequestTraffic (intent\<lparr>ti_authority := authority c pos\<rparr>))"
  using assms(2) unfolding serve_request_traffic_def
  by (auto simp: request_builders)
    (rule performs_token [OF assms(1)], assumption, simp add: message_fields request_tags,
     rule performs_block [OF _ decoded_blocks(4) [OF _ assms(3)]], simp add: message_fields request_tags, assumption,
     simp, intro performs_calls handling; simp)

lemma apply_policy_performed:
  assumes "apply_policy_request policy = Inr m" and "policy_good policy"
  shows "performs (serve_apply_policy io (encode_request OC_ApplyPolicy m)) st (Op_ApplyPolicy policy)"
  using assms(1) unfolding serve_apply_policy_def
  by (cases st) (auto simp: request_builders,
     rule performs_block [OF _ decoded_blocks(5) [OF _ assms(2)]], simp add: message_fields request_tags, assumption,
     intro performs_calls handling; simp)

lemma performs_look: "f co s = Inr v \<Longrightarrow> performs (k v) (co, s) x \<Longrightarrow> performs (then_do (look f) k) (co, s) x"
  by (simp add: performs_def then_do_def look_def)

text \<open>A disposition travels as its number.\<close>

lemma phase_disposition_number:
  "unat (of_nat (phase_disposition_raw d) :: u64) = phase_disposition_raw d"
  "\<not> 3 < phase_disposition_raw d" "dispositions ! phase_disposition_raw d = d"
  by (cases d; simp add: dispositions_def)+

lemma step_disposition_number:
  "unat (of_nat (step_disposition_raw d) :: u64) = step_disposition_raw d"
  "\<not> 2 < step_disposition_raw d" "step_dispositions ! step_disposition_raw d = d"
  by (cases d; simp add: step_disposition_raw_def step_dispositions_def)+

lemma end_phase_performed:
  assumes "paired c (co, s)" and "end_phase_request c phase d = Inr m"
  shows "performs (serve_end_phase io (encode_request OC_EndPhase m)) (co, s)
    (Op_EndPhase (authority c \<lparr>sp_step = 0, sp_phase = phase\<rparr>) phase d)"
  using assms(2) unfolding serve_end_phase_def Let_def
  by (auto simp: request_builders)
    (rule performs_token [OF assms(1)], assumption, simp add: message_fields request_tags,
     rule performs_check, simp add: message_fields request_tags phase_disposition_number,
     simp add: message_fields request_tags phase_disposition_number, intro performs_calls handling; simp)

lemma end_step_performed:
  assumes "paired c (co, s)" and "end_step_request c d = Inr m"
  shows "performs (serve_end_step io (encode_request OC_EndStep m)) (co, s)
    (Op_EndStep (authority c no_position) d)"
  using assms(2) unfolding serve_end_step_def Let_def
  by (auto simp: request_builders)
    (rule performs_token [OF assms(1)], assumption, simp add: message_fields request_tags,
     rule performs_check, simp add: message_fields request_tags step_disposition_number,
     simp add: message_fields request_tags step_disposition_number, intro performs_calls handling; simp)

text \<open>Texts travel as they are when they are UTF-8.\<close>

lemma register_job_performed:
  assumes "\<not> sn_bound s" "sn_boot s = cl_boot c" "co_epoch co = cs_epoch (cl_session c)"
    and "register_job_request name contract = Inr m" and "is_valid_utf8 name" "contract_validate_limits contract = Inr ()"
  shows "performs (serve_register_job io (encode_request OC_RegisterJob m)) (co, s)
    (Op_RegisterJob \<lparr>jr_job = 0, jr_name = name, jr_boot = cl_boot c, jr_contract = contract, jr_incarnation = 0,
      jr_epoch = cs_epoch (cl_session c)\<rparr>)"
  using assms(4) unfolding serve_register_job_def
  by (auto simp: request_builders)
    (rule performs_look, simp add: assms(1) check_def,
     rule performs_block [OF _ decoded_blocks(1) [OF _ assms(6)]], simp add: message_fields request_tags, assumption,
     rule performs_look, rule refl,
     simp add: message_fields request_tags get_text_or_def get_text_def check_def assms(2,3,5),
     intro performs_calls handling; simp add: bind_session_def)

lemma begin_burst_performed:
  assumes "paired c (co, s)" and "begin_burst_request c pos grp expected deadline reason = Inr m" and "is_valid_utf8 reason"
  shows "performs (serve_begin_burst (encode_request OC_BeginCheckpointBurst m)) (co, s)
    (Op_BeginCheckpointBurst \<lparr>cb_authority = authority c pos, cb_group = grp, cb_expected_bytes = expected,
      cb_deadline_at = deadline, cb_reason = reason\<rparr>)"
  using assms(2) unfolding serve_begin_burst_def
  by (auto simp: request_builders)
    (rule performs_token [OF assms(1)], assumption,
     simp_all add: message_fields request_tags get_text_or_def get_text_def check_def assms(3),
     intro performs_calls handling; simp)

lemma admit_replacement_performed:
  assumes "sn_boot s = cl_boot c" "co_epoch co = cs_epoch (cl_session c)"
  shows "performs (serve_admit_replacement io (encode_request OC_AdmitReplacement
      (admit_replacement_request c job generation expected resume cause))) (co, s)
    (Op_AdmitReplacement \<lparr>rr_job = job, rr_job_generation = generation, rr_new_boot = cl_boot c,
      rr_expected_retired_incarnation = expected, rr_epoch = cs_epoch (cl_session c), rr_resume_step = resume,
      rr_cause = cause\<rparr>)"
  unfolding serve_admit_replacement_def
  by (rule performs_look, rule refl, rule performs_look,
    simp add: message_fields request_tags request_builders assms check_def,
    simp add: message_fields request_tags request_builders assms widened,
    intro performs_calls handling; simp)

section \<open>The calls of a client\<close>

text \<open>The methods of the client that change the fabric, with their arguments.\<close>

datatype client_call =
    Call_RegisterJob bytes workload_contract
  | Call_RegisterGroup parallelism_group
  | Call_PublishTopology topology_evidence
  | Call_ApplyPolicy policy_document
  | Call_RetireJob
  | Call_BeginStep training_step_id logical_time u64
  | Call_BeginPhase phase_spec
  | Call_EndPhase phase_id phase_disposition
  | Call_EndStep step_disposition
  | Call_RequestTraffic step_position traffic_intent
  | Call_CompleteFlow step_position traffic_intent_id u64 bool
  | Call_RevalidateFlow step_position traffic_intent_id
  | Call_BeginBurst step_position parallelism_group_id u64 logical_time bytes
  | Call_EndBurst step_position checkpoint_burst_id
  | Call_EvaluatePacing step_position parallelism_group_id u32 u32 u64 u64 bool
  | Call_AdmitReplacement training_job_id training_generation incarnation_id training_step_id error_code
  | Call_RetireIncarnation

text \<open>The request a call builds, under the operation it names.\<close>

fun call_code :: "client_call \<Rightarrow> operation_code" where
  "call_code (Call_RegisterJob _ _) = OC_RegisterJob"
| "call_code (Call_RegisterGroup _) = OC_RegisterGroup"
| "call_code (Call_PublishTopology _) = OC_PublishTopology"
| "call_code (Call_ApplyPolicy _) = OC_ApplyPolicy"
| "call_code Call_RetireJob = OC_RetireJob"
| "call_code (Call_BeginStep _ _ _) = OC_BeginStep"
| "call_code (Call_BeginPhase _) = OC_BeginPhase"
| "call_code (Call_EndPhase _ _) = OC_EndPhase"
| "call_code (Call_EndStep _) = OC_EndStep"
| "call_code (Call_RequestTraffic _ _) = OC_RequestTraffic"
| "call_code (Call_CompleteFlow _ _ _ _) = OC_CompleteFlow"
| "call_code (Call_RevalidateFlow _ _) = OC_RevalidateFlow"
| "call_code (Call_BeginBurst _ _ _ _ _) = OC_BeginCheckpointBurst"
| "call_code (Call_EndBurst _ _) = OC_EndCheckpointBurst"
| "call_code (Call_EvaluatePacing _ _ _ _ _ _ _) = OC_EvaluatePacing"
| "call_code (Call_AdmitReplacement _ _ _ _ _) = OC_AdmitReplacement"
| "call_code Call_RetireIncarnation = OC_RetireIncarnation"

fun call_request :: "client \<Rightarrow> client_call \<Rightarrow> message result" where
  "call_request c (Call_RegisterJob name contract) = register_job_request name contract"
| "call_request c (Call_RegisterGroup grp) = register_group_request c grp"
| "call_request c (Call_PublishTopology e) = publish_topology_request c e"
| "call_request c (Call_ApplyPolicy policy) = apply_policy_request policy"
| "call_request c Call_RetireJob = token_request c"
| "call_request c (Call_BeginStep step deadline slack) = begin_step_request c step deadline slack"
| "call_request c (Call_BeginPhase spec) = begin_phase_request c spec"
| "call_request c (Call_EndPhase phase d) = end_phase_request c phase d"
| "call_request c (Call_EndStep d) = end_step_request c d"
| "call_request c (Call_RequestTraffic pos intent) = request_traffic_request c pos intent"
| "call_request c (Call_CompleteFlow pos intent n cancelled) = complete_flow_request c pos intent n cancelled"
| "call_request c (Call_RevalidateFlow pos intent) = revalidate_flow_request c pos intent"
| "call_request c (Call_BeginBurst pos grp n deadline reason) = begin_burst_request c pos grp n deadline reason"
| "call_request c (Call_EndBurst pos burst) = end_burst_request c pos burst"
| "call_request c (Call_EvaluatePacing pos grp expected arrived grace hold release) =
     evaluate_pacing_request c pos grp expected arrived grace hold release"
| "call_request c (Call_AdmitReplacement job generation expected resume cause) =
     Inr (admit_replacement_request c job generation expected resume cause)"
| "call_request c Call_RetireIncarnation = token_request c"

text \<open>The call of the fabric that is meant, with the token of the client.\<close>

fun call_operation :: "client \<Rightarrow> client_call \<Rightarrow> operation" where
  "call_operation c (Call_RegisterJob name contract) = Op_RegisterJob \<lparr>jr_job = 0, jr_name = name,
     jr_boot = cl_boot c, jr_contract = contract, jr_incarnation = 0, jr_epoch = cs_epoch (cl_session c)\<rparr>"
| "call_operation c (Call_RegisterGroup grp) =
     Op_RegisterGroup \<lparr>gr_authority = authority c no_position, gr_group = grp\<rparr>"
| "call_operation c (Call_PublishTopology e) = Op_PublishTopologyEvidence (authority c no_position) e"
| "call_operation c (Call_ApplyPolicy policy) = Op_ApplyPolicy policy"
| "call_operation c Call_RetireJob = Op_RetireJob (authority c no_position)"
| "call_operation c (Call_BeginStep step deadline slack) =
     Op_BeginStep \<lparr>so_authority = authority c \<lparr>sp_step = step, sp_phase = 0\<rparr>, so_step = step,
       so_deadline_at = deadline, so_slack_ticks = slack\<rparr>"
| "call_operation c (Call_BeginPhase spec) =
     Op_BeginPhase \<lparr>po_authority = authority c no_position, po_spec = spec\<rparr>"
| "call_operation c (Call_EndPhase phase d) = Op_EndPhase (authority c \<lparr>sp_step = 0, sp_phase = phase\<rparr>) phase d"
| "call_operation c (Call_EndStep d) = Op_EndStep (authority c no_position) d"
| "call_operation c (Call_RequestTraffic pos intent) =
     Op_RequestTraffic (intent\<lparr>ti_authority := authority c pos\<rparr>)"
| "call_operation c (Call_CompleteFlow pos intent n cancelled) =
     Op_CompleteFlow \<lparr>fc_authority = authority c pos, fc_intent = intent, fc_bytes_transferred = n,
       fc_cancelled = cancelled\<rparr>"
| "call_operation c (Call_RevalidateFlow pos intent) = Op_RevalidateFlow (authority c pos) intent"
| "call_operation c (Call_BeginBurst pos grp n deadline reason) =
     Op_BeginCheckpointBurst \<lparr>cb_authority = authority c pos, cb_group = grp, cb_expected_bytes = n,
       cb_deadline_at = deadline, cb_reason = reason\<rparr>"
| "call_operation c (Call_EndBurst pos burst) = Op_EndCheckpointBurst (authority c pos) burst"
| "call_operation c (Call_EvaluatePacing pos grp expected arrived grace hold release) =
     Op_EvaluatePacing \<lparr>pi_authority = authority c pos, pi_group = grp, pi_expected_participants = expected,
       pi_arrived_participants = arrived, pi_grace_ticks = grace, pi_max_hold_ticks = hold,
       pi_release_on_deadline = release\<rparr>"
| "call_operation c (Call_AdmitReplacement job generation expected resume cause) =
     Op_AdmitReplacement \<lparr>rr_job = job, rr_job_generation = generation, rr_new_boot = cl_boot c,
       rr_expected_retired_incarnation = expected, rr_epoch = cs_epoch (cl_session c), rr_resume_step = resume,
       rr_cause = cause\<rparr>"
| "call_operation c Call_RetireIncarnation = Op_RetireIncarnation (authority c no_position)"

text \<open>The record of the call is one the codec of its block accepts.\<close>

fun call_valid :: "client \<Rightarrow> client_call \<Rightarrow> bool" where
  "call_valid c (Call_RegisterJob name contract) \<longleftrightarrow> contract_validate_limits contract = Inr ()"
| "call_valid c (Call_RegisterGroup grp) \<longleftrightarrow> group_validate_limits grp = Inr ()"
| "call_valid c (Call_PublishTopology e) \<longleftrightarrow> validate_links e = Inr ()"
| "call_valid c (Call_ApplyPolicy policy) \<longleftrightarrow> policy_good policy"
| "call_valid c (Call_BeginPhase spec) \<longleftrightarrow> phase_spec_validate spec = Inr ()"
| "call_valid c (Call_RequestTraffic pos intent) \<longleftrightarrow> intent_validate (intent\<lparr>ti_authority := authority c pos\<rparr>) = Inr ()"
| "call_valid c _ \<longleftrightarrow> True"

text \<open>The session is the one the client was given, as far as the call needs it.\<close>

definition greeted :: "client \<Rightarrow> coordinator \<times> session \<Rightarrow> bool" where
  "greeted c st \<longleftrightarrow> (case st of (co, s) \<Rightarrow> sn_boot s = cl_boot c \<and> co_epoch co = cs_epoch (cl_session c))"

fun call_ready :: "client \<Rightarrow> client_call \<Rightarrow> coordinator \<times> session \<Rightarrow> bool" where
  "call_ready c (Call_RegisterJob _ _) st \<longleftrightarrow> greeted c st \<and> \<not> sn_bound (snd st)"
| "call_ready c (Call_AdmitReplacement _ _ _ _ _) st \<longleftrightarrow> greeted c st"
| "call_ready c (Call_ApplyPolicy _) st \<longleftrightarrow> True"
| "call_ready c _ st \<longleftrightarrow> paired c st"

lemma encoded_texts:
  assumes "encode_message (encode_request op m) = Inr payload"
  shows "register_job_request name contract = Inr m \<Longrightarrow> is_valid_utf8 name"
    and "begin_burst_request c pos grp n deadline reason = Inr m \<Longrightarrow> is_valid_utf8 reason"
  using assms
  by (auto simp: encode_message_Inr Let_def field_checks_def request_builders message_fields validate_text_def
      checks_Inr split: if_splits)

lemma call_performed:
  assumes "call_ready c call (co, s)" and "call_valid c call" and "call_request c call = Inr m"
    and "encode_message (encode_request (call_code call) m) = Inr payload"
  shows "performs (serve io (call_code call) (encode_request (call_code call) m)) (co, s) (call_operation c call)"
  using assms(1-3) encoded_texts [OF assms(4)]
  by (cases call)
    (auto simp: serve_def greeted_def register_job_performed register_group_performed publish_topology_performed
      apply_policy_performed retire_job_performed begin_step_performed begin_phase_performed end_phase_performed
      end_step_performed request_traffic_performed complete_flow_performed revalidate_flow_performed
      begin_burst_performed end_burst_performed evaluate_pacing_performed admit_replacement_performed
      retire_incarnation_performed)

text \<open>A request that was encoded has each tag once, so it arrives with what was set.\<close>

lemma encoded_distinct:
  "encode_message m = Inr payload \<Longrightarrow> distinct (map fd_tag (ms_fields m))"
  by (auto simp: encode_message_Inr Let_def strict_sorted_iff distinct_map)

lemma call_code_known:
  "is_known_operation (operation_raw (call_code call))" "operation_codes ! unat (operation_raw (call_code call)) = call_code call"
  by (cases call; simp add: is_known_operation_def operation_raw_def operation_codes_def)+

lemma find_last: "\<forall>x \<in> set xs. \<not> P x \<Longrightarrow> find P (xs @ ys) = find P ys"
  by (induction xs) auto

lemma operation_found:
  assumes "distinct (map fd_tag (ms_fields (encode_request op m)))"
  shows "get_u16 (encode_request op m) kOperation = Inr (operation_raw op)"
proof -
  from assms have "\<forall>f \<in> set (ms_fields m). fd_tag f \<noteq> kOperation"
    by (auto simp: encode_request_def set_u16_def set_field_def image_iff)
  from find_last [OF this] show ?thesis
    by (simp add: encode_request_def get_u16_def get_field_def find_field_def set_u16_def set_field_def typed_def
      read_at_def of_le_le_bytes take_bit_word_eq_self)
qed

lemma dispatch_performed:
  assumes "call_ready c call (co, s)" and "call_valid c call" and "call_request c call = Inr m"
    and "encode_message (encode_request (call_code call) m) = Inr payload"
    and "dispatch_request io (ordered (encode_request (call_code call) m)) (co, s) = (response, st')"
  shows "co_fabric (fst st') = apply_operation (co_fabric co) (call_operation c call) \<and> fixed_part st' = fixed_part (co, s)"
proof -
  let ?r = "encode_request (call_code call) m"
  note d = encoded_distinct [OF assms(4)]
  obtain r co1 s1 where serve: "serve io (call_code call) ?r (co, s) = (r, co1, s1)" by (metis prod_cases3)
  have "co_fabric co1 = apply_operation (co_fabric co) (call_operation c call)"
    using call_performed [OF assms(1-4), of io] serve by (simp add: performs_def)
  moreover have "fixed_part (co1, s1) = fixed_part (co, s)"
    using serve_fixed [of io "call_code call" ?r, unfolded keeps_def, rule_format, of "(co, s)"] serve by simp
  moreover have "fst st' = co1 \<or> fst st' = reject_frame co1" "snd st' = s1"
    using assms(5) serve unfolding dispatch_ordered [OF d] dispatch_request_def operation_found [OF d]
    by (auto simp: call_code_known Let_def split: sum.splits if_splits)
  ultimately show ?thesis by (cases st') (auto simp: reject_frame_def on_stats_def fixed_part_def)
qed

section \<open>The frames of a client are never taken for replays\<close>

text \<open>A window that has seen only frames of this client, up to the last it has numbered.\<close>

definition in_step :: "client \<Rightarrow> replay_window \<Rightarrow> bool" where
  "in_step c w \<longleftrightarrow> (rw_seen_any w \<longrightarrow> rw_last_sequence w \<le> cl_out_sequence c) \<and>
     (\<forall>x \<in> set (rw_nonces w). \<exists>n \<le> cl_out_sequence c. x = next_nonce c n)"

text \<open>Two sequence numbers of a client share a nonce only where one of them had to be replaced by 1.\<close>

lemma mix_seed_inject: "mix_seed a b = mix_seed a b' \<longleftrightarrow> b = b'"
  by (simp add: mix_seed_def Let_def) (metis add_right_cancel bit.xor_left_self)

lemma next_nonce_inject: "next_nonce c n = next_nonce c n' \<Longrightarrow> next_nonce c n \<noteq> 1 \<Longrightarrow> n = n'"
  by (auto simp: next_nonce_def Let_def mix_seed_inject split: if_splits)

lemma in_step_accept:
  assumes "in_step c w" and "cl_out_sequence c < cl_out_sequence c + 1" and "next_nonce c (cl_out_sequence c + 1) \<noteq> 1"
  shows "\<exists>w'. accept w (cl_out_sequence c + 1) (next_nonce c (cl_out_sequence c + 1)) = (Inr (), w') \<and>
    in_step (c\<lparr>cl_out_sequence := cl_out_sequence c + 1\<rparr>) w'"
proof -
  let ?n = "cl_out_sequence c + 1"
  let ?x = "next_nonce c ?n"
  have nonce: "next_nonce (c\<lparr>cl_out_sequence := k\<rparr>) = next_nonce c" for k by (intro ext) (simp add: next_nonce_def)
  have old: "\<exists>n \<le> cl_out_sequence c. x = next_nonce c n" if "x \<in> set (rw_nonces w)" for x
    using assms(1) that by (simp add: in_step_def)
  have "?x \<notin> set (rw_nonces w)"
  proof
    assume "?x \<in> set (rw_nonces w)"
    then obtain n where n: "n \<le> cl_out_sequence c" "?x = next_nonce c n" using old by blast
    from next_nonce_inject [OF n(2) assms(3)] n(1) have "?n \<le> cl_out_sequence c" by simp
    with assms(2) show False by simp
  qed
  moreover have "\<not> (rw_seen_any w \<and> ?n \<le> rw_last_sequence w)" using assms(1,2) by (auto simp: in_step_def)
  moreover have "?x \<noteq> 0" by (simp add: next_nonce_def Let_def)
  ultimately obtain k where "accept w ?n ?x = (Inr (), w\<lparr>rw_nonces := drop k (rw_nonces w @ [?x]), rw_seen_any := True,
      rw_last_sequence := ?n, rw_accepted := rw_accepted w + 1\<rparr>)"
    by (simp add: accept_def Let_def del: drop_append)
  moreover have "\<exists>n \<le> ?n. x = next_nonce c n" if "x \<in> set (drop k (rw_nonces w @ [?x]))" for x k
  proof (cases "x = ?x")
    case False
    with that have "x \<in> set (rw_nonces w)" using in_set_dropD by fastforce
    with old obtain n where "n \<le> cl_out_sequence c" "x = next_nonce c n" by blast
    moreover from this(1) have "n \<le> ?n" using less_imp_le [OF assms(2)] by (rule order.trans)
    ultimately show ?thesis by blast
  qed blast
  ultimately show ?thesis by (simp add: in_step_def nonce del: drop_append)
qed

lemma sent_frame:
  assumes "send_request op m c = (Inr fr, c')"
  obtains payload where "encode_message (encode_request op m) = Inr payload"
    and "fr = frame_image 10 0 (cs_session (cl_session c)) (cl_out_sequence c + 1)
      (next_nonce c (cl_out_sequence c + 1)) payload"
    and "c' = c\<lparr>cl_out_sequence := cl_out_sequence c + 1\<rparr>"
  using assms
  by (auto simp: send_request_def next_sequence_def encode_frame_Inr next_nonce_def split: sum.splits)

lemma requests_bool_normal:
  "call_request c call = Inr m \<Longrightarrow> list_all bool_normal (ms_fields (encode_request op m))"
  by (cases call) (auto simp: request_builders message_fields bool_normal_def)

section \<open>A small client\<close>

definition small_client :: client where
  "small_client = new_client\<lparr>cl_boot := BootId 1 2, cl_out_sequence := 3,
     cl_session := no_session_info\<lparr>cs_session := 7, cs_epoch := 1\<rparr>\<rparr>"

definition register_call :: client_call where
  "register_call = Call_RegisterJob (ascii ''demo'') sample_contract"

definition small_turn_of :: "bytes \<Rightarrow> turn_answers" where
  "small_turn_of fr = \<lparr>tn_header = Inr (take 44 fr), tn_tail = (\<lambda>n. Inr (take n (drop 44 fr))), tn_sent = Inr (),
     tn_commit = all_well\<rparr>"

lemma small_client_evaluated:
  "fb_jobs (apply_operation (co_fabric small_coordinator) (call_operation small_client register_call)) \<noteq> []"
  "case encode_contract_block sample_contract of Inl _ \<Rightarrow> False | Inr b \<Rightarrow> length b \<le> 320"
  "call_valid small_client register_call" "next_nonce small_client 4 \<noteq> 1"
  "validate_text (ascii ''demo'') kMaxStringBytes = Inr ()" "length (ascii ''demo'') = 4"
  by code_simp+

lemma register_call_sent:
  obtains m fr where "call_request small_client register_call = Inr m"
    and "send_request (call_code register_call) m small_client = (Inr fr, small_client\<lparr>cl_out_sequence := 4\<rparr>)"
proof -
  obtain b where b: "encode_contract_block sample_contract = Inr b" "length b \<le> 320"
    using small_client_evaluated(2) by (auto split: sum.splits)
  define m where "m = set_text kClientName (ascii ''demo'') (set_block kContract b blank_request)"
  from b(2) small_client_evaluated(5,6) obtain p where p: "encode_message (encode_request OC_RegisterJob m) = Inr p"
    by (simp add: m_def encode_message_Inr Let_def bound_defs field_checks_Inr kMaxKnownTag_def message_image_def
      field_image_def one_byte_def request_builders request_tags message_fields)
  then have "length p \<le> kMaxPayloadBytes" by (simp add: encode_message_Inr)
  with p obtain fr where "send_request OC_RegisterJob m small_client = (Inr fr, small_client\<lparr>cl_out_sequence := 4\<rparr>)"
    by (simp add: send_request_def next_sequence_def encode_frame_Inr small_client_def)
  with b(1) that show thesis by (simp add: register_call_def register_job_request_def with_block_def m_def)
qed

section \<open>Properties\<close>

text \<open>
  C31: a call of a client reaches the fabric as it was meant: when the frame that the client sends
  for a call arrives at its session, which has seen only frames of this client and has budget
  left, the coordinator does the one call of the fabric that the method stands for, with the
  token of the client and the values it was given, and the session has then seen the frames of
  the client up to this one.
\<close>

theorem client_call_performed:
  assumes "call_ready c call (co, s)" and "call_valid c call" and "call_request c call = Inr m"
    and "send_request (call_code call) m c = (Inr fr, c')" and "arrives fr tn" and "in_step c (sn_window s)"
    and "cl_out_sequence c < cl_out_sequence c + 1" and "next_nonce c (cl_out_sequence c + 1) \<noteq> 1"
    and "\<not> co_stopping co" and "boot_valid (sn_boot s)"
    and "sn_requests s < cc_max_requests_per_session (co_config co)"
  shows "case session_turn tn (co, s) of (out, go_on, co', s') \<Rightarrow>
    co_fabric co' = apply_operation (co_fabric co) (call_operation c call) \<and> in_step c' (sn_window s')"
proof -
  obtain payload where e: "encode_message (encode_request (call_code call) m) = Inr payload"
    and fr: "fr = frame_image 10 0 (cs_session (cl_session c)) (cl_out_sequence c + 1)
      (next_nonce c (cl_out_sequence c + 1)) payload"
    and c': "c' = c\<lparr>cl_out_sequence := cl_out_sequence c + 1\<rparr>" using assms(4) by (rule sent_frame)
  obtain w where w: "accept (sn_window s) (cl_out_sequence c + 1) (next_nonce c (cl_out_sequence c + 1)) = (Inr (), w)"
    and step: "in_step c' w" using in_step_accept [OF assms(6-8)] c' by blast
  have "ms_type (encode_request (call_code call) m) = MT_Request"
    by (simp add: encode_request_def set_u16_def set_field_def)
  from turn_of_request [OF e requests_bool_normal [OF assms(3)] this assms(5) [unfolded fr] assms(9) w assms(10,11)]
  obtain k where turn: "session_turn tn (co, s) = serve_request tn (ordered (encode_request (call_code call) m))
    (co\<lparr>co_stats := k\<rparr>, s\<lparr>sn_window := w, sn_requests := sn_requests s + 1\<rparr>)" by blast
  obtain out go_on co' s' where t: "session_turn tn (co, s) = (out, go_on, co', s')" by (metis prod_cases4)
  from t [unfolded turn] obtain response st1 where d: "dispatch_request (tn_commit tn)
      (ordered (encode_request (call_code call) m))
      (co\<lparr>co_stats := k\<rparr>, s\<lparr>sn_window := w, sn_requests := sn_requests s + 1\<rparr>) = (response, st1)"
    and r: "replied st1 (co', s')" by (rule serve_request_replied)
  have "call_ready c call (co\<lparr>co_stats := k\<rparr>, s\<lparr>sn_window := w, sn_requests := sn_requests s + 1\<rparr>)"
    using assms(1) by (cases call) (simp_all add: greeted_def paired_def)
  from dispatch_performed [OF this assms(2,3) e d] r
  show ?thesis using t step by (auto simp: replied_def fixed_part_def split: prod.splits)
qed

lemma client_call_performed_witness:
  "\<exists>m fr (co' :: coordinator).
     send_request OC_RegisterJob m small_client = (Inr fr, small_client\<lparr>cl_out_sequence := 4\<rparr>) \<and>
     fst (snd (snd (session_turn (small_turn_of fr) (small_coordinator, small_session)))) = co' \<and>
     fb_jobs (co_fabric co') \<noteq> []"
proof -
  obtain m fr where sent: "call_request small_client register_call = Inr m"
    "send_request (call_code register_call) m small_client = (Inr fr, small_client\<lparr>cl_out_sequence := 4\<rparr>)"
    by (rule register_call_sent)
  have "call_ready small_client register_call (small_coordinator, small_session)"
    by (simp add: register_call_def greeted_def small_client_def small_coordinator_def small_session_def new_session_def
        coordinator_impl_def Let_def)
  moreover have "arrives fr (small_turn_of fr)" by (simp add: arrives_def small_turn_of_def)
  moreover have "in_step small_client (sn_window small_session)"
    by (simp add: in_step_def small_session_def new_session_def make_window_def)
  moreover have "cl_out_sequence small_client < cl_out_sequence small_client + 1"
    "next_nonce small_client (cl_out_sequence small_client + 1) \<noteq> 1"
    using small_client_evaluated(4) by (simp_all add: small_client_def)
  moreover have "\<not> co_stopping small_coordinator" "boot_valid (sn_boot small_session)"
    "sn_requests small_session < cc_max_requests_per_session (co_config small_coordinator)"
    by (simp_all add: small_coordinator_def coordinator_impl_def small_config_def small_session_def new_session_def
        boot_valid_def Let_def)
  moreover obtain out go_on co' s' where t:
    "session_turn (small_turn_of fr) (small_coordinator, small_session) = (out, go_on, co', s')" by (metis prod_cases4)
  ultimately have "co_fabric co' = apply_operation (co_fabric small_coordinator) (call_operation small_client register_call)"
    using client_call_performed [OF _ small_client_evaluated(3) sent, of small_coordinator small_session "small_turn_of fr"]
    by (simp add: t)
  with small_client_evaluated(1) sent(2) show ?thesis
    by (intro exI [of _ m] exI [of _ fr]) (simp add: t register_call_def)
qed

end
