(* ===== verification/Net.thy ===== *)
theory Net
  imports Errors
begin

text \<open>
  \<^verbatim>\<open>net.cpp\<close>: sockets, what they keep of the platform runtime, and the loops that send and
  receive all of a buffer. What a system call answers is an argument; the bytes that come in are
  the segments the network delivers, in order.
\<close>

section \<open>The runtime and the handles\<close>

text \<open>The reference count, and the native handles the process has open.\<close>

record net =
  nt_refs :: u32
  nt_open :: "nat list"

text \<open>A socket holds a native handle or \<^verbatim>\<open>kNoSocket\<close>.\<close>

type_synonym socket = "nat option"

text \<open>\<open>startup\<close> is what \<^verbatim>\<open>WSAStartup\<close> answers; elsewhere there is nothing to start.\<close>

definition Ensure :: "status \<Rightarrow> net \<Rightarrow> status \<times> net" where
  "Ensure startup w =
     (if nt_refs w = 0 \<and> startup \<noteq> Inr () then (Inl EC_IoError, w\<lparr>nt_refs := 0\<rparr>)
      else (Inr (), w\<lparr>nt_refs := nt_refs w + 1\<rparr>))"

definition Release :: "net \<Rightarrow> net" where
  "Release w = (if nt_refs w = 0 then w else w\<lparr>nt_refs := nt_refs w - 1\<rparr>)"

definition open_native :: "nat \<Rightarrow> net \<Rightarrow> net" where
  "open_native h w = w\<lparr>nt_open := h # nt_open w\<rparr>"

definition close_native :: "nat \<Rightarrow> net \<Rightarrow> net" where
  "close_native h w = w\<lparr>nt_open := remove1 h (nt_open w)\<rparr>"

definition close_socket :: "socket \<Rightarrow> net \<Rightarrow> socket \<times> net" where
  "close_socket s w = (case s of None \<Rightarrow> (None, w) | Some h \<Rightarrow> (None, Release (close_native h w)))"

text \<open>The move assignment: the target is closed and takes the handle, the source has none.\<close>

definition move_socket :: "socket \<Rightarrow> socket \<Rightarrow> net \<Rightarrow> (socket \<times> socket) \<times> net" where
  "move_socket target source w = (case close_socket target w of (_, w') \<Rightarrow> ((source, None), w'))"

section \<open>Opening\<close>

record open_answers =
  oa_startup :: status
  oa_resolve :: bool
  oa_handle :: "nat option"
  oa_bind :: bool
  oa_listen :: bool
  oa_connect :: bool

definition Listen :: "open_answers \<Rightarrow> net \<Rightarrow> socket result \<times> net" where
  "Listen a w =
     (case Ensure (oa_startup a) w of
        (Inl e, w1) \<Rightarrow> (Inl e, w1)
      | (Inr _, w1) \<Rightarrow>
          if \<not> oa_resolve a then (Inl EC_IoError, Release w1)
          else (case oa_handle a of
             None \<Rightarrow> (Inl EC_IoError, Release w1)
           | Some h \<Rightarrow>
               let w2 = open_native h w1
               in if \<not> oa_bind a then (Inl EC_IoError, Release (close_native h w2))
                  else if \<not> oa_listen a then (Inl EC_IoError, Release (close_native h w2))
                  else (Inr (Some h), w2)))"

definition connect_socket :: "open_answers \<Rightarrow> net \<Rightarrow> socket result \<times> net" where
  "connect_socket a w =
     (case Ensure (oa_startup a) w of
        (Inl e, w1) \<Rightarrow> (Inl e, w1)
      | (Inr _, w1) \<Rightarrow>
          if \<not> oa_resolve a then (Inl EC_IoError, Release w1)
          else (case oa_handle a of
             None \<Rightarrow> (Inl EC_IoError, Release w1)
           | Some h \<Rightarrow>
               let w2 = open_native h w1
               in if \<not> oa_connect a then (Inl EC_IoError, Release (close_native h w2)) else (Inr (Some h), w2)))"

definition accept_socket :: "socket \<Rightarrow> open_answers \<Rightarrow> net \<Rightarrow> socket result \<times> net" where
  "accept_socket s a w =
     (if s = None then (Inl EC_Closed, w)
      else case oa_handle a of
        None \<Rightarrow> (Inl EC_ConnectionClosed, w)
      | Some h \<Rightarrow>
          (case Ensure (oa_startup a) (open_native h w) of
             (Inl e, w1) \<Rightarrow> (Inl e, w1)
           | (Inr _, w1) \<Rightarrow> (Inr (Some h), w1)))"

text \<open>The wake pair of a platform with \<^verbatim>\<open>socketpair\<close>; on an error the pair is destroyed.\<close>

definition create_wake_pair :: "(nat \<times> nat) option \<Rightarrow> status \<Rightarrow> net \<Rightarrow> (socket \<times> socket) result \<times> net" where
  "create_wake_pair handles nonblocking w =
     (case handles of
        None \<Rightarrow> (Inl EC_IoError, w)
      | Some (a, b) \<Rightarrow>
          let w1 = open_native b (open_native a w); w2 = snd (Ensure (Inr ()) (snd (Ensure (Inr ()) w1)))
          in (case nonblocking of
                Inl e \<Rightarrow> (Inl e, snd (close_socket (Some a) (snd (close_socket (Some b) w2))))
              | Inr _ \<Rightarrow> (Inr (Some a, Some b), w2)))"

section \<open>The count is the number of open handles\<close>

text \<open>A handle is a descriptor that is not in use, and descriptors are not negative.\<close>

definition fresh_handle :: "nat \<Rightarrow> net \<Rightarrow> bool" where
  "fresh_handle h w \<longleftrightarrow> h < 2 ^ 31 \<and> h \<notin> set (nt_open w)"

definition fresh_answer :: "open_answers \<Rightarrow> net \<Rightarrow> bool" where
  "fresh_answer a w \<longleftrightarrow> (case oa_handle a of None \<Rightarrow> True | Some h \<Rightarrow> fresh_handle h w)"

text \<open>A step of any thread: it opens, accepts on a socket that is open, or closes one.\<close>

inductive net_step :: "net \<Rightarrow> net \<Rightarrow> bool" where
  listening: "fresh_answer a w \<Longrightarrow> Listen a w = (r, w') \<Longrightarrow> net_step w w'"
| connecting: "fresh_answer a w \<Longrightarrow> connect_socket a w = (r, w') \<Longrightarrow> net_step w w'"
| accepting_on: "fresh_answer a w \<Longrightarrow> l \<in> set (nt_open w) \<Longrightarrow> accept_socket (Some l) a w = (r, w') \<Longrightarrow> net_step w w'"
| pairing: "fresh_handle a w \<Longrightarrow> fresh_handle b w \<Longrightarrow> a \<noteq> b \<Longrightarrow>
    create_wake_pair (Some (a, b)) nonblocking w = (r, w') \<Longrightarrow> net_step w w'"
| closing: "h \<in> set (nt_open w) \<Longrightarrow> close_socket (Some h) w = (s, w') \<Longrightarrow> net_step w w'"

definition net_balanced :: "net \<Rightarrow> bool" where
  "net_balanced w \<longleftrightarrow> unat (nt_refs w) = length (nt_open w) \<and> distinct (nt_open w) \<and> (\<forall>h \<in> set (nt_open w). h < 2 ^ 31)"

lemma descriptors_bounded:
  assumes "net_balanced w"
  shows "length (nt_open w) \<le> 2 ^ 31"
proof -
  have "set (nt_open w) \<subseteq> {..<2 ^ 31}" using assms by (auto simp: net_balanced_def)
  then have "card (set (nt_open w)) \<le> card {..<(2 :: nat) ^ 31}" by (intro card_mono) simp_all
  with assms show ?thesis by (simp add: net_balanced_def distinct_card)
qed

lemma count_up: "net_balanced w \<Longrightarrow> unat (nt_refs w + 1) = unat (nt_refs w) + 1"
  using descriptors_bounded [of w] by (simp add: net_balanced_def unat_word_ariths)

lemma Ensure_balanced:
  assumes "net_balanced w"
  shows "Ensure s w = (Inl e, w') \<Longrightarrow> w' = w \<and> nt_open w = []" "Ensure s w = (Inr (), w') \<Longrightarrow> Release w' = w"
  using assms count_up [OF assms]
  by (auto simp: Ensure_def Release_def net_balanced_def unat_eq_0 split: if_splits)

lemma balanced_open:
  assumes "net_balanced w" and "fresh_handle h w"
  shows "Ensure s w = (Inr (), w') \<Longrightarrow> net_balanced (open_native h w')"
    and "Ensure s (open_native h w) = (Inr (), w') \<Longrightarrow> net_balanced w'"
  using assms count_up [OF assms(1)]
  by (auto simp: net_balanced_def Ensure_def open_native_def fresh_handle_def split: if_splits)

lemma balanced_close:
  assumes "net_balanced w" and "h \<in> set (nt_open w)"
  shows "net_balanced (Release (close_native h w))"
proof -
  from assms have "nt_refs w \<noteq> 0" by (auto simp: net_balanced_def)
  then have "unat (nt_refs w - 1) = unat (nt_refs w) - 1" by (simp add: unat_minus_one)
  with assms \<open>nt_refs w \<noteq> 0\<close> show ?thesis
    by (auto simp: net_balanced_def Release_def close_native_def length_remove1)
qed

lemma opened:
  assumes "net_balanced w" and "Ensure s w = (Inr (), w1)" and "fresh_handle h w"
  shows "Release (close_native h (open_native h w1)) = w" "net_balanced (open_native h w1)" "Release w1 = w"
proof -
  from assms(2) have "nt_open w1 = nt_open w" by (auto simp: Ensure_def split: if_splits)
  with assms(3) have "close_native h (open_native h w1) = w1" by (simp add: close_native_def open_native_def)
  moreover from assms show "Release w1 = w" "net_balanced (open_native h w1)" by (auto dest: Ensure_balanced balanced_open)
  ultimately show "Release (close_native h (open_native h w1)) = w" by simp
qed

text \<open>A call that fails leaves no handle and no reference behind.\<close>

definition opens :: "open_answers \<Rightarrow> net \<Rightarrow> socket result \<times> net \<Rightarrow> bool" where
  "opens a w out \<longleftrightarrow> (case out of (Inl _, w') \<Rightarrow> w' = w | (Inr s, w') \<Rightarrow> s = oa_handle a \<and> net_balanced w')"

lemma open_calls:
  assumes "net_balanced w" and "fresh_answer a w"
  shows "opens a w (Listen a w)" "opens a w (connect_socket a w)"
proof -
  have "opens a w (Listen a w) \<and> opens a w (connect_socket a w)"
  proof (cases "Ensure (oa_startup a) w")
    case (Pair r w1)
    show ?thesis
    proof (cases r)
      case (Inl e)
      with Pair Ensure_balanced [OF assms(1)] show ?thesis by (simp add: opens_def Listen_def connect_socket_def)
    next
      case (Inr u)
      with Pair Ensure_balanced(2) [OF assms(1), of "oa_startup a" w1] opened [OF assms(1), of "oa_startup a" w1] assms(2)
      show ?thesis
        by (cases "oa_handle a") (simp_all add: opens_def Listen_def connect_socket_def fresh_answer_def Let_def)
    qed
  qed
  then show "opens a w (Listen a w)" "opens a w (connect_socket a w)" by simp_all
qed

lemma accept_opens:
  assumes "net_balanced w" and "fresh_answer a w" and "l \<in> set (nt_open w)"
  shows "opens a w (accept_socket (Some l) a w)"
proof (cases "oa_handle a")
  case None
  then show ?thesis by (simp add: opens_def accept_socket_def)
next
  case (Some h)
  have "nt_refs (open_native h w) \<noteq> 0" using assms(1,3) by (auto simp: net_balanced_def open_native_def)
  then obtain w1 where w1: "Ensure (oa_startup a) (open_native h w) = (Inr (), w1)" by (simp add: Ensure_def)
  with balanced_open(2) [OF assms(1)] assms(2) Some show ?thesis
    by (simp add: opens_def accept_socket_def fresh_answer_def)
qed

lemma wake_pair_opens:
  assumes "net_balanced w" and "fresh_handle a w" and "fresh_handle b w" and "a \<noteq> b"
  shows "case create_wake_pair (Some (a, b)) nonblocking w of
    (Inl _, w') \<Rightarrow> w' = w | (Inr p, w') \<Rightarrow> p = (Some a, Some b) \<and> net_balanced w'"
proof -
  let ?w1 = "snd (Ensure (Inr ()) (open_native a w))"
  let ?w2 = "snd (Ensure (Inr ()) (open_native b ?w1))"
  have e: "Ensure (Inr ()) x = (Inr (), x\<lparr>nt_refs := nt_refs x + 1\<rparr>)" for x by (simp add: Ensure_def)
  have w1: "net_balanced ?w1" by (rule balanced_open(2) [OF assms(1,2), of "Inr ()"]) (simp add: e)
  moreover have "fresh_handle b ?w1" using assms(3,4) by (simp add: e fresh_handle_def open_native_def)
  ultimately have w2: "net_balanced ?w2" using balanced_open(2) [of ?w1 b "Inr ()" ?w2] by (simp add: e)
  have swap: "snd (Ensure (Inr ()) (snd (Ensure (Inr ()) (open_native b (open_native a w))))) = ?w2"
    by (simp add: e open_native_def)
  have "unat (nt_refs ?w2) = unat (nt_refs w) + 2" using w2 assms(1) by (simp add: net_balanced_def e open_native_def)
  then have "2 + nt_refs w \<noteq> 0" "1 + nt_refs w \<noteq> 0" using count_up [OF assms(1)]
    by (auto simp: e open_native_def add.commute)
  then have "snd (close_socket (Some a) (snd (close_socket (Some b) ?w2))) = w"
    using assms(2-4) by (simp add: e close_socket_def Release_def close_native_def open_native_def fresh_handle_def)
  with w2 show ?thesis by (simp add: create_wake_pair_def swap Let_def split: sum.split)
qed

lemma net_step_balanced: "net_step w w' \<Longrightarrow> net_balanced w \<Longrightarrow> net_balanced w'"
proof (induction rule: net_step.induct)
  case (listening a w r w')
  with open_calls(1) [of w a] show ?case by (auto simp: opens_def split: sum.splits)
next
  case (connecting a w r w')
  with open_calls(2) [of w a] show ?case by (auto simp: opens_def split: sum.splits)
next
  case (accepting_on a w l r w')
  with accept_opens [of w a l] show ?case by (auto simp: opens_def split: sum.splits)
next
  case (pairing a w b nonblocking r w')
  with wake_pair_opens [of w a b nonblocking] show ?case by (auto split: sum.splits)
next
  case (closing h w s w')
  then show ?case using balanced_close [of w h] by (auto simp: close_socket_def)
qed

section \<open>Sending and receiving all of a buffer\<close>

definition kMaxChunk :: nat where "kMaxChunk = 2 ^ 20"

text \<open>
  The loop of \<^verbatim>\<open>SendAll\<close> over what \<^verbatim>\<open>send\<close> returns in turn, from the bytes that are left: its
  status and the bytes the system took. It has no status yet while a call is still to return.
\<close>

primrec send_loop :: "int list \<Rightarrow> bytes \<Rightarrow> status option \<times> bytes" where
  "send_loop [] left = ((if left = [] then Some (Inr ()) else None), [])"
| "send_loop (rc # rcs) left =
     (if left = [] then (Some (Inr ()), [])
      else if rc \<le> 0 then (Some (Inl EC_IoError), [])
      else (case send_loop rcs (drop (nat rc) left) of (r, out) \<Rightarrow> (r, take (nat rc) left @ out)))"

definition send_all :: "socket \<Rightarrow> int list \<Rightarrow> bytes \<Rightarrow> status option \<times> bytes" where
  "send_all s rcs bs = (if s = None then (Some (Inl EC_Closed), []) else send_loop rcs bs)"

text \<open>
  What \<^verbatim>\<open>recv\<close> meets in turn: bytes that have arrived, or a failure; at the end of the list the peer
  has closed.
\<close>

datatype arrival = Arrived bytes | Failed

fun receive_some :: "socket \<Rightarrow> nat \<Rightarrow> arrival list \<Rightarrow> bytes result \<times> arrival list" where
  "receive_some s n as =
     (if s = None then (Inl EC_Closed, as)
      else if n = 0 then (Inr [], as)
      else let chunk = min n kMaxChunk
           in (case as of
                 [] \<Rightarrow> (Inr [], [])
               | Failed # rest \<Rightarrow> (Inl EC_IoError, rest)
               | Arrived bs # rest \<Rightarrow>
                   if length bs \<le> chunk then (Inr bs, rest) else (Inr (take chunk bs), Arrived (drop chunk bs) # rest)))"

declare receive_some.simps [simp del]

function receive_exact :: "socket \<Rightarrow> nat \<Rightarrow> arrival list \<Rightarrow> bytes result \<times> arrival list" where
  "receive_exact s n as =
     (if n = 0 then (Inr [], as)
      else case receive_some s n as of
        (Inl e, as1) \<Rightarrow> (Inl e, as1)
      | (Inr bs, as1) \<Rightarrow>
          if bs = [] then (Inr [], as1)
          else (case receive_exact s (n - length bs) as1 of
             (Inl e, as2) \<Rightarrow> (Inl e, as2)
           | (Inr later, as2) \<Rightarrow> (Inr (bs @ later), as2)))"
  by pat_completeness auto
termination by (relation "measure (\<lambda>(s, n, as). n)") (auto simp: length_greater_0_conv)

declare receive_exact.simps [simp del]

text \<open>The bytes that are still to come.\<close>

definition stream :: "arrival list \<Rightarrow> bytes" where
  "stream as = concat (map (\<lambda>a. case a of Arrived bs \<Rightarrow> bs | Failed \<Rightarrow> []) as)"

definition intact :: "arrival list \<Rightarrow> bool" where
  "intact as \<longleftrightarrow> (\<forall>a \<in> set as. \<exists>bs. a = Arrived bs \<and> bs \<noteq> [])"

lemma send_loop_prefix: "send_loop rcs left = (r, out) \<Longrightarrow> \<exists>rest. left = out @ rest \<and> (r = Some (Inr ()) \<longleftrightarrow> rest = [])"
proof (induction rcs arbitrary: left r out)
  case (Cons rc rcs)
  show ?case
  proof (cases "left = [] \<or> rc \<le> 0")
    case False
    obtain r1 out1 where l: "send_loop rcs (drop (nat rc) left) = (r1, out1)" by fastforce
    from Cons.IH [OF this] obtain rest where rest: "drop (nat rc) left = out1 @ rest" "r1 = Some (Inr ()) \<longleftrightarrow> rest = []"
      by blast
    have "left = (take (nat rc) left @ out1) @ rest" using rest(1) append_take_drop_id [of "nat rc" left] by simp
    moreover have "r = r1" "out = take (nat rc) left @ out1" using Cons.prems l False by auto
    ultimately show ?thesis using rest(2) by blast
  qed (use Cons.prems in \<open>auto split: if_splits\<close>)
qed auto

lemma send_loop_done:
  "list_all (\<lambda>rc. 0 < rc) rcs \<Longrightarrow> length left \<le> length rcs \<Longrightarrow> send_loop rcs left = (Some (Inr ()), left)"
proof (induction rcs arbitrary: left)
  case (Cons rc rcs)
  show ?case
  proof (cases "left = []")
    case False
    have "length (drop (nat rc) left) \<le> length rcs" using Cons.prems False by (cases left) auto
    with Cons False show ?thesis by simp
  qed simp
qed simp

lemma receive_some_stream:
  assumes "intact as" and "0 < n" and "receive_some (Some h) n as = (r, as1)"
  obtains bs where "r = Inr bs" and "stream as = bs @ stream as1" and "intact as1" and "length bs \<le> n"
    and "bs = [] \<longleftrightarrow> as = []"
  using assms
  by (cases as)
    (auto simp: receive_some.simps intact_def stream_def kMaxChunk_def Let_def split: if_splits arrival.splits)

lemma receive_exact_stream:
  assumes "intact as"
  shows "\<exists>as1. receive_exact (Some h) n as = (Inr (take n (stream as)), as1) \<and> stream as1 = drop n (stream as) \<and> intact as1"
  using assms
proof (induction n arbitrary: as rule: less_induct)
  case (less n)
  show ?case
  proof (cases "n = 0")
    case False
    obtain r as1 where some: "receive_some (Some h) n as = (r, as1)" by fastforce
    from less.prems False some obtain bs where bs: "r = Inr bs" "stream as = bs @ stream as1" "intact as1"
      "length bs \<le> n" "bs = [] \<longleftrightarrow> as = []" by (auto elim: receive_some_stream [of as n])
    show ?thesis
    proof (cases "bs = []")
      case True
      with bs some False show ?thesis by (simp add: receive_exact.simps [of _ n] stream_def)
    next
      case ne: False
      with False less.IH [of "n - length bs" as1] bs(3) obtain as2 where
        "receive_exact (Some h) (n - length bs) as1 = (Inr (take (n - length bs) (stream as1)), as2)"
        "stream as2 = drop (n - length bs) (stream as1)" "intact as2" by auto
      with bs some False ne show ?thesis by (simp add: receive_exact.simps [of _ n])
    qed
  qed (simp add: receive_exact.simps less.prems)
qed

section \<open>Waiting\<close>

text \<open>
  The answers of \<^verbatim>\<open>poll\<close>: what it returns and which of the sockets it found ready. A null pointer in
  the set is \<^term>\<open>None\<close>.
\<close>

definition wait_set_checks :: "socket option list \<Rightarrow> status" where
  "wait_set_checks sockets =
     checks [(\<not> (sockets = [] \<or> length sockets > 64), EC_InvalidArgument),
       (list_all (\<lambda>s. s \<noteq> None \<and> s \<noteq> Some None) sockets, EC_InvalidArgument)]"

fun first_ready :: "nat \<Rightarrow> bool list \<Rightarrow> nat result" where
  "first_ready i [] = Inl EC_Internal"
| "first_ready i (b # bs) = (if b then Inr i else first_ready (i + 1) bs)"

definition WaitReadable :: "socket option list \<Rightarrow> int \<Rightarrow> bool list \<Rightarrow> nat result" where
  "WaitReadable sockets rc ready =
     rbind (wait_set_checks sockets) (\<lambda>_.
     rbind (check (\<not> rc < 0) EC_IoError) (\<lambda>_. first_ready 0 ready))"

datatype wait_outcome = Readable | TimedOut

definition WaitReadableWithin :: "socket option list \<Rightarrow> int \<Rightarrow> wait_outcome result" where
  "WaitReadableWithin sockets rc =
     rbind (wait_set_checks sockets) (\<lambda>_.
     rbind (check (\<not> rc < 0) EC_IoError) (\<lambda>_. Inr (if rc = 0 then TimedOut else Readable)))"

lemma first_ready_Inr: "first_ready i bs = Inr k \<Longrightarrow> i \<le> k \<and> k < i + length bs \<and> bs ! (k - i)"
  by (induction i bs rule: first_ready.induct) (auto simp: nth_Cons' split: if_splits)

section \<open>The wake pair\<close>

text \<open>With the two answers of \<^verbatim>\<open>fcntl\<close>; the port is what \<^verbatim>\<open>getsockname\<close> finds, for an address of IPv4.\<close>

definition SetNonBlocking :: "socket \<Rightarrow> int \<Rightarrow> int \<Rightarrow> status" where
  "SetNonBlocking s flags rc =
     checks [(s \<noteq> None, EC_Closed), (\<not> flags < 0, EC_IoError), (\<not> rc < 0, EC_IoError)]"

definition local_port :: "socket \<Rightarrow> u16 option \<Rightarrow> u16" where
  "local_port s found = (if s = None then 0 else case found of None \<Rightarrow> 0 | Some port \<Rightarrow> port)"

definition signal :: "socket \<Rightarrow> int list \<Rightarrow> status option \<times> bytes" where
  "signal write_end rcs = send_all write_end rcs [1]"

text \<open>The loop of \<^verbatim>\<open>Drain\<close>: the read end does not block, so that nothing pending is a failure of \<^verbatim>\<open>recv\<close>.\<close>

function drain :: "socket \<Rightarrow> arrival list \<Rightarrow> arrival list" where
  "drain s as =
     (case receive_some s 64 as of
        (Inl e, as1) \<Rightarrow> as1
      | (Inr bs, as1) \<Rightarrow> if bs = [] then as1 else drain s as1)"
  by pat_completeness auto
termination
  by (relation "measure (\<lambda>(s, as). length (stream as))")
    (auto simp: receive_some.simps stream_def Let_def split: if_splits list.splits arrival.splits)

declare drain.simps [simp del]

text \<open>A drain takes all that is pending, up to where \<^verbatim>\<open>recv\<close> would have blocked.\<close>

lemma drain_takes_all:
  assumes "intact as"
  shows "drain (Some h) (as @ Failed # later) = later"
  using assms
proof (induction "length (stream as)" arbitrary: as rule: less_induct)
  case less
  show ?case
  proof (cases as)
    case Nil
    then show ?thesis by (simp add: drain.simps [of _ "_ # _"] receive_some.simps)
  next
    case (Cons a rest)
    with less.prems obtain bs where bs: "a = Arrived bs" "bs \<noteq> []" "intact rest" by (auto simp: intact_def)
    show ?thesis
    proof (cases "length bs \<le> 64")
      case True
      with bs less.hyps [of rest] Cons show ?thesis
        by (subst drain.simps) (simp add: receive_some.simps stream_def kMaxChunk_def)
    next
      case False
      with bs less.hyps [of "Arrived (drop 64 bs) # rest"] Cons show ?thesis
        by (subst drain.simps) (simp add: receive_some.simps stream_def kMaxChunk_def intact_def)
    qed
  qed
qed

end
