(* ===== verification/Delivery.thy ===== *)
theory Delivery
  imports Net Sessions
begin

text \<open>
  A frame over the network: whatever parts \<^verbatim>\<open>send\<close> takes of it and whatever segments arrive, the
  reader of a session gets the frame, and leaves what comes after it.
\<close>

text \<open>The two reads of \<^verbatim>\<open>read_frame\<close> over a socket, and what they leave of the stream.\<close>

definition read_header :: "socket \<Rightarrow> arrival list \<Rightarrow> bytes result \<times> arrival list" where
  "read_header s as = receive_exact s kFrameHeaderBytes as"

definition socket_turn :: "socket \<Rightarrow> arrival list \<Rightarrow> status \<Rightarrow> commit_answers \<Rightarrow> turn_answers" where
  "socket_turn s as sent io = (case read_header s as of (header, as1) \<Rightarrow>
     \<lparr>tn_header = header, tn_tail = (\<lambda>n. fst (receive_exact s n as1)), tn_sent = sent, tn_commit = io\<rparr>)"

definition left_over :: "socket \<Rightarrow> arrival list \<Rightarrow> nat \<Rightarrow> arrival list" where
  "left_over s as n = snd (receive_exact s n (snd (read_header s as)))"

lemma socket_turn_reads:
  assumes "intact as"
  shows "tn_header (socket_turn (Some h) as sent io) = Inr (take 44 (stream as))"
    and "tn_tail (socket_turn (Some h) as sent io) n = Inr (take n (drop 44 (stream as)))"
    and "stream (left_over (Some h) as n) = drop (n + 44) (stream as)" and "intact (left_over (Some h) as n)"
proof -
  obtain as1 where h: "receive_exact (Some h) 44 as = (Inr (take 44 (stream as)), as1)"
    "stream as1 = drop 44 (stream as)" "intact as1" using receive_exact_stream [OF assms] by blast
  obtain as2 where t: "receive_exact (Some h) n as1 = (Inr (take n (stream as1)), as2)"
    "stream as2 = drop n (stream as1)" "intact as2" using receive_exact_stream [OF h(3)] by blast
  from h t show "tn_header (socket_turn (Some h) as sent io) = Inr (take 44 (stream as))"
    "tn_tail (socket_turn (Some h) as sent io) n = Inr (take n (drop 44 (stream as)))"
    "stream (left_over (Some h) as n) = drop (n + 44) (stream as)" "intact (left_over (Some h) as n)"
    by (simp_all add: socket_turn_def read_header_def left_over_def kFrameHeaderBytes_def add.commute)
qed

text \<open>The frame as \<open>arrives\<close> has it, for the reader.\<close>

definition ideal_turn :: "bytes \<Rightarrow> status \<Rightarrow> commit_answers \<Rightarrow> turn_answers" where
  "ideal_turn fr sent io = \<lparr>tn_header = Inr (take 44 fr), tn_tail = (\<lambda>n. Inr (take n (drop 44 fr))), tn_sent = sent,
     tn_commit = io\<rparr>"

lemma arrives_ideal: "arrives fr (ideal_turn fr sent io)"
  by (simp add: arrives_def ideal_turn_def)

lemma read_frame_socket:
  assumes "length payload \<le> kMaxPayloadBytes" and "intact as"
    and "stream as = frame_image type flags session sequence nonce payload @ rest"
    and "tn = socket_turn (Some h) as sent io"
    and "ti = ideal_turn (frame_image type flags session sequence nonce payload) sent io"
  shows "read_frame (tn_header tn) (tn_tail tn) co = read_frame (tn_header ti) (tn_tail ti) co"
proof -
  let ?fr = "frame_image type flags session sequence nonce payload"
  have len: "length ?fr = 48 + length payload" by (rule length_frame_image)
  have n: "unat (of_nat (length payload) :: u32) = length payload"
    using assms(1) by (simp add: unat_of_nat bound_defs)
  have size: "frame_payload_length (take 44 ?fr) = Inr (of_nat (length payload))"
    using assms(1) by (simp add: frame_payload_length_Inr len take_frame_image read_at_frame_image n)
  have "tn_header tn = tn_header ti" "tn_tail tn (length payload + 4) = tn_tail ti (length payload + 4)"
    using socket_turn_reads [OF assms(2)] assms(3-5) len by (simp_all add: ideal_turn_def)
  moreover have "tn_header ti = Inr (take 44 ?fr)" using assms(5) by (simp add: ideal_turn_def)
  ultimately show ?thesis using n size len
    by (simp add: read_frame_def kFrameHeaderBytes_def)
qed

text \<open>What a turn does with a frame depends on the answers to its writes only.\<close>

lemma serve_frame_answers:
  assumes "tn_sent tn = tn_sent ti" and "tn_commit tn = tn_commit ti"
  shows "serve_frame tn = serve_frame ti"
proof -
  have "serve_message tn = serve_message ti" by (intro ext) (simp add: serve_message_def serve_request_def assms)
  then show ?thesis by (intro ext) (simp only: serve_frame_def assms)
qed

section \<open>Draining before a close\<close>

text \<open>
  \<^verbatim>\<open>drain_before_close\<close>: what has arrived is read away, so that closing does not reset the connection
  before the refusal was delivered; up to 64 KiB, in pieces of 1024 bytes. It returns what was read
  and what is still to come.
\<close>

function drain_from :: "socket \<Rightarrow> nat \<Rightarrow> arrival list \<Rightarrow> nat \<times> arrival list" where
  "drain_from s sofar as =
     (if sofar \<ge> 64 * 1024 then (sofar, as)
      else case receive_some s 1024 as of
        (Inl e, as1) \<Rightarrow> (sofar, as1)
      | (Inr bs, as1) \<Rightarrow> if bs = [] then (sofar, as1) else drain_from s (sofar + length bs) as1)"
  by pat_completeness auto
termination by (relation "measure (\<lambda>(s, sofar, as). 64 * 1024 - sofar)") (auto intro!: diff_less_mono2)

declare drain_from.simps [simp del]

definition drain_before_close :: "socket \<Rightarrow> arrival list \<Rightarrow> nat \<times> arrival list" where
  "drain_before_close s as = (if s = None then (0, as) else drain_from s 0 as)"

text \<open>It is bounded whatever arrives, and reads all of what is shorter than its bound.\<close>

lemma receive_some_length: "receive_some s n as = (Inr bs, as1) \<Longrightarrow> length bs \<le> n"
  by (auto simp: receive_some.simps Let_def split: if_splits list.splits arrival.splits)

lemma drain_bounded: "sofar \<le> 64 * 1024 + 1023 \<Longrightarrow> fst (drain_from s sofar as) \<le> 64 * 1024 + 1023"
proof (induction s sofar as rule: drain_from.induct)
  case (1 s sofar as)
  obtain r as1 where r: "receive_some s 1024 as = (r, as1)" by fastforce
  show ?case
  proof (cases "sofar \<ge> 64 * 1024 \<or> isl r \<or> r = Inr []")
    case True
    with 1(2) r show ?thesis by (subst drain_from.simps) (auto split: sum.splits)
  next
    case False
    then obtain bs where bs: "r = Inr bs" "bs \<noteq> []" "sofar < 64 * 1024" by (cases r) auto
    with receive_some_length [of s 1024 as bs as1] r have "sofar + length bs \<le> 64 * 1024 + 1023" by simp
    with 1(1) [of r as1 bs] bs r show ?thesis by (subst drain_from.simps) simp
  qed
qed

lemma drain_clears:
  assumes "intact as" and "sofar + length (stream as) < 64 * 1024"
  shows "drain_from (Some h) sofar as = (sofar + length (stream as), [])"
  using assms
proof (induction "length (stream as)" arbitrary: as sofar rule: less_induct)
  case less
  obtain r as1 where r: "receive_some (Some h) 1024 as = (r, as1)" by fastforce
  from less.prems(1) r obtain bs where bs: "r = Inr bs" "stream as = bs @ stream as1" "intact as1" "bs = [] \<longleftrightarrow> as = []"
    by (auto elim: receive_some_stream [of as 1024])
  show ?case
  proof (cases "bs = []")
    case True
    with bs r less.prems(2) show ?thesis by (subst drain_from.simps) (simp add: receive_some.simps stream_def Let_def)
  next
    case False
    with bs less.hyps [of as1 "sofar + length bs"] less.prems(2) r show ?thesis
      by (subst drain_from.simps) (simp add: add.assoc)
  qed
qed

section \<open>Properties\<close>



end
