(* ===== verification/Exchange.thy ===== *)
theory Exchange
  imports EndToEnd Answers Authority
begin

text \<open>
  An exchange from end to end: the response of the coordinator is the reply that the client takes,
  so that a call of a client returns what the fabric answered.
\<close>

section \<open>The frames of a session are never taken for replays\<close>

text \<open>A client that has seen only frames of its session, up to the last the session has numbered.\<close>

definition hears :: "client \<Rightarrow> session \<Rightarrow> bool" where
  "hears c s \<longleftrightarrow> cs_session (cl_session c) = sn_id s \<and>
     (rw_seen_any (cl_inbound c) \<longrightarrow> rw_last_sequence (cl_inbound c) \<le> sn_out_sequence s) \<and>
     (\<forall>x \<in> set (rw_nonces (cl_inbound c)). \<exists>n \<le> sn_out_sequence s. x = make_nonce (sn_id s) n)"

lemma make_nonce_inject: "make_nonce a n = make_nonce a n' \<Longrightarrow> make_nonce a n \<noteq> 1 \<Longrightarrow> n = n'"
  by (auto simp: make_nonce_def Let_def mix_seed_inject split: if_splits)

lemma accept_fresh:
  assumes "nonce \<noteq> 0" and "rw_seen_any w \<longrightarrow> rw_last_sequence w < sequence" and "nonce \<notin> set (rw_nonces w)"
  shows "\<exists>w'. accept w sequence nonce = (Inr (), w') \<and> rw_last_sequence w' = sequence \<and>
    set (rw_nonces w') \<subseteq> insert nonce (set (rw_nonces w))"
  using assms by (auto simp: accept_def Let_def not_le simp del: drop_append dest!: in_set_dropD)

lemma hears_accept:
  assumes "hears c s" and "sn_out_sequence s < sn_out_sequence s + 1" and "make_nonce (sn_id s) (sn_out_sequence s + 1) \<noteq> 1"
  shows "\<exists>w. accept (cl_inbound c) (sn_out_sequence s + 1) (make_nonce (sn_id s) (sn_out_sequence s + 1)) = (Inr (), w) \<and>
    hears (c\<lparr>cl_inbound := w, cl_requests := n\<rparr>) (s\<lparr>sn_out_sequence := sn_out_sequence s + 1\<rparr>)"
proof -
  let ?n = "sn_out_sequence s + 1"
  let ?x = "make_nonce (sn_id s) ?n"
  have fresh: "?x \<notin> set (rw_nonces (cl_inbound c))"
    using assms make_nonce_inject [of "sn_id s" ?n] by (fastforce simp: hears_def)
  have "?x \<noteq> 0" by (simp add: make_nonce_def Let_def)
  moreover have "rw_seen_any (cl_inbound c) \<longrightarrow> rw_last_sequence (cl_inbound c) < ?n"
    using assms(1,2) by (auto simp: hears_def)
  ultimately obtain w where w: "accept (cl_inbound c) ?n ?x = (Inr (), w)" "rw_last_sequence w = ?n"
    "set (rw_nonces w) \<subseteq> insert ?x (set (rw_nonces (cl_inbound c)))" using accept_fresh fresh by blast
  have "\<exists>k \<le> ?n. x = make_nonce (sn_id s) k" if "x \<in> set (rw_nonces w)" for x
  proof (cases "x = ?x")
    case False
    with that w(3) assms(1) obtain k where "k \<le> sn_out_sequence s" "x = make_nonce (sn_id s) k"
      by (auto simp: hears_def)
    moreover from this(1) assms(2) have "k \<le> sn_out_sequence s + 1" by (meson less_imp_le order.trans)
    ultimately show ?thesis by blast
  qed auto
  with assms(1) w show ?thesis by (auto simp: hears_def)
qed

section \<open>The reply\<close>

text \<open>The reads of a client that receives a frame whole.\<close>

definition receives :: "bytes \<Rightarrow> exchange_answers \<Rightarrow> bool" where
  "receives fr ex \<longleftrightarrow> ex_sent ex = Inr () \<and> ex_header ex = Inr (take 44 fr) \<and>
     ex_tail ex = (\<lambda>n. Inr (take n (drop 44 fr)))"

lemma exchange_raw_image:
  assumes "length payload \<le> kMaxPayloadBytes" and "receives (frame_image type flags session sequence nonce payload) ex"
  shows "exchange_raw ex = Inr (frame_image type flags session sequence nonce payload)"
proof -
  let ?fr = "frame_image type flags session sequence nonce payload"
  have len: "length ?fr = 48 + length payload" by (rule length_frame_image)
  have n: "unat (of_nat (length payload) :: u32) = length payload" using assms(1) by (simp add: unat_of_nat bound_defs)
  have "frame_payload_length (take 44 ?fr) = Inr (of_nat (length payload))"
    using assms(1) by (simp add: frame_payload_length_Inr len take_frame_image read_at_frame_image n)
  with assms(2) len n show ?thesis by (simp add: exchange_raw_def receives_def kFrameHeaderBytes_def)
qed

lemma reply_taken:
  assumes "sendable m" and "ms_type m = MT_Response" and "reply (Inr ()) m (co, s) = ([fr], co', s')"
    and "hears c s" and "sn_out_sequence s < sn_out_sequence s + 1"
    and "make_nonce (sn_id s) (sn_out_sequence s + 1) \<noteq> 1" and "receives fr ex"
  shows "\<exists>c'. take_reply (exchange_raw ex) c = (Inr (ordered m), c') \<and> hears c' s' \<and>
    c' = c\<lparr>cl_inbound := cl_inbound c', cl_requests := cl_requests c + 1\<rparr>"
proof -
  obtain payload where e: "encode_message m = Inr payload" using sendable_encodes [OF assms(1)] by blast
  then have len: "length payload \<le> kMaxPayloadBytes" by (auto simp: encode_message_Inr Let_def)
  from e assms(2,3) len have fr: "fr = frame_image (message_type_raw MT_Response) kFrameFlagsResponse (sn_id s)
      (sn_out_sequence s + 1) (make_nonce (sn_id s) (sn_out_sequence s + 1)) payload"
    and s': "s' = s\<lparr>sn_out_sequence := sn_out_sequence s + 1\<rparr>"
    by (auto simp: reply_def send_message_def Let_def encode_frame_Inr split: sum.splits prod.splits)
  obtain w where w: "accept (cl_inbound c) (sn_out_sequence s + 1) (make_nonce (sn_id s) (sn_out_sequence s + 1)) = (Inr (), w)"
    "hears (c\<lparr>cl_inbound := w, cl_requests := cl_requests c + 1\<rparr>) s'"
    using hears_accept [OF assms(4-6)] s' by blast
  have d: "decode_message MT_Response payload = Inr (ordered m)"
    using encoded_decodes [OF e] assms(1,2) by (simp add: sendable_def)
  have type: "MessageType (message_type_raw MT_Response) = MT_Response" by simp
  have "take_reply (exchange_raw ex) c = (Inr (ordered m), c\<lparr>cl_inbound := w, cl_requests := cl_requests c + 1\<rparr>)"
    using exchange_raw_image [OF len assms(7) [unfolded fr]] decode_frame_image [OF len] w(1) d assms(4)
    by (simp add: take_reply_def frame_of_def Let_def hears_def)
  with w(2) show ?thesis by auto
qed

section \<open>One exchange\<close>

lemma serve_numbering: "keeps (\<lambda>st. sn_out_sequence (snd st)) (serve io op request)"
  unfolding serve_def serve_defs view_defs Let_def
  by (cases op; simp only: operation_code.case; intro handling; simp add: bind_session_def on_stats_def)

lemma dispatch_numbering:
  assumes "dispatch_request io request (co, s) = (response, co1, s1)"
  shows "sn_out_sequence s1 = sn_out_sequence s \<and> sn_id s1 = sn_id s \<and> co_config co1 = co_config co"
proof (cases "\<exists>raw. get_u16 request kOperation = Inr raw \<and> is_known_operation raw")
  case True
  then obtain raw where raw: "get_u16 request kOperation = Inr raw" "is_known_operation raw" by blast
  let ?op = "operation_codes ! unat raw"
  obtain r co2 s2 where v: "serve io ?op request (co, s) = (r, co2, s2)" by (metis prod_cases3)
  have "co1 = co2 \<or> co1 = reject_frame co2" "s1 = s2"
    using assms raw v by (auto simp: dispatch_request_def Let_def split: sum.splits if_splits)
  moreover have "sn_out_sequence s2 = sn_out_sequence s" "sn_id s2 = sn_id s" "co_config co2 = co_config co"
    using serve_numbering [of io ?op request, unfolded keeps_def, rule_format, of "(co, s)"]
      serve_fixed [of io ?op request, unfolded keeps_def, rule_format, of "(co, s)"] v
    by (simp_all add: fixed_part_def)
  ultimately show ?thesis by (auto simp: reject_frame_def on_stats_def)
qed (use assms in \<open>auto simp: dispatch_request_def split: sum.splits if_splits\<close>)

text \<open>What a handler answers.\<close>

definition yields :: "'a handler \<Rightarrow> coordinator \<times> session \<Rightarrow> 'a result \<Rightarrow> bool" where
  "yields m st r \<longleftrightarrow> fst (m st) = r"

text \<open>The response of a request, which names its operation.\<close>

definition responded :: "operation_code \<Rightarrow> message result \<Rightarrow> message" where
  "responded op r = (case r of Inl e \<Rightarrow> error_response op e | Inr response \<Rightarrow> response)"

lemma dispatch_responds:
  assumes "encode_message (encode_request (call_code call) m) = Inr payload"
  shows "fst (dispatch_request io (ordered (encode_request (call_code call) m)) st) =
    responded (call_code call) (fst (serve io (call_code call) (encode_request (call_code call) m) st))"
  unfolding dispatch_ordered [OF encoded_distinct [OF assms]] dispatch_request_def
    operation_found [OF encoded_distinct [OF assms]]
  by (auto simp: call_code_known responded_def Let_def split: sum.split prod.split)

text \<open>
  What a call needs of the two sides: a session that has seen only frames of this client and has
  budget left, a client that has seen only frames of this session, and numbers that do not wrap.
\<close>

definition connected :: "client \<Rightarrow> coordinator \<times> session \<Rightarrow> bool" where
  "connected c st \<longleftrightarrow> (case st of (co, s) \<Rightarrow>
     in_step c (sn_window s) \<and> hears c s \<and>
     cl_out_sequence c < cl_out_sequence c + 1 \<and> next_nonce c (cl_out_sequence c + 1) \<noteq> 1 \<and>
     sn_out_sequence s < sn_out_sequence s + 1 \<and> make_nonce (sn_id s) (sn_out_sequence s + 1) \<noteq> 1 \<and>
     \<not> co_stopping co \<and> boot_valid (sn_boot s) \<and> sn_requests s < cc_max_requests_per_session (co_config co) \<and>
     (co_store co \<noteq> None \<longrightarrow> validate_text (co_state_path co) kMaxStringBytes = Inr ()))"

text \<open>The turn of the session sends one frame, and the client takes the response out of it.\<close>

lemma exchange_completes:
  assumes "connected c (co, s)" and "call_request c call = Inr m"
    and "send_request (call_code call) m c = (Inr fr, c1)" and "arrives fr tn" and "tn_sent tn = Inr ()"
  obtains fr' go_on st' k w r where "session_turn tn (co, s) = ([fr'], go_on, st')"
    and "yields (serve (tn_commit tn) (call_code call) (encode_request (call_code call) m))
      (co\<lparr>co_stats := k\<rparr>, s\<lparr>sn_window := w, sn_requests := sn_requests s + 1\<rparr>) r"
    and "sendable (responded (call_code call) r)"
    and "\<And>ex. receives fr' ex \<Longrightarrow>
      \<exists>c2. transact ex (call_code call) m c = (Inr (ordered (responded (call_code call) r)), c2) \<and> hears c2 (snd st')"
proof -
  let ?m = "encode_request (call_code call) m"
  obtain payload where e: "encode_message ?m = Inr payload"
    and fr: "fr = frame_image 10 0 (cs_session (cl_session c)) (cl_out_sequence c + 1)
      (next_nonce c (cl_out_sequence c + 1)) payload"
    and c1: "c1 = c\<lparr>cl_out_sequence := cl_out_sequence c + 1\<rparr>" using assms(3) by (rule sent_frame)
  note conn = assms(1) [unfolded connected_def, simplified]
  obtain w where w: "accept (sn_window s) (cl_out_sequence c + 1) (next_nonce c (cl_out_sequence c + 1)) = (Inr (), w)"
    using in_step_accept [of c "sn_window s"] conn by blast
  have "ms_type ?m = MT_Request" by (simp add: encode_request_def set_u16_def set_field_def)
  from turn_of_request [OF e requests_bool_normal [OF assms(2)] this assms(4) [unfolded fr] _ w] conn
  obtain k where turn: "session_turn tn (co, s) = serve_request tn (ordered ?m)
      (co\<lparr>co_stats := k\<rparr>, s\<lparr>sn_window := w, sn_requests := sn_requests s + 1\<rparr>)" by blast
  let ?st = "(co\<lparr>co_stats := k\<rparr>, s\<lparr>sn_window := w, sn_requests := sn_requests s + 1\<rparr>)"
  obtain response co2 s2 where d: "dispatch_request (tn_commit tn) (ordered ?m) ?st = (response, co2, s2)"
    by (metis prod_cases3)
  have response: "response = responded (call_code call) (fst (serve (tn_commit tn) (call_code call) ?m ?st))"
    using dispatch_responds [OF e, of "tn_commit tn" ?st] d by simp
  have "answers_operation (requested_operation (ordered ?m)) response"
    using dispatch_answers [OF d] conn by simp
  then have good: "sendable response" "ms_type response = MT_Response" by (simp_all add: answers_operation_def)
  have s2: "sn_out_sequence s2 = sn_out_sequence s" "sn_id s2 = sn_id s" using dispatch_numbering [OF d] by simp_all
  obtain out co3 s3 where r: "reply (Inr ()) response (co2, s2) = (out, co3, s3)" by (metis prod_cases3)
  obtain p where p: "encode_message response = Inr p" "length p \<le> kMaxPayloadBytes"
    using sendable_encodes [OF good(1)] by (auto simp: encode_message_Inr Let_def)
  then have "encode_frame t f i n x p = Inr (frame_image t f i n x p)" for t f i n x by (simp add: encode_frame_Inr)
  with r p(1) obtain fr' where fr': "out = [fr']" by (auto simp: reply_def send_message_def Let_def)
  have heard: "hears c1 s2" using conn s2 by (simp add: c1 hears_def)
  obtain go_on co4 where t: "session_turn tn (co, s) = ([fr'], go_on, co4, s3)"
    using turn d r fr' assms(5) by (auto simp: serve_request_def Let_def split: if_splits)
  have "\<exists>c2. transact ex (call_code call) m c = (Inr (ordered response), c2) \<and> hears c2 s3" if "receives fr' ex" for ex
    using reply_taken [OF good r [unfolded fr'] heard _ _ that] conn s2 assms(3) by (auto simp: transact_def)
  with t response good(1) that [OF t, of k w] show thesis by (simp add: yields_def)
qed

text \<open>What the client reads in the reply is what was set in the response; an error is its code.\<close>

lemma ordered_answer:
  assumes "sendable m"
  shows "get_block (ordered m) t = get_block m t" "get_error (ordered m) = get_error m"
    "get_u64_or (ordered m) t v = get_u64_or m t v" "check_response (ordered m) = check_response m"
  using ordered_getters [of m] assms by (simp_all add: sendable_def get_error_def check_response_def)

lemma refused_response:
  "get_error (error_response op e) = e" "t \<notin> {kOperation, kErrorCode} \<Longrightarrow> isl (get_block (error_response op e) t)"
  by (auto simp: setters get_error_def answer_checks answer_tags get_block_def)

section \<open>What a handler answers\<close>

lemma yields_given: "r = Inr v \<Longrightarrow> yields (k v) st x \<Longrightarrow> yields (then_do (given r) k) st x"
  by (simp add: yields_def then_do_def given_def)

lemma yields_token:
  assumes "paired c (co, s)" and "encode_token_block (authority c pos) = Inr b" and "get_block r kToken = Inr b"
    and "yields (k (authority c pos)) (co, s) x"
  shows "yields (then_do (look (token_from r)) k) (co, s) x"
  using token_agreed [OF assms(1-3)] assms(4) by (simp add: yields_def then_do_def look_def)

lemma yields_block:
  "get_block r tag = Inr b \<Longrightarrow> decode b = Inr v \<Longrightarrow> yields (k v) st x \<Longrightarrow>
    yields (then_do (given (require_block r tag)) (\<lambda>b. then_do (given (decode b)) k)) st x"
  by (simp add: yields_def then_do_def given_def require_block_def)

text \<open>The answer of the fabric, put into a block of the response.\<close>

lemma yields_answer_block:
  "yields (then_do (call_fabric f) (\<lambda>v. answer_block (response v) tag (encode v))) (co, s)
    (rbind (fst (f (co_fabric co))) (\<lambda>v. rbind (encoded (encode v)) (\<lambda>b. Inr (set_block tag b (response v)))))"
  by (simp add: yields_def then_do_def call_fabric_def answer_block_def given_def answer_def rbind_def
      split: prod.split sum.split)

lemma request_traffic_yields:
  assumes "paired c (co, s)" and "request_traffic_request c pos intent = Inr m"
    and "intent_validate (intent\<lparr>ti_authority := authority c pos\<rparr>) = Inr ()"
  shows "yields (serve_request_traffic (encode_request OC_RequestTraffic m)) (co, s)
    (rbind (fst (RequestTraffic (co_fabric co) (intent\<lparr>ti_authority := authority c pos\<rparr>))) (\<lambda>d.
      rbind (encoded (encode_decision_block d)) (\<lambda>b.
      Inr (set_block kDecision b (set_error (td_reason d) [] (make_response OC_RequestTraffic))))))"
  using assms(2) unfolding serve_request_traffic_def
  by (auto simp: request_builders)
    (rule yields_token [OF assms(1)], assumption, simp add: message_fields request_tags,
     rule yields_block [OF _ decoded_blocks(4) [OF _ assms(3)]], simp add: message_fields request_tags, assumption,
     simp, rule yields_answer_block)

lemma complete_flow_yields:
  assumes "paired c (co, s)" and "complete_flow_request c pos intent transferred cancelled = Inr m"
  shows "yields (serve_complete_flow (encode_request OC_CompleteFlow m)) (co, s)
    (rbind (fst (CompleteFlow (co_fabric co) \<lparr>fc_authority = authority c pos, fc_intent = intent,
      fc_bytes_transferred = transferred, fc_cancelled = cancelled\<rparr>)) (\<lambda>receipt.
      rbind (encoded (encode_receipt_block receipt)) (\<lambda>b. Inr (set_block kReceipt b (ok_response OC_CompleteFlow)))))"
proof -
  let ?r = "encode_request OC_CompleteFlow m"
  obtain b where b: "encode_token_block (authority c pos) = Inr b" "get_block ?r kToken = Inr b"
    and fields: "get_u64_or ?r kIntent 0 = intent" "get_u64_or ?r kBytesTransferred 0 = transferred"
      "get_u64_or ?r kCancelled 0 = (if cancelled then 1 else 0)"
    using assms(2) by (auto simp: request_builders message_fields request_tags)
  have k: "yields (serve_complete_flow ?r) (co, s) x" if "yields (then_do (call_fabric (\<lambda>st. CompleteFlow st
      \<lparr>fc_authority = authority c pos, fc_intent = intent, fc_bytes_transferred = transferred, fc_cancelled = cancelled\<rparr>))
      (\<lambda>receipt. answer_block (ok_response OC_CompleteFlow) kReceipt (encode_receipt_block receipt))) (co, s) x" for x
    unfolding serve_complete_flow_def fields
    by (rule yields_token [OF assms(1) b]) (use that in \<open>cases cancelled; simp\<close>)
  show ?thesis by (rule k [OF yields_answer_block])
qed

text \<open>What the client finds in the reply where the fabric refused, and where it gave a record.\<close>

lemma answer_told:
  assumes "sendable (responded op r)" and "tag \<notin> {kOperation, kErrorCode}"
    and "r = rbind q (\<lambda>v. rbind (encoded (encode v)) (\<lambda>b. Inr (set_block tag b (head v))))"
  shows "q = Inl e \<Longrightarrow> isl (get_block (ordered (responded op r)) tag) \<and> get_error (ordered (responded op r)) = e"
    and "q = Inr v \<Longrightarrow> encode v = Inr b \<Longrightarrow> get_block (ordered (responded op r)) tag = Inr b \<and>
      get_error (ordered (responded op r)) = get_error (set_block tag b (head v))"
proof -
  note read = ordered_answer [OF assms(1)]
  show "isl (get_block (ordered (responded op r)) tag) \<and> get_error (ordered (responded op r)) = e" if "q = Inl e"
    unfolding read using that assms(2) by (simp add: assms(3) responded_def rbind_def refused_response)
  show "get_block (ordered (responded op r)) tag = Inr b \<and>
      get_error (ordered (responded op r)) = get_error (set_block tag b (head v))" if "q = Inr v" "encode v = Inr b"
  proof -
    have m: "responded op r = set_block tag b (head v)"
      using that by (simp add: assms(3) responded_def rbind_def encoded_def)
    with assms(1) have "find (\<lambda>f. fd_tag f = tag) (ms_fields (head v)) = None"
      by (auto simp: sendable_def set_block_def set_field_def find_None_iff)
    then have "get_block (set_block tag b (head v)) tag = Inr b"
      by (simp add: set_block_def set_field_def get_block_def get_field_def find_field_def typed_def find_append)
    then show ?thesis unfolding read by (simp add: m)
  qed
qed

text \<open>A call whose handler puts what the fabric gave into a block.\<close>

lemma call_told:
  assumes "connected c (co, s)" and "call_request c call = Inr m"
    and "send_request (call_code call) m c = (Inr fr, c1)" and "arrives fr tn" and "tn_sent tn = Inr ()"
    and "tag \<notin> {kOperation, kErrorCode}"
    and "\<And>k w. yields (serve (tn_commit tn) (call_code call) (encode_request (call_code call) m))
      (co\<lparr>co_stats := k\<rparr>, s\<lparr>sn_window := w, sn_requests := sn_requests s + 1\<rparr>)
      (rbind q (\<lambda>v. rbind (encoded (encode v)) (\<lambda>b. Inr (set_block tag b (head v)))))"
  shows "\<exists>fr' go_on st'. session_turn tn (co, s) = ([fr'], go_on, st') \<and> (\<forall>ex. receives fr' ex \<longrightarrow>
    (\<exists>answer c2. transact ex (call_code call) m c = (Inr answer, c2) \<and> hears c2 (snd st') \<and>
      (\<forall>e. q = Inl e \<longrightarrow> isl (get_block answer tag) \<and> get_error answer = e) \<and>
      (\<forall>v b. q = Inr v \<longrightarrow> encode v = Inr b \<longrightarrow>
        get_block answer tag = Inr b \<and> get_error answer = get_error (set_block tag b (head v)))))"
proof -
  obtain fr' go_on st' k w r where t: "session_turn tn (co, s) = ([fr'], go_on, st')"
    and y: "yields (serve (tn_commit tn) (call_code call) (encode_request (call_code call) m))
      (co\<lparr>co_stats := k\<rparr>, s\<lparr>sn_window := w, sn_requests := sn_requests s + 1\<rparr>) r"
    and good: "sendable (responded (call_code call) r)"
    and taken: "\<And>ex. receives fr' ex \<Longrightarrow>
      \<exists>c2. transact ex (call_code call) m c = (Inr (ordered (responded (call_code call) r)), c2) \<and> hears c2 (snd st')"
    using exchange_completes [OF assms(1-5)] by blast
  have "r = rbind q (\<lambda>v. rbind (encoded (encode v)) (\<lambda>b. Inr (set_block tag b (head v))))"
    using y assms(7) [of k w] by (simp add: yields_def)
  from answer_told [OF good assms(6) this] taken t show ?thesis by blast
qed

text \<open>The receipt of a completion is what the client gets, and so is the error.\<close>

lemma receipt_reaches_client:
  assumes "connected c (co, s)" and "paired c (co, s)"
    and "complete_flow_request c pos intent transferred cancelled = Inr m"
    and "send_request OC_CompleteFlow m c = (Inr fr, c1)" and "arrives fr tn" and "tn_sent tn = Inr ()"
  shows "\<exists>fr' go_on st'. session_turn tn (co, s) = ([fr'], go_on, st') \<and> (\<forall>ex. receives fr' ex \<longrightarrow>
    (\<exists>c2. hears c2 (snd st') \<and>
      (case fst (CompleteFlow (co_fabric co) \<lparr>fc_authority = authority c pos, fc_intent = intent,
          fc_bytes_transferred = transferred, fc_cancelled = cancelled\<rparr>) of
         Inl e \<Rightarrow> e \<noteq> EC_Ok \<longrightarrow> client_CompleteFlow ex pos intent transferred cancelled c = (Inl e, c2)
       | Inr receipt \<Rightarrow> client_CompleteFlow ex pos intent transferred cancelled c = (Inr receipt, c2))))"
proof -
  let ?call = "Call_CompleteFlow pos intent transferred cancelled"
  let ?q = "fst (CompleteFlow (co_fabric co) \<lparr>fc_authority = authority c pos, fc_intent = intent,
    fc_bytes_transferred = transferred, fc_cancelled = cancelled\<rparr>)"
  have m: "call_request c ?call = Inr m" and sent: "send_request (call_code ?call) m c = (Inr fr, c1)"
    and tag: "kReceipt \<notin> {kOperation, kErrorCode}" using assms(3,4) by (simp_all add: answer_tags)
  have "yields (serve (tn_commit tn) (call_code ?call) (encode_request (call_code ?call) m))
      (co\<lparr>co_stats := k\<rparr>, s\<lparr>sn_window := w, sn_requests := sn_requests s + 1\<rparr>)
      (rbind ?q (\<lambda>v. rbind (encoded (encode_receipt_block v)) (\<lambda>b. Inr (set_block kReceipt b (ok_response OC_CompleteFlow)))))" for k w
    using complete_flow_yields [of c "co\<lparr>co_stats := k\<rparr>" "s\<lparr>sn_window := w, sn_requests := sn_requests s + 1\<rparr>" pos intent
      transferred cancelled m] assms(2,3) by (simp add: serve_def paired_def)
  from call_told [OF assms(1) m sent assms(5,6) tag this] obtain fr' go_on st' where
    t: "session_turn tn (co, s) = ([fr'], go_on, st')"
    and told: "\<And>ex. receives fr' ex \<Longrightarrow> \<exists>answer c2. transact ex OC_CompleteFlow m c = (Inr answer, c2) \<and> hears c2 (snd st') \<and>
      (\<forall>e. ?q = Inl e \<longrightarrow> isl (get_block answer kReceipt) \<and> get_error answer = e) \<and>
      (\<forall>v b. ?q = Inr v \<longrightarrow> encode_receipt_block v = Inr b \<longrightarrow> get_block answer kReceipt = Inr b \<and>
        get_error answer = get_error (set_block kReceipt b (ok_response OC_CompleteFlow)))"
    unfolding call_code.simps by blast
  have ok: "get_error (set_block kReceipt b (ok_response OC_CompleteFlow)) = EC_Ok" for b
    by (simp add: setters get_error_def answer_checks answer_tags)
  have carried: "\<exists>b. encode_receipt_block v = Inr b \<and> decode_receipt_block b = Inr v" for v
    using receipts.block_fits [OF room_responses(1), of 96 no_check v]
    by (simp add: encode_receipt_block_def decode_receipt_block_def no_check_def)
  have "\<exists>c2. hears c2 (snd st') \<and>
      (case ?q of Inl e \<Rightarrow> e \<noteq> EC_Ok \<longrightarrow> client_CompleteFlow ex pos intent transferred cancelled c = (Inl e, c2)
       | Inr receipt \<Rightarrow> client_CompleteFlow ex pos intent transferred cancelled c = (Inr receipt, c2))" if r: "receives fr' ex" for ex
  proof -
    from told [OF r] obtain answer c2 where a: "transact ex OC_CompleteFlow m c = (Inr answer, c2)" "hears c2 (snd st')"
      "\<And>e. ?q = Inl e \<Longrightarrow> get_error answer = e"
      "\<And>v b. ?q = Inr v \<Longrightarrow> encode_receipt_block v = Inr b \<Longrightarrow> get_block answer kReceipt = Inr b \<and> get_error answer = EC_Ok"
      using ok by fastforce
    then show ?thesis
      using carried assms(3)
      by (fastforce simp: client_CompleteFlow_def ask_def and_then_def exchange_def hand_def check_response_def check_def
          reply_block_def split: sum.split)
  qed
  with t show ?thesis by blast
qed

section \<open>A client of the sample job\<close>

definition sample_client :: client where
  "sample_client = new_client\<lparr>cl_boot := BootId 1 1, cl_out_sequence := 3, cl_bound := True,
     cl_session := no_session_info\<lparr>cs_session := 1\<rparr>,
     cl_handle := no_handle\<lparr>jh_job := 1, jh_generation := 1, jh_contract_generation := 1, jh_incarnation := 1,
       jh_topology_generation := 1, jh_policy_generation := 1\<rparr>\<rparr>"

definition sample_position :: step_position where
  "sample_position = \<lparr>sp_step = 5, sp_phase = 1\<rparr>"

definition sample_session :: session where
  "sample_session = (new_session 1)\<lparr>sn_boot := BootId 1 1, sn_bound := True, sn_job := 1, sn_job_generation := 1,
     sn_incarnation := 1\<rparr>"

definition sample_coordinator :: coordinator where
  "sample_coordinator = small_coordinator\<lparr>co_epoch := 0, co_fabric := opened\<rparr>"

lemma sample_authority: "authority sample_client sample_position = sample_token 1 5 1"
  by code_simp

lemma sample_connected: "connected sample_client (sample_coordinator, sample_session)"
proof -
  have "next_nonce sample_client 4 \<noteq> 1" "make_nonce 1 1 \<noteq> 1" by code_simp+
  then show ?thesis
    by (simp add: connected_def in_step_def hears_def sample_client_def sample_session_def sample_coordinator_def
        small_coordinator_def small_config_def coordinator_impl_def new_client_def new_session_def make_window_def
        no_session_info_def boot_valid_def)
qed

lemma sample_paired: "paired sample_client (sample_coordinator, sample_session)"
  by (simp add: paired_def sample_client_def sample_session_def sample_coordinator_def new_client_def new_session_def
      no_session_info_def no_handle_def)

lemma sample_explained:
  "explanation_good (td_explanation busy_decision)" "217 + explanation_size (td_explanation busy_decision) \<le> 1024"
  by code_simp+

lemma block_within:
  assumes "emitting_some f" and "room f n" and "n \<le> limit"
  shows "\<exists>b. encode_block limit f = Inr b \<and> length b \<le> limit"
proof -
  have "encode_block limit f = Inr (bw_buffer (f (make_writer limit)))"
    using room_fits [OF assms(2,3)] by (simp add: encode_block_def)
  with encode_block_length [OF this assms(1)] show ?thesis by blast
qed

lemma requests_emit: "emitting_some (put_token t)" "emitting_some (put_intent i)"
  unfolding emitting_some_def put_token_def put_intent_def by (rule exI, (rule emitting)+)+

lemma sample_blocks:
  "\<exists>b. encode_intent_block (sample_intent 1 600 700 5000) = Inr b \<and> length b \<le> 512"
  "\<exists>b. encode_token_block (sample_token 1 5 1) = Inr b \<and> length b \<le> 160"
  "carried encode_decision_block decode_decision_block busy_decision"
proof -
  have "text_ok (ti_purpose (sample_intent 1 600 700 5000))" by (simp add: sample_intent_def text_ok_def bound_defs)
  from block_within [OF requests_emit(2) room_requests(5) [OF this], of 512]
  show "\<exists>b. encode_intent_block (sample_intent 1 600 700 5000) = Inr b \<and> length b \<le> 512"
    by (simp add: encode_intent_block_def sample_intent_def)
  from block_within [OF requests_emit(1) room_token, of 160]
  show "\<exists>b. encode_token_block (sample_token 1 5 1) = Inr b \<and> length b \<le> 160" by (simp add: encode_token_block_def)
  show "carried encode_decision_block decode_decision_block busy_decision"
    using decisions.block_fits [OF room_explained(1) [OF sample_explained(1)] sample_explained(2,1)]
    by (auto simp: carried_def encode_decision_block_def decode_decision_block_def busy_decision_def default_decision_def)
qed

lemma sample_request_sent:
  obtains m fr c1 where "request_traffic_request sample_client sample_position (sample_intent 1 600 700 5000) = Inr m"
    and "send_request OC_RequestTraffic m sample_client = (Inr fr, c1)"
proof -
  have auth: "(sample_intent 1 600 700 5000)\<lparr>ti_authority := authority sample_client sample_position\<rparr> = sample_intent 1 600 700 5000"
    by (simp add: sample_authority sample_intent_def)
  obtain b where b: "encode_intent_block (sample_intent 1 600 700 5000) = Inr b" "length b \<le> 512"
    using sample_blocks(1) by blast
  obtain t where t: "encode_token_block (sample_token 1 5 1) = Inr t" "length t \<le> 160"
    using sample_blocks(2) by blast
  define m where "m = set_block kToken t (set_block kIntentRecord b blank_request)"
  have m: "request_traffic_request sample_client sample_position (sample_intent 1 600 700 5000) = Inr m"
    unfolding request_traffic_request_def auth by (simp add: b t with_block_def with_token_def sample_authority m_def)
  from b(2) t(2) obtain p where p: "encode_message (encode_request OC_RequestTraffic m) = Inr p"
    by (simp add: m_def encode_message_Inr Let_def bound_defs field_checks_Inr kMaxKnownTag_def message_image_def
      field_image_def one_byte_def request_builders request_tags message_fields)
  then have "length p \<le> kMaxPayloadBytes" by (simp add: encode_message_Inr)
  with p obtain fr c1 where "send_request OC_RequestTraffic m sample_client = (Inr fr, c1)"
    by (simp add: send_request_def next_sequence_def encode_frame_Inr)
  with m that show thesis by blast
qed

section \<open>Properties\<close>

text \<open>
  C37: what the fabric decides is what the client is told: when the frame of a traffic request
  arrives at the session of the client and the reply is written, the session sends one frame, and
  a client that receives it gets the decision of the fabric for its intent, or the error of the
  fabric; the reply is not taken for a replay, and the two sides stay in step. A decision has to
  be one that its block carries.
\<close>

theorem decision_reaches_client:
  assumes "connected c (co, s)" and "paired c (co, s)"
    and "intent_validate (intent\<lparr>ti_authority := authority c pos\<rparr>) = Inr ()"
    and "request_traffic_request c pos intent = Inr m" and "send_request OC_RequestTraffic m c = (Inr fr, c1)"
    and "arrives fr tn" and "tn_sent tn = Inr ()"
  shows "\<exists>fr' go_on st'. session_turn tn (co, s) = ([fr'], go_on, st') \<and> (\<forall>ex. receives fr' ex \<longrightarrow>
    (case client_RequestTraffic ex pos intent c of (told, c2) \<Rightarrow> hears c2 (snd st') \<and>
      (case fst (RequestTraffic (co_fabric co) (intent\<lparr>ti_authority := authority c pos\<rparr>)) of
         Inl e \<Rightarrow> e \<noteq> EC_Ok \<longrightarrow> told = Inl e
       | Inr d \<Rightarrow> carried encode_decision_block decode_decision_block d \<longrightarrow> told = Inr d)))"
proof -
  let ?call = "Call_RequestTraffic pos intent"
  let ?d = "fst (RequestTraffic (co_fabric co) (intent\<lparr>ti_authority := authority c pos\<rparr>))"
  have m: "call_request c ?call = Inr m" and sent: "send_request (call_code ?call) m c = (Inr fr, c1)"
    and tag: "kDecision \<notin> {kOperation, kErrorCode}" using assms(4,5) by (simp_all add: answer_tags)
  have "yields (serve (tn_commit tn) (call_code ?call) (encode_request (call_code ?call) m))
      (co\<lparr>co_stats := k\<rparr>, s\<lparr>sn_window := w, sn_requests := sn_requests s + 1\<rparr>)
      (rbind ?d (\<lambda>d. rbind (encoded (encode_decision_block d)) (\<lambda>b.
      Inr (set_block kDecision b (set_error (td_reason d) [] (make_response OC_RequestTraffic))))))" for k w
    using request_traffic_yields [of c "co\<lparr>co_stats := k\<rparr>" "s\<lparr>sn_window := w, sn_requests := sn_requests s + 1\<rparr>" pos intent m]
      assms(2-4) by (simp add: serve_def paired_def)
  from call_told [OF assms(1) m sent assms(6,7) tag this] obtain fr' go_on st' where
    t: "session_turn tn (co, s) = ([fr'], go_on, st')"
    and told: "\<And>ex. receives fr' ex \<Longrightarrow> \<exists>answer c2. transact ex OC_RequestTraffic m c = (Inr answer, c2) \<and> hears c2 (snd st') \<and>
      (\<forall>e. ?d = Inl e \<longrightarrow> isl (get_block answer kDecision) \<and> get_error answer = e) \<and>
      (\<forall>v b. ?d = Inr v \<longrightarrow> encode_decision_block v = Inr b \<longrightarrow> get_block answer kDecision = Inr b \<and>
        get_error answer = get_error (set_block kDecision b (set_error (td_reason v) [] (make_response OC_RequestTraffic))))"
    unfolding call_code.simps by blast
  have "case client_RequestTraffic ex pos intent c of (told, c2) \<Rightarrow> hears c2 (snd st') \<and>
      (case ?d of Inl e \<Rightarrow> e \<noteq> EC_Ok \<longrightarrow> told = Inl e
       | Inr d \<Rightarrow> carried encode_decision_block decode_decision_block d \<longrightarrow> told = Inr d)" if r: "receives fr' ex" for ex
  proof -
    from told [OF r] obtain answer c2 where a: "transact ex OC_RequestTraffic m c = (Inr answer, c2)" "hears c2 (snd st')"
      "\<And>e. ?d = Inl e \<Longrightarrow> isl (get_block answer kDecision) \<and> get_error answer = e"
      "\<And>v b. ?d = Inr v \<Longrightarrow> encode_decision_block v = Inr b \<Longrightarrow> get_block answer kDecision = Inr b"
      by fastforce
    then have "client_RequestTraffic ex pos intent c = (outcome_block kDecision decode_decision_block EC_MissingField answer, c2)"
      by (simp add: client_RequestTraffic_def and_then_def exchange_def assms(4) hand_def)
    then show ?thesis
    proof (cases ?d)
      case (Inl e)
      with \<open>client_RequestTraffic ex pos intent c = _\<close> a(2) a(3) [OF Inl] show ?thesis
        by (auto simp: outcome_block_def check_response_def check_def isl_def)
    next
      case (Inr d)
      with \<open>client_RequestTraffic ex pos intent c = _\<close> a(2) a(4) [OF Inr] show ?thesis
        by (auto simp: outcome_block_def carried_def)
    qed
  qed
  with t show ?thesis by blast
qed

lemma decision_reaches_client_witness:
  "\<exists>fr tn fr' go_on st'. arrives fr tn \<and> session_turn tn (sample_coordinator, sample_session) = ([fr'], go_on, st') \<and>
     fst (client_RequestTraffic \<lparr>ex_sent = Inr (), ex_header = Inr (take 44 fr'), ex_tail = (\<lambda>n. Inr (take n (drop 44 fr')))\<rparr>
       sample_position (sample_intent 1 600 700 5000) sample_client) = Inr busy_decision"
proof -
  obtain m fr c1 where sent: "request_traffic_request sample_client sample_position (sample_intent 1 600 700 5000) = Inr m"
    "send_request OC_RequestTraffic m sample_client = (Inr fr, c1)" by (rule sample_request_sent)
  have auth: "(sample_intent 1 600 700 5000)\<lparr>ti_authority := authority sample_client sample_position\<rparr> = sample_intent 1 600 700 5000"
    by (simp add: sample_authority sample_intent_def)
  have arr: "arrives fr (small_turn_of fr)" "tn_sent (small_turn_of fr) = Inr ()"
    by (simp_all add: arrives_def small_turn_of_def)
  have valid: "intent_validate ((sample_intent 1 600 700 5000)\<lparr>ti_authority := authority sample_client sample_position\<rparr>) = Inr ()"
    unfolding auth by code_simp
  from decision_reaches_client [OF sample_connected sample_paired valid sent arr] obtain fr' go_on st' where
    t: "session_turn (small_turn_of fr) (sample_coordinator, sample_session) = ([fr'], go_on, st')"
    and told: "\<And>ex. receives fr' ex \<Longrightarrow>
      case client_RequestTraffic ex sample_position (sample_intent 1 600 700 5000) sample_client of (told, c2) \<Rightarrow>
        (case fst (RequestTraffic opened (sample_intent 1 600 700 5000)) of Inl e \<Rightarrow> e \<noteq> EC_Ok \<longrightarrow> told = Inl e
         | Inr d \<Rightarrow> carried encode_decision_block decode_decision_block d \<longrightarrow> told = Inr d)"
    unfolding auth by (fastforce simp: sample_coordinator_def)
  have "carried encode_decision_block decode_decision_block busy_decision"
    by (rule sample_blocks(3))
  with told [of "\<lparr>ex_sent = Inr (), ex_header = Inr (take 44 fr'), ex_tail = (\<lambda>n. Inr (take n (drop 44 fr')))\<rparr>"] busy_answer t arr(1)
  show ?thesis by (fastforce simp: receives_def)
qed

end
