(* ===== verification/Tools.thy ===== *)
theory Tools
  imports Sessions
begin

text \<open>
  The programs that drive a fabric in their own process: \<^verbatim>\<open>args.hpp\<close>, the simulation and the self
  test of \<^verbatim>\<open>ctl_main.cpp\<close>, and the demonstration \<^verbatim>\<open>fabric_demo.cpp\<close>. What is printed is what a
  program returns: the decisions and the report it shows.
\<close>

section \<open>Arguments\<close>

type_synonym args = "bytes list"

definition arg_has :: "args \<Rightarrow> bytes \<Rightarrow> bool" where
  "arg_has tokens key \<longleftrightarrow> key \<in> set tokens"

text \<open>The token after the first occurrence of the key; a key at the end has the empty value.\<close>

fun arg_value :: "args \<Rightarrow> bytes \<Rightarrow> bytes option" where
  "arg_value (token # following # rest) key =
     (if token = key then Some following else arg_value (following # rest) key)"
| "arg_value [token] key = (if token = key then Some [] else None)"
| "arg_value [] key = None"

definition arg_text :: "args \<Rightarrow> bytes \<Rightarrow> bytes \<Rightarrow> bytes" where
  "arg_text tokens key fallback = (case arg_value tokens key of
     None \<Rightarrow> fallback | Some found \<Rightarrow> if found \<noteq> [] then found else fallback)"

primrec read_digits :: "bytes \<Rightarrow> u64 \<Rightarrow> u64 option" where
  "read_digits [] result = Some result"
| "read_digits (digit # digits) result =
     (if digit < 48 \<or> digit > 57 then None else read_digits digits (result * 10 + ucast (digit - 48)))"

definition arg_number :: "args \<Rightarrow> bytes \<Rightarrow> u64 \<Rightarrow> u64" where
  "arg_number tokens key fallback = (case arg_value tokens key of
     None \<Rightarrow> fallback
   | Some found \<Rightarrow>
       if found = [] then fallback
       else (case read_digits found 0 of None \<Rightarrow> fallback | Some result \<Rightarrow> result))"

definition arg_positional :: "args \<Rightarrow> nat \<Rightarrow> bytes \<Rightarrow> bytes" where
  "arg_positional tokens index fallback =
     (let plain = filter (\<lambda>token. \<not> (token \<noteq> [] \<and> hd token = 45)) tokens
      in if index < length plain then plain ! index else fallback)"

text \<open>The options of \<^verbatim>\<open>coordinator_main.cpp\<close> over the defaults.\<close>

definition coordinator_options :: "args \<Rightarrow> coordinator_config" where
  "coordinator_options tokens =
     (let state = (case arg_value tokens (ascii ''--state'') of None \<Rightarrow> [] | Some directory \<Rightarrow> directory)
      in \<lparr>cc_max_sessions = ucast (arg_number tokens (ascii ''--max-sessions'') 64),
          cc_max_requests_per_session = 1000000, cc_enable_state_store = (state \<noteq> []), cc_state_directory = state,
          cc_allow_shutdown_operation = (\<not> arg_has tokens (ascii ''--no-shutdown-op'')),
          cc_allow_rebase_operation = True, cc_fabric = default_config\<rparr>)"

text \<open>A number that was printed is read again; longer digits wrap around without a complaint.\<close>

lemma read_digits_append: "read_digits (xs @ ys) n = (case read_digits xs n of None \<Rightarrow> None | Some m \<Rightarrow> read_digits ys m)"
  by (induction xs arbitrary: n) auto

lemma read_digit:
  assumes "d < 10"
  shows "read_digits [of_nat (48 + d)] n = Some (n * 10 + of_nat d)"
proof -
  have "d \<in> set [0 ..< 10]" using assms by simp
  then show ?thesis by (simp add: upt_rec) (elim disjE; simp)
qed

lemma read_digits_dec_nat: "read_digits (dec_nat n) 0 = Some (of_nat n)"
proof (induction n rule: less_induct)
  case (less n)
  have "(of_nat (n div 10) :: u64) * 10 + of_nat (n mod 10) = of_nat (n div 10 * 10 + n mod 10)"
    by (simp only: of_nat_add of_nat_mult of_nat_numeral)
  with less.IH [of "n div 10"] read_digit [of n 0] read_digit [of "n mod 10"] show ?case
    by (cases "n < 10") (simp_all add: dec_nat.simps [of n] read_digits_append del: read_digits.simps)
qed

lemma number_printed_and_read: "read_digits (dec v) 0 = Some v"
  by (simp add: dec_def read_digits_dec_nat)

text \<open>The same rendering by division of words, which is what an evaluation uses.\<close>

function dec_word :: "u64 \<Rightarrow> bytes" where
  "dec_word v = (if v < 10 then [ucast v + 48] else dec_word (v div 10) @ [ucast (v mod 10) + 48])"
  by pat_completeness auto
termination
  by (relation "measure unat") (auto simp: word_less_nat_alt unat_div intro!: div_less_dividend)

declare dec_word.simps [simp del]

lemma dec_word_nat: "dec_word v = dec_nat (unat v)"
proof (induction v rule: dec_word.induct)
  case (1 v)
  have digit: "ucast w + 48 = (of_nat (48 + unat w) :: u8)" for w :: u64
    by (simp add: add.commute)
  show ?case
    using 1 by (subst dec_word.simps, subst dec_nat.simps) (simp add: digit word_less_nat_alt unat_div unat_mod)
qed

lemma dec_code [code]: "dec v = dec_word v"
  by (simp add: dec_def dec_word_nat)

section \<open>Programs over a fabric\<close>

type_synonym 'a program = "fabric_state \<Rightarrow> 'a outcome"

definition then_run :: "'a program \<Rightarrow> ('a \<Rightarrow> 'b program) \<Rightarrow> 'b program" where
  "then_run m k st = (case m st of (Inl e, st') \<Rightarrow> (Inl e, st') | (Inr x, st') \<Rightarrow> k x st')"

definition finish_with :: "'a \<Rightarrow> 'a program" where
  "finish_with x st = (Inr x, st)"

text \<open>A call whose result is not looked at.\<close>

definition ignoring :: "'a program \<Rightarrow> unit program" where
  "ignoring m st = (Inr (), snd (m st))"

definition viewing :: "(fabric_state \<Rightarrow> 'a result) \<Rightarrow> 'a program" where
  "viewing f st = (f st, st)"

definition fabric_call :: "(fabric_state \<Rightarrow> 'r \<Rightarrow> 'a outcome) \<Rightarrow> 'r \<Rightarrow> 'a program" where
  "fabric_call f r st = f st r"

section \<open>The simulation\<close>

record simulation =
  sm_handle :: job_handle
  sm_topology :: topology_generation

definition sim_data :: parallelism_group_id where "sim_data = 1"
definition sim_tensor :: parallelism_group_id where "sim_tensor = 2"

definition sim_token :: "simulation \<Rightarrow> training_step_id \<Rightarrow> phase_id \<Rightarrow> authority_token" where
  "sim_token s step phase = (let h = sm_handle s in empty_token\<lparr>at_job := jh_job h,
     at_job_generation := jh_generation h, at_incarnation := jh_incarnation h, at_boot := jh_boot h,
     at_epoch := jh_epoch h, at_contract_generation := jh_contract_generation h,
     at_topology_generation := jh_topology_generation h, at_policy_generation := jh_policy_generation h,
     at_step := step, at_phase := phase\<rparr>)"

definition synthetic_link :: "parallelism_group_id \<Rightarrow> u64 \<Rightarrow> u64 \<Rightarrow> link_capacity" where
  "synthetic_link grp capacity reserved = \<lparr>lc_group = grp, lc_capacity_bps = capacity, lc_reserved_bps = reserved,
     lc_label = EvSynthetic, lc_source = ascii ''SYNTHETIC:in-process model''\<rparr>"

definition sim_registration :: "bool \<Rightarrow> job_registration" where
  "sim_registration allow_unknown_phase = \<lparr>jr_job = 0, jr_name = ascii ''simulated-training-job'',
     jr_boot = mint_boot 0x5EED, jr_contract = default_contract\<lparr>wc_name := ascii ''simulated-training-job'',
       wc_allow_unknown_phase := allow_unknown_phase, wc_history_steps := 4\<rparr>, jr_incarnation = 0, jr_epoch = 0\<rparr>"

definition prepare_simulation :: "bool \<Rightarrow> simulation program" where
  "prepare_simulation allow_unknown_phase =
     then_run (fabric_call RegisterJob (sim_registration allow_unknown_phase)) (\<lambda>handle.
     (let s = \<lparr>sm_handle = handle, sm_topology = 0\<rparr>; token = sim_token s 0 0
      in then_run (fabric_call RegisterGroup \<lparr>gr_authority = token, gr_group = \<lparr>pg_id = sim_data, pg_job = jh_job handle,
           pg_kind = PK_Data, pg_member_count = 8, pg_name = ascii ''dp8''\<rparr>\<rparr>) (\<lambda>_.
         then_run (fabric_call RegisterGroup \<lparr>gr_authority = token, gr_group = \<lparr>pg_id = sim_tensor, pg_job = jh_job handle,
           pg_kind = PK_Tensor, pg_member_count = 4, pg_name = ascii ''tp4''\<rparr>\<rparr>) (\<lambda>_.
         then_run (\<lambda>st. PublishTopologyEvidence st token \<lparr>te_generation = 0, te_job = jh_job handle,
           te_label = EvSynthetic, te_links = [synthetic_link sim_data 100000000000 5000000000,
             synthetic_link sim_tensor 400000000000 0]\<rparr>) (\<lambda>topology.
         finish_with \<lparr>sm_handle = handle\<lparr>jh_topology_generation := topology\<rparr>, sm_topology = topology\<rparr>)))))"

definition plain_spec :: "phase_class \<Rightarrow> parallelism_group_id \<Rightarrow> sync_criticality \<Rightarrow> bytes \<Rightarrow> phase_spec" where
  "plain_spec cls grp criticality hint = \<lparr>ps_cls = cls, ps_group = grp, ps_criticality = criticality,
     ps_deadline = \<lparr>sd_deadline_at = 0, sd_slack_ticks = 0\<rparr>, ps_hint = hint\<rparr>"

definition plain_intent ::
  "authority_token \<Rightarrow> parallelism_group_id \<Rightarrow> phase_class \<Rightarrow> bytes \<Rightarrow> u64 \<Rightarrow> u64 \<Rightarrow> u64 \<Rightarrow> u32 \<Rightarrow> traffic_intent" where
  "plain_intent token grp cls purpose lo hi n participants = \<lparr>ti_authority = token, ti_group = grp,
     ti_declared_phase_class = cls, ti_purpose = purpose, ti_min_bps = lo, ti_max_bps = hi,
     ti_bytes_estimate = n, ti_participants = participants, ti_barrier_participant = False,
     ti_preemptible = True, ti_allow_defer = True\<rparr>"

definition complete_decision :: "traffic_decision \<Rightarrow> flow_receipt program" where
  "complete_decision d = fabric_call CompleteFlow \<lparr>fc_authority = td_authority d, fc_intent = td_intent d,
     fc_bytes_transferred = td_bytes_estimate d, fc_cancelled = False\<rparr>"

definition complete_admitted :: "traffic_decision \<Rightarrow> unit program" where
  "complete_admitted d = (if admitted d then then_run (complete_decision d) (\<lambda>_. finish_with ())
     else finish_with ())"

text \<open>Groups of requests that come again and again with the token of the simulation.\<close>

definition sim_open_step :: "simulation \<Rightarrow> u64 \<Rightarrow> step_report program" where
  "sim_open_step s slack = fabric_call BeginStep \<lparr>so_authority = sim_token s 0 0, so_step = 1, so_deadline_at = 0,
     so_slack_ticks = slack\<rparr>"

definition sim_open_phase :: "simulation \<Rightarrow> phase_spec \<Rightarrow> phase_record program" where
  "sim_open_phase s spec = fabric_call BeginPhase \<lparr>po_authority = sim_token s 1 0, po_spec = spec\<rparr>"

definition sim_gradient_spec :: phase_spec where
  "sim_gradient_spec = plain_spec PC_GradientSync sim_data SyncHard (ascii ''GRADIENT_SYNC'')"

definition sim_gradient_intent :: "simulation \<Rightarrow> phase_id \<Rightarrow> bytes \<Rightarrow> traffic_intent" where
  "sim_gradient_intent s phase purpose =
     plain_intent (sim_token s 1 phase) sim_data PC_GradientSync purpose 20000000000 60000000000 268435456 8"

definition sim_mystery_intent :: "simulation \<Rightarrow> phase_id \<Rightarrow> phase_class \<Rightarrow> bytes \<Rightarrow> traffic_intent" where
  "sim_mystery_intent s phase cls purpose =
     plain_intent (sim_token s 1 phase) sim_tensor cls purpose 1000000000 40000000000 8388608 8"

text \<open>Up to the decisions on traffic of a barrier phase and of a phase without a canonical label.\<close>

definition simulate_labels :: "simulation \<Rightarrow> (phase_id \<times> traffic_decision list) program" where
  "simulate_labels s =
     then_run (sim_open_step s 16) (\<lambda>_.
     then_run (sim_open_phase s sim_gradient_spec) (\<lambda>gradient.
     then_run (sim_open_phase s (plain_spec PC_Unknown sim_tensor SyncUnknown (ascii ''tp_allreduce_v3''))) (\<lambda>mystery.
     then_run (fabric_call RequestTraffic (sim_gradient_intent s (pr_id gradient) (ascii ''gradient all-reduce''))) (\<lambda>d1.
     then_run (fabric_call RequestTraffic (sim_mystery_intent s (pr_id mystery) PC_Unknown
       (ascii ''traffic the framework did not label canonically''))) (\<lambda>d2.
     then_run (fabric_call RequestTraffic (sim_mystery_intent s (pr_id mystery) PC_GradientSync
       (ascii ''caller tries to promote unlabelled traffic''))) (\<lambda>d3.
     then_run (complete_decision d1) (\<lambda>_.
     then_run (complete_admitted d2) (\<lambda>_.
     finish_with (pr_id gradient, [d1, d2, d3])))))))))"

text \<open>A burst isolates the group: what is asked for while it holds.\<close>

definition simulate_burst :: "simulation \<Rightarrow> traffic_decision list program" where
  "simulate_burst s =
     then_run (sim_open_phase s sim_gradient_spec) (\<lambda>late.
     then_run (sim_open_phase s (plain_spec PC_Checkpoint sim_data SyncSoft (ascii ''CHECKPOINT''))) (\<lambda>checkpoint.
     then_run (fabric_call BeginCheckpointBurst \<lparr>cb_authority = sim_token s 1 (pr_id checkpoint), cb_group = sim_data,
       cb_expected_bytes = 536870912, cb_deadline_at = 0, cb_reason = ascii ''optimizer state write''\<rparr>) (\<lambda>burst.
     then_run (fabric_call RequestTraffic (sim_gradient_intent s (pr_id late)
       (ascii ''second gradient reduce while the burst holds the group''))) (\<lambda>d4.
     then_run (fabric_call RequestTraffic ((sim_gradient_intent s (pr_id checkpoint) (ascii ''checkpoint shard write''))
       \<lparr>ti_declared_phase_class := PC_Checkpoint, ti_min_bps := 10000000000, ti_max_bps := 50000000000\<rparr>)) (\<lambda>d5.
     then_run (complete_admitted d5) (\<lambda>_.
     then_run (\<lambda>st. EndCheckpointBurst st (sim_token s 1 (pr_id checkpoint)) burst) (\<lambda>_.
     finish_with [d4, d5])))))))"

definition simulate_step :: "simulation \<Rightarrow> (traffic_decision list \<times> step_report) program" where
  "simulate_step s =
     then_run (simulate_labels s) (\<lambda>(gradient, ds1).
     then_run (simulate_burst s) (\<lambda>ds2.
     then_run (\<lambda>st. EndStep st (sim_token s 1 0) StepCompleted) (\<lambda>_.
     then_run (fabric_call RequestTraffic (sim_gradient_intent s gradient (ascii ''straggler traffic from the closed step''))) (\<lambda>d6.
     then_run (viewing (\<lambda>st. lookup_step_report st (jh_job (sm_handle s)) 1)) (\<lambda>report.
     finish_with (ds1 @ ds2 @ [d6], report))))))"

text \<open>All scenarios it accepts run the same step.\<close>

definition command_simulate :: "args \<Rightarrow> (traffic_decision list \<times> step_report \<times> fabric_stats) result" where
  "command_simulate tokens =
     (let scenario = arg_text tokens (ascii ''--scenario'') (ascii ''step'')
      in if scenario \<notin> set [ascii ''step'', ascii ''checkpoint'', ascii ''stale'', ascii ''unknown'']
         then Inl EC_InvalidArgument
         else fst (then_run (prepare_simulation True) (\<lambda>s.
           then_run (simulate_step s) (\<lambda>(ds, report).
           viewing (\<lambda>st. Inr (ds, report, fb_stats st)))) (make_fabric default_config)))"

section \<open>The self test\<close>

text \<open>The conditions it expects, in order.\<close>

definition selftest_labels :: "bool list" where
  "selftest_labels = (let policy = make_default_policy 1 in
     [\<not> snd (parse_phase_class (ascii ''fwd_comm'')),
      fst (parse_phase_class (ascii ''GRADIENT_SYNC'')) = PC_GradientSync,
      fst (parse_phase_class (ascii ''gradient_sync'')) = PC_GradientSync,
      class_for_phase policy PC_Unknown = SC_BestEffort])"

definition selftest_run :: "bool list program" where
  "selftest_run =
     then_run (prepare_simulation False) (\<lambda>s.
     then_run (sim_open_step s 0) (\<lambda>_.
     then_run (sim_open_phase s (plain_spec PC_Unknown sim_data SyncUnknown (ascii ''mystery''))) (\<lambda>mystery.
     then_run (fabric_call RequestTraffic (plain_intent (sim_token s 1 (pr_id mystery)) sim_data PC_Unknown
       (ascii ''unknown phase traffic'') 1000 1000000000 4096 1)) (\<lambda>d.
     then_run (\<lambda>st. EndStep st (sim_token s 1 0) StepCancelled) (\<lambda>_.
     then_run (viewing (\<lambda>st. lookup_step_report st (jh_job (sm_handle s)) 1)) (\<lambda>report.
     finish_with [td_outcome d = Reject \<and> td_reason d = EC_ConservativeUnknownPhase, report_balanced report]))))))"

definition command_selftest :: "bool list result" where
  "command_selftest =
     (let policy = (make_default_policy 1)\<lparr>pd_phase_class_map :=
        (pd_phase_class_map (make_default_policy 1))[phase_class_raw PC_Unknown := SC_GradientSync]\<rparr>;
          labels = selftest_labels @ [policy_validate policy \<noteq> Inr ()]
      in rbind (fst (selftest_run (make_fabric default_config))) (\<lambda>run.
         if list_all id (labels @ run) then Inr (labels @ run) else Inl EC_Internal))"

section \<open>The demonstration\<close>

definition kGbps :: u64 where "kGbps = 1000000000"

text \<open>The token of the demonstration names no epoch; its links are 200 and 10 Gbps.\<close>

definition demo_setup :: "simulation program" where
  "demo_setup =
     then_run (fabric_call RegisterJob \<lparr>jr_job = 0, jr_name = ascii ''example-training-job'', jr_boot = mint_boot 0xE7A3,
       jr_contract = default_contract\<lparr>wc_name := ascii ''example-training-job'', wc_allow_unknown_phase := True,
         wc_history_steps := 4\<rparr>, jr_incarnation = 0, jr_epoch = 0\<rparr>) (\<lambda>handle.
     (let base = \<lparr>sm_handle = handle\<lparr>jh_topology_generation := 0, jh_epoch := 0\<rparr>, sm_topology = 0\<rparr>; token = sim_token base 0 0;
          link = \<lambda>grp. \<lparr>lc_group = grp, lc_capacity_bps = 200 * kGbps, lc_reserved_bps = 10 * kGbps,
            lc_label = EvSynthetic, lc_source = ascii ''SYNTHETIC:example-host-model''\<rparr>
      in then_run (fabric_call RegisterGroup \<lparr>gr_authority = token, gr_group = \<lparr>pg_id = 1, pg_job = jh_job handle,
           pg_kind = PK_Data, pg_member_count = 8, pg_name = ascii ''dp8''\<rparr>\<rparr>) (\<lambda>_.
         then_run (\<lambda>st. PublishTopologyEvidence st token \<lparr>te_generation = 0, te_job = jh_job handle,
           te_label = EvSynthetic, te_links = [link 1, link 2]\<rparr>) (\<lambda>topology.
         finish_with \<lparr>sm_handle = handle\<lparr>jh_topology_generation := topology, jh_epoch := 0\<rparr>, sm_topology = topology\<rparr>))))"

definition demo_step ::
  "simulation \<Rightarrow> (traffic_decision \<times> revalidation_result \<times> traffic_decision \<times> pacing_decision \<times> step_report) program" where
  "demo_step s =
     then_run (ignoring (sim_open_step s 32)) (\<lambda>_.
     then_run (sim_open_phase s (sim_gradient_spec\<lparr>ps_deadline := \<lparr>sd_deadline_at = 0, sd_slack_ticks = 16\<rparr>\<rparr>)) (\<lambda>gradient.
     then_run (sim_open_phase s (plain_spec PC_Checkpoint 1 SyncSoft (ascii ''CHECKPOINT''))) (\<lambda>checkpoint.
     (let at_gradient = sim_token s 1 (pr_id gradient); at_checkpoint = sim_token s 1 (pr_id checkpoint);
          intent = plain_intent at_gradient 1 PC_GradientSync (ascii ''gradient all-reduce'') (40 * kGbps) (80 * kGbps) 268435456 8
      in then_run (fabric_call RequestTraffic intent) (\<lambda>d1.
         then_run (fabric_call BeginCheckpointBurst \<lparr>cb_authority = at_checkpoint, cb_group = 1,
           cb_expected_bytes = 536870912, cb_deadline_at = 0, cb_reason = ascii ''optimizer state write''\<rparr>) (\<lambda>burst.
         then_run (\<lambda>st. RevalidateFlow st at_gradient (td_intent d1)) (\<lambda>displaced.
         then_run (fabric_call RequestTraffic (intent\<lparr>ti_authority := at_checkpoint, ti_declared_phase_class := PC_Checkpoint,
           ti_purpose := ascii ''checkpoint shard write'', ti_min_bps := 20 * kGbps, ti_max_bps := 60 * kGbps\<rparr>)) (\<lambda>d2.
         then_run (if admitted d2 then ignoring (complete_decision d2) else finish_with ()) (\<lambda>_.
         then_run (ignoring (\<lambda>st. EndCheckpointBurst st at_checkpoint burst)) (\<lambda>_.
         then_run (fabric_call EvaluatePacing \<lparr>pi_authority = at_gradient, pi_group = 1, pi_expected_participants = 8,
           pi_arrived_participants = 6, pi_grace_ticks = 8, pi_max_hold_ticks = 8, pi_release_on_deadline = True\<rparr>) (\<lambda>pacing.
         then_run (\<lambda>st. EndStep st (sim_token s 1 0) StepCompleted) (\<lambda>report.
         finish_with (d1, displaced, d2, pacing, report)))))))))))))"

definition demo_main ::
  "(traffic_decision \<times> revalidation_result \<times> traffic_decision \<times> pacing_decision \<times> step_report) result" where
  "demo_main = fst (then_run demo_setup demo_step (make_fabric default_config))"

section \<open>What the programs do to a fabric\<close>

text \<open>A program spends at most so many calls, so what it leaves is the end of a run.\<close>

named_theorems spending \<open>rules that count the calls of a program\<close>

definition spends :: "nat \<Rightarrow> 'a program \<Rightarrow> bool" where
  "spends n m \<longleftrightarrow> (\<forall>st. \<exists>xs. length xs \<le> n \<and> list_all well_typed xs \<and> snd (m st) = execute st xs)"

lemma spends_then [spending]:
  assumes "spends a m" and "\<And>x. spends b (k x)"
  shows "spends (a + b) (then_run m k)"
  unfolding spends_def
proof
  fix st
  obtain r st1 where m: "m st = (r, st1)" by fastforce
  with assms(1) obtain xs where xs: "length xs \<le> a" "list_all well_typed xs" "st1 = execute st xs"
    unfolding spends_def by (metis snd_conv)
  show "\<exists>xs. length xs \<le> a + b \<and> list_all well_typed xs \<and> snd (then_run m k st) = execute st xs"
  proof (cases r)
    case (Inl e)
    with m xs show ?thesis by (auto simp: then_run_def intro!: exI [of _ xs])
  next
    case (Inr x)
    with assms(2) obtain ys where "length ys \<le> b" "list_all well_typed ys" "snd (k x st1) = execute st1 ys"
      unfolding spends_def by blast
    with m xs Inr show ?thesis
      by (auto simp: then_run_def execute_def list_all_iff intro!: exI [of _ "xs @ ys"])
  qed
qed

lemma spends_call:
  assumes "\<And>st. snd (f st) = apply_operation st x" and "well_typed x"
  shows "spends 1 f"
  unfolding spends_def by (intro allI exI [of _ "[x]"]) (simp add: assms execute_def)

lemma spends_none [spending]: "spends 0 (finish_with x)" "spends 0 (viewing f)"
  unfolding spends_def by (simp_all add: finish_with_def viewing_def execute_def)

lemmas spends_calls [spending] = operation_calls [THEN spends_call]

lemma spends_more: "spends n m \<Longrightarrow> n \<le> k \<Longrightarrow> spends k m"
  unfolding spends_def by (meson order.trans)

lemma spends_fabric_call [spending]: "spends n (\<lambda>st. f st r) \<Longrightarrow> spends n (fabric_call f r)"
  by (simp add: spends_def fabric_call_def)

lemma spends_complete [spending]: "spends 1 (complete_decision d)" "spends 1 (complete_admitted d)"
proof -
  show c: "spends 1 (complete_decision d)" unfolding complete_decision_def by (intro spending) (simp add: well_typed_def)
  have "spends (1 + 0) (then_run (complete_decision d) (\<lambda>_. finish_with ()))" by (intro spending c)
  moreover have "spends 1 (finish_with ())" by (rule spends_more [OF spends_none(1)]) simp
  ultimately show "spends 1 (complete_admitted d)" by (simp add: complete_admitted_def)
qed

lemma spends_sim [spending]: "spends 1 (sim_open_step s slack)" "spends 1 (sim_open_phase s spec)"
  unfolding sim_open_step_def sim_open_phase_def by (intro spending; simp add: well_typed_def)+

lemma spends_simulation: "spends 17 (simulate_step s)"
proof -
  have labels: "spends (1 + (1 + (1 + (1 + (1 + (1 + (1 + (1 + 0)))))))) (simulate_labels s)"
    unfolding simulate_labels_def by (intro spending; simp add: well_typed_def)
  have burst: "spends (1 + (1 + (1 + (1 + (1 + (1 + (1 + 0))))))) (simulate_burst s)"
    unfolding simulate_burst_def by (intro spending; simp add: well_typed_def)
  have "spends (8 + (7 + (1 + (1 + (0 + 0))))) (simulate_step s)"
    unfolding simulate_step_def split_def
    by (intro spending spends_more [OF labels] spends_more [OF burst]; simp add: well_typed_def)
  then show ?thesis by (rule spends_more) simp
qed

lemma spends_prepared: "spends 4 (prepare_simulation allow)"
proof -
  have "spends (1 + (1 + (1 + (1 + 0)))) (prepare_simulation allow)"
    unfolding prepare_simulation_def Let_def by (intro spending; simp add: well_typed_def)
  then show ?thesis by (rule spends_more) simp
qed

text \<open>So the invariants of a run hold of what the simulation leaves, whatever was decided.\<close>

lemma simulation_is_run:
  "\<exists>n \<le> 21. run False default_config n (snd (then_run (prepare_simulation allow) simulate_step (make_fabric default_config)))"
proof -
  from spends_then [OF spends_prepared spends_simulation] obtain xs where "length xs \<le> 21" "list_all well_typed xs"
    "snd (then_run (prepare_simulation allow) simulate_step (make_fabric default_config)) = execute (make_fabric default_config) xs"
    unfolding spends_def by fastforce
  with run_execute [of False default_config xs] show ?thesis by (auto simp: admissible_well_typed)
qed

text \<open>The scenarios it accepts are one and the same.\<close>

lemma scenarios_agree:
  assumes "scenario \<in> set [ascii ''step'', ascii ''checkpoint'', ascii ''stale'', ascii ''unknown'']"
  shows "command_simulate [ascii ''--scenario'', scenario] = command_simulate []"
proof -
  have "scenario \<noteq> []" using assms by (auto simp: ascii_def)
  then show ?thesis using assms by (auto simp: command_simulate_def arg_text_def Let_def)
qed

text \<open>Every condition of the self test holds, those of a run of the fabric included.\<close>

lemma self_test_passes: "command_selftest = Inr (replicate 7 True)"
  by code_simp

end
