(* ===== verification/Inspect.thy ===== *)
theory Inspect
  imports Tools Restart
begin

text \<open>
  \<^verbatim>\<open>ttfctl snapshot\<close>: a state file is decoded, its snapshot restored and the jobs listed. The command
  finds in a committed file what the state held.
\<close>

record inspection =
  in_bytes :: nat
  in_epoch :: u64
  in_sequence :: u64
  in_payload_crc :: u32
  in_digest :: u64
  in_views :: "job_view list"

primrec look_up_jobs :: "fabric_state \<Rightarrow> training_job_id list \<Rightarrow> job_view list result" where
  "look_up_jobs st [] = Inr []"
| "look_up_jobs st (i # is) = rbind (lookup_job st i) (\<lambda>v. rbind (look_up_jobs st is) (\<lambda>vs. Inr (v # vs)))"

text \<open>\<open>size\<close> is what \<^verbatim>\<open>ftell\<close> answers for the file if it could be opened, \<open>content\<close> what \<^verbatim>\<open>fread\<close> gets of it.\<close>

definition command_snapshot :: "bytes \<Rightarrow> int option \<Rightarrow> bytes \<Rightarrow> inspection result" where
  "command_snapshot path file_size content =
     (if path = [] then Inl EC_InvalidArgument
      else case file_size of
        None \<Rightarrow> Inl EC_IoError
      | Some n \<Rightarrow>
          if n \<le> 0 then Inl EC_PartialState
          else if int (length content) \<noteq> n then Inl EC_PartialState
          else rbind (decode_file content (of_nat kMaxSnapshotBytes)) (\<lambda>stored.
            rbind (deserialize_state (sf_payload stored) default_config) (\<lambda>st.
            rbind (list_jobs st) (\<lambda>jobs.
            rbind (look_up_jobs st jobs) (\<lambda>views.
            Inr \<lparr>in_bytes = length content, in_epoch = sf_epoch stored, in_sequence = sf_sequence stored,
              in_payload_crc = crc32c (sf_payload stored), in_digest = state_digest st, in_views = views\<rparr>)))))"

lemma look_up_jobs_found:
  assumes "\<forall>i \<in> set is. \<exists>job. map_of (fb_jobs st) i = Some job"
  shows "look_up_jobs st is = Inr (map (\<lambda>i. view_of st (the (map_of (fb_jobs st) i))) is)"
  using assms by (induction "is") (auto simp: lookup_job_def with_job_def)

lemma std_sort_distinct:
  assumes "distinct (xs :: 'a::linorder list)"
  shows "std_sort (<) xs = sort xs"
proof (rule sorted_wrt_unique [OF strict_total_on_less [of "set xs"]])
  show "sorted_wrt (<) (std_sort (<) xs)" by (rule sorted_std_sort [OF strict_total_on_less assms])
  show "sorted_wrt (<) (sort xs)" using assms by (simp add: strict_sorted_iff)
qed simp_all

lemma restored_listed:
  assumes "restorable config st"
  shows "list_jobs (restored config st) = Inr (sort (keys (fb_jobs st)))"
proof -
  have wf: "wf_table (fb_jobs st)" and ids: "\<forall>(k, job) \<in> set (fb_jobs st). js_id job = k"
    using assms by (fastforce simp: restorable_def)+
  have "keys (fb_jobs (restored config st)) = sort (keys (fb_jobs st))"
    using written_jobs_sorted(1) [OF wf ids] by (simp add: restored_def fill_jobs_def keys_def comp_def)
  then show ?thesis using wf by (simp add: list_jobs_def std_sort_distinct wf_table_def sorted_sort_id)
qed

section \<open>Properties\<close>



end
