(* ===== verification/Commands.thy ===== *)
theory Commands
  imports Inspect Client
begin

text \<open>
  \<^verbatim>\<open>ctl_main.cpp\<close>: the commands of \<^verbatim>\<open>ttfctl\<close> that ask a coordinator, with the lines they print, and its
  \<^verbatim>\<open>main\<close>. The commands without a coordinator are in \<open>Tools\<close> and \<open>Inspect\<close>.
\<close>

section \<open>Lines\<close>

text \<open>What \<^verbatim>\<open>%s\<close> prints of a text: up to the first zero byte.\<close>

definition c_str :: "bytes \<Rightarrow> bytes" where
  "c_str text = takeWhile (\<lambda>b. b \<noteq> 0) text"

definition flag :: "bool \<Rightarrow> bytes" where
  "flag b = ascii (if b then ''true'' else ''false'')"

definition word_field :: "string \<Rightarrow> 'a::len word \<Rightarrow> bytes" where
  "word_field key v = ascii key @ [61] @ dec (ucast v)"

definition text_field :: "string \<Rightarrow> bytes \<Rightarrow> bytes" where
  "text_field key v = ascii key @ [61] @ v"

text \<open>Fields with a space between them and the end of the line.\<close>

fun join_fields :: "bytes list \<Rightarrow> bytes" where
  "join_fields [] = []"
| "join_fields [x] = x"
| "join_fields (x # y # zs) = x @ [32] @ join_fields (y # zs)"

definition line_of :: "bytes list \<Rightarrow> bytes" where
  "line_of xs = join_fields xs @ [10]"

primrec decision_outcome_name :: "decision_outcome \<Rightarrow> string" where
  "decision_outcome_name Admit = ''ADMIT''"
| "decision_outcome_name Defer = ''DEFER''"
| "decision_outcome_name Reject = ''REJECT''"
| "decision_outcome_name Revalidate = ''REVALIDATE''"
| "decision_outcome_name Throttle = ''THROTTLE''"

definition clause_line :: "explanation_clause \<Rightarrow> bytes" where
  "clause_line c = ascii ''    - '' @ ascii (explanation_name (clause_code c)) @
     (if clause_detail c \<noteq> [] then ascii '': '' @ clause_detail c else []) @ [10]"

definition explain_decision :: "traffic_decision \<Rightarrow> bytes" where
  "explain_decision d =
     ascii ''  '' @ line_of [text_field ''outcome'' (ascii (decision_outcome_name (td_outcome d))),
       text_field ''reason'' (ascii (error_name (td_reason d))),
       text_field ''class'' (ascii (service_class_name (td_service_class d))), word_field ''priority'' (td_effective_priority d)] @
     ascii ''  '' @ line_of [word_field ''grant_min_bps'' (td_granted_min_bps d), word_field ''grant_max_bps'' (td_granted_max_bps d),
       text_field ''isolated'' (flag (td_isolated d)), text_field ''invalidated'' (flag (td_invalidated d))] @
     ascii ''  '' @ line_of [text_field ''evidence'' (ascii (evidence_label_name (td_evidence d))),
       word_field ''policy_generation'' (td_policy_generation d), word_field ''topology_generation'' (td_topology_generation d)] @
     ascii ''  '' @ line_of [word_field ''intent'' (td_intent d), word_field ''step'' (at_step (td_authority d)),
       word_field ''phase'' (td_phase d), word_field ''group'' (td_group d)] @
     ascii ''  clauses:'' @ [10] @ concat (map clause_line (td_explanation d))"

definition status_lines :: "client_status \<Rightarrow> bytes" where
  "status_lines s =
     line_of [word_field ''epoch'' (ct_epoch s), text_field ''coordinator_boot'' (ascii (boot_to_hex (ct_coordinator_boot s))),
       word_field ''sessions_active'' (ct_sessions_active s), word_field ''refused'' (ct_sessions_refused s)] @
     line_of [word_field ''frames_in'' (ct_frames_in s), word_field ''frames_out'' (ct_frames_out s),
       word_field ''rejected'' (ct_frames_rejected s), word_field ''replays'' (ct_replay_rejections s)] @
     line_of [word_field ''state_sequence'' (ct_state_sequence s), word_field ''commits'' (ct_state_commits s),
       word_field ''jobs'' (ct_jobs s) @ (if ct_jobs_truncated s then ascii ''+'' else []),
       text_field ''degraded'' (flag (ct_degraded s)),
       text_field ''state'' (if ct_state_path s = [] then ascii ''none'' else c_str (ct_state_path s))] @
     concat (map (\<lambda>j. line_of [word_field ''job'' (js_sum_job j), word_field ''generation'' (js_sum_generation j),
       word_field ''incarnation'' (js_sum_incarnation j), word_field ''step'' (js_sum_current_step j),
       word_field ''active_flows'' (js_sum_active_flows j), word_field ''bytes_committed'' (js_sum_bytes_committed j),
       text_field ''step_active'' (flag (js_sum_step_active j))]) (ct_job_summaries s))"

definition phase_line :: "phase_summary \<Rightarrow> bytes" where
  "phase_line p = ascii ''open_phase '' @ line_of [word_field ''id'' (su_id p),
     text_field ''class'' (ascii (phase_class_name (su_cls p))), word_field ''group'' (su_group p),
     text_field ''criticality'' (ascii (sync_criticality_name (su_criticality p))), word_field ''admitted'' (su_admitted p),
     word_field ''deferred'' (su_deferred p), word_field ''rejected'' (su_rejected p)]"

definition fence_line :: "fence_event \<Rightarrow> bytes" where
  "fence_line f = ascii ''fence '' @ line_of [text_field ''reason'' (ascii (error_name (fe_reason f))), word_field ''at'' (fe_at f),
     word_field ''step'' (fe_step f), word_field ''observed_incarnation'' (fe_observed_incarnation f),
     word_field ''current_incarnation'' (fe_current_incarnation f)]"

definition job_lines :: "job_view \<Rightarrow> bytes" where
  "job_lines v = (let a = jv_accounting v in
     line_of [word_field ''job'' (jv_job v), text_field ''name'' (c_str (jv_name v)), word_field ''generation'' (jv_generation v),
       word_field ''incarnation'' (jv_incarnation v), text_field ''boot'' (ascii (boot_to_hex (jv_boot v))),
       word_field ''epoch'' (jv_epoch v)] @
     line_of [word_field ''topology_generation'' (jv_topology_generation v),
       text_field ''evidence'' (ascii (evidence_label_name (jv_topology_label v))),
       word_field ''policy_generation'' (jv_policy_generation v), word_field ''groups'' (jv_group_count v),
       word_field ''retired_incarnations'' (jv_retired_incarnations v)] @
     line_of [text_field ''step_active'' (flag (jv_step_active v)), word_field ''current_step'' (jv_current_step v),
       word_field ''last_closed_step'' (jv_last_closed_step v), word_field ''active_flows'' (jv_active_flows v),
       word_field ''active_min_bps'' (jv_active_min_bps v)] @
     ascii ''accounting '' @ line_of [word_field ''admitted'' (sa_admitted a), word_field ''deferred'' (sa_deferred a),
       word_field ''rejected'' (sa_rejected a), word_field ''completed'' (sa_completed a),
       word_field ''cancelled'' (sa_cancelled a), word_field ''fenced'' (sa_fenced a),
       word_field ''bytes_committed'' (sa_bytes_committed a), word_field ''bytes_completed'' (sa_bytes_completed a),
       text_field ''balanced'' (flag (balanced a))] @
     concat (map phase_line (jv_open_phases v)) @ concat (map fence_line (jv_recent_fences v)))"

text \<open>The capacity that is shown as free is computed from the two sums of the entry.\<close>

definition shown_available :: "group_utilization_entry \<Rightarrow> u64" where
  "shown_available g = (let committed = gu_utilized_bps g + gu_reserved_bps g
     in if gu_capacity_bps g > committed then gu_capacity_bps g - committed else 0)"

definition utilization_line :: "group_utilization_entry \<Rightarrow> bytes" where
  "utilization_line g = line_of [word_field ''group'' (gu_group g), text_field ''evidence'' (ascii (evidence_label_name (gu_label g))),
     word_field ''capacity_bps'' (gu_capacity_bps g), word_field ''reserved_bps'' (gu_reserved_bps g),
     word_field ''utilized_bps'' (gu_utilized_bps g), word_field ''active_flows'' (gu_active_flows g),
     word_field ''available_bps'' (shown_available g)]"

definition class_line :: "service_class_spec \<Rightarrow> bytes" where
  "class_line s = ascii ''class '' @ line_of [ascii (service_class_name (scs_cls s)), word_field ''priority'' (scs_priority s),
     word_field ''weight'' (scs_weight s), word_field ''floor_bps'' (scs_floor_bps s), word_field ''ceiling_bps'' (scs_ceiling_bps s),
     word_field ''isolation_ceiling_bps'' (scs_isolation_ceiling_bps s), text_field ''preemptible'' (flag (scs_preemptible s)),
     text_field ''barrier_critical'' (flag (scs_barrier_critical s)), text_field ''deferrable'' (flag (scs_deferrable s))]"

definition policy_lines :: "policy_document \<Rightarrow> bytes" where
  "policy_lines p =
     line_of [word_field ''policy_generation'' (pd_generation p),
       word_field ''unknown_phase_ceiling_bps'' (pd_unknown_phase_ceiling_bps p),
       word_field ''checkpoint_isolation_priority'' (pd_checkpoint_isolation_priority p),
       text_field ''strict_invalidation'' (flag (pd_strict_generation_invalidation p)),
       text_field ''preemption'' (flag (pd_allow_preemption p))] @
     concat (map2 (\<lambda>cls mapped. line_of [ascii ''phase_map'', ascii (phase_class_name cls), ascii ''->'',
       ascii (service_class_name mapped)]) phase_classes (pd_phase_class_map p)) @
     concat (map class_line (pd_classes p))"

section \<open>Commands\<close>

text \<open>
  What the outside answers to one command: the connection, the exchange of the greeting and the
  exchange of the one request, the seed of the boot identity and the file that is inspected.
\<close>

record outside =
  os_connected :: status
  os_seed :: u64
  os_hello :: exchange_answers
  os_exchange :: exchange_answers
  os_file_size :: "int option"
  os_file :: bytes

definition ctl_port :: "args \<Rightarrow> u16" where
  "ctl_port tokens = ucast (arg_number tokens (ascii ''--port'') 0)"

definition ctl_connect :: "outside \<Rightarrow> client result" where
  "ctl_connect os = Connect (os_connected os) (os_hello os) (os_seed os) (ascii ''ttfctl'')"

definition ask_once :: "outside \<Rightarrow> (exchange_answers \<Rightarrow> 'a call) \<Rightarrow> ('a \<Rightarrow> bytes) \<Rightarrow> bytes result" where
  "ask_once os f show = rbind (ctl_connect os) (\<lambda>c. rbind (fst (f (os_exchange os) c)) (\<lambda>x. Inr (show x)))"

definition command_status :: "outside \<Rightarrow> bytes result" where
  "command_status os = ask_once os client_FetchStatus status_lines"

definition command_job :: "args \<Rightarrow> outside \<Rightarrow> bytes result" where
  "command_job tokens os = ask_once os (\<lambda>ex. client_LookupJob ex (arg_number tokens (ascii ''--job'') 0)) job_lines"

definition command_explain :: "args \<Rightarrow> outside \<Rightarrow> bytes result" where
  "command_explain tokens os = ask_once os
     (\<lambda>ex. client_LookupDecision ex (arg_number tokens (ascii ''--job'') 0) (arg_number tokens (ascii ''--intent'') 0))
     (\<lambda>d. c_str (explain_decision d))"

definition command_utilization :: "args \<Rightarrow> outside \<Rightarrow> bytes result" where
  "command_utilization tokens os = ask_once os (\<lambda>ex. client_GroupUtilization ex (arg_number tokens (ascii ''--job'') 0))
     (\<lambda>groups. concat (map utilization_line groups))"

definition command_policy :: "outside \<Rightarrow> bytes result" where
  "command_policy os = ask_once os client_CurrentPolicy policy_lines"

definition command_shutdown :: "outside \<Rightarrow> bytes result" where
  "command_shutdown os = ask_once os client_Shutdown (\<lambda>_. ascii ''shutdown requested'' @ [10])"

section \<open>Main\<close>

definition forget :: "'a result \<Rightarrow> status" where
  "forget r = rbind r (\<lambda>_. Inr ())"

definition ctl_commands :: "args \<Rightarrow> outside \<Rightarrow> (bytes \<times> status) list" where
  "ctl_commands tokens os =
     [(ascii ''status'', forget (command_status os)), (ascii ''jobs'', forget (command_status os)),
      (ascii ''job'', forget (command_job tokens os)), (ascii ''explain'', forget (command_explain tokens os)),
      (ascii ''utilization'', forget (command_utilization tokens os)), (ascii ''policy'', forget (command_policy os)),
      (ascii ''shutdown'', forget (command_shutdown os)),
      (ascii ''snapshot'', forget (command_snapshot (arg_text tokens (ascii ''--file'') []) (os_file_size os) (os_file os))),
      (ascii ''simulate'', forget (command_simulate tokens)), (ascii ''selftest'', forget command_selftest)]"

text \<open>The exit code.\<close>

definition ctl_main :: "args \<Rightarrow> outside \<Rightarrow> nat" where
  "ctl_main tokens os =
     (if tokens = [] then 2
      else if arg_has tokens (ascii ''--help'') \<or> arg_has tokens (ascii ''-h'') then 0
      else case map_of (ctl_commands tokens os) (arg_positional tokens 0 []) of
        None \<Rightarrow> 2
      | Some outcome \<Rightarrow> if outcome = Inr () then 0 else 1)"

section \<open>The coordinator\<close>

definition ready_line :: "args \<Rightarrow> u16 \<Rightarrow> coordinator \<Rightarrow> bytes" where
  "ready_line tokens port co = ascii ''TTF-COORDINATOR ready '' @
     line_of [text_field ''address'' (c_str (arg_text tokens (ascii ''--bind'') (ascii ''127.0.0.1''))), word_field ''port'' port,
       word_field ''epoch'' (co_epoch co), text_field ''boot'' (ascii (boot_to_hex (co_boot co))),
       text_field ''state'' (if cc_enable_state_store (co_config co) then c_str (cc_state_directory (co_config co)) else ascii ''none'')]"

definition stopped_line :: "coordinator \<Rightarrow> bytes" where
  "stopped_line co = (let k = co_stats co in ascii ''TTF-COORDINATOR stopped '' @
     line_of [word_field ''sessions'' (ks_sessions_accepted k), word_field ''frames_in'' (ks_frames_in k),
       word_field ''frames_out'' (ks_frames_out k), word_field ''rejected'' (ks_frames_rejected k),
       word_field ''replays'' (ks_replay_rejections k), word_field ''commits'' (ks_state_commits k),
       text_field ''degraded'' (flag (co_degraded co))])"

text \<open>
  The exit code and what is printed, from the port of the listener, what starting gave, the state of the
  coordinator and of the signal at every look of the loop, and the answers to the last commit. The
  loop that sees neither a stop nor a signal has no end.
\<close>

definition coordinator_main ::
  "args \<Rightarrow> u16 \<Rightarrow> coordinator result \<Rightarrow> (coordinator \<times> bool) list \<Rightarrow> commit_answers \<Rightarrow> (nat \<times> bytes) option" where
  "coordinator_main tokens port started looks io =
     (if arg_has tokens (ascii ''--help'') \<or> arg_has tokens (ascii ''-h'') then Some (0, [])
      else case started of
        Inl _ \<Rightarrow> Some (2, [])
      | Inr co \<Rightarrow>
          let ready = (if arg_has tokens (ascii ''--quiet'') then [] else ready_line tokens port co)
          in (case find (\<lambda>(co1, signalled). co_stopping co1 \<or> signalled) looks of
                None \<Rightarrow> None
              | Some (co1, _) \<Rightarrow>
                  let co2 = stop_coordinator io co1
                  in Some (if co_degraded co2 then 3 else 0, ready @ stopped_line co2)))"

text \<open>A coordinator that was healthy exits with zero unless its last commit fails, and then with three.\<close>

lemma coordinator_exit_code:
  assumes "coordinator_main tokens port (Inr co) looks io = Some (code, out)" and "\<not> arg_has tokens (ascii ''--help'')"
    and "\<not> arg_has tokens (ascii ''-h'')" and "\<forall>(co1, signalled) \<in> set looks. \<not> co_degraded co1 \<and> \<not> co_stopped co1"
  shows "\<exists>co1. co1 \<in> fst ` set looks \<and> (code = 0 \<or> code = 3) \<and> (code = 3 \<longrightarrow> co_store co1 \<noteq> None \<and>
    co_degraded (snd (commit_state io (co1\<lparr>co_stopped := True, co_stopping := True, co_sessions := []\<rparr>))))"
proof -
  obtain co1 signalled where found: "find (\<lambda>(co1, signalled). co_stopping co1 \<or> signalled) looks = Some (co1, signalled)"
    and code: "code = (if co_degraded (stop_coordinator io co1) then 3 else 0)"
    using assms(1-3) by (auto simp: coordinator_main_def Let_def split: option.splits prod.splits)
  from found have in_looks: "(co1, signalled) \<in> set looks" by (auto simp: find_Some_iff in_set_conv_nth)
  then have co1: "co1 \<in> fst ` set looks" by force
  from in_looks assms(4) have healthy: "\<not> co_degraded co1" "\<not> co_stopped co1" by auto
  show ?thesis
    by (rule exI [of _ co1]) (use co1 healthy code in \<open>simp add: stop_coordinator_def Let_def split: if_splits\<close>)
qed

section \<open>What is shown\<close>

text \<open>
  Numbers are shown so that they can be read again: two numbers with the same text are the same.
\<close>

lemma dec_inject: "dec v = dec w \<longleftrightarrow> v = w"
  by (metis number_printed_and_read option.inject)

lemma word_field_inject:
  fixes v w :: "'a::len word"
  assumes "LENGTH('a) \<le> 64"
  shows "word_field key v = word_field key w \<longleftrightarrow> v = w"
proof -
  have "v = w" if "(ucast v :: u64) = ucast w"
  proof (rule bit_word_eqI)
    fix n assume "n < LENGTH('a)"
    moreover have "bit (ucast v :: u64) n = bit (ucast w :: u64) n" using that by simp
    ultimately show "bit v n = bit w n" using assms by (simp add: bit_simps)
  qed
  then show ?thesis by (auto simp: word_field_def dec_inject)
qed

text \<open>The headroom that is shown is what the arbitration has left on the link, if the link holds its flows.\<close>

lemma headroom_shown:
  assumes "gu_reserved_bps g \<le> gu_capacity_bps g" and "gu_utilized_bps g \<le> gu_capacity_bps g - gu_reserved_bps g"
  shows "shown_available g = gu_capacity_bps g - gu_reserved_bps g - gu_utilized_bps g"
proof -
  have "unat (gu_utilized_bps g) + unat (gu_reserved_bps g) \<le> unat (gu_capacity_bps g)"
    using assms by (simp add: word_le_nat_alt unat_sub)
  then have "gu_utilized_bps g + gu_reserved_bps g \<le> gu_capacity_bps g"
    using unat_max64 [of "gu_capacity_bps g"] by (simp add: word_le_nat_alt unat_plus_if')
  then show ?thesis by (auto simp: shown_available_def Let_def not_less dest: antisym)
qed

text \<open>An unknown command, and no command, is exit code 2; the self test succeeds.\<close>

lemma ctl_main_selftest: "ctl_main [ascii ''selftest''] os = 0"
  by (simp add: ctl_main_def ctl_commands_def arg_has_def arg_positional_def ascii_def self_test_passes forget_def rbind_def)

lemma ctl_main_unknown:
  assumes "tokens \<noteq> []" and "\<not> arg_has tokens (ascii ''--help'')" and "\<not> arg_has tokens (ascii ''-h'')"
  shows "ctl_main tokens os = 2 \<longleftrightarrow> arg_positional tokens 0 [] \<notin> fst ` set (ctl_commands tokens os)"
proof (cases "map_of (ctl_commands tokens os) (arg_positional tokens 0 [])")
  case None
  then have "ctl_main tokens os = 2" using assms by (simp add: ctl_main_def)
  with None show ?thesis by (simp add: map_of_eq_None_iff)
next
  case (Some outcome)
  then have "ctl_main tokens os \<noteq> 2" using assms by (simp add: ctl_main_def)
  moreover have "arg_positional tokens 0 [] \<in> fst ` set (ctl_commands tokens os)" using map_of_SomeD [OF Some] by force
  ultimately show ?thesis by simp
qed

end
