(* ===== verification/Checks.thy ===== *)
theory Checks
  imports Tools Client
begin

text \<open>
  Scenarios: programs that make calls, note what they expect of the answers and go on or give up.
  \<^verbatim>\<open>publisher_main.cpp\<close> runs them against a coordinator, \<^verbatim>\<open>consumer_main.cpp\<close> against a fabric of its own.
\<close>

section \<open>Scenarios\<close>

text \<open>A scenario has the checks so far and the state it drives; it may end with an error.\<close>

type_synonym check_list = "(string \<times> bool) list"
type_synonym ('s, 'a) scenario = "check_list \<times> 's \<Rightarrow> 'a result \<times> (check_list \<times> 's)"

definition next_do :: "('s, 'a) scenario \<Rightarrow> ('a \<Rightarrow> ('s, 'b) scenario) \<Rightarrow> ('s, 'b) scenario" where
  "next_do m k st = (case m st of (Inl e, st') \<Rightarrow> (Inl e, st') | (Inr x, st') \<Rightarrow> k x st')"

definition conclude :: "'a \<Rightarrow> ('s, 'a) scenario" where
  "conclude x st = (Inr x, st)"

text \<open>\<^verbatim>\<open>Checks::expect\<close>: the condition is noted and returned.\<close>

definition expect :: "string \<Rightarrow> bool \<Rightarrow> ('s, bool) scenario" where
  "expect name condition st = (Inr condition, fst st @ [(name, condition)], snd st)"

definition failures :: "check_list \<Rightarrow> nat" where
  "failures noted = length (filter (\<lambda>(name, ok). \<not> ok) noted)"

text \<open>A call whose result is looked at, a call that has to succeed, and a check that has to.\<close>

definition try_call :: "('s \<Rightarrow> 'a result \<times> 's) \<Rightarrow> ('s, 'a result) scenario" where
  "try_call f st = (case f (snd st) of (r, s) \<Rightarrow> (Inr r, fst st, s))"

definition must_call :: "('s \<Rightarrow> 'a result \<times> 's) \<Rightarrow> ('s, 'a) scenario" where
  "must_call f st = (case f (snd st) of (r, s) \<Rightarrow> (r, fst st, s))"

definition insist :: "string \<Rightarrow> bool \<Rightarrow> ('s, unit) scenario" where
  "insist name condition = next_do (expect name condition) (\<lambda>ok. \<lambda>st. (if ok then Inr () else Inl EC_Internal, st))"

definition gives :: "'a result \<Rightarrow> ('a \<Rightarrow> bool) \<Rightarrow> bool" where
  "gives r P \<longleftrightarrow> (case r of Inl _ \<Rightarrow> False | Inr x \<Rightarrow> P x)"

definition succeeded :: "'a result \<Rightarrow> bool" where
  "succeeded r = gives r (\<lambda>_. True)"

text \<open>The value of a result that has to be there.\<close>

definition demand_value :: "string \<Rightarrow> 'a result \<Rightarrow> ('s, 'a) scenario" where
  "demand_value name r = next_do (expect name (succeeded r)) (\<lambda>ok. \<lambda>st. (case r of Inl _ \<Rightarrow> Inl EC_Internal | Inr x \<Rightarrow> Inr x, st))"

definition when_gives :: "'a result \<Rightarrow> ('a \<Rightarrow> ('s, unit) scenario) \<Rightarrow> ('s, unit) scenario" where
  "when_gives r k = (case r of Inl _ \<Rightarrow> conclude () | Inr x \<Rightarrow> k x)"

definition check_that :: "string \<Rightarrow> bool \<Rightarrow> ('s, unit) scenario" where
  "check_that name condition = next_do (expect name condition) (\<lambda>_. conclude ())"

section \<open>The verdict\<close>

text \<open>What a scenario has noted stays noted; a scenario that fails has its error.\<close>

named_theorems noting \<open>rules that show that a scenario only adds checks\<close>

definition keeps_checks :: "('s, 'a) scenario \<Rightarrow> bool" where
  "keeps_checks m \<longleftrightarrow> (\<forall>noted s. \<exists>later. fst (snd (m (noted, s))) = noted @ later)"

lemma keeps_next [noting]:
  assumes "keeps_checks m" and "\<And>x. keeps_checks (k x)"
  shows "keeps_checks (next_do m k)"
  unfolding keeps_checks_def
proof (intro allI)
  fix noted s
  obtain r c1 s1 where m: "m (noted, s) = (r, c1, s1)" by (metis prod_cases3)
  with assms(1) obtain l1 where "c1 = noted @ l1" unfolding keeps_checks_def by (metis fst_conv snd_conv)
  moreover have "\<exists>l2. fst (snd (k x (c1, s1))) = c1 @ l2" for x using assms(2) by (simp add: keeps_checks_def)
  ultimately show "\<exists>later. fst (snd (next_do m k (noted, s))) = noted @ later"
    using m by (cases r) (fastforce simp: next_do_def)+
qed

lemma keeps_basic [noting]:
  "keeps_checks (conclude x)" "keeps_checks (expect name b)" "keeps_checks (try_call f)" "keeps_checks (must_call f)"
  by (simp_all add: keeps_checks_def conclude_def expect_def try_call_def must_call_def split: prod.split)

lemma keeps_check [noting]:
  "keeps_checks (check_that name b)" "keeps_checks (insist name b)" "keeps_checks (demand_value name q)"
proof -
  show "keeps_checks (check_that name b)" unfolding check_that_def by (intro noting)
  have "keeps_checks (\<lambda>st. (r, st))" for r :: "'x result" by (simp add: keeps_checks_def)
  then show "keeps_checks (insist name b)" "keeps_checks (demand_value name q)"
    unfolding insist_def demand_value_def by (intro noting; simp add: keeps_checks_def)+
qed

lemma keeps_when [noting]: "(\<And>x. keeps_checks (k x)) \<Longrightarrow> keeps_checks (when_gives r k)"
  by (simp add: when_gives_def keeps_basic split: sum.split)

lemma failures_append: "failures (xs @ ys) = failures xs + failures ys"
  by (simp add: failures_def)

lemma no_failures: "failures noted = 0 \<longleftrightarrow> list_all snd noted"
  by (induction noted) (auto simp: failures_def)

text \<open>A insist that goes on was met.\<close>

lemma demanded_value: "demand_value name r st = (Inr x, st') \<Longrightarrow> r = Inr x \<and> st' = (fst st @ [(name, True)], snd st)"
  by (auto simp: demand_value_def next_do_def expect_def succeeded_def gives_def split: sum.splits)

lemma insist_met: "insist name b st = (Inr (), st') \<Longrightarrow> b \<and> st' = (fst st @ [(name, True)], snd st)"
  by (auto simp: insist_def next_do_def expect_def split: if_splits)

section \<open>The consumer\<close>

definition token_of :: "job_handle \<Rightarrow> topology_generation \<Rightarrow> training_step_id \<Rightarrow> phase_id \<Rightarrow> authority_token" where
  "token_of handle topology step phase = empty_token\<lparr>at_job := jh_job handle, at_job_generation := jh_generation handle,
     at_incarnation := jh_incarnation handle, at_boot := jh_boot handle,
     at_contract_generation := jh_contract_generation handle, at_topology_generation := topology,
     at_policy_generation := jh_policy_generation handle, at_step := step, at_phase := phase\<rparr>"

definition consumer_registration :: job_registration where
  "consumer_registration = \<lparr>jr_job = 0, jr_name = ascii ''consumer-job'', jr_boot = mint_boot 0xC0FFEE,
     jr_contract = default_contract\<lparr>wc_name := ascii ''consumer-job'', wc_allow_unknown_phase := True\<rparr>,
     jr_incarnation = 0, jr_epoch = 0\<rparr>"

definition consumer_evidence :: "training_job_id \<Rightarrow> topology_evidence" where
  "consumer_evidence job = \<lparr>te_generation = 0, te_job = job, te_label = EvSynthetic, te_links =
     [\<lparr>lc_group = 1, lc_capacity_bps = 100 * kGbps, lc_reserved_bps = 0, lc_label = EvSynthetic,
       lc_source = ascii ''SYNTHETIC:consumer-host-model''\<rparr>]\<rparr>"

definition consumer_setup :: "(fabric_state, job_handle \<times> topology_generation) scenario" where
  "consumer_setup =
     next_do (try_call (\<lambda>st. RegisterJob st consumer_registration)) (\<lambda>registered.
     next_do (demand_value ''register a job'' registered) (\<lambda>handle.
     (let token = token_of handle 0 0 0
      in next_do (try_call (\<lambda>st. RegisterGroup st \<lparr>gr_authority = token, gr_group = \<lparr>pg_id = 1, pg_job = jh_job handle,
           pg_kind = PK_Data, pg_member_count = 8, pg_name = ascii ''dp8''\<rparr>\<rparr>)) (\<lambda>grouped.
         next_do (check_that ''register a parallelism group'' (succeeded grouped)) (\<lambda>_.
         next_do (try_call (\<lambda>st. PublishTopologyEvidence st token (consumer_evidence (jh_job handle)))) (\<lambda>published.
         next_do (demand_value ''publish SYNTHETIC capacity evidence'' published) (\<lambda>topology.
         conclude (handle, topology))))))))"

definition complete_noted :: "string \<Rightarrow> traffic_decision result \<Rightarrow> (fabric_state, unit) scenario" where
  "complete_noted name decision = when_gives decision (\<lambda>d.
     if admitted d then next_do (try_call (complete_decision d)) (\<lambda>receipt. check_that name (succeeded receipt)) else conclude ())"

definition open_step :: "job_handle \<Rightarrow> topology_generation \<Rightarrow> training_step_id \<Rightarrow> string \<Rightarrow> (fabric_state, unit) scenario" where
  "open_step handle topology step name =
     next_do (try_call (\<lambda>st. BeginStep st \<lparr>so_authority = token_of handle topology 0 0, so_step = step, so_deadline_at = 0,
       so_slack_ticks = 0\<rparr>)) (\<lambda>opened. check_that name (succeeded opened))"

text \<open>The first step, which ends with its traffic refused: what is returned is the intent of it.\<close>

definition consumer_first_step :: "job_handle \<Rightarrow> topology_generation \<Rightarrow> (fabric_state, traffic_intent) scenario" where
  "consumer_first_step handle topology =
     next_do (open_step handle topology 1 ''open step 1'') (\<lambda>_.
     next_do (try_call (\<lambda>st. BeginPhase st \<lparr>po_authority = token_of handle topology 1 0,
       po_spec = plain_spec PC_GradientSync 1 SyncHard (ascii ''GRADIENT_SYNC'')\<rparr>)) (\<lambda>begun.
     next_do (demand_value ''open a GRADIENT_SYNC phase'' begun) (\<lambda>phase.
     (let intent = plain_intent (token_of handle topology 1 (pr_id phase)) 1 PC_GradientSync (ascii ''gradient all-reduce'')
        (10 * kGbps) (20 * kGbps) 67108864 1
      in next_do (try_call (\<lambda>st. RequestTraffic st intent)) (\<lambda>decision.
         next_do (check_that ''admit gradient traffic'' (gives decision admitted)) (\<lambda>_.
         next_do (check_that ''the granted service class is GRADIENT_SYNC''
           (gives decision (\<lambda>d. td_service_class d = SC_GradientSync))) (\<lambda>_.
         next_do (complete_noted ''complete the flow'' decision) (\<lambda>_.
         next_do (try_call (\<lambda>st. EndStep st (token_of handle topology 1 0) StepCompleted)) (\<lambda>report.
         next_do (check_that ''close step 1 with balanced accounting'' (gives report report_balanced)) (\<lambda>_.
         next_do (try_call (\<lambda>st. RequestTraffic st intent)) (\<lambda>late.
         next_do (check_that ''traffic from the closed step is refused while no step is open''
           (gives late (\<lambda>d. td_reason d = EC_StepNotActive))) (\<lambda>_.
         conclude intent))))))))))))"

definition consumer_second_step :: "job_handle \<Rightarrow> topology_generation \<Rightarrow> traffic_intent \<Rightarrow> (fabric_state, unit) scenario" where
  "consumer_second_step handle topology intent =
     next_do (open_step handle topology 2 ''open step 2'') (\<lambda>_.
     next_do (try_call (\<lambda>st. BeginPhase st \<lparr>po_authority = token_of handle topology 2 0,
       po_spec = plain_spec PC_Unknown 1 SyncUnknown (ascii ''fwd_comm'')\<rparr>)) (\<lambda>mystery.
     next_do (check_that ''open an UNKNOWN phase'' (succeeded mystery)) (\<lambda>_.
     (let unlabelled = intent\<lparr>ti_declared_phase_class := PC_Unknown, ti_min_bps := 100000000, ti_max_bps := 50 * kGbps\<rparr>;
          probe = (if succeeded mystery then unlabelled else intent)
      in next_do (when_gives mystery (\<lambda>phase.
           next_do (try_call (\<lambda>st. RequestTraffic st (unlabelled\<lparr>ti_authority := token_of handle topology 2 (pr_id phase)\<rparr>))) (\<lambda>conservative.
           next_do (check_that ''UNKNOWN phase traffic is BEST_EFFORT only''
             (gives conservative (\<lambda>d. td_service_class d = SC_BestEffort))) (\<lambda>_.
           next_do (check_that ''UNKNOWN phase traffic is capped by the conservative ceiling''
             (gives conservative (\<lambda>d. td_granted_max_bps d \<le> kGbps))) (\<lambda>_.
           complete_noted ''complete the unknown-phase flow'' conservative))))) (\<lambda>_.
         next_do (try_call (\<lambda>st. RequestTraffic st probe)) (\<lambda>stale.
         next_do (check_that ''traffic from a superseded step is fenced as stale''
           (gives stale (\<lambda>d. td_reason d = EC_StaleStep))) (\<lambda>_.
         next_do (try_call (\<lambda>st. EndStep st (token_of handle topology 2 0) StepCompleted)) (\<lambda>closed.
         check_that ''close step 2'' (succeeded closed)))))))))"

definition consumer :: "(fabric_state, unit) scenario" where
  "consumer = next_do consumer_setup (\<lambda>(handle, topology).
     next_do (consumer_first_step handle topology) (\<lambda>intent. consumer_second_step handle topology intent))"

text \<open>The exit code, and the checks it printed.\<close>

definition consumer_main :: "nat \<times> check_list" where
  "consumer_main = (case consumer ([], make_fabric default_config) of
     (Inl _, noted, _) \<Rightarrow> (1, noted)
   | (Inr _, noted, _) \<Rightarrow> (if failures noted = 0 then 0 else 1, noted))"

section \<open>What the consumer leaves\<close>

text \<open>A scenario over a fabric spends at most so many calls, so it leaves the end of a run.\<close>

definition scene_spends :: "nat \<Rightarrow> (fabric_state, 'a) scenario \<Rightarrow> bool" where
  "scene_spends n m \<longleftrightarrow> (\<forall>noted. spends n (\<lambda>st. case m (noted, st) of (r, noted', st') \<Rightarrow> (Inr (r, noted'), st')))"

lemma scene_spends_alt:
  "scene_spends n m \<longleftrightarrow> (\<forall>noted st. \<exists>xs. length xs \<le> n \<and> list_all well_typed xs \<and> snd (snd (m (noted, st))) = execute st xs)"
  by (simp add: scene_spends_def spends_def split_def)

lemma scene_next [spending]:
  assumes "scene_spends a m" and "\<And>x. scene_spends b (k x)"
  shows "scene_spends (a + b) (next_do m k)"
  unfolding scene_spends_alt
proof (intro allI)
  fix noted st
  obtain r n1 st1 where m: "m (noted, st) = (r, n1, st1)" by (metis prod_cases3)
  from assms(1) obtain xs where xs: "length xs \<le> a" "list_all well_typed xs" "snd (snd (m (noted, st))) = execute st xs"
    unfolding scene_spends_alt by blast
  show "\<exists>xs. length xs \<le> a + b \<and> list_all well_typed xs \<and> snd (snd (next_do m k (noted, st))) = execute st xs"
  proof (cases r)
    case (Inl e)
    with m xs show ?thesis by (auto simp: next_do_def intro!: exI [of _ xs])
  next
    case (Inr x)
    from assms(2) obtain ys where "length ys \<le> b" "list_all well_typed ys" "snd (snd (k x (n1, st1))) = execute st1 ys"
      unfolding scene_spends_alt by blast
    with m xs Inr show ?thesis
      by (auto simp: next_do_def execute_def list_all_iff intro!: exI [of _ "xs @ ys"])
  qed
qed

lemma scene_none [spending]:
  "scene_spends 0 (conclude x)" "scene_spends 0 (check_that name b)" "scene_spends 0 (demand_value name r)"
  by (simp_all add: scene_spends_alt conclude_def check_that_def demand_value_def expect_def next_do_def execute_def)

lemma scene_try [spending]: "spends n f \<Longrightarrow> scene_spends n (try_call f)"
  by (simp add: scene_spends_alt try_call_def spends_def split_def)

lemma scene_more: "scene_spends n m \<Longrightarrow> n \<le> k \<Longrightarrow> scene_spends k m"
  unfolding scene_spends_alt by (meson order.trans)

lemma scene_when: "(\<And>x. scene_spends n (k x)) \<Longrightarrow> scene_spends n (when_gives r k)"
  by (cases r) (auto simp: when_gives_def intro: scene_more [OF scene_none(1)])

lemma scene_complete: "scene_spends 1 (complete_noted name decision)"
proof -
  have completed: "scene_spends (1 + 0) (next_do (try_call (complete_decision d)) (\<lambda>r. check_that name (succeeded r)))" for d
    by (intro spending)
  show ?thesis
    unfolding complete_noted_def using completed scene_more [OF scene_none(1), of 1 "()"] by (intro scene_when) auto
qed

lemma scene_open: "scene_spends 1 (open_step handle topology step name)"
proof -
  have "scene_spends (1 + 0) (open_step handle topology step name)"
    unfolding open_step_def by (intro spending) (simp add: well_typed_def)
  then show ?thesis by simp
qed

lemma consumer_spends: "scene_spends 15 consumer"
proof -
  have prepared: "scene_spends 3 consumer_setup"
  proof -
    have "scene_spends (1 + (0 + (1 + (0 + (1 + (0 + 0)))))) consumer_setup"
      unfolding consumer_setup_def Let_def by (intro spending; simp add: well_typed_def)
    then show ?thesis by (rule scene_more) simp
  qed
  have first: "scene_spends 6 (consumer_first_step handle topology)" for handle topology
  proof -
    have "scene_spends (1 + (1 + (0 + (1 + (0 + (0 + (1 + (1 + (0 + (1 + (0 + 0))))))))))) (consumer_first_step handle topology)"
      unfolding consumer_first_step_def Let_def by (intro spending scene_open scene_complete; simp add: well_typed_def)
    then show ?thesis by (rule scene_more) simp
  qed
  have second: "scene_spends 6 (consumer_second_step handle topology intent)" for handle topology intent
  proof -
    have "scene_spends (1 + (1 + (0 + ((1 + (0 + (0 + 1))) + (1 + (0 + (1 + 0))))))) (consumer_second_step handle topology intent)"
      unfolding consumer_second_step_def Let_def
      by (intro spending scene_open scene_complete scene_when; simp add: well_typed_def)
    then show ?thesis by (rule scene_more) simp
  qed
  have "scene_spends (3 + (6 + 6)) consumer"
    unfolding consumer_def split_def by (intro spending prepared first second)
  then show ?thesis by (rule scene_more) simp
qed

lemma consumer_is_run: "\<exists>n \<le> 15. run False default_config n (snd (snd (consumer ([], make_fabric default_config))))"
proof -
  from consumer_spends obtain xs where "length xs \<le> 15" "list_all well_typed xs"
    "snd (snd (consumer ([], make_fabric default_config))) = execute (make_fabric default_config) xs"
    unfolding scene_spends_alt by blast
  with run_execute [of False default_config xs] show ?thesis by (auto simp: admissible_well_typed)
qed

text \<open>Exit code zero: no check failed.\<close>

lemma consumer_passes: "fst consumer_main = 0 \<Longrightarrow> list_all snd (snd consumer_main)"
  by (auto simp: consumer_main_def no_failures split: sum.splits prod.splits if_splits)

end
