(* ===== verification/Publisher.thy ===== *)
theory Publisher
  imports Checks Exchange
begin

text \<open>
  \<^verbatim>\<open>publisher_main.cpp\<close>: the trainer-side publisher, whose scenarios drive a coordinator through a
  client. What the exchanges of the connection answer is an argument, one for every call in order;
  the answer of a call that sends nothing is passed over.
\<close>

section \<open>A client with its connection\<close>

type_synonym exchanges = "nat \<Rightarrow> exchange_answers"
type_synonym connection = "client \<times> nat"
type_synonym 'a publishing = "(connection, 'a) scenario"

definition over :: "exchanges \<Rightarrow> (exchange_answers \<Rightarrow> 'a call) \<Rightarrow> connection \<Rightarrow> 'a result \<times> connection" where
  "over net f con = (case f (net (snd con)) (fst con) of (r, c) \<Rightarrow> (r, c, snd con + 1))"

definition tried :: "exchanges \<Rightarrow> (exchange_answers \<Rightarrow> 'a call) \<Rightarrow> 'a result publishing" where
  "tried net f = try_call (over net f)"

definition needed :: "exchanges \<Rightarrow> (exchange_answers \<Rightarrow> 'a call) \<Rightarrow> 'a publishing" where
  "needed net f = must_call (over net f)"

definition the_client :: "client publishing" where
  "the_client st = (Inr (fst (snd st)), st)"

section \<open>Setting up\<close>

record publisher_options =
  pb_boot_seed :: u64
  pb_scenario :: bytes
  pb_evidence :: evidence_label
  pb_job_id :: u64

record publisher_setup =
  pu_handle :: job_handle
  pu_topology :: topology_generation

text \<open>The groups of data, pipeline and tensor parallelism.\<close>

definition pub_data :: parallelism_group_id where "pub_data = 1"
definition pub_pipeline :: parallelism_group_id where "pub_pipeline = 2"
definition pub_tensor :: parallelism_group_id where "pub_tensor = 3"

definition publisher_link :: "evidence_label \<Rightarrow> bytes \<Rightarrow> parallelism_group_id \<Rightarrow> u64 \<Rightarrow> link_capacity" where
  "publisher_link label source grp capacity = \<lparr>lc_group = grp, lc_capacity_bps = capacity, lc_reserved_bps = capacity div 20,
     lc_label = label, lc_source = source\<rparr>"

definition synthetic_topology :: "training_job_id \<Rightarrow> evidence_label \<Rightarrow> bytes \<Rightarrow> topology_evidence" where
  "synthetic_topology job label source = \<lparr>te_generation = 0, te_job = job, te_label = label, te_links =
     [publisher_link label source pub_data 200000000000, publisher_link label source pub_pipeline 100000000000,
      publisher_link label source pub_tensor 400000000000]\<rparr>"

definition make_contract :: "bytes \<Rightarrow> bool \<Rightarrow> workload_contract" where
  "make_contract name allow_unknown_phase = default_contract\<lparr>wc_name := name, wc_max_parallelism_groups := 8,
     wc_max_phases_per_step := 16, wc_max_intents_per_step := 256, wc_max_active_flows_per_step := 64,
     wc_history_steps := 8, wc_allow_unknown_phase := allow_unknown_phase\<rparr>"

definition publisher_contract :: "publisher_options \<Rightarrow> workload_contract" where
  "publisher_contract options =
     (let contract = make_contract (ascii ''trainer-'' @ pb_scenario options) (pb_scenario options = ascii ''unknown-phase'')
      in if pb_job_id options \<noteq> 0 then contract\<lparr>wc_job := pb_job_id options\<rparr> else contract)"

text \<open>After the connection; the client is moved into the setup at the end.\<close>

definition prepare :: "exchanges \<Rightarrow> publisher_options \<Rightarrow> publisher_setup publishing" where
  "prepare net options =
     next_do (needed net (\<lambda>ex. client_RegisterJob ex (ascii ''trainer-'' @ pb_scenario options) (publisher_contract options))) (\<lambda>handle.
     next_do (needed net (\<lambda>ex. client_LookupHandle ex (jh_job handle))) (\<lambda>bound.
     (let register = (\<lambda>grp kind members name. needed net (\<lambda>ex. client_RegisterGroup ex \<lparr>pg_id = grp, pg_job = jh_job bound,
            pg_kind = kind, pg_member_count = members, pg_name = ascii name\<rparr>));
          source = ascii (evidence_label_name (pb_evidence options)) @ ascii '':single-host loopback model''
      in next_do (register pub_data PK_Data 4 ''dp'') (\<lambda>_.
         next_do (register pub_pipeline PK_Pipeline 2 ''pp'') (\<lambda>_.
         next_do (register pub_tensor PK_Tensor 8 ''tp'') (\<lambda>_.
         next_do (needed net (\<lambda>ex. client_PublishTopology ex (synthetic_topology (jh_job bound) (pb_evidence options) source))) (\<lambda>topology.
         next_do (must_call (\<lambda>(c, i). (Inr (), fst (assign_client new_client c), i))) (\<lambda>_.
         conclude \<lparr>pu_handle = bound, pu_topology = topology\<rparr>))))))))"

definition make_intent :: "phase_class \<Rightarrow> parallelism_group_id \<Rightarrow> u64 \<Rightarrow> u64 \<Rightarrow> u64 \<Rightarrow> string \<Rightarrow> traffic_intent" where
  "make_intent declared grp lo hi n purpose = plain_intent empty_token grp declared (ascii purpose) lo hi n 4"

definition open_phase :: "exchanges \<Rightarrow> phase_class \<Rightarrow> parallelism_group_id \<Rightarrow> sync_criticality \<Rightarrow> u64 \<Rightarrow> string \<Rightarrow> phase_id publishing" where
  "open_phase net cls grp criticality slack hint = needed net (\<lambda>ex. client_BeginPhase ex \<lparr>ps_cls = cls, ps_group = grp,
     ps_criticality = criticality, ps_deadline = \<lparr>sd_deadline_at = 0, sd_slack_ticks = slack\<rparr>, ps_hint = ascii hint\<rparr>)"

definition complete_checked :: "exchanges \<Rightarrow> step_position \<Rightarrow> traffic_decision \<Rightarrow> u64 \<Rightarrow> string \<Rightarrow> unit publishing" where
  "complete_checked net pos d n name = next_do (tried net (\<lambda>ex. client_CompleteFlow ex pos (td_intent d) n False)) (\<lambda>receipt.
     check_that name (succeeded receipt))"

definition end_phase_checked :: "exchanges \<Rightarrow> phase_id \<Rightarrow> string \<Rightarrow> unit publishing" where
  "end_phase_checked net phase name = next_do (tried net (\<lambda>ex. client_EndPhase ex phase PhaseCompleted)) (\<lambda>closed.
     check_that name (succeeded closed))"

definition close_balanced :: "exchanges \<Rightarrow> string \<Rightarrow> unit publishing" where
  "close_balanced net name = next_do (tried net (\<lambda>ex. client_EndStep ex StepCompleted)) (\<lambda>closed.
     check_that name (gives closed report_balanced))"

section \<open>The scenarios\<close>

text \<open>A request that has to be admitted under its class, and is completed.\<close>

definition fresh_flow :: "exchanges \<Rightarrow> step_position \<Rightarrow> traffic_intent \<Rightarrow> service_class \<Rightarrow> u64 \<Rightarrow> string \<times> string \<times> string \<Rightarrow> unit publishing" where
  "fresh_flow net pos intent cls n names = (case names of (admitted_name, class_name, completed_name) \<Rightarrow>
     next_do (tried net (\<lambda>ex. client_RequestTraffic ex pos intent)) (\<lambda>decision.
     next_do (check_that admitted_name (gives decision admitted)) (\<lambda>_.
     when_gives decision (\<lambda>d. if admitted d
       then next_do (check_that class_name (td_service_class d = cls)) (\<lambda>_. complete_checked net pos d n completed_name)
       else conclude ()))))"

definition fresh_step :: "exchanges \<Rightarrow> training_step_id \<Rightarrow> unit publishing" where
  "fresh_step net step =
     next_do (tried net (\<lambda>ex. client_BeginStep ex step 0 16)) (\<lambda>opened.
     next_do (demand_value ''begin_step'' opened) (\<lambda>_.
     next_do (open_phase net PC_ForwardComm pub_pipeline SyncSoft 0 ''FORWARD_COMM'') (\<lambda>forward.
     next_do (open_phase net PC_GradientSync pub_data SyncHard 8 ''GRADIENT_SYNC'') (\<lambda>gradient.
     (let at_forward = \<lparr>sp_step = step, sp_phase = forward\<rparr>; at_gradient = \<lparr>sp_step = step, sp_phase = gradient\<rparr>;
          pace = (\<lambda>arrived. tried net (\<lambda>ex. client_EvaluatePacing ex at_gradient pub_data 4 arrived 8 4 True))
      in next_do (fresh_flow net at_forward (make_intent PC_ForwardComm pub_pipeline 2000000000 8000000000 67108864 ''activations'')
           SC_ActivationTransfer 62914560 (''forward_admitted'', ''forward_class_is_activation_transfer'', ''forward_completed'')) (\<lambda>_.
         next_do (fresh_flow net at_gradient (make_intent PC_GradientSync pub_data 4000000000 16000000000 134217728 ''gradient reduce'')
           SC_GradientSync 125829120 (''gradient_admitted'', ''gradient_class_is_gradient_sync'', ''gradient_completed'')) (\<lambda>_.
         next_do (pace 3) (\<lambda>held.
         next_do (check_that ''pacing_holds_for_straggler'' (gives held (\<lambda>d. pn_outcome d = Defer \<and> pn_reason d = EC_PacingHeld))) (\<lambda>_.
         next_do (pace 4) (\<lambda>release.
         next_do (check_that ''pacing_releases'' (gives release (\<lambda>d. pn_outcome d = Admit))) (\<lambda>_.
         next_do (end_phase_checked net forward ''end_forward_phase'') (\<lambda>_.
         next_do (end_phase_checked net gradient ''end_gradient_phase'') (\<lambda>_.
         next_do (tried net (\<lambda>ex. client_EndStep ex StepCompleted)) (\<lambda>closed.
         next_do (demand_value ''end_step'' closed) (\<lambda>report.
         next_do (check_that ''step_accounting_balanced'' (report_balanced report)) (\<lambda>_.
         check_that ''two_flows_completed'' (sa_completed (rp_accounting report) = 2)))))))))))))))))"

definition scenario_fresh :: "exchanges \<Rightarrow> unit publishing" where
  "scenario_fresh net = next_do (fresh_step net 1) (\<lambda>_. next_do (fresh_step net 2) (\<lambda>_. fresh_step net 3))"

text \<open>Up to the line that announces the open step: after it the process waits until it is killed.\<close>

definition scenario_primary :: "exchanges \<Rightarrow> (phase_id \<times> traffic_decision) publishing" where
  "scenario_primary net =
     next_do (needed net (\<lambda>ex. client_BeginStep ex 1 0 16)) (\<lambda>_.
     next_do (open_phase net PC_GradientSync pub_data SyncHard 0 ''GRADIENT_SYNC'') (\<lambda>phase.
     next_do (tried net (\<lambda>ex. client_RequestTraffic ex \<lparr>sp_step = 1, sp_phase = phase\<rparr>
       (make_intent PC_GradientSync pub_data 4000000000 16000000000 134217728 ''gradient reduce''))) (\<lambda>decision.
     next_do (insist ''primary_admitted'' (gives decision admitted)) (\<lambda>_.
     next_do (must_call (Pair decision)) (\<lambda>d. conclude (phase, d))))))"

text \<open>A reply that is no success, or none at all.\<close>

definition refused_reply :: "frame result \<Rightarrow> bool" where
  "refused_reply answered = (case answered of Inl _ \<Rightarrow> True
     | Inr f \<Rightarrow> (case decode_message (MessageType (fh_type (fm_header f))) (fm_payload f) of
         Inl _ \<Rightarrow> True | Inr m \<Rightarrow> get_error m \<noteq> EC_Ok))"

definition begin_step_fields :: "bytes \<Rightarrow> message" where
  "begin_step_fields token = set_u64 kStep 1 (set_block kToken token blank_request)"

text \<open>A frame of the live session whose token names the retired incarnation.\<close>

definition stale_incarnation_token :: "client \<Rightarrow> training_job_id \<Rightarrow> training_generation \<Rightarrow> incarnation_id \<Rightarrow> authority_token" where
  "stale_incarnation_token c job generation retired = empty_token\<lparr>at_job := job, at_job_generation := generation,
     at_incarnation := retired, at_boot := BootId 0xDEADBEEF 0xC0FFEE, at_session := cs_session (cl_session c),
     at_epoch := cs_epoch (cl_session c), at_contract_generation := jh_contract_generation (cl_handle c),
     at_topology_generation := jh_topology_generation (cl_handle c),
     at_policy_generation := jh_policy_generation (cl_handle c), at_step := 1\<rparr>"

definition stale_incarnation_frame ::
  "exchanges \<Rightarrow> training_job_id \<Rightarrow> training_generation \<Rightarrow> incarnation_id \<Rightarrow> unit publishing" where
  "stale_incarnation_frame net job generation retired =
     next_do the_client (\<lambda>c.
     (let token = encode_token_block (stale_incarnation_token c job generation retired)
      in next_do (check_that ''stale_token_encoded'' (succeeded token)) (\<lambda>_.
         when_gives token (\<lambda>bs.
         (let payload = EncodeRequest OC_BeginStep (begin_step_fields bs)
          in next_do (check_that ''stale_request_encoded'' (succeeded payload)) (\<lambda>_.
             when_gives payload (\<lambda>request.
             next_do (tried net (\<lambda>ex. RawRequest ex (message_type_raw MT_Request) (cs_session (cl_session c))
               (cl_out_sequence c + 1000) (cl_out_sequence c + 7919) request)) (\<lambda>got.
             check_that ''stale_incarnation_frame_refused'' (refused_reply got)))))))))"

definition scenario_replacement :: "exchanges \<Rightarrow> args \<Rightarrow> unit publishing" where
  "scenario_replacement net tokens =
     (let job = arg_number tokens (ascii ''--job-id'') 0; generation = arg_number tokens (ascii ''--job-generation'') 1;
          retired = arg_number tokens (ascii ''--retired-incarnation'') 0; resume = arg_number tokens (ascii ''--resume-step'') 2
      in next_do (tried net (\<lambda>ex. client_AdmitReplacement ex job generation retired resume EC_Conflict)) (\<lambda>admitted_grant.
         next_do (demand_value ''replacement_admitted'' admitted_grant) (\<lambda>grant.
         next_do (check_that ''fresh_incarnation_differs_from_retired'' (rg_new_incarnation grant \<noteq> rg_retired_incarnation grant)) (\<lambda>_.
         next_do (check_that ''resume_floor_reported'' (rg_resume_step_floor grant \<ge> 1)) (\<lambda>_.
         next_do (check_that ''rejoin_requires_fresh_authority_explained''
           (explanation_contains (rg_explanation grant) EX_RejoinRequiresFreshAuthority)) (\<lambda>_.
         next_do (tried net (\<lambda>ex. client_BeginStep ex 1 0 16)) (\<lambda>reopened.
         next_do (check_that ''dead_step_cannot_be_reopened'' (reopened = Inl EC_StaleStep)) (\<lambda>_.
         next_do (stale_incarnation_frame net job generation retired) (\<lambda>_.
         next_do (tried net (\<lambda>ex. client_BeginStep ex resume 0 16)) (\<lambda>opened.
         next_do (demand_value ''replacement_begins_new_step'' opened) (\<lambda>_.
         next_do (open_phase net PC_Recovery pub_data SyncSoft 0 ''RECOVERY'') (\<lambda>phase.
         (let pos = \<lparr>sp_step = resume, sp_phase = phase\<rparr>
          in next_do (tried net (\<lambda>ex. client_RequestTraffic ex pos
               (make_intent PC_Recovery pub_data 1000000000 4000000000 16777216 ''state resync''))) (\<lambda>decision.
             next_do (check_that ''recovery_traffic_admitted'' (gives decision admitted)) (\<lambda>_.
             next_do (when_gives decision (\<lambda>d. if admitted d then complete_checked net pos d 16777216 ''recovery_flow_completed''
               else conclude ())) (\<lambda>_.
             close_balanced net ''recovery_step_balanced''))))))))))))))))"

text \<open>A frame that claims a session of an earlier epoch.\<close>

definition stale_session_token :: "client \<Rightarrow> session_id \<Rightarrow> authority_token" where
  "stale_session_token c old_session = empty_token\<lparr>at_session := old_session, at_job := jh_job (cl_handle c),
     at_job_generation := jh_generation (cl_handle c), at_incarnation := jh_incarnation (cl_handle c)\<rparr>"

definition scenario_stale_replay :: "exchanges \<Rightarrow> args \<Rightarrow> unit publishing" where
  "scenario_stale_replay net tokens =
     (let old_session = arg_number tokens (ascii ''--old-session'') 0
      in next_do the_client (\<lambda>c.
         next_do (must_call (Pair (encode_token_block (stale_session_token c old_session)))) (\<lambda>token.
         next_do (must_call (Pair (EncodeRequest OC_BeginStep (begin_step_fields token)))) (\<lambda>payload.
         next_do (needed net (\<lambda>ex. RawRequest ex (message_type_raw MT_Request) old_session 1 1 payload)) (\<lambda>got.
         check_that ''stale_session_frame_refused'' (refused_reply (Inr got)))))))"

definition scenario_unknown_phase :: "exchanges \<Rightarrow> unit publishing" where
  "scenario_unknown_phase net =
     next_do (needed net (\<lambda>ex. client_BeginStep ex 1 0 16)) (\<lambda>_.
     next_do (open_phase net PC_Unknown pub_data SyncUnknown 0 ''fwd_comm'') (\<lambda>phase.
     (let pos = \<lparr>sp_step = 1, sp_phase = phase\<rparr>
      in next_do (tried net (\<lambda>ex. client_RequestTraffic ex pos
           (make_intent PC_Unknown pub_data 100000000 4000000000 8388608 ''unlabelled framework traffic''))) (\<lambda>decision.
         next_do (check_that ''unknown_phase_decision'' (succeeded decision)) (\<lambda>_.
         next_do (when_gives decision (\<lambda>d.
           next_do (check_that ''unknown_phase_admitted_conservatively'' (admitted d)) (\<lambda>_.
           next_do (check_that ''unknown_phase_is_best_effort'' (td_service_class d = SC_BestEffort)) (\<lambda>_.
           next_do (check_that ''unknown_phase_ceiling_applied'' (td_granted_max_bps d \<le> 1000000000)) (\<lambda>_.
           next_do (check_that ''unknown_phase_explained''
             (explanation_contains (td_explanation d) EX_PhaseClassUnknownConservative)) (\<lambda>_.
           next_do (check_that ''unknown_phase_never_isolated'' (\<not> td_isolated d)) (\<lambda>_.
           if admitted d then complete_checked net pos d 8388608 ''unknown_phase_flow_completed'' else conclude ()))))))) (\<lambda>_.
         next_do (tried net (\<lambda>ex. client_RequestTraffic ex pos
           (make_intent PC_GradientSync pub_data 100000000 4000000000 8388608 ''promotion attempt''))) (\<lambda>promoted.
         next_do (check_that ''unknown_phase_cannot_be_promoted''
           (\<not> succeeded promoted \<or> gives promoted (\<lambda>d. td_outcome d = Reject \<and> td_reason d = EC_Conflict))) (\<lambda>_.
         close_balanced net ''unknown_phase_step_balanced''))))))))"

text \<open>A burst displaces the flow of the group, and holds off the next one, until it is closed.\<close>

definition checkpoint_traffic :: "exchanges \<Rightarrow> step_position \<Rightarrow> unit publishing" where
  "checkpoint_traffic net at_checkpoint =
     next_do (tried net (\<lambda>ex. client_RequestTraffic ex at_checkpoint
       (make_intent PC_Checkpoint pub_data 20000000000 60000000000 536870912 ''shard write''))) (\<lambda>decision.
     next_do (check_that ''checkpoint_flow_admitted'' (gives decision admitted)) (\<lambda>_.
     when_gives decision (\<lambda>d. if \<not> admitted d then conclude () else
       next_do (check_that ''checkpoint_class_preserved'' (td_service_class d = SC_Checkpoint)) (\<lambda>_.
       next_do (check_that ''checkpoint_never_gradient_class'' (td_service_class d \<noteq> SC_GradientSync)) (\<lambda>_.
       next_do (check_that ''checkpoint_marked_isolated'' (td_isolated d)) (\<lambda>_.
       next_do (check_that ''checkpoint_isolation_explained''
         (explanation_contains (td_explanation d) EX_CheckpointClassPreserved)) (\<lambda>_.
       complete_checked net at_checkpoint d 536870912 ''checkpoint_flow_completed'')))))))"

definition scenario_checkpoint :: "exchanges \<Rightarrow> unit publishing" where
  "scenario_checkpoint net =
     next_do (needed net (\<lambda>ex. client_BeginStep ex 1 0 32)) (\<lambda>_.
     next_do (open_phase net PC_GradientSync pub_data SyncHard 0 ''GRADIENT_SYNC'') (\<lambda>gradient.
     next_do (open_phase net PC_Checkpoint pub_data SyncSoft 0 ''CHECKPOINT'') (\<lambda>checkpoint.
     (let at_gradient = \<lparr>sp_step = 1, sp_phase = gradient\<rparr>; at_checkpoint = \<lparr>sp_step = 1, sp_phase = checkpoint\<rparr>
      in next_do (tried net (\<lambda>ex. client_RequestTraffic ex at_gradient
           (make_intent PC_GradientSync pub_data 40000000000 80000000000 268435456 ''gradient reduce''))) (\<lambda>flow.
         next_do (check_that ''gradient_flow_admitted'' (gives flow admitted)) (\<lambda>_.
         next_do (tried net (\<lambda>ex. client_BeginCheckpointBurst ex at_checkpoint pub_data 536870912 0 (ascii ''optimizer state''))) (\<lambda>burst.
         next_do (check_that ''checkpoint_burst_opened'' (succeeded burst)) (\<lambda>_.
         next_do (when_gives flow (\<lambda>d. if admitted d
           then next_do (tried net (\<lambda>ex. client_RevalidateFlow ex at_gradient (td_intent d))) (\<lambda>revalidated.
             check_that ''gradient_flow_displaced_by_isolation'' (gives revalidated (\<lambda>r. \<not> rv_still_valid r)))
           else conclude ())) (\<lambda>_.
         next_do (checkpoint_traffic net at_checkpoint) (\<lambda>_.
         next_do (tried net (\<lambda>ex. client_RequestTraffic ex at_gradient
           (make_intent PC_GradientSync pub_data 1000000000 2000000000 8388608 ''second gradient reduce''))) (\<lambda>blocked.
         next_do (check_that ''gradient_deferred_during_burst''
           (gives blocked (\<lambda>d. \<not> admitted d \<and> td_reason d = EC_IsolationActive))) (\<lambda>_.
         next_do (case burst of Inl _ \<Rightarrow> check_that ''checkpoint_burst_closed'' False
           | Inr ident \<Rightarrow> next_do (tried net (\<lambda>ex. client_EndCheckpointBurst ex at_checkpoint ident)) (\<lambda>closed.
               check_that ''checkpoint_burst_closed'' (succeeded closed))) (\<lambda>_.
         next_do (end_phase_checked net gradient ''end_gradient_phase'') (\<lambda>_.
         next_do (end_phase_checked net checkpoint ''end_checkpoint_phase'') (\<lambda>_.
         close_balanced net ''checkpoint_step_balanced'')))))))))))))))"

definition scenario_pacing :: "exchanges \<Rightarrow> unit publishing" where
  "scenario_pacing net =
     next_do (needed net (\<lambda>ex. client_BeginStep ex 1 200 0)) (\<lambda>_.
     next_do (open_phase net PC_GradientSync pub_data SyncHard 0 ''GRADIENT_SYNC'') (\<lambda>phase.
     (let pace = (\<lambda>arrived grace hold. tried net
            (\<lambda>ex. client_EvaluatePacing ex \<lparr>sp_step = 1, sp_phase = phase\<rparr> pub_data 8 arrived grace hold True))
      in next_do (pace 6 16 8) (\<lambda>held.
         next_do (check_that ''hold_reports_two_stragglers'' (gives held (\<lambda>d. pn_outcome d = Defer \<and> pn_stragglers d = 2))) (\<lambda>_.
         next_do (pace 8 16 8) (\<lambda>release.
         next_do (check_that ''release_when_complete'' (gives release (\<lambda>d. pn_outcome d = Admit))) (\<lambda>_.
         next_do (pace 5 0 0) (\<lambda>no_grace.
         next_do (check_that ''no_grace_releases'' (gives no_grace (\<lambda>d. pn_outcome d = Admit \<and>
           explanation_contains (pn_explanation d) EX_StragglerEvidenceMissing))) (\<lambda>_.
         next_do (end_phase_checked net phase ''end_barrier_phase'') (\<lambda>_.
         close_balanced net ''pacing_step_balanced''))))))))))"

section \<open>Main\<close>

definition publisher_options_of :: "args \<Rightarrow> publisher_options" where
  "publisher_options_of tokens = \<lparr>pb_boot_seed = arg_number tokens (ascii ''--boot-seed'') 0,
     pb_scenario = arg_text tokens (ascii ''--scenario'') (ascii ''fresh''),
     pb_evidence = parse_evidence_label (arg_text tokens (ascii ''--evidence'') (ascii ''SYNTHETIC'')),
     pb_job_id = arg_number tokens (ascii ''--job'') 0\<rparr>"

definition scenarios :: "exchanges \<Rightarrow> args \<Rightarrow> (bytes \<times> unit publishing) list" where
  "scenarios net tokens = [(ascii ''fresh'', scenario_fresh net), (ascii ''replacement'', scenario_replacement net tokens),
     (ascii ''stale-replay'', scenario_stale_replay net tokens), (ascii ''unknown-phase'', scenario_unknown_phase net),
     (ascii ''checkpoint'', scenario_checkpoint net), (ascii ''pacing'', scenario_pacing net)]"

text \<open>\<^verbatim>\<open>finish\<close>, with the check that notes an outcome that is an error.\<close>

definition finish :: "check_list \<Rightarrow> nat" where
  "finish noted = (if failures noted = 0 then 0 else 1)"

definition verdict :: "unit result \<times> check_list \<times> 's \<Rightarrow> nat \<times> check_list" where
  "verdict out = (case out of (r, noted, _) \<Rightarrow>
     (let all = (if r = Inr () then noted else noted @ [(''scenario_completed'', False)]) in (finish all, all)))"

text \<open>
  The exit code and the checks; \<^term>\<open>None\<close> is the primary scenario, which holds its step open and
  never ends. The connection uses the first exchange.
\<close>

definition publisher_main :: "args \<Rightarrow> status \<Rightarrow> u64 \<Rightarrow> exchanges \<Rightarrow> (nat \<times> check_list) option" where
  "publisher_main tokens link_up derived net =
     (let options = publisher_options_of tokens;
          seed = (if pb_boot_seed options \<noteq> 0 then pb_boot_seed options else derived);
          later = (\<lambda>i. net (i + 1))
      in if arg_has tokens (ascii ''--help'') \<or> arg_has tokens (ascii ''-h'') then Some (0, [])
         else if (ucast (arg_number tokens (ascii ''--port'') 0) :: u16) = 0 then Some (2, [])
         else case Connect link_up (net 0) seed (ascii ''ttf-publisher/'' @ pb_scenario options) of
           Inl _ \<Rightarrow> Some (finish [(''setup'', False)], [(''setup'', False)])
         | Inr c \<Rightarrow>
             (case prepare later options ([], c, 0) of
                (Inl _, _) \<Rightarrow> Some (finish [(''setup'', False)], [(''setup'', False)])
              | (Inr _, noted, con) \<Rightarrow>
                  if pb_scenario options = ascii ''primary''
                  then (case scenario_primary later (noted, con) of
                      (Inr _, _) \<Rightarrow> None | (Inl e, st) \<Rightarrow> Some (verdict (Inl e, st)))
                  else (case map_of (scenarios later tokens) (pb_scenario options) of
                      None \<Rightarrow> Some (2, noted)
                    | Some scenario \<Rightarrow> Some (verdict (scenario (noted, con))))))"

section \<open>What a passing run means\<close>

text \<open>Every scenario only adds checks, so one that is noted as failed decides the exit code.\<close>

lemma keeps_calls [noting]: "keeps_checks (tried net f)" "keeps_checks (needed net f)" "keeps_checks the_client"
  by (simp_all add: tried_def needed_def noting) (simp add: keeps_checks_def the_client_def)

lemma keeps_if [noting]: "keeps_checks m \<Longrightarrow> keeps_checks n \<Longrightarrow> keeps_checks (if b then m else n)"
  by simp

lemma keeps_helpers [noting]:
  "keeps_checks (open_phase net cls grp c slack hint)" "keeps_checks (complete_checked net pos d n name)"
  "keeps_checks (end_phase_checked net phase name)" "keeps_checks (close_balanced net name)"
  unfolding open_phase_def complete_checked_def end_phase_checked_def close_balanced_def by (intro noting)+

lemma keeps_fresh [noting]: "keeps_checks (fresh_step net step)"
proof -
  have flow: "keeps_checks (fresh_flow net pos intent cls n names)" for pos intent cls n names
    unfolding fresh_flow_def by (cases names) (simp, intro noting)
  show ?thesis unfolding fresh_step_def Let_def by (intro noting flow)
qed

lemma keeps_burst_close [noting]:
  "(\<And>x. keeps_checks (k x)) \<Longrightarrow> keeps_checks m \<Longrightarrow> keeps_checks (case r of Inl e \<Rightarrow> m | Inr x \<Rightarrow> k x)"
  by (cases r) simp_all

lemma scenarios_keep_checks:
  "keeps_checks (scenario_fresh net)" "keeps_checks (scenario_primary net)" "keeps_checks (scenario_replacement net tokens)"
  "keeps_checks (scenario_stale_replay net tokens)" "keeps_checks (scenario_unknown_phase net)"
  "keeps_checks (scenario_checkpoint net)" "keeps_checks (scenario_pacing net)"
  unfolding scenario_fresh_def scenario_primary_def scenario_replacement_def stale_incarnation_frame_def scenario_stale_replay_def
    scenario_unknown_phase_def checkpoint_traffic_def scenario_checkpoint_def scenario_pacing_def Let_def
  by (intro noting)+

text \<open>Exit code zero: no check failed, and the scenario came to its end.\<close>

lemma verdict_zero: "fst (verdict (r, noted, s)) = 0 \<longleftrightarrow> r = Inr () \<and> list_all snd noted"
  by (simp add: verdict_def finish_def Let_def no_failures)

lemma failure_decides:
  assumes "keeps_checks m" and "failures (fst st) \<noteq> 0"
  shows "fst (verdict (m st)) = 1"
proof -
  obtain r noted s where m: "m st = (r, noted, s)" by (metis prod_cases3)
  with assms(1) obtain later where "noted = fst st @ later" unfolding keeps_checks_def by (metis fst_conv prod.collapse snd_conv)
  with assms(2) have "failures noted \<noteq> 0" by (simp add: failures_append)
  then show ?thesis by (simp add: m verdict_def finish_def Let_def failures_append)
qed

lemma publisher_passes:
  assumes "publisher_main tokens link_up derived net = Some (0, noted)"
    and "\<not> arg_has tokens (ascii ''--help'')" and "\<not> arg_has tokens (ascii ''-h'')"
  shows "list_all snd noted \<and> (\<exists>scenario st. (pb_scenario (publisher_options_of tokens), scenario) \<in> set (scenarios (\<lambda>i. net (i + 1)) tokens) \<and>
    fst (scenario st) = Inr () \<and> fst (snd (scenario st)) = noted)"
proof -
  let ?options = "publisher_options_of tokens"
  have port: "(ucast (arg_number tokens (ascii ''--port'') 0) :: u16) \<noteq> 0"
    using assms by (auto simp: publisher_main_def Let_def)
  then obtain scenario st where run: "map_of (scenarios (\<lambda>i. net (i + 1)) tokens) (pb_scenario ?options) = Some scenario"
    "verdict (scenario st) = (0, noted)"
    using assms by (auto simp: publisher_main_def Let_def finish_def failures_def verdict_def
        split: sum.splits prod.splits if_splits option.splits)
  obtain r noted' s where out: "scenario st = (r, noted', s)" by (metis prod_cases3)
  with run(2) verdict_zero [of r noted' s] have ok: "r = Inr ()" "list_all snd noted'" by simp_all
  with run(2) out have "noted' = noted" by (simp add: verdict_def Let_def)
  with map_of_SomeD [OF run(1)] out ok show ?thesis by (intro conjI exI [of _ scenario] exI [of _ st]) simp_all
qed

section \<open>Why the stale frames are refused\<close>

text \<open>
  The frame of the scenario \<open>stale-replay\<close> has sequence 1. The session has seen higher ones, so it
  is refused as a replay before anything in it is looked at, whatever session it claims.
\<close>

lemma stale_replay_is_replay:
  assumes "length payload \<le> kMaxPayloadBytes" and "arrives (frame_image 10 0 claimed 1 1 payload) tn" and "\<not> co_stopping co"
    and "rw_seen_any (sn_window s)" and "1 \<le> rw_last_sequence (sn_window s)"
  shows "\<exists>e k w. session_turn tn (co, s) = refuse_session (tn_sent tn) e (co\<lparr>co_stats := k\<rparr>, s\<lparr>sn_window := w\<rparr>) \<and>
    e \<in> {EC_ReplayDetected, EC_SequenceViolation}"
proof -
  from read_frame_image [OF assms(1,3,2)] obtain k where
    r: "read_frame (tn_header tn) (tn_tail tn) co = (FrameOk (frame_of 10 0 claimed 1 1 payload), co\<lparr>co_stats := k\<rparr>)" by blast
  obtain e w where "accept (sn_window s) 1 1 = (Inl e, w)" "e \<in> {EC_ReplayDetected, EC_SequenceViolation}"
    using assms(4,5) by (auto simp: accept_def Let_def)
  with r show ?thesis
    by (auto simp: session_turn_def serve_frame_def frame_of_def on_stats_def)
qed

text \<open>
  The frame of the scenario \<open>replacement\<close> comes with a fresh sequence; its token is what does not fit.
\<close>

lemma stale_incarnation_mismatch:
  assumes "encode_token_block (stale_incarnation_token c job generation retired) = Inr b" and "sn_bound s"
    and "sn_incarnation s \<noteq> retired" and "get_block request kToken = Inr b"
  shows "token_from request co s = Inl EC_AuthorityMismatch"
proof -
  let ?t = "stale_incarnation_token c job generation retired"
  have "decode_token_block b = Inr ?t"
    using tokens.block_roundtrip [of 160 ?t b no_check] assms(1)
    by (simp add: encode_token_block_def decode_token_block_def no_check_def)
  moreover have "at_incarnation ?t = retired" by (simp add: stale_incarnation_token_def)
  ultimately show ?thesis
    using assms(2-4) by (simp add: token_from_def ensure_bound_def check_def require_block_def rebind_from_def
        session_envelope_def rebind_any_def)
qed

lemma stale_incarnation_refused:
  assumes "encode_token_block (stale_incarnation_token c job generation retired) = Inr b" and "sn_bound s"
    and "sn_incarnation s \<noteq> retired" and "EncodeRequest OC_BeginStep (begin_step_fields b) = Inr payload"
  shows "dispatch_request io (ordered (encode_request OC_BeginStep (begin_step_fields b))) (co, s) =
    (error_response OC_BeginStep EC_AuthorityMismatch, reject_frame co, s)"
proof -
  let ?m = "encode_request OC_BeginStep (begin_step_fields b)"
  have d: "distinct (map fd_tag (ms_fields ?m))"
    using assms(4) encoded_distinct [of ?m] by (simp add: EncodeRequest_def)
  have "get_block ?m kToken = Inr b"
    by (simp add: begin_step_fields_def blank_request_def message_fields request_tags)
  from stale_incarnation_mismatch [OF assms(1-3) this]
  have "serve io OC_BeginStep ?m (co, s) = (Inl EC_AuthorityMismatch, co, s)"
    by (simp add: serve_def serve_begin_step_def then_do_def look_def)
  then show ?thesis
    using call_code_known [of "Call_BeginStep 0 0 0"]
    by (simp add: dispatch_ordered [OF d] dispatch_request_def operation_found [OF d] Let_def is_authority_code_def)
qed

end
