(* ===== verification/Spec2Isabelle.thy ===== *)
theory Spec2Isabelle
  imports Arbitration Authority Isolation Durable Answers EndToEnd Delivery Exchange Commands Publisher
begin

text \<open>
  Training Traffic Fabric: a model of the fabric that admits, bounds and fences the traffic of
  training jobs, of the files and snapshots it is restarted from, and of the coordinator that
  serves it over framed sessions. The sources are under
  \<^verbatim>\<open>src/\<close> and \<^verbatim>\<open>include/ttf/\<close> of the repository.

  The program. A coordinator holds one \<^verbatim>\<open>Fabric\<close>. Jobs register with a contract and publish
  evidence of their links; a job opens one step at a time and phases in it; traffic is asked for
  with an authority token that names job, incarnation, boot, epoch, generations, step and phase.
  A request is screened against contract, policy and evidence, arbitrated on its link (flows that
  are less urgent may be displaced) and admitted as a flow with a guaranteed rate. Flows complete,
  are cancelled, throttled or displaced; a step is closed with a balanced report. A failed
  process is replaced by a new incarnation, which fences the old one. The durable part of the
  state is written as a snapshot into a checksummed file that is replaced atomically. The
  coordinator puts sessions in front of the fabric: a client says which boot it is, every frame
  passes two checksums, a replay window and a budget, every token is bound to the session, and a
  mutation is committed to the file before it is answered.

  Conventions. Ids, times, rates and counters are words of their width, so every sum of the code
  wraps as it does there; \<open>unat\<close> reads them. A hash map is an association list with distinct
  keys whose order stands for the iteration order of the container. An error is its code (its
  detail text is not modelled), a fallible call is a sum, \<^verbatim>\<open>TTF_TRY\<close> is a bind. A handler
  takes the state and returns its answer and the new state; the mutex of the fabric makes a call
  one step. Recursions over tables and lists are structural, so no fuel is used anywhere; the
  binary search of the topology and the UTF-8 scan terminate by a measure.

  The theories of the model, from the bottom up:
  \<^item> \<open>Prelude\<close>: word types, tables, sorting, tallies; the named collections of simplification rules.
  \<^item> \<open>Errors\<close>, \<open>Util\<close>, \<open>Identity\<close>, \<open>Explain\<close>: \<^verbatim>\<open>error.hpp\<close>, \<^verbatim>\<open>result.hpp\<close>, \<^verbatim>\<open>util.cpp\<close> (CRC-32C with
    the proof that it tells any two texts apart that differ in one byte, UTF-8, checked sums),
    \<^verbatim>\<open>identity.hpp\<close>, \<^verbatim>\<open>explain.hpp\<close>.
  \<^item> \<open>Model\<close>, \<open>Policy\<close>, \<open>Records\<close>, \<open>State\<close>: \<^verbatim>\<open>model.cpp\<close> and the public headers, \<^verbatim>\<open>state.hpp\<close>.
  \<^item> \<open>Core\<close>, \<open>Lifecycle\<close>: \<^verbatim>\<open>fabric_core.cpp\<close> (authority resolution, fences, decisions, arbitration,
    closing flows and steps; registration, topology, policies, steps, phases).
  \<^item> \<open>Traffic\<close>: \<^verbatim>\<open>fabric_traffic.cpp\<close>; \<open>Recovery\<close>: \<^verbatim>\<open>fabric_recovery.cpp\<close>; \<open>Api\<close>: \<^verbatim>\<open>fabric_api.cpp\<close>.
  \<^item> \<open>Codec\<close>: \<^verbatim>\<open>codec.cpp\<close>, the bounded writer and the reader, with the locale \<open>codec\<close>: what is
    written for a value is read back whatever follows it. Every record below is an interpretation.
  \<^item> \<open>Wire\<close>: \<^verbatim>\<open>wire.cpp\<close> up to its block codecs: frames, messages, the replay window.
    \<open>Blocks\<close>: the block codecs.
  \<^item> \<open>Store\<close>: \<^verbatim>\<open>persistence.cpp\<close>. \<open>Snapshot\<close>: \<^verbatim>\<open>fabric_state.cpp\<close>.
  \<^item> \<open>Coordinator\<close>: \<^verbatim>\<open>coordinator.cpp\<close>: a handler for every operation, the commit, one turn of a
    session, accepting, starting, stopping, and \<open>co_step\<close>, the steps of its threads. What the
    sockets, the files and the clock answer are arguments of a turn.
  \<^item> \<open>Client\<close>: \<^verbatim>\<open>client.cpp\<close>: the request every method builds, its frame, the reply that is taken and
    what the client adopts from it. What one exchange over the socket answers is an argument.
  \<^item> \<open>Net\<close>: \<^verbatim>\<open>net.cpp\<close>: sockets and the count of open handles, the loops that send and receive over
    what the system calls answer, the wake-up pair.
  \<^item> \<open>Tools\<close>: \<^verbatim>\<open>args.hpp\<close>, the options of \<^verbatim>\<open>coordinator_main.cpp\<close>, the simulation and the self test of
    \<^verbatim>\<open>ctl_main.cpp\<close>, and \<^verbatim>\<open>fabric_demo.cpp\<close>, as programs over the calls of the fabric. \<open>Inspect\<close>: the
    command that reads a state file offline. \<open>Commands\<close>: the commands of \<^verbatim>\<open>ttfctl\<close> that ask a coordinator,
    the lines they print, and the \<^verbatim>\<open>main\<close> of \<^verbatim>\<open>ttfctl\<close> and of the coordinator.
  \<^item> \<open>Checks\<close>: scenarios that note what they expect, and \<^verbatim>\<open>consumer_main.cpp\<close>. \<open>Publisher\<close>: the scenarios of
    \<^verbatim>\<open>publisher_main.cpp\<close> over the calls of a client.

  The theories of the proofs:
  \<^item> \<open>Ledger\<close>, \<open>Machine\<close>: the abstract specification. A job is a machine with a few kinds of move
    (closing, admitting, throttling a flow, sealing a step, publishing, replacing); its invariants
    (exact counters, balanced reports, ordered history, links within capacity) are proved per move.
  \<^item> \<open>Simulation\<close>, \<open>Frame\<close>, \<open>Runs\<close>: every public call is a sequence of moves, so the invariants hold
    in every run. A run is a sequence of calls from the constructor; \<open>n < 2 ^ 63\<close> calls is the
    bound under which the id counters cannot wrap.
  \<^item> \<open>Gate\<close>: the locale \<open>gated\<close> of the calls that need authority, interpreted on every handler.
  \<^item> \<open>Arbitration\<close>, \<open>Authority\<close>, \<open>Settlement\<close>, \<open>Admission\<close>, \<open>Isolation\<close>: the properties of arbitration,
    of fencing, of accounting, of admission and of bursts and pacing. \<open>Scenario\<close> holds the concrete
    run their witnesses evaluate.
  \<^item> \<open>Store\<close>: a state file is read back, a damaged or torn one is refused, a commit is all or
    nothing and a restart finds what was committed.
  \<^item> \<open>Wire\<close>: bytes sealed with a checksum, so that a damaged frame is refused; one encoding for a
    frame and for a message; no frame is accepted twice.
  \<^item> \<open>Blocks\<close>: every block is a codec; the bytes it takes are counted, so that what fits its writer
    is carried unchanged and what does not is refused.
  \<^item> \<open>Restore\<close>, \<open>Sizes\<close>, \<open>Restart\<close>: a snapshot is read back as the durable part of the state;
    whatever is read holds no grant; the restored state satisfies the invariant of runs, so the
    guarantees hold across a restart.

  \<^item> \<open>Serving\<close>: rules that take a handler apart (what it keeps, which call it makes), and the two
    shapes of a turn. \<open>Sessions\<close>: a session acts only as itself, a run of the coordinator refines a
    run of the fabric, the table of sessions stays bounded, the loop of a session ends within its
    budget. \<open>Durable\<close>: an answered mutation is on the disk and survives a restart; a degraded
    coordinator answers none. \<open>Answers\<close>: every answer is a response that can be encoded.
  \<^item> \<open>EndToEnd\<close>: the request a client builds reaches the fabric as the call that was meant, through
    encoding, frame, replay window, dispatch and decoding; the frames of a client are never taken
    for replays. \<open>Delivery\<close>: a frame is read by the other side as it was built, however the system
    cuts it into pieces on either side; draining a socket before it is closed is bounded.
  \<^item> \<open>Exchange\<close>: the response is the reply the client takes: what the fabric decides is what the call of
    the client returns, errors included, and both sides stay in step.
  \<^item> \<open>Inspect\<close>: the offline inspection of a state file shows the jobs that were stored. \<open>Tools\<close>: the self
    test passes, and the simulation is a run of the fabric. \<open>Checks\<close>, \<open>Publisher\<close>: exit code zero means that
    every check held and the scenario ended; why the coordinator refuses the stale frames.

  The contract of the accounting theorems (\<open>contract_fits\<close>) asks that the limits of a contract fit
  the counters; the default contract does. The bound on links is for disciplined runs: traffic is
  requested for registered groups and policies invalidate strictly; without these the code does
  exceed a link.

  Not modelled. Of \<^verbatim>\<open>net.cpp\<close> the name resolution, the socket options and the text that describes a peer;
  what the system calls answer is an argument. Of the programs the usage texts, the lines that the
  simulation, the inspection, the demonstration and the scenarios print (their values are results),
  and the test suites. The texts of errors and the mutex are abstracted as
  said above; a turn of a session is one step, so that what two turns do between their locks is
  only covered where it is stated (\<open>concurrent_commits_conflict\<close>). The file system is what the store sees of it: a crash of the process between any
  two system calls is modelled, the loss of unflushed pages at a loss of power is not.
\<close>

end
